(* ===== verification/Prelude.thy ===== *)
theory Prelude
  imports Main "HOL-Library.Word" "HOL-Library.Char_ord" "HOL-Library.State_Monad"
    "HOL-Library.Sublist"
begin

text \<open>
  Shared vocabulary of the development: the machine integer types, the operations of
  \<^verbatim>\<open>std::string\<close> and \<^verbatim>\<open><charconv>\<close> that the service uses (with \<^verbatim>\<open>npos\<close> as
  \<^term>\<open>None\<close>), hexadecimal and decimal text, and the rules that move facts through
  sequences of state changes.  A \<^verbatim>\<open>std::string\<close> is a \<^typ>\<open>string\<close>: a list of bytes.
\<close>

unbundle bit_operations_syntax

type_synonym u8 = "8 word"
type_synonym u16 = "16 word"
type_synonym u32 = "32 word"
type_synonym u64 = "64 word"

named_theorems str_simps \<open>equations for string scanning\<close>
named_theorems hoare \<open>rules for state transformers\<close>

section \<open>Characters\<close>

definition is_digit :: "char \<Rightarrow> bool" where
  "is_digit c \<longleftrightarrow> CHR ''0'' \<le> c \<and> c \<le> CHR ''9''"

definition is_lower_hex :: "char \<Rightarrow> bool" where
  "is_lower_hex c \<longleftrightarrow> (CHR ''0'' \<le> c \<and> c \<le> CHR ''9'') \<or> (CHR ''a'' \<le> c \<and> c \<le> CHR ''f'')"

abbreviation (input) nul :: char where
  "nul \<equiv> CHR 0x00"

abbreviation (input) newline :: char where
  "newline \<equiv> CHR 0x0A"

abbreviation hex_digits :: string where
  "hex_digits \<equiv> ''0123456789abcdef''"

abbreviation dec_digits :: string where
  "dec_digits \<equiv> ''0123456789''"

text \<open>The byte of a character and the character of a byte.\<close>

definition byte_of :: "char \<Rightarrow> u8" where
  "byte_of c = of_nat (of_char c)"

definition char_of_byte :: "u8 \<Rightarrow> char" where
  "char_of_byte b = char_of (unat b)"

lemma char_of_byte_of [simp]: "char_of_byte (byte_of c) = c"
proof -
  have "unat (of_nat (of_char c) :: u8) = (of_char c :: nat)"
    by (simp add: unat_of_nat)
  then show ?thesis by (simp add: byte_of_def char_of_byte_def)
qed

lemma byte_of_char_of [simp]: "byte_of (char_of_byte b) = b"
proof -
  have "unat b < 256" using unsigned_less [of b] by simp
  then show ?thesis by (simp add: byte_of_def char_of_byte_def)
qed

lemma map_char_of_byte_of [simp]: "map (char_of_byte \<circ> byte_of) s = s"
  by (simp add: map_idI)

lemma map_byte_of_char_of [simp]: "map (byte_of \<circ> char_of_byte) bs = bs"
  by (simp add: map_idI)

text \<open>A comparison chain on characters is membership in an explicit list.\<close>

lemma char_interval:
  "lo \<le> c \<and> c \<le> hi \<longleftrightarrow> c \<in> set (map char_of [of_char lo..<Suc (of_char hi)])" for c :: char
proof
  assume "lo \<le> c \<and> c \<le> hi"
  then have "of_char c \<in> set [of_char lo..<Suc (of_char hi :: nat)]"
    by (auto simp: less_eq_char_def)
  then have "char_of (of_char c :: nat) \<in> char_of ` set [of_char lo..<Suc (of_char hi :: nat)]"
    by blast
  then show "c \<in> set (map char_of [of_char lo..<Suc (of_char hi)])" by simp
next
  assume "c \<in> set (map char_of [of_char lo..<Suc (of_char hi)])"
  then obtain n where n: "of_char lo \<le> (n::nat)" "n \<le> of_char hi" "c = char_of n" by auto
  have "(of_char c :: nat) = n"
    using n by (metis le_less_trans mod_less nat_of_char_less_256 of_char_of)
  then show "lo \<le> c \<and> c \<le> hi" using n by (simp add: less_eq_char_def)
qed

lemma digit_chars: "map char_of [of_char CHR ''0''..<Suc (of_char CHR ''9'')] = ''0123456789''"
  by code_simp

lemma hex_letter_chars: "map char_of [of_char CHR ''a''..<Suc (of_char CHR ''f'')] = ''abcdef''"
  by code_simp

lemma is_digit_set: "is_digit c \<longleftrightarrow> c \<in> set dec_digits"
  unfolding is_digit_def char_interval digit_chars ..

lemma is_lower_hex_set: "is_lower_hex c \<longleftrightarrow> c \<in> set hex_digits"
  unfolding is_lower_hex_def char_interval digit_chars hex_letter_chars by auto

section \<open>Scanning strings\<close>

text \<open>\<^verbatim>\<open>s.substr(pos, n)\<close>; every use in the service has \<^verbatim>\<open>pos <= s.size()\<close>.\<close>

definition substr :: "string \<Rightarrow> nat \<Rightarrow> nat \<Rightarrow> string" where
  "substr s pos n = take n (drop pos s)"

text \<open>\<^verbatim>\<open>s.rfind(p, 0) == 0\<close> and \<^verbatim>\<open>s.compare(0, n, p) == 0\<close>.\<close>

definition starts_with :: "string \<Rightarrow> string \<Rightarrow> bool" where
  "starts_with p s \<longleftrightarrow> take (length p) s = p"

fun index_of :: "char \<Rightarrow> string \<Rightarrow> nat option" where
  "index_of c [] = None"
| "index_of c (x # xs) = (if x = c then Some 0 else map_option Suc (index_of c xs))"

text \<open>\<^verbatim>\<open>s.find(c, pos)\<close>\<close>

definition find_char :: "string \<Rightarrow> char \<Rightarrow> nat \<Rightarrow> nat option" where
  "find_char s c pos = map_option ((+) pos) (index_of c (drop pos s))"

fun index_of_str :: "string \<Rightarrow> string \<Rightarrow> nat option" where
  "index_of_str p [] = (if p = [] then Some 0 else None)"
| "index_of_str p (x # xs) =
     (if starts_with p (x # xs) then Some 0 else map_option Suc (index_of_str p xs))"

text \<open>\<^verbatim>\<open>s.find(p, pos)\<close> for \<^verbatim>\<open>pos <= s.size()\<close>\<close>

definition find_str :: "string \<Rightarrow> string \<Rightarrow> nat \<Rightarrow> nat option" where
  "find_str s p pos = map_option ((+) pos) (index_of_str p (drop pos s))"

text \<open>\<^verbatim>\<open>s.find_first_not_of(cs, pos) == npos\<close>\<close>

definition only_of :: "string \<Rightarrow> nat \<Rightarrow> string \<Rightarrow> bool" where
  "only_of cs pos s \<longleftrightarrow> list_all (\<lambda>c. c \<in> set cs) (drop pos s)"

lemma index_of_None_iff [simp]: "index_of c s = None \<longleftrightarrow> c \<notin> set s"
  by (induction s) auto

lemma index_of_append [str_simps]:
  "c \<notin> set a \<Longrightarrow> index_of c (a @ c # r) = Some (length a)"
  by (induction a) auto

lemma index_of_SomeD:
  "index_of c s = Some i \<Longrightarrow> i < length s \<and> s ! i = c \<and> c \<notin> set (take i s)"
proof (induction s arbitrary: i)
  case (Cons x xs)
  then show ?case by (cases i) (auto split: if_splits)
qed simp

lemma index_of_split:
  assumes "index_of c s = Some i"
  shows "s = take i s @ c # drop (Suc i) s" and "c \<notin> set (take i s)"
  using index_of_SomeD [OF assms] id_take_nth_drop [of i s] by auto

lemma find_char_here [str_simps]:
  "c \<notin> set a \<Longrightarrow> pos = length p \<Longrightarrow>
   find_char (p @ a @ c # r) c pos = Some (length p + length a)"
  by (simp add: find_char_def index_of_append)

lemma find_char_none [str_simps]:
  "c \<notin> set a \<Longrightarrow> pos = length p \<Longrightarrow> find_char (p @ a) c pos = None"
  by (simp add: find_char_def)

lemma starts_with_append [simp]: "starts_with p (p @ s)"
  by (simp add: starts_with_def)

lemma starts_with_iff: "starts_with p s \<longleftrightarrow> (\<exists>r. s = p @ r)"
  by (metis append_eq_conv_conj append_take_drop_id starts_with_def)

lemma starts_with_prefix: "starts_with p s \<longleftrightarrow> prefix p s"
  by (simp add: starts_with_iff prefix_def)

lemma index_of_str_SomeD:
  assumes "index_of_str p s = Some i"
  shows "i \<le> length s \<and> starts_with p (drop i s)"
  using assms
proof (induction s arbitrary: i)
  case Nil
  then show ?case by (simp add: starts_with_def split: if_splits)
next
  case (Cons x xs)
  then show ?case by (cases i) (auto split: if_splits)
qed

section \<open>Separated fields\<close>

text \<open>Fields joined by a separator character, as the text bodies of the protocol are built.\<close>

fun join :: "char \<Rightarrow> string list \<Rightarrow> string" where
  "join c [] = []"
| "join c [x] = x"
| "join c (x # y # r) = x @ c # join c (y # r)"

lemma join_Cons: "r \<noteq> [] \<Longrightarrow> join c (x # r) = x @ c # join c r"
  by (cases r) simp_all

lemma separator_split:
  fixes c :: char
  assumes "x @ c # r = y @ c # t" and "c \<notin> set x" and "c \<notin> set y"
  shows "x = y \<and> r = t"
proof -
  have "index_of c (x @ c # r) = Some (length x)" "index_of c (y @ c # t) = Some (length y)"
    using assms(2,3) by (simp_all add: index_of_append)
  with assms(1) have "length x = length y" by simp
  with assms(1) show ?thesis by simp
qed

lemma count_join: "length xs - 1 \<le> count_list (join c xs) c"
  by (induction c xs rule: join.induct) (simp_all add: count_list_append)

lemma count_join_free:
  "\<forall>x \<in> set xs. c \<notin> set x \<Longrightarrow> count_list (join c xs) c = length xs - 1"
  by (induction c xs rule: join.induct) (simp_all add: count_list_append count_list_0_iff)

lemma join_inject:
  assumes "length xs = length ys" and "\<forall>y \<in> set ys. c \<notin> set y" and "join c xs = join c ys"
  shows "xs = ys"
  using assms
proof (induction xs ys rule: list_induct2)
  case (Cons x xs y ys)
  show ?case
  proof (cases "xs = []")
    case True
    with Cons show ?thesis by simp
  next
    case False
    with Cons.hyps have ys: "ys \<noteq> []" by auto
    with False Cons.prems(2) have eq: "x @ c # join c xs = y @ c # join c ys"
      by (simp add: join_Cons)
    have "c \<notin> set x"
    proof
      assume "c \<in> set x"
      then obtain x1 x2 where x: "x = x1 @ c # x2" "c \<notin> set x1" by (meson split_list_first)
      with eq have "x1 @ c # (x2 @ c # join c xs) = y @ c # join c ys" by simp
      then have "x2 @ c # join c xs = join c ys"
        using separator_split x(2) Cons.prems(1) by (metis list.set_intros(1))
      then have "count_list (join c ys) c = count_list x2 c + 1 + count_list (join c xs) c"
        by (metis (no_types, lifting) add.assoc count_list.simps(2) count_list_append add.commute)
      moreover have "count_list (join c ys) c = length ys - 1"
        using Cons.prems(1) by (simp add: count_join_free)
      ultimately show False
        using count_join [of xs c] Cons.hyps ys by (cases ys) auto
    qed
    with eq Cons.prems(1) have "x = y" and "join c xs = join c ys"
      using separator_split by (metis list.set_intros(1))+
    with Cons.IH Cons.prems(1) show ?thesis by simp
  qed
qed simp

section \<open>Decimal text\<close>

definition dec_digit :: "nat \<Rightarrow> char" where
  "dec_digit n = dec_digits ! n"

text \<open>\<^verbatim>\<open>std::to_string\<close> of an unsigned value\<close>

fun to_string :: "nat \<Rightarrow> string" where
  "to_string n = (if n < 10 then [dec_digit n] else to_string (n div 10) @ [dec_digit (n mod 10)])"

declare to_string.simps [simp del]

definition digit_value :: "char \<Rightarrow> nat" where
  "digit_value c = of_char c - of_char CHR ''0''"

definition digits_value :: "string \<Rightarrow> nat" where
  "digits_value = foldl (\<lambda>acc c. acc * 10 + digit_value c) 0"

text \<open>
  \<^verbatim>\<open>std::from_chars\<close> on an unsigned type with \<open>limit\<close> values: the longest run of digits
  is read; \<^term>\<open>None\<close> when there is none or when its value does not fit, otherwise the
  value and the characters from \<^verbatim>\<open>ptr\<close> on.
\<close>

definition from_chars :: "nat \<Rightarrow> string \<Rightarrow> (nat \<times> string) option" where
  "from_chars limit s =
     (let ds = takeWhile is_digit s; v = digits_value ds
      in if ds = [] \<or> limit \<le> v then None else Some (v, dropWhile is_digit s))"

lemma dec_digit_all: "n < 10 \<Longrightarrow> is_digit (dec_digit n) \<and> digit_value (dec_digit n) = n"
proof -
  have "\<forall>n \<in> set [0..<10]. is_digit (dec_digit n) \<and> digit_value (dec_digit n) = n"
    unfolding is_digit_def digit_value_def dec_digit_def by code_simp
  then show "n < 10 \<Longrightarrow> ?thesis" by simp
qed

lemma to_string_digits: "list_all is_digit (to_string n)"
proof (induction n rule: to_string.induct)
  case (1 n)
  then show ?case
    by (subst to_string.simps) (auto simp: dec_digit_all)
qed

lemma to_string_not_Nil [simp]: "to_string n \<noteq> []"
  by (subst to_string.simps) simp

lemma digits_value_to_string [simp]: "digits_value (to_string n) = n"
proof (induction n rule: to_string.induct)
  case (1 n)
  then show ?case
    by (subst to_string.simps) (auto simp: digits_value_def dec_digit_all)
qed

lemma to_string_inj [simp]: "to_string m = to_string n \<longleftrightarrow> m = n"
  by (metis digits_value_to_string)

lemma from_chars_to_string [simp]:
  "n < limit \<Longrightarrow> from_chars limit (to_string n) = Some (n, [])"
proof -
  have "\<forall>c \<in> set (to_string n). is_digit c"
    using to_string_digits [of n] by (simp add: list_all_iff)
  then have tw: "takeWhile is_digit (to_string n) = to_string n"
    and dw: "dropWhile is_digit (to_string n) = []"
    by (simp_all add: takeWhile_eq_all_conv dropWhile_eq_Nil_conv)
  show "n < limit \<Longrightarrow> ?thesis" by (simp add: from_chars_def tw dw)
qed

lemma to_string_notin: "\<not> is_digit c \<Longrightarrow> c \<notin> set (to_string n)"
  using to_string_digits [of n] by (auto simp: list_all_iff)

lemma length_to_string: "n < 10 ^ k \<Longrightarrow> 0 < k \<Longrightarrow> length (to_string n) \<le> k"
proof (induction k arbitrary: n)
  case (Suc k)
  show ?case
  proof (cases "n < 10")
    case True
    then show ?thesis by (subst to_string.simps) simp
  next
    case False
    with Suc.prems have "n div 10 < 10 ^ k" and "0 < k" by (auto intro: gr0I)
    with Suc.IH have "length (to_string (n div 10)) \<le> k" by blast
    with False show ?thesis by (subst to_string.simps) simp
  qed
qed simp

section \<open>Hexadecimal text\<close>

definition hex_digit :: "nat \<Rightarrow> char" where
  "hex_digit n = hex_digits ! n"

text \<open>\<^verbatim>\<open>digits[byte >> 4]\<close>, \<^verbatim>\<open>digits[byte & 15]\<close>\<close>

definition hex_byte :: "u8 \<Rightarrow> string" where
  "hex_byte b = [hex_digit (unat (drop_bit 4 b)), hex_digit (unat (b AND 15))]"

definition hex_string :: "u8 list \<Rightarrow> string" where
  "hex_string bs = concat (map hex_byte bs)"

lemma length_hex_string [simp]: "length (hex_string bs) = 2 * length bs"
  by (induction bs) (simp_all add: hex_string_def hex_byte_def)

lemma hex_digit_lower: "n < 16 \<Longrightarrow> is_lower_hex (hex_digit n)"
proof -
  have "\<forall>n \<in> set [0..<16]. is_lower_hex (hex_digit n)"
    unfolding is_lower_hex_def hex_digit_def by code_simp
  then show "n < 16 \<Longrightarrow> ?thesis" by simp
qed

lemma high_nibble_bound: "unat (drop_bit 4 (b :: u8)) < 16"
proof -
  have "unat (drop_bit 4 b) = unat b div 16"
    by (simp add: unsigned_drop_bit_eq drop_bit_eq_div unat_div_distrib)
  moreover have "unat b < 256" using unsigned_less [of b] by simp
  ultimately show ?thesis by simp
qed

lemma low_nibble: "unat (b AND 15) = unat (b :: u8) mod 16"
proof -
  have "unat (b AND 15) = unat b AND mask 4"
    by (simp add: unsigned_and_eq mask_eq_exp_minus_1)
  then show ?thesis by (simp add: take_bit_eq_mod flip: take_bit_eq_mask)
qed

lemma hex_string_lower: "list_all is_lower_hex (hex_string bs)"
  by (induction bs)
    (simp_all add: hex_string_def hex_byte_def hex_digit_lower high_nibble_bound low_nibble)


text \<open>The value of a validated hexadecimal digit, and the byte of two of them.\<close>

definition hex_value :: "char \<Rightarrow> int" where
  "hex_value c =
     (if c \<le> CHR ''9'' then of_char c - of_char CHR ''0'' else of_char c - of_char CHR ''a'' + 10)"

lemma hex_value_digit: "n < 16 \<Longrightarrow> hex_value (hex_digit n) = int n"
proof -
  have "\<forall>n \<in> set [0..<16]. hex_value (hex_digit n) = int n"
    unfolding hex_value_def hex_digit_def by code_simp
  then show "n < 16 \<Longrightarrow> ?thesis" by simp
qed

lemma hex_digit_value:
  "is_lower_hex c \<Longrightarrow> 0 \<le> hex_value c \<and> hex_value c < 16 \<and> hex_digit (nat (hex_value c)) = c"
proof -
  have "\<forall>c \<in> set hex_digits. 0 \<le> hex_value c \<and> hex_value c < 16 \<and> hex_digit (nat (hex_value c)) = c"
    unfolding hex_value_def hex_digit_def by code_simp
  then show "is_lower_hex c \<Longrightarrow> ?thesis" unfolding is_lower_hex_set by blast
qed

definition byte_of_hex :: "char \<Rightarrow> char \<Rightarrow> u8" where
  "byte_of_hex h l = of_int (hex_value h * 16 + hex_value l)"

lemma high_nibble: "unat (drop_bit 4 (b :: u8)) = unat b div 16"
  by (simp add: unsigned_drop_bit_eq drop_bit_eq_div unat_div_distrib)

lemma byte_of_hex_byte [simp]:
  "byte_of_hex (hex_digit (unat (drop_bit 4 b))) (hex_digit (unat (b AND 15))) = b"
proof -
  have "hex_value (hex_digit (unat (drop_bit 4 b))) * 16 + hex_value (hex_digit (unat (b AND 15)))
      = int (unat b div 16) * 16 + int (unat b mod 16)"
    using high_nibble_bound [of b] by (simp add: hex_value_digit high_nibble low_nibble)
  also have "\<dots> = int (unat b div 16 * 16 + unat b mod 16)" by (simp only: of_nat_add of_nat_mult of_nat_numeral)
  also have "\<dots> = int (unat b)" by (simp only: div_mult_mod_eq)
  finally show ?thesis by (simp add: byte_of_hex_def)
qed

lemma hex_byte_of_hex [simp]:
  assumes "is_lower_hex h" and "is_lower_hex l"
  shows "hex_byte (byte_of_hex h l) = [h, l]"
proof -
  obtain m n where m: "hex_value h = int m" "m < 16" "hex_digit m = h"
    and n: "hex_value l = int n" "n < 16" "hex_digit n = l"
    using hex_digit_value [OF assms(1)] hex_digit_value [OF assms(2)]
    by (metis nat_0_le nat_less_numeral_power_cancel_iff nat_numeral of_nat_less_numeral_iff)
  have b: "byte_of_hex h l = of_nat (m * 16 + n)"
    by (simp add: byte_of_hex_def m n)
  have "m * 16 + n < 256" using m n by simp
  then have "unat (byte_of_hex h l) = m * 16 + n"
    unfolding b unat_of_nat by simp
  then show ?thesis
    using m n by (simp add: hex_byte_def high_nibble low_nibble)
qed

text \<open>Reading a hexadecimal string two digits at a time.\<close>

fun hex_bytes :: "string \<Rightarrow> u8 list" where
  "hex_bytes (h # l # r) = byte_of_hex h l # hex_bytes r"
| "hex_bytes _ = []"

lemma hex_bytes_hex_string [simp]: "hex_bytes (hex_string bs) = bs"
  by (induction bs) (simp_all add: hex_string_def hex_byte_def)

lemma hex_string_hex_bytes [simp]:
  "list_all is_lower_hex s \<Longrightarrow> even (length s) \<Longrightarrow> hex_string (hex_bytes s) = s"
  by (induction s rule: hex_bytes.induct) (simp_all add: hex_string_def)

lemma length_hex_bytes [simp]: "length (hex_bytes s) = length s div 2"
  by (induction s rule: hex_bytes.induct) simp_all

lemma hex_bytes_nth:
  "2 * i + 1 < length s \<Longrightarrow> hex_bytes s ! i = byte_of_hex (s ! (2 * i)) (s ! (2 * i + 1))"
proof (induction s arbitrary: i rule: hex_bytes.induct)
  case (1 h l r)
  then show ?case by (cases i) auto
qed auto

lemma not_hex [simp]: "\<not> is_lower_hex CHR ''|''" "\<not> is_lower_hex CHR '':''" "\<not> is_lower_hex newline"
  by (simp_all add: is_lower_hex_set)

lemma not_digit [simp]: "\<not> is_digit CHR ''|''" "\<not> is_digit CHR '':''" "\<not> is_digit newline"
  by (simp_all add: is_digit_set)

lemma hex_free: "list_all is_lower_hex d \<Longrightarrow> \<not> is_lower_hex c \<Longrightarrow> c \<notin> set d"
  by (auto simp: list_all_iff)

section \<open>The codec contract\<close>

text \<open>
  What a client of a codec relies on: an accepted encoding decodes to the value it was made
  from, and a decoder accepts canonical encodings only.  \<open>empty\<close> is the encoding that
  stands for a refused value.
\<close>

locale codec =
  fixes enc :: "'a \<Rightarrow> 'b" and dec :: "'b \<Rightarrow> 'a option" and wf :: "'a \<Rightarrow> bool" and empty :: 'b
  assumes dec_enc: "wf x \<Longrightarrow> enc x \<noteq> empty \<Longrightarrow> dec (enc x) = Some x"
    and enc_dec: "dec b = Some x \<Longrightarrow> wf x \<and> enc x = b"
    and dec_empty: "dec empty = None"
begin

lemma dec_iff: "dec b = Some x \<longleftrightarrow> wf x \<and> enc x = b \<and> b \<noteq> empty"
  using dec_enc [of x] enc_dec [of b x] dec_empty by auto

lemma enc_inject: "wf x \<Longrightarrow> wf y \<Longrightarrow> enc x = enc y \<Longrightarrow> enc x \<noteq> empty \<Longrightarrow> x = y"
  by (metis dec_enc option.inject)

lemma dec_inject: "dec b = Some x \<Longrightarrow> dec b' = Some x \<Longrightarrow> b = b'"
  using enc_dec [of b x] enc_dec [of b' x] by simp

lemma accepted_iff: "dec b \<noteq> None \<longleftrightarrow> b \<noteq> empty \<and> (\<exists>x. wf x \<and> enc x = b)"
  unfolding not_None_eq dec_iff by blast

end

end
