(* ===== verification/Protocol_Types.thy ===== *)
theory Protocol_Types
  imports Prelude
begin

text \<open>
  The wire vocabulary of \<^verbatim>\<open>service_protocol.h\<close>: limits, capability bits, commands,
  statuses, the frame and the structured request bodies.  A scoped C++ enumeration with a
  fixed underlying type can hold any value of that type (\<^verbatim>\<open>static_cast<Command>(raw)\<close>), so
  each such enumeration has one more constructor for a value without an enumerator.
\<close>

named_theorems proto_limits \<open>the size limits of the protocol\<close>

definition kFrameMagic :: u32 where "kFrameMagic = 0x49534B50"
definition kProtocolVersion :: u16 where "kProtocolVersion = 1"
definition kFrameHeaderSize :: nat where [proto_limits]: "kFrameHeaderSize = 80"
definition kMaxControlBodySize :: nat where [proto_limits]: "kMaxControlBodySize = 512"
definition kMaxCandidateProbeResultBodySize :: nat where [proto_limits]: "kMaxCandidateProbeResultBodySize = 2048"
definition kMaxRuntimeSnapshotBodySize :: nat where [proto_limits]: "kMaxRuntimeSnapshotBodySize = 8192"
definition kMaxRestrictionSnapshotBodySize :: nat where [proto_limits]: "kMaxRestrictionSnapshotBodySize = 1024 * 1024"
definition kMaxSmartAccessLeasesBodySize :: nat where [proto_limits]: "kMaxSmartAccessLeasesBodySize = 65536"
definition kMaxProfileBodySize :: nat where [proto_limits]: "kMaxProfileBodySize = 256 * 1024"
definition kMaxBodySize :: nat where [proto_limits]: "kMaxBodySize = kMaxRestrictionSnapshotBodySize"
definition kMaxFrameSize :: nat where [proto_limits]: "kMaxFrameSize = kFrameHeaderSize + kMaxBodySize"

type_synonym Identifier = "u8 list"

text \<open>\<^verbatim>\<open>std::array<std::uint8_t, 16>\<close>\<close>

definition wf_identifier :: "Identifier \<Rightarrow> bool" where
  "wf_identifier i \<longleftrightarrow> length i = 16"

datatype (plugins only: code size) FrameKind = kHelloRequest | kRequest | kResponse | FrameKind_raw u16

datatype (plugins only: code size) Command =
    kHello
  | kStatus
  | kConnect
  | kDisconnect
  | kCancel
  | kRecover
  | kDiagnosticState
  | kInitialize
  | kStageProfile
  | kInvalidateProfile
  | kRevokeSmartAccessLease
  | kRevokeRoutingCatalog
  | kRevokeSmartAccessPolicy
  | kRevokeRoutingCatalogService
  | kRenewSmartAccessLease
  | kConfigureSmartAccessRuntimeControl
  | kReadSmartAccessRestrictions
  | kAcknowledgeSmartAccessRestrictions
  | kReadSmartAccessLeases
  | kConfigureSmartAccessRenewal
  | kReadBootClock
  | kConnectWithIdentity
  | kCancelConnectAndConfirm
  | kConfigureBoundSmartAccessRuntimeControl
  | kReadTransportNetworkContext
  | kStageBoundProfile
  | kPromoteTransportLease
  | kRevokeTransportLease
  | kReadCandidateNetwork
  | kProbeCandidate
  | kCancelCandidateProbe
  | kReplaceManagedProfile
  | kObserveNetworkContext
  | Command_raw u16

datatype (plugins only: code size) Status =
    kStatusNone
  | kOk
  | kInvalid
  | kUnauthorized
  | kUnsupported
  | kNotReady
  | kReplay
  | kDeadlineExceeded
  | Status_raw u16

record CancellationTarget =
  ct_session_token :: Identifier
  ct_operation_nonce :: Identifier

record NetworkObservationRequest =
  no_host :: string
  no_session_token :: string
  no_app_version :: string
  no_profile_revision :: string
  no_runtime_phase :: string
  no_report_run_id :: string

record CandidateProbeRequest =
  cp_probe_id :: string
  cp_timeout_ms :: u32
  cp_network_context_ref :: string
  cp_config :: string

record BoundConnectTarget =
  bc_core_module_sha256 :: string
  bc_profile_digest :: string
  bc_boot_ref :: string
  bc_started_elapsed_ms :: u64
  bc_deadline_elapsed_ms :: u64
  bc_network_context_ref :: string

record TransportLeasePromotion =
  tp_target :: CancellationTarget
  tp_profile_digest :: string
  tp_endpoint_lease_ref :: string
  tp_issued_at :: string
  tp_new_flows_until :: string
  tp_active_flows_until :: string

record TransportLeaseRevocation =
  tr_target :: CancellationTarget
  tr_profile_digest :: string
  tr_endpoint_lease_ref :: string
  tr_terminate_active :: bool

record SmartAccessRevocationTarget =
  sr_profile_digest :: string
  sr_lease_id :: string
  sr_terminate_active :: bool

record SmartAccessRenewalTarget =
  sn_profile_digest :: string
  sn_expected_lease_id :: string
  sn_next_lease_id :: string
  sn_issued_at :: string
  sn_new_flows_until :: string
  sn_active_flows_until :: string

record Frame =
  fr_kind :: FrameKind
  fr_command :: Command
  fr_status :: Status
  fr_correlation_id :: Identifier
  fr_session_token :: Identifier
  fr_operation_nonce :: Identifier
  fr_deadline_unix_ms :: u64
  fr_capabilities :: u64
  fr_body :: string

section \<open>Underlying values\<close>

text \<open>\<^verbatim>\<open>static_cast<std::uint16_t>\<close> of the three enumerations, and the casts back.\<close>

fun kind_code :: "FrameKind \<Rightarrow> u16" where
  "kind_code kHelloRequest = 1"
| "kind_code kRequest = 2"
| "kind_code kResponse = 3"
| "kind_code (FrameKind_raw w) = w"

fun command_code :: "Command \<Rightarrow> u16" where
  "command_code kHello = 0"
| "command_code kStatus = 1"
| "command_code kConnect = 2"
| "command_code kDisconnect = 3"
| "command_code kCancel = 4"
| "command_code kRecover = 5"
| "command_code kDiagnosticState = 6"
| "command_code kInitialize = 7"
| "command_code kStageProfile = 8"
| "command_code kInvalidateProfile = 9"
| "command_code kRevokeSmartAccessLease = 10"
| "command_code kRevokeRoutingCatalog = 11"
| "command_code kRevokeSmartAccessPolicy = 12"
| "command_code kRevokeRoutingCatalogService = 13"
| "command_code kRenewSmartAccessLease = 14"
| "command_code kConfigureSmartAccessRuntimeControl = 15"
| "command_code kReadSmartAccessRestrictions = 16"
| "command_code kAcknowledgeSmartAccessRestrictions = 17"
| "command_code kReadSmartAccessLeases = 18"
| "command_code kConfigureSmartAccessRenewal = 19"
| "command_code kReadBootClock = 20"
| "command_code kConnectWithIdentity = 21"
| "command_code kCancelConnectAndConfirm = 22"
| "command_code kConfigureBoundSmartAccessRuntimeControl = 23"
| "command_code kReadTransportNetworkContext = 24"
| "command_code kStageBoundProfile = 25"
| "command_code kPromoteTransportLease = 26"
| "command_code kRevokeTransportLease = 27"
| "command_code kReadCandidateNetwork = 28"
| "command_code kProbeCandidate = 29"
| "command_code kCancelCandidateProbe = 30"
| "command_code kReplaceManagedProfile = 31"
| "command_code kObserveNetworkContext = 32"
| "command_code (Command_raw w) = w"

fun status_code :: "Status \<Rightarrow> u16" where
  "status_code kStatusNone = 0"
| "status_code kOk = 1"
| "status_code kInvalid = 2"
| "status_code kUnauthorized = 3"
| "status_code kUnsupported = 4"
| "status_code kNotReady = 5"
| "status_code kReplay = 6"
| "status_code kDeadlineExceeded = 7"
| "status_code (Status_raw w) = w"

definition known_commands :: "Command list" where
  "known_commands = [
     kHello, kStatus, kConnect, kDisconnect, kCancel, kRecover, kDiagnosticState, kInitialize, kStageProfile, kInvalidateProfile, kRevokeSmartAccessLease, kRevokeRoutingCatalog, kRevokeSmartAccessPolicy, kRevokeRoutingCatalogService, kRenewSmartAccessLease, kConfigureSmartAccessRuntimeControl, kReadSmartAccessRestrictions, kAcknowledgeSmartAccessRestrictions, kReadSmartAccessLeases, kConfigureSmartAccessRenewal, kReadBootClock, kConnectWithIdentity, kCancelConnectAndConfirm, kConfigureBoundSmartAccessRuntimeControl, kReadTransportNetworkContext, kStageBoundProfile, kPromoteTransportLease, kRevokeTransportLease, kReadCandidateNetwork, kProbeCandidate, kCancelCandidateProbe, kReplaceManagedProfile, kObserveNetworkContext]"

definition known_statuses :: "Status list" where
  "known_statuses = [kStatusNone, kOk, kInvalid, kUnauthorized, kUnsupported, kNotReady, kReplay, kDeadlineExceeded]"

definition command_of_code :: "u16 \<Rightarrow> Command" where
  "command_of_code w =
     (case find (\<lambda>c. command_code c = w) known_commands of Some c \<Rightarrow> c | None \<Rightarrow> Command_raw w)"

definition status_of_code :: "u16 \<Rightarrow> Status" where
  "status_of_code w =
     (case find (\<lambda>s. status_code s = w) known_statuses of Some s \<Rightarrow> s | None \<Rightarrow> Status_raw w)"

lemma command_code_of_code [simp]: "command_code (command_of_code w) = w"
  by (auto simp: command_of_code_def find_Some_iff split: option.splits)

lemma status_code_of_code [simp]: "status_code (status_of_code w) = w"
  by (auto simp: status_of_code_def find_Some_iff split: option.splits)

lemma command_of_code_known: "c \<in> set known_commands \<Longrightarrow> command_of_code (command_code c) = c"
proof -
  have "list_all (\<lambda>c. command_of_code (command_code c) = c) known_commands"
    by code_simp
  then show "c \<in> set known_commands \<Longrightarrow> ?thesis" by (simp add: list_all_iff)
qed

lemma status_of_code_known: "s \<in> set known_statuses \<Longrightarrow> status_of_code (status_code s) = s"
proof -
  have "list_all (\<lambda>s. status_of_code (status_code s) = s) known_statuses"
    by code_simp
  then show "s \<in> set known_statuses \<Longrightarrow> ?thesis" by (simp add: list_all_iff)
qed

lemma known_commands_iff: "c \<in> set known_commands \<longleftrightarrow> (\<forall>w. c \<noteq> Command_raw w)"
  by (cases c) (simp_all add: known_commands_def)

lemma known_statuses_iff: "s \<in> set known_statuses \<longleftrightarrow> (\<forall>w. s \<noteq> Status_raw w)"
  by (cases s) (simp_all add: known_statuses_def)

end
