(* ===== verification/Profile_Identity.thy ===== *)
theory Profile_Identity
  imports Protocol_Types
begin

text \<open>
  \<^verbatim>\<open>service_profile_identity.cpp\<close>: the local content identity of a staged profile.  The
  SHA-256 primitive of the operating system (\<^verbatim>\<open>BCryptHash\<close>) is the parameter \<open>hash\<close>:
  \<^term>\<open>None\<close> when the call fails, otherwise the 32 bytes it writes.
\<close>

definition IsProfileDigest :: "string \<Rightarrow> bool" where
  "IsProfileDigest value \<longleftrightarrow> length value = 64 \<and> list_all is_lower_hex value"

type_synonym hash_fun = "string \<Rightarrow> u8 list option"

definition ProfileDigest :: "hash_fun \<Rightarrow> string \<Rightarrow> string" where
  "ProfileDigest hash body =
     (if body = [] \<or> kMaxProfileBodySize < length body then []
      else case hash body of
        None \<Rightarrow> []
      | Some digest \<Rightarrow> hex_string digest)"

text \<open>The output buffer handed to \<^verbatim>\<open>BCryptHash\<close> has 32 bytes.\<close>

definition digest_sized :: "hash_fun \<Rightarrow> bool" where
  "digest_sized hash \<longleftrightarrow> (\<forall>body d. hash body = Some d \<longrightarrow> length d = 32)"

lemma IsProfileDigest_not_Nil [simp]: "\<not> IsProfileDigest []"
  by (simp add: IsProfileDigest_def)

lemma IsProfileDigest_length [dest]: "IsProfileDigest d \<Longrightarrow> length d = 64"
  by (simp add: IsProfileDigest_def)

lemma ProfileDigest_valid:
  assumes "digest_sized hash"
  shows "ProfileDigest hash body = [] \<or> IsProfileDigest (ProfileDigest hash body)"
proof (cases "hash body")
  case (Some d)
  with assms have "length d = 32" by (auto simp: digest_sized_def)
  with Some show ?thesis
    by (simp add: ProfileDigest_def IsProfileDigest_def hex_string_lower)
qed (simp add: ProfileDigest_def)

end
