(* ===== verification/Protocol.thy ===== *)
theory Protocol
  imports Profile_Identity
begin

text \<open>
  \<^verbatim>\<open>service_protocol.cpp\<close>: the little-endian integers of the frame header, the admission
  of a frame, the text bodies of the structured requests and the frame codec.  A pointer
  argument with its size is an optional byte list (\<^term>\<open>None\<close> is \<^verbatim>\<open>nullptr\<close>), and a failed
  encoding is the empty string or the empty byte vector, as in the source.
\<close>

section \<open>Little-endian integers\<close>

definition AppendUint16 :: "u16 \<Rightarrow> u8 list" where
  "AppendUint16 v = [ucast (v AND 0xFF), ucast (drop_bit 8 v AND 0xFF)]"

definition AppendUint32 :: "u32 \<Rightarrow> u8 list" where
  "AppendUint32 v = map (\<lambda>shift. ucast (drop_bit shift v AND 0xFF)) [0, 8, 16, 24]"

definition AppendUint64 :: "u64 \<Rightarrow> u8 list" where
  "AppendUint64 v = map (\<lambda>shift. ucast (drop_bit shift v AND 0xFF)) [0, 8, 16, 24, 32, 40, 48, 56]"

definition ReadUint16 :: "u8 list \<Rightarrow> u16" where
  "ReadUint16 input = ucast (input ! 0) OR push_bit 8 (ucast (input ! 1))"

definition ReadUint32 :: "u8 list \<Rightarrow> u32" where
  "ReadUint32 input =
     foldl (\<lambda>value offset. value OR push_bit (offset * 8) (ucast (input ! offset))) 0 [0, 1, 2, 3]"

definition ReadUint64 :: "u8 list \<Rightarrow> u64" where
  "ReadUint64 input =
     foldl (\<lambda>value offset. value OR push_bit (offset * 8) (ucast (input ! offset))) 0
       [0, 1, 2, 3, 4, 5, 6, 7]"

section \<open>Predicates on bodies\<close>

definition IsBoundedAsciiControl :: "string \<Rightarrow> nat \<Rightarrow> bool" where
  "IsBoundedAsciiControl value limit \<longleftrightarrow>
     length value \<le> limit \<and> list_all (\<lambda>c. CHR 0x20 \<le> c \<and> c \<le> CHR 0x7E) value"

definition IsBoundedProfile :: "string \<Rightarrow> bool" where
  "IsBoundedProfile value \<longleftrightarrow>
     4 \<le> length value \<and> length value \<le> kMaxProfileBodySize \<and>
     (value ! 0 = CHR ''0'' \<or> value ! 0 = CHR ''1'') \<and> value ! 1 = newline \<and>
     find_char value nul 0 = None"

fun IsKnownCommand :: "Command \<Rightarrow> bool" where
  "IsKnownCommand (Command_raw w) = False"
| "IsKnownCommand _ = True"

fun IsKnownStatus :: "Status \<Rightarrow> bool" where
  "IsKnownStatus (Status_raw w) = False"
| "IsKnownStatus _ = True"

definition IsConnectCommand :: "Command \<Rightarrow> bool" where
  "IsConnectCommand command \<longleftrightarrow>
     command = kConnect \<or> command = kConnectWithIdentity \<or> command = kReplaceManagedProfile"

definition IsZeroIdentifier :: "Identifier \<Rightarrow> bool" where
  "IsZeroIdentifier value \<longleftrightarrow> list_all (\<lambda>byte. byte = 0) value"

definition IsTransportNetworkContextRef :: "string \<Rightarrow> bool" where
  "IsTransportNetworkContextRef value \<longleftrightarrow>
     length value = 40 \<and> starts_with ''network_'' value \<and> only_of hex_digits 8 value"

definition IsCandidateProbeId :: "string \<Rightarrow> bool" where
  "IsCandidateProbeId value \<longleftrightarrow>
     value \<noteq> [] \<and> length value \<le> 128 \<and>
     only_of ''ABCDEFGHIJKLMNOPQRSTUVWXYZabcdefghijklmnopqrstuvwxyz0123456789_-'' 0 value"

section \<open>Network observation\<close>

definition observation_safe :: "string \<Rightarrow> nat \<Rightarrow> string \<Rightarrow> bool" where
  "observation_safe value limit extra \<longleftrightarrow>
     length value \<le> limit \<and>
     list_all (\<lambda>c. (CHR ''a'' \<le> c \<and> c \<le> CHR ''z'') \<or> (CHR ''A'' \<le> c \<and> c \<le> CHR ''Z'') \<or>
                   (CHR ''0'' \<le> c \<and> c \<le> CHR ''9'') \<or> (c \<noteq> nul \<and> c \<in> set extra)) value"

definition IsReportRunId :: "string \<Rightarrow> bool" where
  "IsReportRunId rid \<longleftrightarrow>
     length rid = 36 \<and>
     rid ! 8 = CHR ''-'' \<and> rid ! 13 = CHR ''-'' \<and> rid ! 18 = CHR ''-'' \<and> rid ! 23 = CHR ''-'' \<and>
     rid ! 14 = CHR ''4'' \<and> rid ! 19 \<in> set ''89ab'' \<and>
     list_all (\<lambda>i. i = 8 \<or> i = 13 \<or> i = 18 \<or> i = 23 \<or> is_lower_hex (rid ! i)) [0..<36]"

definition EncodeNetworkObservation :: "NetworkObservationRequest \<Rightarrow> string" where
  "EncodeNetworkObservation request =
     (if (no_host request \<noteq> ''api.pokrov.space'' \<and> no_host request \<noteq> ''app.pokrov.space'') \<or>
         no_session_token request = [] \<or> \<not> observation_safe (no_session_token request) 8192 ''.-_'' \<or>
         no_app_version request = [] \<or> \<not> observation_safe (no_app_version request) 32 ''.+-'' \<or>
         \<not> observation_safe (no_profile_revision request) 128 ('' .()+'' @ [CHR 0x27] @ ''-_'') \<or>
         \<not> observation_safe (no_runtime_phase request) 32 ''-_'' \<or>
         \<not> IsReportRunId (no_report_run_id request)
      then []
      else no_host request @ [newline] @ no_session_token request @ [newline] @
           no_app_version request @ [newline] @ no_profile_revision request @ [newline] @
           no_runtime_phase request @ [newline] @ no_report_run_id request)"


text \<open>The loop that cuts off five lines; the last field is the rest of the body.\<close>

fun observation_fields :: "string \<Rightarrow> nat \<Rightarrow> nat \<Rightarrow> string list option" where
  "observation_fields body begin 0 = Some [drop begin body]"
| "observation_fields body begin (Suc k) =
     (case find_char body newline begin of
        None \<Rightarrow> None
      | Some e \<Rightarrow> map_option (Cons (substr body begin (e - begin))) (observation_fields body (e + 1) k))"

definition DecodeNetworkObservation :: "string \<Rightarrow> NetworkObservationRequest option" where
  "DecodeNetworkObservation body =
     (if 8704 < length body then None
      else case observation_fields body 0 5 of
        None \<Rightarrow> None
      | Some fs \<Rightarrow>
          (let request = \<lparr>no_host = fs ! 0, no_session_token = fs ! 1,
                          no_app_version = fs ! 2, no_profile_revision = fs ! 3,
                          no_runtime_phase = fs ! 4, no_report_run_id = fs ! 5\<rparr>
           in if EncodeNetworkObservation request \<noteq> body then None else Some request))"

definition dquote :: string where "dquote = [CHR 0x22]"
definition crlf :: string where "crlf = [CHR 0x0D, CHR 0x0A]"

definition NetworkObservationHttpRequest :: "NetworkObservationRequest \<Rightarrow> string \<Rightarrow> string" where
  "NetworkObservationHttpRequest request network_class =
     (if EncodeNetworkObservation request = [] \<or>
         (network_class \<noteq> ''wifi'' \<and> network_class \<noteq> ''ethernet'' \<and> network_class \<noteq> ''other'')
      then []
      else
        (let body = ''{'' @ dquote @ ''network_class'' @ dquote @ '':'' @ dquote @ network_class @
               dquote @ '','' @ dquote @ ''direct_observation'' @ dquote @ '':true,'' @
               dquote @ ''source_network'' @ dquote @ '':'' @ dquote @ ''physical'' @ dquote @ '','' @
               dquote @ ''report_run_id'' @ dquote @ '':'' @ dquote @ no_report_run_id request @
               dquote @ '','' @ dquote @ ''profile_revision'' @ dquote @ '':'' @ dquote @
               no_profile_revision request @ dquote @ '','' @ dquote @ ''runtime_phase'' @ dquote @
               '':'' @ dquote @ no_runtime_phase request @ dquote @ ''}''
         in if 1024 < length body then []
            else ''POST /api/client/network/context HTTP/1.1'' @ crlf @ ''Host: '' @ no_host request @
                 crlf @ ''Authorization: Bearer '' @ no_session_token request @
                 crlf @ ''User-Agent: POKROV/windows/'' @ no_app_version request @
                 crlf @ ''Content-Type: application/json'' @ crlf @ ''Connection: close'' @ crlf @
                 ''Content-Length: '' @ to_string (length body) @ crlf @ crlf @ body))"

section \<open>Candidate probes\<close>

definition EncodeCandidateProbe :: "CandidateProbeRequest \<Rightarrow> string" where
  "EncodeCandidateProbe request =
     (if \<not> IsCandidateProbeId (cp_probe_id request) \<or> cp_timeout_ms request < 1 \<or>
         30000 < cp_timeout_ms request \<or>
         \<not> IsTransportNetworkContextRef (cp_network_context_ref request) \<or>
         cp_config request = [] \<or> find_char (cp_config request) nul 0 \<noteq> None \<or>
         kMaxProfileBodySize - 256 < length (cp_config request)
      then []
      else cp_probe_id request @ [newline] @ to_string (unat (cp_timeout_ms request)) @ [newline] @
           cp_network_context_ref request @ [newline] @ cp_config request)"

definition DecodeCandidateProbe :: "string \<Rightarrow> CandidateProbeRequest option" where
  "DecodeCandidateProbe body =
     (if kMaxProfileBodySize < length body then None
      else case find_char body newline 0 of None \<Rightarrow> None
      | Some first \<Rightarrow> (case find_char body newline (first + 1) of None \<Rightarrow> None
      | Some second \<Rightarrow> (case find_char body newline (second + 1) of None \<Rightarrow> None
      | Some third \<Rightarrow>
          (case from_chars (2 ^ 32) (substr body (first + 1) (second - (first + 1))) of
             None \<Rightarrow> None
           | Some (timeout, rest) \<Rightarrow>
               (let request = \<lparr>cp_probe_id = substr body 0 first, cp_timeout_ms = of_nat timeout,
                      cp_network_context_ref = substr body (second + 1) (third - second - 1),
                      cp_config = drop (third + 1) body\<rparr>
                in if rest \<noteq> [] \<or> EncodeCandidateProbe request \<noteq> body then None
                   else Some request)))))"

section \<open>Bound connect\<close>

definition EncodeBoundConnect :: "BoundConnectTarget \<Rightarrow> string" where
  "EncodeBoundConnect target =
     (if \<not> IsProfileDigest (bc_core_module_sha256 target) \<or> \<not> IsProfileDigest (bc_profile_digest target) \<or>
         length (bc_boot_ref target) \<noteq> 40 \<or> \<not> starts_with ''windows:'' (bc_boot_ref target) \<or>
         \<not> only_of hex_digits 8 (bc_boot_ref target) \<or>
         \<not> IsTransportNetworkContextRef (bc_network_context_ref target) \<or>
         9007199254740991 < bc_deadline_elapsed_ms target \<or>
         bc_deadline_elapsed_ms target \<le> bc_started_elapsed_ms target \<or>
         86400000 < bc_deadline_elapsed_ms target - bc_started_elapsed_ms target
      then []
      else bc_core_module_sha256 target @ ''|'' @ bc_profile_digest target @ ''|'' @
           bc_boot_ref target @ ''|'' @ to_string (unat (bc_started_elapsed_ms target)) @ ''|'' @
           to_string (unat (bc_deadline_elapsed_ms target)) @ ''|'' @ bc_network_context_ref target)"

text \<open>The loop over the six fields: only the last one may lack a separator.\<close>

fun connect_fields :: "string \<Rightarrow> nat \<Rightarrow> nat \<Rightarrow> string list option" where
  "connect_fields body start 0 = Some []"
| "connect_fields body start (Suc k) =
     (let e = find_char body CHR ''|'' start
      in if (k = 0) \<noteq> (e = None) then None
         else case e of
           None \<Rightarrow> map_option (Cons (drop start body)) (connect_fields body (length body) k)
         | Some p \<Rightarrow> map_option (Cons (substr body start (p - start))) (connect_fields body (p + 1) k))"

definition parse_u64 :: "string \<Rightarrow> u64 option" where
  "parse_u64 text =
     (case from_chars (2 ^ 64) text of
        None \<Rightarrow> None
      | Some (v, rest) \<Rightarrow> if rest = [] then Some (of_nat v) else None)"

definition DecodeBoundConnect :: "string \<Rightarrow> BoundConnectTarget option" where
  "DecodeBoundConnect body =
     (if \<not> IsBoundedAsciiControl body kMaxControlBodySize then None
      else case connect_fields body 0 6 of
        None \<Rightarrow> None
      | Some fs \<Rightarrow>
          (case parse_u64 (fs ! 3) of None \<Rightarrow> None
           | Some started \<Rightarrow> (case parse_u64 (fs ! 4) of None \<Rightarrow> None
           | Some deadline \<Rightarrow>
               (let target = \<lparr>bc_core_module_sha256 = fs ! 0, bc_profile_digest = fs ! 1,
                      bc_boot_ref = fs ! 2, bc_started_elapsed_ms = started,
                      bc_deadline_elapsed_ms = deadline, bc_network_context_ref = fs ! 5\<rparr>
                in if EncodeBoundConnect target \<noteq> body then None else Some target))))"

section \<open>Cancellation targets\<close>

definition EncodeCancellationTarget :: "CancellationTarget \<Rightarrow> string" where
  "EncodeCancellationTarget target =
     (if IsZeroIdentifier (ct_session_token target) \<or> IsZeroIdentifier (ct_operation_nonce target)
      then []
      else hex_string (ct_session_token target) @ hex_string (ct_operation_nonce target))"

definition DecodeCancellationTarget :: "string \<Rightarrow> CancellationTarget option" where
  "DecodeCancellationTarget body =
     (if \<not> IsProfileDigest body then None
      else
        (let values = map (\<lambda>index. byte_of_hex (body ! (index * 2)) (body ! (index * 2 + 1))) [0..<32];
             result = \<lparr>ct_session_token = take 16 values, ct_operation_nonce = drop 16 values\<rparr>
         in if IsZeroIdentifier (ct_session_token result) \<or> IsZeroIdentifier (ct_operation_nonce result)
            then None else Some result))"

section \<open>Smart Access and transport lease bodies\<close>

definition IsSmartAccessRuntimeControl :: "string \<Rightarrow> bool" where
  "IsSmartAccessRuntimeControl body \<longleftrightarrow>
     65 < length body \<and> length body \<le> 65 + 16384 \<and> body ! 64 = CHR ''|'' \<and>
     IsProfileDigest (substr body 0 64) \<and> find_char body nul 0 = None"

definition IsBoundSmartAccessRuntimeControl :: "string \<Rightarrow> bool" where
  "IsBoundSmartAccessRuntimeControl body \<longleftrightarrow>
     65 < length body \<and> body ! 64 = CHR ''|'' \<and>
     DecodeCancellationTarget (substr body 0 64) \<noteq> None \<and>
     IsSmartAccessRuntimeControl (drop 65 body)"

text \<open>The character check at one offset of \<^verbatim>\<open>YYYY-MM-DDThh:mm:ssZ\<close>.\<close>

definition timestamp_char :: "nat \<Rightarrow> char \<Rightarrow> bool" where
  "timestamp_char offset value =
     (if offset = 4 \<or> offset = 7 then value = CHR ''-''
      else if offset = 10 then value = CHR ''T''
      else if offset = 13 \<or> offset = 16 then value = CHR '':''
      else if offset = 19 then value = CHR ''Z''
      else is_digit value)"

definition timestamps_at :: "string \<Rightarrow> nat list \<Rightarrow> bool" where
  "timestamps_at body starts \<longleftrightarrow>
     list_all (\<lambda>start. list_all (\<lambda>offset. timestamp_char offset (body ! (start + offset))) [0..<20]) starts"

definition DecodeTransportLeasePromotion :: "string \<Rightarrow> TransportLeasePromotion option" where
  "DecodeTransportLeasePromotion body =
     (if length body \<noteq> 231 \<or> body ! 64 \<noteq> CHR ''|'' \<or> body ! 129 \<noteq> CHR ''|'' \<or> body ! 168 \<noteq> CHR ''|'' \<or>
         body ! 189 \<noteq> CHR ''|'' \<or> body ! 210 \<noteq> CHR ''|'' \<or>
         DecodeCancellationTarget (substr body 0 64) = None \<or>
         \<not> IsProfileDigest (substr body 65 64) \<or> substr body 130 6 \<noteq> ''lease_'' then None
      else if \<not> list_all is_lower_hex (substr body 136 32) then None
      else if \<not> timestamps_at body [169, 190, 211] then None
      else Some \<lparr>tp_target = the (DecodeCancellationTarget (substr body 0 64)),
                 tp_profile_digest = substr body 65 64, tp_endpoint_lease_ref = substr body 130 38,
                 tp_issued_at = substr body 169 20, tp_new_flows_until = substr body 190 20,
                 tp_active_flows_until = substr body 211 20\<rparr>)"

definition EncodeTransportLeasePromotion :: "TransportLeasePromotion \<Rightarrow> string" where
  "EncodeTransportLeasePromotion target =
     (let body = EncodeCancellationTarget (tp_target target) @ ''|'' @ tp_profile_digest target @ ''|'' @
            tp_endpoint_lease_ref target @ ''|'' @ tp_issued_at target @ ''|'' @
            tp_new_flows_until target @ ''|'' @ tp_active_flows_until target
      in if DecodeTransportLeasePromotion body \<noteq> None then body else [])"

definition DecodeTransportLeaseRevocation :: "string \<Rightarrow> TransportLeaseRevocation option" where
  "DecodeTransportLeaseRevocation body =
     (if length body \<noteq> 170 \<or> body ! 64 \<noteq> CHR ''|'' \<or> body ! 129 \<noteq> CHR ''|'' \<or> body ! 168 \<noteq> CHR ''|'' \<or>
         (body ! 169 \<noteq> CHR ''0'' \<and> body ! 169 \<noteq> CHR ''1'') \<or>
         DecodeCancellationTarget (substr body 0 64) = None \<or>
         \<not> IsProfileDigest (substr body 65 64) \<or> substr body 130 6 \<noteq> ''lease_'' \<or>
         \<not> list_all is_lower_hex (substr body 136 32)
      then None
      else Some \<lparr>tr_target = the (DecodeCancellationTarget (substr body 0 64)),
                 tr_profile_digest = substr body 65 64, tr_endpoint_lease_ref = substr body 130 38,
                 tr_terminate_active = (body ! 169 = CHR ''1'')\<rparr>)"

definition EncodeTransportLeaseRevocation :: "TransportLeaseRevocation \<Rightarrow> string" where
  "EncodeTransportLeaseRevocation target =
     (let body = EncodeCancellationTarget (tr_target target) @ ''|'' @ tr_profile_digest target @ ''|'' @
            tr_endpoint_lease_ref target @ ''|'' @ (if tr_terminate_active target then ''1'' else ''0'')
      in if DecodeTransportLeaseRevocation body \<noteq> None then body else [])"

definition DecodeSmartAccessRevocation :: "string \<Rightarrow> SmartAccessRevocationTarget option" where
  "DecodeSmartAccessRevocation body =
     (if length body \<noteq> 99 \<or> body ! 64 \<noteq> CHR '':'' \<or> body ! 97 \<noteq> CHR '':'' \<or>
         (body ! 98 \<noteq> CHR ''0'' \<and> body ! 98 \<noteq> CHR ''1'') \<or> \<not> IsProfileDigest (substr body 0 64) \<or>
         \<not> list_all is_lower_hex (substr body 65 32)
      then None
      else Some \<lparr>sr_profile_digest = substr body 0 64, sr_lease_id = substr body 65 32,
                 sr_terminate_active = (body ! 98 = CHR ''1'')\<rparr>)"

definition EncodeSmartAccessRevocation :: "SmartAccessRevocationTarget \<Rightarrow> string" where
  "EncodeSmartAccessRevocation target =
     (let body = sr_profile_digest target @ '':'' @ sr_lease_id target @
            (if sr_terminate_active target then '':1'' else '':0'')
      in if DecodeSmartAccessRevocation body \<noteq> None then body else [])"

definition IsSmartAccessPolicyRevocation :: "string \<Rightarrow> bool" where
  "IsSmartAccessPolicyRevocation body \<longleftrightarrow>
     length body = 66 \<and> body ! 64 = CHR '':'' \<and>
     (body ! 65 = CHR ''0'' \<or> body ! 65 = CHR ''1'') \<and> IsProfileDigest (substr body 0 64)"

definition catalog_alphanumeric :: "char \<Rightarrow> bool" where
  "catalog_alphanumeric value \<longleftrightarrow>
     (CHR ''a'' \<le> value \<and> value \<le> CHR ''z'') \<or> (CHR ''0'' \<le> value \<and> value \<le> CHR ''9'')"

definition IsRoutingCatalogServiceRevocation :: "string \<Rightarrow> bool" where
  "IsRoutingCatalogServiceRevocation body =
     (if length body < 66 \<or> 129 < length body \<or> body ! 64 \<noteq> CHR '':'' \<or>
         \<not> IsProfileDigest (substr body 0 64) then False
      else catalog_alphanumeric (body ! 65) \<and>
           list_all (\<lambda>value. catalog_alphanumeric value \<or> value = CHR ''.'' \<or> value = CHR ''_'' \<or>
                             value = CHR ''-'') (drop 65 body))"

definition DecodeSmartAccessRenewal :: "string \<Rightarrow> SmartAccessRenewalTarget option" where
  "DecodeSmartAccessRenewal body =
     (if length body \<noteq> 193 \<or> body ! 64 \<noteq> CHR ''|'' \<or> body ! 97 \<noteq> CHR ''|'' \<or> body ! 130 \<noteq> CHR ''|'' \<or>
         body ! 151 \<noteq> CHR ''|'' \<or> body ! 172 \<noteq> CHR ''|'' \<or> \<not> IsProfileDigest (substr body 0 64) then None
      else if \<not> list_all is_lower_hex (substr body 65 32) \<or> \<not> list_all is_lower_hex (substr body 98 32)
      then None
      else if \<not> timestamps_at body [131, 152, 173] then None
      else Some \<lparr>sn_profile_digest = substr body 0 64, sn_expected_lease_id = substr body 65 32,
                 sn_next_lease_id = substr body 98 32, sn_issued_at = substr body 131 20,
                 sn_new_flows_until = substr body 152 20, sn_active_flows_until = substr body 173 20\<rparr>)"

definition EncodeSmartAccessRenewal :: "SmartAccessRenewalTarget \<Rightarrow> string" where
  "EncodeSmartAccessRenewal target =
     (let body = sn_profile_digest target @ ''|'' @ sn_expected_lease_id target @ ''|'' @
            sn_next_lease_id target @ ''|'' @ sn_issued_at target @ ''|'' @
            sn_new_flows_until target @ ''|'' @ sn_active_flows_until target
      in if DecodeSmartAccessRenewal body \<noteq> None then body else [])"

section \<open>Frames\<close>

definition IsValidRequestBody :: "Command \<Rightarrow> string \<Rightarrow> bool" where
  "IsValidRequestBody command body =
     (if command = kConfigureBoundSmartAccessRuntimeControl then IsBoundSmartAccessRuntimeControl body
      else if command = kObserveNetworkContext then DecodeNetworkObservation body \<noteq> None
      else if command = kProbeCandidate then DecodeCandidateProbe body \<noteq> None
      else if command = kCancelCandidateProbe then DecodeCancellationTarget body \<noteq> None
      else if command = kPromoteTransportLease then DecodeTransportLeasePromotion body \<noteq> None
      else if command = kRevokeTransportLease then DecodeTransportLeaseRevocation body \<noteq> None
      else if command = kConnectWithIdentity then DecodeBoundConnect body \<noteq> None
      else if command = kStageProfile \<or> command = kStageBoundProfile \<or> command = kReplaceManagedProfile
        then IsBoundedProfile body
      else if command = kConnect \<or> command = kRevokeRoutingCatalog \<or>
              command = kAcknowledgeSmartAccessRestrictions \<or> command = kReadSmartAccessLeases
        then IsProfileDigest body
      else if command = kCancel \<or> command = kCancelConnectAndConfirm
        then DecodeCancellationTarget body \<noteq> None
      else if command = kRevokeSmartAccessLease then DecodeSmartAccessRevocation body \<noteq> None
      else if command = kRevokeSmartAccessPolicy then IsSmartAccessPolicyRevocation body
      else if command = kRevokeRoutingCatalogService then IsRoutingCatalogServiceRevocation body
      else if command = kRenewSmartAccessLease then DecodeSmartAccessRenewal body \<noteq> None
      else if command = kConfigureSmartAccessRuntimeControl \<or> command = kConfigureSmartAccessRenewal
        then IsSmartAccessRuntimeControl body
      else body = [])"

definition ResponseBodyLimit :: "Command \<Rightarrow> string \<Rightarrow> nat" where
  "ResponseBodyLimit command body =
     (if command = kProbeCandidate then kMaxCandidateProbeResultBodySize
      else if command = kReadSmartAccessLeases then kMaxSmartAccessLeasesBodySize
      else if command = kReadSmartAccessRestrictions then kMaxRestrictionSnapshotBodySize
      else if starts_with ''phase='' body then kMaxRuntimeSnapshotBodySize
      else kMaxControlBodySize)"

definition IsValidFrame :: "Frame \<Rightarrow> bool" where
  "IsValidFrame frame =
     (if \<not> IsKnownCommand (fr_command frame) \<or> \<not> IsKnownStatus (fr_status frame) \<or>
         IsZeroIdentifier (fr_correlation_id frame) \<or> kMaxBodySize < length (fr_body frame)
      then False
      else case fr_kind frame of
        kHelloRequest \<Rightarrow>
          fr_command frame = kHello \<and> fr_status frame = kStatusNone \<and>
          IsZeroIdentifier (fr_session_token frame) \<and> IsZeroIdentifier (fr_operation_nonce frame) \<and>
          fr_deadline_unix_ms frame = 0 \<and> fr_body frame = []
      | kRequest \<Rightarrow>
          fr_command frame \<noteq> kHello \<and> fr_status frame = kStatusNone \<and>
          \<not> IsZeroIdentifier (fr_session_token frame) \<and> \<not> IsZeroIdentifier (fr_operation_nonce frame) \<and>
          fr_deadline_unix_ms frame \<noteq> 0 \<and> fr_capabilities frame = 0 \<and>
          IsValidRequestBody (fr_command frame) (fr_body frame)
      | kResponse \<Rightarrow>
          (if fr_status frame = kStatusNone \<or> IsZeroIdentifier (fr_session_token frame) \<or>
              \<not> IsZeroIdentifier (fr_operation_nonce frame) \<or> fr_deadline_unix_ms frame \<noteq> 0
           then False
           else (fr_command frame = kHello \<or> fr_capabilities frame = 0) \<and>
                IsBoundedAsciiControl (fr_body frame)
                  (ResponseBodyLimit (fr_command frame) (fr_body frame)))
      | FrameKind_raw w \<Rightarrow> False)"

definition DecodeKind :: "u16 \<Rightarrow> FrameKind option" where
  "DecodeKind raw_kind =
     (if raw_kind = kind_code kHelloRequest then Some kHelloRequest
      else if raw_kind = kind_code kRequest then Some kRequest
      else if raw_kind = kind_code kResponse then Some kResponse
      else None)"

definition ExpectedFrameSize :: "u8 list option \<Rightarrow> nat option" where
  "ExpectedFrameSize header =
     (case header of
        None \<Rightarrow> None
      | Some bytes \<Rightarrow>
          if length bytes \<noteq> kFrameHeaderSize then None
          else
            (let body_size = unat (ReadUint32 (drop 12 bytes))
             in if ReadUint32 bytes \<noteq> kFrameMagic \<or> ReadUint16 (drop 4 bytes) \<noteq> kProtocolVersion \<or>
                   kMaxBodySize < body_size then None
                else Some (kFrameHeaderSize + body_size)))"

definition Encode :: "Frame \<Rightarrow> u8 list" where
  "Encode frame =
     (if \<not> IsValidFrame frame then []
      else AppendUint32 kFrameMagic @ AppendUint16 kProtocolVersion @
           AppendUint16 (kind_code (fr_kind frame)) @ AppendUint16 (command_code (fr_command frame)) @
           AppendUint16 (status_code (fr_status frame)) @
           AppendUint32 (of_nat (length (fr_body frame))) @
           fr_correlation_id frame @ fr_session_token frame @ fr_operation_nonce frame @
           AppendUint64 (fr_deadline_unix_ms frame) @ AppendUint64 (fr_capabilities frame) @
           map byte_of (fr_body frame))"

definition Decode :: "u8 list option \<Rightarrow> Frame option" where
  "Decode buffer =
     (case buffer of
        None \<Rightarrow> None
      | Some bytes \<Rightarrow>
          if length bytes < kFrameHeaderSize \<or> kMaxFrameSize < length bytes then None
          else
            (case (ExpectedFrameSize (Some (take kFrameHeaderSize bytes)), DecodeKind (ReadUint16 (drop 6 bytes))) of
               (Some expected_size, Some kind) \<Rightarrow>
                 if expected_size \<noteq> length bytes then None
                 else
                   (let decoded = \<lparr>fr_kind = kind, fr_command = command_of_code (ReadUint16 (drop 8 bytes)),
                          fr_status = status_of_code (ReadUint16 (drop 10 bytes)),
                          fr_correlation_id = take 16 (drop 16 bytes),
                          fr_session_token = take 16 (drop 32 bytes),
                          fr_operation_nonce = take 16 (drop 48 bytes),
                          fr_deadline_unix_ms = ReadUint64 (drop 64 bytes),
                          fr_capabilities = ReadUint64 (drop 72 bytes),
                          fr_body = map char_of_byte (drop kFrameHeaderSize bytes)\<rparr>
                    in if \<not> IsValidFrame decoded then None else Some decoded)
             | _ \<Rightarrow> None))"

text \<open>The identifiers of a frame are 16-byte arrays.\<close>

definition wf_frame :: "Frame \<Rightarrow> bool" where
  "wf_frame frame \<longleftrightarrow>
     wf_identifier (fr_correlation_id frame) \<and> wf_identifier (fr_session_token frame) \<and>
     wf_identifier (fr_operation_nonce frame)"

definition wf_target :: "CancellationTarget \<Rightarrow> bool" where
  "wf_target target \<longleftrightarrow>
     wf_identifier (ct_session_token target) \<and> wf_identifier (ct_operation_nonce target)"

end
