(* ===== verification/Frame_Laws.thy ===== *)
theory Frame_Laws
  imports Protocol
begin

text \<open>
  The frame codec of \<^verbatim>\<open>service_protocol.cpp\<close>: little-endian integers round-trip, a valid
  frame is decoded from its encoding, a decoder accepts nothing but encodings of valid
  frames, and the header alone determines the size that a reader of the pipe has to fetch.
\<close>

section \<open>Header integers\<close>

text \<open>Bit \<open>n\<close> of a little-endian integer is bit \<open>n mod 8\<close> of byte \<open>n div 8\<close>.\<close>

lemma and_0xFF: "(x :: 'a::len word) AND 0xFF = take_bit 8 x"
  by (simp add: take_bit_eq_mask mask_eq_exp_minus_1)

lemma bit_byte_of_word:
  "bit (ucast (drop_bit k (v :: 'a::len word) AND 0xFF) :: u8) n \<longleftrightarrow> n < 8 \<and> bit v (k + n)"
  unfolding and_0xFF
  by (simp only: bit_ucast_iff bit_take_bit_iff bit_drop_bit_eq comp_def) (auto dest: bit_imp_le_length)

lemma bit_or_byte:
  "bit (value OR push_bit (k * 8) (ucast (b :: u8)) :: 'a::len word) n \<longleftrightarrow>
     bit value n \<or> (n < LENGTH('a) \<and> n div 8 = k \<and> bit b (n mod 8))"
proof -
  have "k * 8 \<le> n \<and> bit b (n - k * 8) \<longleftrightarrow> n div 8 = k \<and> bit b (n mod 8)"
  proof
    assume a: "k * 8 \<le> n \<and> bit b (n - k * 8)"
    then have "k * 8 \<le> n" and "n - k * 8 < 8" by (auto dest: bit_imp_le_length)
    then obtain d where "n = k * 8 + d" and "d < 8" by (metis le_add_diff_inverse)
    with a show "n div 8 = k \<and> bit b (n mod 8)" by simp
  next
    assume a: "n div 8 = k \<and> bit b (n mod 8)"
    then have "n = k * 8 + n mod 8" by (metis div_mult_mod_eq)
    with a show "k * 8 \<le> n \<and> bit b (n - k * 8)"
      by (metis diff_add_inverse le_add1)
  qed
  then show ?thesis
    by (auto simp only: bit_or_iff bit_push_bit_iff bit_ucast_iff) (auto simp: bit_imp_le_length)
qed

definition le_read :: "nat \<Rightarrow> u8 list \<Rightarrow> 'a::len word" where
  "le_read k input =
     foldl (\<lambda>value offset. value OR push_bit (offset * 8) (ucast (input ! offset))) 0 [0..<k]"

definition le_append :: "nat \<Rightarrow> 'a::len word \<Rightarrow> u8 list" where
  "le_append k v = map (\<lambda>i. ucast (drop_bit (i * 8) v AND 0xFF)) [0..<k]"

lemma bit_le_read:
  "bit (le_read k input :: 'a::len word) n \<longleftrightarrow>
     n < LENGTH('a) \<and> n div 8 < k \<and> bit (input ! (n div 8)) (n mod 8)"
proof (induction k)
  case 0
  then show ?case by (simp add: le_read_def)
next
  case (Suc k)
  have "bit (le_read (Suc k) input :: 'a word) n \<longleftrightarrow>
      bit (le_read k input OR push_bit (k * 8) (ucast (input ! k)) :: 'a word) n"
    by (simp add: le_read_def)
  also have "\<dots> \<longleftrightarrow> n < LENGTH('a) \<and> n div 8 < Suc k \<and> bit (input ! (n div 8)) (n mod 8)"
    unfolding bit_or_byte Suc by (auto simp: less_Suc_eq)
  finally show ?case .
qed

lemma le_read_append:
  assumes "LENGTH('a) \<le> 8 * k"
  shows "le_read k (le_append k v @ r) = (v :: 'a::len word)"
proof (rule bit_word_eqI)
  fix n assume n: "n < LENGTH('a)"
  then have k: "n div 8 < k" using assms by auto
  have "bit (le_read k (le_append k v @ r) :: 'a word) n \<longleftrightarrow> bit v (n div 8 * 8 + n mod 8)"
    using n k by (simp add: bit_le_read le_append_def nth_append bit_byte_of_word)
  then show "bit (le_read k (le_append k v @ r) :: 'a word) n \<longleftrightarrow> bit v n" by simp
qed

lemma le_append_read:
  assumes "length bs = k" and "8 * k \<le> LENGTH('a)"
  shows "le_append k (le_read k (bs @ r) :: 'a::len word) = bs"
proof (rule nth_equalityI)
  fix i assume "i < length (le_append k (le_read k (bs @ r) :: 'a word))"
  then have i: "i < k" by (simp add: le_append_def)
  show "le_append k (le_read k (bs @ r) :: 'a word) ! i = bs ! i"
  proof (rule bit_word_eqI)
    fix j assume j: "j < LENGTH(8)"
    then have "(i * 8 + j) div 8 = i" "(i * 8 + j) mod 8 = j" "i * 8 + j < LENGTH('a)"
      using i assms(2) by auto
    then show "bit (le_append k (le_read k (bs @ r) :: 'a word) ! i) j \<longleftrightarrow> bit (bs ! i) j"
      using i j assms(1) by (simp add: le_append_def bit_byte_of_word bit_le_read nth_append)
  qed
qed (simp add: le_append_def assms(1))

lemma upt_4: "[0..<4] = [0, 1, 2, 3 :: nat]" by (simp add: upt_rec)
lemma upt_8: "[0..<8] = [0, 1, 2, 3, 4, 5, 6, 7 :: nat]" by (simp add: upt_rec)

lemma uint16_le: "ReadUint16 = le_read 2" "AppendUint16 = le_append 2"
  by (simp_all add: fun_eq_iff ReadUint16_def AppendUint16_def le_read_def le_append_def upt_rec)

lemma uint32_le: "ReadUint32 = le_read 4" "AppendUint32 = le_append 4"
  by (simp_all add: fun_eq_iff ReadUint32_def AppendUint32_def le_read_def le_append_def upt_4)

lemma uint64_le: "ReadUint64 = le_read 8" "AppendUint64 = le_append 8"
  by (simp_all add: fun_eq_iff ReadUint64_def AppendUint64_def le_read_def le_append_def upt_8)

lemmas uint_le = uint16_le uint32_le uint64_le

lemma length_le_append [simp]: "length (le_append k v) = k"
  by (simp add: le_append_def)


section \<open>Frames\<close>

lemma length_uints [simp]:
  "length (AppendUint16 a) = 2" "length (AppendUint32 b) = 4" "length (AppendUint64 c) = 8"
  by (simp_all add: uint_le)

lemma Read_Append [simp]:
  "ReadUint16 (AppendUint16 a @ r) = a" "ReadUint32 (AppendUint32 b @ r) = b"
  "ReadUint64 (AppendUint64 c @ r) = c"
  by (simp_all add: uint_le le_read_append)

lemma Append_Read:
  "n + 2 \<le> length bs \<Longrightarrow> AppendUint16 (ReadUint16 (drop n bs)) = take 2 (drop n bs)"
  "n + 4 \<le> length bs \<Longrightarrow> AppendUint32 (ReadUint32 (drop n bs)) = take 4 (drop n bs)"
  "n + 8 \<le> length bs \<Longrightarrow> AppendUint64 (ReadUint64 (drop n bs)) = take 8 (drop n bs)"
  using le_append_read [of "take 2 (drop n bs)" 2 "drop 2 (drop n bs)", where 'a = 16]
    le_append_read [of "take 4 (drop n bs)" 4 "drop 4 (drop n bs)", where 'a = 32]
    le_append_read [of "take 8 (drop n bs)" 8 "drop 8 (drop n bs)", where 'a = 64]
  by (simp_all add: uint_le del: drop_drop)

lemma DecodeKind_SomeD: "DecodeKind w = Some k \<Longrightarrow> kind_code k = w \<and> (\<forall>v. k \<noteq> FrameKind_raw v)"
  by (auto simp: DecodeKind_def split: if_splits)

lemma IsKnownCommand_iff: "IsKnownCommand c \<longleftrightarrow> c \<in> set known_commands"
  by (cases c) (simp_all add: known_commands_def)

lemma IsKnownStatus_iff: "IsKnownStatus s \<longleftrightarrow> s \<in> set known_statuses"
  by (cases s) (simp_all add: known_statuses_def)

lemma IsValidFrameD:
  assumes "IsValidFrame f"
  shows "IsKnownCommand (fr_command f)" "IsKnownStatus (fr_status f)"
    "length (fr_body f) \<le> kMaxBodySize" "\<not> IsZeroIdentifier (fr_correlation_id f)"
    "\<forall>w. fr_kind f \<noteq> FrameKind_raw w"
  using assms by (auto simp: IsValidFrame_def split: if_splits FrameKind.splits)

lemma Encode_eq_Nil_iff [simp]: "Encode f = [] \<longleftrightarrow> \<not> IsValidFrame f"
  by (simp add: Encode_def uint_le) (simp add: le_append_def)

lemma Encode_length:
  "wf_frame f \<Longrightarrow> IsValidFrame f \<Longrightarrow> length (Encode f) = kFrameHeaderSize + length (fr_body f)"
  by (simp add: Encode_def wf_frame_def wf_identifier_def proto_limits)

lemma Decode_Encode:
  assumes wf: "wf_frame f" and valid: "IsValidFrame f"
  shows "Decode (Some (Encode f)) = Some f"
proof -
  note len = wf [unfolded wf_frame_def wf_identifier_def]
  note known = IsValidFrameD [OF valid]
  have cmd: "command_of_code (command_code (fr_command f)) = fr_command f"
    and st: "status_of_code (status_code (fr_status f)) = fr_status f"
    using known by (simp_all add: IsKnownCommand_iff IsKnownStatus_iff
        command_of_code_known status_of_code_known)
  have kd: "DecodeKind (kind_code (fr_kind f)) = Some (fr_kind f)"
    using known(5) by (cases "fr_kind f") (simp_all add: DecodeKind_def)
  have sz: "unat (of_nat (length (fr_body f)) :: u32) = length (fr_body f)"
    using known(3) by (simp add: proto_limits unat_of_nat)
  have eta: "\<lparr>fr_kind = fr_kind f, fr_command = fr_command f, fr_status = fr_status f,
      fr_correlation_id = fr_correlation_id f, fr_session_token = fr_session_token f,
      fr_operation_nonce = fr_operation_nonce f, fr_deadline_unix_ms = fr_deadline_unix_ms f,
      fr_capabilities = fr_capabilities f, fr_body = fr_body f\<rparr> = f" by simp
  show ?thesis
    using valid known(3) len
    by (simp add: eta Decode_def ExpectedFrameSize_def Encode_def cmd st kd sz proto_limits)
qed

lemma Encode_Decode:
  assumes "Decode (Some bytes) = Some f"
  shows "wf_frame f \<and> IsValidFrame f \<and> Encode f = bytes"
proof -
  obtain n k where n: "ExpectedFrameSize (Some (take 80 bytes)) = Some n"
    and k: "DecodeKind (ReadUint16 (drop 6 bytes)) = Some k" and len: "n = length bytes"
    and valid: "IsValidFrame f"
    and f: "f = \<lparr>fr_kind = k, fr_command = command_of_code (ReadUint16 (drop 8 bytes)),
              fr_status = status_of_code (ReadUint16 (drop 10 bytes)),
              fr_correlation_id = take 16 (drop 16 bytes), fr_session_token = take 16 (drop 32 bytes),
              fr_operation_nonce = take 16 (drop 48 bytes),
              fr_deadline_unix_ms = ReadUint64 (drop 64 bytes),
              fr_capabilities = ReadUint64 (drop 72 bytes),
              fr_body = map char_of_byte (drop 80 bytes)\<rparr>"
    and long: "80 \<le> length bytes"
    using assms by (auto simp: Decode_def Let_def proto_limits split: if_splits option.splits)
  have hdr: "ReadUint32 (take 80 bytes) = kFrameMagic" "ReadUint16 (drop 4 (take 80 bytes)) = kProtocolVersion"
    and size: "unat (ReadUint32 (drop 12 (take 80 bytes))) = length bytes - 80"
    using n len by (auto simp: ExpectedFrameSize_def Let_def proto_limits split: if_splits)
  have chunk: "take m (drop o' bytes) @ drop (o' + m) bytes = drop o' bytes" for m o'
    using append_take_drop_id [of m "drop o' bytes"] by (simp add: add.commute)
  note chunks = chunk [of 4 0, simplified] chunk [of 2 4, simplified] chunk [of 2 6, simplified]
    chunk [of 2 8, simplified] chunk [of 2 10, simplified] chunk [of 4 12, simplified]
    chunk [of 16 16, simplified] chunk [of 16 32, simplified] chunk [of 16 48, simplified]
    chunk [of 8 64, simplified] chunk [of 8 72, simplified]
  have parts: "AppendUint32 kFrameMagic = take 4 bytes" "AppendUint16 kProtocolVersion = take 2 (drop 4 bytes)"
    using Append_Read(2) [of 0 "take 80 bytes"] Append_Read(1) [of 4 "take 80 bytes"] long hdr
    by (simp_all add: min_def drop_take)
  have "AppendUint32 (of_nat (length bytes - 80)) = take 4 (drop 12 bytes)"
    using Append_Read(2) [of 12 "take 80 bytes"] long
    by (simp add: min_def drop_take flip: size)
  moreover have "kind_code k = ReadUint16 (drop 6 bytes)"
    using DecodeKind_SomeD [OF k] by simp
  ultimately have "Encode f = bytes"
    using valid long
    by (simp add: Encode_def f parts Append_Read chunks)
  then show ?thesis
    using valid long by (simp add: wf_frame_def wf_identifier_def f)
qed

lemma Decode_iff:
  "Decode (Some bytes) = Some f \<longleftrightarrow> wf_frame f \<and> IsValidFrame f \<and> Encode f = bytes"
  using Decode_Encode [of f] Encode_Decode [of bytes f] by auto

interpretation frame: codec Encode "\<lambda>bytes. Decode (Some bytes)" wf_frame "[]"
  by unfold_locales (auto simp: Decode_iff, simp add: Decode_def proto_limits)

lemma ExpectedFrameSize_Encode:
  assumes "wf_frame f" and "IsValidFrame f"
  shows "ExpectedFrameSize (Some (take kFrameHeaderSize (Encode f @ rest))) = Some (length (Encode f))"
  using assms IsValidFrameD(3) [OF assms(2)]
  by (simp add: ExpectedFrameSize_def Encode_def wf_frame_def wf_identifier_def proto_limits unat_of_nat)

section \<open>Properties\<close>

text \<open>
  C27. The frame codec is exact: \<^verbatim>\<open>Decode\<close> returns a frame for a byte buffer exactly when
  the frame has 16-byte identifiers, is admitted by \<^verbatim>\<open>IsValidFrame\<close>, and its encoding is
  that buffer.  So \<^verbatim>\<open>Encode\<close> followed by \<^verbatim>\<open>Decode\<close> is the identity on valid frames and no
  other buffer (padded, truncated, with another header) is ever accepted.
\<close>

theorem frame_codec_exact:
  "Decode (Some bytes) = Some f \<longleftrightarrow> wf_frame f \<and> IsValidFrame f \<and> Encode f = bytes"
  by (rule Decode_iff)

text \<open>
  Framing on a byte stream: for a valid frame followed by any further bytes, the size
  computed by \<^verbatim>\<open>ExpectedFrameSize\<close> from the first 80 bytes is the length of that frame, it is
  at most \<^verbatim>\<open>kMaxFrameSize\<close>, and decoding that many bytes gives the frame back.
\<close>

lemma stream_framing:
  assumes "wf_frame f" and "IsValidFrame f"
  shows "ExpectedFrameSize (Some (take kFrameHeaderSize (Encode f @ rest))) = Some (length (Encode f)) \<and>
    kFrameHeaderSize \<le> length (Encode f) \<and> length (Encode f) \<le> kMaxFrameSize \<and>
    Decode (Some (take (length (Encode f)) (Encode f @ rest))) = Some f"
  using IsValidFrameD(3) [OF assms(2)] Encode_length [OF assms] ExpectedFrameSize_Encode [OF assms]
  by (simp add: Decode_Encode [OF assms] kMaxFrameSize_def)

definition sample_hello :: Frame where
  "sample_hello = \<lparr>fr_kind = kHelloRequest, fr_command = kHello, fr_status = kStatusNone,
     fr_correlation_id = replicate 16 7, fr_session_token = replicate 16 0,
     fr_operation_nonce = replicate 16 0, fr_deadline_unix_ms = 0, fr_capabilities = 3, fr_body = []\<rparr>"

lemma stream_framing_witness:
  "wf_frame sample_hello \<and> IsValidFrame sample_hello \<and>
   ExpectedFrameSize (Some (take kFrameHeaderSize (Encode sample_hello @ [1, 2, 3]))) =
     Some (length (Encode sample_hello))"
proof -
  have "wf_frame sample_hello" "IsValidFrame sample_hello"
    by (simp_all add: sample_hello_def wf_frame_def wf_identifier_def IsValidFrame_def
        IsZeroIdentifier_def list_all_iff proto_limits)
  then show ?thesis using stream_framing [of sample_hello "[1, 2, 3]"] by blast
qed

end
