(* ===== verification/Body_Laws.thy ===== *)
theory Body_Laws
  imports Frame_Laws
begin

text \<open>
  The text bodies of the structured requests.  Each pair of an encoder and a decoder of
  \<^verbatim>\<open>service_protocol.cpp\<close> meets the codec contract: what is encoded is decoded to the same
  value, and a decoder accepts canonical bodies only.
\<close>

section \<open>Separator-free fields\<close>

lemma IsProfileDigest_free: "IsProfileDigest d \<Longrightarrow> \<not> is_lower_hex c \<Longrightarrow> c \<notin> set d"
  by (auto simp: IsProfileDigest_def list_all_iff)

lemma only_of_hex: "only_of hex_digits pos s \<longleftrightarrow> list_all is_lower_hex (drop pos s)"
  using is_lower_hex_set unfolding only_of_def list_all_iff by blast

lemma prefixed_free:
  assumes "starts_with p s" and "only_of hex_digits n s" and "length p = n" and "c \<notin> set p"
    and "\<not> is_lower_hex c"
  shows "c \<notin> set s"
proof -
  from assms(1) obtain r where "s = p @ r" by (auto simp: starts_with_iff)
  with assms show ?thesis by (auto simp: only_of_hex list_all_iff)
qed

section \<open>Cancellation targets\<close>

lemma hex_string_append: "hex_string (a @ b) = hex_string a @ hex_string b"
  by (simp add: hex_string_def)

lemma cancellation_values:
  "length body = 2 * n \<Longrightarrow>
   map (\<lambda>index. byte_of_hex (body ! (index * 2)) (body ! (index * 2 + 1))) [0..<n] = hex_bytes body"
  by (rule nth_equalityI) (simp_all add: hex_bytes_nth mult.commute)

lemma DecodeCancellationTarget_eq:
  "DecodeCancellationTarget body =
     (let t = \<lparr>ct_session_token = take 16 (hex_bytes body), ct_operation_nonce = drop 16 (hex_bytes body)\<rparr>
      in if IsProfileDigest body \<and> \<not> IsZeroIdentifier (ct_session_token t) \<and>
            \<not> IsZeroIdentifier (ct_operation_nonce t) then Some t else None)"
proof (cases "IsProfileDigest body")
  case True
  then have "length body = 2 * 32" by (simp add: IsProfileDigest_length)
  with True show ?thesis
    unfolding DecodeCancellationTarget_def by (simp only: cancellation_values Let_def) simp
qed (simp add: DecodeCancellationTarget_def)

lemma cancellation_dec_enc:
  "wf_target t \<Longrightarrow> EncodeCancellationTarget t \<noteq> [] \<Longrightarrow>
   DecodeCancellationTarget (EncodeCancellationTarget t) = Some t"
  by (simp add: EncodeCancellationTarget_def DecodeCancellationTarget_eq wf_target_def
      wf_identifier_def IsProfileDigest_def hex_string_lower Let_def flip: hex_string_append
      split: if_splits)

lemma cancellation_enc_dec:
  "DecodeCancellationTarget b = Some t \<Longrightarrow> wf_target t \<and> EncodeCancellationTarget t = b"
  by (auto simp: EncodeCancellationTarget_def DecodeCancellationTarget_eq wf_target_def
      wf_identifier_def IsProfileDigest_def Let_def split: if_splits simp flip: hex_string_append)

section \<open>Bound connect\<close>

lemma connect_fields_join:
  "ys \<noteq> [] \<Longrightarrow> \<forall>y \<in> set ys. CHR ''|'' \<notin> set y \<Longrightarrow>
   connect_fields (p @ join CHR ''|'' ys) (length p) (length ys) = Some ys"
proof (induction ys arbitrary: p)
  case (Cons y ys)
  show ?case
  proof (cases "ys = []")
    case True
    with Cons.prems show ?thesis by (simp add: find_char_none)
  next
    case False
    from Cons.prems have y: "CHR ''|'' \<notin> set y" by simp
    have "connect_fields ((p @ y @ ''|'') @ join CHR ''|'' ys) (length (p @ y @ ''|'')) (length ys) = Some ys"
      using Cons.prems False by (intro Cons.IH) auto
    then show ?thesis
      using False y by (simp add: join_Cons find_char_here substr_def Let_def)
  qed
qed simp

definition valid_connect :: "BoundConnectTarget \<Rightarrow> bool" where
  "valid_connect t \<longleftrightarrow>
     IsProfileDigest (bc_core_module_sha256 t) \<and> IsProfileDigest (bc_profile_digest t) \<and>
     length (bc_boot_ref t) = 40 \<and> starts_with ''windows:'' (bc_boot_ref t) \<and>
     only_of hex_digits 8 (bc_boot_ref t) \<and> IsTransportNetworkContextRef (bc_network_context_ref t) \<and>
     bc_deadline_elapsed_ms t \<le> 9007199254740991 \<and>
     bc_started_elapsed_ms t < bc_deadline_elapsed_ms t \<and>
     bc_deadline_elapsed_ms t - bc_started_elapsed_ms t \<le> 86400000"

lemma EncodeBoundConnect_eq:
  "EncodeBoundConnect t =
     (if valid_connect t
      then join CHR ''|'' [bc_core_module_sha256 t, bc_profile_digest t, bc_boot_ref t,
        to_string (unat (bc_started_elapsed_ms t)), to_string (unat (bc_deadline_elapsed_ms t)),
        bc_network_context_ref t]
      else [])"
  by (simp add: EncodeBoundConnect_def valid_connect_def not_less not_le)

lemma EncodeBoundConnect_Nil_iff: "EncodeBoundConnect t = [] \<longleftrightarrow> \<not> valid_connect t"
  by (simp add: EncodeBoundConnect_eq)

lemma parse_u64_to_string [simp]: "parse_u64 (to_string (unat (w :: u64))) = Some w"
  using unsigned_less [of w, where 'a = nat] by (simp add: parse_u64_def)

lemma valid_connect_free:
  assumes "valid_connect t"
  shows "\<forall>y \<in> set [bc_core_module_sha256 t, bc_profile_digest t, bc_boot_ref t,
      to_string (unat (bc_started_elapsed_ms t)), to_string (unat (bc_deadline_elapsed_ms t)),
      bc_network_context_ref t]. CHR ''|'' \<notin> set y"
  using assms prefixed_free [of "''windows:''" "bc_boot_ref t" 8 "CHR ''|''"]
    prefixed_free [of "''network_''" "bc_network_context_ref t" 8 "CHR ''|''"]
  by (simp add: valid_connect_def IsTransportNetworkContextRef_def IsProfileDigest_free to_string_notin)

definition printable :: "char \<Rightarrow> bool" where
  "printable c \<longleftrightarrow> CHR 0x20 \<le> c \<and> c \<le> CHR 0x7E"

lemma IsBoundedAsciiControl_iff:
  "IsBoundedAsciiControl s n \<longleftrightarrow> length s \<le> n \<and> list_all printable s"
  by (simp add: IsBoundedAsciiControl_def printable_def [abs_def])

lemma hex_printable: "is_lower_hex c \<Longrightarrow> printable c"
  by (auto simp: printable_def is_lower_hex_def less_eq_char_def)

lemma digit_printable: "is_digit c \<Longrightarrow> printable c"
  by (auto simp: printable_def is_digit_def less_eq_char_def)

lemma printable_classes:
  "IsProfileDigest d \<Longrightarrow> list_all printable d"
  "list_all is_lower_hex d \<Longrightarrow> list_all printable d"
  "list_all printable (to_string n)"
  using to_string_digits [of n]
  by (auto simp: IsProfileDigest_def list_all_iff hex_printable digit_printable)

lemma prefixed_printable:
  assumes "starts_with p s" and "only_of hex_digits n s" and "length p = n" and "list_all printable p"
  shows "list_all printable s"
proof -
  from assms(1) obtain r where "s = p @ r" by (auto simp: starts_with_iff)
  with assms show ?thesis by (simp add: only_of_hex printable_classes)
qed

lemma valid_connect_bounded:
  assumes "valid_connect t"
  shows "IsBoundedAsciiControl (EncodeBoundConnect t) kMaxControlBodySize"
proof -
  have u64: "length (to_string (unat (w :: u64))) \<le> 20" for w
    using unsigned_less [of w, where 'a = nat] by (intro length_to_string) simp_all
  have "list_all printable ''windows:''" "list_all printable ''network_''" "printable CHR ''|''"
    by (simp_all add: printable_def)
  then show ?thesis
    using assms u64 [of "bc_started_elapsed_ms t"] u64 [of "bc_deadline_elapsed_ms t"]
      prefixed_printable [of "''windows:''" "bc_boot_ref t" 8]
      prefixed_printable [of "''network_''" "bc_network_context_ref t" 8]
    by (simp add: EncodeBoundConnect_eq IsBoundedAsciiControl_iff valid_connect_def
        IsTransportNetworkContextRef_def printable_classes IsProfileDigest_length proto_limits)
qed

lemma boundConnect_dec_enc:
  assumes "EncodeBoundConnect t \<noteq> []"
  shows "DecodeBoundConnect (EncodeBoundConnect t) = Some t"
proof -
  have v: "valid_connect t" using assms by (simp add: EncodeBoundConnect_Nil_iff)
  have cf: "connect_fields (EncodeBoundConnect t) 0 6 =
      Some [bc_core_module_sha256 t, bc_profile_digest t, bc_boot_ref t,
        to_string (unat (bc_started_elapsed_ms t)), to_string (unat (bc_deadline_elapsed_ms t)),
        bc_network_context_ref t]"
    using connect_fields_join [OF _ valid_connect_free [OF v], of "[]"] v
    by (simp add: EncodeBoundConnect_eq eval_nat_numeral)
  have eta: "\<lparr>bc_core_module_sha256 = bc_core_module_sha256 t, bc_profile_digest = bc_profile_digest t,
      bc_boot_ref = bc_boot_ref t, bc_started_elapsed_ms = bc_started_elapsed_ms t,
      bc_deadline_elapsed_ms = bc_deadline_elapsed_ms t,
      bc_network_context_ref = bc_network_context_ref t\<rparr> = t" by simp
  show ?thesis
    by (simp add: DecodeBoundConnect_def valid_connect_bounded [OF v] cf eta)
qed

lemma boundConnect_enc_dec: "DecodeBoundConnect b = Some t \<Longrightarrow> EncodeBoundConnect t = b"
  by (auto simp: DecodeBoundConnect_def Let_def split: if_splits option.splits)


section \<open>Network observation\<close>

lemma observation_fields_join:
  "ys \<noteq> [] \<Longrightarrow> \<forall>y \<in> set (butlast ys). newline \<notin> set y \<Longrightarrow>
   observation_fields (p @ join newline ys) (length p) (length ys - 1) = Some ys"
proof (induction ys arbitrary: p)
  case (Cons y ys)
  show ?case
  proof (cases "ys = []")
    case False
    with Cons.prems have y: "newline \<notin> set y" by simp
    from False obtain n where n: "length ys = Suc n" by (cases ys) auto
    have "observation_fields ((p @ y @ [newline]) @ join newline ys) (length (p @ y @ [newline])) (length ys - 1) = Some ys"
      using Cons.prems False by (intro Cons.IH) auto
    then show ?thesis
      using False y n by (simp add: join_Cons find_char_here substr_def)
  qed simp
qed simp

definition valid_observation :: "NetworkObservationRequest \<Rightarrow> bool" where
  "valid_observation t \<longleftrightarrow>
     (no_host t = ''api.pokrov.space'' \<or> no_host t = ''app.pokrov.space'') \<and>
     no_session_token t \<noteq> [] \<and> observation_safe (no_session_token t) 8192 ''.-_'' \<and>
     no_app_version t \<noteq> [] \<and> observation_safe (no_app_version t) 32 ''.+-'' \<and>
     observation_safe (no_profile_revision t) 128 ('' .()+'' @ [CHR 0x27] @ ''-_'') \<and>
     observation_safe (no_runtime_phase t) 32 ''-_'' \<and> IsReportRunId (no_report_run_id t)"

definition observation_list :: "NetworkObservationRequest \<Rightarrow> string list" where
  "observation_list t = [no_host t, no_session_token t, no_app_version t, no_profile_revision t,
     no_runtime_phase t, no_report_run_id t]"

lemma EncodeNetworkObservation_eq:
  "EncodeNetworkObservation t =
     (if valid_observation t then join newline (observation_list t) else [])"
  by (auto simp: EncodeNetworkObservation_def valid_observation_def observation_list_def)

lemma EncodeNetworkObservation_Nil_iff: "EncodeNetworkObservation t = [] \<longleftrightarrow> \<not> valid_observation t"
  by (auto simp: EncodeNetworkObservation_eq observation_list_def)

lemma observation_safe_free:
  "observation_safe v n extra \<Longrightarrow> newline \<notin> set extra \<Longrightarrow> newline \<notin> set v"
  by (auto simp: observation_safe_def list_all_iff less_eq_char_def)

lemma observation_dec_enc:
  assumes "EncodeNetworkObservation t \<noteq> []"
  shows "DecodeNetworkObservation (EncodeNetworkObservation t) = Some t"
proof -
  have v: "valid_observation t" using assms by (simp add: EncodeNetworkObservation_Nil_iff)
  have len: "length (observation_list t) - 1 = 5" "observation_list t \<noteq> []"
    by (simp_all add: observation_list_def)
  have "\<forall>y \<in> set (butlast (observation_list t)). newline \<notin> set y"
    using v by (auto simp: observation_list_def valid_observation_def dest!: observation_safe_free)
  then have fs: "observation_fields (EncodeNetworkObservation t) 0 5 = Some (observation_list t)"
    using observation_fields_join [of "observation_list t" "[]"] v len
    by (simp add: EncodeNetworkObservation_eq)
  have short: "length (EncodeNetworkObservation t) \<le> 8704"
    using v by (auto simp: EncodeNetworkObservation_eq observation_list_def valid_observation_def
        observation_safe_def IsReportRunId_def)
  have eta: "\<lparr>no_host = no_host t, no_session_token = no_session_token t,
      no_app_version = no_app_version t, no_profile_revision = no_profile_revision t,
      no_runtime_phase = no_runtime_phase t, no_report_run_id = no_report_run_id t\<rparr> = t" by simp
  show ?thesis
    using short by (simp add: DecodeNetworkObservation_def fs observation_list_def eta)
qed

lemma observation_enc_dec: "DecodeNetworkObservation b = Some t \<Longrightarrow> EncodeNetworkObservation t = b"
  by (auto simp: DecodeNetworkObservation_def Let_def split: if_splits option.splits)

section \<open>Candidate probes\<close>

definition valid_probe :: "CandidateProbeRequest \<Rightarrow> bool" where
  "valid_probe t \<longleftrightarrow>
     IsCandidateProbeId (cp_probe_id t) \<and> 1 \<le> cp_timeout_ms t \<and> cp_timeout_ms t \<le> 30000 \<and>
     IsTransportNetworkContextRef (cp_network_context_ref t) \<and> cp_config t \<noteq> [] \<and>
     nul \<notin> set (cp_config t) \<and> length (cp_config t) \<le> kMaxProfileBodySize - 256"

lemma find_char_None_iff: "find_char s c 0 = None \<longleftrightarrow> c \<notin> set s"
  by (simp add: find_char_def)

lemma EncodeCandidateProbe_eq:
  "EncodeCandidateProbe t =
     (if valid_probe t
      then cp_probe_id t @ newline # to_string (unat (cp_timeout_ms t)) @ newline #
           cp_network_context_ref t @ newline # cp_config t
      else [])"
  by (auto simp: EncodeCandidateProbe_def valid_probe_def find_char_None_iff not_less not_le)

lemma EncodeCandidateProbe_Nil_iff: "EncodeCandidateProbe t = [] \<longleftrightarrow> \<not> valid_probe t"
  by (simp add: EncodeCandidateProbe_eq)

lemma only_of_free: "only_of cs 0 s \<Longrightarrow> c \<notin> set cs \<Longrightarrow> c \<notin> set s"
  unfolding only_of_def list_all_iff by auto

lemma IsCandidateProbeId_free: "IsCandidateProbeId p \<Longrightarrow> newline \<notin> set p"
  unfolding IsCandidateProbeId_def by (auto dest!: only_of_free [where c = newline])

lemma candidateProbe_dec_enc:
  assumes "EncodeCandidateProbe t \<noteq> []"
  shows "DecodeCandidateProbe (EncodeCandidateProbe t) = Some t"
proof -
  have v: "valid_probe t" using assms by (simp add: EncodeCandidateProbe_Nil_iff)
  define p where "p = cp_probe_id t"
  define n where "n = to_string (unat (cp_timeout_ms t))"
  define r where "r = cp_network_context_ref t"
  define body where "body = EncodeCandidateProbe t"
  have body: "body = p @ newline # n @ newline # r @ newline # cp_config t"
    using v by (simp add: body_def p_def n_def r_def EncodeCandidateProbe_eq)
  have free: "newline \<notin> set p" "newline \<notin> set n" "newline \<notin> set r"
    using v prefixed_free [of "''network_''" r 8 newline]
    by (auto simp: valid_probe_def IsCandidateProbeId_free p_def n_def
        r_def to_string_notin IsTransportNetworkContextRef_def)
  have f1: "find_char body newline 0 = Some (length p)"
    using find_char_here [OF free(1), of 0 "[]"] by (simp add: body)
  have f2: "find_char body newline (length p + 1) = Some (length p + 1 + length n)"
    using find_char_here [OF free(2), of "length p + 1" "p @ [newline]"] by (simp add: body)
  have f3: "find_char body newline (length p + 1 + length n + 1) = Some (length p + length n + length r + 2)"
    using find_char_here [OF free(3), of "length p + 1 + length n + 1" "p @ newline # n @ [newline]"]
    by (simp add: body)
  have num: "from_chars (2 ^ 32) n = Some (unat (cp_timeout_ms t), [])"
    using unsigned_less [of "cp_timeout_ms t", where 'a = nat] by (simp add: n_def)
  have "length n \<le> 10"
    using unsigned_less [of "cp_timeout_ms t", where 'a = nat] by (auto simp: n_def intro!: length_to_string)
  then have short: "length body \<le> kMaxProfileBodySize"
    using v by (simp add: body valid_probe_def IsCandidateProbeId_def
        IsTransportNetworkContextRef_def proto_limits p_def r_def)
  have eta: "\<lparr>cp_probe_id = p, cp_timeout_ms = cp_timeout_ms t, cp_network_context_ref = r,
      cp_config = cp_config t\<rparr> = t" by (simp add: p_def r_def)
  have subs: "substr body 0 (length p) = p" "substr body (length p + 1) (length n) = n"
      "substr body (length p + 1 + length n + 1) (length r) = r"
      "drop (length p + length n + length r + 2 + 1) body = cp_config t"
    by (simp_all add: body substr_def eval_nat_numeral)
  have "DecodeCandidateProbe body = Some t"
    unfolding DecodeCandidateProbe_def
    using short subs f2 f3 num eta by (simp add: f1 Let_def) (simp add: body_def)
  then show ?thesis by (simp add: body_def)
qed

lemma candidateProbe_enc_dec: "DecodeCandidateProbe b = Some t \<Longrightarrow> EncodeCandidateProbe t = b"
  by (auto simp: DecodeCandidateProbe_def Let_def split: if_splits option.splits)

section \<open>Bodies with a fixed layout\<close>

lemma substr_chunk:
  assumes "k + n < length s" and "s ! (k + n) = c"
  shows "drop k s = substr s k n @ c # drop (k + n + 1) s"
proof -
  have "drop k s = take n (drop k s) @ drop k s ! n # drop (Suc n) (drop k s)"
    using assms(1) by (intro id_take_nth_drop) simp
  then show ?thesis using assms by (simp add: substr_def add.commute)
qed

lemma substr_last: "length s = k + n \<Longrightarrow> drop k s = substr s k n"
  by (simp add: substr_def)

lemma timestamps_free:
  assumes "timestamps_at body starts" and "s \<in> set starts" and "s + 20 \<le> length body"
  shows "CHR ''|'' \<notin> set (substr body s 20)"
proof
  assume "CHR ''|'' \<in> set (substr body s 20)"
  then obtain i where i: "i < 20" "body ! (s + i) = CHR ''|''"
    using assms(3) by (auto simp: substr_def in_set_conv_nth)
  with assms(1,2) have "timestamp_char i CHR ''|''"
    unfolding timestamps_at_def list_all_iff by (metis atLeastLessThan_upt atLeastLessThan_iff zero_le)
  then show False by (simp add: timestamp_char_def split: if_splits)
qed

lemma EncodeCancellationTarget_free:
  "\<not> is_lower_hex c \<Longrightarrow> c \<notin> set (EncodeCancellationTarget t)"
  using hex_string_lower by (auto simp: EncodeCancellationTarget_def list_all_iff)

lemma EncodeCancellationTarget_inject:
  assumes "EncodeCancellationTarget s = EncodeCancellationTarget t" and "EncodeCancellationTarget t \<noteq> []"
    and "wf_target s" and "wf_target t"
  shows "s = t"
proof -
  have "Some s = Some t"
    using assms cancellation_dec_enc [of s] cancellation_dec_enc [of t] by metis
  then show ?thesis by simp
qed

definition promotion_list :: "TransportLeasePromotion \<Rightarrow> string list" where
  "promotion_list t = [EncodeCancellationTarget (tp_target t), tp_profile_digest t,
     tp_endpoint_lease_ref t, tp_issued_at t, tp_new_flows_until t, tp_active_flows_until t]"

lemma EncodeTransportLeasePromotion_eq:
  "EncodeTransportLeasePromotion t =
     (let body = join CHR ''|'' (promotion_list t)
      in if DecodeTransportLeasePromotion body \<noteq> None then body else [])"
  by (simp add: EncodeTransportLeasePromotion_def promotion_list_def)

lemma lease_ref_free:
  assumes "substr body n 6 = ''lease_''" and "list_all is_lower_hex (substr body (n + 6) 32)"
  shows "CHR ''|'' \<notin> set (substr body n 38)"
proof -
  have "substr body n 38 = substr body n 6 @ substr body (n + 6) 32"
    using take_add [of 6 32 "drop n body"] by (simp add: substr_def add.commute)
  then show ?thesis using assms by (simp add: hex_free)
qed

lemma DecodeTransportLeasePromotion_SomeD:
  assumes "DecodeTransportLeasePromotion b = Some x"
  shows "b = join CHR ''|'' (promotion_list x)" "wf_target (tp_target x)"
    "\<forall>y \<in> set (promotion_list x). CHR ''|'' \<notin> set y" "EncodeCancellationTarget (tp_target x) \<noteq> []"
proof -
  obtain t where t: "DecodeCancellationTarget (substr b 0 64) = Some t"
    and len: "length b = 231" and seps: "b ! 64 = CHR ''|''" "b ! 129 = CHR ''|''" "b ! 168 = CHR ''|''"
      "b ! 189 = CHR ''|''" "b ! 210 = CHR ''|''"
    and d: "IsProfileDigest (substr b 65 64)" and l: "substr b 130 6 = ''lease_''"
      "list_all is_lower_hex (substr b 136 32)" and ts: "timestamps_at b [169, 190, 211]"
    and x: "x = \<lparr>tp_target = t, tp_profile_digest = substr b 65 64,
       tp_endpoint_lease_ref = substr b 130 38, tp_issued_at = substr b 169 20,
       tp_new_flows_until = substr b 190 20, tp_active_flows_until = substr b 211 20\<rparr>"
    using assms by (auto simp: DecodeTransportLeasePromotion_def split: if_splits)
  have e: "EncodeCancellationTarget t = substr b 0 64" "wf_target t"
    using cancellation_enc_dec [OF t] by auto
  show "b = join CHR ''|'' (promotion_list x)"
    using substr_chunk [of 0 64 b] substr_chunk [of 65 64 b] substr_chunk [of 130 38 b]
      substr_chunk [of 169 20 b] substr_chunk [of 190 20 b] substr_last [of b 211 20] len seps
    by (simp add: promotion_list_def x e)
  show "wf_target (tp_target x)" by (simp add: x e)
  show "EncodeCancellationTarget (tp_target x) \<noteq> []" using len by (auto simp: x e substr_def)
  show "\<forall>y \<in> set (promotion_list x). CHR ''|'' \<notin> set y"
    using timestamps_free [OF ts] lease_ref_free [of b 130] l d len
    by (simp add: promotion_list_def x IsProfileDigest_free EncodeCancellationTarget_free)
qed

lemma promotion_dec_enc:
  assumes "wf_target (tp_target t)" and "EncodeTransportLeasePromotion t \<noteq> []"
  shows "DecodeTransportLeasePromotion (EncodeTransportLeasePromotion t) = Some t"
proof -
  define body where "body = join CHR ''|'' (promotion_list t)"
  obtain x where x: "DecodeTransportLeasePromotion body = Some x"
    and enc: "EncodeTransportLeasePromotion t = body"
    using assms(2) by (auto simp: EncodeTransportLeasePromotion_eq body_def Let_def split: if_splits)
  note d = DecodeTransportLeasePromotion_SomeD [OF x]
  have "promotion_list t = promotion_list x"
    using d(1,3) by (intro join_inject [of _ _ "CHR ''|''"]) (simp_all add: body_def promotion_list_def)
  then have "t = x"
    using EncodeCancellationTarget_inject [of "tp_target t" "tp_target x"] assms(1) d(2,4)
    by (simp add: promotion_list_def)
  then show ?thesis using x enc by simp
qed

lemma promotion_enc_dec:
  assumes "DecodeTransportLeasePromotion b = Some x"
  shows "wf_target (tp_target x) \<and> EncodeTransportLeasePromotion x = b"
  using DecodeTransportLeasePromotion_SomeD [OF assms] assms
  by (simp add: EncodeTransportLeasePromotion_eq Let_def)

definition transport_revocation_list :: "TransportLeaseRevocation \<Rightarrow> string list" where
  "transport_revocation_list t = [EncodeCancellationTarget (tr_target t), tr_profile_digest t,
     tr_endpoint_lease_ref t, if tr_terminate_active t then ''1'' else ''0'']"

lemma EncodeTransportLeaseRevocation_eq:
  "EncodeTransportLeaseRevocation t =
     (let body = join CHR ''|'' (transport_revocation_list t)
      in if DecodeTransportLeaseRevocation body \<noteq> None then body else [])"
  by (simp add: EncodeTransportLeaseRevocation_def transport_revocation_list_def)

lemma flag_text: "length s = k + 1 \<Longrightarrow> s ! k = CHR ''0'' \<or> s ! k = CHR ''1'' \<Longrightarrow>
   drop k s = (if s ! k = CHR ''1'' then ''1'' else ''0'')"
  by (cases "drop k s") (auto simp: Cons_nth_drop_Suc [symmetric])

lemma DecodeTransportLeaseRevocation_SomeD:
  assumes "DecodeTransportLeaseRevocation b = Some x"
  shows "b = join CHR ''|'' (transport_revocation_list x)" "wf_target (tr_target x)"
    "\<forall>y \<in> set (transport_revocation_list x). CHR ''|'' \<notin> set y"
    "EncodeCancellationTarget (tr_target x) \<noteq> []"
proof -
  obtain t where t: "DecodeCancellationTarget (substr b 0 64) = Some t"
    and len: "length b = 170" and seps: "b ! 64 = CHR ''|''" "b ! 129 = CHR ''|''" "b ! 168 = CHR ''|''"
    and flag: "b ! 169 = CHR ''0'' \<or> b ! 169 = CHR ''1''"
    and d: "IsProfileDigest (substr b 65 64)" and l: "substr b 130 6 = ''lease_''"
      "list_all is_lower_hex (substr b 136 32)"
    and x: "x = \<lparr>tr_target = t, tr_profile_digest = substr b 65 64,
       tr_endpoint_lease_ref = substr b 130 38, tr_terminate_active = (b ! 169 = CHR ''1'')\<rparr>"
    using assms by (auto simp: DecodeTransportLeaseRevocation_def split: if_splits)
  have e: "EncodeCancellationTarget t = substr b 0 64" "wf_target t"
    using cancellation_enc_dec [OF t] by auto
  show "b = join CHR ''|'' (transport_revocation_list x)"
    using substr_chunk [of 0 64 b] substr_chunk [of 65 64 b] substr_chunk [of 130 38 b]
      flag_text [of b 169] len seps flag
    by (simp add: transport_revocation_list_def x e)
  show "wf_target (tr_target x)" by (simp add: x e)
  show "EncodeCancellationTarget (tr_target x) \<noteq> []" using len by (auto simp: x e substr_def)
  show "\<forall>y \<in> set (transport_revocation_list x). CHR ''|'' \<notin> set y"
    using lease_ref_free [of b 130] l d
    by (simp add: transport_revocation_list_def x IsProfileDigest_free EncodeCancellationTarget_free)
qed

lemma flag_inject: "(if a then ''1'' else ''0'') = (if b then ''1'' else ''0'') \<longleftrightarrow> a = b"
  by simp

lemma transport_revocation_dec_enc:
  assumes "wf_target (tr_target t)" and "EncodeTransportLeaseRevocation t \<noteq> []"
  shows "DecodeTransportLeaseRevocation (EncodeTransportLeaseRevocation t) = Some t"
proof -
  define body where "body = join CHR ''|'' (transport_revocation_list t)"
  obtain x where x: "DecodeTransportLeaseRevocation body = Some x"
    and enc: "EncodeTransportLeaseRevocation t = body"
    using assms(2) by (auto simp: EncodeTransportLeaseRevocation_eq body_def Let_def split: if_splits)
  note d = DecodeTransportLeaseRevocation_SomeD [OF x]
  have "transport_revocation_list t = transport_revocation_list x"
    using d(1,3) by (intro join_inject [of _ _ "CHR ''|''"]) (simp_all add: body_def transport_revocation_list_def)
  then have "t = x"
    using EncodeCancellationTarget_inject [of "tr_target t" "tr_target x"] assms(1) d(2,4)
    by (simp add: transport_revocation_list_def flag_inject)
  then show ?thesis using x enc by simp
qed

lemma transport_revocation_enc_dec:
  assumes "DecodeTransportLeaseRevocation b = Some x"
  shows "wf_target (tr_target x) \<and> EncodeTransportLeaseRevocation x = b"
  using DecodeTransportLeaseRevocation_SomeD [OF assms] assms
  by (simp add: EncodeTransportLeaseRevocation_eq Let_def)

definition revocation_list :: "SmartAccessRevocationTarget \<Rightarrow> string list" where
  "revocation_list t = [sr_profile_digest t, sr_lease_id t, if sr_terminate_active t then ''1'' else ''0'']"

lemma EncodeSmartAccessRevocation_eq:
  "EncodeSmartAccessRevocation t =
     (let body = join CHR '':'' (revocation_list t)
      in if DecodeSmartAccessRevocation body \<noteq> None then body else [])"
  by (simp add: EncodeSmartAccessRevocation_def revocation_list_def)

lemma DecodeSmartAccessRevocation_SomeD:
  assumes "DecodeSmartAccessRevocation b = Some x"
  shows "b = join CHR '':'' (revocation_list x)" "\<forall>y \<in> set (revocation_list x). CHR '':'' \<notin> set y"
proof -
  have len: "length b = 99" and seps: "b ! 64 = CHR '':''" "b ! 97 = CHR '':''"
    and flag: "b ! 98 = CHR ''0'' \<or> b ! 98 = CHR ''1''"
    and d: "IsProfileDigest (substr b 0 64)" "list_all is_lower_hex (substr b 65 32)"
    and x: "x = \<lparr>sr_profile_digest = substr b 0 64, sr_lease_id = substr b 65 32,
       sr_terminate_active = (b ! 98 = CHR ''1'')\<rparr>"
    using assms by (auto simp: DecodeSmartAccessRevocation_def split: if_splits)
  show "b = join CHR '':'' (revocation_list x)"
    using substr_chunk [of 0 64 b] substr_chunk [of 65 32 b] flag_text [of b 98] len seps flag
    by (simp add: revocation_list_def x)
  show "\<forall>y \<in> set (revocation_list x). CHR '':'' \<notin> set y"
    using d by (simp add: revocation_list_def x IsProfileDigest_free hex_free)
qed

lemma revocation_dec_enc:
  assumes "EncodeSmartAccessRevocation t \<noteq> []"
  shows "DecodeSmartAccessRevocation (EncodeSmartAccessRevocation t) = Some t"
proof -
  define body where "body = join CHR '':'' (revocation_list t)"
  obtain x where x: "DecodeSmartAccessRevocation body = Some x"
    and enc: "EncodeSmartAccessRevocation t = body"
    using assms by (auto simp: EncodeSmartAccessRevocation_eq body_def Let_def split: if_splits)
  note d = DecodeSmartAccessRevocation_SomeD [OF x]
  have "revocation_list t = revocation_list x"
    using d by (intro join_inject [of _ _ "CHR '':''"]) (simp_all add: body_def revocation_list_def)
  then have "t = x" by (simp add: revocation_list_def flag_inject)
  then show ?thesis using x enc by simp
qed

lemma revocation_enc_dec:
  "DecodeSmartAccessRevocation b = Some x \<Longrightarrow> EncodeSmartAccessRevocation x = b"
  using DecodeSmartAccessRevocation_SomeD [of b x] by (simp add: EncodeSmartAccessRevocation_eq Let_def)

definition renewal_list :: "SmartAccessRenewalTarget \<Rightarrow> string list" where
  "renewal_list t = [sn_profile_digest t, sn_expected_lease_id t, sn_next_lease_id t,
     sn_issued_at t, sn_new_flows_until t, sn_active_flows_until t]"

lemma EncodeSmartAccessRenewal_eq:
  "EncodeSmartAccessRenewal t =
     (let body = join CHR ''|'' (renewal_list t)
      in if DecodeSmartAccessRenewal body \<noteq> None then body else [])"
  by (simp add: EncodeSmartAccessRenewal_def renewal_list_def)

lemma DecodeSmartAccessRenewal_SomeD:
  assumes "DecodeSmartAccessRenewal b = Some x"
  shows "b = join CHR ''|'' (renewal_list x)" "\<forall>y \<in> set (renewal_list x). CHR ''|'' \<notin> set y"
proof -
  have len: "length b = 193" and seps: "b ! 64 = CHR ''|''" "b ! 97 = CHR ''|''" "b ! 130 = CHR ''|''"
      "b ! 151 = CHR ''|''" "b ! 172 = CHR ''|''"
    and d: "IsProfileDigest (substr b 0 64)" "list_all is_lower_hex (substr b 65 32)"
      "list_all is_lower_hex (substr b 98 32)" and ts: "timestamps_at b [131, 152, 173]"
    and x: "x = \<lparr>sn_profile_digest = substr b 0 64, sn_expected_lease_id = substr b 65 32,
       sn_next_lease_id = substr b 98 32, sn_issued_at = substr b 131 20,
       sn_new_flows_until = substr b 152 20, sn_active_flows_until = substr b 173 20\<rparr>"
    using assms by (auto simp: DecodeSmartAccessRenewal_def split: if_splits)
  show "b = join CHR ''|'' (renewal_list x)"
    using substr_chunk [of 0 64 b] substr_chunk [of 65 32 b] substr_chunk [of 98 32 b]
      substr_chunk [of 131 20 b] substr_chunk [of 152 20 b] substr_last [of b 173 20] len seps
    by (simp add: renewal_list_def x)
  show "\<forall>y \<in> set (renewal_list x). CHR ''|'' \<notin> set y"
    using d timestamps_free [OF ts] len by (simp add: renewal_list_def x IsProfileDigest_free hex_free)
qed

lemma renewal_dec_enc:
  assumes "EncodeSmartAccessRenewal t \<noteq> []"
  shows "DecodeSmartAccessRenewal (EncodeSmartAccessRenewal t) = Some t"
proof -
  define body where "body = join CHR ''|'' (renewal_list t)"
  obtain x where x: "DecodeSmartAccessRenewal body = Some x"
    and enc: "EncodeSmartAccessRenewal t = body"
    using assms by (auto simp: EncodeSmartAccessRenewal_eq body_def Let_def split: if_splits)
  note d = DecodeSmartAccessRenewal_SomeD [OF x]
  have "renewal_list t = renewal_list x"
    using d by (intro join_inject [of _ _ "CHR ''|''"]) (simp_all add: body_def renewal_list_def)
  then have "t = x" by (simp add: renewal_list_def)
  then show ?thesis using x enc by simp
qed

lemma renewal_enc_dec: "DecodeSmartAccessRenewal b = Some x \<Longrightarrow> EncodeSmartAccessRenewal x = b"
  using DecodeSmartAccessRenewal_SomeD [of b x] by (simp add: EncodeSmartAccessRenewal_eq Let_def)

section \<open>The codec contract for every body\<close>

lemma decoders_refuse_empty [simp]:
  "DecodeCancellationTarget [] = None" "DecodeBoundConnect [] = None"
  "DecodeNetworkObservation [] = None" "DecodeCandidateProbe [] = None"
  "DecodeTransportLeasePromotion [] = None" "DecodeTransportLeaseRevocation [] = None"
  "DecodeSmartAccessRevocation [] = None" "DecodeSmartAccessRenewal [] = None"
  by (simp_all add: DecodeCancellationTarget_def IsProfileDigest_def DecodeBoundConnect_def
      find_char_def eval_nat_numeral DecodeNetworkObservation_def DecodeCandidateProbe_def
      DecodeTransportLeasePromotion_def DecodeTransportLeaseRevocation_def
      DecodeSmartAccessRevocation_def DecodeSmartAccessRenewal_def)

interpretation cancellation: codec EncodeCancellationTarget DecodeCancellationTarget wf_target "[]"
  by (unfold_locales; (intro cancellation_dec_enc cancellation_enc_dec decoders_refuse_empty)?)

interpretation connect: codec EncodeBoundConnect DecodeBoundConnect "\<lambda>_. True" "[]"
  by (unfold_locales; (intro conjI TrueI boundConnect_dec_enc boundConnect_enc_dec decoders_refuse_empty)?)

interpretation observation: codec EncodeNetworkObservation DecodeNetworkObservation "\<lambda>_. True" "[]"
  by (unfold_locales; (intro conjI TrueI observation_dec_enc observation_enc_dec decoders_refuse_empty)?)

interpretation probe: codec EncodeCandidateProbe DecodeCandidateProbe "\<lambda>_. True" "[]"
  by (unfold_locales; (intro conjI TrueI candidateProbe_dec_enc candidateProbe_enc_dec decoders_refuse_empty)?)

interpretation promotion: codec EncodeTransportLeasePromotion DecodeTransportLeasePromotion
    "\<lambda>t. wf_target (tp_target t)" "[]"
  by (unfold_locales; (intro promotion_dec_enc promotion_enc_dec decoders_refuse_empty)?)

interpretation transport_revocation: codec EncodeTransportLeaseRevocation DecodeTransportLeaseRevocation
    "\<lambda>t. wf_target (tr_target t)" "[]"
  by (unfold_locales;
      (intro transport_revocation_dec_enc transport_revocation_enc_dec decoders_refuse_empty)?)

interpretation revocation: codec EncodeSmartAccessRevocation DecodeSmartAccessRevocation "\<lambda>_. True" "[]"
  by (unfold_locales; (intro conjI TrueI revocation_dec_enc revocation_enc_dec decoders_refuse_empty)?)

interpretation renewal: codec EncodeSmartAccessRenewal DecodeSmartAccessRenewal "\<lambda>_. True" "[]"
  by (unfold_locales; (intro conjI TrueI renewal_dec_enc renewal_enc_dec decoders_refuse_empty)?)

section \<open>The report to the network context service\<close>

lemma count_list_notin: "c \<notin> set s \<Longrightarrow> count_list s c = 0"
  by (simp add: count_list_0_iff)

lemma observation_safe_count:
  "observation_safe v n extra \<Longrightarrow> c \<notin> set extra \<Longrightarrow>
   \<not> (CHR ''a'' \<le> c \<and> c \<le> CHR ''z'') \<Longrightarrow> \<not> (CHR ''A'' \<le> c \<and> c \<le> CHR ''Z'') \<Longrightarrow>
   \<not> (CHR ''0'' \<le> c \<and> c \<le> CHR ''9'') \<Longrightarrow> count_list v c = 0"
  by (auto simp: observation_safe_def list_all_iff intro!: count_list_notin)

lemma IsReportRunId_count:
  assumes "IsReportRunId r" and "c \<noteq> CHR ''-''" and "\<not> is_lower_hex c"
  shows "count_list r c = 0"
proof (rule count_list_notin)
  show "c \<notin> set r"
  proof
    assume "c \<in> set r"
    then obtain i where i: "i < 36" "r ! i = c"
      using assms(1) by (auto simp: in_set_conv_nth IsReportRunId_def)
    then have "i = 8 \<or> i = 13 \<or> i = 18 \<or> i = 23 \<or> is_lower_hex c"
      using assms(1) by (auto simp: IsReportRunId_def list_all_iff)
    with i assms show False by (auto simp: IsReportRunId_def)
  qed
qed

lemma to_string_count: "\<not> is_digit c \<Longrightarrow> count_list (to_string n) c = 0"
  by (rule count_list_notin) (rule to_string_notin)

lemma http_request_counts:
  assumes "NetworkObservationHttpRequest r c \<noteq> []"
  shows "count_list (NetworkObservationHttpRequest r c) CHR 0x0D = 8"
    and "count_list (NetworkObservationHttpRequest r c) CHR 0x0A = 8"
    and "count_list (NetworkObservationHttpRequest r c) CHR 0x22 = 22"
proof -
  have v: "valid_observation r" and c: "c = ''wifi'' \<or> c = ''ethernet'' \<or> c = ''other''"
    using assms by (auto simp: NetworkObservationHttpRequest_def EncodeNetworkObservation_Nil_iff
        split: if_splits)
  have cls: "count_list c CHR 0x0D = 0" "count_list c CHR 0x0A = 0" "count_list c CHR 0x22 = 0"
    using c by auto
  have fields: "count_list (no_host r) d = 0 \<and> count_list (no_session_token r) d = 0 \<and>
      count_list (no_app_version r) d = 0 \<and> count_list (no_profile_revision r) d = 0 \<and>
      count_list (no_runtime_phase r) d = 0 \<and> count_list (no_report_run_id r) d = 0"
    if "d \<in> {CHR 0x0D, CHR 0x0A, CHR 0x22}" for d
    using v that observation_safe_count [of "no_session_token r" 8192 "''.-_''" d]
      observation_safe_count [of "no_app_version r" 32 "''.+-''" d]
      observation_safe_count [of "no_profile_revision r" 128 "'' .()+'' @ [CHR 0x27] @ ''-_''" d]
      observation_safe_count [of "no_runtime_phase r" 32 "''-_''" d]
      IsReportRunId_count [of "no_report_run_id r" d]
    by (auto simp: valid_observation_def is_lower_hex_set less_eq_char_def)
  have num: "count_list (to_string n) d = 0" if "d \<in> {CHR 0x0D, CHR 0x0A, CHR 0x22}" for n d
    using that by (auto intro!: to_string_count simp: is_digit_set)
  have refused: "(if p then [] else if q then [] else x) \<noteq> [] \<Longrightarrow> (if p then [] else if q then [] else x) = x"
    for p q and x :: string
    by (simp split: if_splits)
  note written = refused [OF assms [unfolded NetworkObservationHttpRequest_def Let_def]]
  note counts = count_list_append crlf_def dquote_def cls fields num
  show "count_list (NetworkObservationHttpRequest r c) CHR 0x0D = 8"
    "count_list (NetworkObservationHttpRequest r c) CHR 0x0A = 8"
    "count_list (NetworkObservationHttpRequest r c) CHR 0x22 = 22"
    unfolding NetworkObservationHttpRequest_def Let_def written by (simp_all add: counts)
qed

section \<open>Properties\<close>

text \<open>
  C30. The body of a bound connect is exact: \<^verbatim>\<open>DecodeBoundConnect\<close> returns a target for a body
  exactly when the target is admissible (two SHA-256 digests, a boot reference, a network
  context reference, and a deadline after the start, at most 24 hours later and below
  \<open>2 ^ 53\<close>) and the body is its canonical encoding of six \<^verbatim>\<open>|\<close>-separated fields.
\<close>

theorem bound_connect_exact:
  "DecodeBoundConnect body = Some t \<longleftrightarrow> valid_connect t \<and> body = EncodeBoundConnect t"
  by (metis connect.dec_iff EncodeBoundConnect_Nil_iff)

text \<open>
  A cancellation target is named by exactly one text: \<^verbatim>\<open>DecodeCancellationTarget\<close> accepts a
  body exactly when it is the 64 lower-case hexadecimal digits of two 16-byte identifiers,
  neither of them zero.
\<close>

lemma cancellation_target_exact:
  "DecodeCancellationTarget body = Some t \<longleftrightarrow>
     wf_target t \<and> \<not> IsZeroIdentifier (ct_session_token t) \<and> \<not> IsZeroIdentifier (ct_operation_nonce t) \<and>
     body = hex_string (ct_session_token t @ ct_operation_nonce t)"
  using cancellation.dec_iff [of body t]
  by (auto simp: EncodeCancellationTarget_def hex_string_append wf_target_def wf_identifier_def
      hex_string_def hex_byte_def split: if_splits)

text \<open>
  C31. Candidate probes and network observations: the decoders return a request exactly when
  the request is admissible and the body is its encoding, so the configuration carried by a
  probe comes through the text format unchanged whatever newlines it contains.
\<close>

theorem probe_and_observation_exact:
  "(DecodeCandidateProbe body = Some p \<longleftrightarrow> valid_probe p \<and> body = EncodeCandidateProbe p) \<and>
   (DecodeNetworkObservation body = Some r \<longleftrightarrow> valid_observation r \<and> body = EncodeNetworkObservation r)"
  by (rule conjI, metis probe.dec_iff EncodeCandidateProbe_Nil_iff,
      metis observation.dec_iff EncodeNetworkObservation_Nil_iff)

text \<open>
  The four lease bodies (promotion and revocation of a transport lease, revocation and
  renewal of a Smart Access lease) round-trip: a value whose encoder does not refuse it is
  decoded to itself, and every body that a decoder accepts is the encoding of the value it
  returns.
\<close>

lemma lease_bodies_roundtrip:
  "(DecodeTransportLeasePromotion b = Some p \<longleftrightarrow>
      wf_target (tp_target p) \<and> EncodeTransportLeasePromotion p = b \<and> b \<noteq> []) \<and>
   (DecodeTransportLeaseRevocation b = Some q \<longleftrightarrow>
      wf_target (tr_target q) \<and> EncodeTransportLeaseRevocation q = b \<and> b \<noteq> []) \<and>
   (DecodeSmartAccessRevocation b = Some r \<longleftrightarrow> EncodeSmartAccessRevocation r = b \<and> b \<noteq> []) \<and>
   (DecodeSmartAccessRenewal b = Some s \<longleftrightarrow> EncodeSmartAccessRenewal s = b \<and> b \<noteq> [])"
  by (simp only: promotion.dec_iff transport_revocation.dec_iff revocation.dec_iff renewal.dec_iff simp_thms)

text \<open>
  C32. No header or JSON injection: whatever the fields of an observation are, a request text
  that \<^verbatim>\<open>NetworkObservationHttpRequest\<close> produces has exactly the eight line ends of its
  template and the 22 quotation marks of its JSON body, so no field adds a header line or
  leaves its JSON string.
\<close>

theorem observation_http_no_injection:
  assumes "NetworkObservationHttpRequest r c \<noteq> []"
  shows "count_list (NetworkObservationHttpRequest r c) CHR 0x0D = 8 \<and>
         count_list (NetworkObservationHttpRequest r c) CHR 0x0A = 8 \<and>
         count_list (NetworkObservationHttpRequest r c) CHR 0x22 = 22"
  using http_request_counts [OF assms] by blast

definition sample_observation :: NetworkObservationRequest where
  "sample_observation = \<lparr>no_host = ''api.pokrov.space'', no_session_token = ''abc.def'',
     no_app_version = ''1.2.3'', no_profile_revision = ''rev-1'', no_runtime_phase = ''running'',
     no_report_run_id = ''01234567-89ab-4def-8123-456789abcdef''\<rparr>"

theorem observation_http_no_injection_witness:
  "count_list (NetworkObservationHttpRequest sample_observation ''wifi'') CHR 0x0D = 8"
proof -
  have "NetworkObservationHttpRequest sample_observation ''wifi'' \<noteq> []"
    by code_simp
  from observation_http_no_injection [OF this] show ?thesis by blast
qed

end
