(* ===== verification/Service_Events.thy ===== *)
theory Service_Events
  imports Profile_Identity
begin

text \<open>
  The vocabulary of \<^verbatim>\<open>service_events.h\<close> (lifecycle events, egress observations, guard
  diagnostics, Core events), the names that \<^verbatim>\<open>service_protocol.cpp\<close> gives to the egress
  enumerations, and the text of an egress observation in a runtime snapshot.  An enumerator
  that two enumerations share carries the name of its enumeration as a suffix.
\<close>

datatype (plugins only: code size) ServiceEvent =
    kServiceStartPending | kServiceBootObserved | kServiceRunning | kServiceStopRequested
  | kServiceShutdownRequested | kServicePreShutdownRequested | kServicePowerSuspend
  | kServicePowerResume | kServiceStopped | kIpcSessionAccepted | kIpcSessionRejected
  | kIpcSessionClosed | kRuntimeInitialize | kRuntimeProfileStage | kRuntimeNetworkSnapshot
  | kRuntimeCoreStart | kRuntimeWintunStart | kRuntimeAdapterApply | kRuntimeRouteApply
  | kRuntimeDnsApply | kRuntimeEgressVerify | kRuntimeCandidateProbe | kRuntimeCommit
  | kRuntimeRollbackBegin | kRuntimeCoreStop | kRuntimeNetworkRestore
  | kRuntimeRollbackComplete | kRuntimeRecoveryRequired

datatype (plugins only: code size) ServiceEventOutcome = kAttempted | kSucceeded | kFailed | kAccepted | kRejected

datatype (plugins only: code size) EgressProbeStage =
    kTunDns | kDnsSetup | kDnsSend | kDnsWait | kDnsReply | kHttpSetup | kConnect_stage | kTls
  | kSending | kResponse_stage | kProof_stage | kRetryWait

datatype (plugins only: code size) EgressProbeOutcome =
    kSucceeded_probe | kFailed_probe | kCancelled_probe | kDeadline_probe | kTimeout_probe

datatype (plugins only: code size) EgressErrorDomain =
    kNone_domain | kWin32 | kWinsock | kWinHttp | kDns | kNtStatus | kHttpStatus

datatype (plugins only: code size) FirstOwnedDnsState =
    kUnknown | kReceived | kExchangeFailed | kReplyFailed | kReplyWritten

datatype (plugins only: code size) EgressProbeTarget = kOwnedApi | kOwnedReserve

datatype (plugins only: code size) LocalDpiStage = kStart_dpi | kProof_dpi | kAdmit_dpi | kRuntime_dpi

record EgressProbeObservation =
  eo_stage :: EgressProbeStage
  eo_outcome :: EgressProbeOutcome
  eo_error_domain :: EgressErrorDomain
  eo_error_code :: u32
  eo_elapsed_ms :: u64
  eo_first_owned_dns_state :: FirstOwnedDnsState
  eo_target :: "EgressProbeTarget option"
  eo_owner_remaining_ms_at_entry :: "u32 option"
  eo_dns_a_accepted :: "bool option"
  eo_http_local_is_tun :: "bool option"

datatype (plugins only: code size) TransitionGuardOperation = kStart_guard | kFinish_guard

datatype (plugins only: code size) TransitionGuardStage =
    kEngineOpen | kIdentity | kReadBegin | kReadQuery | kReadVerify | kInstallBegin
  | kInstallApply | kInstallCommit | kRemoveBegin | kRemoveApply | kRemoveCommit | kRemoveVerify

record CoreOperationalEventRecord =
  ce_schema_version :: int
  ce_event_abi :: int
  ce_occurred_at_utc :: string
  ce_run_id :: string
  ce_attempt_id :: string
  ce_generation :: int
  ce_sequence :: int
  ce_name :: string
  ce_subsystem :: string
  ce_stage :: string
  ce_severity :: string
  ce_outcome :: string
  ce_error_code :: string
  ce_phase :: string

fun EgressProbeStageName :: "EgressProbeStage \<Rightarrow> string" where
  "EgressProbeStageName kTunDns = ''tun_dns''"
| "EgressProbeStageName kDnsSetup = ''dns_setup''"
| "EgressProbeStageName kDnsSend = ''dns_send''"
| "EgressProbeStageName kDnsWait = ''dns_wait''"
| "EgressProbeStageName kDnsReply = ''dns_reply''"
| "EgressProbeStageName kHttpSetup = ''http_setup''"
| "EgressProbeStageName kConnect_stage = ''connect''"
| "EgressProbeStageName kTls = ''tls''"
| "EgressProbeStageName kSending = ''sending''"
| "EgressProbeStageName kResponse_stage = ''response''"
| "EgressProbeStageName kProof_stage = ''proof''"
| "EgressProbeStageName kRetryWait = ''retry_wait''"

fun EgressProbeOutcomeName :: "EgressProbeOutcome \<Rightarrow> string" where
  "EgressProbeOutcomeName kSucceeded_probe = ''succeeded''"
| "EgressProbeOutcomeName kFailed_probe = ''failed''"
| "EgressProbeOutcomeName kCancelled_probe = ''cancelled''"
| "EgressProbeOutcomeName kDeadline_probe = ''deadline''"
| "EgressProbeOutcomeName kTimeout_probe = ''timeout''"

fun EgressProbeErrorDomainName :: "EgressErrorDomain \<Rightarrow> string" where
  "EgressProbeErrorDomainName kNone_domain = ''none''"
| "EgressProbeErrorDomainName kWin32 = ''win32''"
| "EgressProbeErrorDomainName kWinsock = ''winsock''"
| "EgressProbeErrorDomainName kWinHttp = ''winhttp''"
| "EgressProbeErrorDomainName kDns = ''dns''"
| "EgressProbeErrorDomainName kNtStatus = ''ntstatus''"
| "EgressProbeErrorDomainName kHttpStatus = ''http_status''"

fun FirstOwnedDnsStateName :: "FirstOwnedDnsState \<Rightarrow> string" where
  "FirstOwnedDnsStateName kUnknown = ''unknown''"
| "FirstOwnedDnsStateName kReceived = ''received''"
| "FirstOwnedDnsStateName kExchangeFailed = ''exchange_failed''"
| "FirstOwnedDnsStateName kReplyFailed = ''reply_failed''"
| "FirstOwnedDnsStateName kReplyWritten = ''reply_written''"

fun EgressProbeTargetName :: "EgressProbeTarget \<Rightarrow> string" where
  "EgressProbeTargetName kOwnedApi = ''owned_api''"
| "EgressProbeTargetName kOwnedReserve = ''owned_reserve''"

definition flag_text_of :: "bool option \<Rightarrow> string" where
  "flag_text_of f = (case f of None \<Rightarrow> ''unknown'' | Some b \<Rightarrow> if b then ''1'' else ''0'')"

definition EncodeEgressProbeObservation :: "EgressProbeObservation \<Rightarrow> string" where
  "EncodeEgressProbeObservation ob =
     '';egress_probe_stage='' @ EgressProbeStageName (eo_stage ob) @
     '';egress_probe_outcome='' @ EgressProbeOutcomeName (eo_outcome ob) @
     '';egress_error_domain='' @ EgressProbeErrorDomainName (eo_error_domain ob) @
     '';egress_error_code='' @ to_string (unat (eo_error_code ob)) @
     '';egress_elapsed_ms='' @ to_string (unat (eo_elapsed_ms ob)) @
     '';first_owned_dns_state='' @ FirstOwnedDnsStateName (eo_first_owned_dns_state ob) @
     (case eo_target ob of
        None \<Rightarrow> []
      | Some target \<Rightarrow>
          '';egress_probe_target='' @ EgressProbeTargetName target @
          '';egress_owner_remaining_ms_at_entry='' @
          (case eo_owner_remaining_ms_at_entry ob of
             None \<Rightarrow> ''unknown'' | Some ms \<Rightarrow> to_string (unat ms)) @
          '';egress_dns_a_accepted='' @ flag_text_of (eo_dns_a_accepted ob)) @
     '';egress_http_local_is_tun='' @ flag_text_of (eo_http_local_is_tun ob)"

end
