(* ===== verification/Wfp_Types.thy ===== *)
theory Wfp_Types
  imports Service_Events
begin

text \<open>
  The part of the Windows Filtering Platform interface that \<^verbatim>\<open>service_transition_guard.cpp\<close>
  uses: keys, filters with their conditions, and sublayers.  A key of the SDK is named by
  its identifier; a key of the service is written out.
\<close>

datatype (plugins only: code size) GUID = Guid u32 u16 u16 "u8 list" | SdkGuid string

datatype (plugins only: code size) FWP_ACTION_TYPE =
    FWP_ACTION_BLOCK | FWP_ACTION_PERMIT | FWP_ACTION_CALLOUT_TERMINATING
  | FWP_ACTION_CALLOUT_INSPECTION | FWP_ACTION_CALLOUT_UNKNOWN

datatype (plugins only: code size) FWP_MATCH_TYPE = FWP_MATCH_EQUAL | FWP_MATCH_OTHER nat

text \<open>
  A condition value or a weight with its type tag; a blob is \<^term>\<open>None\<close> for a null pointer.
\<close>

datatype (plugins only: code size) FWP_VALUE =
    FWP_EMPTY | FWP_UINT8 u8 | FWP_UINT16 u16 | FWP_UINT32 u32 | FWP_UINT64 "u64 option"
  | FWP_BYTE_BLOB_TYPE "u8 list option" | FWP_SECURITY_DESCRIPTOR_TYPE "u8 list option"

record FWPM_FILTER_CONDITION0 =
  fc_fieldKey :: GUID
  fc_matchType :: FWP_MATCH_TYPE
  fc_value :: FWP_VALUE

record FWPM_FILTER0 =
  fi_filterKey :: GUID
  fi_flags :: u32
  fi_providerKey :: "GUID option"
  fi_layerKey :: GUID
  fi_subLayerKey :: GUID
  fi_weight :: FWP_VALUE
  fi_action :: FWP_ACTION_TYPE
  fi_conditions :: "FWPM_FILTER_CONDITION0 list"

record FWPM_SUBLAYER0 =
  sl_subLayerKey :: GUID
  sl_flags :: u32
  sl_providerKey :: "GUID option"
  sl_weight :: u16

definition FWPM_FILTER_FLAG_PERSISTENT :: u32 where "FWPM_FILTER_FLAG_PERSISTENT = 1"
definition FWPM_FILTER_FLAG_CLEAR_ACTION_RIGHT :: u32 where "FWPM_FILTER_FLAG_CLEAR_ACTION_RIGHT = 8"
definition FWPM_FILTER_FLAG_DISABLED :: u32 where "FWPM_FILTER_FLAG_DISABLED = 32"
definition FWPM_FILTER_FLAG_INDEXED :: u32 where "FWPM_FILTER_FLAG_INDEXED = 64"
definition FWPM_SUBLAYER_FLAG_PERSISTENT :: u32 where "FWPM_SUBLAYER_FLAG_PERSISTENT = 1"

definition ERROR_SUCCESS :: u32 where "ERROR_SUCCESS = 0"
definition ERROR_INSUFFICIENT_BUFFER :: u32 where "ERROR_INSUFFICIENT_BUFFER = 122"
definition FWP_E_FILTER_NOT_FOUND :: u32 where "FWP_E_FILTER_NOT_FOUND = 0x80320003"
definition FWP_E_SUBLAYER_NOT_FOUND :: u32 where "FWP_E_SUBLAYER_NOT_FOUND = 0x80320007"

end
