(* ===== verification/Json.thy ===== *)
theory Json
  imports Prelude
begin

text \<open>
  The values of \<^verbatim>\<open>Windows.Data.Json\<close> as \<^verbatim>\<open>service_local_dpi_json.cpp\<close> sees them, and its
  accessor helpers.  The parser itself is a library of the operating system: it is a function
  of the environment (\<^verbatim>\<open>World.thy\<close>) that returns one entry per key.  A number of JSON is
  a finite double; the code only compares it with integers, so a number without an integral
  value is kept as such.
\<close>

datatype (plugins only: code size) json_number = Integral int | Fractional

datatype (plugins only: code size) json =
    JNull | JBool bool | JNumber json_number | JString string | JArray "json list" | JObject "(string \<times> json) list"

type_synonym json_object = "(string \<times> json) list"

fun GetObject :: "json \<Rightarrow> json_object option" where
  "GetObject (JObject kvs) = Some kvs"
| "GetObject _ = None"

text \<open>\<^verbatim>\<open>String\<close>: the empty string when the field is missing or is not a string.\<close>

definition StringField :: "json_object \<Rightarrow> string \<Rightarrow> string" where
  "StringField ob name = (case map_of ob name of Some (JString s) \<Rightarrow> s | _ \<Rightarrow> [])"

definition ObjectField :: "json_object \<Rightarrow> string \<Rightarrow> json_object option" where
  "ObjectField ob name = (case map_of ob name of Some (JObject kvs) \<Rightarrow> Some kvs | _ \<Rightarrow> None)"

definition ArrayField :: "json_object \<Rightarrow> string \<Rightarrow> json list option" where
  "ArrayField ob name = (case map_of ob name of Some (JArray xs) \<Rightarrow> Some xs | _ \<Rightarrow> None)"

definition GetNamedBoolean :: "json_object \<Rightarrow> string \<Rightarrow> bool option" where
  "GetNamedBoolean ob name = (case map_of ob name of Some (JBool b) \<Rightarrow> Some b | _ \<Rightarrow> None)"

definition GetNamedNumber :: "json_object \<Rightarrow> string \<Rightarrow> json_number option" where
  "GetNamedNumber ob name = (case map_of ob name of Some (JNumber n) \<Rightarrow> Some n | _ \<Rightarrow> None)"

text \<open>\<^verbatim>\<open>Rows\<close> keeps the entries that are objects; a null array has none.\<close>

definition Rows :: "json list option \<Rightarrow> json_object list" where
  "Rows array = (case array of None \<Rightarrow> [] | Some xs \<Rightarrow> List.map_filter GetObject xs)"

fun strings_of :: "json list \<Rightarrow> string list option" where
  "strings_of [] = Some []"
| "strings_of (JString s # xs) = map_option (Cons s) (strings_of xs)"
| "strings_of (_ # xs) = None"

definition Strings :: "json list option \<Rightarrow> string list option" where
  "Strings array = (case array of None \<Rightarrow> None | Some xs \<Rightarrow> strings_of xs)"

definition Fields :: "json_object option \<Rightarrow> nat \<Rightarrow> bool" where
  "Fields ob expected = (case ob of None \<Rightarrow> False | Some kvs \<Rightarrow> length kvs = expected)"

definition Number :: "json_object \<Rightarrow> string \<Rightarrow> int \<Rightarrow> bool" where
  "Number ob name expected \<longleftrightarrow> GetNamedNumber ob name = Some (Integral expected)"

definition SingleNumber :: "json_object \<Rightarrow> string \<Rightarrow> int \<Rightarrow> bool" where
  "SingleNumber ob name expected = (case ArrayField ob name of Some [JNumber n] \<Rightarrow> n = Integral expected | _ \<Rightarrow> False)"

text \<open>\<^verbatim>\<open>Tagged\<close>: the only row with the tag.\<close>

definition Tagged :: "json_object list \<Rightarrow> string \<Rightarrow> json_object option" where
  "Tagged rows tag =
     (case filter (\<lambda>row. StringField row ''tag'' = tag) rows of [row] \<Rightarrow> Some row | _ \<Rightarrow> None)"

lemma Tagged_SomeD:
  "Tagged rows tag = Some row \<Longrightarrow> row \<in> set rows \<and> StringField row ''tag'' = tag"
proof -
  assume "Tagged rows tag = Some row"
  then have "filter (\<lambda>row. StringField row ''tag'' = tag) rows = [row]"
    by (simp add: Tagged_def split: list.splits)
  then have "row \<in> set (filter (\<lambda>row. StringField row ''tag'' = tag) rows)" by simp
  then show ?thesis by simp
qed

end
