(* ===== verification/World.thy ===== *)
theory World
  imports Wfp_Types Protocol Json
begin

text \<open>
  The boundary of the service.  Every call to the operating system, to the Core library, to
  the local DPI executor, to the egress probe, to the filtering platform and to the event
  sink is an \<open>io\<close> operation; its answer is given by an environment that sees the whole
  history, and the history with the answers is kept as a trace (newest first).  A component
  is a state transformer on its own state paired with the trace.  The file system is not a
  state of its own: it is read off the trace, so that a theorem about every prefix of a
  trace is a theorem about every moment at which the process may be killed.
\<close>

section \<open>Operations and answers\<close>

datatype (plugins only: code size) file_op =
    CreateFile string | WriteFile string string | FlushFileBuffers string
  | MoveFileEx string string | DeleteFile string | CreateDirectory string | AlreadyExists
  | IsDirectory string | ConvertSddl | GetDacl | SetNamedSecurityInfo string
  | RemoveDirectory string

datatype (plugins only: code size) core_op =
    CoreSetOperationalEventSink | CoreInitialize | CoreSecureFile string | CoreStart string bool
  | CoreStartInterruptible string bool | CoreStop | SupportsInterruptibleStart
  | CoreModuleSHA256 | CoreVersion | TransportCapabilities | SlipstreamClientReady
  | RoutingCatalogWindowVersion | SmartAccessLeaseVersion | RoutingCatalogControlVersion
  | SmartAccessRuntimeControlVersion | SmartAccessProbeVersion | ProbeSmartAccess string bool
  | FirstOwnedDnsObservation
  | CoreConfigureSmartAccessRuntimeControl string string
  | CoreConfigureSmartAccessRenewal string string | CoreReadSmartAccessRestrictions
  | CoreReadSmartAccessLeases | CoreAcknowledgeSmartAccessRestrictions string
  | CoreRevokeRoutingCatalog | CoreRevokeRoutingCatalogService string
  | CoreRevokeSmartAccessPolicy bool | CoreRevokeSmartAccessLease string bool
  | CoreRenewSmartAccessLease SmartAccessRenewalTarget
  | ConfirmATSLease TransportLeasePromotion | RevokeATSLease TransportLeaseRevocation

datatype (plugins only: code size) admission_op =
    WindowsLocalDpiAdmissionVersion | PrepareWindowsLocalDpiProfile string string
  | ReadLocalDpiAdmissionID string | AdmitLocalDpiAdmission string | WithdrawLocalDpiAdmission string
  | ReadLocalDpiObservation string | WindowsLocalDpiRuntimeRetryVersion | PrepareWindowsLocalDpiRetry string
  | TelegramWSAdmissionVersion | PrepareTelegramWSProfile string string
  | ReadTelegramWSAdmissionID string | AdmitTelegramWSAdmission string
  | WithdrawTelegramWSAdmission string

datatype (plugins only: code size) dpi_op =
    ModulePath | InterfaceIndex string | LockAsset string bool | LoadDriver string | DriverExport string
  | OpenDriver | DriverParam nat | CloseDriver | FreeDriver | CloseAssets
  | CreateJob | LimitJob | CreateChild string string | AssignChild | TerminateChild | CreateInitMutex | ResumeChild
  | WaitNetworkReady | CloseJob | WaitChild | CloseChild | ChildRunning
  | VerifyControlHost string string bool u64

datatype (plugins only: code size) net_op = CaptureNetwork | CapturedSnapshot | RestoreNetwork string

datatype (plugins only: code size) wfp_op =
    EngineOpen | ModuleFileName | GetLastError | GetAppId | AppIdBlob | ConvertGuardSddl
  | SystemDescriptor | TransactionBegin bool
  | SubLayerGetByKey GUID | FilterGetByKey GUID | FilterCreateEnum GUID | FilterEnum GUID
  | FilterDestroyEnum | TransactionAbort | TransactionCommit | FilterDeleteByKey GUID
  | SubLayerDeleteByKey GUID | SubLayerAdd FWPM_SUBLAYER0 | FilterAdd FWPM_FILTER0

datatype (plugins only: code size) sink_op =
    SinkRecord ServiceEvent ServiceEventOutcome
  | SinkGuardFailure TransitionGuardOperation TransitionGuardStage u32
  | SinkLocalDpi LocalDpiStage int string bool

datatype (plugins only: code size) EgressProbeReserve = kStatic | kApi | kNone_reserve

datatype (plugins only: code size) probe_op =
    ProbeVerify bool EgressProbeReserve | ProbeLastObservation

text \<open>What the network observer tells the dispatcher (\<^verbatim>\<open>service_network_observer.h\<close>).\<close>

record ServiceNetworkContext =
  sc_revision :: u64
  sc_reference :: string

record CandidateNetworkContext =
  cn_network :: ServiceNetworkContext
  cn_selection_key :: string
  cn_bind_interface :: string
  cn_network_class :: string
  cn_ipv6_available :: "bool option"

text \<open>
  What the dispatcher of the sessions asks: the network observer, the stop event, the pipe of the
  client and the process behind it, the services of other translation units, and which steps of
  other sessions ran since it last looked.
\<close>

datatype (plugins only: code size) session_op =
    ReadCandidateNetwork | CandidateCurrent u64 | ReadNetworkContext | SampleNetwork | NetworkCurrent u64
  | StopEventSet | PipeConnected | PipeClientProcess | OpenClient int | ClientRunning int
  | ObserveContext NetworkObservationRequest string string | CoreProbeCandidate CandidateProbeRequest string
  | ReadCrashDiagnostics | CrashDiagnosticsText | OtherSessions

datatype (plugins only: code size) clock_op =
    QueryTimeExport | ConvertClockSddl | CreateClockKey | QueryBootRef | SetBootRef string
  | CloseClockKey | InterruptTime

datatype (plugins only: code size) io =
    FileIo file_op | CoreIo core_op | AdmissionIo admission_op | DpiIo dpi_op | NetIo net_op
  | WfpIo wfp_op | SinkIo sink_op | ProbeIo probe_op
  | ClockIo clock_op | SessionIo session_op | GenRandom | TickCount | UtcTicks | Interrupted nat

datatype (plugins only: code size) OperationInterruption = kNone_interruption | kCancelled | kDeadlineExceeded_interruption

datatype (plugins only: code size) answer =
    AUnit | ABool bool | AInt int | AText string | ACode u32 | ABytes "u8 list option"
  | ASubLayer u32 FWPM_SUBLAYER0 | AFilter u32 FWPM_FILTER0
  | APages "(u32 \<times> FWPM_FILTER0 list) list" | AObservation "EgressProbeObservation option"
  | ADns FirstOwnedDnsState | AInterruption OperationInterruption
  | AValue "u32 \<times> u32 \<times> string" | ACandidate "CandidateNetworkContext option"
  | AContext "ServiceNetworkContext option" | ARevision "u64 option"

type_synonym trace = "(io \<times> answer) list"

text \<open>What \<^verbatim>\<open>WinHttpCrackUrl\<close> reports of a URL.\<close>

record url_parts =
  url_https :: bool
  url_port :: nat
  url_host_length :: nat
  url_user_length :: nat
  url_password_length :: nat
  url_extra_length :: nat
  url_path :: string

text \<open>
  The environment: one answering function per type of answer (a registry value is a status, a
  type and the bytes), and the pure functions of the
  operating system and of the build that the service uses: strict UTF-8 validation, the JSON
  parser and printer, SHA-256, the calendar conversion (of year, month, day, hour, minute and
  second) and its inverse, the URL splitter, and the generated \<^verbatim>\<open>kWindowsCatalogTrustEnabled\<close>.
\<close>

record env =
  env_bool :: "trace \<Rightarrow> io \<Rightarrow> bool"
  env_int :: "trace \<Rightarrow> io \<Rightarrow> int"
  env_text :: "trace \<Rightarrow> io \<Rightarrow> string"
  env_code :: "trace \<Rightarrow> io \<Rightarrow> u32"
  env_bytes :: "trace \<Rightarrow> io \<Rightarrow> u8 list option"
  env_sublayer :: "trace \<Rightarrow> io \<Rightarrow> u32 \<times> FWPM_SUBLAYER0"
  env_filter :: "trace \<Rightarrow> io \<Rightarrow> u32 \<times> FWPM_FILTER0"
  env_pages :: "trace \<Rightarrow> io \<Rightarrow> (u32 \<times> FWPM_FILTER0 list) list"
  env_observation :: "trace \<Rightarrow> io \<Rightarrow> EgressProbeObservation option"
  env_dns :: "trace \<Rightarrow> io \<Rightarrow> FirstOwnedDnsState"
  env_interruption :: "trace \<Rightarrow> io \<Rightarrow> OperationInterruption"
  env_value :: "trace \<Rightarrow> io \<Rightarrow> u32 \<times> u32 \<times> string"
  env_candidate :: "trace \<Rightarrow> io \<Rightarrow> CandidateNetworkContext option"
  env_context :: "trace \<Rightarrow> io \<Rightarrow> ServiceNetworkContext option"
  env_revision :: "trace \<Rightarrow> io \<Rightarrow> u64 option"
  lib_utf8 :: "string \<Rightarrow> bool"
  lib_json :: "string \<Rightarrow> json option"
  lib_stringify :: "json \<Rightarrow> string"
  lib_hash :: hash_fun
  lib_filetime :: "nat list \<Rightarrow> u64 option"
  lib_systemtime :: "u64 \<Rightarrow> nat list option"
  lib_crack_url :: "string \<Rightarrow> url_parts option"
  lib_catalog_trust :: bool

type_synonym ('c, 'a) action = "('c \<times> trace, 'a) state"

definition ask :: "(trace \<Rightarrow> io \<Rightarrow> 'a) \<Rightarrow> ('a \<Rightarrow> answer) \<Rightarrow> io \<Rightarrow> ('c, 'a) action" where
  "ask f w op = State (\<lambda>(c, t). let a = f t op in (a, (c, (op, w a) # t)))"

abbreviation ask_bool :: "env \<Rightarrow> io \<Rightarrow> ('c, bool) action" where
  "ask_bool e \<equiv> ask (env_bool e) ABool"

abbreviation ask_int :: "env \<Rightarrow> io \<Rightarrow> ('c, int) action" where
  "ask_int e \<equiv> ask (env_int e) AInt"

abbreviation ask_text :: "env \<Rightarrow> io \<Rightarrow> ('c, string) action" where
  "ask_text e \<equiv> ask (env_text e) AText"

abbreviation ask_code :: "env \<Rightarrow> io \<Rightarrow> ('c, u32) action" where
  "ask_code e \<equiv> ask (env_code e) ACode"

abbreviation ask_u64 :: "env \<Rightarrow> io \<Rightarrow> ('c, u64) action" where
  "ask_u64 e \<equiv> ask (\<lambda>t op. of_int (env_int e t op)) (\<lambda>w. AInt (uint w))"

text \<open>A call whose result the code does not use.\<close>

definition tell :: "io \<Rightarrow> ('c, unit) action" where
  "tell op = ask (\<lambda>_ _. ()) (\<lambda>_. AUnit) op"

definition my :: "('c \<Rightarrow> 'a) \<Rightarrow> ('c, 'a) action" where
  "my f = State (\<lambda>(c, t). (f c, (c, t)))"

definition change :: "('c \<Rightarrow> 'c) \<Rightarrow> ('c, unit) action" where
  "change f = State (\<lambda>(c, t). ((), (f c, t)))"

text \<open>A call into a part of the state.\<close>

definition zoom :: "('h \<Rightarrow> 'c) \<Rightarrow> ('c \<Rightarrow> 'h \<Rightarrow> 'h) \<Rightarrow> ('c, 'a) action \<Rightarrow> ('h, 'a) action" where
  "zoom g p m = State (\<lambda>(h, t). case run_state m (g h, t) of (a, (c, t')) \<Rightarrow> (a, (p c h, t')))"

section \<open>Reasoning about state transformers\<close>

definition triple :: "('s \<Rightarrow> bool) \<Rightarrow> ('s, 'a) state \<Rightarrow> ('a \<Rightarrow> 's \<Rightarrow> bool) \<Rightarrow> bool" where
  "triple P m Q \<longleftrightarrow> (\<forall>s. P s \<longrightarrow> (case run_state m s of (a, s') \<Rightarrow> Q a s'))"

lemma tripleD: "triple P m Q \<Longrightarrow> P s \<Longrightarrow> run_state m s = (a, s') \<Longrightarrow> Q a s'"
  by (auto simp: triple_def)

lemma tripleI: "(\<And>s a s'. P s \<Longrightarrow> run_state m s = (a, s') \<Longrightarrow> Q a s') \<Longrightarrow> triple P m Q"
  by (auto simp: triple_def)

lemma triple_return [hoare]: "(\<And>s. P s \<Longrightarrow> Q a s) \<Longrightarrow> triple P (State_Monad.return a) Q"
  by (simp add: triple_def State_Monad.return_def)

lemma triple_bind [hoare]:
  "triple P m R \<Longrightarrow> (\<And>a. triple (R a) (f a) Q) \<Longrightarrow> triple P (State_Monad.bind m f) Q"
  by (fastforce simp: triple_def State_Monad.bind_def split: prod.splits)

lemma triple_weaken:
  "triple P m Q \<Longrightarrow> (\<And>s. P' s \<Longrightarrow> P s) \<Longrightarrow> (\<And>a s. Q a s \<Longrightarrow> Q' a s) \<Longrightarrow> triple P' m Q'"
  by (fastforce simp: triple_def split: prod.splits)

lemma triple_pre: "triple P m Q \<Longrightarrow> (\<And>s. P' s \<Longrightarrow> P s) \<Longrightarrow> triple P' m Q"
  by (fastforce simp: triple_def)

lemma triple_if [hoare]:
  "(b \<Longrightarrow> triple P m Q) \<Longrightarrow> (\<not> b \<Longrightarrow> triple P n Q) \<Longrightarrow> triple P (if b then m else n) Q"
  by simp

lemma triple_option [hoare]:
  "(x = None \<Longrightarrow> triple P m Q) \<Longrightarrow> (\<And>y. x = Some y \<Longrightarrow> triple P (f y) Q) \<Longrightarrow>
   triple P (case x of None \<Rightarrow> m | Some y \<Rightarrow> f y) Q"
  by (cases x) simp_all

lemma triple_prod [hoare]:
  "(\<And>a b. x = (a, b) \<Longrightarrow> triple P (f a b) Q) \<Longrightarrow> triple P (case x of (a, b) \<Rightarrow> f a b) Q"
  by (cases x) simp

lemma triple_let [hoare]: "triple P (f x) Q \<Longrightarrow> triple P (let y = x in f y) Q"
  by simp

lemma triple_conj:
  "triple P m Q \<Longrightarrow> triple P' m Q' \<Longrightarrow> triple (\<lambda>s. P s \<and> P' s) m (\<lambda>a s. Q a s \<and> Q' a s)"
  by (fastforce simp: triple_def)

lemma triple_split:
  "(\<And>x. triple (\<lambda>s. P x s) m Q) \<Longrightarrow> triple (\<lambda>s. \<exists>x. P x s) m Q"
  by (fastforce simp: triple_def)

lemma run_ask: "run_state (ask f w op) (c, t) = (f t op, (c, (op, w (f t op)) # t))"
  by (simp add: ask_def Let_def)

lemma run_my: "run_state (my f) (c, t) = (f c, (c, t))"
  by (simp add: my_def)

lemma run_change: "run_state (change f) (c, t) = ((), (f c, t))"
  by (simp add: change_def)

lemma run_tell: "run_state (tell op) (c, t) = ((), (c, (op, AUnit) # t))"
  by (simp add: tell_def run_ask)

lemma run_return: "run_state (State_Monad.return a) s = (a, s)"
  by (simp add: State_Monad.return_def)

lemma run_bind:
  "run_state (State_Monad.bind m f) s = (case run_state m s of (a, s') \<Rightarrow> run_state (f a) s')"
  by (simp add: State_Monad.bind_def)

lemma run_zoom:
  "run_state (zoom g p m) (h, t) = (case run_state m (g h, t) of (a, (c, t')) \<Rightarrow> (a, (p c h, t')))"
  by (simp add: zoom_def)

lemmas run_simps = run_ask run_my run_change run_tell run_return run_bind run_zoom

lemma triple_ask [hoare]:
  "(\<And>c t a. P (c, t) \<Longrightarrow> a = f t op \<Longrightarrow> Q a (c, (op, w a) # t)) \<Longrightarrow> triple P (ask f w op) Q"
  by (auto simp: triple_def run_ask)

lemma triple_tell [hoare]:
  "(\<And>c t. P (c, t) \<Longrightarrow> Q () (c, (op, AUnit) # t)) \<Longrightarrow> triple P (tell op) Q"
  by (auto simp: triple_def run_tell)

lemma triple_my [hoare]: "(\<And>c t. P (c, t) \<Longrightarrow> Q (f c) (c, t)) \<Longrightarrow> triple P (my f) Q"
  by (auto simp: triple_def run_my)

lemma triple_change [hoare]: "(\<And>c t. P (c, t) \<Longrightarrow> Q () (f c, t)) \<Longrightarrow> triple P (change f) Q"
  by (auto simp: triple_def run_change)

lemma triple_zoom:
  assumes "\<And>h. triple (\<lambda>(c, t). P (h, t) \<and> c = g h) m (\<lambda>a (c, t). Q a (p c h, t))"
  shows "triple P (zoom g p m) Q"
proof (rule tripleI)
  fix s a s' assume "P s" and r: "run_state (zoom g p m) s = (a, s')"
  obtain h t where s: "s = (h, t)" by (cases s)
  obtain c t' where m: "run_state m (g h, t) = (a, (c, t'))" and s': "s' = (p c h, t')"
    using r by (auto simp: s run_zoom split: prod.splits)
  from assms [of h, THEN tripleD, of "(g h, t)", OF _ m] \<open>P s\<close> show "Q a s'" by (simp add: s s')
qed

text \<open>A property of the trace that every step keeps.\<close>

definition keeps :: "('s \<Rightarrow> bool) \<Rightarrow> ('s, 'a) state \<Rightarrow> bool" where
  "keeps I m \<longleftrightarrow> triple I m (\<lambda>_. I)"

lemma keeps_return [hoare]: "keeps I (State_Monad.return a)"
  by (simp add: keeps_def triple_return)

lemma keeps_bind [hoare]: "keeps I m \<Longrightarrow> (\<And>a. keeps I (f a)) \<Longrightarrow> keeps I (State_Monad.bind m f)"
  unfolding keeps_def by (rule triple_bind)

lemma keeps_if [hoare]: "keeps I m \<Longrightarrow> keeps I n \<Longrightarrow> keeps I (if b then m else n)"
  by simp

lemma keeps_option [hoare]:
  "keeps I m \<Longrightarrow> (\<And>y. keeps I (f y)) \<Longrightarrow> keeps I (case x of None \<Rightarrow> m | Some y \<Rightarrow> f y)"
  by (cases x) simp_all

lemma keeps_prod [hoare]: "(\<And>a b. keeps I (f a b)) \<Longrightarrow> keeps I (case x of (a, b) \<Rightarrow> f a b)"
  by (cases x) simp

lemma keeps_let [hoare]: "(\<And>x. keeps I (f x)) \<Longrightarrow> keeps I (let y = x in f y)"
  by simp

lemma keeps_my [hoare]: "keeps I (my f)"
  by (simp add: keeps_def triple_my)

section \<open>The file system of a trace\<close>

type_synonym disk = "string \<Rightarrow> string option"

fun disk_step :: "io \<times> answer \<Rightarrow> disk \<Rightarrow> disk" where
  "disk_step (FileIo (CreateFile p), ABool True) d = d(p \<mapsto> [])"
| "disk_step (FileIo (WriteFile p content), AInt n) d = d(p \<mapsto> take (nat n) content)"
| "disk_step (FileIo (MoveFileEx a b), ABool True) d = (d(b := d a))(a := None)"
| "disk_step (FileIo (DeleteFile p), ABool True) d = d(p := None)"
| "disk_step _ d = d"

text \<open>The contents of the files after a trace that started on the disk \<open>d\<close>.\<close>

definition disk_after :: "disk \<Rightarrow> trace \<Rightarrow> disk" where
  "disk_after d t = foldr disk_step t d"

lemma disk_after_simps [simp]:
  "disk_after d [] = d" "disk_after d (e # t) = disk_step e (disk_after d t)"
  by (simp_all add: disk_after_def)

end
