(* ===== verification/Recovery.thy ===== *)
theory Recovery
  imports World
begin

text \<open>
  \<^verbatim>\<open>service_recovery.cpp\<close>: the durable journal that says whether the network was changed
  and how to restore it.  The state is the class \<^verbatim>\<open>DurableRuntimeRecovery\<close>; its
  \<^verbatim>\<open>NetworkStateBackend\<close> is reached through the operations of \<^typ>\<open>net_op\<close>, and the journal
  on disk through those of \<^typ>\<open>file_op\<close>.
\<close>

section \<open>Stages and text\<close>

datatype (plugins only: code size) RecoveryStage =
  kClean | kSnapshotted | kCoreStarted | kNetworkApplied | kVerified | kCommitted | kRollingBack | kRecovered

definition kJournalMagic :: string where "kJournalMagic = ''POKROV_RECOVERY_V1''"
definition kMaximumNetworkSnapshotSize :: nat where "kMaximumNetworkSnapshotSize = 64 * 1024"
definition kMaximumJournalSize :: nat where "kMaximumJournalSize = kMaximumNetworkSnapshotSize * 2 + 256"
definition kJournalName :: string where "kJournalName = ''recovery-journal.v1''"
definition kPendingJournalName :: string where "kPendingJournalName = ''recovery-journal.pending''"

definition AppendPath :: "string \<Rightarrow> string \<Rightarrow> string" where
  "AppendPath base child =
     (if base = [] then [] else base @ (if last base = CHR 0x5C then [] else [CHR 0x5C]) @ child)"

fun StageName :: "RecoveryStage \<Rightarrow> string" where
  "StageName kClean = ''clean''"
| "StageName kSnapshotted = ''snapshotted''"
| "StageName kCoreStarted = ''core_started''"
| "StageName kNetworkApplied = ''network_applied''"
| "StageName kVerified = ''verified''"
| "StageName kCommitted = ''committed''"
| "StageName kRollingBack = ''rolling_back''"
| "StageName kRecovered = ''recovered''"

definition all_stages :: "RecoveryStage list" where
  "all_stages = [kClean, kSnapshotted, kCoreStarted, kNetworkApplied, kVerified, kCommitted, kRollingBack, kRecovered]"

definition ParseStage :: "string \<Rightarrow> RecoveryStage option" where
  "ParseStage value = find (\<lambda>stage. value = StageName stage) all_stages"

definition is_xdigit :: "char \<Rightarrow> bool" where
  "is_xdigit c \<longleftrightarrow> is_digit c \<or> (CHR ''a'' \<le> c \<and> c \<le> CHR ''f'') \<or> (CHR ''A'' \<le> c \<and> c \<le> CHR ''F'')"

definition is_upper :: "char \<Rightarrow> bool" where
  "is_upper c \<longleftrightarrow> CHR ''A'' \<le> c \<and> c \<le> CHR ''Z''"

definition IsHexGeneration :: "string \<Rightarrow> bool" where
  "IsHexGeneration value \<longleftrightarrow>
     length value = 32 \<and> list_all (\<lambda>c. is_xdigit c \<and> \<not> is_upper c) value"

definition HexEncode :: "string \<Rightarrow> string" where
  "HexEncode value = concat (map (\<lambda>c. hex_byte (byte_of c)) value)"

definition nibble :: "char \<Rightarrow> int" where
  "nibble c =
     (if CHR ''0'' \<le> c \<and> c \<le> CHR ''9'' then of_char c - of_char CHR ''0''
      else if CHR ''a'' \<le> c \<and> c \<le> CHR ''f'' then of_char c - of_char CHR ''a'' + 10
      else - 1)"

fun hex_pairs :: "string \<Rightarrow> string option" where
  "hex_pairs (h # l # rest) =
     (if nibble h < 0 \<or> nibble l < 0 then None
      else map_option (Cons (char_of_byte (of_int (push_bit 4 (nibble h) OR nibble l)))) (hex_pairs rest))"
| "hex_pairs _ = Some []"

definition HexDecode :: "string \<Rightarrow> string option" where
  "HexDecode value =
     (if length value mod 2 \<noteq> 0 \<or> kMaximumNetworkSnapshotSize * 2 < length value then None
      else hex_pairs value)"

text \<open>Sixteen random bytes in hexadecimal; empty when the generator fails.\<close>

definition NewGeneration :: "env \<Rightarrow> ('c, string) action" where
  "NewGeneration e = do {
     bytes \<leftarrow> ask (env_bytes e) ABytes GenRandom;
     State_Monad.return (case bytes of None \<Rightarrow> [] | Some bs \<Rightarrow> hex_string bs)
   }"

section \<open>Files\<close>

text \<open>What opening and reading a file gives: whether it opens, its bytes, whether they are read.\<close>

record file_view =
  fv_opens :: bool
  fv_bytes :: string
  fv_reads :: bool

definition ReadBoundedFile :: "file_view \<Rightarrow> string option" where
  "ReadBoundedFile v =
     (if \<not> fv_opens v then None
      else if 0 < length (fv_bytes v) \<and> length (fv_bytes v) \<le> kMaximumJournalSize \<and> fv_reads v
      then Some (fv_bytes v) else None)"

definition WriteAtomicFile :: "env \<Rightarrow> string \<Rightarrow> string \<Rightarrow> string \<Rightarrow> ('c, bool) action" where
  "WriteAtomicFile e target pending content = do {
     created \<leftarrow> ask_bool e (FileIo (CreateFile pending));
     if \<not> created then State_Monad.return False
     else do {
       written \<leftarrow> ask_int e (FileIo (WriteFile pending content));
       flushed \<leftarrow> (if written = int (length content) then ask_bool e (FileIo (FlushFileBuffers pending))
                  else State_Monad.return False);
       moved \<leftarrow> (if flushed then ask_bool e (FileIo (MoveFileEx pending target))
                else State_Monad.return False);
       if moved then State_Monad.return True
       else do {
         ask_bool e (FileIo (DeleteFile pending));
         State_Monad.return False
       }
     }
   }"

section \<open>The journal\<close>

fun IsForwardTransition :: "RecoveryStage \<Rightarrow> RecoveryStage \<Rightarrow> bool" where
  "IsForwardTransition kClean next = (next = kSnapshotted)"
| "IsForwardTransition kSnapshotted next = (next = kCoreStarted \<or> next = kRollingBack)"
| "IsForwardTransition kCoreStarted next = (next = kNetworkApplied \<or> next = kRollingBack)"
| "IsForwardTransition kNetworkApplied next = (next = kVerified \<or> next = kRollingBack)"
| "IsForwardTransition kVerified next = (next = kCommitted \<or> next = kRollingBack)"
| "IsForwardTransition kCommitted next = (next = kRollingBack)"
| "IsForwardTransition kRollingBack next = (next = kRecovered)"
| "IsForwardTransition kRecovered next = (next = kClean)"

record DurableRuntimeRecovery =
  rc_journal_path :: string
  rc_pending_path :: string
  rc_network_state :: bool
  rc_stage :: RecoveryStage
  rc_generation :: string
  rc_network_snapshot :: string
  rc_invalid :: bool

definition zero_generation :: string where
  "zero_generation = replicate 32 CHR ''0''"

definition RequiresRecovery :: "DurableRuntimeRecovery \<Rightarrow> bool" where
  "RequiresRecovery r \<longleftrightarrow> rc_invalid r \<or> rc_stage r \<noteq> kClean"

definition RecoveryStageName :: "DurableRuntimeRecovery \<Rightarrow> string" where
  "RecoveryStageName r = (if rc_invalid r then ''invalid'' else StageName (rc_stage r))"

definition journal_text :: "RecoveryStage \<Rightarrow> string \<Rightarrow> string \<Rightarrow> string" where
  "journal_text stage generation snapshot =
     kJournalMagic @ [newline] @ ''stage='' @ StageName stage @ [newline] @ ''generation='' @ generation @
     [newline] @ ''network_state='' @ HexEncode snapshot @ [newline]"

definition Write :: "env \<Rightarrow> (DurableRuntimeRecovery, bool) action" where
  "Write e = do {
     r \<leftarrow> my id;
     if rc_journal_path r = [] \<or> rc_pending_path r = [] \<or> \<not> IsHexGeneration (rc_generation r)
     then State_Monad.return False
     else WriteAtomicFile e (rc_journal_path r) (rc_pending_path r)
            (journal_text (rc_stage r) (rc_generation r) (rc_network_snapshot r))
   }"

definition Record :: "env \<Rightarrow> RecoveryStage \<Rightarrow> (DurableRuntimeRecovery, string) action" where
  "Record e stage = do {
     r \<leftarrow> my id;
     if rc_invalid r then State_Monad.return ''recovery_journal_invalid''
     else if \<not> IsForwardTransition (rc_stage r) stage then State_Monad.return ''recovery_stage_invalid''
     else do {
       change (\<lambda>r. r\<lparr>rc_stage := stage\<rparr>);
       written \<leftarrow> Write e;
       if \<not> written then do {
         change (\<lambda>r'. r'\<lparr>rc_stage := rc_stage r\<rparr>);
         State_Monad.return ''recovery_write_failed''
       } else State_Monad.return []
     }
   }"

definition Begin :: "env \<Rightarrow> (DurableRuntimeRecovery, string) action" where
  "Begin e = do {
     r \<leftarrow> my id;
     if rc_invalid r then State_Monad.return ''recovery_journal_invalid''
     else if rc_stage r \<noteq> kClean then State_Monad.return ''recovery_required''
     else do {
       generation \<leftarrow> NewGeneration e;
       if generation = [] then State_Monad.return ''recovery_generation_failed''
       else if \<not> rc_network_state r then State_Monad.return ''recovery_network_unavailable''
       else do {
         capture_error \<leftarrow> ask_text e (NetIo CaptureNetwork);
         if capture_error \<noteq> [] then State_Monad.return capture_error
         else do {
           snapshot \<leftarrow> ask_text e (NetIo CapturedSnapshot);
           if snapshot = [] \<or> kMaximumNetworkSnapshotSize < length snapshot
           then State_Monad.return ''recovery_network_snapshot_invalid''
           else do {
             change (\<lambda>r. r\<lparr>rc_generation := generation, rc_network_snapshot := snapshot\<rparr>);
             Record e kSnapshotted
           }
         }
       }
     }
   }"

definition FinishRecovery :: "env \<Rightarrow> (DurableRuntimeRecovery, string) action" where
  "FinishRecovery e = do {
     snapshot \<leftarrow> my rc_network_snapshot;
     change (\<lambda>r. r\<lparr>rc_network_snapshot := []\<rparr>);
     error \<leftarrow> Record e kClean;
     if error \<noteq> [] then do {
       change (\<lambda>r. r\<lparr>rc_network_snapshot := snapshot\<rparr>);
       State_Monad.return error
     } else State_Monad.return error
   }"

definition BeginRollback :: "env \<Rightarrow> (DurableRuntimeRecovery, string) action" where
  "BeginRollback e = do {
     r \<leftarrow> my id;
     if rc_invalid r then State_Monad.return ''recovery_journal_invalid''
     else if rc_stage r = kClean then State_Monad.return []
     else if rc_stage r = kRollingBack then State_Monad.return []
     else if rc_stage r = kRecovered then FinishRecovery e
     else Record e kRollingBack
   }"

definition RestoreNetworkState :: "env \<Rightarrow> (DurableRuntimeRecovery, string) action" where
  "RestoreNetworkState e = do {
     r \<leftarrow> my id;
     if rc_invalid r then State_Monad.return ''recovery_journal_invalid''
     else if rc_stage r = kClean then State_Monad.return []
     else if rc_stage r \<noteq> kRollingBack then State_Monad.return ''recovery_stage_invalid''
     else if \<not> rc_network_state r then State_Monad.return ''recovery_network_unavailable''
     else if rc_network_snapshot r = [] \<or> kMaximumNetworkSnapshotSize < length (rc_network_snapshot r)
     then State_Monad.return ''recovery_network_snapshot_invalid''
     else ask_text e (NetIo (RestoreNetwork (rc_network_snapshot r)))
   }"

definition CompleteRollback :: "env \<Rightarrow> (DurableRuntimeRecovery, string) action" where
  "CompleteRollback e = do {
     r \<leftarrow> my id;
     if rc_invalid r then State_Monad.return ''recovery_journal_invalid''
     else if rc_stage r = kClean then State_Monad.return []
     else if rc_stage r \<noteq> kRollingBack then State_Monad.return ''recovery_stage_invalid''
     else do {
       error \<leftarrow> Record e kRecovered;
       if error \<noteq> [] then State_Monad.return error else FinishRecovery e
     }
   }"

section \<open>Loading\<close>

text \<open>What the constructor finds at the journal's path.\<close>

datatype (plugins only: code size) journal_view = JournalAbsent | JournalAttributesFailed | JournalFile file_view

lemma find_char_ge: "find_char s c pos = Some e \<Longrightarrow> pos \<le> e \<and> e < length s"
  by (auto simp: find_char_def dest!: index_of_SomeD)

function journal_lines :: "string \<Rightarrow> nat \<Rightarrow> string list option" where
  "journal_lines content start =
     (if start < length content then
        (case find_char content newline start of
           None \<Rightarrow> None
         | Some e \<Rightarrow> map_option (Cons (substr content start (e - start))) (journal_lines content (e + 1)))
      else Some [])"
  by auto
termination
  by (relation "measure (\<lambda>(content, start). length content - start)") (auto dest!: find_char_ge)

declare journal_lines.simps [simp del]

definition parse_journal :: "string \<Rightarrow> (RecoveryStage \<times> string \<times> string) option" where
  "parse_journal content =
     (if last content \<noteq> newline then None
      else case journal_lines content 0 of
        None \<Rightarrow> None
      | Some lines \<Rightarrow>
          if length lines \<noteq> 4 \<or> lines ! 0 \<noteq> kJournalMagic \<or> \<not> starts_with ''stage='' (lines ! 1) \<or>
             \<not> starts_with ''generation='' (lines ! 2) \<or> \<not> starts_with ''network_state='' (lines ! 3)
          then None
          else
            (let generation = drop 11 (lines ! 2)
             in case ParseStage (drop 6 (lines ! 1)) of
                  None \<Rightarrow> None
                | Some parsed \<Rightarrow>
                    if \<not> IsHexGeneration generation then None
                    else case HexDecode (drop 14 (lines ! 3)) of
                      None \<Rightarrow> None
                    | Some network_snapshot \<Rightarrow>
                        if (parsed \<noteq> kClean \<and> (generation = zero_generation \<or> network_snapshot = [])) \<or>
                           (parsed = kClean \<and> network_snapshot \<noteq> [])
                        then None else Some (parsed, generation, network_snapshot)))"

definition Load :: "journal_view \<Rightarrow> DurableRuntimeRecovery \<Rightarrow> DurableRuntimeRecovery" where
  "Load v r =
     (case v of
        JournalAbsent \<Rightarrow> r\<lparr>rc_generation := zero_generation\<rparr>
      | JournalAttributesFailed \<Rightarrow> r\<lparr>rc_invalid := True\<rparr>
      | JournalFile f \<Rightarrow>
          (case ReadBoundedFile f of
             None \<Rightarrow> r\<lparr>rc_invalid := True\<rparr>
           | Some content \<Rightarrow>
               (case parse_journal content of
                  None \<Rightarrow> r\<lparr>rc_invalid := True\<rparr>
                | Some (parsed, generation, network_snapshot) \<Rightarrow>
                    r\<lparr>rc_stage := parsed, rc_generation := generation, rc_network_snapshot := network_snapshot\<rparr>)))"

definition NewRecovery :: "string \<Rightarrow> bool \<Rightarrow> journal_view \<Rightarrow> DurableRuntimeRecovery" where
  "NewRecovery runtime_root network_state v =
     Load v \<lparr>rc_journal_path = AppendPath runtime_root kJournalName,
             rc_pending_path = AppendPath runtime_root kPendingJournalName,
             rc_network_state = network_state, rc_stage = kClean, rc_generation = zero_generation,
             rc_network_snapshot = [], rc_invalid = False\<rparr>"

text \<open>The view of a file on a disk whose reads succeed.\<close>

definition journal_on :: "disk \<Rightarrow> string \<Rightarrow> journal_view" where
  "journal_on d path =
     (case d path of
        None \<Rightarrow> JournalAbsent
      | Some content \<Rightarrow> JournalFile \<lparr>fv_opens = True, fv_bytes = content, fv_reads = True\<rparr>)"

end
