(* ===== verification/Profile_Bundle.thy ===== *)
theory Profile_Bundle
  imports Recovery
begin

text \<open>
  The pure helpers at the top of \<^verbatim>\<open>service_runtime.cpp\<close>: the text form of a profile with its
  bundled rule sets (base64, \<^verbatim>\<open>ReadBundleLine\<close>, \<^verbatim>\<open>ParseProfilePayload\<close>), the checks on
  profile text, and the laws that make the bundle format exact.
\<close>

section \<open>Constants\<close>

definition kProfileBundleHeader :: string where "kProfileBundleHeader = ''POKROV_PROFILE_BUNDLE_V1''"
definition kProfileBundleJsonMarker :: string where "kProfileBundleJsonMarker = ''POKROV_PROFILE_JSON''"
definition kRuleSetSlotMarker :: string where "kRuleSetSlotMarker = ''__POKROV_RULE_SET_SLOT__''"
definition kMaximumBundledRuleSets :: nat where "kMaximumBundledRuleSets = 8"
definition kMaximumBundledRuleSetBytes :: nat where "kMaximumBundledRuleSetBytes = 128 * 1024"
definition kMaximumBundledRuleSetTotalBytes :: nat where "kMaximumBundledRuleSetTotalBytes = 160 * 1024"

definition safe_egress_failures :: "string list" where
  "safe_egress_failures =
     [''core_egress_dns_failed'', ''core_egress_connect_failed'', ''core_egress_tls_failed'',
      ''core_egress_tls_timeout'', ''core_egress_response_timeout'', ''core_egress_timeout'',
      ''core_egress_probe_unavailable'', ''core_smart_access_lease_expired'', ''profile_payload_invalid'']"

definition SafeEgressFailure :: "string \<Rightarrow> string" where
  "SafeEgressFailure failure =
     (if failure \<in> set safe_egress_failures then failure else ''core_egress_probe_failed'')"

record ParsedProfileBundle =
  pb_profile :: string
  pb_rule_sets :: "u8 list list"

section \<open>Lines and base64\<close>

text \<open>The offset after the line and the line; a line is not empty and holds no carriage return.\<close>

definition ReadBundleLine :: "string \<Rightarrow> nat \<Rightarrow> (nat \<times> string) option" where
  "ReadBundleLine value offset =
     (if length value \<le> offset then None
      else case find_char value newline offset of
        None \<Rightarrow> None
      | Some e \<Rightarrow>
          if e = offset \<or> (case find_char value (CHR 0x0D) offset of None \<Rightarrow> False | Some r \<Rightarrow> r < e)
          then None else Some (e + 1, substr value offset (e - offset)))"

definition Base64Value :: "char \<Rightarrow> int" where
  "Base64Value v =
     (if CHR ''A'' \<le> v \<and> v \<le> CHR ''Z'' then of_char v - of_char CHR ''A''
      else if CHR ''a'' \<le> v \<and> v \<le> CHR ''z'' then of_char v - of_char CHR ''a'' + 26
      else if CHR ''0'' \<le> v \<and> v \<le> CHR ''9'' then of_char v - of_char CHR ''0'' + 52
      else if v = CHR ''+'' then 62
      else if v = CHR ''/'' then 63
      else - 1)"

fun base64_groups :: "string \<Rightarrow> u8 list option" where
  "base64_groups (e0 # e1 # e2 # e3 # rest) =
     (let final = (rest = []);
          pad2 = (e2 = CHR ''='');
          pad3 = (e3 = CHR ''='');
          a = Base64Value e0;
          b = Base64Value e1;
          c = (if pad2 then 0 else Base64Value e2);
          d = (if pad3 then 0 else Base64Value e3)
      in if a < 0 \<or> b < 0 \<or> c < 0 \<or> d < 0 \<or> (\<not> final \<and> (pad2 \<or> pad3)) \<or> (pad2 \<and> \<not> pad3) \<or>
            (pad2 \<and> b AND 0x0f \<noteq> 0) \<or> (\<not> pad2 \<and> pad3 \<and> c AND 0x03 \<noteq> 0)
         then None
         else map_option (\<lambda>bytes.
                [of_int (push_bit 2 a OR drop_bit 4 b)] @
                (if pad2 then [] else [of_int (push_bit 4 (b AND 0x0f) OR drop_bit 2 c)]) @
                (if pad3 then [] else [of_int (push_bit 6 (c AND 0x03) OR d)]) @ bytes)
              (base64_groups rest))"
| "base64_groups _ = Some []"

definition DecodeBase64 :: "string \<Rightarrow> u8 list option" where
  "DecodeBase64 encoded =
     (if encoded = [] \<or> length encoded mod 4 \<noteq> 0 \<or>
         ((kMaximumBundledRuleSetBytes + 2) div 3) * 4 < length encoded then None
      else case base64_groups encoded of
        None \<Rightarrow> None
      | Some decoded \<Rightarrow>
          if decoded \<noteq> [] \<and> length decoded \<le> kMaximumBundledRuleSetBytes then Some decoded else None)"

section \<open>Occurrences\<close>

lemma find_str_ge: "find_str s p pos = Some i \<Longrightarrow> pos \<le> length s \<Longrightarrow> pos \<le> i \<and> i + length p \<le> length s"
proof -
  assume "find_str s p pos = Some i" "pos \<le> length s"
  then obtain j where j: "index_of_str p (drop pos s) = Some j" "i = pos + j" by (auto simp: find_str_def)
  from index_of_str_SomeD [OF j(1)] have "length p \<le> length (drop (pos + j) s)"
    by (metis add.commute drop_drop length_take min.absorb_iff2 nat_le_linear starts_with_def take_all)
  moreover have "j \<le> length (drop pos s)" using index_of_str_SomeD [OF j(1)] by simp
  ultimately show ?thesis using \<open>pos \<le> length s\<close> j(2) by simp
qed

text \<open>The loops of \<^verbatim>\<open>CountOccurrences\<close> and \<^verbatim>\<open>ReplaceAll\<close>; every needle of the service is not empty.\<close>

function count_from :: "string \<Rightarrow> string \<Rightarrow> nat \<Rightarrow> nat" where
  "count_from value needle offset =
     (if needle = [] \<or> length value < offset then 0
      else case find_str value needle offset of
        None \<Rightarrow> 0
      | Some found \<Rightarrow> Suc (count_from value needle (found + length needle)))"
  by auto
termination
  by (relation "measure (\<lambda>(value, needle, offset). Suc (length value) - offset)")
    (auto dest!: find_str_ge simp: not_less neq_Nil_conv)

declare count_from.simps [simp del]

definition CountOccurrences :: "string \<Rightarrow> string \<Rightarrow> nat" where
  "CountOccurrences value needle = count_from value needle 0"

function replace_from :: "string \<Rightarrow> string \<Rightarrow> string \<Rightarrow> nat \<Rightarrow> string" where
  "replace_from value needle replacement offset =
     (if needle = [] \<or> length value < offset then value
      else case find_str value needle offset of
        None \<Rightarrow> value
      | Some found \<Rightarrow>
          replace_from (take found value @ replacement @ drop (found + length needle) value) needle replacement
            (found + length replacement))"
  by auto
termination
  by (relation "measure (\<lambda>(value, needle, replacement, offset). Suc (length value) - offset)")
    (auto dest!: find_str_ge simp: not_less neq_Nil_conv)

declare replace_from.simps [simp del]

definition ReplaceAll :: "string \<Rightarrow> string \<Rightarrow> string \<Rightarrow> string" where
  "ReplaceAll value needle replacement = replace_from value needle replacement 0"

section \<open>The bundle\<close>

definition rule_set_name :: "nat \<Rightarrow> string" where
  "rule_set_name index = ''ruleset-'' @ to_string index @ ''.srs''"

fun parse_rule_sets :: "string \<Rightarrow> nat list \<Rightarrow> nat \<Rightarrow> nat \<Rightarrow> (nat \<times> u8 list list) option" where
  "parse_rule_sets value [] offset total_bytes = Some (offset, [])"
| "parse_rule_sets value (index # rest) offset total_bytes =
     (case ReadBundleLine value offset of
        None \<Rightarrow> None
      | Some (after_name, name) \<Rightarrow>
          if name \<noteq> rule_set_name index then None
          else case ReadBundleLine value after_name of
            None \<Rightarrow> None
          | Some (after_encoded, encoded) \<Rightarrow>
              (case DecodeBase64 encoded of
                 None \<Rightarrow> None
               | Some decoded \<Rightarrow>
                   if kMaximumBundledRuleSetTotalBytes < total_bytes + length decoded then None
                   else map_option (\<lambda>(final, sets). (final, decoded # sets))
                          (parse_rule_sets value rest after_encoded (total_bytes + length decoded))))"

definition ParseProfilePayload :: "string \<Rightarrow> ParsedProfileBundle option" where
  "ParseProfilePayload value =
     (if \<not> starts_with (kProfileBundleHeader @ [newline]) value
      then Some \<lparr>pb_profile = value, pb_rule_sets = []\<rparr>
      else case ReadBundleLine value (length kProfileBundleHeader + 1) of
        None \<Rightarrow> None
      | Some (offset, line) \<Rightarrow>
          if 1 < length line \<or> line ! 0 < CHR ''1'' \<or> CHR ''8'' < line ! 0 then None
          else
            (let count = digit_value (line ! 0)
             in case parse_rule_sets value [0..<count] offset 0 of
                  None \<Rightarrow> None
                | Some (offset, rule_sets) \<Rightarrow>
                    (case ReadBundleLine value offset of
                       None \<Rightarrow> None
                     | Some (offset, line) \<Rightarrow>
                         if line \<noteq> kProfileBundleJsonMarker \<or> length value \<le> offset then None
                         else
                           (let profile = drop offset value
                            in if CountOccurrences profile kRuleSetSlotMarker = count
                               then Some \<lparr>pb_profile = profile, pb_rule_sets = rule_sets\<rparr> else None))))"

section \<open>Checks on text\<close>

definition json_blank :: "char \<Rightarrow> bool" where
  "json_blank c \<longleftrightarrow> c \<in> {CHR '' '', CHR 0x09, CHR 0x0D, CHR 0x0A}"

text \<open>\<open>utf8\<close> is the strict decoder of the operating system: whether the bytes are valid.\<close>

definition IsValidUtf8JsonObject :: "(string \<Rightarrow> bool) \<Rightarrow> string \<Rightarrow> bool" where
  "IsValidUtf8JsonObject utf8 value =
     (if value = [] \<or> nul \<in> set value then False
      else (let body = dropWhile json_blank value; rev_body = dropWhile json_blank (rev value)
            in if body = [] \<or> hd body \<noteq> CHR 0x7B \<or> hd rev_body \<noteq> CHR 0x7D then False
               else utf8 value))"

definition IsLowerHex :: "char \<Rightarrow> bool" where
  "IsLowerHex v \<longleftrightarrow> (CHR ''0'' \<le> v \<and> v \<le> CHR ''9'') \<or> (CHR ''a'' \<le> v \<and> v \<le> CHR ''f'')"

definition IsLowerUuid :: "string \<Rightarrow> bool" where
  "IsLowerUuid value =
     (if length value \<noteq> 36 \<or> value ! 8 \<noteq> CHR ''-'' \<or> value ! 13 \<noteq> CHR ''-'' \<or> value ! 18 \<noteq> CHR ''-'' \<or>
         value ! 23 \<noteq> CHR ''-'' \<or> value ! 14 < CHR ''1'' \<or> CHR ''5'' < value ! 14 \<or>
         value ! 19 \<notin> set ''89ab'' then False
      else list_all (\<lambda>index. index \<in> {8, 13, 18, 23} \<or> IsLowerHex (value ! index)) [0..<length value])"

definition IsUtcTimestamp :: "string \<Rightarrow> bool" where
  "IsUtcTimestamp value =
     (if length value < 20 \<or> 30 < length value \<or> last value \<noteq> CHR ''Z'' \<or> value ! 4 \<noteq> CHR ''-'' \<or>
         value ! 7 \<noteq> CHR ''-'' \<or> value ! 10 \<noteq> CHR ''T'' \<or> value ! 13 \<noteq> CHR '':'' \<or> value ! 16 \<noteq> CHR '':''
      then False
      else list_all (\<lambda>c. is_digit c \<or> c = CHR ''-'' \<or> c = CHR ''T'' \<or> c = CHR '':'' \<or> c = CHR ''.'')
             (butlast value))"

end
