(* ===== verification/Bundle_Laws.thy ===== *)
theory Bundle_Laws
  imports Profile_Bundle
begin

text \<open>
  The bundle format is exact: base64 text is accepted only in its canonical form, and a
  bundle is accepted only when it is the one text of its rule sets and its profile, within
  the limits on their number and size.
\<close>

section \<open>Base64\<close>

definition base64_alphabet :: string where
  "base64_alphabet = ''ABCDEFGHIJKLMNOPQRSTUVWXYZabcdefghijklmnopqrstuvwxyz0123456789+/''"

definition base64_char :: "nat \<Rightarrow> char" where
  "base64_char n = base64_alphabet ! n"

text \<open>The canonical encoding.\<close>

fun base64_encode :: "u8 list \<Rightarrow> string" where
  "base64_encode [] = []"
| "base64_encode [x] = [base64_char (unat x div 4), base64_char (unat x mod 4 * 16), CHR ''='', CHR ''='']"
| "base64_encode [x, y] =
     [base64_char (unat x div 4), base64_char (unat x mod 4 * 16 + unat y div 16),
      base64_char (unat y mod 16 * 4), CHR ''='']"
| "base64_encode (x # y # z # rest) =
     base64_char (unat x div 4) # base64_char (unat x mod 4 * 16 + unat y div 16) #
     base64_char (unat y mod 16 * 4 + unat z div 64) # base64_char (unat z mod 64) # base64_encode rest"

lemma base64_char_value:
  "n < 64 \<Longrightarrow> Base64Value (base64_char n) = int n \<and> base64_char n \<noteq> CHR ''=''"
proof -
  have "\<forall>n \<in> set [0..<64]. Base64Value (base64_char n) = int n \<and> base64_char n \<noteq> CHR ''=''"
    unfolding Base64Value_def base64_char_def base64_alphabet_def by code_simp
  then show "n < 64 \<Longrightarrow> ?thesis" by simp
qed

lemma base64_ranges:
  "map char_of [of_char CHR ''A''..<Suc (of_char CHR ''Z'')] = ''ABCDEFGHIJKLMNOPQRSTUVWXYZ''"
  "map char_of [of_char CHR ''a''..<Suc (of_char CHR ''z'')] = ''abcdefghijklmnopqrstuvwxyz''"
  by code_simp+

lemma base64_value_char:
  assumes "0 \<le> Base64Value c" shows "\<exists>n < 64. c = base64_char n \<and> Base64Value c = int n"
proof -
  have "c \<in> set base64_alphabet"
    using assms unfolding Base64Value_def char_interval base64_ranges digit_chars
    by (auto simp: base64_alphabet_def split: if_splits)
  then obtain n where "n < length base64_alphabet" "c = base64_char n"
    by (metis base64_char_def in_set_conv_nth)
  moreover have "length base64_alphabet = 64" by (simp add: base64_alphabet_def)
  ultimately show ?thesis using base64_char_value by auto
qed

lemma bits_join: "0 \<le> l \<Longrightarrow> l < 2 ^ k \<Longrightarrow> push_bit k h OR l = h * 2 ^ k + (l :: int)"
proof -
  assume "0 \<le> l" "l < 2 ^ k"
  then have "l = take_bit k l" by (simp add: take_bit_int_eq_self)
  then have "push_bit k h OR l = push_bit k h + l"
    by (metis (no_types, lifting) disjunctive_add bit_push_bit_iff bit_take_bit_iff not_le)
  then show ?thesis by (simp add: push_bit_eq_mult)
qed

lemma low_bits: "int b AND 15 = int (b mod 16)" "int b AND 3 = int (b mod 4)"
proof -
  have "int b AND mask 4 = int b mod 2 ^ 4" "int b AND mask 2 = int b mod 2 ^ 2"
    by (simp_all only: flip: take_bit_eq_mask take_bit_eq_mod)
  then show "int b AND 15 = int (b mod 16)" "int b AND 3 = int (b mod 4)"
    by (simp_all add: mask_eq_exp_minus_1 zmod_int)
qed

lemma group_bytes:
  assumes "a < 64" "b < 64" "c < 64" "d < 64"
  shows "push_bit 2 (int a) OR drop_bit 4 (int b) = int (a * 4 + b div 16)"
    "push_bit 4 (int (b mod 16)) OR drop_bit 2 (int c) = int (b mod 16 * 16 + c div 4)"
    "push_bit 6 (int (c mod 4)) OR int d = int (c mod 4 * 64 + d)"
proof -
  have "b div 16 < 4" "c div 4 < 16" using assms by auto
  then show "push_bit 2 (int a) OR drop_bit 4 (int b) = int (a * 4 + b div 16)"
    "push_bit 4 (int (b mod 16)) OR drop_bit 2 (int c) = int (b mod 16 * 16 + c div 4)"
    "push_bit 6 (int (c mod 4)) OR int d = int (c mod 4 * 64 + d)"
    using assms by (simp_all add: bits_join drop_bit_eq_div low_bits zdiv_int)
qed

lemma byte_value: "n < 256 \<Longrightarrow> unat (word_of_nat n :: u8) = n"
  by (simp add: unat_of_nat)

text \<open>One group of the decoder, over the values of its characters.\<close>

lemma base64_groups_values:
  assumes "a < 64" "b < 64"
  shows "c < 64 \<Longrightarrow> d < 64 \<Longrightarrow> base64_groups (base64_char a # base64_char b # base64_char c # base64_char d # rest) =
      map_option (\<lambda>bs. word_of_nat (a * 4 + b div 16) # word_of_nat (b mod 16 * 16 + c div 4) #
        word_of_nat (c mod 4 * 64 + d) # bs) (base64_groups rest)"
    and "c < 64 \<Longrightarrow> base64_groups (base64_char a # base64_char b # base64_char c # CHR ''='' # rest) =
      (if rest \<noteq> [] \<or> c mod 4 \<noteq> 0 then None
       else Some [word_of_nat (a * 4 + b div 16), word_of_nat (b mod 16 * 16 + c div 4)])"
    and "base64_groups (base64_char a # base64_char b # CHR ''='' # CHR ''='' # rest) =
      (if rest \<noteq> [] \<or> b mod 16 \<noteq> 0 then None else Some [word_of_nat (a * 4 + b div 16)])"
  using assms group_bytes [of a b 0 0] group_bytes [of a b c 0] group_bytes [of a b c d]
  by (simp_all add: base64_char_value Let_def low_bits del: of_nat_add of_nat_mult push_bit_and)

declare base64_groups.simps(1) [simp del]

lemma base64_groups_encode: "base64_groups (base64_encode bs) = Some bs"
proof (induction bs rule: base64_encode.induct)
  case (2 x)
  have "unat x < 256" using unsigned_less [of x] by simp
  then show ?case by (simp add: base64_groups_values del: of_nat_add of_nat_mult)
next
  case (3 x y)
  have "unat x < 256" "unat y < 256" using unsigned_less [of x] unsigned_less [of y] by simp_all
  then show ?case by (simp add: base64_groups_values del: of_nat_add of_nat_mult)
next
  case (4 x y z rest)
  have "unat x < 256" "unat y < 256" "unat z < 256"
    using unsigned_less [of x] unsigned_less [of y] unsigned_less [of z] by simp_all
  with 4 show ?case by (simp add: base64_groups_values del: of_nat_add of_nat_mult)
qed simp

lemma length_base64_encode: "length (base64_encode bs) = (length bs + 2) div 3 * 4"
proof (induction bs rule: base64_encode.induct)
  case (4 x y z rest)
  have "(length (x # y # z # rest) + 2) div 3 = Suc ((length rest + 2) div 3)" by simp
  with 4 show ?case by simp
qed simp_all

lemma base64_groups_SomeD:
  assumes "base64_groups s = Some bs" and "length s mod 4 = 0"
  shows "s = base64_encode bs"
  using assms
proof (induction s arbitrary: bs rule: base64_groups.induct)
  case (1 e0 e1 e2 e3 rest)
  have ok: "0 \<le> Base64Value e0" "0 \<le> Base64Value e1" "e2 = CHR ''='' \<or> 0 \<le> Base64Value e2"
    "e3 = CHR ''='' \<or> 0 \<le> Base64Value e3"
    using 1(2) by (auto simp: base64_groups.simps(1) Let_def split: if_splits)
  obtain a where a: "a < 64" "e0 = base64_char a" using base64_value_char [OF ok(1)] by blast
  obtain b where b: "b < 64" "e1 = base64_char b" using base64_value_char [OF ok(2)] by blast
  consider (pad2) "e2 = CHR ''=''" | (full) c where "c < 64" "e2 = base64_char c"
    using ok(3) base64_value_char by blast
  then show ?case
  proof cases
    case pad2
    have "e3 = CHR ''=''" using 1(2) pad2 by (auto simp: base64_groups.simps(1) Let_def split: if_splits)
    with 1(2) pad2 a b have "bs = [word_of_nat (a * 4 + b div 16)]" "rest = []" "b mod 16 = 0"
      by (auto simp: base64_groups_values split: if_splits)
    moreover from this have "b div 16 * 16 = b" by presburger
    ultimately show ?thesis using a b pad2 \<open>e3 = _\<close> by (simp add: byte_value del: of_nat_add of_nat_mult)
  next
    case full
    consider (pad3) "e3 = CHR ''=''" | (all) d where "d < 64" "e3 = base64_char d"
      using ok(4) base64_value_char by blast
    then show ?thesis
    proof cases
      case pad3
      with 1(2) full a b have "bs = [word_of_nat (a * 4 + b div 16), word_of_nat (b mod 16 * 16 + c div 4)]" "rest = []" "c mod 4 = 0"
        by (auto simp: base64_groups_values split: if_splits)
      moreover from this have "c div 4 * 4 = c" by presburger
      ultimately show ?thesis using a b full pad3 by (simp add: byte_value del: of_nat_add of_nat_mult)
    next
      case all
      with 1(2) full a b obtain r where r: "base64_groups rest = Some r"
        and bs: "bs = word_of_nat (a * 4 + b div 16) # word_of_nat (b mod 16 * 16 + c div 4) # word_of_nat (c mod 4 * 64 + d) # r"
        by (auto simp: base64_groups_values simp del: of_nat_add of_nat_mult)
      have "rest = base64_encode r"
        by (rule 1(1) [OF refl refl refl refl refl refl refl _ r])
          (use 1(3) all full a b in \<open>auto simp: base64_char_value\<close>)
      with bs a b full all show ?thesis by (simp add: byte_value del: of_nat_add of_nat_mult)
    qed
  qed
qed simp_all

lemma base64_groups_iff:
  "length s mod 4 = 0 \<Longrightarrow> base64_groups s = Some bs \<longleftrightarrow> s = base64_encode bs"
  using base64_groups_SomeD base64_groups_encode by auto

lemma DecodeBase64_iff:
  "DecodeBase64 s = Some bs \<longleftrightarrow>
     bs \<noteq> [] \<and> length bs \<le> kMaximumBundledRuleSetBytes \<and> s = base64_encode bs"
proof -
  have "(length bs + 2) div 3 * 4 \<le> (kMaximumBundledRuleSetBytes + 2) div 3 * 4"
    if "length bs \<le> kMaximumBundledRuleSetBytes"
    using that by (intro mult_le_mono1 div_le_mono) simp
  moreover have "base64_encode bs \<noteq> []" if "bs \<noteq> []"
    using that by (cases bs rule: base64_encode.cases) simp_all
  ultimately show ?thesis
    by (auto simp: DecodeBase64_def base64_groups_encode length_base64_encode not_less
        dest: base64_groups_SomeD split: if_splits option.splits)
qed

lemma base64_encode_chars: "c \<in> set (base64_encode bs) \<Longrightarrow> c = CHR ''='' \<or> c \<in> set base64_alphabet"
proof (induction bs rule: base64_encode.induct)
  have char: "base64_char n \<in> set base64_alphabet" if "n < 64" for n
    unfolding base64_char_def by (rule nth_mem) (use that in \<open>simp add: base64_alphabet_def\<close>)
  have byte: "unat x < 256" for x :: u8 using unsigned_less [of x] by simp
  {
    case (2 x)
    with byte [of x] show ?case by (auto intro!: char)
  next
    case (3 x y)
    have "unat x mod 4 * 16 + unat y div 16 < 64" "unat y mod 16 * 4 < 64" using byte [of y] by auto
    with 3 byte [of x] show ?case by (auto intro!: char)
  next
    case (4 x y z rest)
    have "unat x mod 4 * 16 + unat y div 16 < 64" "unat y mod 16 * 4 + unat z div 64 < 64"
      using byte [of y] byte [of z] by auto
    with 4 byte [of x] show ?case by (auto intro!: char)
  }
qed simp

lemma base64_line_free: "newline \<notin> set (base64_encode bs)" "CHR 0x0D \<notin> set (base64_encode bs)"
  using base64_encode_chars by (fastforce simp: base64_alphabet_def)+

section \<open>Lines\<close>

definition bundle_line :: "string \<Rightarrow> bool" where
  "bundle_line l \<longleftrightarrow> l \<noteq> [] \<and> newline \<notin> set l \<and> CHR 0x0D \<notin> set l"

lemma ReadBundleLine_iff:
  "ReadBundleLine value offset = Some (offset', line) \<longleftrightarrow>
     bundle_line line \<and> offset' = offset + length line + 1 \<and>
     drop offset value = line @ newline # drop offset' value"
proof
  assume read: "ReadBundleLine value offset = Some (offset', line)"
  then obtain e where e: "find_char value newline offset = Some e" "e \<noteq> offset" "offset' = e + 1"
    "line = substr value offset (e - offset)"
    "\<not> (case find_char value (CHR 0x0D) offset of None \<Rightarrow> False | Some r \<Rightarrow> r < e)"
    by (auto simp: ReadBundleLine_def split: if_splits option.splits)
  then obtain i where i: "index_of newline (drop offset value) = Some i" "e = offset + i"
    by (auto simp: find_char_def)
  note split = index_of_split [OF i(1)]
  have "CHR 0x0D \<notin> set (take i (drop offset value))"
  proof
    assume "CHR 0x0D \<in> set (take i (drop offset value))"
    then obtain a b where ab: "take i (drop offset value) = a @ CHR 0x0D # b" "CHR 0x0D \<notin> set a"
      by (meson split_list_first)
    then have "index_of (CHR 0x0D) (drop offset value) = Some (length a)"
      by (subst split(1), subst ab(1)) (simp add: index_of_append del: drop_drop)
    moreover have "length a < i" using arg_cong [OF ab(1), of length] by auto
    ultimately show False using e(5) i(2) by (simp add: find_char_def)
  qed
  moreover have "length (take i (drop offset value)) = i" using index_of_SomeD [OF i(1)] by simp
  ultimately show "bundle_line line \<and> offset' = offset + length line + 1 \<and>
      drop offset value = line @ newline # drop offset' value"
    using split e i(2) by (auto simp: bundle_line_def substr_def add.commute)
next
  assume "bundle_line line \<and> offset' = offset + length line + 1 \<and>
      drop offset value = line @ newline # drop offset' value"
  then have line: "bundle_line line" "offset' = offset + length line + 1"
    and d: "drop offset value = line @ newline # drop offset' value" by blast+
  have "offset < length value" using d by (metis append_is_Nil_conv drop_all list.distinct(1) not_less)
  moreover have "find_char value newline offset = Some (offset + length line)"
    using line d by (simp add: find_char_def bundle_line_def index_of_append)
  moreover have "\<not> r < offset + length line" if found: "find_char value (CHR 0x0D) offset = Some r" for r
  proof
    assume "r < offset + length line"
    moreover obtain j where j: "index_of (CHR 0x0D) (drop offset value) = Some j" "r = offset + j"
      using found by (auto simp: find_char_def)
    ultimately have "CHR 0x0D \<in> set line"
      using index_of_SomeD [OF j(1)] unfolding d by (auto simp: nth_append in_set_conv_nth split: if_splits)
    with line(1) show False by (simp add: bundle_line_def)
  qed
  ultimately show "ReadBundleLine value offset = Some (offset', line)"
    using line d by (auto simp: ReadBundleLine_def bundle_line_def substr_def split: option.splits)
qed

section \<open>Bundles\<close>

definition rule_set_lines :: "nat \<Rightarrow> u8 list \<Rightarrow> string" where
  "rule_set_lines index bytes = rule_set_name index @ newline # base64_encode bytes @ [newline]"

definition bundle_text :: "u8 list list \<Rightarrow> string \<Rightarrow> string" where
  "bundle_text rule_sets profile =
     kProfileBundleHeader @ newline # to_string (length rule_sets) @ newline #
     concat (map2 rule_set_lines [0..<length rule_sets] rule_sets) @
     kProfileBundleJsonMarker @ newline # profile"

definition bundle_ok :: "u8 list list \<Rightarrow> string \<Rightarrow> bool" where
  "bundle_ok rule_sets profile \<longleftrightarrow>
     1 \<le> length rule_sets \<and> length rule_sets \<le> kMaximumBundledRuleSets \<and>
     list_all (\<lambda>bytes. bytes \<noteq> [] \<and> length bytes \<le> kMaximumBundledRuleSetBytes) rule_sets \<and>
     sum_list (map length rule_sets) \<le> kMaximumBundledRuleSetTotalBytes \<and>
     profile \<noteq> [] \<and> CountOccurrences profile kRuleSetSlotMarker = length rule_sets"

lemma rule_set_name_line: "bundle_line (rule_set_name i)"
  using to_string_notin [of newline i] to_string_notin [of "CHR 0x0D" i]
  by (auto simp: bundle_line_def rule_set_name_def is_digit_set)

lemma base64_line: "bs \<noteq> [] \<Longrightarrow> bundle_line (base64_encode bs)"
  using base64_line_free [of bs] unfolding bundle_line_def by (cases bs rule: base64_encode.cases) simp_all

lemma drop_after: "drop n v = x @ y \<Longrightarrow> drop (n + length x) v = y"
  by (metis append_eq_conv_conj drop_drop add.commute)

lemma parse_rule_sets_iff:
  "sofar \<le> kMaximumBundledRuleSetTotalBytes \<Longrightarrow>
   parse_rule_sets value is offset sofar = Some (offset', sets) \<longleftrightarrow>
     length sets = length is \<and>
     list_all (\<lambda>bytes. bytes \<noteq> [] \<and> length bytes \<le> kMaximumBundledRuleSetBytes) sets \<and>
     sofar + sum_list (map length sets) \<le> kMaximumBundledRuleSetTotalBytes \<and>
     drop offset value = concat (map2 rule_set_lines is sets) @ drop offset' value \<and>
     offset' = offset + length (concat (map2 rule_set_lines is sets))"
proof (induction "is" arbitrary: offset sofar sets)
  case Nil
  then show ?case by auto
next
  case (Cons i rest)
  show ?case (is "?lhs = ?rhs")
  proof
    assume ?lhs
    then obtain o1 o2 enc dec tail where
      r1: "ReadBundleLine value offset = Some (o1, rule_set_name i)"
      and r2: "ReadBundleLine value o1 = Some (o2, enc)" and dec: "DecodeBase64 enc = Some dec"
      and tot: "sofar + length dec \<le> kMaximumBundledRuleSetTotalBytes"
      and tail: "parse_rule_sets value rest o2 (sofar + length dec) = Some (offset', tail)" and sets: "sets = dec # tail"
      by (auto split: option.splits if_splits prod.splits)
    note IH = Cons.IH [OF tot, of o2 tail, THEN iffD1, OF tail]
    from r1 r2 have "drop offset value = rule_set_name i @ newline # enc @ newline # drop o2 value"
      "o2 = offset + length (rule_set_name i) + length enc + 2" by (auto simp: ReadBundleLine_iff)
    with IH dec sets show ?rhs by (auto simp: DecodeBase64_iff rule_set_lines_def [of i dec])
  next
    assume r: ?rhs
    then obtain dec tail where sets: "sets = dec # tail" by (cases sets) auto
    define o1 where "o1 = offset + length (rule_set_name i) + 1"
    define o2 where "o2 = o1 + length (base64_encode dec) + 1"
    have d: "drop offset value = rule_set_name i @ newline # base64_encode dec @ newline #
        concat (map2 rule_set_lines rest tail) @ drop offset' value"
      using r sets by (simp add: rule_set_lines_def [of i dec])
    have d1: "drop o1 value = base64_encode dec @ newline # concat (map2 rule_set_lines rest tail) @ drop offset' value"
      using drop_after [of offset "value" "rule_set_name i @ [newline]"] d by (simp add: o1_def add.assoc)
    have d2: "drop o2 value = concat (map2 rule_set_lines rest tail) @ drop offset' value"
      using drop_after [of o1 "value" "base64_encode dec @ [newline]"] d1 by (simp add: o2_def add.assoc)
    have ok: "dec \<noteq> []" "length dec \<le> kMaximumBundledRuleSetBytes"
      "sofar + length dec \<le> kMaximumBundledRuleSetTotalBytes" using r sets by auto
    have "ReadBundleLine value offset = Some (o1, rule_set_name i)"
      unfolding ReadBundleLine_iff using d d1 rule_set_name_line by (simp add: o1_def)
    moreover have "ReadBundleLine value o1 = Some (o2, base64_encode dec)"
      unfolding ReadBundleLine_iff using d1 d2 base64_line [OF ok(1)] by (simp add: o2_def)
    moreover have "DecodeBase64 (base64_encode dec) = Some dec" using ok by (simp add: DecodeBase64_iff)
    moreover have "parse_rule_sets value rest o2 (sofar + length dec) = Some (offset', tail)"
      unfolding Cons.IH [OF ok(3)] using r sets d2
      by (auto simp: o1_def o2_def rule_set_lines_def [of i dec])
    ultimately show ?lhs using ok sets by simp
  qed
qed

lemma count_line: "n \<in> {1..8} \<Longrightarrow> to_string n = [dec_digit n] \<and> bundle_line [dec_digit n] \<and>
    \<not> dec_digit n < CHR ''1'' \<and> \<not> CHR ''8'' < dec_digit n \<and> digit_value (dec_digit n) = n"
proof -
  have "\<forall>n \<in> set [1..<9]. bundle_line [dec_digit n] \<and> \<not> dec_digit n < CHR ''1'' \<and> \<not> CHR ''8'' < dec_digit n"
    unfolding bundle_line_def dec_digit_def by code_simp
  moreover have "to_string n = [dec_digit n]" if "n < 10" for n using that by (simp add: to_string.simps)
  ultimately show "n \<in> {1..8} \<Longrightarrow> ?thesis" using dec_digit_all [of n] by auto
qed

lemma count_char: "\<not> c < CHR ''1'' \<Longrightarrow> \<not> CHR ''8'' < c \<Longrightarrow> digit_value c \<in> {1..8} \<and> dec_digit (digit_value c) = c"
proof -
  assume "\<not> c < CHR ''1''" "\<not> CHR ''8'' < c"
  then have "c \<in> set (map char_of [of_char CHR ''1''..<Suc (of_char CHR ''8'')])"
    using char_interval [of "CHR ''1''" c "CHR ''8''"] by (simp add: not_less)
  moreover have "map char_of [of_char CHR ''1''..<Suc (of_char CHR ''8'')] = ''12345678''" by code_simp
  moreover have "\<forall>c \<in> set ''12345678''. digit_value c \<in> set [1..<9] \<and> dec_digit (digit_value c) = c"
    unfolding digit_value_def dec_digit_def by code_simp
  ultimately show ?thesis by fastforce
qed

text \<open>
  C36. The bundle format is exact.  A payload that starts with the bundle header is accepted
  exactly when it is the text of its rule sets (named and in order, in canonical base64) and
  its profile, with one to eight rule sets that are not empty, each and all together within
  the size limits, and as many slot markers in the profile as rule sets; a payload without the
  header is taken whole as the profile.
\<close>

theorem profile_bundle_exact:
  "ParseProfilePayload value = Some bundle \<longleftrightarrow>
     (if starts_with (kProfileBundleHeader @ [newline]) value
      then value = bundle_text (pb_rule_sets bundle) (pb_profile bundle) \<and>
           bundle_ok (pb_rule_sets bundle) (pb_profile bundle)
      else bundle = \<lparr>pb_profile = value, pb_rule_sets = []\<rparr>)"
proof (cases "starts_with (kProfileBundleHeader @ [newline]) value")
  case False
  then show ?thesis by (auto simp: ParseProfilePayload_def)
next
  case True
  define H where "H = kProfileBundleHeader @ [newline]"
  define sets where "sets = pb_rule_sets bundle"
  define profile where "profile = pb_profile bundle"
  have b: "bundle = \<lparr>pb_profile = profile, pb_rule_sets = sets\<rparr>" by (simp add: sets_def profile_def)
  have H: "length kProfileBundleHeader + 1 = length H" by (simp add: H_def)
  obtain rest where v: "value = H @ rest" using True by (auto simp: starts_with_iff H_def)
  have v0: "drop (length H) value = rest" by (simp add: v)
  have "ParseProfilePayload value = Some bundle \<longleftrightarrow>
      value = bundle_text sets profile \<and> bundle_ok sets profile" (is "?lhs = ?rhs")
  proof
    assume ?lhs
    then obtain o1 line where r0: "ReadBundleLine value (length H) = Some (o1, line)"
      and l: "length line \<le> 1" "\<not> line ! 0 < CHR ''1''" "\<not> CHR ''8'' < line ! 0"
      using True H by (auto simp: ParseProfilePayload_def H_def split: if_splits option.splits prod.splits)
    have "line \<noteq> []" using r0 by (simp add: ReadBundleLine_iff bundle_line_def)
    with l(1) obtain c where line: "line = [c]" by (cases line) auto
    have c: "\<not> c < CHR ''1''" "\<not> CHR ''8'' < c" using l line by simp_all
    have r1: "ReadBundleLine value (length H) = Some (o1, [c])" using r0 line by simp
    with \<open>?lhs\<close> c obtain o2 o3 where
      p: "parse_rule_sets value [0..<digit_value c] o1 0 = Some (o2, sets)"
      and r2: "ReadBundleLine value o2 = Some (o3, kProfileBundleJsonMarker)" and o3: "o3 < length value"
      and pr: "profile = drop o3 value" "CountOccurrences profile kRuleSetSlotMarker = digit_value c"
      using True H by (auto simp: ParseProfilePayload_def H_def b Let_def not_le split: if_splits option.splits prod.splits)
    note count = count_char [OF c]
    note line = count_line [OF conjunct1 [OF count]]
    note P = parse_rule_sets_iff [of 0 "value" "[0..<digit_value c]" o1 o2 sets, THEN iffD1, OF _ p, simplified]
    have "rest = [c] @ newline # drop o1 value" using r1 v0 by (simp add: ReadBundleLine_iff)
    moreover have "drop o2 value = kProfileBundleJsonMarker @ newline # profile" using r2 pr by (simp add: ReadBundleLine_iff)
    ultimately have "value = bundle_text sets profile"
      using P line count v by (simp add: bundle_text_def H_def)
    moreover have "length sets = digit_value c" "sum_list (map length sets) \<le> kMaximumBundledRuleSetTotalBytes"
      "list_all (\<lambda>bytes. bytes \<noteq> [] \<and> length bytes \<le> kMaximumBundledRuleSetBytes) sets" using P by blast+
    moreover have "profile \<noteq> []" using o3 pr(1) by simp
    ultimately show ?rhs using pr(2) count unfolding bundle_ok_def kMaximumBundledRuleSets_def by simp
  next
    assume r: ?rhs
    then have n: "length sets \<in> {1..8}" by (auto simp: bundle_ok_def kMaximumBundledRuleSets_def)
    note line = count_line [OF n]
    define L where "L = concat (map2 rule_set_lines [0..<length sets] sets)"
    define o1 where "o1 = length H + 2"
    define o2 where "o2 = o1 + length L"
    define o3 where "o3 = o2 + length kProfileBundleJsonMarker + 1"
    have rest: "rest = [dec_digit (length sets)] @ newline # L @ kProfileBundleJsonMarker @ newline # profile"
      using r line v by (simp add: bundle_text_def H_def L_def)
    have d1: "drop o1 value = L @ kProfileBundleJsonMarker @ newline # profile"
      by (simp add: o1_def v rest)
    have d2: "drop o2 value = kProfileBundleJsonMarker @ newline # profile"
      using drop_after [OF d1] by (simp add: o2_def)
    have d3: "drop o3 value = profile"
      using drop_after [of o2 "value" "kProfileBundleJsonMarker @ [newline]" profile] d2 by (simp add: o3_def add.assoc)
    have "ReadBundleLine value (length H) = Some (o1, [dec_digit (length sets)])"
      unfolding ReadBundleLine_iff using v0 rest d1 line by (simp add: o1_def)
    moreover have "parse_rule_sets value [0..<length sets] o1 0 = Some (o2, sets)"
      using parse_rule_sets_iff [of 0 "value" "[0..<length sets]" o1 o2 sets] r d1 d2
      by (simp add: L_def o2_def bundle_ok_def)
    moreover have "ReadBundleLine value o2 = Some (o3, kProfileBundleJsonMarker)"
      unfolding ReadBundleLine_iff using d2 d3
      by (simp add: o3_def bundle_line_def kProfileBundleJsonMarker_def)
    moreover have "o3 < length value" using d3 r by (metis bundle_ok_def drop_all not_less)
    ultimately show ?lhs
      using True H line r b d3 by (simp add: ParseProfilePayload_def H_def bundle_ok_def Let_def)
  qed
  with True show ?thesis by (simp add: sets_def profile_def)
qed

end
