(* ===== verification/Core_Fence.thy ===== *)
theory Core_Fence
  imports Profile_Bundle
begin

text \<open>
  What \<^verbatim>\<open>service_runtime.cpp\<close> accepts from Core: the capability descriptors of the library and
  the fence that filters its operational events by run, attempt, generation and sequence.
\<close>

section \<open>Capability descriptors\<close>

abbreviation (input) quote :: "string \<Rightarrow> string" where
  "quote s \<equiv> CHR 0x22 # s @ [CHR 0x22]"

definition kCoreCapabilities :: string where
  "kCoreCapabilities =
     ''{'' @ quote ''schema_version'' @ '':1,'' @ quote ''desktop_abi'' @ '':2,'' @ quote ''event_abi'' @ '':1,'' @
     quote ''capabilities'' @ '':['' @ quote ''bounded_stop_reason'' @ '','' @ quote ''core_start_stop'' @ '','' @
     quote ''materialized_profile'' @ '','' @ quote ''secure_profile_file'' @ '','' @
     quote ''structured_operational_events'' @ '','' @ quote ''typed_lifecycle_events'' @ ''],'' @
     quote ''lifecycle_events'' @ '':['' @ quote ''initialization'' @ '','' @
     quote ''profile'' @ '','' @ quote ''core_start'' @ '','' @ quote ''tun'' @ '','' @ quote ''routes'' @ '','' @
     quote ''dns'' @ '','' @ quote ''egress'' @ '','' @
     quote ''recovery'' @ '','' @ quote ''stop'' @ ''],'' @ quote ''operational_events'' @ '':{'' @
     quote ''contract'' @ '':'' @ quote ''config/core-event-abi.json'' @ '','' @ quote ''schema_version'' @ '':1,'' @
     quote ''event_abi'' @ '':1,'' @ quote ''callback_symbol'' @ '':'' @ quote ''pokrovCoreSetEventCallback'' @ '','' @
     quote ''context_symbol'' @ '':'' @ quote ''pokrovCoreSetEventContext'' @ '','' @
     quote ''maximum_pending_events'' @ '':128}}''"

text \<open>\<^verbatim>\<open>s.erase(pos, n)\<close> and \<^verbatim>\<open>s.insert(pos, t)\<close> for \<^verbatim>\<open>pos <= s.size()\<close>.\<close>

definition erase_at :: "string \<Rightarrow> nat \<Rightarrow> nat \<Rightarrow> string" where
  "erase_at s pos n = take pos s @ drop (pos + n) s"

definition insert_text :: "string \<Rightarrow> nat \<Rightarrow> string \<Rightarrow> string" where
  "insert_text s pos t = take pos s @ t @ drop pos s"

definition erase_first :: "string \<Rightarrow> string \<Rightarrow> string" where
  "erase_first s field =
     (case find_str s field 0 of None \<Rightarrow> s | Some pos \<Rightarrow> erase_at s pos (length field))"

definition before_capabilities :: "string \<Rightarrow> string \<Rightarrow> string" where
  "before_capabilities control field =
     (case find_str control (quote ''capabilities'') 0 of
        None \<Rightarrow> control
      | Some pos \<Rightarrow> insert_text control pos field)"

abbreviation (input) version_field :: "string \<Rightarrow> string \<Rightarrow> string" where
  "version_field name v \<equiv> quote name @ '':'' @ v @ '',''"

definition CoreDescriptorHasRuntimeControl :: "string \<Rightarrow> bool" where
  "CoreDescriptorHasRuntimeControl descriptor =
     (let observation_field = version_field ''windows_local_dpi_observation_version'' ''1'';
          retry_field = version_field ''windows_local_dpi_runtime_retry_version'' ''1'';
          has_observation = (find_str descriptor observation_field 0 \<noteq> None);
          has_retry = (find_str descriptor retry_field 0 \<noteq> None)
      in if has_retry \<and> \<not> has_observation then False
         else if has_observation \<and>
           find_str descriptor (version_field ''windows_local_dpi_admission_version'' ''1'') 0 = None then False
         else
           (let compatible = erase_first (erase_first (erase_first descriptor retry_field) observation_field)
                  (version_field ''smart_access_probe_version'' ''1'');
                control0 = before_capabilities kCoreCapabilities
                  (version_field ''routing_catalog_window_version'' ''1'' @
                   version_field ''smart_access_lease_version'' ''1'' @
                   version_field ''smart_access_runtime_control_version'' ''1'' @
                   version_field ''routing_catalog_control_version'' ''4'');
                control1 = before_capabilities control0 (version_field ''local_dpi_admission_version'' ''1'');
                control2 = before_capabilities control1 (version_field ''windows_local_dpi_admission_version'' ''1'');
                control3 = before_capabilities control2 (version_field ''telegram_ws_admission_version'' ''1'')
            in compatible = control0 \<or> compatible = control1 \<or> compatible = control2 \<or> compatible = control3))"

definition CoreDescriptorHasSmartAccessProbe :: "string \<Rightarrow> bool" where
  "CoreDescriptorHasSmartAccessProbe descriptor \<longleftrightarrow>
     find_str descriptor (version_field ''smart_access_probe_version'' ''1'') 0 \<noteq> None \<and>
     CoreDescriptorHasRuntimeControl descriptor"

definition CoreDescriptorHasWindowsLocalDpi :: "string \<Rightarrow> bool" where
  "CoreDescriptorHasWindowsLocalDpi descriptor \<longleftrightarrow>
     find_str descriptor (version_field ''windows_local_dpi_admission_version'' ''1'') 0 \<noteq> None \<and>
     CoreDescriptorHasRuntimeControl descriptor"

definition CoreDescriptorHasTelegramWS :: "string \<Rightarrow> bool" where
  "CoreDescriptorHasTelegramWS descriptor \<longleftrightarrow>
     find_str descriptor (version_field ''telegram_ws_admission_version'' ''1'') 0 \<noteq> None \<and>
     CoreDescriptorHasRuntimeControl descriptor"

section \<open>The event fence\<close>

definition IsCoreEventDefinition :: "CoreOperationalEventRecord \<Rightarrow> bool" where
  "IsCoreEventDefinition event \<longleftrightarrow>
     (ce_name event = ''core.runtime.initialize'' \<and> ce_subsystem event = ''core'' \<and>
      ce_stage event = ''initialize'' \<and> ce_phase event = ''initialization'') \<or>
     (ce_name event = ''core.runtime.start'' \<and> ce_subsystem event = ''core'' \<and>
      ce_stage event = ''start'' \<and> ce_phase event = ''core_start'') \<or>
     (ce_name event = ''core.runtime.stop'' \<and> ce_subsystem event = ''core'' \<and>
      ce_stage event = ''stop'' \<and> ce_phase event = ''stop'') \<or>
     (ce_name event = ''core.egress.probe'' \<and> ce_subsystem event = ''egress'' \<and>
      ce_stage event = ''verify'' \<and> ce_phase event = ''egress'') \<or>
     (ce_name event = ''core.dns.probe'' \<and> ce_subsystem event = ''dns'' \<and> ce_phase event = ''dns'' \<and>
      (ce_stage event = ''receive'' \<or> ce_stage event = ''exchange'' \<or> ce_stage event = ''reply''))"

definition IsCoreErrorCode :: "string \<Rightarrow> bool" where
  "IsCoreErrorCode v \<longleftrightarrow>
     v \<in> set [''CORE-003'', ''CORE-005'', ''CORE-006'', ''CORE-008'', ''TRANSPORT-001'', ''TRANSPORT-002'',
       ''TRANSPORT-003'', ''TRANSPORT-004'', ''TRANSPORT-005'', ''TRANSPORT-006'', ''TRANSPORT-007'',
       ''DNS-002'', ''EGRESS-001'']"

record CoreOperationalEventFence =
  cf_run_id :: string
  cf_attempt_id :: string
  cf_generation :: int
  cf_first_owned_dns_state :: FirstOwnedDnsState
  cf_last_sequence :: int

definition NewFence :: CoreOperationalEventFence where
  "NewFence = \<lparr>cf_run_id = [], cf_attempt_id = [], cf_generation = 0, cf_first_owned_dns_state = kUnknown,
     cf_last_sequence = 0\<rparr>"

definition INT_MAX :: int where "INT_MAX = 2147483647"

definition Activate :: "string \<Rightarrow> string \<Rightarrow> int \<Rightarrow> CoreOperationalEventFence \<Rightarrow> bool \<times> CoreOperationalEventFence" where
  "Activate run_id attempt_id generation f =
     (if \<not> IsLowerUuid run_id \<or> \<not> IsLowerUuid attempt_id \<or> generation < 1 \<or> INT_MAX < generation \<or>
         generation < cf_generation f then (False, f)
      else
        (let f1 = (if cf_generation f < generation then f\<lparr>cf_last_sequence := 0\<rparr> else f);
             f2 = (if run_id \<noteq> cf_run_id f \<or> attempt_id \<noteq> cf_attempt_id f \<or> generation \<noteq> cf_generation f
                   then f1\<lparr>cf_first_owned_dns_state := kUnknown\<rparr> else f1)
         in (True, f2\<lparr>cf_run_id := run_id, cf_attempt_id := attempt_id, cf_generation := generation\<rparr>)))"

text \<open>The first-owned DNS state after a DNS probe event.\<close>

definition dns_after :: "CoreOperationalEventRecord \<Rightarrow> bool \<Rightarrow> FirstOwnedDnsState \<Rightarrow> FirstOwnedDnsState" where
  "dns_after event failed s =
     (if ce_stage event = ''receive'' then kReceived
      else if ce_stage event = ''exchange'' \<and> failed then kExchangeFailed
      else if ce_stage event = ''reply'' then (if failed then kReplyFailed else kReplyWritten)
      else s)"

definition Accept :: "CoreOperationalEventRecord \<Rightarrow> CoreOperationalEventFence \<Rightarrow> bool \<times> CoreOperationalEventFence" where
  "Accept event f =
     (if ce_schema_version event \<noteq> 1 \<or> ce_event_abi event \<noteq> 1 \<or> ce_run_id event \<noteq> cf_run_id f \<or>
         ce_attempt_id event \<noteq> cf_attempt_id f \<or> ce_generation event \<noteq> cf_generation f \<or>
         ce_sequence event \<le> cf_last_sequence f \<or> \<not> IsUtcTimestamp (ce_occurred_at_utc event) \<or>
         \<not> IsCoreEventDefinition event then (False, f)
      else
        (let failed = (ce_outcome event = ''failed'')
         in if (ce_outcome event \<noteq> ''started'' \<and> ce_outcome event \<noteq> ''succeeded'' \<and> \<not> failed) \<or>
               (failed \<and> (ce_severity event \<noteq> ''error'' \<or> \<not> IsCoreErrorCode (ce_error_code event))) \<or>
               (\<not> failed \<and> (ce_severity event \<noteq> ''info'' \<or> ce_error_code event \<noteq> [])) then (False, f)
            else if ce_name event = ''core.dns.probe'' \<and>
              ((ce_stage event = ''receive'' \<and> ce_outcome event \<noteq> ''started'') \<or>
               (ce_stage event \<noteq> ''receive'' \<and> ce_outcome event = ''started'') \<or>
               (failed \<and> ce_error_code event \<noteq> ''DNS-002'')) then (False, f)
            else (True, (if ce_name event = ''core.dns.probe''
                         then f\<lparr>cf_first_owned_dns_state := dns_after event failed (cf_first_owned_dns_state f)\<rparr>
                         else f)\<lparr>cf_last_sequence := ce_sequence event\<rparr>)))"

section \<open>Sequences of calls\<close>

datatype (plugins only: code size) fence_call = CallActivate string string int | CallAccept CoreOperationalEventRecord

text \<open>The events that a sequence of calls accepts, in order.\<close>

fun accepted :: "fence_call list \<Rightarrow> CoreOperationalEventFence \<Rightarrow> CoreOperationalEventRecord list" where
  "accepted [] f = []"
| "accepted (CallActivate run attempt generation # calls) f = accepted calls (snd (Activate run attempt generation f))"
| "accepted (CallAccept event # calls) f =
     (case Accept event f of (ok, f') \<Rightarrow> (if ok then [event] else []) @ accepted calls f')"

definition position :: "CoreOperationalEventRecord \<Rightarrow> int \<times> int" where
  "position event = (ce_generation event, ce_sequence event)"

definition later :: "int \<times> int \<Rightarrow> int \<times> int \<Rightarrow> bool" where
  "later p q \<longleftrightarrow> fst p < fst q \<or> (fst p = fst q \<and> snd p < snd q)"

lemma later_trans: "later p q \<Longrightarrow> later q r \<Longrightarrow> later p r"
  by (auto simp: later_def)

lemma Accept_fence:
  assumes "Accept event f = (ok, f')"
  shows "cf_generation f' = cf_generation f \<and> cf_run_id f' = cf_run_id f \<and>
    (if ok then ce_generation event = cf_generation f \<and> cf_last_sequence f < ce_sequence event \<and>
       cf_last_sequence f' = ce_sequence event \<and> IsCoreEventDefinition event \<and> ce_run_id event = cf_run_id f \<and>
       (ce_outcome event = ''failed'' \<longleftrightarrow> ce_error_code event \<noteq> [])
     else f' = f)"
proof -
  have "IsCoreErrorCode c \<Longrightarrow> c \<noteq> []" for c by (auto simp: IsCoreErrorCode_def)
  then show ?thesis using assms by (auto simp: Accept_def Let_def split: if_splits)
qed

lemma Activate_fence:
  "let f' = snd (Activate run attempt generation f)
   in f' = f \<or> later (cf_generation f, cf_last_sequence f) (cf_generation f', cf_last_sequence f') \<or>
      (cf_generation f' = cf_generation f \<and> cf_last_sequence f' = cf_last_sequence f)"
  by (auto simp: Activate_def Let_def later_def)

lemma accepted_later:
  "sorted_wrt later (map position (accepted calls f)) \<and>
   list_all (\<lambda>event. later (cf_generation f, cf_last_sequence f) (position event)) (accepted calls f)"
proof (induction calls f rule: accepted.induct)
  case (2 run attempt generation calls f)
  let ?f = "snd (Activate run attempt generation f)"
  have "later (cf_generation f, cf_last_sequence f) p"
    if "later (cf_generation ?f, cf_last_sequence ?f) p" for p
    using Activate_fence [of run attempt generation f] that by (auto simp: Let_def intro: later_trans)
  with 2 show ?case by (auto simp: list_all_iff)
next
  case (3 event calls f)
  obtain ok f' where a: "Accept event f = (ok, f')" by (cases "Accept event f")
  note A = Accept_fence [OF a]
  show ?case
  proof (cases ok)
    case True
    then have pos: "position event = (cf_generation f', cf_last_sequence f')"
      "later (cf_generation f, cf_last_sequence f) (position event)" using A by (auto simp: position_def later_def)
    with 3 [OF a [symmetric]] a True show ?thesis
      by (auto simp: list_all_iff intro: later_trans)
  next
    case False
    with 3 [OF a [symmetric]] A a show ?thesis by simp
  qed
qed simp

lemma accepted_wellformed:
  "list_all (\<lambda>event. IsCoreEventDefinition event \<and> (ce_outcome event = ''failed'' \<longleftrightarrow> ce_error_code event \<noteq> []))
     (accepted calls f)"
  by (induction calls f rule: accepted.induct) (auto dest!: Accept_fence split: prod.splits if_splits)

text \<open>
  C37. The fence never lets an event of Core through twice or out of order.  For every sequence
  of activations and events, the accepted events are strictly increasing in generation and,
  within a generation, in sequence number, even across changes of the run and the attempt;
  each is one of the known event kinds and carries an error code exactly when it is a failure.
\<close>

theorem fence_strictly_ordered:
  "sorted_wrt later (map position (accepted calls NewFence)) \<and>
   list_all (\<lambda>event. IsCoreEventDefinition event \<and> (ce_outcome event = ''failed'' \<longleftrightarrow> ce_error_code event \<noteq> []))
     (accepted calls NewFence)"
  using accepted_later accepted_wellformed by blast

end
