(* ===== verification/Local_Dpi.thy ===== *)
theory Local_Dpi
  imports World
begin

text \<open>
  \<^verbatim>\<open>service_local_dpi.cpp\<close>: the services of a prepared local DPI plan, the strategy hints, the
  host list and the command line of the child process, and the executor that owns the child,
  the driver and the captured admission holders.  The callback \<^verbatim>\<open>current\<close> of the executor's
  methods is an action that only reads.  \<^verbatim>\<open>WaitNetworkReady\<close>, which waits for the driver to
  report the child's handle while it polls the callback, is one operation of the boundary.
\<close>

section \<open>Services and strategies\<close>

record WindowsLocalDpiDomain =
  dd_name :: string
  dd_exact :: bool
  dd_shared :: bool

record WindowsLocalDpiService =
  ds_service_id :: string
  ds_outbound_tag :: string
  ds_control_host :: string
  ds_domains :: "WindowsLocalDpiDomain list"
  ds_captured_admission_id :: string

datatype (plugins only: code size) WindowsLocalDpiStrategy = kFakeMultisplitAlt4 | kMultidisorderMidsld

fun strategy_code :: "WindowsLocalDpiStrategy \<Rightarrow> int" where
  "strategy_code kFakeMultisplitAlt4 = 4"
| "strategy_code kMultidisorderMidsld = 101"

definition WindowsLocalDpiStrategyOrder :: "WindowsLocalDpiStrategy \<Rightarrow> WindowsLocalDpiStrategy list" where
  "WindowsLocalDpiStrategyOrder preferred =
     (if preferred = kFakeMultisplitAlt4 then [kFakeMultisplitAlt4, kMultidisorderMidsld]
      else [kMultidisorderMidsld, kFakeMultisplitAlt4])"

definition WindowsLocalDpiRetryableProof :: "string \<Rightarrow> bool" where
  "WindowsLocalDpiRetryableProof failure \<longleftrightarrow>
     failure = ''local_dpi_control_connect_failed'' \<or> failure = ''local_dpi_control_tls_failed'' \<or>
     failure = ''local_dpi_control_http_failed''"

section \<open>Hints\<close>

record Hint =
  hi_strategy :: WindowsLocalDpiStrategy
  hi_failed :: bool

type_synonym WindowsLocalDpiStrategyHints = "((string \<times> string) \<times> Hint) list"

text \<open>An assignment through \<^verbatim>\<open>Entry\<close>; a full table is cleared before a new key is added.\<close>

definition Entry :: "string \<Rightarrow> string \<Rightarrow> Hint \<Rightarrow> WindowsLocalDpiStrategyHints \<Rightarrow> WindowsLocalDpiStrategyHints" where
  "Entry network service hint hints =
     (let key = (network, service)
      in if map_of hints key \<noteq> None then map (\<lambda>(k, h). (k, if k = key then hint else h)) hints
         else (key, hint) # (if 256 \<le> length hints then [] else hints))"

text \<open>One step of the loop of \<^verbatim>\<open>Preferred\<close>: the successes and the candidates after a failure.\<close>

definition preferred_step ::
  "WindowsLocalDpiStrategyHints \<Rightarrow> string \<Rightarrow> WindowsLocalDpiService \<Rightarrow>
   WindowsLocalDpiStrategy option \<times> WindowsLocalDpiStrategy option \<times> bool \<times> bool \<Rightarrow>
   WindowsLocalDpiStrategy option \<times> WindowsLocalDpiStrategy option \<times> bool \<times> bool" where
  "preferred_step hints network service acc =
     (case acc of (success, after_failure, conflicting_success, conflicting_failure) \<Rightarrow>
        (case map_of hints (network, ds_service_id service) of
           None \<Rightarrow> acc
         | Some hint \<Rightarrow>
             (let candidate = (if hi_failed hint
                  then (if hi_strategy hint = kMultidisorderMidsld then kFakeMultisplitAlt4 else kMultidisorderMidsld)
                  else hi_strategy hint)
              in if hi_failed hint
                 then (success, Some candidate, conflicting_success,
                       conflicting_failure \<or> (after_failure \<noteq> None \<and> after_failure \<noteq> Some candidate))
                 else (Some candidate, after_failure,
                       conflicting_success \<or> (success \<noteq> None \<and> success \<noteq> Some candidate), conflicting_failure))))"

definition Preferred :: "string \<Rightarrow> WindowsLocalDpiService list \<Rightarrow> WindowsLocalDpiStrategyHints \<Rightarrow> WindowsLocalDpiStrategy" where
  "Preferred network services hints =
     (case fold (preferred_step hints network) services (None, None, False, False) of
        (success, after_failure, conflicting_success, conflicting_failure) \<Rightarrow>
          (case success of
             Some s \<Rightarrow> if \<not> conflicting_success then s
               else if conflicting_failure then kMultidisorderMidsld
               else (case after_failure of Some s' \<Rightarrow> s' | None \<Rightarrow> kMultidisorderMidsld)
           | None \<Rightarrow> if conflicting_failure then kMultidisorderMidsld
               else (case after_failure of Some s' \<Rightarrow> s' | None \<Rightarrow> kMultidisorderMidsld)))"

definition RecordSuccess :: "string \<Rightarrow> WindowsLocalDpiService list \<Rightarrow> WindowsLocalDpiStrategy \<Rightarrow>
    WindowsLocalDpiStrategyHints \<Rightarrow> WindowsLocalDpiStrategyHints" where
  "RecordSuccess network services strategy hints =
     fold (\<lambda>service. Entry network (ds_service_id service) \<lparr>hi_strategy = strategy, hi_failed = False\<rparr>) services hints"

definition RecordFailure :: "string \<Rightarrow> string \<Rightarrow> WindowsLocalDpiStrategy \<Rightarrow>
    WindowsLocalDpiStrategyHints \<Rightarrow> WindowsLocalDpiStrategyHints" where
  "RecordFailure network service strategy hints =
     Entry network service \<lparr>hi_strategy = strategy, hi_failed = True\<rparr> hints"

section \<open>Names and the command line\<close>

definition IsHolderID :: "string \<Rightarrow> bool" where
  "IsHolderID v \<longleftrightarrow> length v = 32 \<and>
     list_all (\<lambda>c. (CHR ''0'' \<le> c \<and> c \<le> CHR ''9'') \<or> (CHR ''a'' \<le> c \<and> c \<le> CHR ''f'')) v"

text \<open>The loop of \<^verbatim>\<open>IsDomain\<close>: the length of the current label and the previous character.\<close>

fun domain_labels :: "char \<Rightarrow> nat \<Rightarrow> string \<Rightarrow> nat option" where
  "domain_labels prev label [] = Some label"
| "domain_labels prev label (c # rest) =
     (if c = CHR ''.'' then
        (if label = 0 \<or> prev = CHR ''-'' then None else domain_labels c 0 rest)
      else if \<not> ((CHR ''a'' \<le> c \<and> c \<le> CHR ''z'') \<or> (CHR ''0'' \<le> c \<and> c \<le> CHR ''9'') \<or> c = CHR ''-'') \<or>
              (label = 0 \<and> c = CHR ''-'') \<or> 63 < label + 1 then None
      else domain_labels c (label + 1) rest)"

definition IsDomain :: "string \<Rightarrow> bool" where
  "IsDomain v =
     (if v = [] \<or> 253 < length v then False
      else case domain_labels nul 0 v of
        None \<Rightarrow> False
      | Some label \<Rightarrow> 0 < label \<and> last v \<noteq> CHR ''-'' \<and> CHR ''.'' \<in> set v)"

definition WideUtf8 :: "env \<Rightarrow> string \<Rightarrow> string" where
  "WideUtf8 e v = (if v = [] \<or> 2147483647 < length v \<or> nul \<in> set v \<or> \<not> lib_utf8 e v then [] else v)"

text \<open>The backslashes seen so far and the rest of the argument.\<close>

fun quote_rest :: "nat \<Rightarrow> string \<Rightarrow> string" where
  "quote_rest backslashes [] = replicate (backslashes * 2) (CHR 0x5C) @ [CHR 0x22]"
| "quote_rest backslashes (c # rest) =
     (if c = CHR 0x5C then quote_rest (backslashes + 1) rest
      else replicate (backslashes * (if c = CHR 0x22 then 2 else 1)) (CHR 0x5C) @
        (if c = CHR 0x22 then [CHR 0x5C] else []) @ c # quote_rest 0 rest)"

definition Quote :: "string \<Rightarrow> string" where
  "Quote v = CHR 0x22 # quote_rest 0 v"

definition WindowsLocalDpiCommand :: "string \<Rightarrow> string \<Rightarrow> nat \<Rightarrow> WindowsLocalDpiStrategy \<Rightarrow> string" where
  "WindowsLocalDpiCommand directory hostlist interface_index strategy =
     (let scope = Quote (directory @ ''winws2.exe'') @ '' --wf-iface='' @ to_string interface_index @
            '' --wf-tcp-out=443 --lua-init=@'' @ Quote (directory @ ''zapret-lib.lua'') @
            '' --lua-init=@'' @ Quote (directory @ ''zapret-antidpi.lua'') @
            '' --filter-tcp=443 --filter-l7=tls --hostlist-domains='' @
            hostlist @ '' --out-range=-d10 --payload=tls_client_hello''
      in if strategy = kMultidisorderMidsld
         then scope @ '' --lua-desync=multidisorder:pos=1,midsld:ip_id=zero''
         else scope @ '' --blob=tls_google:@'' @ Quote (directory @ ''tls_clienthello_www_google_com.bin'') @
           '' --lua-desync=fake:blob=tls_google:tcp_seq=1000:tcp_ack=-66000:repeats=6:ip_id=zero'' @
           '' --lua-desync=multisplit:pos=2:ip_id=zero'')"

section \<open>The host list\<close>

definition domain_entry :: "WindowsLocalDpiDomain \<Rightarrow> string" where
  "domain_entry d = (if dd_exact d then ''^'' else []) @ dd_name d"

text \<open>The entries seen so far (newest last) and whether the control host is in scope.\<close>

fun scan_domains :: "string \<Rightarrow> WindowsLocalDpiDomain list \<Rightarrow> bool \<Rightarrow> string list \<Rightarrow> (bool \<times> string list) option" where
  "scan_domains control [] in_scope seen = Some (in_scope, seen)"
| "scan_domains control (d # rest) in_scope seen =
     (if dd_shared d \<or> \<not> IsDomain (dd_name d) then None
      else scan_domains control rest (in_scope \<or> (dd_exact d \<and> dd_name d = control))
             (if domain_entry d \<in> set seen then seen else seen @ [domain_entry d]))"

fun scan_services :: "WindowsLocalDpiService list \<Rightarrow> string list \<Rightarrow> string list option" where
  "scan_services [] seen = Some seen"
| "scan_services (s # rest) seen =
     (if ds_domains s = [] \<or> \<not> IsDomain (ds_control_host s) \<or>
         ds_outbound_tag s \<noteq> ''pokrov-local-dpi-'' @ ds_service_id s then None
      else case scan_domains (ds_control_host s) (ds_domains s) False seen of
        None \<Rightarrow> None
      | Some (in_scope, seen') \<Rightarrow> if \<not> in_scope then None else scan_services rest seen')"

definition WindowsLocalDpiHostList :: "WindowsLocalDpiService list \<Rightarrow> string" where
  "WindowsLocalDpiHostList services =
     (if services = [] then []
      else case scan_services services [] of
        None \<Rightarrow> []
      | Some entries \<Rightarrow>
          (let hostlist = join CHR '','' entries
           in if length hostlist \<le> 16000 then hostlist else []))"

end
