(* ===== verification/Local_Dpi_Json.thy ===== *)
theory Local_Dpi_Json
  imports Local_Dpi
begin

text \<open>
  \<^verbatim>\<open>service_local_dpi_json.cpp\<close>: reading the prepared plans and the holder observations that
  Core returns, removing the private metadata of a profile, and choosing what the egress probe
  has to prove.  The parser, the printer and the calendar are functions of the environment; a
  parser that is not available is one that returns \<^term>\<open>None\<close>, which every caller treats alike.
\<close>

section \<open>Parsing\<close>

definition ParseObject :: "env \<Rightarrow> string \<Rightarrow> json_object option" where
  "ParseObject e encoded =
     (if 4 * 1024 * 1024 < length encoded \<or> encoded = [] \<or> \<not> lib_utf8 e encoded then None
      else case lib_json e encoded of None \<Rightarrow> None | Some v \<Rightarrow> GetObject v)"

definition EncodeObject :: "env \<Rightarrow> json_object \<Rightarrow> string" where
  "EncodeObject e ob = lib_stringify e (JObject ob)"

text \<open>A 16-bit field of a timestamp; 65535 when a character is not a digit.\<close>

definition time_field :: "string \<Rightarrow> nat" where
  "time_field s = (if list_all is_digit s then digits_value s mod 65536 else 65535)"

definition Expiry :: "env \<Rightarrow> string \<Rightarrow> u64" where
  "Expiry e v =
     (if length v \<noteq> 20 \<or> v ! 4 \<noteq> CHR ''-'' \<or> v ! 7 \<noteq> CHR ''-'' \<or> v ! 10 \<noteq> CHR ''T'' \<or> v ! 13 \<noteq> CHR '':'' \<or>
         v ! 16 \<noteq> CHR '':'' \<or> v ! 19 \<noteq> CHR ''Z'' then 0
      else case lib_filetime e [time_field (substr v 0 4), time_field (substr v 5 2), time_field (substr v 8 2),
             time_field (substr v 11 2), time_field (substr v 14 2), time_field (substr v 17 2)] of
        None \<Rightarrow> 0 | Some ticks \<Rightarrow> ticks)"

section \<open>Holder observations\<close>

record WindowsLocalDpiHolderObservation =
  ho_state :: string
  ho_failure_reason :: string
  ho_withdraw_completed :: bool
  ho_local_handoffs :: u64
  ho_vpn_handoffs :: u64
  ho_quic_rejected :: u64

definition kMaximumCount :: int where "kMaximumCount = 9007199254740991"

definition count_field :: "json_object \<Rightarrow> string \<Rightarrow> u64 option" where
  "count_field ob name =
     (case GetNamedNumber ob name of
        Some (Integral n) \<Rightarrow> if 0 \<le> n \<and> n \<le> kMaximumCount then Some (of_int n) else None
      | _ \<Rightarrow> None)"

definition failure_reasons :: "string list" where
  "failure_reasons = [''none'', ''connect_timeout_ipv4'', ''connect_timeout_ipv6'', ''connect_error_ipv4'',
     ''connect_error_ipv6'', ''early_read'', ''early_write'']"

text \<open>The failure reason of an observation with \<open>field_count\<close> fields; \<^term>\<open>None\<close> rejects it.\<close>

definition failure_reason_of :: "json_object \<Rightarrow> nat \<Rightarrow> string \<Rightarrow> string option" where
  "failure_reason_of ob field_count state =
     (if field_count < 5 then Some []
      else (let reason = StringField ob ''failure_reason''
            in if reason \<notin> set failure_reasons \<or> (state = ''failed'' \<and> reason = ''none'') \<or>
                  ((state = ''unpublished'' \<or> state = ''ready'') \<and> reason \<noteq> ''none'')
               then None else Some reason))"

definition ReadWindowsLocalDpiHolderObservation :: "env \<Rightarrow> string \<Rightarrow> WindowsLocalDpiHolderObservation option" where
  "ReadWindowsLocalDpiHolderObservation e encoded =
     (if encoded = [] \<or> 512 < length encoded then None
      else case ParseObject e encoded of
        None \<Rightarrow> None
      | Some ob \<Rightarrow>
          (let field_count = length ob; state = StringField ob ''state''
           in if field_count \<noteq> 4 \<and> field_count \<noteq> 5 \<and> field_count \<noteq> 6 then None
              else if state \<noteq> ''unpublished'' \<and> state \<noteq> ''ready'' \<and> state \<noteq> ''failed'' \<and> state \<noteq> ''withdrawn'' then None
              else case failure_reason_of ob field_count state of
                None \<Rightarrow> None
              | Some reason \<Rightarrow>
                  (case GetNamedBoolean ob ''withdraw_completed'' of
                     None \<Rightarrow> None
                   | Some completed \<Rightarrow>
                       if completed \<and> state \<noteq> ''withdrawn'' then None
                       else case (count_field ob ''local_handoffs'', count_field ob ''vpn_handoffs'',
                                  if field_count = 6 then count_field ob ''quic_rejected'' else Some 0) of
                         (Some local, Some vpn, Some quic) \<Rightarrow>
                           Some \<lparr>ho_state = state, ho_failure_reason = reason, ho_withdraw_completed = completed,
                             ho_local_handoffs = local, ho_vpn_handoffs = vpn, ho_quic_rejected = quic\<rparr>
                       | _ \<Rightarrow> None)))"

definition WindowsLocalDpiRetryableRuntime :: "WindowsLocalDpiHolderObservation \<Rightarrow> bool" where
  "WindowsLocalDpiRetryableRuntime ob \<longleftrightarrow> ho_state ob = ''failed'' \<and>
     (ho_failure_reason ob = ''early_read'' \<or> ho_failure_reason ob = ''early_write'' \<or>
      ho_failure_reason ob = ''connect_timeout_ipv4'' \<or> ho_failure_reason ob = ''connect_error_ipv4'')"

definition InvalidateWindowsLocalDpiStrategyHint :: "string \<Rightarrow> string \<Rightarrow> WindowsLocalDpiStrategy \<Rightarrow>
    WindowsLocalDpiHolderObservation \<Rightarrow> WindowsLocalDpiStrategyHints \<Rightarrow> WindowsLocalDpiStrategyHints" where
  "InvalidateWindowsLocalDpiStrategyHint network service strategy ob hints =
     (if ho_state ob = ''failed'' \<or> (ho_failure_reason ob \<noteq> [] \<and> ho_failure_reason ob \<noteq> ''none'')
      then RecordFailure network service strategy hints else hints)"

section \<open>Small readers\<close>

definition IsWindowsFirstProviderQaRuntimeControl :: "env \<Rightarrow> string \<Rightarrow> bool" where
  "IsWindowsFirstProviderQaRuntimeControl e config =
     (case ParseObject e config of
        None \<Rightarrow> False
      | Some worker \<Rightarrow> StringField worker ''platform'' = ''windows'' \<and>
          starts_with ''saqa1.'' (StringField worker ''capability''))"

text \<open>\<^verbatim>\<open>IMap::Insert\<close>: the value of the key is replaced, or the pair is added.\<close>

definition json_insert :: "string \<Rightarrow> json \<Rightarrow> json_object \<Rightarrow> json_object" where
  "json_insert k v ob =
     (if map_of ob k = None then ob @ [(k, v)] else map (\<lambda>(k', v'). (k', if k' = k then v else v')) ob)"

definition CancelWindowsCandidateProbeResult :: "env \<Rightarrow> string \<Rightarrow> bool \<Rightarrow> string" where
  "CancelWindowsCandidateProbeResult e encoded network_changed =
     (case ParseObject e encoded of
        None \<Rightarrow> []
      | Some result \<Rightarrow>
          EncodeObject e (json_insert ''failure_kind''
            (JString (if network_changed then ''network_changed'' else ''cancelled''))
            (json_insert ''success'' (JBool False) result)))"

text \<open>
  \<^verbatim>\<open>StripWindowsLocalDpiMetadata\<close>: the runtime copy, whether local DPI and whether Telegram over
  WebSocket are requested; \<^term>\<open>None\<close> is the result \<^verbatim>\<open>false\<close>.
\<close>

definition StripWindowsLocalDpiMetadata :: "env \<Rightarrow> string \<Rightarrow> (string \<times> bool \<times> bool) option" where
  "StripWindowsLocalDpiMetadata e original =
     (case ParseObject e original of
        None \<Rightarrow> None
      | Some profile \<Rightarrow>
          if map_of profile ''_meta'' = None then Some (original, False, False)
          else
            (let meta = ObjectField profile ''_meta'';
                 dpi = (case meta of None \<Rightarrow> None | Some m \<Rightarrow> ObjectField m ''local_dpi'');
                 telegram = (case meta of None \<Rightarrow> None | Some m \<Rightarrow> ObjectField m ''telegram_ws'');
                 requested = (case dpi of None \<Rightarrow> False
                   | Some d \<Rightarrow> StringField d ''platform'' = ''windows'' \<and>
                       (StringField d ''mode'' = ''selective'' \<or> StringField d ''mode'' = ''smart_safe''));
                 telegram_requested = (case telegram of None \<Rightarrow> False
                   | Some tg \<Rightarrow> StringField tg ''platform'' = ''windows'' \<and> StringField tg ''mode'' = ''selective'');
                 copy = EncodeObject e (filter (\<lambda>(k, v). k \<noteq> ''_meta'') profile)
             in if copy = [] then None else Some (copy, requested, telegram_requested)))"

section \<open>Prepared plans\<close>

record WindowsLocalDpiPreparation =
  lp_profile :: string
  lp_services :: "WindowsLocalDpiService list"
  lp_expires_utc_ticks :: u64
  lp_expires_elapsed_ms :: u64

record WindowsTelegramWSPreparation =
  tp_profile :: string
  tp_services :: "(string \<times> string) list"
  tp_expires_utc_ticks :: u64
  tp_expires_elapsed_ms :: u64

fun read_domains :: "json list \<Rightarrow> WindowsLocalDpiDomain list option" where
  "read_domains [] = Some []"
| "read_domains (v # rest) =
     (case GetObject v of
        None \<Rightarrow> None
      | Some d \<Rightarrow>
          if GetNamedBoolean d ''shared'' \<noteq> Some False then None
          else (let how = StringField d ''match''
                in if how \<noteq> ''exact'' \<and> how \<noteq> ''suffix'' then None
                   else map_option (Cons \<lparr>dd_name = StringField d ''name'', dd_exact = (how = ''exact''), dd_shared = False\<rparr>)
                          (read_domains rest)))"

fun read_services :: "json list \<Rightarrow> string list \<Rightarrow> WindowsLocalDpiService list option" where
  "read_services [] tags = Some []"
| "read_services (v # rest) tags =
     (case GetObject v of
        None \<Rightarrow> None
      | Some row \<Rightarrow>
          (let service_id = StringField row ''service_id''; tag = StringField row ''outbound_tag''
           in if service_id = [] \<or> tag \<in> set tags then None
              else case ArrayField row ''domains'' of
                None \<Rightarrow> None
              | Some domains \<Rightarrow>
                  if domains = [] \<or> 1024 < length domains then None
                  else case read_domains domains of
                    None \<Rightarrow> None
                  | Some ds \<Rightarrow>
                      map_option (Cons \<lparr>ds_service_id = service_id, ds_outbound_tag = tag,
                          ds_control_host = StringField row ''control_host'', ds_domains = ds,
                          ds_captured_admission_id = []\<rparr>)
                        (read_services rest (tag # tags))))"

definition ReadWindowsLocalDpiPreparation :: "env \<Rightarrow> string \<Rightarrow> ('c, WindowsLocalDpiPreparation option) action" where
  "ReadWindowsLocalDpiPreparation e encoded =
     (case ParseObject e encoded of
        None \<Rightarrow> State_Monad.return None
      | Some receipt \<Rightarrow> do {
          now \<leftarrow> ask_u64 e UtcTicks;
          let expires = Expiry e (StringField receipt ''expires_at'');
          case (ObjectField receipt ''profile'', ArrayField receipt ''services'') of
            (Some profile, Some services) \<Rightarrow>
              if services = [] \<or> 256 < length services \<or> expires \<le> now then State_Monad.return None
              else if EncodeObject e profile = [] then State_Monad.return None
              else do {
                tick \<leftarrow> ask_u64 e TickCount;
                State_Monad.return (case read_services services [] of
                  None \<Rightarrow> None
                | Some ss \<Rightarrow>
                    if WindowsLocalDpiHostList ss = [] then None
                    else Some \<lparr>lp_profile = EncodeObject e profile, lp_services = ss, lp_expires_utc_ticks = expires,
                      lp_expires_elapsed_ms = tick + (expires - now) div 10000\<rparr>)
              }
          | _ \<Rightarrow> State_Monad.return None
        })"

definition WindowsLocalDpiPreparationCurrent :: "env \<Rightarrow> WindowsLocalDpiPreparation \<Rightarrow> ('c, bool) action" where
  "WindowsLocalDpiPreparationCurrent e p = do {
     tick \<leftarrow> ask_u64 e TickCount;
     if tick < lp_expires_elapsed_ms p then do {
       now \<leftarrow> ask_u64 e UtcTicks;
       State_Monad.return (now < lp_expires_utc_ticks p)
     }
     else State_Monad.return False
   }"

fun read_telegram_services :: "json list \<Rightarrow> string list \<Rightarrow> string list \<Rightarrow> (string \<times> string) list option" where
  "read_telegram_services [] ids tags = Some []"
| "read_telegram_services (v # rest) ids tags =
     (case GetObject v of
        None \<Rightarrow> None
      | Some row \<Rightarrow>
          (let id' = StringField row ''service_id''; tag = StringField row ''outbound_tag''
           in if id' = [] \<or> tag = [] \<or> id' \<in> set ids \<or> tag \<in> set tags then None
              else map_option (Cons (id', tag)) (read_telegram_services rest (id' # ids) (tag # tags))))"

definition ReadWindowsTelegramWSPreparation :: "env \<Rightarrow> string \<Rightarrow> ('c, WindowsTelegramWSPreparation option) action" where
  "ReadWindowsTelegramWSPreparation e encoded =
     (case ParseObject e encoded of
        None \<Rightarrow> State_Monad.return None
      | Some receipt \<Rightarrow>
          if \<not> Number receipt ''schema_version'' 1 then State_Monad.return None
          else do {
            now \<leftarrow> ask_u64 e UtcTicks;
            let issued = Expiry e (StringField receipt ''issued_at'');
            let expires = Expiry e (StringField receipt ''expires_at'');
            case (ObjectField receipt ''profile'', ArrayField receipt ''services'') of
              (Some profile, Some services) \<Rightarrow>
                if services = [] \<or> 256 < length services \<or> issued = 0 \<or> now < issued \<or> expires \<le> issued \<or> expires \<le> now
                then State_Monad.return None
                else if EncodeObject e profile = [] then State_Monad.return None
                else do {
                  tick \<leftarrow> ask_u64 e TickCount;
                  State_Monad.return (map_option
                    (\<lambda>ss. \<lparr>tp_profile = EncodeObject e profile, tp_services = ss, tp_expires_utc_ticks = expires,
                       tp_expires_elapsed_ms = tick + (expires - now) div 10000\<rparr>)
                    (read_telegram_services services [] []))
                }
            | _ \<Rightarrow> State_Monad.return None
          })"

definition WindowsTelegramWSPreparationCurrent :: "env \<Rightarrow> WindowsTelegramWSPreparation \<Rightarrow> ('c, bool) action" where
  "WindowsTelegramWSPreparationCurrent e p = do {
     tick \<leftarrow> ask_u64 e TickCount;
     if tick < tp_expires_elapsed_ms p then do {
       now \<leftarrow> ask_u64 e UtcTicks;
       State_Monad.return (now < tp_expires_utc_ticks p)
     }
     else State_Monad.return False
   }"

end
