(* ===== verification/Recovery_Laws.thy ===== *)
theory Recovery_Laws
  imports Recovery
begin

text \<open>
  The journal is durable and truthful.  Its text round-trips; a write leaves the old or the
  new text and nothing else; and at every moment of a run, also between two calls, a network
  that Core may have changed is covered by a journal on disk that demands recovery.
\<close>

section \<open>The text of the journal\<close>

lemma xdigit_lower: "is_xdigit c \<and> \<not> is_upper c \<longleftrightarrow> is_lower_hex c"
  by (auto simp: is_xdigit_def is_upper_def is_lower_hex_def is_digit_def less_eq_char_def)

lemma IsHexGeneration_iff: "IsHexGeneration g \<longleftrightarrow> length g = 32 \<and> list_all is_lower_hex g"
  by (simp add: IsHexGeneration_def xdigit_lower)

lemma nibble_hex: "is_lower_hex c \<Longrightarrow> nibble c = hex_value c"
  by (auto simp: nibble_def hex_value_def is_lower_hex_def less_eq_char_def)

lemma nibble_join: "0 \<le> l \<Longrightarrow> l < 16 \<Longrightarrow> push_bit 4 h OR l = h * 16 + (l :: int)"
proof -
  assume "0 \<le> l" "l < 16"
  then have "l = take_bit 4 l" by (simp add: take_bit_int_eq_self)
  then have "push_bit 4 h OR l = push_bit 4 h + l"
    by (metis (no_types, lifting) disjunctive_add bit_push_bit_iff bit_take_bit_iff not_le)
  then show ?thesis by (simp add: push_bit_eq_mult)
qed

lemma hex_pairs_encode: "hex_pairs (HexEncode s) = Some s"
proof (induction s)
  case (Cons c s)
  define b where "b = byte_of c"
  define h l where "h = hex_digit (unat (drop_bit 4 b))" and "l = hex_digit (unat (b AND 15))"
  have lower: "is_lower_hex h" "is_lower_hex l"
    using high_nibble_bound [of b] by (simp_all add: h_def l_def hex_digit_lower low_nibble)
  have "of_int (push_bit 4 (nibble h) OR nibble l) = byte_of_hex h l"
    using hex_digit_value [OF lower(1)] hex_digit_value [OF lower(2)]
    by (simp add: byte_of_hex_def nibble_hex lower nibble_join)
  then have "char_of_byte (of_int (push_bit 4 (nibble h) OR nibble l)) = c"
    by (simp add: h_def l_def b_def)
  moreover have "HexEncode (c # s) = h # l # HexEncode s"
    by (simp add: HexEncode_def hex_byte_def h_def l_def b_def)
  moreover have "0 \<le> nibble h" "0 \<le> nibble l"
    using hex_digit_value [OF lower(1)] hex_digit_value [OF lower(2)] by (simp_all add: nibble_hex lower)
  ultimately show ?case by (simp add: Cons)
qed (simp add: HexEncode_def)

lemma length_HexEncode [simp]: "length (HexEncode s) = 2 * length s"
  by (induction s) (simp_all add: HexEncode_def hex_byte_def)

lemma HexDecode_HexEncode:
  "length s \<le> kMaximumNetworkSnapshotSize \<Longrightarrow> HexDecode (HexEncode s) = Some s"
  by (simp add: HexDecode_def hex_pairs_encode)

lemma HexEncode_hex_string: "HexEncode s = hex_string (map byte_of s)"
  by (simp add: HexEncode_def hex_string_def comp_def)

lemma ParseStage_StageName [simp]: "ParseStage (StageName s) = Some s"
  by (cases s) (simp_all add: ParseStage_def all_stages_def)

lemma StageName_free: "newline \<notin> set (StageName s)"
  by (cases s) simp_all

lemma journal_lines_step:
  assumes "newline \<notin> set x"
  shows "journal_lines (p @ x @ newline # r) (length p) =
    map_option (Cons x) (journal_lines ((p @ x @ [newline]) @ r) (length (p @ x @ [newline])))"
  using assms by (subst journal_lines.simps) (simp add: find_char_here substr_def)

lemma journal_lines_concat:
  assumes "\<forall>x \<in> set xs. newline \<notin> set x"
  shows "journal_lines (p @ concat (map (\<lambda>x. x @ [newline]) xs)) (length p) = Some xs"
  using assms
proof (induction xs arbitrary: p)
  case Nil
  then show ?case by (subst journal_lines.simps) simp
next
  case (Cons x xs)
  then have "journal_lines ((p @ x @ [newline]) @ concat (map (\<lambda>x. x @ [newline]) xs)) (length (p @ x @ [newline])) = Some xs"
    by (intro Cons.IH) simp
  with Cons.prems show ?case
    using journal_lines_step [of x p "concat (map (\<lambda>x. x @ [newline]) xs)"] by simp
qed

definition journal_fields :: "RecoveryStage \<Rightarrow> string \<Rightarrow> string \<Rightarrow> string list" where
  "journal_fields st g s = [kJournalMagic, ''stage='' @ StageName st, ''generation='' @ g,
     ''network_state='' @ HexEncode s]"

lemma journal_text_fields:
  "journal_text st g s = concat (map (\<lambda>x. x @ [newline]) (journal_fields st g s))"
  by (simp add: journal_text_def journal_fields_def)

lemma hex_no_newline: "list_all is_lower_hex s \<Longrightarrow> newline \<notin> set s"
  by (rule hex_free) simp_all

lemma journal_fields_free:
  "IsHexGeneration g \<Longrightarrow> \<forall>x \<in> set (journal_fields st g s). newline \<notin> set x"
  by (simp add: journal_fields_def IsHexGeneration_iff kJournalMagic_def StageName_free hex_no_newline
      HexEncode_hex_string hex_string_lower)

lemma parse_journal_text:
  assumes "IsHexGeneration g"
  shows "parse_journal (journal_text st g s) =
    (case HexDecode (HexEncode s) of
       None \<Rightarrow> None
     | Some s' \<Rightarrow>
         if (st \<noteq> kClean \<and> (g = zero_generation \<or> s' = [])) \<or> (st = kClean \<and> s' \<noteq> []) then None
         else Some (st, g, s'))"
proof -
  have "journal_lines (journal_text st g s) 0 = Some (journal_fields st g s)"
    using journal_lines_concat [of "journal_fields st g s" "[]"] journal_fields_free [OF assms]
    by (simp add: journal_text_fields)
  moreover have "last (journal_text st g s) = newline"
    by (simp add: journal_text_def)
  ultimately show ?thesis
    using assms by (simp add: parse_journal_def journal_fields_def starts_with_def)
qed

lemma length_StageName: "length (StageName st) \<le> 15"
  by (cases st) simp_all

lemma length_journal_text:
  assumes "IsHexGeneration g" and "length s \<le> kMaximumNetworkSnapshotSize"
  shows "0 < length (journal_text st g s)" "length (journal_text st g s) \<le> kMaximumJournalSize"
  using assms length_StageName [of st]
  by (simp_all add: journal_text_def IsHexGeneration_iff kJournalMagic_def kMaximumJournalSize_def)

section \<open>What a restart finds\<close>

text \<open>Whether a service that starts on these journal bytes has to recover.\<close>

definition needs_recovery :: "string option \<Rightarrow> bool" where
  "needs_recovery file =
     (case file of
        None \<Rightarrow> False
      | Some content \<Rightarrow>
          (case ReadBoundedFile \<lparr>fv_opens = True, fv_bytes = content, fv_reads = True\<rparr> of
             None \<Rightarrow> True
           | Some c \<Rightarrow> (case parse_journal c of None \<Rightarrow> True | Some (st, _) \<Rightarrow> st \<noteq> kClean)))"

text \<open>Whether it has to undo network changes: a clean or a recovered journal does not ask for it.\<close>

definition needs_rollback :: "string option \<Rightarrow> bool" where
  "needs_rollback file =
     (case file of
        None \<Rightarrow> False
      | Some content \<Rightarrow>
          (case ReadBoundedFile \<lparr>fv_opens = True, fv_bytes = content, fv_reads = True\<rparr> of
             None \<Rightarrow> True
           | Some c \<Rightarrow>
               (case parse_journal c of None \<Rightarrow> True | Some (st, _) \<Rightarrow> st \<noteq> kClean \<and> st \<noteq> kRecovered)))"

lemma needs_rollback_recovery: "needs_rollback file \<Longrightarrow> needs_recovery file"
  by (auto simp: needs_rollback_def needs_recovery_def split: option.splits)

lemma RequiresRecovery_restart:
  "RequiresRecovery (NewRecovery root ns (journal_on d path)) = needs_recovery (d path)"
  by (auto simp: RequiresRecovery_def NewRecovery_def Load_def journal_on_def needs_recovery_def
      split: option.splits)

lemma needs_recovery_text:
  "IsHexGeneration g \<Longrightarrow> st \<noteq> kClean \<Longrightarrow> needs_recovery (Some (journal_text st g s))"
  by (auto simp: needs_recovery_def ReadBoundedFile_def parse_journal_text split: option.splits if_splits)

lemma needs_rollback_text:
  "IsHexGeneration g \<Longrightarrow> st \<noteq> kClean \<Longrightarrow> st \<noteq> kRecovered \<Longrightarrow> needs_rollback (Some (journal_text st g s))"
  by (auto simp: needs_rollback_def ReadBoundedFile_def parse_journal_text split: option.splits if_splits)

lemma clean_text:
  assumes "IsHexGeneration g"
  shows "\<not> needs_recovery (Some (journal_text kClean g []))"
  using assms length_journal_text [OF assms, of "[]" kClean]
  by (simp add: needs_recovery_def ReadBoundedFile_def parse_journal_text HexDecode_HexEncode)

section \<open>Every moment of a run\<close>

text \<open>
  The network is dirty from the first call that starts Core until a restoration that the
  backend reports as complete; \<open>b\<close> says whether it was dirty when the process started.
\<close>

fun network_dirty :: "bool \<Rightarrow> trace \<Rightarrow> bool" where
  "network_dirty b [] = b"
| "network_dirty b ((CoreIo (CoreStart p m), a) # t) = True"
| "network_dirty b ((CoreIo (CoreStartInterruptible p m), a) # t) = True"
| "network_dirty b ((NetIo (RestoreNetwork s), AText []) # t) = False"
| "network_dirty b (x # t) = network_dirty b t"

definition covered :: "disk \<Rightarrow> bool \<Rightarrow> string \<Rightarrow> trace \<Rightarrow> bool" where
  "covered d b path t \<longleftrightarrow> (network_dirty b t \<longrightarrow> needs_rollback (disk_after d t path))"

fun all_moments :: "(trace \<Rightarrow> bool) \<Rightarrow> trace \<Rightarrow> bool" where
  "all_moments P [] = P []"
| "all_moments P (e # t) = (P (e # t) \<and> all_moments P t)"

lemma all_moments_iff: "all_moments P t \<longleftrightarrow> (\<forall>u. suffix u t \<longrightarrow> P u)"
  by (induction t) (auto simp: suffix_Cons)

lemma all_moments_now: "all_moments P t \<Longrightarrow> P t"
  by (simp add: all_moments_iff)

lemma disk_after_other [simp]:
  "disk_after d ((FileIo (FlushFileBuffers p), a) # t) = disk_after d t"
  "disk_after d ((FileIo (CreateFile p), ABool False) # t) = disk_after d t"
  "disk_after d ((FileIo (MoveFileEx p q), ABool False) # t) = disk_after d t"
  by simp_all

lemma network_dirty_file [simp]: "network_dirty b ((FileIo op, a) # t) = network_dirty b t"
  by simp

lemma delete_elsewhere: "p \<noteq> q \<Longrightarrow> disk_step (FileIo (DeleteFile p), ABool x) d q = d q"
  by (cases x) simp_all

lemma WriteAtomicFile_run:
  assumes run: "run_state (WriteAtomicFile e target pending content) (c, t) = (ok, (c', t'))"
    and paths: "target \<noteq> pending" and moments: "all_moments (covered d b target) t"
    and new: "network_dirty b t \<longrightarrow> needs_rollback (Some content)"
  shows "c' = c" and "network_dirty b t' = network_dirty b t"
    and "disk_after d t' target = (if ok then Some content else disk_after d t target)"
    and "all_moments (covered d b target) t'"
  using run paths moments all_moments_now [OF moments] new
  by (auto simp: WriteAtomicFile_def run_simps covered_def delete_elsewhere split: if_splits)

definition paths_ok :: "string \<Rightarrow> DurableRuntimeRecovery \<Rightarrow> bool" where
  "paths_ok path r \<longleftrightarrow> rc_journal_path r = path \<and> (path \<noteq> [] \<longrightarrow> rc_pending_path r \<noteq> path)"

lemma Write_run:
  assumes run: "run_state (Write e) (r, t) = (ok, (r', t'))"
    and paths: "paths_ok path r" and moments: "all_moments (covered d b path) t"
    and new: "network_dirty b t \<longrightarrow> rc_stage r \<noteq> kClean \<and> rc_stage r \<noteq> kRecovered"
  shows "r' = r" and "network_dirty b t' = network_dirty b t" and "all_moments (covered d b path) t'"
    and "ok \<Longrightarrow> IsHexGeneration (rc_generation r) \<and>
           disk_after d t' path = Some (journal_text (rc_stage r) (rc_generation r) (rc_network_snapshot r))"
    and "\<not> ok \<Longrightarrow> disk_after d t' path = disk_after d t path"
proof -
  define new_text where "new_text = journal_text (rc_stage r) (rc_generation r) (rc_network_snapshot r)"
  define allowed where "allowed \<longleftrightarrow> rc_journal_path r \<noteq> [] \<and> rc_pending_path r \<noteq> [] \<and> IsHexGeneration (rc_generation r)"
  have "r' = r \<and> network_dirty b t' = network_dirty b t \<and> all_moments (covered d b path) t' \<and>
    (ok \<longrightarrow> IsHexGeneration (rc_generation r) \<and> disk_after d t' path = Some new_text) \<and>
    (\<not> ok \<longrightarrow> disk_after d t' path = disk_after d t path)"
  proof (cases allowed)
    case True
    then have w: "run_state (WriteAtomicFile e path (rc_pending_path r) new_text) (r, t) = (ok, (r', t'))"
      using run paths by (simp add: Write_def run_simps allowed_def new_text_def paths_ok_def)
    have "network_dirty b t \<longrightarrow> needs_rollback (Some new_text)"
      using new needs_rollback_text True by (simp add: new_text_def allowed_def)
    from WriteAtomicFile_run [OF w _ moments this] paths True show ?thesis
      by (auto simp: paths_ok_def allowed_def)
  next
    case False
    then have "run_state (Write e) (r, t) = (False, (r, t))"
      unfolding Write_def allowed_def by (simp add: run_simps)
    with run moments show ?thesis by simp
  qed
  then show "r' = r" "network_dirty b t' = network_dirty b t" "all_moments (covered d b path) t'"
    "ok \<Longrightarrow> IsHexGeneration (rc_generation r) \<and>
           disk_after d t' path = Some (journal_text (rc_stage r) (rc_generation r) (rc_network_snapshot r))"
    "\<not> ok \<Longrightarrow> disk_after d t' path = disk_after d t path"
    by (simp_all add: new_text_def)
qed

text \<open>The journal on disk says what the object says.\<close>

definition in_sync :: "string option \<Rightarrow> DurableRuntimeRecovery \<Rightarrow> bool" where
  "in_sync file r \<longleftrightarrow>
     (\<not> rc_invalid r \<longrightarrow>
       (if rc_stage r = kClean then \<not> needs_recovery file
        else IsHexGeneration (rc_generation r) \<and>
             file = Some (journal_text (rc_stage r) (rc_generation r) (rc_network_snapshot r))))"

definition rec_inv :: "disk \<Rightarrow> bool \<Rightarrow> string \<Rightarrow> DurableRuntimeRecovery \<times> trace \<Rightarrow> bool" where
  "rec_inv d b path = (\<lambda>(r, t). paths_ok path r \<and> all_moments (covered d b path) t \<and>
     in_sync (disk_after d t path) r \<and>
     (\<not> rc_invalid r \<and> rc_stage r = kRecovered \<longrightarrow> \<not> network_dirty b t))"

lemma rec_inv_clean:
  "rec_inv d b path (r, t) \<Longrightarrow> \<not> rc_invalid r \<Longrightarrow> rc_stage r = kClean \<Longrightarrow> \<not> network_dirty b t"
  using all_moments_now [of "covered d b path" t] needs_rollback_recovery
  by (auto simp: rec_inv_def in_sync_def covered_def)

lemma rec_inv_requires:
  "rec_inv d b path (r, t) \<Longrightarrow> \<not> rc_invalid r \<Longrightarrow> rc_stage r \<noteq> kClean \<Longrightarrow>
   needs_recovery (disk_after d t path)"
  using needs_recovery_text by (auto simp: rec_inv_def in_sync_def)

lemma Record_run:
  assumes run: "run_state (Record e st) (r, t) = (err, (r', t'))"
    and paths: "paths_ok path r" and moments: "all_moments (covered d b path) t"
    and new: "network_dirty b t \<longrightarrow> st \<noteq> kClean \<and> st \<noteq> kRecovered"
  shows "r' = (if err = [] then r\<lparr>rc_stage := st\<rparr> else r)"
    and "network_dirty b t' = network_dirty b t" and "all_moments (covered d b path) t'"
    and "err = [] \<Longrightarrow> \<not> rc_invalid r \<and> IsForwardTransition (rc_stage r) st \<and> IsHexGeneration (rc_generation r) \<and>
           disk_after d t' path = Some (journal_text st (rc_generation r) (rc_network_snapshot r))"
    and "err \<noteq> [] \<Longrightarrow> disk_after d t' path = disk_after d t path"
proof -
  define refused where "refused \<longleftrightarrow> rc_invalid r \<or> \<not> IsForwardTransition (rc_stage r) st"
  have "r' = (if err = [] then r\<lparr>rc_stage := st\<rparr> else r) \<and> network_dirty b t' = network_dirty b t \<and>
    all_moments (covered d b path) t' \<and>
    (err = [] \<longrightarrow> \<not> refused \<and> IsHexGeneration (rc_generation r) \<and>
       disk_after d t' path = Some (journal_text st (rc_generation r) (rc_network_snapshot r))) \<and>
    (err \<noteq> [] \<longrightarrow> disk_after d t' path = disk_after d t path)"
  proof (cases refused)
    case True
    then have "r' = r \<and> t' = t \<and> err \<noteq> []"
      using run by (auto simp: Record_def run_simps refused_def split: if_splits)
    with moments show ?thesis by simp
  next
    case False
    obtain ok q u where w: "run_state (Write e) (r\<lparr>rc_stage := st\<rparr>, t) = (ok, (q, u))"
      by (metis prod.exhaust)
    have "paths_ok path (r\<lparr>rc_stage := st\<rparr>)" using paths by (simp add: paths_ok_def)
    note W = Write_run [OF w this moments] 
    have "err = (if ok then [] else ''recovery_write_failed'')" "r' = (if ok then q else q\<lparr>rc_stage := rc_stage r\<rparr>)"
      "t' = u"
      using run w False by (auto simp: Record_def run_simps refused_def split: if_splits)
    then show ?thesis using W new False by auto
  qed
  then show "r' = (if err = [] then r\<lparr>rc_stage := st\<rparr> else r)"
    "network_dirty b t' = network_dirty b t" "all_moments (covered d b path) t'"
    "err = [] \<Longrightarrow> \<not> rc_invalid r \<and> IsForwardTransition (rc_stage r) st \<and> IsHexGeneration (rc_generation r) \<and>
           disk_after d t' path = Some (journal_text st (rc_generation r) (rc_network_snapshot r))"
    "err \<noteq> [] \<Longrightarrow> disk_after d t' path = disk_after d t path"
    by (simp_all add: refused_def)
qed

section \<open>The operations\<close>

lemma Record_inv:
  assumes inv: "rec_inv d b path (r, t)" and run: "run_state (Record e st) (r, t) = (err, (r', t'))"
    and st: "st \<noteq> kClean" and restored: "st = kRecovered \<Longrightarrow> \<not> network_dirty b t"
  shows "rec_inv d b path (r', t')" and "network_dirty b t' = network_dirty b t"
    and "r' = (if err = [] then r\<lparr>rc_stage := st\<rparr> else r)"
    and "err = [] \<Longrightarrow> \<not> rc_invalid r \<and> IsForwardTransition (rc_stage r) st"
proof -
  have p: "paths_ok path r" "all_moments (covered d b path) t" using inv by (auto simp: rec_inv_def)
  note R = Record_run [OF run p] 
  have new: "network_dirty b t \<longrightarrow> st \<noteq> kClean \<and> st \<noteq> kRecovered" using st restored by auto
  show "rec_inv d b path (r', t')"
    using R [OF new] inv st restored by (cases "err = []") (auto simp: rec_inv_def in_sync_def paths_ok_def)
  show "network_dirty b t' = network_dirty b t" "r' = (if err = [] then r\<lparr>rc_stage := st\<rparr> else r)"
    "err = [] \<Longrightarrow> \<not> rc_invalid r \<and> IsForwardTransition (rc_stage r) st"
    using R [OF new] by auto
qed

lemma FinishRecovery_inv:
  assumes inv: "rec_inv d b path (r, t)" and run: "run_state (FinishRecovery e) (r, t) = (err, (r', t'))"
  shows "rec_inv d b path (r', t')" and "network_dirty b t' = network_dirty b t"
    and "r' = (if err = [] then r\<lparr>rc_stage := kClean, rc_network_snapshot := []\<rparr> else r)"
    and "err = [] \<Longrightarrow> \<not> rc_invalid r \<and> rc_stage r = kRecovered"
proof -
  define q where "q = r\<lparr>rc_network_snapshot := []\<rparr>"
  obtain q' where w: "run_state (Record e kClean) (q, t) = (err, (q', t'))"
    and r': "r' = (if err \<noteq> [] then q'\<lparr>rc_network_snapshot := rc_network_snapshot r\<rparr> else q')"
    using run by (auto simp: FinishRecovery_def run_simps q_def split: prod.splits if_splits)
  have p: "paths_ok path q" "all_moments (covered d b path) t"
    using inv by (auto simp: rec_inv_def q_def paths_ok_def)
  have "IsForwardTransition st kClean \<longleftrightarrow> st = kRecovered" for st by (cases st) auto
  moreover have "\<not> network_dirty b t" if "\<not> rc_invalid r" "rc_stage r = kRecovered"
    using inv that by (auto simp: rec_inv_def)
  ultimately have "network_dirty b t \<Longrightarrow> rc_invalid q \<or> \<not> IsForwardTransition (rc_stage q) kClean"
    by (auto simp: q_def)
  then have "network_dirty b t \<Longrightarrow> q' = q \<and> t' = t \<and> err \<noteq> []"
    using w by (auto simp: Record_def run_simps split: if_splits)
  then have "rec_inv d b path (r', t') \<and> network_dirty b t' = network_dirty b t \<and>
    r' = (if err = [] then r\<lparr>rc_stage := kClean, rc_network_snapshot := []\<rparr> else r) \<and>
    (err = [] \<longrightarrow> \<not> rc_invalid r \<and> rc_stage r = kRecovered)"
  proof (cases "network_dirty b t")
    case True
    with \<open>network_dirty b t \<Longrightarrow> q' = q \<and> t' = t \<and> err \<noteq> []\<close> inv show ?thesis
      by (simp add: r' q_def)
  next
    case False
    then have "network_dirty b t \<longrightarrow> kClean \<noteq> kClean \<and> kClean \<noteq> kRecovered" by simp
    note R = Record_run [OF w p this]
    show ?thesis
    proof (cases "err = []")
      case True
      with R have "q' = q\<lparr>rc_stage := kClean\<rparr>" "\<not> rc_invalid q" "rc_stage q = kRecovered"
        "IsHexGeneration (rc_generation q)" "disk_after d t' path = Some (journal_text kClean (rc_generation q) [])"
        using \<open>\<And>st. IsForwardTransition st kClean \<longleftrightarrow> st = kRecovered\<close> by (auto simp: q_def)
      with True R inv clean_text show ?thesis
        by (auto simp: r' q_def rec_inv_def in_sync_def paths_ok_def)
    next
      case False
      with R inv show ?thesis by (auto simp: r' q_def rec_inv_def)
    qed
  qed
  then show "rec_inv d b path (r', t')" "network_dirty b t' = network_dirty b t"
    "r' = (if err = [] then r\<lparr>rc_stage := kClean, rc_network_snapshot := []\<rparr> else r)"
    "err = [] \<Longrightarrow> \<not> rc_invalid r \<and> rc_stage r = kRecovered" by blast+
qed

lemma rec_inv_ask:
  assumes "rec_inv d b path (r, t)" and "network_dirty b ((op, a) # t) \<longrightarrow> network_dirty b t"
    and "\<And>x. disk_step (op, a) x path = x path"
  shows "rec_inv d b path (r, (op, a) # t)"
  using assms all_moments_now [of "covered d b path" t] by (auto simp: rec_inv_def covered_def)

lemma rec_inv_memory:
  assumes "rec_inv d b path (r, t)" and "rc_stage r = kClean"
  shows "rec_inv d b path (r\<lparr>rc_generation := g, rc_network_snapshot := s\<rparr>, t)"
  using assms by (auto simp: rec_inv_def in_sync_def paths_ok_def)

lemma Begin_inv:
  assumes inv: "rec_inv d b path (r, t)" and run: "run_state (Begin e) (r, t) = (err, (r', t'))"
  shows "rec_inv d b path (r', t')" and "network_dirty b t' = network_dirty b t"
    and "err = [] \<Longrightarrow> \<not> rc_invalid r' \<and> rc_stage r' = kSnapshotted \<and> rc_network_state r' \<and>
      rc_network_snapshot r' \<noteq> [] \<and> length (rc_network_snapshot r') \<le> kMaximumNetworkSnapshotSize"
    and "err \<noteq> [] \<Longrightarrow> rc_stage r' = rc_stage r \<and> rc_invalid r' = rc_invalid r"
proof -
  define t1 where "t1 = (GenRandom, ABytes (env_bytes e t GenRandom)) # t"
  define t2 where "t2 = (NetIo CaptureNetwork, AText (env_text e t1 (NetIo CaptureNetwork))) # t1"
  define t3 where "t3 = (NetIo CapturedSnapshot, AText (env_text e t2 (NetIo CapturedSnapshot))) # t2"
  define g where "g = (case env_bytes e t GenRandom of None \<Rightarrow> [] | Some bs \<Rightarrow> hex_string bs)"
  define s where "s = env_text e t2 (NetIo CapturedSnapshot)"
  define q where "q = r\<lparr>rc_generation := g, rc_network_snapshot := s\<rparr>"
  have i1: "rec_inv d b path (r, t1)" using inv by (simp add: t1_def rec_inv_ask)
  then have i2: "rec_inv d b path (r, t2)" by (simp add: t2_def rec_inv_ask)
  then have i3: "rec_inv d b path (r, t3)" by (simp add: t3_def rec_inv_ask)
  have dirty: "network_dirty b t1 = network_dirty b t" "network_dirty b t2 = network_dirty b t"
    "network_dirty b t3 = network_dirty b t" by (simp_all add: t1_def t2_def t3_def)
  have outcome: "(err \<noteq> [] \<and> r' = r \<and> t' \<in> {t, t1, t2, t3}) \<or>
    (\<not> rc_invalid r \<and> rc_stage r = kClean \<and> rc_network_state r \<and> s \<noteq> [] \<and>
      length s \<le> kMaximumNetworkSnapshotSize \<and> run_state (Record e kSnapshotted) (q, t3) = (err, (r', t')))"
    using run
    by (auto simp: Begin_def NewGeneration_def run_simps t1_def t2_def t3_def g_def s_def q_def
        Let_def split: if_splits)
  then show "rec_inv d b path (r', t')" "network_dirty b t' = network_dirty b t"
    "err = [] \<Longrightarrow> \<not> rc_invalid r' \<and> rc_stage r' = kSnapshotted \<and> rc_network_state r' \<and>
      rc_network_snapshot r' \<noteq> [] \<and> length (rc_network_snapshot r') \<le> kMaximumNetworkSnapshotSize"
    "err \<noteq> [] \<Longrightarrow> rc_stage r' = rc_stage r \<and> rc_invalid r' = rc_invalid r"
    using inv i1 i2 i3 dirty Record_inv [of d b path q t3 e kSnapshotted err r' t'] rec_inv_memory [OF i3]
    by (auto simp: q_def)
qed

lemma BeginRollback_inv:
  assumes inv: "rec_inv d b path (r, t)" and run: "run_state (BeginRollback e) (r, t) = (err, (r', t'))"
  shows "rec_inv d b path (r', t')" and "network_dirty b t' = network_dirty b t"
    and "err = [] \<Longrightarrow> \<not> rc_invalid r' \<and> (rc_stage r' = kRollingBack \<or> rc_stage r' = kClean)"
    and "err \<noteq> [] \<Longrightarrow> r' = r"
proof -
  have "(err \<noteq> [] \<and> r' = r \<and> t' = t) \<or>
    (err = [] \<and> r' = r \<and> t' = t \<and> \<not> rc_invalid r \<and> (rc_stage r = kRollingBack \<or> rc_stage r = kClean)) \<or>
    run_state (FinishRecovery e) (r, t) = (err, (r', t')) \<or>
    run_state (Record e kRollingBack) (r, t) = (err, (r', t'))"
    using run by (auto simp: BeginRollback_def run_simps split: if_splits)
  then show "rec_inv d b path (r', t')" "network_dirty b t' = network_dirty b t"
    "err = [] \<Longrightarrow> \<not> rc_invalid r' \<and> (rc_stage r' = kRollingBack \<or> rc_stage r' = kClean)"
    "err \<noteq> [] \<Longrightarrow> r' = r"
    using inv FinishRecovery_inv [OF inv, of e err r' t'] Record_inv [OF inv, of e kRollingBack err r' t']
    by auto
qed

lemma network_dirty_restore:
  "network_dirty b ((NetIo (RestoreNetwork s), AText x) # t) = (x \<noteq> [] \<and> network_dirty b t)"
  by (cases x) simp_all

lemma RestoreNetworkState_inv:
  assumes inv: "rec_inv d b path (r, t)" and run: "run_state (RestoreNetworkState e) (r, t) = (err, (r', t'))"
  shows "rec_inv d b path (r', t')" and "r' = r" and "network_dirty b t' \<Longrightarrow> network_dirty b t"
    and "err = [] \<Longrightarrow> \<not> network_dirty b t' \<and> \<not> rc_invalid r \<and> (rc_stage r = kRollingBack \<or> rc_stage r = kClean)"
proof -
  define op where "op = NetIo (RestoreNetwork (rc_network_snapshot r))"
  have "(t' = t \<and> r' = r \<and> (err = [] \<longrightarrow> \<not> rc_invalid r \<and> rc_stage r = kClean)) \<or>
    (\<not> rc_invalid r \<and> rc_stage r = kRollingBack \<and> r' = r \<and> t' = (op, AText err) # t)"
    using run by (auto simp: RestoreNetworkState_def run_simps op_def split: if_splits)
  then show "rec_inv d b path (r', t')" "r' = r" "network_dirty b t' \<Longrightarrow> network_dirty b t"
    "err = [] \<Longrightarrow> \<not> network_dirty b t' \<and> \<not> rc_invalid r \<and> (rc_stage r = kRollingBack \<or> rc_stage r = kClean)"
    using inv rec_inv_clean [OF inv]
    by (auto simp: op_def network_dirty_restore intro: rec_inv_ask)
qed

lemma CompleteRollback_inv:
  assumes inv: "rec_inv d b path (r, t)" and run: "run_state (CompleteRollback e) (r, t) = (err, (r', t'))"
    and restored: "\<not> network_dirty b t"
  shows "rec_inv d b path (r', t')" and "\<not> network_dirty b t'" and "rc_invalid r' = rc_invalid r"
    and "err = [] \<Longrightarrow> \<not> rc_invalid r' \<and> rc_stage r' = kClean \<and> \<not> needs_recovery (disk_after d t' path)"
proof -
  consider (unchanged) "r' = r" "t' = t" "err = [] \<Longrightarrow> \<not> rc_invalid r \<and> rc_stage r = kClean"
    | (failed) "run_state (Record e kRecovered) (r, t) = (err, (r', t'))" "err \<noteq> []"
    | (finish) q u where "run_state (Record e kRecovered) (r, t) = ([], (q, u))"
        "run_state (FinishRecovery e) (q, u) = (err, (r', t'))"
    using run by (auto simp: CompleteRollback_def run_simps split: if_splits prod.splits)
  then have "rec_inv d b path (r', t') \<and> \<not> network_dirty b t' \<and> rc_invalid r' = rc_invalid r \<and>
    (err = [] \<longrightarrow> \<not> rc_invalid r' \<and> rc_stage r' = kClean)"
  proof cases
    case unchanged
    with inv restored show ?thesis by simp
  next
    case failed
    from Record_inv [OF inv failed(1)] restored failed(2) show ?thesis by simp
  next
    case finish
    note R = Record_inv [OF inv finish(1)]
    with restored have q: "rec_inv d b path (q, u)" "\<not> network_dirty b u" "rc_invalid q = rc_invalid r" by simp_all
    from FinishRecovery_inv [OF q(1) finish(2)] q show ?thesis by auto
  qed
  then show "rec_inv d b path (r', t')" "\<not> network_dirty b t'" "rc_invalid r' = rc_invalid r"
    "err = [] \<Longrightarrow> \<not> rc_invalid r' \<and> rc_stage r' = kClean \<and> \<not> needs_recovery (disk_after d t' path)"
    by (auto simp: rec_inv_def in_sync_def)
qed

section \<open>Loading is the inverse of writing\<close>

lemma hex_pairs_SomeD: "hex_pairs s = Some v \<Longrightarrow> even (length s) \<Longrightarrow> HexEncode v = s"
proof (induction s arbitrary: v rule: hex_pairs.induct)
  case (1 h l rest)
  then obtain v' where n: "\<not> nibble h < 0" "\<not> nibble l < 0" and v': "hex_pairs rest = Some v'"
    and v: "v = char_of_byte (of_int (push_bit 4 (nibble h) OR nibble l)) # v'"
    by (auto split: if_splits)
  have lower: "is_lower_hex h" "is_lower_hex l"
    using n by (auto simp: nibble_def is_lower_hex_def split: if_splits)
  have "of_int (push_bit 4 (nibble h) OR nibble l) = byte_of_hex h l"
    using hex_digit_value [OF lower(1)] hex_digit_value [OF lower(2)]
    by (simp add: byte_of_hex_def nibble_hex lower nibble_join)
  with 1 v v' lower n show ?case by (simp add: HexEncode_def)
qed (simp_all add: HexEncode_def)

lemma HexDecode_SomeD:
  assumes "HexDecode v = Some s"
  shows "HexEncode s = v \<and> length s \<le> kMaximumNetworkSnapshotSize"
proof -
  have v: "hex_pairs v = Some s" "length v mod 2 = 0" "length v \<le> kMaximumNetworkSnapshotSize * 2"
    using assms by (simp_all add: HexDecode_def split: if_splits)
  then have e: "HexEncode s = v" by (intro hex_pairs_SomeD) auto
  then have "2 * length s = length v" using length_HexEncode [of s] by simp
  with v(3) e show ?thesis by simp
qed

lemma journal_lines_SomeD:
  "journal_lines content start = Some lines \<Longrightarrow> start \<le> length content \<Longrightarrow>
   drop start content = concat (map (\<lambda>x. x @ [newline]) lines)"
proof (induction content start arbitrary: lines rule: journal_lines.induct)
  case (1 content start)
  show ?case
  proof (cases "start < length content")
    case True
    then obtain e' ls where e': "find_char content newline start = Some e'"
      and ls: "journal_lines content (e' + 1) = Some ls" and lines: "lines = substr content start (e' - start) # ls"
      using 1(2) by (auto simp: journal_lines.simps [of content start] split: option.splits)
    have b: "start \<le> e'" "e' < length content" using find_char_ge [OF e'] by auto
    have "content ! e' = newline"
      using e' by (auto simp: find_char_def dest!: index_of_SomeD)
    moreover have "drop start content = take (e' - start) (drop start content) @ drop e' content"
      using b append_take_drop_id [of "e' - start" "drop start content"] by simp
    moreover have "drop e' content = content ! e' # drop (e' + 1) content"
      using b by (simp add: Cons_nth_drop_Suc)
    moreover have "drop (e' + 1) content = concat (map (\<lambda>x. x @ [newline]) ls)"
      using 1(1) [OF True e' ls] b by simp
    ultimately show ?thesis by (simp add: lines substr_def)
  next
    case False
    with 1 show ?thesis by (simp add: journal_lines.simps [of content start])
  qed
qed

lemma ParseStage_SomeD: "ParseStage v = Some st \<Longrightarrow> StageName st = v"
  by (auto simp: ParseStage_def find_Some_iff)

lemma starts_with_drop: "starts_with p s \<Longrightarrow> length p = n \<Longrightarrow> p @ drop n s = s"
  by (auto simp: starts_with_iff)

lemma parse_journal_SomeD:
  assumes "parse_journal content = Some (st, g, s)"
  shows "content = journal_text st g s" "IsHexGeneration g" "length s \<le> kMaximumNetworkSnapshotSize"
    "st \<noteq> kClean \<longrightarrow> g \<noteq> zero_generation \<and> s \<noteq> []" "st = kClean \<longrightarrow> s = []"
proof -
  obtain lines where lines: "journal_lines content 0 = Some lines" and len: "length lines = 4"
    and l0: "lines ! 0 = kJournalMagic" and p: "starts_with ''stage='' (lines ! 1)"
      "starts_with ''generation='' (lines ! 2)" "starts_with ''network_state='' (lines ! 3)"
    and st: "ParseStage (drop 6 (lines ! 1)) = Some st" and g: "g = drop 11 (lines ! 2)" "IsHexGeneration g"
    and s: "HexDecode (drop 14 (lines ! 3)) = Some s"
    and ok: "st \<noteq> kClean \<longrightarrow> g \<noteq> zero_generation \<and> s \<noteq> []" "st = kClean \<longrightarrow> s = []"
    using assms by (auto simp: parse_journal_def Let_def split: if_splits option.splits)
  have h: "HexEncode s = drop 14 (lines ! 3)" "length s \<le> kMaximumNetworkSnapshotSize"
    using HexDecode_SomeD [OF s] by auto
  have "''stage='' @ StageName st = lines ! 1" "''generation='' @ g = lines ! 2"
    "''network_state='' @ HexEncode s = lines ! 3"
    using starts_with_drop [OF p(1), of 6] starts_with_drop [OF p(2), of 11] starts_with_drop [OF p(3), of 14]
      ParseStage_SomeD [OF st] g h by simp_all
  then have "journal_fields st g s = [lines ! 0, lines ! 1, lines ! 2, lines ! 3]"
    using l0 by (simp add: journal_fields_def)
  also have "\<dots> = lines"
    using len by (intro nth_equalityI) (auto simp: less_Suc_eq eval_nat_numeral)
  finally have "journal_fields st g s = lines" .
  then show "content = journal_text st g s"
    using journal_lines_SomeD [OF lines] by (simp add: journal_text_fields)
  show "IsHexGeneration g" "length s \<le> kMaximumNetworkSnapshotSize"
    "st \<noteq> kClean \<longrightarrow> g \<noteq> zero_generation \<and> s \<noteq> []" "st = kClean \<longrightarrow> s = []"
    using g h ok by auto
qed

lemma NewRecovery_inv:
  assumes "root \<noteq> []" and "b \<longrightarrow> needs_rollback (d (AppendPath root kJournalName))"
  shows "rec_inv d b (AppendPath root kJournalName)
    (NewRecovery root ns (journal_on d (AppendPath root kJournalName)), [])"
proof -
  define path where "path = AppendPath root kJournalName"
  define r where "r = NewRecovery root ns (journal_on d path)"
  have "paths_ok path r"
    using assms(1) by (auto simp: path_def r_def paths_ok_def AppendPath_def kJournalName_def kPendingJournalName_def
        NewRecovery_def Load_def split: journal_view.splits option.splits)
  moreover have "in_sync (d path) r \<and> (\<not> rc_invalid r \<and> rc_stage r = kRecovered \<longrightarrow> \<not> b)"
  proof (cases "rc_invalid r \<or> d path = None")
    case True
    then show ?thesis
      by (auto simp: r_def in_sync_def NewRecovery_def Load_def journal_on_def needs_recovery_def)
  next
    case False
    then obtain content st g s where c: "d path = Some content" and pj: "parse_journal content = Some (st, g, s)"
      and rb: "ReadBoundedFile \<lparr>fv_opens = True, fv_bytes = content, fv_reads = True\<rparr> = Some content"
      and r: "rc_stage r = st" "rc_generation r = g" "rc_network_snapshot r = s"
      by (auto simp: r_def NewRecovery_def Load_def journal_on_def ReadBoundedFile_def
          split: option.splits if_splits)
    show ?thesis
      using parse_journal_SomeD [OF pj] assms(2) c pj rb unfolding path_def [symmetric]
      by (auto simp: in_sync_def r needs_recovery_def needs_rollback_def)
  qed
  ultimately show ?thesis
    using assms(2) unfolding path_def [symmetric] r_def [symmetric] by (simp add: rec_inv_def covered_def)
qed

section \<open>The protocol of the journal\<close>

text \<open>Calls that neither touch the journal file nor start Core nor restore the network.\<close>

fun quiet_for :: "string \<Rightarrow> io \<Rightarrow> bool" where
  "quiet_for path (FileIo (CreateFile p)) = (p \<noteq> path)"
| "quiet_for path (FileIo (WriteFile p content)) = (p \<noteq> path)"
| "quiet_for path (FileIo (MoveFileEx p q)) = (p \<noteq> path \<and> q \<noteq> path)"
| "quiet_for path (FileIo (DeleteFile p)) = (p \<noteq> path)"
| "quiet_for path (CoreIo (CoreStart p m)) = False"
| "quiet_for path (CoreIo (CoreStartInterruptible p m)) = False"
| "quiet_for path (NetIo (RestoreNetwork s)) = False"
| "quiet_for path op = True"

lemma quiet_disk: "quiet_for path op \<Longrightarrow> disk_step (op, a) x path = x path"
  by (cases "((op, a), x)" rule: disk_step.cases) auto

lemma quiet_dirty: "quiet_for path op \<Longrightarrow> network_dirty b ((op, a) # t) = network_dirty b t"
  by (cases "(path, op)" rule: quiet_for.cases) (auto split: answer.splits)

text \<open>
  The uses of the journal that are safe: its operations in any order, a start of Core only
  after \<^term>\<open>kCoreStarted\<close> was recorded, the completion of a rollback only when the network
  is restored, and any other call.  \<open>d\<close> is the disk at the start of the process and \<open>b\<close> says
  whether the network was dirty then.
\<close>

inductive journal_reach :: "env \<Rightarrow> disk \<Rightarrow> bool \<Rightarrow> string \<Rightarrow> bool \<Rightarrow> DurableRuntimeRecovery \<times> trace \<Rightarrow> bool"
  for e d b root ns where
  started: "journal_reach e d b root ns (NewRecovery root ns (journal_on d (AppendPath root kJournalName)), [])"
| begun: "journal_reach e d b root ns s \<Longrightarrow> run_state (Begin e) s = (err, s') \<Longrightarrow> journal_reach e d b root ns s'"
| recorded: "journal_reach e d b root ns s \<Longrightarrow> st \<in> {kCoreStarted, kNetworkApplied, kVerified, kCommitted} \<Longrightarrow>
    run_state (Record e st) s = (err, s') \<Longrightarrow> journal_reach e d b root ns s'"
| rollback_begun: "journal_reach e d b root ns s \<Longrightarrow> run_state (BeginRollback e) s = (err, s') \<Longrightarrow>
    journal_reach e d b root ns s'"
| restored: "journal_reach e d b root ns s \<Longrightarrow> run_state (RestoreNetworkState e) s = (err, s') \<Longrightarrow>
    journal_reach e d b root ns s'"
| completed: "journal_reach e d b root ns s \<Longrightarrow> \<not> network_dirty b (snd s) \<Longrightarrow>
    run_state (CompleteRollback e) s = (err, s') \<Longrightarrow> journal_reach e d b root ns s'"
| core_started: "journal_reach e d b root ns (r, t) \<Longrightarrow> \<not> rc_invalid r \<Longrightarrow> rc_stage r = kCoreStarted \<Longrightarrow>
    op = CoreStart p m \<or> op = CoreStartInterruptible p m \<Longrightarrow>
    journal_reach e d b root ns (r, (CoreIo op, a) # t)"
| quiet: "journal_reach e d b root ns (r, t) \<Longrightarrow> quiet_for (AppendPath root kJournalName) op \<Longrightarrow>
    journal_reach e d b root ns (r, (op, a) # t)"

lemma rec_inv_start:
  assumes inv: "rec_inv d b path (r, t)" and st: "\<not> rc_invalid r" "rc_stage r = kCoreStarted"
    and op: "op = CoreStart p m \<or> op = CoreStartInterruptible p m"
  shows "rec_inv d b path (r, (CoreIo op, a) # t)"
proof -
  have "disk_after d t path = Some (journal_text kCoreStarted (rc_generation r) (rc_network_snapshot r))"
    "IsHexGeneration (rc_generation r)"
    using inv st by (auto simp: rec_inv_def in_sync_def)
  then have "needs_rollback (disk_after d t path)" by (simp add: needs_rollback_text)
  with inv st op show ?thesis by (auto simp: rec_inv_def covered_def)
qed

lemma rec_inv_quiet:
  assumes "rec_inv d b path (r, t)" and "quiet_for path op"
  shows "rec_inv d b path (r, (op, a) # t)"
  using assms by (intro rec_inv_ask) (simp_all add: quiet_dirty quiet_disk del: network_dirty.simps)

lemma journal_reach_inv:
  assumes "journal_reach e d b root ns s" and "root \<noteq> []"
    and "b \<longrightarrow> needs_rollback (d (AppendPath root kJournalName))"
  shows "rec_inv d b (AppendPath root kJournalName) s"
  using assms(1)
proof (induction rule: journal_reach.induct)
  case started
  show ?case using assms(2,3) by (rule NewRecovery_inv)
next
  case (begun s err s')
  then show ?case using Begin_inv(1) [of d b _ "fst s" "snd s" e err "fst s'" "snd s'"] by simp
next
  case (recorded s st err s')
  then show ?case using Record_inv(1) [of d b _ "fst s" "snd s" e st err "fst s'" "snd s'"] by auto
next
  case (rollback_begun s err s')
  then show ?case using BeginRollback_inv(1) [of d b _ "fst s" "snd s" e err "fst s'" "snd s'"] by simp
next
  case (restored s err s')
  then show ?case using RestoreNetworkState_inv(1) [of d b _ "fst s" "snd s" e err "fst s'" "snd s'"] by simp
next
  case (completed s err s')
  then show ?case using CompleteRollback_inv(1) [of d b _ "fst s" "snd s" e err "fst s'" "snd s'"] by simp
next
  case (core_started r t op p m a)
  then show ?case by (blast intro: rec_inv_start)
next
  case (quiet r t op a)
  then show ?case by (blast intro: rec_inv_quiet)
qed

section \<open>The contract of a rollback\<close>

text \<open>
  What the owner of a journal relies on when it rolls back: every operation keeps the
  invariant, a restoration that reports success leaves the network clean, and a completion
  after that leaves the journal clean.  \<open>middle\<close> stands for what the owner does between the
  beginning of the rollback and the restoration (it stops Core).
\<close>

locale durable_rollback =
  fixes inv :: "'r \<times> trace \<Rightarrow> bool" and dirty :: "trace \<Rightarrow> bool" and clean :: "'r \<times> trace \<Rightarrow> bool"
    and begin_rollback :: "('r, string) action" and restore :: "('r, string) action"
    and complete :: "('r, string) action"
  assumes begin_inv: "triple inv begin_rollback (\<lambda>_. inv)"
    and restore_inv: "triple inv restore (\<lambda>err s. inv s \<and> (err = [] \<longrightarrow> \<not> dirty (snd s)))"
    and complete_inv: "triple (\<lambda>s. inv s \<and> \<not> dirty (snd s)) complete (\<lambda>err s. inv s \<and> (err = [] \<longrightarrow> clean s))"
begin

lemma rollback_cleans:
  assumes "triple inv middle (\<lambda>_. inv)"
  shows "triple inv
    (do { begun \<leftarrow> begin_rollback; stopped \<leftarrow> middle;
          if begun \<noteq> [] then State_Monad.return begun
          else if stopped \<noteq> [] then State_Monad.return stopped
          else do { network \<leftarrow> restore;
                    if network \<noteq> [] then State_Monad.return network else complete } })
    (\<lambda>err s. inv s \<and> (err = [] \<longrightarrow> clean s))"
proof -
  have "triple inv
      (do { network \<leftarrow> restore; if network \<noteq> [] then State_Monad.return network else complete })
      (\<lambda>err s. inv s \<and> (err = [] \<longrightarrow> clean s))"
    by (rule triple_bind [OF restore_inv])
      (auto intro!: triple_if triple_return intro: triple_pre [OF complete_inv])
  then show ?thesis
    by (intro triple_bind [OF begin_inv] triple_bind [OF assms] triple_if triple_return) auto
qed

end

lemma triple_pairI:
  "(\<And>r t a r' t'. P (r, t) \<Longrightarrow> run_state m (r, t) = (a, (r', t')) \<Longrightarrow> Q a (r', t')) \<Longrightarrow> triple P m Q"
  by (rule tripleI) (metis prod.exhaust)

interpretation journal: durable_rollback "rec_inv d b path" "network_dirty b"
    "\<lambda>(r, t). \<not> RequiresRecovery r \<and> \<not> needs_recovery (disk_after d t path)"
    "BeginRollback e" "RestoreNetworkState e" "CompleteRollback e"
  for d b path e
proof unfold_locales
  show "triple (rec_inv d b path) (BeginRollback e) (\<lambda>_. rec_inv d b path)"
    by (rule triple_pairI) (rule BeginRollback_inv(1))
  show "triple (rec_inv d b path) (RestoreNetworkState e)
      (\<lambda>err s. rec_inv d b path s \<and> (err = [] \<longrightarrow> \<not> network_dirty b (snd s)))"
    by (rule triple_pairI) (simp add: RestoreNetworkState_inv)
  show "triple (\<lambda>s. rec_inv d b path s \<and> \<not> network_dirty b (snd s)) (CompleteRollback e)
      (\<lambda>err s. rec_inv d b path s \<and>
        (err = [] \<longrightarrow> (case s of (r, t) \<Rightarrow> \<not> RequiresRecovery r \<and> \<not> needs_recovery (disk_after d t path))))"
  proof (rule triple_pairI)
    fix r t err r' t'
    assume "rec_inv d b path (r, t) \<and> \<not> network_dirty b (snd (r, t))"
      and run: "run_state (CompleteRollback e) (r, t) = (err, (r', t'))"
    then have i: "rec_inv d b path (r, t)" and n: "\<not> network_dirty b t" by simp_all
    from CompleteRollback_inv [OF i run n]
    show "rec_inv d b path (r', t') \<and> (err = [] \<longrightarrow> (case (r', t') of (r, t) \<Rightarrow>
        \<not> RequiresRecovery r \<and> \<not> needs_recovery (disk_after d t path)))"
      by (simp add: RequiresRecovery_def)
  qed
qed

lemma all_moments_since: "all_moments (\<lambda>u. suffix t u \<longrightarrow> P u) t = P t"
  by (auto simp: all_moments_iff dest: suffix_order.antisym)

lemma Record_moments:
  assumes "run_state (Record e st) (r, t) = (err, (r', t'))" and "rc_pending_path r \<noteq> rc_journal_path r"
  defines "new \<equiv> Some (journal_text st (rc_generation r) (rc_network_snapshot r))"
  shows "all_moments (\<lambda>u. suffix t u \<longrightarrow> disk_after d u (rc_journal_path r) = disk_after d t (rc_journal_path r) \<or>
           disk_after d u (rc_journal_path r) = new) t'"
    and "disk_after d t' (rc_journal_path r) = (if err = [] then new else disk_after d t (rc_journal_path r))"
    and "r' = (if err = [] then r\<lparr>rc_stage := st\<rparr> else r)"
  using assms
  by (auto simp: Record_def Write_def WriteAtomicFile_def run_simps delete_elsewhere all_moments_since
      split: if_splits)

section \<open>Properties\<close>

text \<open>
  C26. The journal format is exact: the parser of \<^verbatim>\<open>Load\<close> returns a stage, a generation and a
  snapshot exactly for the text that \<^verbatim>\<open>Write\<close> produces for them, with a 32-digit generation, a
  snapshot of at most 64 KiB, and a snapshot and a non-zero generation present exactly when
  the stage is not clean.
\<close>

theorem journal_text_exact:
  "parse_journal content = Some (st, g, s) \<longleftrightarrow>
     content = journal_text st g s \<and> IsHexGeneration g \<and> length s \<le> kMaximumNetworkSnapshotSize \<and>
     (if st = kClean then s = [] else g \<noteq> zero_generation \<and> s \<noteq> [])"
  using parse_journal_SomeD [of content st g s]
  by (auto simp: parse_journal_text HexDecode_HexEncode)

text \<open>
  C25. A stage change is atomic on disk whatever the file system answers: at every moment
  of \<^verbatim>\<open>Record\<close> the journal file holds either its old bytes or the complete new text, it holds
  the new text at the end exactly when \<^verbatim>\<open>Record\<close> reports success, and on failure the object
  keeps its previous stage.
\<close>

theorem journal_record_atomic:
  assumes "run_state (Record e st) (r, t) = (err, (r', t'))" and "rc_pending_path r \<noteq> rc_journal_path r"
    and "suffix t u" and "suffix u t'"
  shows "(disk_after d u (rc_journal_path r) = disk_after d t (rc_journal_path r) \<or>
          disk_after d u (rc_journal_path r) = Some (journal_text st (rc_generation r) (rc_network_snapshot r))) \<and>
         disk_after d t' (rc_journal_path r) =
           (if err = [] then Some (journal_text st (rc_generation r) (rc_network_snapshot r))
            else disk_after d t (rc_journal_path r)) \<and>
         r' = (if err = [] then r\<lparr>rc_stage := st\<rparr> else r)"
  using Record_moments [OF assms(1,2)] assms(3,4) unfolding all_moments_iff by blast

text \<open>
  A rollback that reports success has restored everything: from any state of the journal
  that the protocol reaches, beginning a rollback, doing anything that keeps the invariant
  (stopping Core), restoring the network and completing leaves, when the last answer is
  empty, a journal object and a journal file that no longer demand recovery.
\<close>

lemma rollback_sequence_cleans:
  assumes "rec_inv d b path (r, t)" and "triple (rec_inv d b path) middle (\<lambda>_. rec_inv d b path)"
    and "run_state
      (do { begun \<leftarrow> BeginRollback e; stopped \<leftarrow> middle;
            if begun \<noteq> [] then State_Monad.return begun
            else if stopped \<noteq> [] then State_Monad.return stopped
            else do { network \<leftarrow> RestoreNetworkState e;
                      if network \<noteq> [] then State_Monad.return network else CompleteRollback e } })
      (r, t) = ([], (r', t'))"
  shows "rec_inv d b path (r', t') \<and> \<not> RequiresRecovery r' \<and> \<not> needs_recovery (disk_after d t' path)"
  using tripleD [OF journal.rollback_cleans [OF assms(2)] assms(1) assms(3)] by simp

text \<open>
  C20. Crash safety of the journal: along every protocol run, and at every moment of it (every
  suffix of the trace, so also in the middle of an operation), if Core may have changed the
  network and the change is not yet undone, then a service that is started on the disk of
  that moment finds that it requires recovery.
\<close>

theorem journal_crash_safe:
  assumes "journal_reach e d b root ns (r, t)" and "root \<noteq> []"
    and "b \<longrightarrow> needs_rollback (d (AppendPath root kJournalName))"
    and "suffix u t" and "network_dirty b u"
  shows "RequiresRecovery
    (NewRecovery root ns (journal_on (disk_after d u) (AppendPath root kJournalName)))"
proof -
  have "all_moments (covered d b (AppendPath root kJournalName)) t"
    using journal_reach_inv [OF assms(1-3)] by (simp add: rec_inv_def)
  with assms(4) have "covered d b (AppendPath root kJournalName) u" by (simp add: all_moments_iff)
  with assms(5) show ?thesis
    by (simp add: covered_def RequiresRecovery_restart needs_rollback_recovery)
qed

text \<open>A run on an empty disk where everything succeeds, up to the start of Core.\<close>

definition happy_env :: env where
  "happy_env = \<lparr>env_bool = (\<lambda>_ _. True),
     env_int = (\<lambda>_ op. case op of FileIo (WriteFile _ content) \<Rightarrow> int (length content) | _ \<Rightarrow> 1),
     env_text = (\<lambda>_ op. case op of NetIo CapturedSnapshot \<Rightarrow> ''v1'' | _ \<Rightarrow> []),
     env_code = (\<lambda>_ _. 0), env_bytes = (\<lambda>_ _. Some (replicate 16 1)),
     env_sublayer = (\<lambda>_ _. (0, \<lparr>sl_subLayerKey = SdkGuid [], sl_flags = 0, sl_providerKey = None, sl_weight = 0\<rparr>)),
     env_filter = (\<lambda>_ _. (0, \<lparr>fi_filterKey = SdkGuid [], fi_flags = 0, fi_providerKey = None, fi_layerKey = SdkGuid [],
       fi_subLayerKey = SdkGuid [], fi_weight = FWP_EMPTY, fi_action = FWP_ACTION_BLOCK, fi_conditions = []\<rparr>)),
     env_pages = (\<lambda>_ _. []), env_observation = (\<lambda>_ _. None), env_dns = (\<lambda>_ _. kUnknown),
     env_interruption = (\<lambda>_ _. kNone_interruption), env_value = (\<lambda>_ _. (0, 1, replicate 32 CHR ''0'' @ [CHR 0x00])),
     env_candidate = (\<lambda>_ _. None), env_context = (\<lambda>_ _. None), env_revision = (\<lambda>_ _. None),
     lib_utf8 = (\<lambda>_. True), lib_json = (\<lambda>_. Some (JObject [])), lib_stringify = (\<lambda>_. ''{}''),
     lib_hash = (\<lambda>_. Some (replicate 32 1)), lib_filetime = (\<lambda>_. None), lib_systemtime = (\<lambda>_. None), lib_crack_url = (\<lambda>_. None),
     lib_catalog_trust = True\<rparr>"

definition sample_recovery :: DurableRuntimeRecovery where
  "sample_recovery = NewRecovery ''C:'' True (journal_on (\<lambda>_. None) (AppendPath ''C:'' kJournalName))"

definition sample_begun :: "DurableRuntimeRecovery \<times> trace" where
  "sample_begun = snd (run_state (Begin happy_env) (sample_recovery, []))"

definition sample_marked :: "DurableRuntimeRecovery \<times> trace" where
  "sample_marked = snd (run_state (Record happy_env kCoreStarted) sample_begun)"

lemma sample_generation: "IsHexGeneration (hex_string (replicate 16 1))" "hex_string (replicate 16 1) \<noteq> []"
proof -
  show "IsHexGeneration (hex_string (replicate 16 1))" by (simp add: IsHexGeneration_iff hex_string_lower)
  show "hex_string (replicate 16 1) \<noteq> []" by (simp add: hex_string_def hex_byte_def)
qed

lemmas sample_simps = sample_marked_def sample_begun_def sample_recovery_def NewRecovery_def Load_def
  journal_on_def Begin_def NewGeneration_def Record_def Write_def WriteAtomicFile_def run_simps happy_env_def
  AppendPath_def kJournalName_def kPendingJournalName_def kMaximumNetworkSnapshotSize_def sample_generation

lemma sample_marked_stage: "\<not> rc_invalid (fst sample_marked) \<and> rc_stage (fst sample_marked) = kCoreStarted"
  by (simp add: sample_simps)

lemma sample_reach:
  "journal_reach happy_env (\<lambda>_. None) False ''C:'' True sample_begun"
  "journal_reach happy_env (\<lambda>_. None) False ''C:'' True sample_marked"
proof -
  show b: "journal_reach happy_env (\<lambda>_. None) False ''C:'' True sample_begun"
    unfolding sample_begun_def sample_recovery_def
    by (rule journal_reach.begun [OF journal_reach.started surjective_pairing])
  show "journal_reach happy_env (\<lambda>_. None) False ''C:'' True sample_marked"
    unfolding sample_marked_def
    by (rule journal_reach.recorded [OF b _ surjective_pairing]) simp
qed

theorem journal_crash_safe_witness:
  "RequiresRecovery (NewRecovery ''C:'' True
     (journal_on (disk_after (\<lambda>_. None) ((CoreIo (CoreStart ''p'' False), AText []) # snd sample_marked))
       (AppendPath ''C:'' kJournalName)))"
proof -
  have "journal_reach happy_env (\<lambda>_. None) False ''C:'' True
      (fst sample_marked, (CoreIo (CoreStart ''p'' False), AText []) # snd sample_marked)"
    using sample_marked_stage sample_reach(2)
    by (intro journal_reach.core_started [where p = "''p''" and m = False]) auto
  from journal_crash_safe [OF this, of "(CoreIo (CoreStart ''p'' False), AText []) # snd sample_marked"]
  show ?thesis by simp
qed

theorem journal_record_atomic_witness:
  "disk_after (\<lambda>_. None) (snd sample_marked) (rc_journal_path (fst sample_begun)) =
     Some (journal_text kCoreStarted (rc_generation (fst sample_begun)) (rc_network_snapshot (fst sample_begun)))"
proof -
  have run: "run_state (Record happy_env kCoreStarted) (fst sample_begun, snd sample_begun) =
      ([], (fst sample_marked, snd sample_marked))"
    by (simp add: sample_simps)
  have paths: "rc_pending_path (fst sample_begun) \<noteq> rc_journal_path (fst sample_begun)"
    by (simp add: sample_simps)
  have suf: "suffix (snd sample_begun) (snd sample_begun)" "suffix (snd sample_begun) (snd sample_marked)"
    by (simp, simp add: sample_simps suffix_def)
  from journal_record_atomic [OF run paths suf(1) suf(2), of "\<lambda>_. None"] show ?thesis by simp
qed

lemma rollback_sequence_cleans_witness:
  "\<not> RequiresRecovery (fst (snd (run_state
      (do { begun \<leftarrow> BeginRollback happy_env; stopped \<leftarrow> State_Monad.return [];
            if begun \<noteq> [] then State_Monad.return begun
            else if stopped \<noteq> [] then State_Monad.return stopped
            else do { network \<leftarrow> RestoreNetworkState happy_env;
                      if network \<noteq> [] then State_Monad.return network else CompleteRollback happy_env } })
      (fst sample_marked, snd sample_marked))))"
proof -
  define m where "m = do { begun \<leftarrow> BeginRollback happy_env; stopped \<leftarrow> State_Monad.return [];
            if begun \<noteq> [] then State_Monad.return begun
            else if stopped \<noteq> [] then State_Monad.return stopped
            else do { network \<leftarrow> RestoreNetworkState happy_env;
                      if network \<noteq> [] then State_Monad.return network else CompleteRollback happy_env } }"
  have inv: "rec_inv (\<lambda>_. None) False (AppendPath ''C:'' kJournalName) (fst sample_marked, snd sample_marked)"
    using journal_reach_inv [OF sample_reach(2)] by simp
  obtain r' t' where run: "run_state m (fst sample_marked, snd sample_marked) = ([], (r', t'))"
    by (simp add: m_def BeginRollback_def RestoreNetworkState_def CompleteRollback_def FinishRecovery_def sample_simps)
  have idle: "triple (rec_inv (\<lambda>_. None) False (AppendPath ''C:'' kJournalName)) (State_Monad.return [])
      (\<lambda>_. rec_inv (\<lambda>_. None) False (AppendPath ''C:'' kJournalName))"
    by (rule triple_return)
  from rollback_sequence_cleans [OF inv idle run [unfolded m_def]] run
  show ?thesis unfolding m_def by simp
qed

end
