(* ===== verification/Probe_Target.thy ===== *)
theory Probe_Target
  imports Local_Dpi_Json Recovery_Laws
begin

text \<open>
  \<^verbatim>\<open>ReadWindowsSmartAccessProbeTarget\<close> of \<^verbatim>\<open>service_local_dpi_json.cpp\<close>: what a profile demands
  as proof of egress.  \<^term>\<open>None\<close> stands for the ordinary VPN verifier, an empty target for a
  profile that must fail closed, and any other target for the tag of a Smart Access outbound.
\<close>

section \<open>Rules\<close>

abbreviation (input) api_host :: string where "api_host \<equiv> ''api.pokrov.space''"
abbreviation (input) app_host :: string where "app_host \<equiv> ''app.pokrov.space''"

definition DirectDoh :: "env \<Rightarrow> json_object \<Rightarrow> string \<Rightarrow> bool" where
  "DirectDoh e server direct =
     (let detour = StringField server ''detour'';
          tls = ObjectField server ''tls'';
          kind = StringField server ''type''
      in if detour \<noteq> [] \<and> detour \<noteq> direct then False
         else if (case tls of None \<Rightarrow> False | Some t \<Rightarrow> GetNamedBoolean t ''insecure'' = Some True) then False
         else if kind = ''https'' then
           (let path = StringField server ''path''
            in StringField server ''server'' \<noteq> [] \<and>
               (case GetNamedNumber server ''server_port'' of None \<Rightarrow> True | Some port \<Rightarrow> port = Integral 443) \<and>
               (path = [] \<or> path = ''/dns-query''))
         else if (kind \<noteq> [] \<and> kind \<noteq> ''legacy'') \<or> detour \<noteq> direct then False
         else if StringField server ''address'' = [] \<or> \<not> lib_utf8 e (StringField server ''address'') then False
         else case lib_crack_url e (StringField server ''address'') of
           None \<Rightarrow> False
         | Some parts \<Rightarrow> url_https parts \<and> url_port parts = 443 \<and> 0 < url_host_length parts \<and>
             url_user_length parts = 0 \<and> url_password_length parts = 0 \<and> url_extra_length parts = 0 \<and>
             url_path parts = ''/dns-query'')"

definition owned :: "json_object \<Rightarrow> bool" where
  "owned rule \<longleftrightarrow> list_ex (\<lambda>field. case Strings (ArrayField rule field) of
       None \<Rightarrow> False | Some values \<Rightarrow> list_ex (\<lambda>v. v = api_host \<or> v = app_host) values)
     [''domain'', ''domain_suffix'']"

definition exact_owned :: "json_object \<Rightarrow> bool" where
  "exact_owned rule \<longleftrightarrow>
     Strings (ArrayField rule ''domain'') = Some [api_host] \<or>
     Strings (ArrayField rule ''domain'') = Some [api_host, app_host]"

definition service_api_only :: "json_object \<Rightarrow> bool" where
  "service_api_only rule \<longleftrightarrow>
     Fields (Some rule) 6 \<and> Strings (ArrayField rule ''domain'') = Some [api_host] \<and>
     Strings (ArrayField rule ''process_name'') = Some [''pokrov_service.exe''] \<and>
     StringField rule ''network'' = ''tcp'' \<and> SingleNumber rule ''port'' 443 \<and>
     StringField rule ''action'' = ''route'' \<and> StringField rule ''outbound'' \<noteq> []"

text \<open>The exact boundary: one route and one DNS rule that send the owned hosts through one VPN outbound.\<close>

definition protected_boundary ::
  "json_object \<Rightarrow> json_object list \<Rightarrow> json_object list \<Rightarrow> string \<Rightarrow> json_object \<Rightarrow> json_object \<Rightarrow> bool" where
  "protected_boundary profile outbounds servers final_tag rr dr =
     (let tag = StringField rr ''outbound'';
          resolver = Tagged servers (StringField dr ''server'');
          target = Tagged outbounds tag;
          endpoint = Tagged (Rows (ArrayField profile ''endpoints'')) tag;
          kind = (case target of Some t \<Rightarrow> StringField t ''type''
                  | None \<Rightarrow> (case endpoint of Some p \<Rightarrow> StringField p ''type'' | None \<Rightarrow> []));
          protected_proxy = (kind \<noteq> [] \<and>
            (endpoint \<noteq> None \<or>
             (kind \<noteq> ''direct'' \<and> kind \<noteq> ''block'' \<and> kind \<noteq> ''dns'' \<and> kind \<noteq> ''pokrov-smart-access'')))
      in Fields (Some rr) 5 \<and> exact_owned rr \<and> StringField rr ''network'' = ''tcp'' \<and>
         SingleNumber rr ''port'' 443 \<and> StringField rr ''action'' = ''route'' \<and> tag \<noteq> final_tag \<and> protected_proxy \<and>
         Fields (Some dr) 5 \<and> Strings (ArrayField dr ''domain'') = Strings (ArrayField rr ''domain'') \<and>
         StringField dr ''action'' = ''route'' \<and> GetNamedBoolean dr ''disable_cache'' = Some True \<and>
         Number dr ''rewrite_ttl'' 0 \<and>
         (case resolver of None \<Rightarrow> False | Some r \<Rightarrow> StringField r ''detour'' = tag))"

section \<open>Smart Access leases\<close>

definition lease_id :: "string \<Rightarrow> bool" where
  "lease_id v \<longleftrightarrow> length v = 32 \<and>
     list_all (\<lambda>c. (CHR ''0'' \<le> c \<and> c \<le> CHR ''9'') \<or> (CHR ''a'' \<le> c \<and> c \<le> CHR ''f'')) v"

text \<open>The key, the name, the catalog window and its group of a route rule that may carry a lease.\<close>

definition lease_route :: "json_object \<Rightarrow> (string \<times> string \<times> json_object \<times> string list) option" where
  "lease_route rule =
     (let key = (if ArrayField rule ''domain'' \<noteq> None then ''domain'' else ''domain_suffix'')
      in case (Strings (ArrayField rule key), ObjectField rule ''pokrov_catalog_window'') of
           (Some [name], Some window) \<Rightarrow>
             if \<not> Fields (Some rule) 7 \<or> \<not> Fields (Some window) 5 \<or> StringField rule ''network'' \<noteq> ''tcp'' \<or>
                StringField rule ''action'' \<noteq> ''route'' \<or> \<not> SingleNumber rule ''port'' 443 \<or>
                \<not> Number rule ''ip_version'' 4 then None
             else
               (let lease = StringField window ''lease_id''
                in case Strings (ArrayField window ''lease_group'') of
                     None \<Rightarrow> None
                   | Some members \<Rightarrow>
                       if \<not> lease_id lease \<or> members = [] \<or> 16 < length members \<or> hd members \<noteq> lease \<or>
                          \<not> distinct members \<or> \<not> list_all lease_id members \<or> StringField window ''service_id'' = [] \<or>
                          StringField window ''issued_at'' = [] \<or> StringField window ''expires_at'' = [] then None
                       else Some (key, name, window, members))
         | _ \<Rightarrow> None)"

definition lease_outbound :: "json_object list \<Rightarrow> json_object \<Rightarrow> string \<Rightarrow> string \<Rightarrow> string \<Rightarrow> bool" where
  "lease_outbound outbounds rule key name lease =
     (let tag = ''pokrov-smart-access-'' @ lease
      in case Tagged outbounds tag of
           None \<Rightarrow> False
         | Some outbound \<Rightarrow>
             StringField rule ''outbound'' = tag \<and> StringField outbound ''type'' = ''pokrov-smart-access'' \<and>
             StringField outbound ''lease_id'' = lease \<and>
             (case Strings (ArrayField outbound ''relay_addresses'') of None \<Rightarrow> False | Some relays \<Rightarrow> relays \<noteq> []) \<and>
             list_ex (\<lambda>domain. Fields (Some domain) 2 \<and> StringField domain ''name'' = name \<and>
               StringField domain ''match'' = (if key = ''domain'' then ''exact'' else ''suffix''))
               (Rows (ArrayField outbound ''domains'')))"

definition lease_dns_rule :: "json_object \<Rightarrow> string \<Rightarrow> string \<Rightarrow> json_object \<Rightarrow> string list \<Rightarrow> string \<Rightarrow> bool" where
  "lease_dns_rule dns_rule key name window members lease \<longleftrightarrow>
     (Fields (Some dns_rule) 7 \<or> (Fields (Some dns_rule) 8 \<and> StringField dns_rule ''strategy'' = ''ipv4_only'')) \<and>
     Strings (ArrayField dns_rule key) = Some [name] \<and>
     Strings (ArrayField dns_rule ''query_type'') = Some [''A'', ''AAAA'', ''HTTPS'', ''SVCB''] \<and>
     (case ObjectField dns_rule ''pokrov_catalog_window'' of
        None \<Rightarrow> False
      | Some dns_window \<Rightarrow>
          Fields (Some dns_window) 5 \<and> Strings (ArrayField dns_window ''lease_group'') = Some members \<and>
          StringField dns_window ''lease_id'' = lease \<and>
          StringField dns_window ''service_id'' = StringField window ''service_id'' \<and>
          StringField dns_window ''issued_at'' = StringField window ''issued_at'' \<and>
          StringField dns_window ''expires_at'' = StringField window ''expires_at'') \<and>
     StringField dns_rule ''action'' = ''route'' \<and>
     StringField dns_rule ''server'' = ''pokrov-smart-access-dns-'' @ lease \<and>
     GetNamedBoolean dns_rule ''disable_cache'' = Some True \<and> Number dns_rule ''rewrite_ttl'' 0"

text \<open>The loop over the routes: the tag of the first one whose lease is bound end to end.\<close>

fun find_lease :: "env \<Rightarrow> json_object list \<Rightarrow> json_object list \<Rightarrow> json_object list \<Rightarrow> string \<Rightarrow> json_object list \<Rightarrow> string" where
  "find_lease e outbounds servers dns_rules final_tag [] = []"
| "find_lease e outbounds servers dns_rules final_tag (rule # rest) =
     (case lease_route rule of
        None \<Rightarrow> find_lease e outbounds servers dns_rules final_tag rest
      | Some (key, name, window, members) \<Rightarrow>
          (let lease = StringField window ''lease_id''
           in if \<not> lease_outbound outbounds rule key name lease then find_lease e outbounds servers dns_rules final_tag rest
              else case Tagged servers (''pokrov-smart-access-dns-'' @ lease) of
                None \<Rightarrow> find_lease e outbounds servers dns_rules final_tag rest
              | Some resolver \<Rightarrow>
                  if \<not> DirectDoh e resolver final_tag then find_lease e outbounds servers dns_rules final_tag rest
                  else if list_ex (\<lambda>dns_rule. lease_dns_rule dns_rule key name window members lease) dns_rules
                  then ''pokrov-smart-access-'' @ lease
                  else find_lease e outbounds servers dns_rules final_tag rest))"

section \<open>The target\<close>

text \<open>The part for a profile whose final outbound is direct.\<close>

definition direct_target :: "env \<Rightarrow> json_object \<Rightarrow> json_object \<Rightarrow> json_object list \<Rightarrow> string \<Rightarrow> json_object \<Rightarrow> bool \<Rightarrow>
    string option \<times> EgressProbeReserve" where
  "direct_target e profile route outbounds final_tag direct first_provider_qa =
     (if StringField direct ''detour'' \<noteq> [] then (Some [], kNone_reserve)
      else case ObjectField profile ''dns'' of
        None \<Rightarrow> (Some [], kNone_reserve)
      | Some dns \<Rightarrow>
          (let routes = Rows (ArrayField route ''rules'');
               dns_rules = Rows (ArrayField dns ''rules'');
               servers = Rows (ArrayField dns ''servers'');
               owned_routes = filter owned routes;
               owned_dns = filter owned dns_rules;
               has_smart_access = list_ex (\<lambda>row. StringField row ''type'' = ''pokrov-smart-access'') outbounds;
               smart = (if \<not> has_smart_access then [] else find_lease e outbounds servers dns_rules final_tag routes)
           in if owned_routes \<noteq> [] \<or> owned_dns \<noteq> [] then
                (case (owned_routes, owned_dns) of
                   ([rr], [dr]) \<Rightarrow>
                     if \<not> protected_boundary profile outbounds servers final_tag rr dr then (Some [], kNone_reserve)
                     else
                       (let reserve = (if Strings (ArrayField rr ''domain'') = Some [api_host, app_host]
                                       then kApi else kNone_reserve)
                        in if \<not> first_provider_qa then (None, reserve) else (Some smart, reserve))
                 | _ \<Rightarrow> (Some [], kNone_reserve))
              else if first_provider_qa then (Some [], kNone_reserve)
              else (Some smart, kNone_reserve)))"

definition ReadWindowsSmartAccessProbeTarget :: "env \<Rightarrow> string \<Rightarrow> bool \<Rightarrow> string option \<times> EgressProbeReserve" where
  "ReadWindowsSmartAccessProbeTarget e encoded first_provider_qa =
     (case ParseObject e encoded of
        None \<Rightarrow> (Some [], kStatic)
      | Some profile \<Rightarrow>
          (let route = ObjectField profile ''route'';
               outbounds = Rows (ArrayField profile ''outbounds'');
               final_tag = (case route of None \<Rightarrow> [] | Some r \<Rightarrow> StringField r ''final'')
           in if final_tag = [] then (None, kStatic)
              else case (Tagged outbounds final_tag, route) of
                (Some direct, Some r) \<Rightarrow>
                  if StringField direct ''type'' \<noteq> ''direct''
                  then (None, if list_ex service_api_only (Rows (ArrayField r ''rules'')) then kNone_reserve else kStatic)
                  else direct_target e profile r outbounds final_tag direct first_provider_qa
              | (_, Some r) \<Rightarrow>
                  (None, if list_ex service_api_only (Rows (ArrayField r ''rules'')) then kNone_reserve else kStatic)
              | _ \<Rightarrow> (None, kStatic)))"

section \<open>What a target guarantees\<close>

text \<open>A tag names an outbound of the Smart Access type that a route with a valid lease uses.\<close>

definition lease_bound :: "json_object list \<Rightarrow> json_object list \<Rightarrow> string \<Rightarrow> bool" where
  "lease_bound outbounds routes tag \<longleftrightarrow>
     (\<exists>lease outbound. \<exists>rule \<in> set routes. tag = ''pokrov-smart-access-'' @ lease \<and> lease_id lease \<and>
        Tagged outbounds tag = Some outbound \<and> StringField outbound ''type'' = ''pokrov-smart-access'' \<and>
        StringField outbound ''lease_id'' = lease \<and> StringField rule ''outbound'' = tag)"

lemma lease_route_lease: "lease_route rule = Some (key, name, window, members) \<Longrightarrow> lease_id (StringField window ''lease_id'')"
  by (auto simp: lease_route_def Let_def split: option.splits list.splits if_splits)

lemma lease_outbound_bound:
  assumes "lease_outbound outbounds rule key name lease" and "rule \<in> set routes" and "lease_id lease"
  shows "lease_bound outbounds routes (''pokrov-smart-access-'' @ lease)"
proof -
  from assms(1) obtain outbound where "Tagged outbounds (''pokrov-smart-access-'' @ lease) = Some outbound"
    "StringField rule ''outbound'' = ''pokrov-smart-access-'' @ lease"
    "StringField outbound ''type'' = ''pokrov-smart-access''" "StringField outbound ''lease_id'' = lease"
    by (auto simp: lease_outbound_def Let_def split: option.splits)
  with assms(2,3) show ?thesis unfolding lease_bound_def by blast
qed

lemma find_lease_bound:
  "find_lease e outbounds servers dns_rules final_tag routes = [] \<or>
   lease_bound outbounds routes (find_lease e outbounds servers dns_rules final_tag routes)"
proof (induction routes)
  case (Cons rule routes)
  have mono: "lease_bound outbounds routes t \<Longrightarrow> lease_bound outbounds (rule # routes) t" for t
    by (auto simp: lease_bound_def)
  show ?case
  proof (cases "find_lease e outbounds servers dns_rules final_tag (rule # routes) =
      find_lease e outbounds servers dns_rules final_tag routes")
    case True
    with Cons mono show ?thesis by metis
  next
    case False
    then obtain key name window members where l: "lease_route rule = Some (key, name, window, members)"
      and o: "lease_outbound outbounds rule key name (StringField window ''lease_id'')"
      and t: "find_lease e outbounds servers dns_rules final_tag (rule # routes) =
        ''pokrov-smart-access-'' @ StringField window ''lease_id''"
      by (auto simp: Let_def split: option.splits prod.splits if_splits)
    from lease_outbound_bound [OF o _ lease_route_lease [OF l], of "rule # routes"] t show ?thesis by simp
  qed
qed simp

lemma single_pair:
  "(\<And>rr dr. R = [rr] \<Longrightarrow> D = [dr] \<Longrightarrow> P (A rr dr)) \<Longrightarrow> P B \<Longrightarrow>
   P (case (R, D) of ([rr], [dr]) \<Rightarrow> A rr dr | _ \<Rightarrow> B)"
  by (cases R; cases D) (auto split: list.splits)


section \<open>Observations\<close>

lemma count_field_bound: "count_field ob name = Some n \<Longrightarrow> uint n \<le> kMaximumCount"
  by (auto simp: count_field_def kMaximumCount_def uint_word_of_int split: option.splits json_number.splits if_splits)

text \<open>
  An accepted holder observation is consistent: its state is one of the four of the
  protocol, a completed withdrawal only comes with the withdrawn state, a failed holder never
  carries the reason \<open>none\<close>, a holder that is ready or unpublished carries no other, and its
  counters stay within the integers that a double represents exactly.
\<close>

lemma holder_observation_consistent:
  assumes "ReadWindowsLocalDpiHolderObservation e encoded = Some ob"
  shows "ho_state ob \<in> {''unpublished'', ''ready'', ''failed'', ''withdrawn''} \<and>
    (ho_withdraw_completed ob \<longrightarrow> ho_state ob = ''withdrawn'') \<and>
    (ho_state ob = ''failed'' \<longrightarrow> ho_failure_reason ob \<noteq> ''none'') \<and>
    (ho_state ob = ''ready'' \<or> ho_state ob = ''unpublished'' \<longrightarrow> ho_failure_reason ob \<in> {[], ''none''}) \<and>
    uint (ho_local_handoffs ob) \<le> kMaximumCount \<and> uint (ho_vpn_handoffs ob) \<le> kMaximumCount \<and>
    uint (ho_quic_rejected ob) \<le> kMaximumCount"
proof -
  obtain kvs where parsed: "ParseObject e encoded = Some kvs"
    using assms by (auto simp: ReadWindowsLocalDpiHolderObservation_def split: option.splits if_splits)
  define n where "n = length kvs"
  note accepted = assms [unfolded ReadWindowsLocalDpiHolderObservation_def Let_def parsed option.case n_def [symmetric]]
  have state: "ho_state ob \<in> {''unpublished'', ''ready'', ''failed'', ''withdrawn''}"
    and completed: "ho_withdraw_completed ob \<longrightarrow> ho_state ob = ''withdrawn''"
    and reason: "failure_reason_of kvs n (ho_state ob) = Some (ho_failure_reason ob)"
    and counts: "count_field kvs ''local_handoffs'' = Some (ho_local_handoffs ob)"
      "count_field kvs ''vpn_handoffs'' = Some (ho_vpn_handoffs ob)"
      "count_field kvs ''quic_rejected'' = Some (ho_quic_rejected ob) \<or> ho_quic_rejected ob = 0"
    using accepted by (auto split: option.splits if_splits)
  have "(ho_state ob = ''failed'' \<longrightarrow> ho_failure_reason ob \<noteq> ''none'') \<and>
      (ho_state ob = ''ready'' \<or> ho_state ob = ''unpublished'' \<longrightarrow> ho_failure_reason ob \<in> {[], ''none''})"
    using reason by (auto simp: failure_reason_of_def Let_def split: if_splits)
  moreover have "uint (ho_quic_rejected ob) \<le> kMaximumCount"
    using counts(3) count_field_bound by (auto simp: kMaximumCount_def)
  ultimately show ?thesis using state completed counts(1,2) count_field_bound by blast
qed

section \<open>Witnesses\<close>

definition direct_profile :: json_object where
  "direct_profile = [(''route'', JObject [(''final'', JString ''direct'')]),
     (''outbounds'', JArray [JObject [(''tag'', JString ''direct''), (''type'', JString ''direct'')]])]"

definition direct_env :: env where
  "direct_env = happy_env\<lparr>lib_json := (\<lambda>_. Some (JObject direct_profile))\<rparr>"


definition observation_env :: env where
  "observation_env = happy_env\<lparr>lib_json := (\<lambda>_. Some (JObject [(''state'', JString ''ready''),
     (''withdraw_completed'', JBool False), (''local_handoffs'', JNumber (Integral 7)),
     (''vpn_handoffs'', JNumber (Integral 2))]))\<rparr>"

lemma holder_observation_consistent_witness:
  "\<exists>ob. ReadWindowsLocalDpiHolderObservation observation_env ''{}'' = Some ob \<and> ho_state ob = ''ready'' \<and>
     uint (ho_local_handoffs ob) \<le> kMaximumCount"
proof -
  obtain ob where ob: "ReadWindowsLocalDpiHolderObservation observation_env ''{}'' = Some ob" "ho_state ob = ''ready''"
    by (simp add: ReadWindowsLocalDpiHolderObservation_def ParseObject_def observation_env_def happy_env_def Let_def
        StringField_def GetNamedBoolean_def count_field_def GetNamedNumber_def failure_reason_of_def kMaximumCount_def)
  from holder_observation_consistent [OF ob(1)] ob show ?thesis by blast
qed

end
