(* ===== verification/Boot_Clock.thy ===== *)
theory Boot_Clock
  imports World
begin

text \<open>
  \<^verbatim>\<open>service_boot_clock.cpp\<close>: the boot reference kept in a volatile registry key, the monotonic
  clock of the current boot, and the deadlines of connects and transport leases on it.  The
  registry, the interrupt time and the random generator are operations of the boundary; the
  calendar conversions are functions of the operating system.
\<close>

record BootClockSnapshot =
  clock_boot_ref :: string
  clock_elapsed_ms :: u64

definition ERROR_FILE_NOT_FOUND :: u32 where "ERROR_FILE_NOT_FOUND = 2"
definition REG_SZ :: u32 where "REG_SZ = 1"

definition kMaximumElapsed :: u64 where "kMaximumElapsed = 9007199254740991"

text \<open>What the registry answers, or what was just written, as a status, a type and the bytes.\<close>

definition boot_ref_value :: "env \<Rightarrow> ('c, (u32 \<times> u32 \<times> string) option) action" where
  "boot_ref_value e = do {
     (status, kind, value) \<leftarrow> ask (env_value e) AValue (ClockIo QueryBootRef);
     if status = ERROR_FILE_NOT_FOUND then do {
       random \<leftarrow> ask (env_bytes e) ABytes GenRandom;
       case random of
         None \<Rightarrow> State_Monad.return None
       | Some bytes \<Rightarrow> do {
           let fresh = hex_string (take 16 bytes) @ [nul];
           status \<leftarrow> ask_code e (ClockIo (SetBootRef fresh));
           State_Monad.return (Some (status, REG_SZ, fresh))
         }
     }
     else State_Monad.return (Some (status, kind, value))
   }"

definition BootReference :: "env \<Rightarrow> ('c, string option) action" where
  "BootReference e = do {
     described \<leftarrow> ask_bool e (ClockIo ConvertClockSddl);
     if \<not> described then State_Monad.return None
     else do {
       opened \<leftarrow> ask_code e (ClockIo CreateClockKey);
       if opened \<noteq> ERROR_SUCCESS then State_Monad.return None
       else do {
         read \<leftarrow> boot_ref_value e;
         tell (ClockIo CloseClockKey);
         State_Monad.return (case read of
           None \<Rightarrow> None
         | Some (status, kind, value) \<Rightarrow>
             if status \<noteq> ERROR_SUCCESS \<or> kind \<noteq> REG_SZ \<or> length value \<noteq> 33 \<or> value ! 32 \<noteq> nul then None
             else if \<not> list_all (\<lambda>c. c \<in> set hex_digits) (take 32 value) then None
             else Some (take 32 value))
       }
     }
   }"

definition ReadBootClock :: "env \<Rightarrow> ('c, BootClockSnapshot option) action" where
  "ReadBootClock e = do {
     query \<leftarrow> ask_bool e (ClockIo QueryTimeExport);
     if \<not> query then State_Monad.return None
     else do {
       boot \<leftarrow> BootReference e;
       case boot of
         None \<Rightarrow> State_Monad.return None
       | Some reference \<Rightarrow> do {
           ticks \<leftarrow> ask_u64 e (ClockIo InterruptTime);
           let millis = ticks div 10000;
           State_Monad.return (if kMaximumElapsed < millis then None
             else Some \<lparr>clock_boot_ref = ''windows:'' @ reference, clock_elapsed_ms = millis\<rparr>)
         }
     }
   }"

definition ReadBootClockJson :: "env \<Rightarrow> ('c, string option) action" where
  "ReadBootClockJson e = do {
     clock \<leftarrow> ReadBootClock e;
     State_Monad.return (map_option (\<lambda>c.
       ''{'' @ dquote @ ''schema'' @ dquote @ '':1,'' @ dquote @ ''boot_ref'' @ dquote @ '':'' @ dquote @ clock_boot_ref c @
       dquote @ '','' @ dquote @ ''elapsed_ms'' @ dquote @ '':'' @ to_string (unat (clock_elapsed_ms c)) @
       '','' @ dquote @ ''quantum_ms'' @ dquote @ '':1}'') clock)
   }"

definition IsConnectDeadlineCurrent :: "env \<Rightarrow> BoundConnectTarget \<Rightarrow> ('c, bool) action" where
  "IsConnectDeadlineCurrent e target = do {
     clock \<leftarrow> ReadBootClock e;
     State_Monad.return (case clock of
       None \<Rightarrow> False
     | Some c \<Rightarrow> clock_boot_ref c = bc_boot_ref target \<and>
         bc_started_elapsed_ms target \<le> clock_elapsed_ms c \<and> clock_elapsed_ms c < bc_deadline_elapsed_ms target)
   }"

section \<open>Calendar time\<close>

definition two_digits :: "string \<Rightarrow> nat \<Rightarrow> nat" where
  "two_digits v start = digit_value (v ! start) * 10 + digit_value (v ! (start + 1))"

definition TimestampTicks :: "env \<Rightarrow> string \<Rightarrow> u64 option" where
  "TimestampTicks e v =
     (if length v \<noteq> 20 \<or> v ! 4 \<noteq> CHR ''-'' \<or> v ! 7 \<noteq> CHR ''-'' \<or> v ! 10 \<noteq> CHR ''T'' \<or>
         v ! 13 \<noteq> CHR '':'' \<or> v ! 16 \<noteq> CHR '':'' \<or> v ! 19 \<noteq> CHR ''Z'' then None
      else if list_ex (\<lambda>i. i \<notin> {4, 7, 10, 13, 16} \<and> \<not> is_digit (v ! i)) [0..<19] then None
      else
        (let utc = [two_digits v 0 * 100 + two_digits v 2, two_digits v 5, two_digits v 8,
                    two_digits v 11, two_digits v 14, two_digits v 17]
         in case lib_filetime e utc of
              None \<Rightarrow> None
            | Some encoded \<Rightarrow> if lib_systemtime e encoded = Some utc then Some encoded else None))"

definition ActiveTransportLeaseDeadline :: "env \<Rightarrow> TransportLeasePromotion \<Rightarrow> ('c, u64 option) action" where
  "ActiveTransportLeaseDeadline e target =
     (case (TimestampTicks e (tp_issued_at target), TimestampTicks e (tp_new_flows_until target),
            TimestampTicks e (tp_active_flows_until target)) of
        (Some issued, Some new_until, Some active_until) \<Rightarrow> do {
          now \<leftarrow> ask_u64 e UtcTicks;
          let minute = 60 * 10000000;
          if now < issued \<or> new_until \<le> now \<or> new_until \<le> issued \<or> active_until < new_until \<or>
             10 * minute < new_until - issued \<or> 60 * minute < active_until - issued
          then State_Monad.return None
          else do {
            clock \<leftarrow> ReadBootClock e;
            State_Monad.return (case clock of
              None \<Rightarrow> None
            | Some c \<Rightarrow>
                if active_until \<le> now then None
                else (let remaining = (active_until - now) div 10000
                      in if remaining = 0 \<or> 3600000 < remaining \<or> kMaximumElapsed - remaining < clock_elapsed_ms c then None
                         else Some (clock_elapsed_ms c + remaining)))
          }
        }
      | _ \<Rightarrow> State_Monad.return None)"

definition IsActiveTransportLeaseCurrent :: "env \<Rightarrow> BoundConnectTarget \<Rightarrow> u64 \<Rightarrow> ('c, bool) action" where
  "IsActiveTransportLeaseCurrent e connect deadline_elapsed_ms = do {
     clock \<leftarrow> ReadBootClock e;
     State_Monad.return (case clock of
       None \<Rightarrow> False
     | Some c \<Rightarrow> clock_boot_ref c = bc_boot_ref connect \<and> clock_elapsed_ms c < deadline_elapsed_ms)
   }"

end
