(* ===== verification/Transition_Guard.thy ===== *)
theory Transition_Guard
  imports World
begin

text \<open>
  \<^verbatim>\<open>service_transition_guard.cpp\<close>: the persistent firewall block that covers the time between
  two runs of Core.  \<^verbatim>\<open>FilterDefinitions\<close> builds the eight filters of the guard,
  \<^verbatim>\<open>WindowsGuardBackend\<close> reads, installs and removes them in transactions of the filtering
  platform, and \<^verbatim>\<open>Guard\<close> keeps the state that the runtime sees.
\<close>

section \<open>Definitions of the filters\<close>

definition kSubLayer :: GUID where
  "kSubLayer = Guid 0x541c71c5 0x2ab4 0x49b7 [0xa1, 0xa3, 0x56, 0x4f, 0xc8, 0x5c, 0xef, 0x31]"

definition kFilterBase :: "u32 \<Rightarrow> GUID" where
  "kFilterBase offset = Guid (0x0a06bf20 + offset) 0xc38a 0x4e21 [0x94, 0xc6, 0x30, 0x06, 0xa8, 0x92, 0x5d, 0x10]"

definition kFilterCount :: nat where "kFilterCount = 8"
definition kSubLayerWeight :: u16 where "kSubLayerWeight = 0xfffe"

definition kLayers :: "GUID list" where
  "kLayers = [SdkGuid ''FWPM_LAYER_ALE_AUTH_CONNECT_V4'', SdkGuid ''FWPM_LAYER_ALE_AUTH_CONNECT_V6'',
     SdkGuid ''FWPM_LAYER_ALE_AUTH_RECV_ACCEPT_V4'', SdkGuid ''FWPM_LAYER_ALE_AUTH_RECV_ACCEPT_V6'']"

definition FilterKey :: "nat \<Rightarrow> GUID" where
  "FilterKey index = kFilterBase (of_nat index)"

definition SameBlob :: "u8 list option \<Rightarrow> u8 list option \<Rightarrow> bool" where
  "SameBlob a b = (case (a, b) of (Some x, Some y) \<Rightarrow> x = y | _ \<Rightarrow> False)"

text \<open>The identity that \<^verbatim>\<open>Initialize\<close> reads: the executable and the LocalSystem descriptor.\<close>

record FilterDefinitions =
  fd_app :: "u8 list option"
  fd_system :: "u8 list option"

definition guard_conditions :: "FilterDefinitions \<Rightarrow> FWPM_FILTER_CONDITION0 list" where
  "guard_conditions defs =
     [\<lparr>fc_fieldKey = SdkGuid ''FWPM_CONDITION_ALE_APP_ID'', fc_matchType = FWP_MATCH_EQUAL,
       fc_value = FWP_BYTE_BLOB_TYPE (fd_app defs)\<rparr>,
      \<lparr>fc_fieldKey = SdkGuid ''FWPM_CONDITION_ALE_USER_ID'', fc_matchType = FWP_MATCH_EQUAL,
       fc_value = FWP_SECURITY_DESCRIPTOR_TYPE (fd_system defs)\<rparr>]"

definition InitializeDefinitions :: "env \<Rightarrow> ('c, (string \<times> u32) + FilterDefinitions) action" where
  "InitializeDefinitions e = do {
     n \<leftarrow> ask_int e (WfpIo ModuleFileName);
     if n = 0 then do {
       code \<leftarrow> ask_code e (WfpIo GetLastError);
       State_Monad.return (Inl (''transition_guard_identity_failed'', code))
     }
     else if 32768 \<le> n
     then State_Monad.return (Inl (''transition_guard_identity_failed'', ERROR_INSUFFICIENT_BUFFER))
     else do {
       app_error \<leftarrow> ask_code e (WfpIo GetAppId);
       if app_error \<noteq> ERROR_SUCCESS
       then State_Monad.return (Inl (''transition_guard_identity_failed'', app_error))
       else do {
         app \<leftarrow> ask (env_bytes e) ABytes (WfpIo AppIdBlob);
         converted \<leftarrow> ask_bool e (WfpIo ConvertGuardSddl);
         if \<not> converted then do {
           code \<leftarrow> ask_code e (WfpIo GetLastError);
           State_Monad.return (Inl (''transition_guard_identity_failed'', code))
         }
         else do {
           system \<leftarrow> ask (env_bytes e) ABytes (WfpIo SystemDescriptor);
           State_Monad.return (Inr \<lparr>fd_app = app, fd_system = system\<rparr>)
         }
       }
     }
   }"

definition At :: "FilterDefinitions \<Rightarrow> nat \<Rightarrow> FWPM_FILTER0" where
  "At defs index =
     (let permit = (index mod 2 = 0)
      in \<lparr>fi_filterKey = FilterKey index, fi_flags = FWPM_FILTER_FLAG_PERSISTENT, fi_providerKey = None,
          fi_layerKey = kLayers ! (index div 2), fi_subLayerKey = kSubLayer,
          fi_weight = FWP_UINT64 (Some (if permit then 2 else 1)),
          fi_action = (if permit then FWP_ACTION_PERMIT else FWP_ACTION_BLOCK),
          fi_conditions = (if permit then guard_conditions defs else [])\<rparr>)"

text \<open>The permit for one held control socket of the local DPI proof.\<close>

record ControlEndpoints =
  ep_local_address :: u32
  ep_local_port :: u16
  ep_remote_address :: u32
  ep_remote_port :: u16

definition equal_condition :: "string \<Rightarrow> FWP_VALUE \<Rightarrow> FWPM_FILTER_CONDITION0" where
  "equal_condition key v = \<lparr>fc_fieldKey = SdkGuid key, fc_matchType = FWP_MATCH_EQUAL, fc_value = v\<rparr>"

definition LocalDpiControlFilter :: "ControlEndpoints \<Rightarrow> u64 \<Rightarrow> GUID \<Rightarrow> FWPM_FILTER0" where
  "LocalDpiControlFilter ep luid sublayer =
     \<lparr>fi_filterKey = Guid 0 0 0 [0, 0, 0, 0, 0, 0, 0, 0], fi_flags = 0, fi_providerKey = None,
      fi_layerKey = SdkGuid ''FWPM_LAYER_ALE_AUTH_CONNECT_V4'', fi_subLayerKey = sublayer,
      fi_weight = FWP_UINT64 (Some 3), fi_action = FWP_ACTION_PERMIT,
      fi_conditions =
        [equal_condition ''FWPM_CONDITION_IP_PROTOCOL'' (FWP_UINT8 6),
         equal_condition ''FWPM_CONDITION_IP_LOCAL_ADDRESS'' (FWP_UINT32 (ep_local_address ep)),
         equal_condition ''FWPM_CONDITION_IP_REMOTE_ADDRESS'' (FWP_UINT32 (ep_remote_address ep)),
         equal_condition ''FWPM_CONDITION_IP_LOCAL_PORT'' (FWP_UINT16 (ep_local_port ep)),
         equal_condition ''FWPM_CONDITION_IP_REMOTE_PORT'' (FWP_UINT16 (ep_remote_port ep)),
         equal_condition ''FWPM_CONDITION_IP_LOCAL_INTERFACE'' (FWP_UINT64 (Some luid))]\<rparr>"

section \<open>Comparing with the platform's objects\<close>

fun value_tag :: "FWP_VALUE \<Rightarrow> nat" where
  "value_tag FWP_EMPTY = 0"
| "value_tag (FWP_UINT8 _) = 1"
| "value_tag (FWP_UINT16 _) = 2"
| "value_tag (FWP_UINT32 _) = 3"
| "value_tag (FWP_UINT64 _) = 4"
| "value_tag (FWP_BYTE_BLOB_TYPE _) = 5"
| "value_tag (FWP_SECURITY_DESCRIPTOR_TYPE _) = 6"

fun value_blob :: "FWP_VALUE \<Rightarrow> u8 list option" where
  "value_blob (FWP_BYTE_BLOB_TYPE b) = b"
| "value_blob (FWP_SECURITY_DESCRIPTOR_TYPE b) = b"
| "value_blob _ = None"

fun weight_value :: "FWP_VALUE \<Rightarrow> u64 option" where
  "weight_value (FWP_UINT64 w) = w"
| "weight_value _ = None"

definition SameCondition :: "FWPM_FILTER_CONDITION0 \<Rightarrow> FWPM_FILTER_CONDITION0 \<Rightarrow> bool" where
  "SameCondition a x \<longleftrightarrow>
     fc_fieldKey a = fc_fieldKey x \<and> fc_matchType a = fc_matchType x \<and>
     value_tag (fc_value a) = value_tag (fc_value x) \<and>
     SameBlob (value_blob (fc_value a)) (value_blob (fc_value x))"

definition Matches :: "FWPM_FILTER0 \<Rightarrow> FWPM_FILTER0 \<Rightarrow> bool" where
  "Matches actual expected =
     (if fi_flags actual AND NOT FWPM_FILTER_FLAG_INDEXED \<noteq> fi_flags expected \<or>
         fi_providerKey actual \<noteq> None \<or> fi_subLayerKey actual \<noteq> fi_subLayerKey expected \<or>
         fi_layerKey actual \<noteq> fi_layerKey expected \<or> fi_action actual \<noteq> fi_action expected \<or>
         weight_value (fi_weight actual) = None \<or>
         weight_value (fi_weight actual) \<noteq> weight_value (fi_weight expected) \<or>
         length (fi_conditions actual) \<noteq> length (fi_conditions expected)
      then False
      else list_all2 SameCondition (fi_conditions actual) (fi_conditions expected))"

definition MatchesSubLayer :: "FWPM_SUBLAYER0 \<Rightarrow> bool" where
  "MatchesSubLayer actual \<longleftrightarrow>
     sl_flags actual = FWPM_SUBLAYER_FLAG_PERSISTENT \<and> sl_providerKey actual = None"

definition IsPotentialGuardOverride :: "FWPM_FILTER0 \<Rightarrow> bool" where
  "IsPotentialGuardOverride flt =
     (if fi_subLayerKey flt = kSubLayer \<or> fi_flags flt AND FWPM_FILTER_FLAG_DISABLED \<noteq> 0 then False
      else if fi_layerKey flt \<notin> set kLayers then False
      else (fi_action flt = FWP_ACTION_PERMIT \<and>
            fi_flags flt AND FWPM_FILTER_FLAG_CLEAR_ACTION_RIGHT \<noteq> 0) \<or>
           fi_action flt = FWP_ACTION_CALLOUT_TERMINATING \<or>
           fi_action flt = FWP_ACTION_CALLOUT_UNKNOWN)"

definition IsGuardServicePermit :: "FWPM_FILTER0 \<Rightarrow> FWPM_FILTER0 \<Rightarrow> bool" where
  "IsGuardServicePermit flt permit =
     (if fi_action flt \<noteq> FWP_ACTION_PERMIT \<or>
         length (fi_conditions flt) \<noteq> length (fi_conditions permit) then False
      else list_all (\<lambda>expected. list_ex (\<lambda>actual. SameCondition actual expected) (fi_conditions flt))
             (fi_conditions permit))"

definition CanOverrideGuard :: "FWPM_FILTER0 \<Rightarrow> u16 \<Rightarrow> u16 \<Rightarrow> FWPM_FILTER0 \<Rightarrow> bool" where
  "CanOverrideGuard flt sublayer_weight guard_weight service_permit \<longleftrightarrow>
     guard_weight \<le> sublayer_weight \<and> IsPotentialGuardOverride flt \<and>
     \<not> IsGuardServicePermit flt service_permit"

text \<open>The filters of one page, until a conflict or a failure: the result code and the conflict.\<close>

fun scan_filters :: "env \<Rightarrow> u16 \<Rightarrow> FWPM_FILTER0 \<Rightarrow> FWPM_FILTER0 list \<Rightarrow> ('c, u32 \<times> bool) action" where
  "scan_filters e guard_weight permit [] = State_Monad.return (ERROR_SUCCESS, False)"
| "scan_filters e guard_weight permit (flt # rest) =
     (if \<not> IsPotentialGuardOverride flt then scan_filters e guard_weight permit rest
      else do {
        answer \<leftarrow> ask (env_sublayer e) (\<lambda>(code, s). ASubLayer code s) (WfpIo (SubLayerGetByKey (fi_subLayerKey flt)));
        if fst answer \<noteq> ERROR_SUCCESS then State_Monad.return (fst answer, False)
        else if CanOverrideGuard flt (sl_weight (snd answer)) guard_weight permit
        then State_Monad.return (ERROR_SUCCESS, True)
        else scan_filters e guard_weight permit rest
      })"

text \<open>The pages of an enumeration; an empty page or the end of the list ends it.\<close>

fun scan_pages :: "env \<Rightarrow> u16 \<Rightarrow> FWPM_FILTER0 \<Rightarrow> (u32 \<times> FWPM_FILTER0 list) list \<Rightarrow> ('c, u32 \<times> bool) action" where
  "scan_pages e guard_weight permit [] = State_Monad.return (ERROR_SUCCESS, False)"
| "scan_pages e guard_weight permit ((code, filters) # rest) =
     (if code \<noteq> ERROR_SUCCESS then State_Monad.return (code, False)
      else do {
        scanned \<leftarrow> scan_filters e guard_weight permit filters;
        if filters = [] \<or> fst scanned \<noteq> ERROR_SUCCESS \<or> snd scanned then State_Monad.return scanned
        else scan_pages e guard_weight permit rest
      })"

fun verify_layers :: "env \<Rightarrow> u16 \<Rightarrow> FWPM_FILTER0 \<Rightarrow> GUID list \<Rightarrow> ('c, u32 \<times> bool) action" where
  "verify_layers e guard_weight permit [] = State_Monad.return (ERROR_SUCCESS, True)"
| "verify_layers e guard_weight permit (layer # rest) = do {
     created \<leftarrow> ask_code e (WfpIo (FilterCreateEnum layer));
     if created \<noteq> ERROR_SUCCESS then State_Monad.return (created, False)
     else do {
       pages \<leftarrow> ask (env_pages e) APages (WfpIo (FilterEnum layer));
       scanned \<leftarrow> scan_pages e guard_weight permit pages;
       close_result \<leftarrow> ask_code e (WfpIo FilterDestroyEnum);
       if fst scanned \<noteq> ERROR_SUCCESS then State_Monad.return (fst scanned, False)
       else if close_result \<noteq> ERROR_SUCCESS then State_Monad.return (close_result, False)
       else if snd scanned then State_Monad.return (ERROR_SUCCESS, False)
       else verify_layers e guard_weight permit rest
     }
   }"

definition VerifyGuardPriority :: "env \<Rightarrow> u16 \<Rightarrow> FWPM_FILTER0 \<Rightarrow> ('c, u32 \<times> bool) action" where
  "VerifyGuardPriority e guard_weight service_permit = verify_layers e guard_weight service_permit kLayers"

section \<open>The backend\<close>

datatype (plugins only: code size) TransitionGuardState = kOff | kArmed | kIncomplete

record WindowsGuardBackend =
  gb_engine :: bool
  gb_last_stage :: TransitionGuardStage
  gb_last_error :: u32

definition BackendFail :: "TransitionGuardStage \<Rightarrow> u32 \<Rightarrow> string \<Rightarrow> (WindowsGuardBackend, string) action" where
  "BackendFail stage code error = do {
     change (\<lambda>g. g\<lparr>gb_last_stage := stage, gb_last_error := code\<rparr>);
     State_Monad.return error
   }"

definition Open :: "env \<Rightarrow> (WindowsGuardBackend, string) action" where
  "Open e = do {
     engine \<leftarrow> my gb_engine;
     if engine then State_Monad.return []
     else do {
       code \<leftarrow> ask_code e (WfpIo EngineOpen);
       if code = ERROR_SUCCESS then do {
         change (\<lambda>g. g\<lparr>gb_engine := True\<rparr>);
         State_Monad.return []
       }
       else BackendFail kEngineOpen code ''transition_guard_engine_failed''
     }
   }"

text \<open>The loop over the eight filters: the result code, whether any exists, whether all match.\<close>

fun read_filters :: "env \<Rightarrow> FilterDefinitions \<Rightarrow> nat list \<Rightarrow> bool \<Rightarrow> bool \<Rightarrow> ('c, u32 \<times> bool \<times> bool) action" where
  "read_filters e defs [] any complete = State_Monad.return (ERROR_SUCCESS, any, complete)"
| "read_filters e defs (i # rest) any complete = do {
     answer \<leftarrow> ask (env_filter e) (\<lambda>(code, f). AFilter code f) (WfpIo (FilterGetByKey (fi_filterKey (At defs i))));
     if fst answer = ERROR_SUCCESS
     then read_filters e defs rest True (Matches (snd answer) (At defs i) \<and> complete)
     else if fst answer = FWP_E_FILTER_NOT_FOUND then read_filters e defs rest any False
     else State_Monad.return (fst answer, any, complete)
   }"

definition read_objects :: "env \<Rightarrow> FilterDefinitions \<Rightarrow> ('c, u32 \<times> bool \<times> bool) action" where
  "read_objects e defs = do {
     answer \<leftarrow> ask (env_sublayer e) (\<lambda>(code, s). ASubLayer code s) (WfpIo (SubLayerGetByKey kSubLayer));
     let found = (fst answer = ERROR_SUCCESS);
     if \<not> found \<and> fst answer \<noteq> FWP_E_SUBLAYER_NOT_FOUND then State_Monad.return (fst answer, False, True)
     else do {
       read \<leftarrow> read_filters e defs [0..<kFilterCount] found (found \<and> MatchesSubLayer (snd answer));
       case read of (result, any, complete) \<Rightarrow>
         if result = ERROR_SUCCESS \<and> complete
         then do {
           verified \<leftarrow> VerifyGuardPriority e (sl_weight (snd answer)) (At defs 0);
           State_Monad.return (fst verified, any, snd verified)
         }
         else State_Monad.return (result, any, complete)
     }
   }"

definition Read :: "env \<Rightarrow> (WindowsGuardBackend, string \<times> TransitionGuardState) action" where
  "Read e = do {
     change (\<lambda>g. g\<lparr>gb_last_stage := kReadVerify, gb_last_error := 0\<rparr>);
     error \<leftarrow> Open e;
     if error \<noteq> [] then State_Monad.return (error, kIncomplete)
     else do {
       defs \<leftarrow> InitializeDefinitions e;
       case defs of
         Inl (error, code) \<Rightarrow> do {
           BackendFail kIdentity code error;
           State_Monad.return (error, kIncomplete)
         }
       | Inr defs \<Rightarrow> do {
           code \<leftarrow> ask_code e (WfpIo (TransactionBegin True));
           if code \<noteq> ERROR_SUCCESS then do {
             error \<leftarrow> BackendFail kReadBegin code ''transition_guard_read_failed'';
             State_Monad.return (error, kIncomplete)
           }
           else do {
             objects \<leftarrow> read_objects e defs;
             tell (WfpIo TransactionAbort);
             case objects of (result, any, complete) \<Rightarrow>
               if result \<noteq> ERROR_SUCCESS then do {
                 error \<leftarrow> BackendFail kReadQuery result ''transition_guard_read_failed'';
                 State_Monad.return (error, kIncomplete)
               }
               else State_Monad.return ([], if complete then kArmed else if any then kIncomplete else kOff)
           }
         }
     }
   }"

fun delete_filters :: "env \<Rightarrow> nat list \<Rightarrow> ('c, u32) action" where
  "delete_filters e [] = State_Monad.return ERROR_SUCCESS"
| "delete_filters e (i # rest) = do {
     result \<leftarrow> ask_code e (WfpIo (FilterDeleteByKey (FilterKey i)));
     if result \<noteq> ERROR_SUCCESS \<and> result \<noteq> FWP_E_FILTER_NOT_FOUND then State_Monad.return result
     else delete_filters e rest
   }"

definition DeleteOwned :: "env \<Rightarrow> ('c, u32) action" where
  "DeleteOwned e = do {
     filters \<leftarrow> delete_filters e [0..<kFilterCount];
     if filters \<noteq> ERROR_SUCCESS then State_Monad.return filters
     else do {
       result \<leftarrow> ask_code e (WfpIo (SubLayerDeleteByKey kSubLayer));
       State_Monad.return (if result = FWP_E_SUBLAYER_NOT_FOUND then ERROR_SUCCESS else result)
     }
   }"

definition Complete :: "env \<Rightarrow> u32 \<Rightarrow> string \<Rightarrow> TransitionGuardStage \<Rightarrow> TransitionGuardStage \<Rightarrow>
    (WindowsGuardBackend, string) action" where
  "Complete e result error apply_stage commit_stage = do {
     committed \<leftarrow> (if result = ERROR_SUCCESS then ask_code e (WfpIo TransactionCommit)
                  else State_Monad.return result);
     if committed = ERROR_SUCCESS then State_Monad.return []
     else do {
       tell (WfpIo TransactionAbort);
       BackendFail (if result = ERROR_SUCCESS then commit_stage else apply_stage) committed error
     }
   }"

fun add_filters :: "env \<Rightarrow> FilterDefinitions \<Rightarrow> nat list \<Rightarrow> ('c, u32) action" where
  "add_filters e defs [] = State_Monad.return ERROR_SUCCESS"
| "add_filters e defs (i # rest) = do {
     result \<leftarrow> ask_code e (WfpIo (FilterAdd (At defs i)));
     if result \<noteq> ERROR_SUCCESS then State_Monad.return result else add_filters e defs rest
   }"

definition guard_sublayer :: FWPM_SUBLAYER0 where
  "guard_sublayer = \<lparr>sl_subLayerKey = kSubLayer, sl_flags = FWPM_SUBLAYER_FLAG_PERSISTENT,
     sl_providerKey = None, sl_weight = kSubLayerWeight\<rparr>"

definition install_objects :: "env \<Rightarrow> FilterDefinitions \<Rightarrow> ('c, u32) action" where
  "install_objects e defs = do {
     deleted \<leftarrow> DeleteOwned e;
     if deleted \<noteq> ERROR_SUCCESS then State_Monad.return deleted
     else do {
       added \<leftarrow> ask_code e (WfpIo (SubLayerAdd guard_sublayer));
       if added \<noteq> ERROR_SUCCESS then State_Monad.return added
       else add_filters e defs [0..<kFilterCount]
     }
   }"

definition Install :: "env \<Rightarrow> (WindowsGuardBackend, string) action" where
  "Install e = do {
     change (\<lambda>g. g\<lparr>gb_last_stage := kInstallApply, gb_last_error := 0\<rparr>);
     error \<leftarrow> Open e;
     if error \<noteq> [] then State_Monad.return error
     else do {
       defs \<leftarrow> InitializeDefinitions e;
       case defs of
         Inl (error, code) \<Rightarrow> BackendFail kIdentity code error
       | Inr defs \<Rightarrow> do {
           code \<leftarrow> ask_code e (WfpIo (TransactionBegin False));
           if code \<noteq> ERROR_SUCCESS then BackendFail kInstallBegin code ''transition_guard_install_failed''
           else do {
             result \<leftarrow> install_objects e defs;
             Complete e result ''transition_guard_install_failed'' kInstallApply kInstallCommit
           }
         }
     }
   }"

definition Remove :: "env \<Rightarrow> (WindowsGuardBackend, string) action" where
  "Remove e = do {
     change (\<lambda>g. g\<lparr>gb_last_stage := kRemoveApply, gb_last_error := 0\<rparr>);
     error \<leftarrow> Open e;
     if error \<noteq> [] then State_Monad.return error
     else do {
       code \<leftarrow> ask_code e (WfpIo (TransactionBegin False));
       if code \<noteq> ERROR_SUCCESS then BackendFail kRemoveBegin code ''transition_guard_remove_failed''
       else do {
         result \<leftarrow> DeleteOwned e;
         Complete e result ''transition_guard_remove_failed'' kRemoveApply kRemoveCommit
       }
     }
   }"

section \<open>The guard\<close>

record Guard =
  gu_backend :: WindowsGuardBackend
  gu_events :: bool
  gu_state :: TransitionGuardState

abbreviation backend :: "(WindowsGuardBackend, 'a) action \<Rightarrow> (Guard, 'a) action" where
  "backend m \<equiv> zoom gu_backend (\<lambda>b g. g\<lparr>gu_backend := b\<rparr>) m"

definition Refresh :: "env \<Rightarrow> (Guard, string) action" where
  "Refresh e = do {
     change (\<lambda>g. g\<lparr>gu_state := kIncomplete\<rparr>);
     read \<leftarrow> backend (Read e);
     change (\<lambda>g. g\<lparr>gu_state := (if fst read \<noteq> [] then kIncomplete else snd read)\<rparr>);
     State_Monad.return (fst read)
   }"

definition Report :: "TransitionGuardOperation \<Rightarrow> string \<Rightarrow> (Guard, string) action" where
  "Report operation error = do {
     g \<leftarrow> my id;
     if gu_events g then do {
       tell (SinkIo (if operation = kFinish_guard \<and> error = ''transition_guard_remove_not_verified''
         then SinkGuardFailure operation kRemoveVerify 0
         else SinkGuardFailure operation (gb_last_stage (gu_backend g)) (gb_last_error (gu_backend g))));
       State_Monad.return error
     }
     else State_Monad.return error
   }"

definition Start :: "env \<Rightarrow> (Guard, string) action" where
  "Start e = do {
     read_error \<leftarrow> Refresh e;
     if read_error \<noteq> [] then Report kStart_guard read_error
     else do {
       state \<leftarrow> my gu_state;
       if state = kArmed then State_Monad.return []
       else do {
         error \<leftarrow> backend (Install e);
         change (\<lambda>g. g\<lparr>gu_state := kIncomplete\<rparr>);
         if error \<noteq> [] then Report kStart_guard error
         else do {
           read \<leftarrow> Refresh e;
           if read \<noteq> [] then Report kStart_guard read
           else do {
             state \<leftarrow> my gu_state;
             if state = kArmed then State_Monad.return []
             else do {
               change (\<lambda>g. g\<lparr>gu_state := kIncomplete\<rparr>);
               Report kStart_guard ''transition_guard_not_verified''
             }
           }
         }
       }
     }
   }"

definition ExplicitOff :: "env \<Rightarrow> (Guard, string) action" where
  "ExplicitOff e = do {
     change (\<lambda>g. g\<lparr>gu_state := kIncomplete\<rparr>);
     error \<leftarrow> backend (Remove e);
     if error \<noteq> [] then State_Monad.return error
     else do {
       error \<leftarrow> Refresh e;
       if error \<noteq> [] then State_Monad.return error
       else do {
         state \<leftarrow> my gu_state;
         State_Monad.return (if state = kOff then [] else ''transition_guard_remove_not_verified'')
       }
     }
   }"

definition Finish :: "env \<Rightarrow> (Guard, string) action" where
  "Finish e = do {
     error \<leftarrow> ExplicitOff e;
     if error = [] then State_Monad.return error else Report kFinish_guard error
   }"

definition IsArmed :: "Guard \<Rightarrow> bool" where
  "IsArmed g \<longleftrightarrow> gu_state g \<noteq> kOff"

text \<open>The constructor adopts the persisted state.\<close>

definition NewGuard :: "env \<Rightarrow> bool \<Rightarrow> trace \<Rightarrow> Guard \<times> trace" where
  "NewGuard e events t =
     snd (run_state (Refresh e)
       (\<lparr>gu_backend = \<lparr>gb_engine = False, gb_last_stage = kReadVerify, gb_last_error = 0\<rparr>,
         gu_events = events, gu_state = kIncomplete\<rparr>, t))"

end
