(* ===== verification/Local_Dpi_Executor.thy ===== *)
theory Local_Dpi_Executor
  imports Local_Dpi
begin

text \<open>
  \<^verbatim>\<open>WindowsLocalDpiExecutor\<close> of \<^verbatim>\<open>service_local_dpi.cpp\<close>: the handles it owns are flags of its
  state, and every call to the system is an operation of the boundary.
\<close>

record WindowsLocalDpiExecutor =
  ex_job :: bool
  ex_process :: bool
  ex_driver_guard :: bool
  ex_driver_module :: bool
  ex_open_driver :: bool
  ex_close_driver :: bool
  ex_get_driver_param :: bool
  ex_recv_driver :: bool
  ex_shutdown_driver :: bool
  ex_files :: nat
  ex_holders :: "(string \<times> string) list"
  ex_prepared_services :: "WindowsLocalDpiService list"
  ex_physical_bind_interface :: string
  ex_interface_index :: nat
  ex_first_strategy :: WindowsLocalDpiStrategy
  ex_retry_attempted :: bool
  ex_admission_attempted :: bool

definition NewExecutor :: WindowsLocalDpiExecutor where
  "NewExecutor = \<lparr>ex_job = False, ex_process = False, ex_driver_guard = False, ex_driver_module = False,
     ex_open_driver = False, ex_close_driver = False, ex_get_driver_param = False, ex_recv_driver = False,
     ex_shutdown_driver = False, ex_files = 0, ex_holders = [], ex_prepared_services = [],
     ex_physical_bind_interface = [], ex_interface_index = 0, ex_first_strategy = kMultidisorderMidsld,
     ex_retry_attempted = False, ex_admission_attempted = False\<rparr>"

type_synonym 'a dpi_action = "(WindowsLocalDpiExecutor, 'a) action"

section \<open>Stopping\<close>

definition StopWindowsLocalDpiChild :: "env \<Rightarrow> bool dpi_action" where
  "StopWindowsLocalDpiChild e = do {
     job \<leftarrow> my ex_job;
     closed \<leftarrow> (if job then ask_bool e (DpiIo CloseJob) else State_Monad.return True);
     if \<not> closed then State_Monad.return False
     else do {
       change (\<lambda>x. x\<lparr>ex_job := False\<rparr>);
       process \<leftarrow> my ex_process;
       if \<not> process then State_Monad.return True
       else do {
         ended \<leftarrow> ask_bool e (DpiIo WaitChild);
         released \<leftarrow> (if ended then ask_bool e (DpiIo CloseChild) else State_Monad.return False);
         if \<not> released then State_Monad.return False
         else do {
           change (\<lambda>x. x\<lparr>ex_process := False\<rparr>);
           State_Monad.return True
         }
       }
     }
   }"

definition CloseWindowsLocalDpiDriver :: "env \<Rightarrow> bool dpi_action" where
  "CloseWindowsLocalDpiDriver e = do {
     x \<leftarrow> my id;
     if \<not> ex_driver_guard x then State_Monad.return True
     else do {
       closed \<leftarrow> (if ex_close_driver x then ask_bool e (DpiIo CloseDriver) else State_Monad.return False);
       if \<not> closed then State_Monad.return False
       else do {
         change (\<lambda>x. x\<lparr>ex_driver_guard := False\<rparr>);
         State_Monad.return True
       }
     }
   }"

definition clear_executor :: "WindowsLocalDpiExecutor \<Rightarrow> WindowsLocalDpiExecutor" where
  "clear_executor x = x\<lparr>ex_holders := [], ex_prepared_services := [], ex_physical_bind_interface := [],
     ex_interface_index := 0, ex_retry_attempted := False, ex_admission_attempted := False,
     ex_driver_module := False, ex_open_driver := False, ex_close_driver := False, ex_get_driver_param := False,
     ex_recv_driver := False, ex_shutdown_driver := False, ex_files := 0\<rparr>"

definition StopAfterCoreStopped :: "env \<Rightarrow> bool dpi_action" where
  "StopAfterCoreStopped e = do {
     child \<leftarrow> StopWindowsLocalDpiChild e;
     driver \<leftarrow> (if child then CloseWindowsLocalDpiDriver e else State_Monad.return False);
     if \<not> driver then State_Monad.return False
     else do {
       x \<leftarrow> my id;
       (if ex_driver_module x then tell (DpiIo FreeDriver) else State_Monad.return ());
       tell (DpiIo CloseAssets);
       change clear_executor;
       State_Monad.return True
     }
   }"

text \<open>The withdrawal of every captured holder that is still Core's own.\<close>

fun withdraw_holders :: "env \<Rightarrow> (string \<times> string) list \<Rightarrow> ('c, bool) action" where
  "withdraw_holders e [] = State_Monad.return True"
| "withdraw_holders e ((tag, id') # rest) = do {
     owner \<leftarrow> ask_text e (AdmissionIo (ReadLocalDpiAdmissionID tag));
     failed \<leftarrow> (if owner = id'
       then do { result \<leftarrow> ask_int e (AdmissionIo (WithdrawLocalDpiAdmission id')); State_Monad.return (result < 0) }
       else State_Monad.return False);
     if failed then State_Monad.return False else withdraw_holders e rest
   }"

definition StopDpi :: "env \<Rightarrow> bool dpi_action" where
  "StopDpi e = do {
     holders \<leftarrow> my ex_holders;
     withdrawn \<leftarrow> withdraw_holders e holders;
     if \<not> withdrawn then State_Monad.return False else StopAfterCoreStopped e
   }"

section \<open>Assets\<close>

definition AssetDirectory :: "env \<Rightarrow> ('c, string) action" where
  "AssetDirectory e = do {
     executable \<leftarrow> ask_text e (DpiIo ModulePath);
     let directory = rev (dropWhile (\<lambda>c. c \<noteq> CHR 0x5C \<and> c \<noteq> CHR ''/'') (rev executable));
     State_Monad.return (if directory = [] then [] else directory @ ''local-dpi'' @ [CHR 0x5C])
   }"

definition asset_names :: "string list" where
  "asset_names = [''winws2.exe'', ''cygwin1.dll'', ''WinDivert.dll'', ''WinDivert64.sys'', ''zapret-lib.lua'',
     ''zapret-antidpi.lua'', ''tls_clienthello_www_google_com.bin'']"

fun lock_assets :: "env \<Rightarrow> string list \<Rightarrow> bool dpi_action" where
  "lock_assets e [] = State_Monad.return True"
| "lock_assets e (path # rest) = do {
     locked \<leftarrow> ask_bool e (DpiIo (LockAsset path False));
     if \<not> locked then State_Monad.return False
     else do {
       change (\<lambda>x. x\<lparr>ex_files := ex_files x + 1\<rparr>);
       lock_assets e rest
     }
   }"

definition load_exports :: "env \<Rightarrow> string \<Rightarrow> unit dpi_action" where
  "load_exports e directory = do {
     module \<leftarrow> ask_bool e (DpiIo (LoadDriver (directory @ ''WinDivert.dll'')));
     change (\<lambda>x. x\<lparr>ex_driver_module := module\<rparr>);
     open_driver \<leftarrow> (if module then ask_bool e (DpiIo (DriverExport ''WinDivertOpen'')) else State_Monad.return False);
     close_driver \<leftarrow> (if module then ask_bool e (DpiIo (DriverExport ''WinDivertClose'')) else State_Monad.return False);
     get_param \<leftarrow> (if module then ask_bool e (DpiIo (DriverExport ''WinDivertGetParam'')) else State_Monad.return False);
     recv \<leftarrow> (if module then ask_bool e (DpiIo (DriverExport ''WinDivertRecvEx'')) else State_Monad.return False);
     shut \<leftarrow> (if module then ask_bool e (DpiIo (DriverExport ''WinDivertShutdown'')) else State_Monad.return False);
     change (\<lambda>x. x\<lparr>ex_open_driver := open_driver, ex_close_driver := close_driver,
       ex_get_driver_param := get_param, ex_recv_driver := recv, ex_shutdown_driver := shut\<rparr>)
   }"

definition exports_ready :: "WindowsLocalDpiExecutor \<Rightarrow> bool" where
  "exports_ready x \<longleftrightarrow> ex_open_driver x \<and> ex_close_driver x \<and> ex_get_driver_param x \<and> ex_recv_driver x \<and>
     ex_shutdown_driver x"

definition AssetsReady :: "env \<Rightarrow> bool dpi_action" where
  "AssetsReady e = do {
     version \<leftarrow> ask_int e (AdmissionIo WindowsLocalDpiAdmissionVersion);
     x \<leftarrow> my id;
     if version \<noteq> 1 then State_Monad.return False
     else if ex_driver_module x then State_Monad.return (exports_ready x)
     else do {
       directory \<leftarrow> AssetDirectory e;
       if directory = [] then State_Monad.return False
       else do {
         locked \<leftarrow> ask_bool e (DpiIo (LockAsset (butlast directory) True));
         if \<not> locked then State_Monad.return False
         else do {
           change (\<lambda>x. x\<lparr>ex_files := ex_files x + 1\<rparr>);
           assets \<leftarrow> lock_assets e (map (\<lambda>name. directory @ name) asset_names);
           if \<not> assets then do { StopDpi e; State_Monad.return False }
           else do {
             load_exports e directory;
             x \<leftarrow> my id;
             if \<not> exports_ready x then do { StopDpi e; State_Monad.return False }
             else State_Monad.return True
           }
         }
       }
     }
   }"

section \<open>The child\<close>

definition Alive :: "env \<Rightarrow> bool dpi_action" where
  "Alive e = do {
     process \<leftarrow> my ex_process;
     if process then ask_bool e (DpiIo ChildRunning) else State_Monad.return False
   }"

definition stop_and :: "env \<Rightarrow> string \<Rightarrow> string dpi_action" where
  "stop_and e error = do { StopDpi e; State_Monad.return error }"

definition StartChild :: "env \<Rightarrow> string \<Rightarrow> nat \<Rightarrow> WindowsLocalDpiStrategy \<Rightarrow> bool dpi_action \<Rightarrow> string dpi_action" where
  "StartChild e hostlist interface_index strategy current = do {
     directory \<leftarrow> AssetDirectory e;
     job \<leftarrow> ask_bool e (DpiIo CreateJob);
     change (\<lambda>x. x\<lparr>ex_job := job\<rparr>);
     limited \<leftarrow> (if job then ask_bool e (DpiIo LimitJob) else State_Monad.return False);
     if \<not> limited then stop_and e ''local_dpi_child_failed''
     else do {
       created \<leftarrow> ask_bool e (DpiIo (CreateChild (directory @ ''winws2.exe'')
         (WindowsLocalDpiCommand directory hostlist interface_index strategy)));
       if \<not> created then stop_and e ''local_dpi_child_failed''
       else do {
         change (\<lambda>x. x\<lparr>ex_process := True\<rparr>);
         assigned \<leftarrow> ask_bool e (DpiIo AssignChild);
         if \<not> assigned then do {
           tell (DpiIo TerminateChild);
           stop_and e ''local_dpi_child_failed''
         }
         else do {
           mutex \<leftarrow> ask_bool e (DpiIo CreateInitMutex);
           if \<not> mutex then stop_and e ''local_dpi_filter_unavailable''
           else do {
             resumed \<leftarrow> ask_bool e (DpiIo ResumeChild);
             alive \<leftarrow> (if resumed then Alive e else State_Monad.return False);
             ready \<leftarrow> (if alive then ask_bool e (DpiIo WaitNetworkReady) else State_Monad.return False);
             if ready then State_Monad.return []
             else do {
               owner_current \<leftarrow> current;
               stopped \<leftarrow> StopDpi e;
               State_Monad.return (if \<not> stopped then ''local_dpi_child_failed''
                 else if owner_current then ''local_dpi_filter_unavailable'' else ''local_dpi_owner_changed'')
             }
           }
         }
       }
     }
   }"

text \<open>The index of the bound interface, 0 when it cannot be found.\<close>

definition interface_of :: "env \<Rightarrow> string \<Rightarrow> ('c, nat) action" where
  "interface_of e physical_bind_interface =
     (if WideUtf8 e physical_bind_interface = [] then State_Monad.return 0
      else do {
        index \<leftarrow> ask_int e (DpiIo (InterfaceIndex (WideUtf8 e physical_bind_interface)));
        State_Monad.return (nat index)
      })"

fun capture_holders :: "env \<Rightarrow> WindowsLocalDpiService list \<Rightarrow> bool dpi_action" where
  "capture_holders e [] = State_Monad.return True"
| "capture_holders e (service # rest) = do {
     id' \<leftarrow> ask_text e (AdmissionIo (ReadLocalDpiAdmissionID (ds_outbound_tag service)));
     if \<not> IsHolderID id' then State_Monad.return False
     else do {
       change (\<lambda>x. x\<lparr>ex_holders := ex_holders x @ [(ds_outbound_tag service, id')]\<rparr>);
       capture_holders e rest
     }
   }"

definition open_driver_guard :: "env \<Rightarrow> bool dpi_action" where
  "open_driver_guard e = do {
     opened \<leftarrow> ask_bool e (DpiIo OpenDriver);
     change (\<lambda>x. x\<lparr>ex_driver_guard := opened\<rparr>);
     major \<leftarrow> (if opened then ask_int e (DpiIo (DriverParam 3)) else State_Monad.return (- 1));
     minor \<leftarrow> (if 0 \<le> major then ask_int e (DpiIo (DriverParam 4)) else State_Monad.return (- 1));
     State_Monad.return (major = 2 \<and> minor = 2)
   }"

definition StartPrepared :: "env \<Rightarrow> WindowsLocalDpiService list \<Rightarrow> string \<Rightarrow> WindowsLocalDpiStrategy \<Rightarrow>
    bool dpi_action \<Rightarrow> string dpi_action" where
  "StartPrepared e services physical_bind_interface strategy current = do {
     now_current \<leftarrow> current;
     x \<leftarrow> my id;
     if \<not> now_current then State_Monad.return ''local_dpi_owner_changed''
     else if ex_process x \<or> ex_job x \<or> ex_driver_guard x \<or> ex_holders x \<noteq> []
     then State_Monad.return ''local_dpi_executor_running''
     else do {
       version \<leftarrow> ask_int e (AdmissionIo WindowsLocalDpiAdmissionVersion);
       if version \<noteq> 1 then State_Monad.return ''local_dpi_executor_unavailable''
       else if WindowsLocalDpiHostList services = [] then State_Monad.return ''local_dpi_scope_invalid''
       else do {
         index \<leftarrow> interface_of e physical_bind_interface;
         if index = 0 then State_Monad.return ''local_dpi_interface_unavailable''
         else do {
           assets \<leftarrow> AssetsReady e;
           if \<not> assets then State_Monad.return ''local_dpi_assets_unavailable''
           else do {
             captured \<leftarrow> capture_holders e services;
             if \<not> captured then stop_and e ''local_dpi_holder_unavailable''
             else do {
               driver \<leftarrow> open_driver_guard e;
               if \<not> driver then stop_and e ''local_dpi_assets_unavailable''
               else do {
                 change (\<lambda>x. x\<lparr>ex_prepared_services := services,
                   ex_physical_bind_interface := physical_bind_interface,
                   ex_interface_index := index, ex_first_strategy := strategy\<rparr>);
                 StartChild e (WindowsLocalDpiHostList services) index strategy current
               }
             }
           }
         }
       }
     }
   }"

section \<open>Retrying\<close>

definition same_service :: "WindowsLocalDpiService \<Rightarrow> WindowsLocalDpiService \<Rightarrow> bool" where
  "same_service service original \<longleftrightarrow>
     ds_service_id service = ds_service_id original \<and> ds_outbound_tag service = ds_outbound_tag original \<and>
     ds_control_host service = ds_control_host original \<and> length (ds_domains service) = length (ds_domains original)"

text \<open>The loop of \<^verbatim>\<open>MatchesPrepared\<close> over services, originals and holders.\<close>

fun match_services :: "env \<Rightarrow> (WindowsLocalDpiService \<times> WindowsLocalDpiService \<times> string \<times> string) list \<Rightarrow> ('c, bool) action" where
  "match_services e [] = State_Monad.return True"
| "match_services e ((service, original, tag, id') # rest) =
     (if \<not> same_service service original then State_Monad.return False
      else do {
        owner \<leftarrow> ask_text e (AdmissionIo (ReadLocalDpiAdmissionID tag));
        if owner \<noteq> id' \<or>
           \<not> list_all2 (\<lambda>a b. dd_name a = dd_name b \<and> dd_exact a = dd_exact b \<and> dd_shared a = dd_shared b)
             (ds_domains service) (ds_domains original)
        then State_Monad.return False else match_services e rest
      })"

definition MatchesPrepared :: "env \<Rightarrow> WindowsLocalDpiService list \<Rightarrow> string \<Rightarrow> bool dpi_action" where
  "MatchesPrepared e services physical_bind_interface = do {
     x \<leftarrow> my id;
     if length services \<noteq> length (ex_prepared_services x) \<or> length services \<noteq> length (ex_holders x) \<or>
        physical_bind_interface \<noteq> ex_physical_bind_interface x then State_Monad.return False
     else match_services e (zip services (zip (ex_prepared_services x) (ex_holders x)))
   }"

fun holders_current :: "env \<Rightarrow> (string \<times> string) list \<Rightarrow> ('c, bool) action" where
  "holders_current e [] = State_Monad.return True"
| "holders_current e ((tag, id') # rest) = do {
     owner \<leftarrow> ask_text e (AdmissionIo (ReadLocalDpiAdmissionID tag));
     if owner \<noteq> id' then State_Monad.return False else holders_current e rest
   }"

definition RetryPrepared :: "env \<Rightarrow> WindowsLocalDpiService list \<Rightarrow> string \<Rightarrow> WindowsLocalDpiStrategy \<Rightarrow>
    bool dpi_action \<Rightarrow> string dpi_action" where
  "RetryPrepared e services physical_bind_interface strategy current = do {
     now_current \<leftarrow> current;
     x \<leftarrow> my id;
     if \<not> now_current then State_Monad.return ''local_dpi_owner_changed''
     else if ex_admission_attempted x \<or> ex_retry_attempted x \<or> ex_holders x = [] \<or> \<not> ex_process x \<or>
       \<not> ex_job x \<or> \<not> ex_driver_guard x then State_Monad.return ''local_dpi_retry_unavailable''
     else do {
       matches \<leftarrow> MatchesPrepared e services physical_bind_interface;
       if \<not> matches \<or> strategy = ex_first_strategy x then State_Monad.return ''local_dpi_retry_unavailable''
       else do {
         change (\<lambda>x. x\<lparr>ex_retry_attempted := True\<rparr>);
         stopped \<leftarrow> StopWindowsLocalDpiChild e;
         if \<not> stopped then State_Monad.return ''local_dpi_child_failed''
         else do {
           still_current \<leftarrow> current;
           if \<not> still_current then State_Monad.return ''local_dpi_owner_changed''
           else do {
             index \<leftarrow> interface_of e physical_bind_interface;
             if WideUtf8 e physical_bind_interface = [] \<or> index \<noteq> ex_interface_index x
             then State_Monad.return ''local_dpi_interface_unavailable''
             else do {
               holders \<leftarrow> holders_current e (ex_holders x);
               if \<not> holders then State_Monad.return ''local_dpi_retry_unavailable''
               else do {
                 final_current \<leftarrow> current;
                 if \<not> final_current then State_Monad.return ''local_dpi_owner_changed''
                 else StartChild e (WindowsLocalDpiHostList services) index strategy current
               }
             }
           }
         }
       }
     }
   }"

fun check_captured :: "env \<Rightarrow> (string \<times> string) list \<Rightarrow> string list \<Rightarrow> ('c, bool) action" where
  "check_captured e [] previous = State_Monad.return True"
| "check_captured e ((tag, id') # rest) previous =
     (if \<not> IsHolderID id' \<or> id' \<in> set previous then State_Monad.return False
      else do {
        owner \<leftarrow> ask_text e (AdmissionIo (ReadLocalDpiAdmissionID tag));
        if owner \<noteq> id' then State_Monad.return False else check_captured e rest (id' # previous)
      })"

text \<open>The fields of a comma separated text.\<close>

fun split_commas :: "string \<Rightarrow> string list" where
  "split_commas [] = [[]]"
| "split_commas (c # rest) =
     (if c = CHR '','' then [] # split_commas rest
      else case split_commas rest of [] \<Rightarrow> [[c]] | x # xs \<Rightarrow> (c # x) # xs)"

definition fresh_ids :: "string \<Rightarrow> string list \<Rightarrow> string list option" where
  "fresh_ids encoded previous =
     (let ids = split_commas encoded
      in if list_all IsHolderID ids \<and> distinct ids \<and> set ids \<inter> set previous = {} then Some ids else None)"

definition RefreshWindowsLocalDpiRetryIDs :: "env \<Rightarrow> (string \<times> string) list \<Rightarrow> bool \<Rightarrow> bool \<Rightarrow>
    ('c, (string \<times> string) list option) action" where
  "RefreshWindowsLocalDpiRetryIDs e holders admission_attempted retry_attempted =
     (if \<not> admission_attempted \<or> retry_attempted \<or> holders = [] then State_Monad.return None
      else do {
        version \<leftarrow> ask_int e (AdmissionIo WindowsLocalDpiRuntimeRetryVersion);
        if version \<noteq> 1 then State_Monad.return None
        else do {
          captured \<leftarrow> check_captured e holders [];
          if \<not> captured then State_Monad.return None
          else do {
            encoded \<leftarrow> ask_text e (AdmissionIo (PrepareWindowsLocalDpiRetry (join CHR '','' (map snd holders))));
            if encoded = [] then State_Monad.return None
            else case fresh_ids encoded (map snd holders) of
              None \<Rightarrow> State_Monad.return None
            | Some fresh \<Rightarrow>
                if length fresh \<noteq> length holders then State_Monad.return None
                else do {
                  replaced \<leftarrow> holders_current e (zip (map fst holders) fresh);
                  State_Monad.return (if replaced then Some (zip (map fst holders) fresh) else None)
                }
          }
        }
      })"

definition RetryAfterRuntimeFailure :: "env \<Rightarrow> WindowsLocalDpiService list \<Rightarrow> string \<Rightarrow> WindowsLocalDpiStrategy \<Rightarrow>
    bool dpi_action \<Rightarrow> string dpi_action" where
  "RetryAfterRuntimeFailure e services physical_bind_interface strategy current = do {
     now_current \<leftarrow> current;
     x \<leftarrow> my id;
     if \<not> now_current then State_Monad.return ''local_dpi_owner_changed''
     else if ex_holders x = [] \<or> \<not> ex_process x \<or> \<not> ex_job x \<or> \<not> ex_driver_guard x \<or>
       strategy = ex_first_strategy x then State_Monad.return ''local_dpi_retry_unavailable''
     else do {
       matches \<leftarrow> MatchesPrepared e services physical_bind_interface;
       if \<not> matches then State_Monad.return ''local_dpi_retry_unavailable''
       else do {
         refreshed \<leftarrow> RefreshWindowsLocalDpiRetryIDs e (ex_holders x) (ex_admission_attempted x) (ex_retry_attempted x);
         case refreshed of
           None \<Rightarrow> State_Monad.return ''local_dpi_retry_unavailable''
         | Some holders \<Rightarrow> do {
             change (\<lambda>x. x\<lparr>ex_holders := holders, ex_admission_attempted := False\<rparr>);
             RetryPrepared e services physical_bind_interface strategy current
           }
       }
     }
   }"

section \<open>Admission\<close>

definition CapturedAdmissionID :: "string \<Rightarrow> WindowsLocalDpiExecutor \<Rightarrow> string" where
  "CapturedAdmissionID tag x = (case map_of (ex_holders x) tag of Some id' \<Rightarrow> id' | None \<Rightarrow> [])"

definition AdmitCaptured :: "env \<Rightarrow> string \<Rightarrow> bool dpi_action \<Rightarrow> bool dpi_action" where
  "AdmitCaptured e tag current_after_proof = do {
     x \<leftarrow> my id;
     case map_of (ex_holders x) tag of
       None \<Rightarrow> State_Monad.return False
     | Some id' \<Rightarrow> do {
         before \<leftarrow> current_after_proof;
         alive \<leftarrow> (if before then Alive e else State_Monad.return False);
         owner \<leftarrow> (if alive then ask_text e (AdmissionIo (ReadLocalDpiAdmissionID tag)) else State_Monad.return []);
         still \<leftarrow> (if alive \<and> owner = id' then current_after_proof else State_Monad.return False);
         if \<not> still then State_Monad.return False
         else do {
           change (\<lambda>x. x\<lparr>ex_admission_attempted := True\<rparr>);
           admitted \<leftarrow> ask_int e (AdmissionIo (AdmitLocalDpiAdmission id'));
           after \<leftarrow> (if admitted = 1 then current_after_proof else State_Monad.return False);
           running \<leftarrow> (if after then Alive e else State_Monad.return False);
           confirmed \<leftarrow> (if running then ask_text e (AdmissionIo (ReadLocalDpiAdmissionID tag)) else State_Monad.return []);
           State_Monad.return (running \<and> confirmed = id')
         }
       }
   }"

end
