(* ===== verification/Runtime_Host.thy ===== *)
theory Runtime_Host
  imports Boot_Clock Recovery Transition_Guard Profile_Bundle Local_Dpi_Executor Probe_Target Service_Events
begin

text \<open>
  \<^verbatim>\<open>RuntimeHost\<close> of \<^verbatim>\<open>service_runtime.cpp\<close>: its state, the files it writes, its snapshot and
  its rollback.  The recovery journal, the transition guard and the local DPI executor are the
  components of the other theories, reached with \<^const>\<open>zoom\<close>; a null pointer to one of them is
  a flag of the record.  The Core, the egress probe and the event sink are operations of the
  boundary.
\<close>

datatype (plugins only: code size) Phase =
    kArtifactMissing | kArtifactReady | kInitialized | kConfigStaged | kRunning | kRecoveryRequired

fun phase_code :: "Phase \<Rightarrow> int" where
  "phase_code kArtifactMissing = 0"
| "phase_code kArtifactReady = 1"
| "phase_code kInitialized = 2"
| "phase_code kConfigStaged = 3"
| "phase_code kRunning = 4"
| "phase_code kRecoveryRequired = 5"

definition PhaseName :: "int \<Rightarrow> string" where
  "PhaseName phase =
     (if phase = 0 then ''artifact_missing'' else if phase = 1 then ''artifact_ready''
      else if phase = 2 then ''initialized'' else if phase = 3 then ''config_staged''
      else if phase = 4 then ''running'' else if phase = 5 then ''recovery_required''
      else ''artifact_missing'')"

record RuntimeDirectories =
  rd_base :: string
  rd_working :: string
  rd_temporary :: string
  rd_config :: string

record RuntimeResult =
  rr_status :: Status
  rr_body :: string

abbreviation result :: "Status \<Rightarrow> string \<Rightarrow> RuntimeResult" where
  "result st b \<equiv> \<lparr>rr_status = st, rr_body = b\<rparr>"

record WindowsLocalDpiRuntimeObservation =
  ro_services :: u64
  ro_admitted :: u64
  ro_failed :: u64
  ro_withdraw_completed :: u64
  ro_local_handoffs :: u64
  ro_vpn_handoffs :: u64

record RuntimeHost =
  rh_core :: bool
  rh_executor :: WindowsLocalDpiExecutor
  rh_preparation :: "WindowsLocalDpiPreparation option"
  rh_dpi_profile_digest :: string
  rh_dpi_core_digest :: string
  rh_hints :: WindowsLocalDpiStrategyHints
  rh_active_strategy :: "(string \<times> WindowsLocalDpiStrategy) option"
  rh_dpi_bind_interface :: string
  rh_original_config :: string
  rh_runtime_config :: string
  rh_dpi_requested :: bool
  rh_dpi_ready :: bool
  rh_dpi_disabled :: bool
  rh_dpi_failure_reported :: bool
  rh_telegram :: "WindowsTelegramWSPreparation option"
  rh_telegram_holders :: "(string \<times> string) list"
  rh_telegram_original_digest :: string
  rh_telegram_prepared_digest :: string
  rh_telegram_core_digest :: string
  rh_telegram_requested :: bool
  rh_telegram_ready :: bool
  rh_egress_probe :: bool
  rh_has_recovery :: bool
  rh_recovery :: DurableRuntimeRecovery
  rh_has_guard :: bool
  rh_guard :: Guard
  rh_runtime_root :: string
  rh_events :: bool
  rh_directories :: RuntimeDirectories
  rh_profile_path :: string
  rh_secure_storage :: bool
  rh_initialized :: bool
  rh_profile_staged :: bool
  rh_requires_bound_connect :: bool
  rh_staged_digest :: string
  rh_effective_digest :: string
  rh_disable_memory_limit :: bool
  rh_rule_set_slot :: nat
  rh_egress_validated :: bool
  rh_qa_config :: string
  rh_qa_result :: "RuntimeResult option"
  rh_egress_observation :: "EgressProbeObservation option"
  rh_phase :: Phase
  rh_failure :: string

type_synonym 'a host_action = "(RuntimeHost, 'a) action"

abbreviation recovery_call :: "(DurableRuntimeRecovery, 'a) action \<Rightarrow> 'a host_action" where
  "recovery_call m \<equiv> zoom rh_recovery (\<lambda>r h. h\<lparr>rh_recovery := r\<rparr>) m"

abbreviation guard_call :: "(Guard, 'a) action \<Rightarrow> 'a host_action" where
  "guard_call m \<equiv> zoom rh_guard (\<lambda>g h. h\<lparr>rh_guard := g\<rparr>) m"

abbreviation executor_call :: "'a dpi_action \<Rightarrow> 'a host_action" where
  "executor_call m \<equiv> zoom rh_executor (\<lambda>x h. h\<lparr>rh_executor := x\<rparr>) m"

section \<open>Interruption\<close>

text \<open>
  A \<^verbatim>\<open>CheckInterruption\<close>: the empty function, a check the caller owns, or the check that
  \<^verbatim>\<open>ConnectWithIdentity\<close> builds around another with the deadline of its target.
\<close>

datatype (plugins only: code size) CheckInterruption =
    NoCheck | Check nat | BoundCheck BoundConnectTarget CheckInterruption

fun interrupted_by :: "env \<Rightarrow> CheckInterruption \<Rightarrow> ('c, OperationInterruption) action" where
  "interrupted_by e NoCheck = State_Monad.return kNone_interruption"
| "interrupted_by e (Check n) = ask (env_interruption e) AInterruption (Interrupted n)"
| "interrupted_by e (BoundCheck target check) = do {
     pending \<leftarrow> interrupted_by e check;
     if pending \<noteq> kNone_interruption then State_Monad.return pending
     else do {
       current \<leftarrow> IsConnectDeadlineCurrent e target;
       State_Monad.return (if current then kNone_interruption else kDeadlineExceeded_interruption)
     }
   }"

section \<open>Directories and files\<close>

definition EnsureDirectory :: "env \<Rightarrow> string \<Rightarrow> ('c, bool) action" where
  "EnsureDirectory e path =
     (if path = [] then State_Monad.return False
      else do {
        created \<leftarrow> ask_bool e (FileIo (CreateDirectory path));
        exists \<leftarrow> (if created then State_Monad.return True else ask_bool e (FileIo AlreadyExists));
        if exists then ask_bool e (FileIo (IsDirectory path)) else State_Monad.return False
      })"

definition ProtectDirectory :: "env \<Rightarrow> string \<Rightarrow> ('c, bool) action" where
  "ProtectDirectory e path = do {
     converted \<leftarrow> ask_bool e (FileIo ConvertSddl);
     if \<not> converted then State_Monad.return False
     else do {
       decoded \<leftarrow> ask_bool e (FileIo GetDacl);
       if decoded then do {
         code \<leftarrow> ask_code e (FileIo (SetNamedSecurityInfo path));
         State_Monad.return (code = ERROR_SUCCESS)
       }
       else State_Monad.return False
     }
   }"

fun prepare_paths :: "env \<Rightarrow> bool \<Rightarrow> string list \<Rightarrow> ('c, bool) action" where
  "prepare_paths e secure [] = State_Monad.return True"
| "prepare_paths e secure (path # rest) = do {
     ensured \<leftarrow> EnsureDirectory e path;
     protected \<leftarrow> (if \<not> ensured then State_Monad.return False
                  else if secure then ProtectDirectory e path else State_Monad.return True);
     if protected then prepare_paths e secure rest else State_Monad.return False
   }"

definition PrepareDirectories :: "env \<Rightarrow> bool host_action" where
  "PrepareDirectories e = do {
     change (\<lambda>h. let base = rh_runtime_root h; working = AppendPath base ''working''
       in h\<lparr>rh_directories := \<lparr>rd_base = base, rd_working = working, rd_temporary = AppendPath base ''temp'',
              rd_config = AppendPath working ''configs''\<rparr>\<rparr>);
     h \<leftarrow> my id;
     let d = rh_directories h;
     prepared \<leftarrow> prepare_paths e (rh_secure_storage h)
       [rd_base d, rd_working d, rd_temporary d, rd_config d, AppendPath (rd_base d) ''data'', AppendPath (rd_working d) ''data''];
     if \<not> prepared then State_Monad.return False
     else do {
       change (\<lambda>h. h\<lparr>rh_profile_path := AppendPath (rd_config (rh_directories h)) ''managed-profile.json''\<rparr>);
       State_Monad.return True
     }
   }"

definition WriteProfileAtomically :: "env \<Rightarrow> string \<Rightarrow> string host_action" where
  "WriteProfileAtomically e profile = do {
     h \<leftarrow> my id;
     let pending = AppendPath (rd_config (rh_directories h)) ''managed-profile.pending'';
     created \<leftarrow> ask_bool e (FileIo (CreateFile pending));
     if \<not> created then State_Monad.return ''profile_write_failed''
     else do {
       written \<leftarrow> ask_int e (FileIo (WriteFile pending profile));
       flushed \<leftarrow> (if written = int (length profile) then ask_bool e (FileIo (FlushFileBuffers pending))
                  else State_Monad.return False);
       if \<not> flushed then do {
         ask_bool e (FileIo (DeleteFile pending));
         State_Monad.return ''profile_write_failed''
       }
       else do {
         secured \<leftarrow> ask_text e (CoreIo (CoreSecureFile pending));
         if secured \<noteq> [] then do {
           ask_bool e (FileIo (DeleteFile pending));
           State_Monad.return ''profile_security_failed''
         }
         else do {
           moved \<leftarrow> ask_bool e (FileIo (MoveFileEx pending (rh_profile_path h)));
           if \<not> moved then do {
             ask_bool e (FileIo (DeleteFile pending));
             State_Monad.return ''profile_write_failed''
           }
           else State_Monad.return []
         }
       }
     }
   }"

definition slot_root :: "RuntimeDirectories \<Rightarrow> nat \<Rightarrow> string" where
  "slot_root d slot =
     AppendPath (AppendPath (AppendPath (rd_working d) ''data'') ''rule-set'')
       (if slot = 1 then ''profile-a'' else ''profile-b'')"

fun delete_rule_sets :: "env \<Rightarrow> string \<Rightarrow> nat list \<Rightarrow> ('c, unit) action" where
  "delete_rule_sets e base [] = State_Monad.return ()"
| "delete_rule_sets e base (index # rest) = do {
     ask_bool e (FileIo (DeleteFile (AppendPath base (rule_set_name index) @ ''.pending'')));
     ask_bool e (FileIo (DeleteFile (AppendPath base (rule_set_name index))));
     delete_rule_sets e base rest
   }"

definition CleanupBundledRuleSets :: "env \<Rightarrow> nat \<Rightarrow> unit host_action" where
  "CleanupBundledRuleSets e slot =
     (if slot \<noteq> 1 \<and> slot \<noteq> 2 then State_Monad.return ()
      else do {
        d \<leftarrow> my rh_directories;
        delete_rule_sets e (slot_root d slot) [0..<kMaximumBundledRuleSets];
        ask_bool e (FileIo (RemoveDirectory (slot_root d slot)));
        State_Monad.return ()
      })"

text \<open>The loop over the rule sets from \<open>index\<close> on; the paths written, newest last.\<close>

fun write_rule_sets :: "env \<Rightarrow> nat \<Rightarrow> string \<Rightarrow> nat \<Rightarrow> u8 list list \<Rightarrow> string list \<Rightarrow> string list option host_action" where
  "write_rule_sets e slot base index [] paths = State_Monad.return (Some paths)"
| "write_rule_sets e slot base index (bytes # rest) paths =
     (if bytes = [] \<or> kMaximumBundledRuleSetBytes < length bytes then do {
        CleanupBundledRuleSets e slot;
        State_Monad.return None
      }
      else do {
        let path = AppendPath base (rule_set_name index);
        let pending = path @ ''.pending'';
        let content = map char_of_byte bytes;
        created \<leftarrow> ask_bool e (FileIo (CreateFile pending));
        if \<not> created then do {
          CleanupBundledRuleSets e slot;
          State_Monad.return None
        }
        else do {
          written \<leftarrow> ask_int e (FileIo (WriteFile pending content));
          flushed \<leftarrow> (if written = int (length content) then ask_bool e (FileIo (FlushFileBuffers pending))
                     else State_Monad.return False);
          moved \<leftarrow> (if flushed then ask_bool e (FileIo (MoveFileEx pending path)) else State_Monad.return False);
          if \<not> moved then do {
            ask_bool e (FileIo (DeleteFile pending));
            CleanupBundledRuleSets e slot;
            State_Monad.return None
          }
          else write_rule_sets e slot base (index + 1) rest (paths @ [path])
        }
      })"

definition WriteBundledRuleSets :: "env \<Rightarrow> nat \<Rightarrow> u8 list list \<Rightarrow> string list option host_action" where
  "WriteBundledRuleSets e slot rule_sets =
     (if (slot \<noteq> 1 \<and> slot \<noteq> 2) \<or> rule_sets = [] \<or> kMaximumBundledRuleSets < length rule_sets
      then State_Monad.return None
      else do {
        h \<leftarrow> my id;
        let d = rh_directories h;
        let rule_set_root = AppendPath (AppendPath (rd_working d) ''data'') ''rule-set'';
        root_ready \<leftarrow> EnsureDirectory e rule_set_root;
        slot_ready \<leftarrow> (if root_ready then EnsureDirectory e (slot_root d slot) else State_Monad.return False);
        protected \<leftarrow> (if \<not> slot_ready then State_Monad.return False
          else if \<not> rh_secure_storage h then State_Monad.return True
          else do {
            root_protected \<leftarrow> ProtectDirectory e rule_set_root;
            if root_protected then ProtectDirectory e (slot_root d slot) else State_Monad.return False
          });
        if \<not> protected then State_Monad.return None
        else do {
          CleanupBundledRuleSets e slot;
          again \<leftarrow> EnsureDirectory e (slot_root d slot);
          protected_again \<leftarrow> (if \<not> again then State_Monad.return False
            else if rh_secure_storage h then ProtectDirectory e (slot_root d slot) else State_Monad.return True);
          if \<not> protected_again then State_Monad.return None
          else write_rule_sets e slot (slot_root d slot) 0 rule_sets []
        }
      })"

section \<open>Events and snapshots\<close>

definition RecordEvent :: "ServiceEvent \<Rightarrow> ServiceEventOutcome \<Rightarrow> unit host_action" where
  "RecordEvent event outcome = do {
     events \<leftarrow> my rh_events;
     if events then tell (SinkIo (SinkRecord event outcome)) else State_Monad.return ()
   }"

definition TransitionGuardArmed :: "RuntimeHost \<Rightarrow> bool" where
  "TransitionGuardArmed h \<longleftrightarrow> rh_has_guard h \<and> IsArmed (rh_guard h)"

text \<open>One service of \<^verbatim>\<open>ReadLocalDpiRuntimeObservation\<close>; \<^term>\<open>None\<close> ends the read without a result.\<close>

definition observe_service :: "env \<Rightarrow> nat \<Rightarrow> WindowsLocalDpiService \<Rightarrow> WindowsLocalDpiRuntimeObservation \<Rightarrow>
    WindowsLocalDpiRuntimeObservation option host_action" where
  "observe_service e service_count service result0 =
     (if ds_captured_admission_id service = [] then State_Monad.return None
      else do {
        encoded \<leftarrow> ask_text e (AdmissionIo (ReadLocalDpiObservation (ds_captured_admission_id service)));
        case ReadWindowsLocalDpiHolderObservation e encoded of
          None \<Rightarrow> State_Monad.return None
        | Some v \<Rightarrow>
            if of_int kMaximumCount - ro_local_handoffs result0 < ho_local_handoffs v \<or>
               of_int kMaximumCount - ro_vpn_handoffs result0 < ho_vpn_handoffs v
            then State_Monad.return None
            else do {
              h \<leftarrow> my id;
              (if service_count = 1 \<and> rh_events h \<and> \<not> rh_dpi_failure_reported h \<and>
                  ho_failure_reason v \<noteq> [] \<and> ho_failure_reason v \<noteq> ''none''
               then do {
                 alive \<leftarrow> executor_call (Alive e);
                 reported \<leftarrow> ask_bool e (SinkIo (SinkLocalDpi kRuntime_dpi
                   (case rh_active_strategy h of None \<Rightarrow> 0 | Some (_, st) \<Rightarrow> strategy_code st)
                   (ho_failure_reason v) alive));
                 change (\<lambda>h. h\<lparr>rh_dpi_failure_reported := reported\<rparr>)
               }
               else State_Monad.return ());
              (case rh_active_strategy h of
                 None \<Rightarrow> State_Monad.return ()
               | Some (network, st) \<Rightarrow> change (\<lambda>h. h\<lparr>rh_hints :=
                   InvalidateWindowsLocalDpiStrategyHint network (ds_service_id service) st v (rh_hints h)\<rparr>));
              State_Monad.return (Some \<lparr>
                ro_services = ro_services result0 + 1,
                ro_admitted = ro_admitted result0 + (if ho_state v = ''ready'' then 1 else 0),
                ro_failed = ro_failed result0 + (if ho_state v = ''failed'' then 1 else 0),
                ro_withdraw_completed = ro_withdraw_completed result0 + (if ho_withdraw_completed v then 1 else 0),
                ro_local_handoffs = ro_local_handoffs result0 + ho_local_handoffs v,
                ro_vpn_handoffs = ro_vpn_handoffs result0 + ho_vpn_handoffs v\<rparr>)
            }
      })"

fun observe_services :: "env \<Rightarrow> nat \<Rightarrow> WindowsLocalDpiService list \<Rightarrow> WindowsLocalDpiRuntimeObservation \<Rightarrow>
    WindowsLocalDpiRuntimeObservation option host_action" where
  "observe_services e n [] result0 = State_Monad.return (Some result0)"
| "observe_services e n (service # rest) result0 = do {
     observed \<leftarrow> observe_service e n service result0;
     case observed of None \<Rightarrow> State_Monad.return None | Some result1 \<Rightarrow> observe_services e n rest result1
   }"

definition ReadLocalDpiRuntimeObservation :: "env \<Rightarrow> WindowsLocalDpiRuntimeObservation option host_action" where
  "ReadLocalDpiRuntimeObservation e = do {
     h \<leftarrow> my id;
     case (rh_initialized h, rh_phase h, rh_preparation h) of
       (True, kRunning, Some p) \<Rightarrow>
         if rh_effective_digest h \<noteq> rh_dpi_profile_digest h then State_Monad.return None
         else do {
           digest \<leftarrow> ask_text e (CoreIo CoreModuleSHA256);
           if digest \<noteq> rh_dpi_core_digest h then State_Monad.return None
           else do {
             current \<leftarrow> WindowsLocalDpiPreparationCurrent e p;
             if \<not> current then State_Monad.return None
             else observe_services e (length (lp_services p)) (lp_services p)
               \<lparr>ro_services = 0, ro_admitted = 0, ro_failed = 0, ro_withdraw_completed = 0,
                 ro_local_handoffs = 0, ro_vpn_handoffs = 0\<rparr>
           }
         }
     | _ \<Rightarrow> State_Monad.return None
   }"

text \<open>\<^verbatim>\<open>std::to_string\<close> of an \<^verbatim>\<open>int\<close>\<close>

definition int_text :: "int \<Rightarrow> string" where
  "int_text n = (if n < 0 then CHR ''-'' # to_string (nat (- n)) else to_string (nat n))"

abbreviation (input) bit_text :: "bool \<Rightarrow> string" where
  "bit_text b \<equiv> (if b then ''1'' else ''0'')"

text \<open>A version number and a text of Core in the snapshot; Core is asked only once it is initialized.\<close>

definition core_version :: "env \<Rightarrow> bool \<Rightarrow> core_op \<Rightarrow> ('c, string) action" where
  "core_version e ready op =
     (if ready then do { v \<leftarrow> ask_int e (CoreIo op); State_Monad.return (int_text v) }
      else State_Monad.return (int_text 0))"

definition core_text :: "env \<Rightarrow> bool \<Rightarrow> core_op \<Rightarrow> ('c, string) action" where
  "core_text e ready op =
     (if \<not> ready then State_Monad.return ''none''
      else do {
        first \<leftarrow> ask_text e (CoreIo op);
        if first = [] then State_Monad.return ''none'' else ask_text e (CoreIo op)
      })"

definition observation_text :: "WindowsLocalDpiRuntimeObservation \<Rightarrow> string" where
  "observation_text v =
     '';windows_local_dpi_services='' @ to_string (unat (ro_services v)) @
     '';windows_local_dpi_admitted='' @ to_string (unat (ro_admitted v)) @
     '';windows_local_dpi_failed='' @ to_string (unat (ro_failed v)) @
     '';windows_local_dpi_withdraw_completed='' @ to_string (unat (ro_withdraw_completed v)) @
     '';windows_local_dpi_local_handoffs='' @ to_string (unat (ro_local_handoffs v)) @
     '';windows_local_dpi_vpn_handoffs='' @ to_string (unat (ro_vpn_handoffs v))"

text \<open>The fields of a snapshot that are read off the state; \<open>pending_phase\<close> names an operation under way.\<close>

definition state_text :: "string option \<Rightarrow> RuntimeHost \<Rightarrow> string" where
  "state_text pending_phase h =
     (let pending = (pending_phase \<noteq> None); guarded = TransitionGuardArmed h;
          verified = (\<not> pending \<and> \<not> guarded \<and> rh_egress_validated h)
      in ''phase='' @ (case pending_phase of Some p \<Rightarrow> p | None \<Rightarrow> PhaseName (phase_code (rh_phase h))) @
         '';core_ready='' @ bit_text (rh_initialized h) @
         '';can_initialize='' @ bit_text (\<not> pending \<and> rh_core h \<and> rh_runtime_root h \<noteq> []) @
         '';can_connect='' @ bit_text (\<not> pending \<and> rh_initialized h \<and> rh_profile_staged h \<and>
            \<not> rh_requires_bound_connect h \<and> rh_phase h = kConfigStaged) @
         '';running='' @ bit_text (\<not> pending \<and> rh_phase h = kRunning) @
         '';core_egress_validated='' @ bit_text verified @
         '';dns_ready='' @ bit_text verified @
         '';staged_profile_digest='' @ (if rh_staged_digest h = [] then ''none'' else rh_staged_digest h) @
         '';effective_profile_digest='' @
           (if pending \<or> rh_effective_digest h = [] then ''none'' else rh_effective_digest h) @
         '';failure='' @
           (if pending then ''none''
            else if rh_failure h = [] then (if guarded then ''transition_guard_active'' else ''none'')
            else rh_failure h))"

definition SnapshotBody :: "env \<Rightarrow> string option \<Rightarrow> string host_action" where
  "SnapshotBody e pending_phase = do {
     observed \<leftarrow> (if pending_phase = None then ReadLocalDpiRuntimeObservation e else State_Monad.return None);
     h \<leftarrow> my id;
     let ready = rh_initialized h;
     window_version \<leftarrow> core_version e ready RoutingCatalogWindowVersion;
     lease_version \<leftarrow> core_version e ready SmartAccessLeaseVersion;
     control_version \<leftarrow> core_version e ready RoutingCatalogControlVersion;
     runtime_control_version \<leftarrow> core_version e ready SmartAccessRuntimeControlVersion;
     capabilities \<leftarrow> core_text e ready TransportCapabilities;
     module_digest \<leftarrow> core_text e ready CoreModuleSHA256;
     version \<leftarrow> core_text e ready CoreVersion;
     slipstream \<leftarrow> (if ready then ask_bool e (CoreIo SlipstreamClientReady) else State_Monad.return False);
     State_Monad.return (state_text pending_phase h @
       '';routing_catalog_window_version='' @ window_version @
       '';smart_access_lease_version='' @ lease_version @
       '';routing_catalog_control_version='' @ control_version @
       '';smart_access_runtime_control_version='' @ runtime_control_version @
       '';transport_capabilities='' @ capabilities @
       '';core_module_sha256='' @ module_digest @
       '';core_version='' @ version @
       '';slipstream_client_ready='' @ bit_text slipstream @
       '';protection_retained='' @ bit_text (TransitionGuardArmed h) @
       '';windows_local_dpi_admission_version='' @ bit_text (rh_dpi_ready h) @
       (case observed of None \<Rightarrow> [] | Some v \<Rightarrow> observation_text v) @
       (if pending_phase = None \<and> starts_with ''core_egress_'' (rh_failure h)
        then (case rh_egress_observation h of None \<Rightarrow> [] | Some ob \<Rightarrow> EncodeEgressProbeObservation ob) else []))
   }"

definition Snapshot :: "env \<Rightarrow> RuntimeResult host_action" where
  "Snapshot e = do {
     body \<leftarrow> SnapshotBody e None;
     State_Monad.return (result kOk body)
   }"

definition PendingSnapshot :: "env \<Rightarrow> Command \<Rightarrow> RuntimeResult host_action" where
  "PendingSnapshot e command = do {
     body \<leftarrow> SnapshotBody e (Some (if IsConnectCommand command then ''connecting'' else ''busy''));
     State_Monad.return (result kOk body)
   }"

text \<open>The failure is a C string: it ends at a null character.\<close>

definition Fail :: "env \<Rightarrow> Status \<Rightarrow> string \<Rightarrow> RuntimeResult host_action" where
  "Fail e status failure = do {
     change (\<lambda>h. h\<lparr>rh_failure := takeWhile (\<lambda>c. c \<noteq> nul) failure\<rparr>);
     body \<leftarrow> SnapshotBody e None;
     State_Monad.return (result status body)
   }"

section \<open>Rollback\<close>

text \<open>The holders of Telegram admissions that remain, and whether every selected one was withdrawn.\<close>

fun withdraw_telegram :: "env \<Rightarrow> (string \<Rightarrow> bool) \<Rightarrow> (string \<times> string) list \<Rightarrow> (string \<times> string) list \<Rightarrow>
    ('c, bool \<times> (string \<times> string) list) action" where
  "withdraw_telegram e selected [] kept = State_Monad.return (True, kept)"
| "withdraw_telegram e selected ((tag, id') # rest) kept =
     (if \<not> selected tag then withdraw_telegram e selected rest (kept @ [(tag, id')])
      else do {
        owner \<leftarrow> ask_text e (AdmissionIo (ReadTelegramWSAdmissionID tag));
        withdrawn \<leftarrow> (if owner = id' then ask_int e (AdmissionIo (WithdrawTelegramWSAdmission id'))
                     else State_Monad.return 0);
        if withdrawn < 0 then State_Monad.return (False, kept @ (tag, id') # rest)
        else withdraw_telegram e selected rest kept
      })"

definition WithdrawTelegramWS :: "env \<Rightarrow> string \<Rightarrow> bool host_action" where
  "WithdrawTelegramWS e service_id = do {
     h \<leftarrow> my id;
     case rh_telegram h of
       None \<Rightarrow> State_Monad.return True
     | Some p \<Rightarrow> do {
         let selected = (\<lambda>tag. service_id = [] \<or> (service_id, tag) \<in> set (tp_services p));
         (ok, kept) \<leftarrow> withdraw_telegram e selected (rh_telegram_holders h) [];
         change (\<lambda>h. h\<lparr>rh_telegram_holders := kept\<rparr>);
         State_Monad.return ok
       }
   }"

definition ClearWindowsLocalDpiAfterCoreStopped :: "env \<Rightarrow> bool host_action" where
  "ClearWindowsLocalDpiAfterCoreStopped e = do {
     core \<leftarrow> my rh_core;
     stopped \<leftarrow> (if core then executor_call (StopAfterCoreStopped e) else State_Monad.return True);
     if \<not> stopped then State_Monad.return False
     else do {
       change (\<lambda>h. h\<lparr>rh_preparation := None, rh_active_strategy := None, rh_dpi_bind_interface := [],
         rh_telegram := None, rh_telegram_holders := [], rh_telegram_original_digest := [],
         rh_telegram_prepared_digest := [], rh_telegram_core_digest := [], rh_dpi_profile_digest := [],
         rh_dpi_core_digest := [], rh_dpi_disabled := False\<rparr>);
       h \<leftarrow> my id;
       if rh_profile_staged h \<and> rh_runtime_config h \<noteq> [] then do {
         error \<leftarrow> WriteProfileAtomically e (rh_runtime_config h);
         (if error \<noteq> [] then change (\<lambda>h. h\<lparr>rh_profile_staged := False\<rparr>) else State_Monad.return ());
         State_Monad.return True
       }
       else State_Monad.return True
     }
   }"

definition stop_executor :: "env \<Rightarrow> bool host_action" where
  "stop_executor e = do {
     core \<leftarrow> my rh_core;
     if core then executor_call (StopDpi e) else State_Monad.return True
   }"

text \<open>
  The part that \<^verbatim>\<open>RecoverPendingRuntime\<close> and \<^verbatim>\<open>RollbackRuntime\<close> share: they differ in the
  error that reports a failed stop of Core.
\<close>

definition roll_back :: "env \<Rightarrow> string \<Rightarrow> string host_action" where
  "roll_back e stop_failure = do {
     RecordEvent kRuntimeRollbackBegin kAttempted;
     begin_error \<leftarrow> recovery_call (BeginRollback e);
     RecordEvent kRuntimeCoreStop kAttempted;
     stop_error \<leftarrow> ask_text e (CoreIo CoreStop);
     local_dpi_stopped \<leftarrow> (if stop_error = [] then ClearWindowsLocalDpiAfterCoreStopped e else State_Monad.return False);
     if begin_error \<noteq> [] then do {
       RecordEvent kRuntimeRollbackBegin kFailed;
       State_Monad.return begin_error
     }
     else do {
       RecordEvent kRuntimeRollbackBegin kSucceeded;
       if stop_error \<noteq> [] then do {
         RecordEvent kRuntimeCoreStop kFailed;
         State_Monad.return stop_failure
       }
       else do {
         RecordEvent kRuntimeCoreStop kSucceeded;
         if \<not> local_dpi_stopped then State_Monad.return ''local_dpi_withdraw_failed''
         else do {
           RecordEvent kRuntimeNetworkRestore kAttempted;
           network_error \<leftarrow> recovery_call (RestoreNetworkState e);
           if network_error \<noteq> [] then do {
             RecordEvent kRuntimeNetworkRestore kFailed;
             State_Monad.return network_error
           }
           else do {
             RecordEvent kRuntimeNetworkRestore kSucceeded;
             RecordEvent kRuntimeRollbackComplete kAttempted;
             complete_error \<leftarrow> recovery_call (CompleteRollback e);
             RecordEvent kRuntimeRollbackComplete (if complete_error = [] then kSucceeded else kFailed);
             State_Monad.return complete_error
           }
         }
       }
     }
   }"

definition RecoverPendingRuntime :: "env \<Rightarrow> string host_action" where
  "RecoverPendingRuntime e = do {
     WithdrawTelegramWS e [];
     stop_executor e;
     h \<leftarrow> my id;
     if \<not> rh_has_recovery h then State_Monad.return ''recovery_unavailable''
     else if \<not> RequiresRecovery (rh_recovery h) then State_Monad.return []
     else roll_back e ''recovery_core_stop_failed''
   }"

definition RollbackRuntime :: "env \<Rightarrow> string host_action" where
  "RollbackRuntime e = do {
     ReadLocalDpiRuntimeObservation e;
     WithdrawTelegramWS e [];
     stop_executor e;
     recovery \<leftarrow> my rh_has_recovery;
     if \<not> recovery then do {
       RecordEvent kRuntimeCoreStop kAttempted;
       stop_error \<leftarrow> ask_text e (CoreIo CoreStop);
       (if stop_error = [] then ClearWindowsLocalDpiAfterCoreStopped e else State_Monad.return False);
       RecordEvent kRuntimeCoreStop kFailed;
       State_Monad.return ''recovery_unavailable''
     }
     else roll_back e ''core_stop_failed''
   }"

end
