(* ===== verification/Runtime_Connect.thy ===== *)
theory Runtime_Connect
  imports Runtime_Host
begin

text \<open>
  The lifecycle operations of \<^verbatim>\<open>RuntimeHost\<close>: initialization, staging, connecting, and the
  proof of egress.  \<^verbatim>\<open>ConnectImpl\<close> is split at its phases; a phase that returns early yields
  \<^term>\<open>Some\<close> result, and \<open>early\<close> chains the phases.
\<close>

definition early :: "('s, 'r option) state \<Rightarrow> ('s, 'r) state \<Rightarrow> ('s, 'r) state" where
  "early m k = do {
     r \<leftarrow> m;
     case r of Some x \<Rightarrow> State_Monad.return x | None \<Rightarrow> k
   }"

definition returning :: "('s, 'r) state \<Rightarrow> ('s, 'r option) state" where
  "returning m = do { r \<leftarrow> m; State_Monad.return (Some r) }"

section \<open>Construction and initialization\<close>

definition empty_directories :: RuntimeDirectories where
  "empty_directories = \<lparr>rd_base = [], rd_working = [], rd_temporary = [], rd_config = []\<rparr>"

definition NewRuntimeHost :: "bool \<Rightarrow> bool \<Rightarrow> bool \<Rightarrow> DurableRuntimeRecovery \<Rightarrow> string \<Rightarrow> bool \<Rightarrow> bool \<Rightarrow> bool \<Rightarrow> Guard \<Rightarrow>
    trace \<Rightarrow> RuntimeHost \<times> trace" where
  "NewRuntimeHost core egress_probe has_recovery recovery runtime_root secure_storage events has_guard guard t =
     (let ready = (core \<and> runtime_root \<noteq> [])
      in (\<lparr>rh_core = core, rh_executor = NewExecutor, rh_preparation = None, rh_dpi_profile_digest = [],
            rh_dpi_core_digest = [], rh_hints = [], rh_active_strategy = None, rh_dpi_bind_interface = [],
            rh_original_config = [], rh_runtime_config = [], rh_dpi_requested = False, rh_dpi_ready = False,
            rh_dpi_disabled = False, rh_dpi_failure_reported = False, rh_telegram = None, rh_telegram_holders = [],
            rh_telegram_original_digest = [], rh_telegram_prepared_digest = [], rh_telegram_core_digest = [],
            rh_telegram_requested = False, rh_telegram_ready = False, rh_egress_probe = egress_probe,
            rh_has_recovery = has_recovery, rh_recovery = recovery, rh_has_guard = has_guard, rh_guard = guard,
            rh_runtime_root = runtime_root, rh_events = events, rh_directories = empty_directories,
            rh_profile_path = [], rh_secure_storage = secure_storage, rh_initialized = False,
            rh_profile_staged = False, rh_requires_bound_connect = False, rh_staged_digest = [],
            rh_effective_digest = [], rh_disable_memory_limit = False, rh_rule_set_slot = 0,
            rh_egress_validated = False, rh_qa_config = [], rh_qa_result = None, rh_egress_observation = None,
            rh_phase = (if ready then kArtifactReady else kArtifactMissing),
            rh_failure = (if ready then [] else ''core_not_initialized'')\<rparr>,
          if core then (CoreIo CoreSetOperationalEventSink, AUnit) # t else t))"

definition refuse_initialize :: "env \<Rightarrow> string \<Rightarrow> RuntimeResult host_action" where
  "refuse_initialize e failure = do {
     RecordEvent kRuntimeInitialize kFailed;
     Fail e kNotReady failure
   }"

definition Initialize :: "env \<Rightarrow> RuntimeResult host_action" where
  "Initialize e = do {
     h \<leftarrow> my id;
     if rh_initialized h then Snapshot e
     else if \<not> rh_core h \<or> rh_runtime_root h = [] then refuse_initialize e ''core_missing''
     else do {
       RecordEvent kRuntimeInitialize kAttempted;
       prepared \<leftarrow> PrepareDirectories e;
       if \<not> prepared then refuse_initialize e ''runtime_directory_failed''
       else do {
         error \<leftarrow> ask_text e (CoreIo CoreInitialize);
         if error \<noteq> [] then refuse_initialize e error
         else do {
           change (\<lambda>h. h\<lparr>rh_initialized := True, rh_phase := kInitialized\<rparr>);
           recovery_error \<leftarrow> RecoverPendingRuntime e;
           if recovery_error \<noteq> [] then do {
             change (\<lambda>h. h\<lparr>rh_phase := kRecoveryRequired\<rparr>);
             RecordEvent kRuntimeRecoveryRequired kFailed;
             refuse_initialize e recovery_error
           }
           else do {
             change (\<lambda>h. h\<lparr>rh_failure := []\<rparr>);
             RecordEvent kRuntimeInitialize kSucceeded;
             dpi_version \<leftarrow> (if lib_catalog_trust e \<and> rh_has_guard h then ask_int e (AdmissionIo WindowsLocalDpiAdmissionVersion)
                            else State_Monad.return 0);
             dpi_ready \<leftarrow> (if dpi_version = 1 then executor_call (AssetsReady e) else State_Monad.return False);
             change (\<lambda>h. h\<lparr>rh_dpi_ready := dpi_ready\<rparr>);
             telegram_version \<leftarrow> (if lib_catalog_trust e then ask_int e (AdmissionIo TelegramWSAdmissionVersion)
                                 else State_Monad.return 0);
             change (\<lambda>h. h\<lparr>rh_telegram_ready := (telegram_version = 1)\<rparr>);
             Snapshot e
           }
         }
       }
     }
   }"

definition RecoverOnStartup :: "env \<Rightarrow> RuntimeResult host_action" where
  "RecoverOnStartup e = do {
     h \<leftarrow> my id;
     if \<not> rh_has_recovery h \<or> \<not> RequiresRecovery (rh_recovery h) then Snapshot e else Initialize e
   }"

section \<open>Staging\<close>

definition refuse_stage :: "env \<Rightarrow> Status \<Rightarrow> string \<Rightarrow> RuntimeResult host_action" where
  "refuse_stage e status failure = do {
     RecordEvent kRuntimeProfileStage kFailed;
     Fail e status failure
   }"

fun secure_files :: "env \<Rightarrow> string list \<Rightarrow> ('c, bool) action" where
  "secure_files e [] = State_Monad.return True"
| "secure_files e (path # rest) = do {
     error \<leftarrow> ask_text e (CoreIo (CoreSecureFile path));
     if error \<noteq> [] then State_Monad.return False else secure_files e rest
   }"

text \<open>The request line of a staged body: the memory limit flag and a line end.\<close>

definition stage_request :: "string \<Rightarrow> bool" where
  "stage_request body \<longleftrightarrow> 4 \<le> length body \<and> (body ! 0 = CHR ''0'' \<or> body ! 0 = CHR ''1'') \<and> body ! 1 = newline"

text \<open>The commit of a staged profile, from the writing of the profile file on.\<close>

definition commit_stage :: "env \<Rightarrow> string \<Rightarrow> bool \<Rightarrow> string \<Rightarrow> nat \<Rightarrow> string \<Rightarrow> RuntimeResult host_action" where
  "commit_stage e body requires_bound_connect profile_digest slot profile =
     (case StripWindowsLocalDpiMetadata e profile of
        None \<Rightarrow> do {
          CleanupBundledRuleSets e slot;
          Fail e kInvalid ''profile_payload_invalid''
        }
      | Some (runtime_copy, requests_local_dpi, requests_telegram_ws) \<Rightarrow> do {
          profile_error \<leftarrow> WriteProfileAtomically e runtime_copy;
          if profile_error \<noteq> [] then do {
            CleanupBundledRuleSets e slot;
            refuse_stage e kNotReady profile_error
          }
          else do {
            previous \<leftarrow> my rh_rule_set_slot;
            change (\<lambda>h. h\<lparr>rh_disable_memory_limit := (body ! 0 = CHR ''1''), rh_rule_set_slot := slot\<rparr>);
            (if previous \<noteq> 0 \<and> previous \<noteq> slot then CleanupBundledRuleSets e previous else State_Monad.return ());
            change (\<lambda>h. h\<lparr>rh_staged_digest := profile_digest, rh_original_config := profile,
              rh_runtime_config := runtime_copy, rh_dpi_requested := requests_local_dpi,
              rh_telegram_requested := requests_telegram_ws, rh_requires_bound_connect := requires_bound_connect,
              rh_effective_digest := [], rh_profile_staged := True, rh_egress_observation := None,
              rh_phase := kConfigStaged, rh_failure := []\<rparr>);
            RecordEvent kRuntimeProfileStage kSucceeded;
            Snapshot e
          }
        })"

definition stage_bundle :: "env \<Rightarrow> string \<Rightarrow> bool \<Rightarrow> string \<Rightarrow> ParsedProfileBundle \<Rightarrow> RuntimeResult host_action" where
  "stage_bundle e body requires_bound_connect profile_digest bundle = do {
     current_slot \<leftarrow> my rh_rule_set_slot;
     let slot = (if pb_rule_sets bundle = [] then 0 else if current_slot = 1 then 2 else 1);
     let profile = (if slot = 0 then pb_profile bundle
       else ReplaceAll (pb_profile bundle) kRuleSetSlotMarker (if slot = 1 then ''profile-a'' else ''profile-b''));
     if \<not> IsValidUtf8JsonObject (lib_utf8 e) profile then refuse_stage e kInvalid ''profile_payload_invalid''
     else do {
       written \<leftarrow> (if slot = 0 then State_Monad.return (Some []) else WriteBundledRuleSets e slot (pb_rule_sets bundle));
       case written of
         None \<Rightarrow> refuse_stage e kNotReady ''profile_write_failed''
       | Some paths \<Rightarrow> do {
           secured \<leftarrow> secure_files e paths;
           if \<not> secured then do {
             CleanupBundledRuleSets e slot;
             refuse_stage e kNotReady ''profile_security_failed''
           }
           else commit_stage e body requires_bound_connect profile_digest slot profile
         }
     }
   }"

definition StageProfile :: "env \<Rightarrow> string \<Rightarrow> bool \<Rightarrow> RuntimeResult host_action" where
  "StageProfile e body requires_bound_connect = do {
     RecordEvent kRuntimeProfileStage kAttempted;
     initialized \<leftarrow> my rh_initialized;
     started \<leftarrow> (if initialized then State_Monad.return None
       else do {
         r \<leftarrow> Initialize e;
         if rr_status r \<noteq> kOk then do {
           RecordEvent kRuntimeProfileStage kFailed;
           State_Monad.return (Some r)
         }
         else State_Monad.return None
       });
     case started of
       Some r \<Rightarrow> State_Monad.return r
     | None \<Rightarrow> do {
         phase \<leftarrow> my rh_phase;
         if phase = kRunning \<or> phase = kRecoveryRequired \<or> \<not> stage_request body
         then refuse_stage e kInvalid ''profile_request_invalid''
         else
           (let profile_digest = ProfileDigest (lib_hash e) body
            in if profile_digest = [] then Fail e kNotReady ''profile_identity_failed''
               else case ParseProfilePayload (drop 2 body) of
                 None \<Rightarrow> refuse_stage e kInvalid ''profile_payload_invalid''
               | Some bundle \<Rightarrow> stage_bundle e body requires_bound_connect profile_digest bundle)
       }
   }"

definition InvalidateProfile :: "env \<Rightarrow> RuntimeResult host_action" where
  "InvalidateProfile e = do {
     phase \<leftarrow> my rh_phase;
     if phase = kRunning then Fail e kNotReady ''runtime_running''
     else if phase = kRecoveryRequired then Fail e kNotReady ''recovery_required''
     else do {
       stopped \<leftarrow> stop_executor e;
       if \<not> stopped then Fail e kNotReady ''local_dpi_withdraw_failed''
       else do {
         change (\<lambda>h. h\<lparr>rh_preparation := None, rh_telegram := None, rh_telegram_holders := [],
           rh_original_config := [], rh_runtime_config := [], rh_dpi_requested := False,
           rh_telegram_requested := False\<rparr>);
         h \<leftarrow> my id;
         (if rh_profile_path h \<noteq> [] then ask_bool e (FileIo (DeleteFile (rh_profile_path h)))
          else State_Monad.return True);
         CleanupBundledRuleSets e (rh_rule_set_slot h);
         change (\<lambda>h. h\<lparr>rh_rule_set_slot := 0, rh_profile_staged := False, rh_requires_bound_connect := False,
           rh_staged_digest := [], rh_effective_digest := [], rh_disable_memory_limit := False,
           rh_phase := (if rh_initialized h then kInitialized else kArtifactReady), rh_failure := []\<rparr>);
         Snapshot e
       }
     }
   }"

section \<open>Proof of egress\<close>

definition CanRecheckEgress :: "RuntimeHost \<Rightarrow> bool" where
  "CanRecheckEgress h \<longleftrightarrow> rh_phase h = kRunning \<and> \<not> rh_requires_bound_connect h \<and> \<not> TransitionGuardArmed h"

definition VerifyEgress :: "env \<Rightarrow> bool \<Rightarrow> string host_action" where
  "VerifyEgress e periodic = do {
     change (\<lambda>h. h\<lparr>rh_egress_observation := None\<rparr>);
     h \<leftarrow> my id;
     case ReadWindowsSmartAccessProbeTarget e (rh_runtime_config h) False of
       (Some target, reserve) \<Rightarrow>
         if target = [] then State_Monad.return ''profile_payload_invalid''
         else do {
           version \<leftarrow> ask_int e (CoreIo SmartAccessProbeVersion);
           if version \<noteq> 1 then State_Monad.return ''core_egress_probe_unavailable''
           else ask_text e (CoreIo (ProbeSmartAccess target periodic))
         }
     | (None, reserve) \<Rightarrow>
         if \<not> rh_egress_probe h then State_Monad.return ''core_egress_probe_failed''
         else do {
           failure \<leftarrow> ask_text e (ProbeIo (ProbeVerify periodic reserve));
           if failure = [] then State_Monad.return []
           else do {
             observation \<leftarrow> ask (env_observation e) AObservation (ProbeIo ProbeLastObservation);
             (case observation of
                None \<Rightarrow> change (\<lambda>h. h\<lparr>rh_egress_observation := None\<rparr>)
              | Some ob \<Rightarrow> do {
                  dns \<leftarrow> ask (env_dns e) ADns (CoreIo FirstOwnedDnsObservation);
                  change (\<lambda>h. h\<lparr>rh_egress_observation := Some (ob\<lparr>eo_first_owned_dns_state := dns\<rparr>)\<rparr>)
                });
             State_Monad.return failure
           }
         }
   }"

definition RecheckEgress :: "env \<Rightarrow> CheckInterruption \<Rightarrow> RuntimeResult host_action" where
  "RecheckEgress e check = do {
     h \<leftarrow> my id;
     cancelled \<leftarrow> (if \<not> CanRecheckEgress h then State_Monad.return True
       else do { r \<leftarrow> interrupted_by e check; State_Monad.return (r = kCancelled) });
     if cancelled then Snapshot e
     else do {
       RecordEvent kRuntimeEgressVerify kAttempted;
       failure \<leftarrow> VerifyEgress e True;
       interruption \<leftarrow> interrupted_by e check;
       if interruption = kCancelled then do {
         change (\<lambda>h. h\<lparr>rh_egress_observation := None\<rparr>);
         Snapshot e
       }
       else if failure \<noteq> [] \<or> interruption = kDeadlineExceeded_interruption then do {
         change (\<lambda>h. h\<lparr>rh_egress_validated := False\<rparr>);
         RecordEvent kRuntimeEgressVerify kFailed;
         Fail e kNotReady
           (if interruption = kDeadlineExceeded_interruption \<and> failure \<noteq> ''core_egress_probe_unavailable''
            then ''core_egress_timeout'' else SafeEgressFailure failure)
       }
       else do {
         RecordEvent kRuntimeEgressVerify kSucceeded;
         change (\<lambda>h. h\<lparr>rh_egress_validated := True, rh_failure := []\<rparr>);
         Snapshot e
       }
     }
   }"

end
