(* ===== verification/Runtime_Lifecycle.thy ===== *)
theory Runtime_Lifecycle
  imports Runtime_Connect
begin

text \<open>
  \<^verbatim>\<open>ConnectImpl\<close> and its callers, the end of a connection, and the protected replacement of a
  profile.  A callback that the source builds as a closure over the host is an action made from
  the host at that point: the closures only read fields that do not change while they are in use.
\<close>

section \<open>Interruption of a connect\<close>

text \<open>Rollback, the phase that follows from it, and the failure to report when it succeeded.\<close>

definition rollback_phase :: "string \<Rightarrow> RuntimeHost \<Rightarrow> RuntimeHost" where
  "rollback_phase error h = h\<lparr>rh_phase := (if error = [] then kConfigStaged else kRecoveryRequired)\<rparr>"

definition clear_effective :: "RuntimeHost \<Rightarrow> RuntimeHost" where
  "clear_effective h = h\<lparr>rh_effective_digest := [], rh_egress_validated := False\<rparr>"

definition roll_back_and_fail :: "env \<Rightarrow> (RuntimeHost \<Rightarrow> RuntimeHost) \<Rightarrow> RuntimeResult host_action \<Rightarrow> RuntimeResult host_action" where
  "roll_back_and_fail e update reported = do {
     error \<leftarrow> RollbackRuntime e;
     change update;
     change (rollback_phase error);
     if error \<noteq> [] then do {
       RecordEvent kRuntimeRecoveryRequired kFailed;
       Fail e kNotReady error
     }
     else reported
   }"

definition interruption :: "env \<Rightarrow> CheckInterruption \<Rightarrow> string \<Rightarrow> bool \<Rightarrow> RuntimeResult option host_action" where
  "interruption e check expected_core_digest rollback = do {
     reason \<leftarrow> interrupted_by e check;
     identity_mismatch \<leftarrow> (if expected_core_digest = [] then State_Monad.return False
       else do { digest \<leftarrow> ask_text e (CoreIo CoreModuleSHA256); State_Monad.return (digest \<noteq> expected_core_digest) });
     if reason = kNone_interruption \<and> \<not> identity_mismatch then State_Monad.return None
     else do {
       let reported =
         (if identity_mismatch then Fail e kNotReady ''core_identity_mismatch''
          else if reason = kDeadlineExceeded_interruption
          then Fail e kDeadlineExceeded (if expected_core_digest = [] then ''deadline_exceeded'' else ''connect_deadline'')
          else Fail e kNotReady ''operation_cancelled'');
       returning (if rollback then roll_back_and_fail e clear_effective reported else reported)
     }
   }"

section \<open>Local DPI\<close>

definition local_dpi_owner_current :: "env \<Rightarrow> CheckInterruption \<Rightarrow> RuntimeHost \<Rightarrow> ('c, bool) action" where
  "local_dpi_owner_current e check h =
     (case rh_preparation h of
        None \<Rightarrow> State_Monad.return False
      | Some p \<Rightarrow> do {
          reason \<leftarrow> interrupted_by e check;
          if reason \<noteq> kNone_interruption \<or> rh_staged_digest h \<noteq> rh_dpi_profile_digest h then State_Monad.return False
          else do {
            digest \<leftarrow> ask_text e (CoreIo CoreModuleSHA256);
            if digest \<noteq> rh_dpi_core_digest h then State_Monad.return False
            else WindowsLocalDpiPreparationCurrent e p
          }
        })"

text \<open>\<open>current\<close> of the source: the owner is current and the child of the executor is alive.\<close>

definition owner_and_child :: "env \<Rightarrow> bool dpi_action \<Rightarrow> bool dpi_action" where
  "owner_and_child e owner = do {
     current \<leftarrow> owner;
     if current then Alive e else State_Monad.return False
   }"

definition owner_failure :: "bool dpi_action \<Rightarrow> string dpi_action" where
  "owner_failure owner = do {
     current \<leftarrow> owner;
     State_Monad.return (if current then ''local_dpi_child_failed'' else ''local_dpi_owner_changed'')
   }"

definition record_dpi :: "env \<Rightarrow> LocalDpiStage \<Rightarrow> WindowsLocalDpiStrategy \<Rightarrow> string \<Rightarrow> unit host_action" where
  "record_dpi e stage strategy failure = do {
     events \<leftarrow> my rh_events;
     if events then do {
       alive \<leftarrow> executor_call (Alive e);
       ask_bool e (SinkIo (SinkLocalDpi stage (strategy_code strategy) failure alive));
       State_Monad.return ()
     }
     else State_Monad.return ()
   }"

text \<open>What one service contributes: whether its proof failed retryably, whether it had a proof, and whether it was admitted.\<close>

definition prove_service :: "env \<Rightarrow> string \<Rightarrow> string \<Rightarrow> WindowsLocalDpiStrategy \<Rightarrow> bool dpi_action \<Rightarrow> bool \<Rightarrow> u64 \<Rightarrow>
    WindowsLocalDpiService \<Rightarrow> (bool \<times> bool \<times> bool) host_action" where
  "prove_service e network bind_interface strategy owner standalone_permit timeout service = do {
     verdict \<leftarrow> ask_text e (DpiIo (VerifyControlHost (ds_control_host service) bind_interface standalone_permit timeout));
     current \<leftarrow> executor_call (owner_and_child e owner);
     failure \<leftarrow> (if current then State_Monad.return verdict else executor_call (owner_failure owner));
     record_dpi e kProof_dpi strategy failure;
     if failure \<noteq> [] then do {
       (if WindowsLocalDpiRetryableProof failure
        then change (\<lambda>h. h\<lparr>rh_hints := RecordFailure network (ds_service_id service) strategy (rh_hints h)\<rparr>)
        else State_Monad.return ());
       State_Monad.return (WindowsLocalDpiRetryableProof failure, False, False)
     }
     else do {
       published \<leftarrow> executor_call (AdmitCaptured e (ds_outbound_tag service) (owner_and_child e owner));
       still \<leftarrow> executor_call (owner_and_child e owner);
       admission_failure \<leftarrow> (if still then State_Monad.return ''local_dpi_admission_failed''
                            else executor_call (owner_failure owner));
       record_dpi e kAdmit_dpi strategy (if published then [] else admission_failure);
       State_Monad.return (False, True, published)
     }
   }"

fun prove_services :: "env \<Rightarrow> string \<Rightarrow> string \<Rightarrow> WindowsLocalDpiStrategy \<Rightarrow> bool dpi_action \<Rightarrow> bool \<Rightarrow> u64 \<Rightarrow>
    WindowsLocalDpiService list \<Rightarrow> bool \<Rightarrow> bool \<Rightarrow> WindowsLocalDpiService list \<Rightarrow>
    (bool \<times> bool \<times> WindowsLocalDpiService list) host_action" where
  "prove_services e network bind_interface strategy owner standalone deadline [] transport any_proof admitted =
     State_Monad.return (transport, any_proof, admitted)"
| "prove_services e network bind_interface strategy owner standalone deadline (service # rest) transport any_proof admitted = do {
     now \<leftarrow> ask_u64 e TickCount;
     current \<leftarrow> executor_call (owner_and_child e owner);
     let timeout = (deadline - now) div of_nat (length (service # rest));
     if \<not> current \<or> deadline \<le> now \<or> timeout = 0 then State_Monad.return (transport, any_proof, admitted)
     else do {
       (retryable, proved, published) \<leftarrow> prove_service e network bind_interface strategy owner standalone timeout service;
       prove_services e network bind_interface strategy owner standalone deadline rest (transport \<or> retryable)
         (any_proof \<or> proved) (if published then admitted @ [service] else admitted)
     }
   }"

definition kProofBudgetMs :: u64 where "kProofBudgetMs = 10000"

text \<open>The admitted services, and whether another strategy may be tried (asked only when \<open>wants_retry\<close>).\<close>

definition ProveAndAdmitWindowsLocalDpi :: "env \<Rightarrow> string \<Rightarrow> string \<Rightarrow> WindowsLocalDpiStrategy \<Rightarrow> bool dpi_action \<Rightarrow> bool \<Rightarrow>
    bool \<Rightarrow> (WindowsLocalDpiService list \<times> bool) host_action" where
  "ProveAndAdmitWindowsLocalDpi e network bind_interface strategy owner standalone_permit wants_retry = do {
     h \<leftarrow> my id;
     let services = (case rh_preparation h of None \<Rightarrow> [] | Some p \<Rightarrow> lp_services p);
     start \<leftarrow> ask_u64 e TickCount;
     (transport_failure, any_proof, admitted) \<leftarrow>
       prove_services e network bind_interface strategy owner standalone_permit (start + kProofBudgetMs) services False False [];
     retryable \<leftarrow> (if wants_retry \<and> transport_failure \<and> \<not> any_proof then executor_call (owner_and_child e owner)
                  else State_Monad.return False);
     current \<leftarrow> executor_call (owner_and_child e owner);
     State_Monad.return (if current then admitted else [], retryable)
   }"

definition capture_admissions :: "RuntimeHost \<Rightarrow> RuntimeHost" where
  "capture_admissions h =
     (case rh_preparation h of
        None \<Rightarrow> h
      | Some p \<Rightarrow> h\<lparr>rh_preparation := Some (p\<lparr>lp_services :=
          map (\<lambda>s. s\<lparr>ds_captured_admission_id := CapturedAdmissionID (ds_outbound_tag s) (rh_executor h)\<rparr>) (lp_services p)\<rparr>)\<rparr>)"

text \<open>The attempts with the strategies in order; the one that was proved, with the services admitted under it.\<close>

fun try_strategies :: "env \<Rightarrow> CandidateNetworkContext \<Rightarrow> bool dpi_action \<Rightarrow> bool \<Rightarrow> WindowsLocalDpiStrategy list \<Rightarrow>
    (WindowsLocalDpiStrategy \<times> WindowsLocalDpiService list) option host_action" where
  "try_strategies e network owner first [] = State_Monad.return None"
| "try_strategies e network owner first (strategy # rest) = do {
     current \<leftarrow> executor_call owner;
     if \<not> current then State_Monad.return None
     else do {
       h \<leftarrow> my id;
       let services = (case rh_preparation h of None \<Rightarrow> [] | Some p \<Rightarrow> lp_services p);
       error \<leftarrow> executor_call
         (if first then StartPrepared e services (cn_bind_interface network) strategy owner
          else RetryPrepared e services (cn_bind_interface network) strategy owner);
       record_dpi e kStart_dpi strategy error;
       if error \<noteq> [] then State_Monad.return None
       else do {
         (if first then change capture_admissions else State_Monad.return ());
         (admitted, retryable) \<leftarrow> ProveAndAdmitWindowsLocalDpi e (cn_selection_key network) (cn_bind_interface network)
           strategy owner False True;
         if admitted \<noteq> [] then State_Monad.return (Some (strategy, admitted))
         else if \<not> retryable then State_Monad.return None
         else try_strategies e network owner False rest
       }
     }
   }"

definition roll_back_quietly :: "env \<Rightarrow> string \<Rightarrow> RuntimeResult host_action" where
  "roll_back_quietly e failure = do {
     error \<leftarrow> RollbackRuntime e;
     change (rollback_phase error);
     Fail e kNotReady (if error = [] then failure else error)
   }"

text \<open>The local DPI phase of a connect: an early result, or the strategy that was proved.\<close>

definition connect_local_dpi :: "env \<Rightarrow> CheckInterruption \<Rightarrow> CandidateNetworkContext option \<Rightarrow>
    (RuntimeResult + (WindowsLocalDpiStrategy \<times> WindowsLocalDpiService list) option) host_action" where
  "connect_local_dpi e check network = do {
     h \<leftarrow> my id;
     case (rh_preparation h, network) of
       (Some p, Some net) \<Rightarrow> do {
         let order = WindowsLocalDpiStrategyOrder (Preferred (cn_selection_key net) (lp_services p) (rh_hints h));
         proved \<leftarrow> try_strategies e net (local_dpi_owner_current e check h) True order;
         stopped \<leftarrow> (if proved = None then executor_call (StopDpi e) else State_Monad.return True);
         if \<not> stopped then do {
           r \<leftarrow> roll_back_quietly e ''local_dpi_withdraw_failed'';
           State_Monad.return (Inl r)
         }
         else do {
           (if proved = None then change (\<lambda>h. h\<lparr>rh_dpi_disabled := True\<rparr>) else State_Monad.return ());
           current \<leftarrow> WindowsLocalDpiPreparationCurrent e p;
           if \<not> current then do {
             r \<leftarrow> roll_back_quietly e ''local_dpi_catalog_expired'';
             State_Monad.return (Inl r)
           }
           else State_Monad.return (Inr proved)
         }
       }
     | _ \<Rightarrow> State_Monad.return (Inr None)
   }"

section \<open>Phases of a connect\<close>

text \<open>\<^verbatim>\<open>local_dpi_network && !local_dpi_network->bind_interface.empty()\<close>\<close>

definition bound_network :: "CandidateNetworkContext option \<Rightarrow> CandidateNetworkContext option" where
  "bound_network network = (case network of Some n \<Rightarrow> if cn_bind_interface n = [] then None else Some n | None \<Rightarrow> None)"

text \<open>The Telegram preparation: the configuration for the next step.\<close>

definition prepare_telegram :: "env \<Rightarrow> CandidateNetworkContext option \<Rightarrow> string \<Rightarrow> string host_action" where
  "prepare_telegram e network prepared_config = do {
     change (\<lambda>h. h\<lparr>rh_telegram := None, rh_telegram_holders := []\<rparr>);
     h \<leftarrow> my id;
     case (rh_telegram_requested h \<and> rh_telegram_ready h, bound_network network) of
       (True, Some net) \<Rightarrow> do {
         encoded \<leftarrow> ask_text e (AdmissionIo (PrepareTelegramWSProfile prepared_config (cn_bind_interface net)));
         prepared \<leftarrow> ReadWindowsTelegramWSPreparation e encoded;
         case prepared of
           None \<Rightarrow> State_Monad.return prepared_config
         | Some p \<Rightarrow> do {
             digest \<leftarrow> ask_text e (CoreIo CoreModuleSHA256);
             if digest = [] then State_Monad.return prepared_config
             else do {
               owner \<leftarrow> ask_text e (CoreIo CoreModuleSHA256);
               change (\<lambda>h. h\<lparr>rh_telegram := Some p, rh_telegram_original_digest := rh_staged_digest h,
                 rh_telegram_core_digest := owner\<rparr>);
               State_Monad.return (tp_profile p)
             }
           }
       }
     | _ \<Rightarrow> State_Monad.return prepared_config
   }"

text \<open>The local DPI preparation: an early result, or the configuration for the next step.\<close>

definition prepare_local_dpi :: "env \<Rightarrow> CandidateNetworkContext option \<Rightarrow> string \<Rightarrow> (RuntimeResult + string) host_action" where
  "prepare_local_dpi e network prepared_config = do {
     h \<leftarrow> my id;
     case (rh_dpi_requested h \<and> rh_dpi_ready h, bound_network network) of
       (True, Some net) \<Rightarrow> do {
         encoded \<leftarrow> ask_text e (AdmissionIo (PrepareWindowsLocalDpiProfile prepared_config (cn_bind_interface net)));
         prepared \<leftarrow> ReadWindowsLocalDpiPreparation e encoded;
         case prepared of
           None \<Rightarrow> State_Monad.return (Inr prepared_config)
         | Some p \<Rightarrow> do {
             digest \<leftarrow> ask_text e (CoreIo CoreModuleSHA256);
             if digest = [] then State_Monad.return (Inr prepared_config)
             else do {
               armed \<leftarrow> my TransitionGuardArmed;
               guard_error \<leftarrow> (if armed then State_Monad.return [] else guard_call (Start e));
               if guard_error \<noteq> [] then do {
                 r \<leftarrow> Fail e kNotReady ''transition_guard_failed'';
                 State_Monad.return (Inl r)
               }
               else do {
                 change (\<lambda>h. h\<lparr>rh_preparation := Some p, rh_dpi_disabled := False,
                   rh_dpi_profile_digest := rh_staged_digest h\<rparr>);
                 owner \<leftarrow> ask_text e (CoreIo CoreModuleSHA256);
                 change (\<lambda>h. h\<lparr>rh_dpi_core_digest := owner\<rparr>);
                 State_Monad.return (Inr (lp_profile p))
               }
             }
           }
       }
     | _ \<Rightarrow> State_Monad.return (Inr prepared_config)
   }"

text \<open>The prepared profile replaces the staged one on disk.\<close>

definition write_prepared :: "env \<Rightarrow> string \<Rightarrow> RuntimeResult option host_action" where
  "write_prepared e prepared_config = do {
     h \<leftarrow> my id;
     if rh_telegram h = None \<and> rh_preparation h = None then State_Monad.return None
     else case StripWindowsLocalDpiMetadata e prepared_config of
       None \<Rightarrow> returning (Fail e kInvalid ''profile_payload_invalid'')
     | Some (final_profile, _, _) \<Rightarrow> do {
         write_error \<leftarrow> WriteProfileAtomically e final_profile;
         if write_error \<noteq> [] then returning (Fail e kNotReady write_error)
         else case rh_telegram h of
           None \<Rightarrow> State_Monad.return None
         | Some p \<Rightarrow> do {
             change (\<lambda>h. h\<lparr>rh_telegram := Some (p\<lparr>tp_profile := final_profile\<rparr>),
               rh_telegram_prepared_digest := ProfileDigest (lib_hash e) final_profile\<rparr>);
             if ProfileDigest (lib_hash e) final_profile = [] then returning (Fail e kNotReady ''profile_identity_failed'')
             else State_Monad.return None
           }
       }
   }"

definition connect_prepare :: "env \<Rightarrow> CandidateNetworkContext option \<Rightarrow> RuntimeResult option host_action" where
  "connect_prepare e network = do {
     change (\<lambda>h. h\<lparr>rh_egress_observation := None, rh_preparation := None, rh_dpi_failure_reported := False,
       rh_qa_config := [], rh_qa_result := None\<rparr>);
     config \<leftarrow> my rh_runtime_config;
     staged_write_error \<leftarrow> WriteProfileAtomically e config;
     if staged_write_error \<noteq> [] then returning (Fail e kNotReady staged_write_error)
     else do {
       original \<leftarrow> my rh_original_config;
       with_telegram \<leftarrow> prepare_telegram e network original;
       prepared \<leftarrow> prepare_local_dpi e network with_telegram;
       case prepared of
         Inl r \<Rightarrow> State_Monad.return (Some r)
       | Inr prepared_config \<Rightarrow> write_prepared e prepared_config
     }
   }"

text \<open>The conditions under which a connect is refused without touching anything; \<^term>\<open>None\<close> admits it.\<close>

definition connect_admission :: "env \<Rightarrow> string \<Rightarrow> CheckInterruption \<Rightarrow> string \<Rightarrow> RuntimeResult option host_action" where
  "connect_admission e expected_profile_digest check expected_core_digest = do {
     h \<leftarrow> my id;
     if \<not> rh_initialized h \<or> \<not> rh_profile_staged h then returning (Fail e kNotReady ''profile_not_staged'')
     else if \<not> IsProfileDigest expected_profile_digest \<or> expected_profile_digest \<noteq> rh_staged_digest h
     then returning (Fail e kNotReady ''profile_identity_mismatch'')
     else do {
       stopped \<leftarrow> interruption e check expected_core_digest False;
       case stopped of
         Some r \<Rightarrow> State_Monad.return (Some r)
       | None \<Rightarrow> do {
           interruptible \<leftarrow> (if expected_core_digest = [] then State_Monad.return True
                            else ask_bool e (CoreIo SupportsInterruptibleStart));
           if \<not> interruptible then returning (Fail e kNotReady ''core_abi_incompatible'')
           else if rh_phase h = kRunning then returning (Snapshot e)
           else if rh_phase h = kRecoveryRequired then returning (Fail e kNotReady ''recovery_required'')
           else if \<not> rh_has_recovery h then returning (Fail e kNotReady ''recovery_unavailable'')
           else State_Monad.return None
         }
     }
   }"

definition connect_begin :: "env \<Rightarrow> RuntimeResult option host_action" where
  "connect_begin e = do {
     RecordEvent kRuntimeNetworkSnapshot kAttempted;
     recovery_error \<leftarrow> recovery_call (Begin e);
     if recovery_error \<noteq> [] then do {
       RecordEvent kRuntimeNetworkSnapshot kFailed;
       returning (Fail e kNotReady recovery_error)
     }
     else do {
       RecordEvent kRuntimeNetworkSnapshot kSucceeded;
       State_Monad.return None
     }
   }"

definition connect_mark_start :: "env \<Rightarrow> RuntimeResult option host_action" where
  "connect_mark_start e = do {
     recovery_error \<leftarrow> recovery_call (Record e kCoreStarted);
     if recovery_error \<noteq> [] then returning (roll_back_and_fail e id (Fail e kNotReady recovery_error))
     else State_Monad.return None
   }"

text \<open>The five outcomes of a start, with the one of Core first.\<close>

definition record_start :: "ServiceEventOutcome \<Rightarrow> ServiceEventOutcome \<Rightarrow> unit host_action" where
  "record_start core others = do {
     RecordEvent kRuntimeCoreStart core;
     RecordEvent kRuntimeWintunStart others;
     RecordEvent kRuntimeAdapterApply others;
     RecordEvent kRuntimeRouteApply others;
     RecordEvent kRuntimeDnsApply others
   }"

definition start_core :: "env \<Rightarrow> string \<Rightarrow> string host_action" where
  "start_core e expected_core_digest = do {
     h \<leftarrow> my id;
     ask_text e (CoreIo
       (if expected_core_digest = [] then CoreStart (rh_profile_path h) (rh_disable_memory_limit h)
        else CoreStartInterruptible (rh_profile_path h) (rh_disable_memory_limit h)))
   }"

text \<open>A failed start: an interruption is reported first, otherwise the start is rolled back.\<close>

definition connect_start_failed :: "env \<Rightarrow> CheckInterruption \<Rightarrow> string \<Rightarrow> RuntimeResult host_action" where
  "connect_start_failed e check expected_core_digest =
     early (interruption e check expected_core_digest True)
       (do {
          record_start kFailed kFailed;
          roll_back_and_fail e id (Fail e kNotReady ''core_start_failed'')
        })"

definition connect_network_applied :: "env \<Rightarrow> RuntimeResult option host_action" where
  "connect_network_applied e = do {
     recovery_error \<leftarrow> recovery_call (Record e kNetworkApplied);
     if recovery_error \<noteq> [] then do {
       record_start kSucceeded kFailed;
       returning (roll_back_and_fail e id (Fail e kNotReady recovery_error))
     }
     else do {
       record_start kSucceeded kSucceeded;
       State_Monad.return None
     }
   }"

definition connect_egress :: "env \<Rightarrow> CheckInterruption \<Rightarrow> string \<Rightarrow> RuntimeResult option host_action" where
  "connect_egress e check expected_core_digest = do {
     bound \<leftarrow> my rh_requires_bound_connect;
     if bound then State_Monad.return None
     else do {
       RecordEvent kRuntimeEgressVerify kAttempted;
       egress_failure \<leftarrow> VerifyEgress e False;
       stopped \<leftarrow> interruption e check expected_core_digest True;
       case stopped of
         Some r \<Rightarrow> State_Monad.return (Some r)
       | None \<Rightarrow>
           if egress_failure \<noteq> [] then do {
             RecordEvent kRuntimeEgressVerify kFailed;
             returning (roll_back_and_fail e clear_effective (Fail e kNotReady (SafeEgressFailure egress_failure)))
           }
           else do {
             RecordEvent kRuntimeEgressVerify kSucceeded;
             State_Monad.return None
           }
     }
   }"

definition connect_commit :: "env \<Rightarrow> CheckInterruption \<Rightarrow> string \<Rightarrow> RuntimeResult option host_action" where
  "connect_commit e check expected_core_digest = do {
     RecordEvent kRuntimeCommit kAttempted;
     verified_error \<leftarrow> recovery_call (Record e kVerified);
     stopped \<leftarrow> (if verified_error = [] then interruption e check expected_core_digest True else State_Monad.return None);
     case stopped of
       Some r \<Rightarrow> State_Monad.return (Some r)
     | None \<Rightarrow> do {
         recovery_error \<leftarrow> (if verified_error = [] then recovery_call (Record e kCommitted) else State_Monad.return verified_error);
         if recovery_error \<noteq> [] then do {
           RecordEvent kRuntimeCommit kFailed;
           returning (roll_back_and_fail e clear_effective (Fail e kNotReady recovery_error))
         }
         else interruption e check expected_core_digest True
       }
   }"

section \<open>Telegram admissions\<close>

definition telegram_current :: "env \<Rightarrow> CheckInterruption \<Rightarrow> CheckInterruption \<Rightarrow> RuntimeHost \<Rightarrow>
    WindowsTelegramWSPreparation \<Rightarrow> ('c, bool) action" where
  "telegram_current e check telegram_check h p = do {
     reason \<leftarrow> interrupted_by e check;
     telegram_reason \<leftarrow> (if reason = kNone_interruption then interrupted_by e telegram_check else State_Monad.return reason);
     if telegram_reason \<noteq> kNone_interruption \<or> rh_staged_digest h \<noteq> rh_telegram_original_digest h
     then State_Monad.return False
     else do {
       digest \<leftarrow> ask_text e (CoreIo CoreModuleSHA256);
       if digest \<noteq> rh_telegram_core_digest h then State_Monad.return False
       else do {
         current \<leftarrow> WindowsTelegramWSPreparationCurrent e p;
         State_Monad.return (current \<and> ProfileDigest (lib_hash e) (tp_profile p) = rh_telegram_prepared_digest h)
       }
     }
   }"

fun capture_telegram :: "env \<Rightarrow> string list \<Rightarrow> bool host_action" where
  "capture_telegram e [] = State_Monad.return True"
| "capture_telegram e (tag # rest) = do {
     id' \<leftarrow> ask_text e (AdmissionIo (ReadTelegramWSAdmissionID tag));
     if id' = [] then State_Monad.return False
     else do {
       change (\<lambda>h. h\<lparr>rh_telegram_holders := rh_telegram_holders h @ [(tag, id')]\<rparr>);
       capture_telegram e rest
     }
   }"

fun admit_telegram :: "env \<Rightarrow> bool host_action \<Rightarrow> (string \<times> string) list \<Rightarrow> bool host_action" where
  "admit_telegram e current [] = State_Monad.return True"
| "admit_telegram e current ((tag, id') # rest) = do {
     before \<leftarrow> current;
     owner \<leftarrow> (if before then ask_text e (AdmissionIo (ReadTelegramWSAdmissionID tag)) else State_Monad.return []);
     admitted \<leftarrow> (if before \<and> owner = id' then ask_int e (AdmissionIo (AdmitTelegramWSAdmission id')) else State_Monad.return 0);
     after \<leftarrow> (if admitted = 1 then current else State_Monad.return False);
     owner_after \<leftarrow> (if after then ask_text e (AdmissionIo (ReadTelegramWSAdmissionID tag)) else State_Monad.return []);
     if after \<and> owner_after = id' then admit_telegram e current rest else State_Monad.return False
   }"

definition connect_telegram :: "env \<Rightarrow> CheckInterruption \<Rightarrow> CheckInterruption \<Rightarrow> unit host_action" where
  "connect_telegram e check telegram_check = do {
     h \<leftarrow> my id;
     case rh_telegram h of
       None \<Rightarrow> State_Monad.return ()
     | Some p \<Rightarrow> do {
         let current = telegram_current e check telegram_check h p;
         first \<leftarrow> current;
         captured \<leftarrow> capture_telegram e (map snd (tp_services p));
         holders \<leftarrow> my rh_telegram_holders;
         admitted \<leftarrow> (if first \<and> captured then admit_telegram e current holders
                     else State_Monad.return (first \<and> captured));
         (if admitted then State_Monad.return True else WithdrawTelegramWS e []);
         State_Monad.return ()
       }
   }"

section \<open>Connect\<close>

definition connect_finish :: "env \<Rightarrow> CheckInterruption \<Rightarrow> bool \<Rightarrow> CandidateNetworkContext option \<Rightarrow>
    (WindowsLocalDpiStrategy \<times> WindowsLocalDpiService list) option \<Rightarrow> RuntimeResult host_action" where
  "connect_finish e check finish_transition_guard network proved = do {
     change (\<lambda>h. h\<lparr>rh_effective_digest := rh_staged_digest h, rh_egress_validated := \<not> rh_requires_bound_connect h,
       rh_phase := kRunning, rh_failure := []\<rparr>);
     RecordEvent kRuntimeCommit kSucceeded;
     h \<leftarrow> my id;
     guard_error \<leftarrow> (if finish_transition_guard \<and> rh_egress_validated h \<and> TransitionGuardArmed h
                    then guard_call (Finish e) else State_Monad.return []);
     if guard_error \<noteq> [] then do {
       change (\<lambda>h. h\<lparr>rh_egress_validated := False\<rparr>);
       Fail e kNotReady ''transition_guard_failed''
     }
     else do {
       (case (proved, network) of
          (Some (strategy, admitted), Some net) \<Rightarrow> do {
            h \<leftarrow> my id;
            current \<leftarrow> executor_call (owner_and_child e (local_dpi_owner_current e check h));
            if current then change (\<lambda>h. h\<lparr>rh_active_strategy := Some (cn_selection_key net, strategy),
              rh_dpi_bind_interface := cn_bind_interface net,
              rh_hints := RecordSuccess (cn_selection_key net) admitted strategy (rh_hints h)\<rparr>)
            else State_Monad.return ()
          }
        | _ \<Rightarrow> State_Monad.return ());
       Snapshot e
     }
   }"

text \<open>From a started Core on.\<close>

definition connect_started :: "env \<Rightarrow> CheckInterruption \<Rightarrow> string \<Rightarrow> bool \<Rightarrow> CandidateNetworkContext option \<Rightarrow>
    CheckInterruption \<Rightarrow> RuntimeResult host_action" where
  "connect_started e check expected_core_digest finish_transition_guard network telegram_check =
     early (interruption e check expected_core_digest True)
       (early (connect_network_applied e)
         (early (interruption e check expected_core_digest True)
           (early (connect_egress e check expected_core_digest)
             (do {
                dpi \<leftarrow> connect_local_dpi e check network;
                case dpi of
                  Inl r \<Rightarrow> State_Monad.return r
                | Inr proved \<Rightarrow>
                    early (connect_commit e check expected_core_digest)
                      (do {
                         connect_telegram e check telegram_check;
                         connect_finish e check finish_transition_guard network proved
                       })
              }))))"

definition ConnectImpl :: "env \<Rightarrow> string \<Rightarrow> CheckInterruption \<Rightarrow> string \<Rightarrow> bool \<Rightarrow> CandidateNetworkContext option \<Rightarrow>
    CheckInterruption \<Rightarrow> RuntimeResult host_action" where
  "ConnectImpl e expected_profile_digest check expected_core_digest finish_transition_guard network telegram_check =
     early (connect_admission e expected_profile_digest check expected_core_digest)
       (early (connect_prepare e network)
         (early (connect_begin e)
           (early (interruption e check expected_core_digest True)
             (early (connect_mark_start e)
               (early (interruption e check expected_core_digest True)
                 (do {
                    record_start kAttempted kAttempted;
                    early (interruption e check expected_core_digest True)
                      (do {
                         start_error \<leftarrow> start_core e expected_core_digest;
                         if start_error \<noteq> [] then connect_start_failed e check expected_core_digest
                         else connect_started e check expected_core_digest finish_transition_guard network telegram_check
                       })
                  }))))))"

definition Connect :: "env \<Rightarrow> string \<Rightarrow> CheckInterruption \<Rightarrow> CandidateNetworkContext option \<Rightarrow> CheckInterruption \<Rightarrow>
    RuntimeResult host_action" where
  "Connect e expected_profile_digest check network telegram_check = do {
     bound \<leftarrow> my rh_requires_bound_connect;
     if bound then Fail e kNotReady ''profile_identity_mismatch''
     else ConnectImpl e expected_profile_digest check [] True network telegram_check
   }"

definition ConnectWithIdentity :: "env \<Rightarrow> BoundConnectTarget \<Rightarrow> CheckInterruption \<Rightarrow> CandidateNetworkContext option \<Rightarrow>
    CheckInterruption \<Rightarrow> RuntimeResult host_action" where
  "ConnectWithIdentity e target check network telegram_check =
     (if EncodeBoundConnect target = [] then State_Monad.return (result kInvalid ''invalid_connect_identity'')
      else do {
        phase \<leftarrow> my rh_phase;
        if phase = kRunning \<or> phase = kRecoveryRequired then State_Monad.return (result kNotReady ''runtime_busy'')
        else ConnectImpl e (bc_profile_digest target) (BoundCheck target check) (bc_core_module_sha256 target) True
               network telegram_check
      })"

section \<open>Disconnect and replacement\<close>

definition end_connection :: "string \<Rightarrow> RuntimeHost \<Rightarrow> RuntimeHost" where
  "end_connection error h = h\<lparr>rh_effective_digest := [], rh_egress_validated := False,
     rh_phase := (if error = [] then (if rh_profile_staged h then kConfigStaged else kInitialized) else kRecoveryRequired)\<rparr>"

definition explicit_off :: "env \<Rightarrow> bool \<Rightarrow> RuntimeResult host_action" where
  "explicit_off e explicit_disconnect = do {
     guard \<leftarrow> my rh_has_guard;
     guard_error \<leftarrow> (if explicit_disconnect \<and> guard then guard_call (ExplicitOff e) else State_Monad.return []);
     if guard_error \<noteq> [] then Fail e kNotReady ''transition_guard_failed'' else Snapshot e
   }"

definition Disconnect :: "env \<Rightarrow> bool \<Rightarrow> RuntimeResult host_action" where
  "Disconnect e explicit_disconnect = do {
     h \<leftarrow> my id;
     if \<not> rh_initialized h \<or> (rh_phase h \<noteq> kRunning \<and> rh_phase h \<noteq> kRecoveryRequired)
     then explicit_off e explicit_disconnect
     else do {
       error \<leftarrow> RollbackRuntime e;
       change (end_connection error);
       if error \<noteq> [] then do {
         RecordEvent kRuntimeRecoveryRequired kFailed;
         Fail e kNotReady error
       }
       else do {
         change (\<lambda>h. h\<lparr>rh_failure := []\<rparr>);
         explicit_off e explicit_disconnect
       }
     }
   }"

definition Shutdown :: "env \<Rightarrow> unit host_action" where
  "Shutdown e = do {
     WithdrawTelegramWS e [];
     stop_executor e;
     h \<leftarrow> my id;
     if rh_core h \<and> rh_initialized h \<and> (rh_phase h = kRunning \<or> rh_phase h = kRecoveryRequired) then do {
       error \<leftarrow> RollbackRuntime e;
       change (end_connection error)
     }
     else State_Monad.return ()
   }"

definition CancelProtectedHandoff :: "env \<Rightarrow> RuntimeResult host_action" where
  "CancelProtectedHandoff e = do {
     guard \<leftarrow> my rh_has_guard;
     guard_error \<leftarrow> (if guard then guard_call (Start e) else State_Monad.return ''transition_guard_failed'');
     if guard_error \<noteq> [] then Fail e kNotReady ''transition_guard_failed'' else Disconnect e False
   }"

definition finish_replacement :: "env \<Rightarrow> string \<Rightarrow> CheckInterruption \<Rightarrow> RuntimeResult host_action" where
  "finish_replacement e body check = do {
     h \<leftarrow> my id;
     if rh_phase h \<noteq> kRunning \<or> \<not> rh_egress_validated h \<or> rh_effective_digest h \<noteq> ProfileDigest (lib_hash e) body
     then Fail e kNotReady ''protected_handoff_unavailable''
     else do {
       reason \<leftarrow> interrupted_by e check;
       if reason \<noteq> kNone_interruption then do {
         cancelled \<leftarrow> Disconnect e False;
         if rr_status cancelled = kOk then Fail e kNotReady ''operation_cancelled'' else State_Monad.return cancelled
       }
       else do {
         guard_error \<leftarrow> guard_call (Finish e);
         if guard_error \<noteq> [] then do {
           change (\<lambda>h. h\<lparr>rh_egress_validated := False\<rparr>);
           Fail e kNotReady ''transition_guard_failed''
         }
         else Snapshot e
       }
     }
   }"

definition ReplaceManagedProfile :: "env \<Rightarrow> string \<Rightarrow> CheckInterruption \<Rightarrow> CandidateNetworkContext option \<Rightarrow>
    CheckInterruption \<Rightarrow> RuntimeResult host_action" where
  "ReplaceManagedProfile e body check network telegram_check = do {
     h \<leftarrow> my id;
     if \<not> rh_has_guard h \<or> rh_requires_bound_connect h \<or> (rh_phase h \<noteq> kRunning \<and> \<not> IsArmed (rh_guard h))
     then Fail e kNotReady ''protected_handoff_unavailable''
     else do {
       guard_error \<leftarrow> guard_call (Start e);
       if guard_error \<noteq> [] then Fail e kNotReady ''transition_guard_failed''
       else do {
         stopped \<leftarrow> Disconnect e False;
         if rr_status stopped \<noteq> kOk then State_Monad.return stopped
         else do {
           reason \<leftarrow> interrupted_by e check;
           if reason \<noteq> kNone_interruption then Fail e kNotReady ''operation_cancelled''
           else do {
             staged \<leftarrow> StageProfile e body False;
             if rr_status staged \<noteq> kOk then State_Monad.return staged
             else do {
               connected \<leftarrow> ConnectImpl e (ProfileDigest (lib_hash e) body) check [] False network telegram_check;
               if rr_status connected \<noteq> kOk then State_Monad.return connected
               else finish_replacement e body check
             }
           }
         }
       }
     }
   }"

definition replacement_requests :: "env \<Rightarrow> string \<Rightarrow> (bool \<times> bool) option" where
  "replacement_requests e body =
     (if \<not> stage_request body then None
      else case ParseProfilePayload (drop 2 body) of
        None \<Rightarrow> None
      | Some bundle \<Rightarrow> map_option snd (StripWindowsLocalDpiMetadata e (pb_profile bundle)))"

definition ReplacementRequestsWindowsLocalDpi :: "env \<Rightarrow> string \<Rightarrow> RuntimeHost \<Rightarrow> bool" where
  "ReplacementRequestsWindowsLocalDpi e body h \<longleftrightarrow>
     rh_dpi_ready h \<and> (case replacement_requests e body of Some (requested, _) \<Rightarrow> requested | None \<Rightarrow> False)"

definition ReplacementRequestsTelegramWS :: "env \<Rightarrow> string \<Rightarrow> RuntimeHost \<Rightarrow> bool" where
  "ReplacementRequestsTelegramWS e body h \<longleftrightarrow>
     rh_telegram_ready h \<and> (case replacement_requests e body of Some (_, telegram) \<Rightarrow> telegram | None \<Rightarrow> False)"

end
