(* ===== verification/Runtime_Control.thy ===== *)
theory Runtime_Control
  imports Runtime_Lifecycle
begin

text \<open>
  The operations of \<^verbatim>\<open>RuntimeHost\<close> on a running connection: transport leases, Smart Access
  leases and policies, the routing catalog, and the maintenance of local DPI and Telegram
  admissions.
\<close>

section \<open>Transport leases\<close>

definition PromoteTransportLease :: "env \<Rightarrow> TransportLeasePromotion \<Rightarrow> RuntimeResult host_action" where
  "PromoteTransportLease e target = do {
     h \<leftarrow> my id;
     confirmed \<leftarrow> (if EncodeTransportLeasePromotion target = [] \<or> \<not> rh_initialized h \<or> rh_phase h \<noteq> kRunning \<or>
         \<not> rh_requires_bound_connect h \<or> rh_effective_digest h \<noteq> tp_profile_digest target
       then State_Monad.return 0 else ask_int e (CoreIo (ConfirmATSLease target)));
     if confirmed \<noteq> 1 then State_Monad.return (result kNotReady ''transport_lease_handoff_unconfirmed'')
     else do {
       change (\<lambda>h. h\<lparr>rh_egress_validated := True\<rparr>);
       Snapshot e
     }
   }"

definition RevokeTransportLease :: "env \<Rightarrow> TransportLeaseRevocation \<Rightarrow> RuntimeResult host_action" where
  "RevokeTransportLease e target = do {
     h \<leftarrow> my id;
     if EncodeTransportLeaseRevocation target = [] \<or> \<not> rh_initialized h \<or> rh_phase h \<noteq> kRunning \<or>
        \<not> rh_requires_bound_connect h \<or> rh_effective_digest h \<noteq> tr_profile_digest target
     then State_Monad.return (result kNotReady ''transport_lease_revocation_unconfirmed'')
     else do {
       change (\<lambda>h. h\<lparr>rh_egress_validated := False\<rparr>);
       revoked \<leftarrow> ask_int e (CoreIo (RevokeATSLease target));
       if revoked \<noteq> 1 then State_Monad.return (result kNotReady ''transport_lease_revocation_unconfirmed'')
       else Snapshot e
     }
   }"

section \<open>Smart Access\<close>

text \<open>\<^verbatim>\<open>initialized_ && phase_ == kRunning && effective_profile_digest_ == digest\<close>\<close>

definition runs_profile :: "RuntimeHost \<Rightarrow> string \<Rightarrow> bool" where
  "runs_profile h digest \<longleftrightarrow> rh_initialized h \<and> rh_phase h = kRunning \<and> rh_effective_digest h = digest"

definition unstage :: "RuntimeHost \<Rightarrow> RuntimeHost" where
  "unstage h = h\<lparr>rh_profile_staged := False, rh_staged_digest := []\<rparr>"

definition unstage_profile :: "string \<Rightarrow> RuntimeHost \<Rightarrow> RuntimeHost" where
  "unstage_profile digest h = (if rh_staged_digest h = digest then unstage h else h)"

text \<open>The answer of a revocation by Core: 0 and 1 are confirmations, and 1 also unstages the profile.\<close>

definition revocation_answer :: "int \<Rightarrow> string \<Rightarrow> string \<Rightarrow> string \<Rightarrow> RuntimeResult host_action" where
  "revocation_answer answer digest unavailable name =
     (if answer \<noteq> 0 \<and> answer \<noteq> 1 then State_Monad.return (result kNotReady unavailable)
      else do {
        (if answer = 1 then change (unstage_profile digest) else State_Monad.return ());
        State_Monad.return (result kOk (name @ (if answer = 1 then ''=1'' else ''=0'')))
      })"

definition RevokeSmartAccessLease :: "env \<Rightarrow> string \<Rightarrow> RuntimeResult host_action" where
  "RevokeSmartAccessLease e body =
     (case DecodeSmartAccessRevocation body of
        None \<Rightarrow> State_Monad.return (result kInvalid ''invalid_smart_access_revocation'')
      | Some target \<Rightarrow> do {
          h \<leftarrow> my id;
          if \<not> runs_profile h (sr_profile_digest target)
          then State_Monad.return (result kNotReady ''smart_access_profile_changed'')
          else do {
            answer \<leftarrow> ask_int e (CoreIo (CoreRevokeSmartAccessLease (sr_lease_id target) (sr_terminate_active target)));
            revocation_answer answer (sr_profile_digest target) ''smart_access_revoke_unavailable'' ''revoked''
          }
        })"

definition ReadSmartAccessRestrictions :: "env \<Rightarrow> RuntimeResult host_action" where
  "ReadSmartAccessRestrictions e = do {
     initialized \<leftarrow> my rh_initialized;
     version \<leftarrow> (if initialized then ask_int e (CoreIo SmartAccessRuntimeControlVersion) else State_Monad.return 0);
     if version \<noteq> 1 then State_Monad.return (result kNotReady ''smart_access_restriction_read_unavailable'')
     else do {
       body \<leftarrow> ask_text e (CoreIo CoreReadSmartAccessRestrictions);
       State_Monad.return (if body = [] \<or> kMaxRestrictionSnapshotBodySize < length body
         then result kNotReady ''smart_access_restriction_read_unconfirmed'' else result kOk body)
     }
   }"

definition ReadSmartAccessLeases :: "env \<Rightarrow> string \<Rightarrow> RuntimeResult host_action" where
  "ReadSmartAccessLeases e profile_digest =
     (if \<not> IsProfileDigest profile_digest then State_Monad.return (result kInvalid ''invalid_smart_access_profile'')
      else do {
        h \<leftarrow> my id;
        if \<not> runs_profile h profile_digest then State_Monad.return (result kNotReady ''smart_access_profile_changed'')
        else do {
          version \<leftarrow> ask_int e (CoreIo SmartAccessRuntimeControlVersion);
          if version \<noteq> 1 then State_Monad.return (result kUnsupported ''smart_access_lease_read_unsupported'')
          else do {
            body \<leftarrow> ask_text e (CoreIo CoreReadSmartAccessLeases);
            State_Monad.return (if body = [] \<or> kMaxSmartAccessLeasesBodySize < length body
              then result kNotReady ''smart_access_lease_read_unconfirmed'' else result kOk body)
          }
        }
      })"

definition AcknowledgeSmartAccessRestrictions :: "env \<Rightarrow> string \<Rightarrow> RuntimeResult host_action" where
  "AcknowledgeSmartAccessRestrictions e digest =
     (if \<not> IsProfileDigest digest then State_Monad.return (result kInvalid ''smart_access_restriction_ack_invalid'')
      else do {
        initialized \<leftarrow> my rh_initialized;
        version \<leftarrow> (if initialized then ask_int e (CoreIo SmartAccessRuntimeControlVersion) else State_Monad.return 0);
        if version \<noteq> 1 then State_Monad.return (result kNotReady ''smart_access_restriction_ack_unavailable'')
        else do {
          acknowledged \<leftarrow> ask_int e (CoreIo (CoreAcknowledgeSmartAccessRestrictions digest));
          State_Monad.return (if acknowledged \<noteq> 0 \<and> acknowledged \<noteq> 1
            then result kNotReady ''smart_access_restriction_ack_unconfirmed''
            else result kOk (if acknowledged = 1 then ''acknowledged=1'' else ''acknowledged=0''))
        }
      })"

text \<open>The result with which a first-provider admission is interrupted.\<close>

definition qa_stopped :: "env \<Rightarrow> CheckInterruption \<Rightarrow> ('c, RuntimeResult option) action" where
  "qa_stopped e check = do {
     reason \<leftarrow> interrupted_by e check;
     State_Monad.return
       (if reason = kNone_interruption then None
        else if reason = kDeadlineExceeded_interruption then Some (result kDeadlineExceeded ''connect_deadline'')
        else Some (result kNotReady ''operation_cancelled''))
   }"

definition qa_failure :: "env \<Rightarrow> string option \<Rightarrow> ('c, string) action" where
  "qa_failure e target =
     (case target of
        None \<Rightarrow> State_Monad.return ''core_egress_probe_unavailable''
      | Some tag \<Rightarrow>
          if tag = [] then State_Monad.return ''profile_payload_invalid''
          else do {
            version \<leftarrow> ask_int e (CoreIo SmartAccessProbeVersion);
            if version \<noteq> 1 then State_Monad.return ''core_egress_probe_unavailable''
            else ask_text e (CoreIo (ProbeSmartAccess tag True))
          })"

text \<open>The single admission of the first provider under a live Core; its result is kept.\<close>

definition qa_admit :: "env \<Rightarrow> CheckInterruption \<Rightarrow> string \<Rightarrow> RuntimeResult host_action" where
  "qa_admit e check config = do {
     stopped \<leftarrow> qa_stopped e check;
     h \<leftarrow> my id;
     case (stopped, rh_qa_result h) of
       (Some r, None) \<Rightarrow> do {
         change (\<lambda>h. h\<lparr>rh_qa_config := config, rh_qa_result := Some r\<rparr>);
         State_Monad.return r
       }
     | (Some r, Some _) \<Rightarrow> State_Monad.return r
     | (None, Some kept) \<Rightarrow> State_Monad.return kept
     | (None, None) \<Rightarrow> do {
         change (\<lambda>h. h\<lparr>rh_qa_config := config\<rparr>);
         failure \<leftarrow> qa_failure e (fst (ReadWindowsSmartAccessProbeTarget e (rh_runtime_config h) True));
         later \<leftarrow> (if failure = [] then qa_stopped e check else State_Monad.return None);
         let outcome = (case later of Some r \<Rightarrow> r
           | None \<Rightarrow> if failure = [] then result kOk ''configured=1'' else result kNotReady failure);
         change (\<lambda>h. h\<lparr>rh_qa_result := Some outcome\<rparr>);
         State_Monad.return outcome
       }
   }"

definition ConfigureSmartAccessRuntimeControl :: "env \<Rightarrow> string \<Rightarrow> bool \<Rightarrow> CheckInterruption \<Rightarrow> RuntimeResult host_action" where
  "ConfigureSmartAccessRuntimeControl e body renewal qa_check =
     (if \<not> IsSmartAccessRuntimeControl body then State_Monad.return (result kInvalid ''invalid_smart_access_runtime_control'')
      else do {
        let profile_digest = take 64 body;
        h \<leftarrow> my id;
        if \<not> runs_profile h profile_digest then State_Monad.return (result kNotReady ''smart_access_profile_changed'')
        else do {
          version \<leftarrow> ask_int e (CoreIo SmartAccessRuntimeControlVersion);
          if version \<noteq> 1 then State_Monad.return (result kUnsupported ''smart_access_runtime_control_unsupported'')
          else do {
            let config = drop 65 body;
            let qa_admission = (\<not> renewal \<and> qa_check \<noteq> NoCheck \<and> IsWindowsFirstProviderQaRuntimeControl e config);
            if qa_admission \<and> (\<not> rh_egress_validated h \<or> rh_requires_bound_connect h)
            then State_Monad.return (result kNotReady ''core_egress_probe_unavailable'')
            else if qa_admission \<and> rh_qa_config h \<noteq> [] \<and> rh_qa_config h \<noteq> config
            then State_Monad.return (result kNotReady ''smart_access_runtime_control_unconfirmed'')
            else do {
              change (unstage_profile profile_digest);
              answer \<leftarrow> ask_int e (CoreIo
                (if renewal then CoreConfigureSmartAccessRenewal profile_digest config
                 else CoreConfigureSmartAccessRuntimeControl profile_digest config));
              if answer \<noteq> 0 \<and> answer \<noteq> 1
              then State_Monad.return (result kNotReady ''smart_access_runtime_control_unconfirmed'')
              else if answer = 1 \<and> qa_admission then qa_admit e qa_check config
              else State_Monad.return (result kOk (if answer = 1 then ''configured=1'' else ''configured=0''))
            }
          }
        }
      })"

definition RenewSmartAccessLease :: "env \<Rightarrow> string \<Rightarrow> RuntimeResult host_action" where
  "RenewSmartAccessLease e body =
     (case DecodeSmartAccessRenewal body of
        None \<Rightarrow> State_Monad.return (result kInvalid ''invalid_smart_access_renewal'')
      | Some target \<Rightarrow> do {
          h \<leftarrow> my id;
          if \<not> runs_profile h (sn_profile_digest target)
          then State_Monad.return (result kNotReady ''smart_access_profile_changed'')
          else do {
            version \<leftarrow> ask_int e (CoreIo RoutingCatalogControlVersion);
            if version \<noteq> 4 then State_Monad.return (result kUnsupported ''smart_access_renewal_unsupported'')
            else do {
              change (unstage_profile (sn_profile_digest target));
              answer \<leftarrow> ask_int e (CoreIo (CoreRenewSmartAccessLease target));
              State_Monad.return (if answer \<noteq> 0 \<and> answer \<noteq> 1
                then result kNotReady ''smart_access_renewal_unconfirmed''
                else result kOk (if answer = 1 then ''renewed=1'' else ''renewed=0''))
            }
          }
        })"

definition RevokeSmartAccessPolicy :: "env \<Rightarrow> string \<Rightarrow> RuntimeResult host_action" where
  "RevokeSmartAccessPolicy e body =
     (if \<not> IsSmartAccessPolicyRevocation body
      then State_Monad.return (result kInvalid ''invalid_smart_access_revocation'')
      else do {
        h \<leftarrow> my id;
        if \<not> runs_profile h (take 64 body) then State_Monad.return (result kNotReady ''smart_access_profile_changed'')
        else do {
          answer \<leftarrow> ask_int e (CoreIo (CoreRevokeSmartAccessPolicy (body ! 65 = CHR ''1'')));
          revocation_answer answer (take 64 body) ''smart_access_revoke_unavailable'' ''revoked''
        }
      })"

section \<open>The routing catalog\<close>

text \<open>A revocation under local DPI ends the connection behind the transition guard.\<close>

definition revoke_protected :: "env \<Rightarrow> RuntimeResult host_action" where
  "revoke_protected e = do {
     stopped \<leftarrow> CancelProtectedHandoff e;
     if rr_status stopped \<noteq> kOk then State_Monad.return stopped
     else do {
       change unstage;
       State_Monad.return (result kOk ''catalog_revoked=1'')
     }
   }"

definition RevokeRoutingCatalog :: "env \<Rightarrow> string \<Rightarrow> RuntimeResult host_action" where
  "RevokeRoutingCatalog e profile_digest =
     (if \<not> IsProfileDigest profile_digest then State_Monad.return (result kInvalid ''invalid_catalog_revocation'')
      else do {
        h \<leftarrow> my id;
        if \<not> runs_profile h profile_digest then State_Monad.return (result kNotReady ''catalog_profile_changed'')
        else do {
          withdrawn \<leftarrow> WithdrawTelegramWS e [];
          if \<not> withdrawn then Fail e kNotReady ''telegram_ws_withdraw_failed''
          else if rh_preparation h \<noteq> None then revoke_protected e
          else do {
            stopped \<leftarrow> stop_executor e;
            if \<not> stopped then Fail e kNotReady ''local_dpi_withdraw_failed''
            else do {
              answer \<leftarrow> ask_int e (CoreIo CoreRevokeRoutingCatalog);
              revocation_answer answer profile_digest ''catalog_revoke_unavailable'' ''catalog_revoked''
            }
          }
        }
      })"

definition RevokeRoutingCatalogService :: "env \<Rightarrow> string \<Rightarrow> RuntimeResult host_action" where
  "RevokeRoutingCatalogService e body =
     (if \<not> IsRoutingCatalogServiceRevocation body then State_Monad.return (result kInvalid ''invalid_catalog_revocation'')
      else do {
        let profile_digest = take 64 body;
        let service_id = drop 65 body;
        h \<leftarrow> my id;
        if \<not> runs_profile h profile_digest then State_Monad.return (result kNotReady ''catalog_profile_changed'')
        else do {
          withdrawn \<leftarrow> (case rh_telegram h of
              None \<Rightarrow> State_Monad.return True
            | Some p \<Rightarrow> if service_id \<in> fst ` set (tp_services p) then WithdrawTelegramWS e service_id
                        else State_Monad.return True);
          if \<not> withdrawn then Fail e kNotReady ''telegram_ws_withdraw_failed''
          else if (case rh_preparation h of None \<Rightarrow> False | Some p \<Rightarrow> service_id \<in> ds_service_id ` set (lp_services p))
          then revoke_protected e
          else do {
            stopped \<leftarrow> (if rh_preparation h = None then stop_executor e else State_Monad.return True);
            if \<not> stopped then Fail e kNotReady ''local_dpi_withdraw_failed''
            else do {
              answer \<leftarrow> ask_int e (CoreIo (CoreRevokeRoutingCatalogService service_id));
              revocation_answer answer profile_digest ''catalog_revoke_unavailable'' ''catalog_revoked''
            }
          }
        }
      })"

section \<open>Maintenance\<close>

fun any_telegram_changed :: "env \<Rightarrow> (string \<times> string) list \<Rightarrow> ('c, bool) action" where
  "any_telegram_changed e [] = State_Monad.return False"
| "any_telegram_changed e ((tag, id') # rest) = do {
     owner \<leftarrow> ask_text e (AdmissionIo (ReadTelegramWSAdmissionID tag));
     if owner \<noteq> id' then State_Monad.return True else any_telegram_changed e rest
   }"

definition telegram_changed :: "env \<Rightarrow> WindowsTelegramWSPreparation \<Rightarrow> RuntimeHost \<Rightarrow> ('c, bool) action" where
  "telegram_changed e p h =
     (if rh_effective_digest h \<noteq> rh_telegram_original_digest h then State_Monad.return True
      else do {
        digest \<leftarrow> ask_text e (CoreIo CoreModuleSHA256);
        if digest \<noteq> rh_telegram_core_digest h \<or> ProfileDigest (lib_hash e) (tp_profile p) \<noteq> rh_telegram_prepared_digest h
        then State_Monad.return True
        else any_telegram_changed e (rh_telegram_holders h)
      })"

definition MaintainTelegramWS :: "env \<Rightarrow> CheckInterruption \<Rightarrow> RuntimeResult host_action" where
  "MaintainTelegramWS e check = do {
     h \<leftarrow> my id;
     case (rh_telegram h, rh_phase h) of
       (Some p, kRunning) \<Rightarrow> do {
         changed \<leftarrow> telegram_changed e p h;
         current \<leftarrow> (if changed then State_Monad.return False else WindowsTelegramWSPreparationCurrent e p);
         reason \<leftarrow> (if current then interrupted_by e check else State_Monad.return kCancelled);
         if reason = kNone_interruption then Snapshot e
         else do {
           withdrawn \<leftarrow> WithdrawTelegramWS e [];
           if \<not> withdrawn then Fail e kNotReady ''telegram_ws_withdraw_failed'' else Snapshot e
         }
       }
     | _ \<Rightarrow> Snapshot e
   }"

text \<open>\<^verbatim>\<open>effective_profile_digest_ != local_dpi_profile_digest_ || CoreModuleSHA256() != local_dpi_core_digest_\<close>\<close>

definition dpi_owner_changed :: "env \<Rightarrow> RuntimeHost \<Rightarrow> ('c, bool) action" where
  "dpi_owner_changed e h =
     (if rh_effective_digest h \<noteq> rh_dpi_profile_digest h then State_Monad.return True
      else do {
        digest \<leftarrow> ask_text e (CoreIo CoreModuleSHA256);
        State_Monad.return (digest \<noteq> rh_dpi_core_digest h)
      })"

text \<open>The connection ends behind the guard, and its profile cannot be connected again.\<close>

definition end_dpi_owner :: "env \<Rightarrow> string \<Rightarrow> RuntimeResult host_action" where
  "end_dpi_owner e failure = do {
     stopped \<leftarrow> CancelProtectedHandoff e;
     if rr_status stopped \<noteq> kOk then State_Monad.return stopped
     else do {
       change unstage;
       Fail e kNotReady failure
     }
   }"

definition dpi_withdraw_failed :: "env \<Rightarrow> RuntimeResult host_action" where
  "dpi_withdraw_failed e = do {
     stopped \<leftarrow> CancelProtectedHandoff e;
     if rr_status stopped = kOk then Fail e kNotReady ''local_dpi_withdraw_failed'' else State_Monad.return stopped
   }"

fun all_retryable :: "env \<Rightarrow> WindowsLocalDpiService list \<Rightarrow> ('c, bool) action" where
  "all_retryable e [] = State_Monad.return True"
| "all_retryable e (service # rest) =
     (if ds_captured_admission_id service = [] then State_Monad.return False
      else do {
        owner \<leftarrow> ask_text e (AdmissionIo (ReadLocalDpiAdmissionID (ds_outbound_tag service)));
        if owner \<noteq> ds_captured_admission_id service then State_Monad.return False
        else do {
          encoded \<leftarrow> ask_text e (AdmissionIo (ReadLocalDpiObservation (ds_captured_admission_id service)));
          case ReadWindowsLocalDpiHolderObservation e encoded of
            None \<Rightarrow> State_Monad.return False
          | Some ob \<Rightarrow> if WindowsLocalDpiRetryableRuntime ob then all_retryable e rest else State_Monad.return False
        }
      })"

definition maintenance_owner :: "env \<Rightarrow> CheckInterruption \<Rightarrow> RuntimeHost \<Rightarrow> WindowsLocalDpiPreparation \<Rightarrow> ('c, bool) action" where
  "maintenance_owner e check h p = do {
     reason \<leftarrow> (if rh_phase h = kRunning then interrupted_by e check else State_Monad.return kCancelled);
     changed \<leftarrow> (if reason = kNone_interruption then dpi_owner_changed e h else State_Monad.return True);
     if changed then State_Monad.return False else WindowsLocalDpiPreparationCurrent e p
   }"

text \<open>The replacement of a strategy under which every holder failed; \<^term>\<open>None\<close> continues to the snapshot.\<close>

definition replace_strategy :: "env \<Rightarrow> CheckInterruption \<Rightarrow> WindowsLocalDpiPreparation \<Rightarrow> string \<Rightarrow> WindowsLocalDpiStrategy \<Rightarrow>
    RuntimeResult option host_action" where
  "replace_strategy e check p network active = do {
     ReadLocalDpiRuntimeObservation e;
     h \<leftarrow> my id;
     let owner = maintenance_owner e check h p;
     let strategy = WindowsLocalDpiStrategyOrder active ! 1;
     change (\<lambda>h. h\<lparr>rh_dpi_disabled := True\<rparr>);
     start_failure \<leftarrow> executor_call (RetryAfterRuntimeFailure e (lp_services p) (rh_dpi_bind_interface h) strategy owner);
     record_dpi e kStart_dpi strategy start_failure;
     change capture_admissions;
     g \<leftarrow> my id;
     (admitted, _) \<leftarrow> (if start_failure = []
       then ProveAndAdmitWindowsLocalDpi e network (rh_dpi_bind_interface h) strategy owner
              (rh_has_guard g \<and> \<not> IsArmed (rh_guard g)) False
       else State_Monad.return ([], False));
     current \<leftarrow> (if admitted = [] then State_Monad.return False else executor_call (owner_and_child e owner));
     stopped \<leftarrow> (if current then do {
         change (\<lambda>h. h\<lparr>rh_active_strategy := Some (network, strategy),
           rh_hints := RecordSuccess network admitted strategy (rh_hints h),
           rh_dpi_failure_reported := False, rh_dpi_disabled := False\<rparr>);
         State_Monad.return True
       }
       else executor_call (StopDpi e));
     if \<not> stopped then returning (dpi_withdraw_failed e)
     else do {
       still \<leftarrow> WindowsLocalDpiPreparationCurrent e p;
       changed \<leftarrow> (if still then dpi_owner_changed e h else State_Monad.return True);
       if still \<and> \<not> changed then State_Monad.return None
       else do {
         current_now \<leftarrow> WindowsLocalDpiPreparationCurrent e p;
         returning (end_dpi_owner e (if current_now then ''local_dpi_owner_changed'' else ''local_dpi_catalog_expired''))
       }
     }
   }"

definition MaintainWindowsLocalDpi :: "env \<Rightarrow> CheckInterruption \<Rightarrow> RuntimeResult host_action" where
  "MaintainWindowsLocalDpi e check = do {
     h \<leftarrow> my id;
     case (rh_preparation h, rh_phase h) of
       (Some p, kRunning) \<Rightarrow> do {
         current \<leftarrow> WindowsLocalDpiPreparationCurrent e p;
         changed \<leftarrow> dpi_owner_changed e h;
         if \<not> current \<or> changed
         then end_dpi_owner e (if \<not> current then ''local_dpi_catalog_expired'' else ''local_dpi_owner_changed'')
         else do {
           reason \<leftarrow> (if rh_dpi_disabled h then State_Monad.return kNone_interruption else interrupted_by e check);
           alive \<leftarrow> (if rh_dpi_disabled h \<or> reason \<noteq> kNone_interruption then State_Monad.return True
                    else executor_call (Alive e));
           let withdraw = (\<not> rh_dpi_disabled h \<and> (reason \<noteq> kNone_interruption \<or> \<not> alive));
           stopped \<leftarrow> (if withdraw then executor_call (StopDpi e) else State_Monad.return True);
           if \<not> stopped then dpi_withdraw_failed e
           else do {
             (if withdraw then change (\<lambda>h. h\<lparr>rh_dpi_disabled := True\<rparr>) else State_Monad.return ());
             g \<leftarrow> my id;
             case (rh_dpi_disabled g, rh_active_strategy g) of
               (False, Some (network, active)) \<Rightarrow> do {
                 retryable \<leftarrow> all_retryable e (lp_services p);
                 if \<not> retryable then Snapshot e
                 else early (replace_strategy e check p network active) (Snapshot e)
               }
             | _ \<Rightarrow> Snapshot e
           }
         }
       }
     | _ \<Rightarrow> Snapshot e
   }"

end
