(* ===== verification/Effects.thy ===== *)
theory Effects
  imports World
begin

text \<open>
  Two compositional judgements on state transformers that complement the triples of
  \<^verbatim>\<open>World.thy\<close>: which operations an action may perform (\<open>emits\<close>) and which part of its state it
  leaves alone (\<open>frames\<close>).  Both pass through \<^const>\<open>zoom\<close>, so that facts about a component hold
  of the calls its owner makes to it.
\<close>

named_theorems effect \<open>rules for the judgements emits and frames\<close>

definition emits :: "(io \<Rightarrow> bool) \<Rightarrow> ('c, 'a) action \<Rightarrow> bool" where
  "emits P m \<longleftrightarrow> (\<forall>c t. \<exists>new. snd (snd (run_state m (c, t))) = new @ t \<and> list_all (\<lambda>(op, a). P op) new)"

definition frames :: "('c \<Rightarrow> 'b) \<Rightarrow> ('c, 'a) action \<Rightarrow> bool" where
  "frames f m \<longleftrightarrow> (\<forall>c t. f (fst (snd (run_state m (c, t)))) = f c)"

lemma emitsD:
  "emits P m \<Longrightarrow> run_state m (c, t) = (a, (c', t')) \<Longrightarrow> \<exists>new. t' = new @ t \<and> list_all (\<lambda>(op, a). P op) new"
  unfolding emits_def by (metis snd_conv)

lemma framesD: "frames f m \<Longrightarrow> run_state m (c, t) = (a, (c', t')) \<Longrightarrow> f c' = f c"
  unfolding frames_def by (metis fst_conv snd_conv)

lemma emits_mono: "emits P m \<Longrightarrow> (\<And>op. P op \<Longrightarrow> Q op) \<Longrightarrow> emits Q m"
  unfolding emits_def by (fastforce simp: list_all_iff)

lemma emits_return [effect]: "emits P (State_Monad.return a)"
  by (simp add: emits_def run_simps)

lemma emits_bind [effect]:
  assumes "emits P m" and "\<And>a. emits P (f a)"
  shows "emits P (State_Monad.bind m f)"
  unfolding emits_def
proof (intro allI)
  fix c t
  obtain a c1 t1 where m: "run_state m (c, t) = (a, (c1, t1))" by (metis prod.exhaust)
  obtain b c2 t2 where f: "run_state (f a) (c1, t1) = (b, (c2, t2))" by (metis prod.exhaust)
  from emitsD [OF assms(1) m] emitsD [OF assms(2) f] obtain x y where
    "t1 = x @ t" "list_all (\<lambda>(op, a). P op) x" "t2 = y @ t1" "list_all (\<lambda>(op, a). P op) y" by blast
  then have "t2 = (y @ x) @ t \<and> list_all (\<lambda>(op, a). P op) (y @ x)" by simp
  then show "\<exists>new. snd (snd (run_state (State_Monad.bind m f) (c, t))) = new @ t \<and> list_all (\<lambda>(op, a). P op) new"
    by (intro exI [of _ "y @ x"]) (simp add: run_simps m f)
qed

lemma emits_if [effect]: "(b \<Longrightarrow> emits P m) \<Longrightarrow> (\<not> b \<Longrightarrow> emits P n) \<Longrightarrow> emits P (if b then m else n)"
  by simp

lemma emits_option [effect]:
  "(x = None \<Longrightarrow> emits P m) \<Longrightarrow> (\<And>y. x = Some y \<Longrightarrow> emits P (f y)) \<Longrightarrow> emits P (case x of None \<Rightarrow> m | Some y \<Rightarrow> f y)"
  by (cases x) simp_all

lemma emits_prod [effect]: "(\<And>a b. emits P (f a b)) \<Longrightarrow> emits P (case x of (a, b) \<Rightarrow> f a b)"
  by (cases x) simp

lemma emits_let [effect]: "(\<And>x. emits P (f x)) \<Longrightarrow> emits P (let y = x in f y)"
  by simp

lemma emits_ask [effect]: "P op \<Longrightarrow> emits P (ask f w op)"
  by (simp add: emits_def run_simps)

lemma emits_tell [effect]: "P op \<Longrightarrow> emits P (tell op)"
  by (simp add: emits_def run_simps)

lemma emits_my [effect]: "emits P (my f)"
  by (simp add: emits_def run_simps)

lemma emits_change [effect]: "emits P (change f)"
  by (simp add: emits_def run_simps)

lemma emits_zoom [effect]: "emits P m \<Longrightarrow> emits P (zoom g p m)"
  unfolding emits_def by (simp add: run_simps split: prod.splits) (metis snd_conv)

lemma frames_return [effect]: "frames f (State_Monad.return a)"
  by (simp add: frames_def run_simps)

lemma frames_bind [effect]: "frames f m \<Longrightarrow> (\<And>a. frames f (k a)) \<Longrightarrow> frames f (State_Monad.bind m k)"
  unfolding frames_def by (simp add: run_simps split: prod.splits) (metis fst_conv snd_conv)

lemma frames_if [effect]: "(b \<Longrightarrow> frames f m) \<Longrightarrow> (\<not> b \<Longrightarrow> frames f n) \<Longrightarrow> frames f (if b then m else n)"
  by simp

lemma frames_option [effect]:
  "(x = None \<Longrightarrow> frames f m) \<Longrightarrow> (\<And>y. x = Some y \<Longrightarrow> frames f (k y)) \<Longrightarrow> frames f (case x of None \<Rightarrow> m | Some y \<Rightarrow> k y)"
  by (cases x) simp_all

lemma frames_prod [effect]: "(\<And>a b. frames f (k a b)) \<Longrightarrow> frames f (case x of (a, b) \<Rightarrow> k a b)"
  by (cases x) simp

lemma frames_let [effect]: "(\<And>x. frames f (k x)) \<Longrightarrow> frames f (let y = x in k y)"
  by simp

lemma frames_ask [effect]: "frames f (ask g w op)"
  by (simp add: frames_def run_simps)

lemma frames_tell [effect]: "frames f (tell op)"
  by (simp add: frames_def run_simps)

lemma frames_my [effect]: "frames f (my g)"
  by (simp add: frames_def run_simps)

lemma frames_change [effect]: "(\<And>c. f (g c) = f c) \<Longrightarrow> frames f (change g)"
  by (simp add: frames_def run_simps)

lemma frames_zoom [effect]: "(\<And>c h. f (p c h) = f h) \<Longrightarrow> frames f (zoom g p m)"
  by (simp add: frames_def run_simps split: prod.splits)

end
