(* ===== verification/Runtime_Effects.thy ===== *)
theory Runtime_Effects
  imports Runtime_Control Effects
begin

text \<open>
  Which operations the components of the runtime perform.  The executor only talks to its
  driver, to the admissions of Core and to the clocks; the guard only talks to the filtering
  platform and to the event sink.
\<close>

section \<open>The executor\<close>

fun executor_io :: "io \<Rightarrow> bool" where
  "executor_io (DpiIo op) = True"
| "executor_io (AdmissionIo op) = True"
| "executor_io (CoreIo CoreModuleSHA256) = True"
| "executor_io (ClockIo op) = True"
| "executor_io (Interrupted n) = True"
| "executor_io GenRandom = True"
| "executor_io TickCount = True"
| "executor_io UtcTicks = True"
| "executor_io op = False"

lemma emits_StopChild [effect]: "emits executor_io (StopWindowsLocalDpiChild e)"
  unfolding StopWindowsLocalDpiChild_def by (auto intro!: effect)

lemma emits_CloseDriver [effect]: "emits executor_io (CloseWindowsLocalDpiDriver e)"
  unfolding CloseWindowsLocalDpiDriver_def by (auto intro!: effect)

lemma emits_StopAfterCoreStopped [effect]: "emits executor_io (StopAfterCoreStopped e)"
  unfolding StopAfterCoreStopped_def by (auto intro!: effect)

lemma emits_withdraw_holders [effect]: "emits executor_io (withdraw_holders e hs)"
  by (induction e hs rule: withdraw_holders.induct) (auto intro!: effect)

lemma emits_StopDpi [effect]: "emits executor_io (StopDpi e)"
  unfolding StopDpi_def by (auto intro!: effect)

lemma emits_AssetDirectory [effect]: "emits executor_io (AssetDirectory e)"
  unfolding AssetDirectory_def by (auto intro!: effect)

lemma emits_lock_assets [effect]: "emits executor_io (lock_assets e names)"
  by (induction e names rule: lock_assets.induct) (auto intro!: effect)

lemma emits_load_exports [effect]: "emits executor_io (load_exports e d)"
  unfolding load_exports_def by (auto intro!: effect)

lemma emits_AssetsReady [effect]: "emits executor_io (AssetsReady e)"
  unfolding AssetsReady_def by (auto intro!: effect)

lemma emits_Alive [effect]: "emits executor_io (Alive e)"
  unfolding Alive_def by (auto intro!: effect)

lemma emits_interface_of [effect]: "emits executor_io (interface_of e i)"
  unfolding interface_of_def by (auto intro!: effect)

lemma emits_capture_holders [effect]: "emits executor_io (capture_holders e ss)"
  by (induction e ss rule: capture_holders.induct) (auto intro!: effect)

lemma emits_open_driver_guard [effect]: "emits executor_io (open_driver_guard e)"
  unfolding open_driver_guard_def by (auto intro!: effect)

lemma emits_StartChild [effect]: "emits executor_io current \<Longrightarrow> emits executor_io (StartChild e hl i st current)"
  unfolding StartChild_def stop_and_def by (auto intro!: effect)

lemma emits_StartPrepared [effect]:
  "emits executor_io current \<Longrightarrow> emits executor_io (StartPrepared e ss i st current)"
  unfolding StartPrepared_def stop_and_def by (auto intro!: effect)

lemma emits_match_services [effect]: "emits executor_io (match_services e xs)"
  by (induction e xs rule: match_services.induct) (auto intro!: effect)

lemma emits_MatchesPrepared [effect]: "emits executor_io (MatchesPrepared e ss i)"
  unfolding MatchesPrepared_def by (auto intro!: effect)

lemma emits_holders_current [effect]: "emits executor_io (holders_current e hs)"
  by (induction e hs rule: holders_current.induct) (auto intro!: effect)

lemma emits_RetryPrepared [effect]:
  "emits executor_io current \<Longrightarrow> emits executor_io (RetryPrepared e ss i st current)"
  unfolding RetryPrepared_def by (auto intro!: effect)

lemma emits_check_captured [effect]: "emits executor_io (check_captured e hs seen)"
  by (induction e hs seen rule: check_captured.induct) (auto intro!: effect)

lemma emits_RefreshIDs [effect]: "emits executor_io (RefreshWindowsLocalDpiRetryIDs e hs a r)"
  unfolding RefreshWindowsLocalDpiRetryIDs_def by (auto intro!: effect)

lemma emits_RetryAfter [effect]:
  "emits executor_io current \<Longrightarrow> emits executor_io (RetryAfterRuntimeFailure e ss i st current)"
  unfolding RetryAfterRuntimeFailure_def by (auto intro!: effect)

lemma emits_AdmitCaptured [effect]:
  "emits executor_io current \<Longrightarrow> emits executor_io (AdmitCaptured e tag current)"
  unfolding AdmitCaptured_def by (auto intro!: effect)

section \<open>Clocks and callbacks\<close>

lemma emits_boot_ref [effect]: "emits executor_io (boot_ref_value e)"
  unfolding boot_ref_value_def by (auto intro!: effect)

lemma emits_ReadBootClock [effect]: "emits executor_io (ReadBootClock e)"
  unfolding ReadBootClock_def BootReference_def by (auto intro!: effect)

lemma emits_interrupted [effect]: "emits executor_io (interrupted_by e check)"
  by (induction e check rule: interrupted_by.induct) (auto simp: IsConnectDeadlineCurrent_def intro!: effect)

lemma emits_PreparationCurrent [effect]: "emits executor_io (WindowsLocalDpiPreparationCurrent e p)"
  unfolding WindowsLocalDpiPreparationCurrent_def by (auto intro!: effect)

lemma emits_TelegramCurrent [effect]: "emits executor_io (WindowsTelegramWSPreparationCurrent e p)"
  unfolding WindowsTelegramWSPreparationCurrent_def by (auto intro!: effect)

lemma emits_owner_current [effect]: "emits executor_io (local_dpi_owner_current e check h)"
  unfolding local_dpi_owner_current_def by (auto intro!: effect)

lemma emits_dpi_owner_changed [effect]: "emits executor_io (dpi_owner_changed e h)"
  unfolding dpi_owner_changed_def by (auto intro!: effect)

lemma emits_maintenance_owner [effect]: "emits executor_io (maintenance_owner e check h p)"
  unfolding maintenance_owner_def by (auto intro!: effect)

lemma emits_owner_and_child [effect]: "emits executor_io owner \<Longrightarrow> emits executor_io (owner_and_child e owner)"
  unfolding owner_and_child_def by (auto intro!: effect)

lemma emits_owner_failure [effect]: "emits executor_io owner \<Longrightarrow> emits executor_io (owner_failure owner)"
  unfolding owner_failure_def by (auto intro!: effect)

lemma emits_telegram_current [effect]: "emits executor_io (telegram_current e check tc h p)"
  unfolding telegram_current_def by (auto intro!: effect)

lemma emits_ReadPreparation [effect]: "emits executor_io (ReadWindowsLocalDpiPreparation e encoded)"
  unfolding ReadWindowsLocalDpiPreparation_def by (auto intro!: effect)

lemma emits_ReadTelegramPreparation [effect]: "emits executor_io (ReadWindowsTelegramWSPreparation e encoded)"
  unfolding ReadWindowsTelegramWSPreparation_def by (auto intro!: effect)

section \<open>The guard\<close>

fun guard_io :: "io \<Rightarrow> bool" where
  "guard_io (WfpIo op) = True"
| "guard_io (SinkIo op) = True"
| "guard_io op = False"

lemma emits_scan_filters [effect]: "emits guard_io (scan_filters e w p fs)"
  by (induction e w p fs rule: scan_filters.induct) (auto intro!: effect)

lemma emits_scan_pages [effect]: "emits guard_io (scan_pages e w p ps)"
  by (induction e w p ps rule: scan_pages.induct) (auto intro!: effect)

lemma emits_verify_layers [effect]: "emits guard_io (verify_layers e w p ls)"
  by (induction e w p ls rule: verify_layers.induct) (auto intro!: effect)

lemma emits_read_filters [effect]: "emits guard_io (read_filters e defs is a b)"
  by (induction e defs "is" a b rule: read_filters.induct) (auto intro!: effect)

lemma emits_Definitions [effect]: "emits guard_io (InitializeDefinitions e)"
  unfolding InitializeDefinitions_def by (auto intro!: effect)

lemma emits_read_objects [effect]: "emits guard_io (read_objects e defs)"
  unfolding read_objects_def VerifyGuardPriority_def by (auto intro!: effect)

lemma emits_Open [effect]: "emits guard_io (Open e)"
  unfolding Open_def BackendFail_def by (auto intro!: effect)

lemma emits_Complete [effect]: "emits guard_io (Complete e code error s1 s2)"
  unfolding Complete_def BackendFail_def by (auto intro!: effect)

lemma emits_Read [effect]: "emits guard_io (Read e)"
  unfolding Read_def BackendFail_def by (auto intro!: effect split: sum.splits)

lemma emits_delete_filters [effect]: "emits guard_io (delete_filters e ns)"
  by (induction e ns rule: delete_filters.induct) (auto intro!: effect)

lemma emits_add_filters [effect]: "emits guard_io (add_filters e defs ns)"
  by (induction e defs ns rule: add_filters.induct) (auto intro!: effect)

lemma emits_DeleteOwned [effect]: "emits guard_io (DeleteOwned e)"
  unfolding DeleteOwned_def by (auto intro!: effect)

lemma emits_install_objects [effect]: "emits guard_io (install_objects e defs)"
  unfolding install_objects_def by (auto intro!: effect)

lemma emits_Install [effect]: "emits guard_io (Install e)"
  unfolding Install_def BackendFail_def by (auto intro!: effect split: sum.splits)

lemma emits_Remove [effect]: "emits guard_io (Remove e)"
  unfolding Remove_def BackendFail_def by (auto intro!: effect)

lemma emits_Refresh [effect]: "emits guard_io (Refresh e)"
  unfolding Refresh_def by (auto intro!: effect)

lemma emits_Report [effect]: "emits guard_io (Report operation error)"
  unfolding Report_def by (auto intro!: effect)

lemma emits_Start [effect]: "emits guard_io (Start e)"
  unfolding Start_def by (auto intro!: effect)

lemma emits_ExplicitOff [effect]: "emits guard_io (ExplicitOff e)"
  unfolding ExplicitOff_def by (auto intro!: effect)

lemma emits_Finish [effect]: "emits guard_io (Finish e)"
  unfolding Finish_def by (auto intro!: effect)

end
