(* ===== verification/Runtime_Journal.thy ===== *)
theory Runtime_Journal
  imports Runtime_Effects Recovery_Laws
begin

text \<open>
  The host and its recovery journal: every operation of the host keeps the invariant of the
  journal, so that the network is covered by the journal on disk at every moment of every
  sequence of calls.
\<close>

section \<open>The invariant\<close>

definition host_inv :: "disk \<Rightarrow> bool \<Rightarrow> string \<Rightarrow> RuntimeHost \<times> trace \<Rightarrow> bool" where
  "host_inv d b path = (\<lambda>(h, t). rec_inv d b path (rh_recovery h, t) \<and> rh_profile_path h \<noteq> path)"

lemma executor_quiet: "executor_io op \<Longrightarrow> quiet_for path op"
  by (induction op rule: executor_io.induct) auto

lemma guard_quiet: "guard_io op \<Longrightarrow> quiet_for path op"
  by (induction op rule: guard_io.induct) auto

lemma host_inv_quiet:
  "host_inv d b path (h, t) \<Longrightarrow> list_all (\<lambda>(op, a). quiet_for path op) new \<Longrightarrow> host_inv d b path (h, new @ t)"
  by (induction new) (auto simp: host_inv_def intro: rec_inv_quiet)

lemma keeps_calm:
  assumes "emits (quiet_for path) m" and "frames rh_recovery m" and "frames rh_profile_path m"
  shows "keeps (host_inv d b path) m"
  unfolding keeps_def
proof (rule triple_pairI)
  fix h t a h' t' assume inv: "host_inv d b path (h, t)" and run: "run_state m (h, t) = (a, (h', t'))"
  from emitsD [OF assms(1) run] obtain new where "t' = new @ t" "list_all (\<lambda>(op, a). quiet_for path op) new" by blast
  with inv have "host_inv d b path (h, t')" using host_inv_quiet by simp
  with framesD [OF assms(2) run] framesD [OF assms(3) run] show "host_inv d b path (h', t')" by (simp add: host_inv_def)
qed

lemma keeps_host_ask [hoare]: "quiet_for path op \<Longrightarrow> keeps (host_inv d b path) (ask f w op)"
  by (rule keeps_calm) (auto intro!: effect)

lemma keeps_host_tell [hoare]: "quiet_for path op \<Longrightarrow> keeps (host_inv d b path) (tell op)"
  by (rule keeps_calm) (auto intro!: effect)

lemma keeps_host_change [hoare]:
  "(\<And>h. rh_recovery (f h) = rh_recovery h) \<Longrightarrow> (\<And>h. rh_profile_path (f h) = rh_profile_path h) \<Longrightarrow>
   keeps (host_inv d b path) (change f)"
  by (rule keeps_calm) (auto intro!: effect)

lemma keeps_executor_call [hoare]: "emits executor_io m \<Longrightarrow> keeps (host_inv d b path) (executor_call m)"
  by (rule keeps_calm) (auto intro!: effect emits_mono [of executor_io m] executor_quiet)

lemma keeps_guard_call [hoare]: "emits guard_io m \<Longrightarrow> keeps (host_inv d b path) (guard_call m)"
  by (rule keeps_calm) (auto intro!: effect emits_mono [of guard_io m] guard_quiet)

text \<open>A call that reads the outside and changes nothing of the host.\<close>

lemma keeps_reading:
  assumes "emits executor_io m" and "\<And>f :: RuntimeHost \<Rightarrow> DurableRuntimeRecovery. frames f m"
    and "\<And>f :: RuntimeHost \<Rightarrow> string. frames f m"
  shows "keeps (host_inv d b path) m"
  by (rule keeps_calm) (auto intro: assms emits_mono [OF assms(1)] executor_quiet)

section \<open>Callbacks\<close>

lemma frames_ReadBootClock [effect]: "frames f (ReadBootClock e)"
  unfolding ReadBootClock_def BootReference_def boot_ref_value_def by (auto intro!: effect)

lemma frames_interrupted [effect]: "frames f (interrupted_by e check)"
  by (induction e check rule: interrupted_by.induct) (auto simp: IsConnectDeadlineCurrent_def intro!: effect)

lemma frames_PreparationCurrent [effect]: "frames f (WindowsLocalDpiPreparationCurrent e p)"
  unfolding WindowsLocalDpiPreparationCurrent_def by (auto intro!: effect)

lemma frames_TelegramCurrent [effect]: "frames f (WindowsTelegramWSPreparationCurrent e p)"
  unfolding WindowsTelegramWSPreparationCurrent_def by (auto intro!: effect)

lemma frames_ReadPreparation [effect]: "frames f (ReadWindowsLocalDpiPreparation e encoded)"
  unfolding ReadWindowsLocalDpiPreparation_def by (auto intro!: effect)

lemma frames_ReadTelegramPreparation [effect]: "frames f (ReadWindowsTelegramWSPreparation e encoded)"
  unfolding ReadWindowsTelegramWSPreparation_def by (auto intro!: effect)

lemma frames_telegram_current [effect]: "frames f (telegram_current e check tc h p)"
  unfolding telegram_current_def by (auto intro!: effect)

lemma frames_dpi_owner_changed [effect]: "frames f (dpi_owner_changed e h)"
  unfolding dpi_owner_changed_def by (auto intro!: effect)

lemma keeps_interrupted [hoare]: "keeps (host_inv d b path) (interrupted_by e check)"
  by (rule keeps_reading) (auto intro!: effect)

lemma keeps_PreparationCurrent [hoare]: "keeps (host_inv d b path) (WindowsLocalDpiPreparationCurrent e p)"
  by (rule keeps_reading) (auto intro!: effect)

lemma keeps_TelegramCurrent [hoare]: "keeps (host_inv d b path) (WindowsTelegramWSPreparationCurrent e p)"
  by (rule keeps_reading) (auto intro!: effect)

lemma keeps_ReadPreparation [hoare]: "keeps (host_inv d b path) (ReadWindowsLocalDpiPreparation e encoded)"
  by (rule keeps_reading) (auto intro!: effect)

lemma keeps_ReadTelegramPreparation [hoare]: "keeps (host_inv d b path) (ReadWindowsTelegramWSPreparation e encoded)"
  by (rule keeps_reading) (auto intro!: effect)

lemma keeps_telegram_current [hoare]: "keeps (host_inv d b path) (telegram_current e check tc h p)"
  by (rule keeps_reading) (auto intro!: effect)

lemma keeps_dpi_owner_changed [hoare]: "keeps (host_inv d b path) (dpi_owner_changed e h)"
  by (rule keeps_reading) (auto intro!: effect)

section \<open>Files\<close>

lemma last_AppendPath: "child \<noteq> [] \<Longrightarrow> AppendPath base child = [] \<or> last (AppendPath base child) = last child"
  by (simp add: AppendPath_def)

text \<open>Every file of the host has a name that does not end like the name of the journal.\<close>

lemma other_file:
  assumes "root \<noteq> []" and "child \<noteq> []" and "last child \<noteq> CHR ''1''"
  shows "AppendPath base child \<noteq> AppendPath root kJournalName"
  using assms last_AppendPath [of child base] by (auto simp: AppendPath_def kJournalName_def)

lemma other_pending:
  assumes "root \<noteq> []"
  shows "x @ ''.pending'' \<noteq> AppendPath root kJournalName"
proof
  assume "x @ ''.pending'' = AppendPath root kJournalName"
  then have "last (x @ ''.pending'') = last (AppendPath root kJournalName)" by simp
  with assms show False by (simp add: AppendPath_def kJournalName_def)
qed

lemma rule_set_file: "rule_set_name n \<noteq> []" "last (rule_set_name n) = CHR ''s''"
  by (simp_all add: rule_set_name_def)

abbreviation journaled :: "disk \<Rightarrow> bool \<Rightarrow> string \<Rightarrow> RuntimeHost \<times> trace \<Rightarrow> bool" where
  "journaled d b root \<equiv> host_inv d b (AppendPath root kJournalName)"

lemma keeps_EnsureDirectory [hoare]: "keeps (journaled d b root) (EnsureDirectory e p)"
  unfolding EnsureDirectory_def by (auto intro!: hoare)

lemma keeps_ProtectDirectory [hoare]: "keeps (journaled d b root) (ProtectDirectory e p)"
  unfolding ProtectDirectory_def by (auto intro!: hoare)

lemma keeps_prepare_paths [hoare]: "keeps (journaled d b root) (prepare_paths e secure ps)"
  by (induction e secure ps rule: prepare_paths.induct) (auto intro!: hoare)

lemma keeps_set_path [hoare]:
  assumes "root \<noteq> []"
  shows "keeps (journaled d b root) (change (\<lambda>h. h\<lparr>rh_profile_path := AppendPath (g h) ''managed-profile.json''\<rparr>))"
proof -
  have "AppendPath base ''managed-profile.json'' \<noteq> AppendPath root kJournalName" for base
    using other_file [OF assms, of "''managed-profile.json''" base] by simp
  then show ?thesis unfolding keeps_def by (rule_tac triple_change) (simp add: host_inv_def)
qed

lemma keeps_PrepareDirectories [hoare]: "root \<noteq> [] \<Longrightarrow> keeps (journaled d b root) (PrepareDirectories e)"
  unfolding PrepareDirectories_def by (auto simp: Let_def intro!: hoare)

lemma keeps_delete_rule_sets [hoare]: "root \<noteq> [] \<Longrightarrow> keeps (journaled d b root) (delete_rule_sets e base ns)"
  by (induction e base ns rule: delete_rule_sets.induct)
    (auto intro!: hoare simp: other_pending other_file rule_set_file)

lemma keeps_Cleanup [hoare]: "root \<noteq> [] \<Longrightarrow> keeps (journaled d b root) (CleanupBundledRuleSets e slot)"
  unfolding CleanupBundledRuleSets_def by (auto intro!: hoare)

lemma keeps_write_rule_sets [hoare]:
  "root \<noteq> [] \<Longrightarrow> keeps (journaled d b root) (write_rule_sets e slot base n rs ps)"
  by (induction e slot base n rs ps rule: write_rule_sets.induct)
    (auto intro!: hoare simp: other_pending other_file rule_set_file Let_def)

lemma keeps_WriteRuleSets [hoare]: "root \<noteq> [] \<Longrightarrow> keeps (journaled d b root) (WriteBundledRuleSets e slot rs)"
  unfolding WriteBundledRuleSets_def by (auto intro!: hoare simp: Let_def)

text \<open>A file operation on the profile itself, whose path is part of the invariant.\<close>

lemma keeps_profile_io:
  assumes "\<And>h. rh_profile_path h \<noteq> path \<Longrightarrow> keeps (host_inv d b path) (m h)"
  shows "keeps (host_inv d b path) (do { h \<leftarrow> my id; m h })"
  unfolding keeps_def
proof (rule triple_pairI)
  fix h t a h' t'
  assume inv: "host_inv d b path (h, t)" and run: "run_state (do { h \<leftarrow> my id; m h }) (h, t) = (a, (h', t'))"
  then have "run_state (m h) (h, t) = (a, (h', t'))" by (simp add: run_simps)
  moreover have "rh_profile_path h \<noteq> path" using inv by (simp add: host_inv_def)
  ultimately show "host_inv d b path (h', t')" using assms inv unfolding keeps_def by (blast dest: tripleD)
qed

lemma keeps_WriteProfile [hoare]: "root \<noteq> [] \<Longrightarrow> keeps (journaled d b root) (WriteProfileAtomically e p)"
  unfolding WriteProfileAtomically_def
  by (rule keeps_profile_io) (auto intro!: hoare simp: other_file Let_def)

section \<open>Snapshots\<close>

lemma keeps_RecordEvent [hoare]: "keeps (journaled d b root) (RecordEvent ev out)"
  unfolding RecordEvent_def by (auto intro!: hoare)

lemma keeps_observe_service [hoare]: "keeps (journaled d b root) (observe_service e n s r)"
  unfolding observe_service_def by (auto intro!: hoare effect)

lemma keeps_observe_services [hoare]: "keeps (journaled d b root) (observe_services e n ss r)"
  by (induction e n ss r rule: observe_services.induct) (auto intro!: hoare)

lemma keeps_ReadObservation [hoare]: "keeps (journaled d b root) (ReadLocalDpiRuntimeObservation e)"
  unfolding ReadLocalDpiRuntimeObservation_def by (auto intro!: hoare split: bool.splits Phase.splits)

lemma keeps_core_version [hoare]: "(\<And>path. quiet_for path (CoreIo op)) \<Longrightarrow> keeps (journaled d b root) (core_version e r op)"
  unfolding core_version_def by (auto intro!: hoare)

lemma keeps_core_text [hoare]: "(\<And>path. quiet_for path (CoreIo op)) \<Longrightarrow> keeps (journaled d b root) (core_text e r op)"
  unfolding core_text_def by (auto intro!: hoare)

lemma keeps_SnapshotBody [hoare]: "keeps (journaled d b root) (SnapshotBody e p)"
  unfolding SnapshotBody_def by (auto intro!: hoare simp: Let_def)

lemma keeps_Snapshot [hoare]: "keeps (journaled d b root) (Snapshot e)"
  unfolding Snapshot_def by (auto intro!: hoare)

lemma keeps_PendingSnapshot [hoare]: "keeps (journaled d b root) (PendingSnapshot e c)"
  unfolding PendingSnapshot_def by (auto intro!: hoare)

lemma keeps_Fail [hoare]: "keeps (journaled d b root) (Fail e st f)"
  unfolding Fail_def by (auto intro!: hoare)

section \<open>Calls to the journal\<close>

lemma recovery_triple:
  assumes "triple (\<lambda>s. rec_inv d b path s \<and> P s) m (\<lambda>a s. rec_inv d b path s \<and> Q a s)"
  shows "triple (\<lambda>(h, t). host_inv d b path (h, t) \<and> P (rh_recovery h, t)) (recovery_call m)
    (\<lambda>a (h, t). host_inv d b path (h, t) \<and> Q a (rh_recovery h, t))"
proof (rule triple_zoom)
  fix h
  show "triple (\<lambda>(r, t). (case (h, t) of (h, t) \<Rightarrow> host_inv d b path (h, t) \<and> P (rh_recovery h, t)) \<and> r = rh_recovery h) m
      (\<lambda>a (r, t). case (h\<lparr>rh_recovery := r\<rparr>, t) of (h, t) \<Rightarrow> host_inv d b path (h, t) \<and> Q a (rh_recovery h, t))"
  proof (rule triple_pairI)
    fix r t a r' t'
    assume "case (r, t) of (r, t) \<Rightarrow> (case (h, t) of (h, t) \<Rightarrow> host_inv d b path (h, t) \<and> P (rh_recovery h, t)) \<and> r = rh_recovery h"
      and run: "run_state m (r, t) = (a, (r', t'))"
    then have "rec_inv d b path (r, t) \<and> P (r, t)" and other: "rh_profile_path h \<noteq> path" by (auto simp: host_inv_def)
    from tripleD [OF assms this(1) run] other
    show "case (r', t') of (r, t) \<Rightarrow> case (h\<lparr>rh_recovery := r\<rparr>, t) of (h, t) \<Rightarrow> host_inv d b path (h, t) \<and> Q a (rh_recovery h, t)"
      by (simp add: host_inv_def)
  qed
qed

lemma keeps_recovery:
  assumes "triple (rec_inv d b path) m (\<lambda>_. rec_inv d b path)"
  shows "keeps (host_inv d b path) (recovery_call m)"
  using recovery_triple [of d b path "\<lambda>_. True" m "\<lambda>_ _. True"] assms
  by (simp add: keeps_def case_prod_beta' cong: prod.case_cong)

lemma keeps_Begin [hoare]: "keeps (host_inv d b path) (recovery_call (Begin e))"
  by (rule keeps_recovery) (auto intro!: triple_pairI dest: Begin_inv(1))

lemma keeps_BeginRollback [hoare]: "keeps (host_inv d b path) (recovery_call (BeginRollback e))"
  by (rule keeps_recovery) (rule journal.begin_inv)

lemma keeps_Record [hoare]:
  "st \<in> {kCoreStarted, kNetworkApplied, kVerified, kCommitted} \<Longrightarrow> keeps (host_inv d b path) (recovery_call (Record e st))"
  by (rule keeps_recovery) (auto intro!: triple_pairI dest: Record_inv(1))

text \<open>The network is restored, and the journal is clean.\<close>

definition restored :: "bool \<Rightarrow> RuntimeHost \<times> trace \<Rightarrow> bool" where
  "restored b s \<longleftrightarrow> \<not> network_dirty b (snd s)"

definition clean :: "RuntimeHost \<times> trace \<Rightarrow> bool" where
  "clean s \<longleftrightarrow> \<not> RequiresRecovery (rh_recovery (fst s))"

lemma Restore_triple:
  "triple (host_inv d b path) (recovery_call (RestoreNetworkState e))
     (\<lambda>err s. host_inv d b path s \<and> (err = [] \<longrightarrow> restored b s))"
  using recovery_triple [of d b path "\<lambda>_. True" "RestoreNetworkState e" "\<lambda>err s. err = [] \<longrightarrow> \<not> network_dirty b (snd s)"]
    journal.restore_inv [of d b path e]
  by (simp add: restored_def case_prod_beta')

lemma Complete_triple:
  "triple (\<lambda>s. host_inv d b path s \<and> restored b s) (recovery_call (CompleteRollback e))
     (\<lambda>err s. host_inv d b path s \<and> (err = [] \<longrightarrow> clean s))"
proof -
  have "triple (\<lambda>s. rec_inv d b path s \<and> \<not> network_dirty b (snd s)) (CompleteRollback e)
      (\<lambda>err s. rec_inv d b path s \<and> (err = [] \<longrightarrow> \<not> RequiresRecovery (fst s)))"
    by (rule triple_weaken [OF journal.complete_inv]) auto
  from recovery_triple [OF this] show ?thesis by (simp add: restored_def clean_def case_prod_beta')
qed

lemma RecordEvent_effects [effect]: "emits (quiet_for path) (RecordEvent ev out)" "frames f (RecordEvent ev out)"
  unfolding RecordEvent_def by (auto intro!: effect)

lemma restored_quiet: "emits (quiet_for path) m \<Longrightarrow> keeps (restored b) m"
  unfolding keeps_def
proof (rule triple_pairI)
  fix h t a h' t' assume q: "emits (quiet_for path) m" and r: "restored b (h, t)" and run: "run_state m (h, t) = (a, (h', t'))"
  from emitsD [OF q run] obtain new where "t' = new @ t" "list_all (\<lambda>(op, a). quiet_for path op) new" by blast
  then have "network_dirty b t' = network_dirty b t" by (induction new arbitrary: t') (auto simp: quiet_dirty simp del: network_dirty.simps)
  with r show "restored b (h', t')" by (simp add: restored_def)
qed

lemma clean_frames: "frames rh_recovery m \<Longrightarrow> keeps clean m"
  unfolding keeps_def by (rule triple_pairI) (auto simp: clean_def dest: framesD)

lemma keeps_conj: "keeps I m \<Longrightarrow> keeps K m \<Longrightarrow> keeps (\<lambda>s. I s \<and> K s) m"
  unfolding keeps_def by (rule triple_conj)

lemma event_restored: "triple (\<lambda>s. journaled d b root s \<and> restored b s) (RecordEvent ev out) (\<lambda>_ s. journaled d b root s \<and> restored b s)"
  using keeps_conj [OF keeps_RecordEvent restored_quiet] RecordEvent_effects unfolding keeps_def by blast

lemma event_clean: "triple (\<lambda>s. journaled d b root s \<and> (c \<longrightarrow> clean s)) (RecordEvent ev out) (\<lambda>_ s. journaled d b root s \<and> (c \<longrightarrow> clean s))"
proof (cases c)
  case True
  then show ?thesis using keeps_conj [OF keeps_RecordEvent clean_frames [OF RecordEvent_effects(2)]] unfolding keeps_def by simp
next
  case False
  then show ?thesis using keeps_RecordEvent unfolding keeps_def by simp
qed

section \<open>Rollback\<close>

lemma keeps_withdraw_telegram [hoare]: "keeps (host_inv d b path) (withdraw_telegram e sel hs kept)"
  by (induction e sel hs kept rule: withdraw_telegram.induct) (auto intro!: hoare)

lemma keeps_WithdrawTelegram [hoare]: "keeps (host_inv d b path) (WithdrawTelegramWS e s)"
  unfolding WithdrawTelegramWS_def by (auto intro!: hoare simp: Let_def)

lemma keeps_Clear [hoare]: "root \<noteq> [] \<Longrightarrow> keeps (journaled d b root) (ClearWindowsLocalDpiAfterCoreStopped e)"
  unfolding ClearWindowsLocalDpiAfterCoreStopped_def by (auto intro!: hoare effect)

lemma keeps_stop_executor [hoare]: "keeps (journaled d b root) (stop_executor e)"
  unfolding stop_executor_def by (auto intro!: hoare effect)

lemma triple_keeps: "keeps I m \<Longrightarrow> triple I m (\<lambda>_. I)"
  by (simp add: keeps_def)

lemma triple_fail:
  "keeps I m \<Longrightarrow> err \<noteq> [] \<Longrightarrow> triple I (do { m; State_Monad.return err }) (\<lambda>a s. I s \<and> (a = [] \<longrightarrow> Q s))"
  by (rule triple_bind [OF triple_keeps]) (auto intro: triple_return)

lemma complete_part:
  "triple (\<lambda>s. journaled d b root s \<and> restored b s)
     (do { RecordEvent kRuntimeNetworkRestore kSucceeded;
           RecordEvent kRuntimeRollbackComplete kAttempted;
           complete_error \<leftarrow> recovery_call (CompleteRollback e);
           RecordEvent kRuntimeRollbackComplete (if complete_error = [] then kSucceeded else kFailed);
           State_Monad.return complete_error })
     (\<lambda>err s. journaled d b root s \<and> (err = [] \<longrightarrow> clean s))"
  by (rule triple_bind [OF event_restored], rule triple_bind [OF event_restored],
      rule triple_bind [OF Complete_triple], rule triple_bind [OF event_clean], rule triple_return)

lemma restore_part:
  "triple (journaled d b root)
     (do { RecordEvent kRuntimeNetworkRestore kAttempted;
           network_error \<leftarrow> recovery_call (RestoreNetworkState e);
           if network_error \<noteq> [] then do { RecordEvent kRuntimeNetworkRestore kFailed; State_Monad.return network_error }
           else do { RecordEvent kRuntimeNetworkRestore kSucceeded;
                     RecordEvent kRuntimeRollbackComplete kAttempted;
                     complete_error \<leftarrow> recovery_call (CompleteRollback e);
                     RecordEvent kRuntimeRollbackComplete (if complete_error = [] then kSucceeded else kFailed);
                     State_Monad.return complete_error } })
     (\<lambda>err s. journaled d b root s \<and> (err = [] \<longrightarrow> clean s))"
  by (rule triple_bind [OF triple_keeps [OF keeps_RecordEvent]], rule triple_bind [OF Restore_triple], rule triple_if)
    (auto intro!: triple_pre [OF triple_fail [OF keeps_RecordEvent]] triple_pre [OF complete_part])

lemma roll_back_triple:
  assumes "root \<noteq> []" and "stop_failure \<noteq> []"
  shows "triple (journaled d b root) (roll_back e stop_failure) (\<lambda>err s. journaled d b root s \<and> (err = [] \<longrightarrow> clean s))"
  unfolding roll_back_def
  using assms
  by (intro triple_bind [OF triple_keeps [OF keeps_RecordEvent]] triple_bind [OF triple_keeps [OF keeps_BeginRollback]]
      triple_bind [OF triple_keeps [OF keeps_host_ask]] triple_bind [OF triple_keeps [OF keeps_if [OF keeps_Clear keeps_return]]]
      triple_if restore_part triple_fail keeps_RecordEvent triple_return) auto

lemma keeps_first: "keeps I m \<Longrightarrow> triple I k Q \<Longrightarrow> triple I (do { m; k }) Q"
  by (rule triple_bind [OF triple_keeps])

lemma RollbackRuntime_triple:
  assumes "root \<noteq> []"
  shows "triple (journaled d b root) (RollbackRuntime e) (\<lambda>err s. journaled d b root s \<and> (err = [] \<longrightarrow> clean s))"
  unfolding RollbackRuntime_def
  using assms
  by (intro keeps_first keeps_ReadObservation keeps_WithdrawTelegram keeps_stop_executor triple_bind [OF triple_keeps [OF keeps_my]]
      triple_if roll_back_triple keeps_RecordEvent triple_bind [OF triple_keeps [OF keeps_host_ask]] triple_fail
      keeps_if keeps_Clear keeps_return) auto

lemma keeps_roll_back [hoare]: "root \<noteq> [] \<Longrightarrow> sf \<noteq> [] \<Longrightarrow> keeps (journaled d b root) (roll_back e sf)"
  unfolding keeps_def by (rule triple_weaken [OF roll_back_triple]) auto

lemma keeps_RecoverPending [hoare]: "root \<noteq> [] \<Longrightarrow> keeps (journaled d b root) (RecoverPendingRuntime e)"
  unfolding RecoverPendingRuntime_def by (auto intro!: hoare)

lemma keeps_RollbackRuntime [hoare]: "root \<noteq> [] \<Longrightarrow> keeps (journaled d b root) (RollbackRuntime e)"
  unfolding keeps_def by (rule triple_weaken [OF RollbackRuntime_triple]) auto

section \<open>Initialization and staging\<close>

lemma keeps_Initialize [hoare]: "root \<noteq> [] \<Longrightarrow> keeps (journaled d b root) (Initialize e)"
  unfolding Initialize_def refuse_initialize_def by (auto intro!: hoare effect)

lemma keeps_RecoverOnStartup [hoare]: "root \<noteq> [] \<Longrightarrow> keeps (journaled d b root) (RecoverOnStartup e)"
  unfolding RecoverOnStartup_def by (auto intro!: hoare)

lemma keeps_secure_files [hoare]: "keeps (journaled d b root) (secure_files e ps)"
  by (induction e ps rule: secure_files.induct) (auto intro!: hoare)

lemma keeps_refuse_stage [hoare]: "keeps (journaled d b root) (refuse_stage e st f)"
  unfolding refuse_stage_def by (auto intro!: hoare)

lemma keeps_commit_stage [hoare]: "root \<noteq> [] \<Longrightarrow> keeps (journaled d b root) (commit_stage e body rb dg slot p)"
  unfolding commit_stage_def by (auto intro!: hoare)

lemma keeps_stage_bundle [hoare]: "root \<noteq> [] \<Longrightarrow> keeps (journaled d b root) (stage_bundle e body rb dg bundle)"
  unfolding stage_bundle_def by (auto intro!: hoare simp: Let_def)

lemma keeps_StageProfile [hoare]: "root \<noteq> [] \<Longrightarrow> keeps (journaled d b root) (StageProfile e body rb)"
  unfolding StageProfile_def by (auto intro!: hoare simp: Let_def)

lemma keeps_InvalidateProfile [hoare]: "root \<noteq> [] \<Longrightarrow> keeps (journaled d b root) (InvalidateProfile e)"
  unfolding InvalidateProfile_def
  by (auto intro!: hoare keeps_profile_io)

section \<open>Connecting\<close>

lemma keeps_VerifyEgress [hoare]: "keeps (journaled d b root) (VerifyEgress e periodic)"
  unfolding VerifyEgress_def by (auto intro!: hoare split: option.splits)

lemma keeps_returning [hoare]: "keeps I m \<Longrightarrow> keeps I (returning m)"
  unfolding returning_def by (auto intro!: hoare)

lemma keeps_early [hoare]: "keeps I m \<Longrightarrow> keeps I k \<Longrightarrow> keeps I (early m k)"
  unfolding early_def by (auto intro!: hoare)

lemma keeps_roll_back_and_fail [hoare]:
  assumes "root \<noteq> []" and "keeps (journaled d b root) reported" and "\<And>h. rh_recovery (f h) = rh_recovery h"
    and "\<And>h. rh_profile_path (f h) = rh_profile_path h"
  shows "keeps (journaled d b root) (roll_back_and_fail e f reported)"
  unfolding roll_back_and_fail_def by (auto intro!: hoare assms simp: rollback_phase_def)

lemma keeps_interruption [hoare]: "root \<noteq> [] \<Longrightarrow> keeps (journaled d b root) (interruption e check cd rb)"
  unfolding interruption_def Let_def by (auto intro!: hoare simp: clear_effective_def)

text \<open>
  Core is started only while the journal says so: between the record of the start and the start
  itself there are only callbacks and events, which leave the journal alone unless they end the
  connect.
\<close>

definition marked :: "RuntimeHost \<times> trace \<Rightarrow> bool" where
  "marked s \<longleftrightarrow> \<not> rc_invalid (rh_recovery (fst s)) \<and> rc_stage (rh_recovery (fst s)) = kCoreStarted"

lemma marked_frames: "frames rh_recovery m \<Longrightarrow> keeps marked m"
  unfolding keeps_def by (rule triple_pairI) (auto simp: marked_def dest: framesD)

lemma Mark_triple:
  "triple (host_inv d b path) (recovery_call (Record e kCoreStarted)) (\<lambda>err s. host_inv d b path s \<and> (err = [] \<longrightarrow> marked s))"
proof -
  have "triple (rec_inv d b path) (Record e kCoreStarted)
      (\<lambda>err s. rec_inv d b path s \<and> (err = [] \<longrightarrow> \<not> rc_invalid (fst s) \<and> rc_stage (fst s) = kCoreStarted))"
  proof (rule triple_pairI)
    fix r t err r' t'
    assume "rec_inv d b path (r, t)" and "run_state (Record e kCoreStarted) (r, t) = (err, (r', t'))"
    from Record_inv [OF this] show "rec_inv d b path (r', t') \<and>
        (err = [] \<longrightarrow> \<not> rc_invalid (fst (r', t')) \<and> rc_stage (fst (r', t')) = kCoreStarted)" by simp
  qed
  then show ?thesis
    using recovery_triple [of d b path "\<lambda>_. True" "Record e kCoreStarted"
        "\<lambda>err s. err = [] \<longrightarrow> \<not> rc_invalid (fst s) \<and> rc_stage (fst s) = kCoreStarted"]
    by (simp add: marked_def case_prod_beta')
qed

lemma core_start_keeps:
  assumes "host_inv d b path (h, t)" and "marked (h, t)" and "op = CoreStart p m \<or> op = CoreStartInterruptible p m"
  shows "host_inv d b path (h, (CoreIo op, a) # t)"
  using assms rec_inv_start [of d b path "rh_recovery h" t op p m a] by (auto simp: host_inv_def marked_def)

lemma start_core_triple:
  "triple (\<lambda>s. host_inv d b path s \<and> marked s) (start_core e cd) (\<lambda>_. host_inv d b path)"
  unfolding start_core_def
  by (rule triple_pairI) (auto simp: run_simps split: if_splits intro: core_start_keeps)

text \<open>An interruption that lets the connect continue has only asked.\<close>

lemma interruption_continues:
  assumes "root \<noteq> []"
  shows "triple (\<lambda>s. journaled d b root s \<and> marked s) (interruption e check cd rb)
    (\<lambda>r s. journaled d b root s \<and> (r = None \<longrightarrow> marked s))"
proof -
  have "triple (\<lambda>s. journaled d b root s \<and> marked s) (interruption e check cd rb) (\<lambda>_. journaled d b root)"
    using keeps_interruption [OF assms] unfolding keeps_def by (rule triple_pre) simp
  moreover have "triple marked (interruption e check cd rb) (\<lambda>r s. r = None \<longrightarrow> marked s)"
    unfolding interruption_def Let_def
    by (rule triple_bind [OF triple_keeps [OF marked_frames]], rule frames_interrupted,
        rule triple_bind [OF triple_keeps [OF marked_frames]])
      (auto intro!: effect triple_if triple_return simp: returning_def intro: tripleI
        triple_bind [where R = "\<lambda>_ _. True"])
  ultimately show ?thesis
    using triple_conj [of "\<lambda>s. journaled d b root s \<and> marked s" "interruption e check cd rb" "\<lambda>_. journaled d b root"
        marked "\<lambda>r s. r = None \<longrightarrow> marked s"] by (simp add: conj_absorb)
qed

lemma triple_early:
  assumes "triple P m (\<lambda>r s. I s \<and> (r = None \<longrightarrow> Q s))" and "triple (\<lambda>s. I s \<and> Q s) k (\<lambda>_. I)"
  shows "triple P (early m k) (\<lambda>_. I)"
  unfolding early_def
  by (rule triple_bind [OF assms(1)], rule triple_option) (auto intro: triple_pre [OF assms(2)] triple_return)

lemma keeps_record_dpi [hoare]: "keeps (journaled d b root) (record_dpi e stage st f)"
  unfolding record_dpi_def by (auto intro!: hoare effect)

lemma keeps_prove_service [hoare]:
  "emits executor_io owner \<Longrightarrow> keeps (journaled d b root) (prove_service e n i st owner sp timeout s)"
  unfolding prove_service_def by (auto intro!: hoare effect)

lemma keeps_prove_services [hoare]:
  "emits executor_io owner \<Longrightarrow> keeps (journaled d b root) (prove_services e n i st owner sp dl ss tr ap ad)"
  by (induction ss arbitrary: tr ap ad) (auto intro!: hoare effect simp: Let_def)

lemma keeps_ProveAndAdmit [hoare]:
  "emits executor_io owner \<Longrightarrow> keeps (journaled d b root) (ProveAndAdmitWindowsLocalDpi e n i st owner sp wr)"
  unfolding ProveAndAdmitWindowsLocalDpi_def Let_def by (auto intro!: hoare effect)

lemma capture_admissions_frames: "rh_recovery (capture_admissions h) = rh_recovery h" "rh_profile_path (capture_admissions h) = rh_profile_path h"
  by (simp_all add: capture_admissions_def split: option.splits)

lemma keeps_try_strategies [hoare]:
  "emits executor_io owner \<Longrightarrow> keeps (journaled d b root) (try_strategies e net owner first sts)"
  by (induction e net owner first sts rule: try_strategies.induct)
    (auto intro!: hoare effect simp: Let_def capture_admissions_frames)

lemma keeps_roll_back_quietly [hoare]: "root \<noteq> [] \<Longrightarrow> keeps (journaled d b root) (roll_back_quietly e f)"
  unfolding roll_back_quietly_def by (auto intro!: hoare simp: rollback_phase_def)

lemma keeps_connect_local_dpi [hoare]: "root \<noteq> [] \<Longrightarrow> keeps (journaled d b root) (connect_local_dpi e check net)"
  unfolding connect_local_dpi_def Let_def by (auto intro!: hoare effect split: option.splits)

lemma keeps_prepare_telegram [hoare]: "keeps (journaled d b root) (prepare_telegram e net c)"
  unfolding prepare_telegram_def by (auto intro!: hoare split: option.splits bool.splits)

lemma keeps_prepare_local_dpi [hoare]: "keeps (journaled d b root) (prepare_local_dpi e net c)"
  unfolding prepare_local_dpi_def by (auto intro!: hoare effect split: option.splits bool.splits)

lemma keeps_write_prepared [hoare]: "root \<noteq> [] \<Longrightarrow> keeps (journaled d b root) (write_prepared e c)"
  unfolding write_prepared_def by (auto intro!: hoare)

lemma keeps_connect_prepare [hoare]: "root \<noteq> [] \<Longrightarrow> keeps (journaled d b root) (connect_prepare e net)"
  unfolding connect_prepare_def by (auto intro!: hoare split: sum.splits)

lemma keeps_connect_admission [hoare]: "root \<noteq> [] \<Longrightarrow> keeps (journaled d b root) (connect_admission e dg check cd)"
  unfolding connect_admission_def by (auto intro!: hoare)

lemma keeps_connect_begin [hoare]: "keeps (journaled d b root) (connect_begin e)"
  unfolding connect_begin_def by (auto intro!: hoare)

lemma keeps_record_start [hoare]: "keeps (journaled d b root) (record_start x y)"
  unfolding record_start_def by (auto intro!: hoare)

lemma keeps_connect_start_failed [hoare]: "root \<noteq> [] \<Longrightarrow> keeps (journaled d b root) (connect_start_failed e check cd)"
  unfolding connect_start_failed_def by (auto intro!: hoare)

lemma keeps_connect_network_applied [hoare]: "root \<noteq> [] \<Longrightarrow> keeps (journaled d b root) (connect_network_applied e)"
  unfolding connect_network_applied_def by (auto intro!: hoare)

lemma keeps_connect_egress [hoare]: "root \<noteq> [] \<Longrightarrow> keeps (journaled d b root) (connect_egress e check cd)"
  unfolding connect_egress_def by (auto intro!: hoare simp: clear_effective_def)

lemma keeps_connect_commit [hoare]: "root \<noteq> [] \<Longrightarrow> keeps (journaled d b root) (connect_commit e check cd)"
  unfolding connect_commit_def by (auto intro!: hoare simp: clear_effective_def)

lemma keeps_capture_telegram [hoare]: "keeps (journaled d b root) (capture_telegram e tags)"
  by (induction e tags rule: capture_telegram.induct) (auto intro!: hoare)

lemma keeps_admit_telegram [hoare]:
  "keeps (journaled d b root) current \<Longrightarrow> keeps (journaled d b root) (admit_telegram e current hs)"
proof (induction hs)
  case (Cons holder hs)
  then show ?case by (cases holder) (simp, intro keeps_bind keeps_if keeps_host_ask keeps_return, simp_all)
qed (simp add: keeps_return)

lemma keeps_connect_telegram [hoare]: "keeps (journaled d b root) (connect_telegram e check tc)"
  unfolding connect_telegram_def Let_def by (auto intro!: hoare)

lemma keeps_connect_finish [hoare]: "keeps (journaled d b root) (connect_finish e check fg net proved)"
  unfolding connect_finish_def by (auto intro!: hoare effect split: option.splits)

lemma keeps_connect_started [hoare]: "root \<noteq> [] \<Longrightarrow> keeps (journaled d b root) (connect_started e check cd fg net tc)"
  unfolding connect_started_def by (auto intro!: hoare split: sum.splits)

lemma frames_record_start [effect]: "frames f (record_start x y)"
  unfolding record_start_def by (auto intro!: effect)

lemma connect_mark_start_triple:
  assumes "root \<noteq> []"
  shows "triple (journaled d b root) (connect_mark_start e) (\<lambda>r s. journaled d b root s \<and> (r = None \<longrightarrow> marked s))"
  unfolding connect_mark_start_def returning_def
proof (rule triple_bind [OF Mark_triple], rule triple_if)
  fix err :: string assume "err \<noteq> []"
  have k: "keeps (journaled d b root) (roll_back_and_fail e id (Fail e kNotReady err))" by (auto intro!: hoare assms)
  show "triple (\<lambda>s. journaled d b root s \<and> (err = [] \<longrightarrow> marked s))
      (do { r \<leftarrow> roll_back_and_fail e id (Fail e kNotReady err); State_Monad.return (Some r) })
      (\<lambda>r s. journaled d b root s \<and> (r = None \<longrightarrow> marked s))"
    by (rule triple_bind [OF triple_pre [OF triple_keeps [OF k]]]) (auto intro: triple_return)
qed (auto intro: triple_return)

lemma keeps_ConnectImpl [hoare]:
  assumes r: "root \<noteq> []"
  shows "keeps (journaled d b root) (ConnectImpl e dg check cd fg net tc)"
proof -
  let ?J = "journaled d b root"
  have start: "triple (\<lambda>s. ?J s \<and> marked s)
      (do { start_error \<leftarrow> start_core e cd;
            if start_error \<noteq> [] then connect_start_failed e check cd else connect_started e check cd fg net tc }) (\<lambda>_. ?J)"
    by (rule triple_bind [OF start_core_triple]) (auto intro!: triple_if triple_keeps hoare r)
  have "triple (\<lambda>s. ?J s \<and> marked s)
      (do { record_start kAttempted kAttempted;
            early (interruption e check cd True)
              (do { start_error \<leftarrow> start_core e cd;
                    if start_error \<noteq> [] then connect_start_failed e check cd
                    else connect_started e check cd fg net tc }) }) (\<lambda>_. ?J)"
    by (rule keeps_first [OF keeps_conj [OF keeps_record_start marked_frames [OF frames_record_start]]],
        rule triple_early [OF interruption_continues [OF r] start])
  then have "keeps ?J (early (connect_mark_start e) (early (interruption e check cd True)
      (do { record_start kAttempted kAttempted;
            early (interruption e check cd True)
              (do { start_error \<leftarrow> start_core e cd;
                    if start_error \<noteq> [] then connect_start_failed e check cd
                    else connect_started e check cd fg net tc }) })))"
    unfolding keeps_def by (intro triple_early [OF connect_mark_start_triple [OF r]] triple_early [OF interruption_continues [OF r]])
  then show ?thesis unfolding ConnectImpl_def by (auto intro!: hoare r)
qed

lemma keeps_Connect [hoare]: "root \<noteq> [] \<Longrightarrow> keeps (journaled d b root) (Connect e dg check net tc)"
  unfolding Connect_def by (auto intro!: hoare)

lemma keeps_ConnectWithIdentity [hoare]:
  "root \<noteq> [] \<Longrightarrow> keeps (journaled d b root) (ConnectWithIdentity e target check net tc)"
  unfolding ConnectWithIdentity_def by (auto intro!: hoare)

section \<open>Disconnecting and replacing\<close>

lemma keeps_explicit_off [hoare]: "keeps (journaled d b root) (explicit_off e x)"
  unfolding explicit_off_def by (auto intro!: hoare effect)

lemma keeps_Disconnect [hoare]: "root \<noteq> [] \<Longrightarrow> keeps (journaled d b root) (Disconnect e x)"
  unfolding Disconnect_def by (auto intro!: hoare simp: end_connection_def)

lemma keeps_Shutdown [hoare]: "root \<noteq> [] \<Longrightarrow> keeps (journaled d b root) (Shutdown e)"
  unfolding Shutdown_def by (auto intro!: hoare simp: end_connection_def)

lemma keeps_CancelProtectedHandoff [hoare]: "root \<noteq> [] \<Longrightarrow> keeps (journaled d b root) (CancelProtectedHandoff e)"
  unfolding CancelProtectedHandoff_def by (auto intro!: hoare effect)

lemma keeps_finish_replacement [hoare]: "root \<noteq> [] \<Longrightarrow> keeps (journaled d b root) (finish_replacement e body check)"
  unfolding finish_replacement_def by (auto intro!: hoare effect)

lemma keeps_Replace [hoare]: "root \<noteq> [] \<Longrightarrow> keeps (journaled d b root) (ReplaceManagedProfile e body check net tc)"
  unfolding ReplaceManagedProfile_def by (auto intro!: hoare effect)

lemma keeps_RecheckEgress [hoare]: "keeps (journaled d b root) (RecheckEgress e check)"
  unfolding RecheckEgress_def by (auto intro!: hoare)

section \<open>Control and maintenance\<close>

lemma unstage_frames:
  "rh_recovery (unstage h) = rh_recovery h" "rh_profile_path (unstage h) = rh_profile_path h"
  "rh_recovery (unstage_profile dg h) = rh_recovery h" "rh_profile_path (unstage_profile dg h) = rh_profile_path h"
  by (simp_all add: unstage_def unstage_profile_def)

lemma keeps_Promote [hoare]: "keeps (journaled d b root) (PromoteTransportLease e target)"
  unfolding PromoteTransportLease_def by (auto intro!: hoare)

lemma keeps_RevokeTransport [hoare]: "keeps (journaled d b root) (RevokeTransportLease e target)"
  unfolding RevokeTransportLease_def by (auto intro!: hoare)

lemma keeps_revocation_answer [hoare]: "keeps (journaled d b root) (revocation_answer a dg u n)"
  unfolding revocation_answer_def by (auto intro!: hoare simp: unstage_frames)

lemma keeps_RevokeSmartAccessLease [hoare]: "keeps (journaled d b root) (RevokeSmartAccessLease e body)"
  unfolding RevokeSmartAccessLease_def by (auto intro!: hoare)

lemma keeps_ReadRestrictions [hoare]: "keeps (journaled d b root) (ReadSmartAccessRestrictions e)"
  unfolding ReadSmartAccessRestrictions_def by (auto intro!: hoare)

lemma keeps_ReadLeases [hoare]: "keeps (journaled d b root) (ReadSmartAccessLeases e dg)"
  unfolding ReadSmartAccessLeases_def by (auto intro!: hoare)

lemma keeps_Acknowledge [hoare]: "keeps (journaled d b root) (AcknowledgeSmartAccessRestrictions e dg)"
  unfolding AcknowledgeSmartAccessRestrictions_def by (auto intro!: hoare)

lemma keeps_qa_stopped [hoare]: "keeps (journaled d b root) (qa_stopped e check)"
  unfolding qa_stopped_def by (auto intro!: hoare)

lemma keeps_qa_failure [hoare]: "keeps (journaled d b root) (qa_failure e target)"
  unfolding qa_failure_def by (auto intro!: hoare)

lemma keeps_qa_admit [hoare]: "keeps (journaled d b root) (qa_admit e check config)"
  unfolding qa_admit_def by (auto intro!: hoare simp: Let_def split: option.splits)

lemma keeps_Configure [hoare]: "keeps (journaled d b root) (ConfigureSmartAccessRuntimeControl e body renewal check)"
  unfolding ConfigureSmartAccessRuntimeControl_def Let_def by (auto intro!: hoare simp: unstage_frames)

lemma keeps_Renew [hoare]: "keeps (journaled d b root) (RenewSmartAccessLease e body)"
  unfolding RenewSmartAccessLease_def by (auto intro!: hoare simp: unstage_frames)

lemma keeps_RevokePolicy [hoare]: "keeps (journaled d b root) (RevokeSmartAccessPolicy e body)"
  unfolding RevokeSmartAccessPolicy_def by (auto intro!: hoare)

lemma keeps_revoke_protected [hoare]: "root \<noteq> [] \<Longrightarrow> keeps (journaled d b root) (revoke_protected e)"
  unfolding revoke_protected_def by (auto intro!: hoare simp: unstage_frames)

lemma keeps_RevokeCatalog [hoare]: "root \<noteq> [] \<Longrightarrow> keeps (journaled d b root) (RevokeRoutingCatalog e dg)"
  unfolding RevokeRoutingCatalog_def by (auto intro!: hoare)

lemma keeps_RevokeCatalogService [hoare]: "root \<noteq> [] \<Longrightarrow> keeps (journaled d b root) (RevokeRoutingCatalogService e body)"
  unfolding RevokeRoutingCatalogService_def Let_def by (auto intro!: hoare)

lemma keeps_any_telegram_changed [hoare]: "keeps (journaled d b root) (any_telegram_changed e hs)"
  by (induction e hs rule: any_telegram_changed.induct) (auto intro!: hoare)

lemma keeps_telegram_changed [hoare]: "keeps (journaled d b root) (telegram_changed e p h)"
  unfolding telegram_changed_def by (auto intro!: hoare)

lemma keeps_MaintainTelegram [hoare]: "keeps (journaled d b root) (MaintainTelegramWS e check)"
  unfolding MaintainTelegramWS_def by (auto intro!: hoare split: option.splits Phase.splits)

lemma keeps_end_dpi_owner [hoare]: "root \<noteq> [] \<Longrightarrow> keeps (journaled d b root) (end_dpi_owner e f)"
  unfolding end_dpi_owner_def by (auto intro!: hoare simp: unstage_frames)

lemma keeps_dpi_withdraw_failed [hoare]: "root \<noteq> [] \<Longrightarrow> keeps (journaled d b root) (dpi_withdraw_failed e)"
  unfolding dpi_withdraw_failed_def by (auto intro!: hoare)

lemma keeps_all_retryable [hoare]: "keeps (journaled d b root) (all_retryable e ss)"
  by (induction ss) (auto intro!: hoare)

lemma keeps_replace_strategy [hoare]: "root \<noteq> [] \<Longrightarrow> keeps (journaled d b root) (replace_strategy e check p n st)"
  unfolding replace_strategy_def Let_def by (auto intro!: hoare effect simp: capture_admissions_frames)

lemma keeps_MaintainDpi [hoare]: "root \<noteq> [] \<Longrightarrow> keeps (journaled d b root) (MaintainWindowsLocalDpi e check)"
  unfolding MaintainWindowsLocalDpi_def Let_def
  by (auto intro!: hoare effect split: option.splits Phase.splits bool.splits)

section \<open>Sequences of calls\<close>

datatype (plugins only: code size) host_call =
    CallRecoverOnStartup | CallInitialize | CallSnapshot | CallPendingSnapshot Command
  | CallStageProfile string bool | CallInvalidateProfile
  | CallConnect string CheckInterruption "CandidateNetworkContext option" CheckInterruption
  | CallConnectWithIdentity BoundConnectTarget CheckInterruption "CandidateNetworkContext option" CheckInterruption
  | CallPromoteTransportLease TransportLeasePromotion | CallRevokeTransportLease TransportLeaseRevocation
  | CallDisconnect bool | CallRecheckEgress CheckInterruption
  | CallReplaceManagedProfile string CheckInterruption "CandidateNetworkContext option" CheckInterruption
  | CallCancelProtectedHandoff | CallRevokeSmartAccessLease string | CallRevokeRoutingCatalog string
  | CallRevokeRoutingCatalogService string | CallRevokeSmartAccessPolicy string | CallRenewSmartAccessLease string
  | CallConfigure string bool CheckInterruption | CallReadRestrictions | CallReadLeases string
  | CallAcknowledge string | CallMaintainWindowsLocalDpi CheckInterruption | CallMaintainTelegramWS CheckInterruption
  | CallShutdown

fun host_step :: "env \<Rightarrow> host_call \<Rightarrow> RuntimeResult host_action" where
  "host_step e CallRecoverOnStartup = RecoverOnStartup e"
| "host_step e CallInitialize = Initialize e"
| "host_step e CallSnapshot = Snapshot e"
| "host_step e (CallPendingSnapshot c) = PendingSnapshot e c"
| "host_step e (CallStageProfile body bound) = StageProfile e body bound"
| "host_step e CallInvalidateProfile = InvalidateProfile e"
| "host_step e (CallConnect dg check net tc) = Connect e dg check net tc"
| "host_step e (CallConnectWithIdentity target check net tc) = ConnectWithIdentity e target check net tc"
| "host_step e (CallPromoteTransportLease target) = PromoteTransportLease e target"
| "host_step e (CallRevokeTransportLease target) = RevokeTransportLease e target"
| "host_step e (CallDisconnect x) = Disconnect e x"
| "host_step e (CallRecheckEgress check) = RecheckEgress e check"
| "host_step e (CallReplaceManagedProfile body check net tc) = ReplaceManagedProfile e body check net tc"
| "host_step e CallCancelProtectedHandoff = CancelProtectedHandoff e"
| "host_step e (CallRevokeSmartAccessLease body) = RevokeSmartAccessLease e body"
| "host_step e (CallRevokeRoutingCatalog dg) = RevokeRoutingCatalog e dg"
| "host_step e (CallRevokeRoutingCatalogService body) = RevokeRoutingCatalogService e body"
| "host_step e (CallRevokeSmartAccessPolicy body) = RevokeSmartAccessPolicy e body"
| "host_step e (CallRenewSmartAccessLease body) = RenewSmartAccessLease e body"
| "host_step e (CallConfigure body renewal check) = ConfigureSmartAccessRuntimeControl e body renewal check"
| "host_step e CallReadRestrictions = ReadSmartAccessRestrictions e"
| "host_step e (CallReadLeases dg) = ReadSmartAccessLeases e dg"
| "host_step e (CallAcknowledge dg) = AcknowledgeSmartAccessRestrictions e dg"
| "host_step e (CallMaintainWindowsLocalDpi check) = MaintainWindowsLocalDpi e check"
| "host_step e (CallMaintainTelegramWS check) = MaintainTelegramWS e check"
| "host_step e CallShutdown = do { Shutdown e; State_Monad.return (result kOk []) }"

definition host_run :: "env \<Rightarrow> host_call list \<Rightarrow> RuntimeHost \<times> trace \<Rightarrow> RuntimeHost \<times> trace" where
  "host_run e calls s = fold (\<lambda>call s. snd (run_state (host_step e call) s)) calls s"

text \<open>A service that starts on the disk \<open>d\<close>: the journal is loaded, the guard adopts its state, and the host is built.\<close>

definition started_host :: "env \<Rightarrow> disk \<Rightarrow> string \<Rightarrow> bool \<Rightarrow> bool \<Rightarrow> bool \<Rightarrow> bool \<Rightarrow> RuntimeHost \<times> trace" where
  "started_host e d root network_state core egress_probe secure_storage =
     (case NewGuard e True [] of (guard, t) \<Rightarrow>
        NewRuntimeHost core egress_probe True (NewRecovery root network_state (journal_on d (AppendPath root kJournalName)))
          root secure_storage True True guard t)"

text \<open>A property that every call of the host keeps holds after every sequence of calls.\<close>

locale host_invariant =
  fixes e :: env and I :: "RuntimeHost \<times> trace \<Rightarrow> bool"
  assumes kept: "keeps I (host_step e call)"
begin

lemma after_run: "I s \<Longrightarrow> I (host_run e calls s)"
proof (induction calls arbitrary: s)
  case (Cons call calls)
  obtain r s' where run: "run_state (host_step e call) s = (r, s')" by (metis prod.exhaust)
  with Cons.prems kept [of call] have "I s'" unfolding keeps_def by (blast dest: tripleD)
  with Cons.IH run show ?case by (simp add: host_run_def)
qed (simp add: host_run_def)

end

lemma keeps_host_step: "root \<noteq> [] \<Longrightarrow> keeps (journaled d b root) (host_step e call)"
  by (cases call) (auto intro!: hoare)

interpretation journaled_host: host_invariant e "\<lambda>s. root \<noteq> [] \<and> journaled d b root s" for e d b root
proof
  fix call
  show "keeps (\<lambda>s. root \<noteq> [] \<and> journaled d b root s) (host_step e call)"
    using keeps_host_step [of root d b e call] by (auto simp: keeps_def triple_def split: prod.splits)
qed

lemma started_host_inv:
  assumes "root \<noteq> []" and "b \<longrightarrow> needs_rollback (d (AppendPath root kJournalName))"
  shows "journaled d b root (started_host e d root ns core probe secure)"
proof -
  define r where "r = NewRecovery root ns (journal_on d (AppendPath root kJournalName))"
  have i: "rec_inv d b (AppendPath root kJournalName) (r, [])" unfolding r_def using assms by (rule NewRecovery_inv)
  obtain g t where g: "NewGuard e True [] = (g, t)" by (cases "NewGuard e True []")
  obtain h t' where host: "NewRuntimeHost core probe True r root secure True True g t = (h, t')"
    by (metis prod.exhaust)
  obtain err where "run_state (Refresh e) (\<lparr>gu_backend = \<lparr>gb_engine = False, gb_last_stage = kReadVerify, gb_last_error = 0\<rparr>,
         gu_events = True, gu_state = kIncomplete\<rparr>, []) = (err, (g, t))"
    using g unfolding NewGuard_def by (metis prod.collapse)
  from emitsD [OF emits_Refresh this] have "list_all (\<lambda>(op, a). guard_io op) t" by simp
  then have q: "list_all (\<lambda>(op, a). quiet_for (AppendPath root kJournalName) op) t"
    by (rule list.pred_mono_strong) (auto intro: guard_quiet)
  have h: "t' = (if core then (CoreIo CoreSetOperationalEventSink, AUnit) # t else t)" "rh_recovery h = r" "rh_profile_path h = []"
    using host by (auto simp: NewRuntimeHost_def Let_def)
  have "host_inv d b (AppendPath root kJournalName) (h, [])" using i assms(1) h by (simp add: host_inv_def AppendPath_def)
  from host_inv_quiet [OF this, of t'] q h(1) have "host_inv d b (AppendPath root kJournalName) (h, t')" by simp
  with g host show ?thesis by (simp add: started_host_def r_def)
qed

text \<open>
  C2. Crash safety of the service.  Whatever the host is asked to do after a start, in whatever
  order and with whatever answers from Core, the system and the interruption callbacks, at every
  moment of the run at which Core may have changed the network without its change being undone,
  a service that starts on the disk of that moment finds a journal that makes it recover.
\<close>

theorem host_crash_safe:
  assumes "root \<noteq> []" and "b \<longrightarrow> needs_rollback (d (AppendPath root kJournalName))"
    and "host_run e calls (started_host e d root ns core probe secure) = (h, t)"
    and "suffix u t" and "network_dirty b u"
  shows "RequiresRecovery (NewRecovery root ns (journal_on (disk_after d u) (AppendPath root kJournalName)))"
proof -
  have "journaled d b root (h, t)"
    using journaled_host.after_run [where root = root and d = d and b = b and e = e and calls = calls and
        s = "started_host e d root ns core probe secure"]
      started_host_inv [of root b d e ns core probe secure] assms(1-3) by auto
  then have "all_moments (covered d b (AppendPath root kJournalName)) t" by (simp add: host_inv_def rec_inv_def)
  with assms(4) have "covered d b (AppendPath root kJournalName) u" by (simp add: all_moments_iff)
  with assms(5) show ?thesis by (simp add: covered_def RequiresRecovery_restart needs_rollback_recovery)
qed

text \<open>The service restarts after a crash under a running Core: before its first call the journal asks for recovery.\<close>

theorem host_crash_safe_witness:
  "RequiresRecovery (NewRecovery ''C:'' True (journal_on
     (disk_after (\<lambda>_. Some (journal_text kCoreStarted (hex_string (replicate 16 1)) [])) []) (AppendPath ''C:'' kJournalName)))"
  by (intro host_crash_safe [where b = True and e = happy_env and calls = "[CallRecoverOnStartup, CallDisconnect True]" and
        core = True and probe = True and secure = True, OF _ _ surjective_pairing])
    (simp_all add: needs_rollback_text sample_generation)

end
