(* ===== verification/Guard_Laws.thy ===== *)
theory Guard_Laws
  imports Transition_Guard Recovery_Laws
begin

text \<open>
  The transition guard never reports more than it has seen: it is armed only after a read
  that found its sublayer, all eight filters and no filter that could override them, and it
  is off only after a read that found none of them; in both cases the service has not
  changed the platform since.  An installation is one transaction, and the installed filters
  block everything but the service.
\<close>

section \<open>What a read has seen\<close>

definition enumerated :: "(u32 \<times> FWPM_FILTER0 list) list \<Rightarrow> FWPM_FILTER0 list" where
  "enumerated pages = concat (map snd (takeWhile (\<lambda>p. snd p \<noteq> []) pages))"

definition sublayer_seen :: "trace \<Rightarrow> GUID \<Rightarrow> u32 \<Rightarrow> FWPM_SUBLAYER0 \<Rightarrow> bool" where
  "sublayer_seen new key code s \<longleftrightarrow> (WfpIo (SubLayerGetByKey key), ASubLayer code s) \<in> set new"

definition filter_seen :: "trace \<Rightarrow> GUID \<Rightarrow> u32 \<Rightarrow> FWPM_FILTER0 \<Rightarrow> bool" where
  "filter_seen new key code f \<longleftrightarrow> (WfpIo (FilterGetByKey key), AFilter code f) \<in> set new"

definition no_override :: "trace \<Rightarrow> u16 \<Rightarrow> FWPM_FILTER0 \<Rightarrow> FWPM_FILTER0 list \<Rightarrow> bool" where
  "no_override new guard_weight permit fs \<longleftrightarrow>
     (\<forall>f \<in> set fs. IsPotentialGuardOverride f \<longrightarrow>
        (\<exists>s. sublayer_seen new (fi_subLayerKey f) ERROR_SUCCESS s \<and>
             \<not> CanOverrideGuard f (sl_weight s) guard_weight permit))"

definition guard_verified :: "trace \<Rightarrow> bool" where
  "guard_verified new \<longleftrightarrow>
     (\<exists>defs s. sublayer_seen new kSubLayer ERROR_SUCCESS s \<and> MatchesSubLayer s \<and>
        (\<forall>i < kFilterCount. \<exists>f. filter_seen new (FilterKey i) ERROR_SUCCESS f \<and> Matches f (At defs i)) \<and>
        (\<forall>layer \<in> set kLayers. \<exists>pages. (WfpIo (FilterEnum layer), APages pages) \<in> set new \<and>
           no_override new (sl_weight s) (At defs 0) (enumerated pages)))"

definition guard_absent :: "trace \<Rightarrow> bool" where
  "guard_absent new \<longleftrightarrow>
     (\<exists>s. sublayer_seen new kSubLayer FWP_E_SUBLAYER_NOT_FOUND s) \<and>
     (\<forall>i < kFilterCount. \<exists>f. filter_seen new (FilterKey i) FWP_E_FILTER_NOT_FOUND f)"

text \<open>Calls that change the objects of the platform.\<close>

fun changes_platform :: "io \<Rightarrow> bool" where
  "changes_platform (WfpIo (FilterDeleteByKey k)) = True"
| "changes_platform (WfpIo (SubLayerDeleteByKey k)) = True"
| "changes_platform (WfpIo (SubLayerAdd s)) = True"
| "changes_platform (WfpIo (FilterAdd f)) = True"
| "changes_platform (WfpIo TransactionCommit) = True"
| "changes_platform op = False"

definition reading :: "trace \<Rightarrow> bool" where
  "reading new \<longleftrightarrow> list_all (\<lambda>(op, a). \<not> changes_platform op) new"

lemma reading_simps [simp]:
  "reading []" "reading ((op, a) # new) \<longleftrightarrow> \<not> changes_platform op \<and> reading new"
  "reading (x @ y) \<longleftrightarrow> reading x \<and> reading y"
  by (simp_all add: reading_def)

lemma seen_mono:
  "sublayer_seen y k c s \<Longrightarrow> sublayer_seen (x @ y) k c s" "sublayer_seen x k c s \<Longrightarrow> sublayer_seen (x @ y) k c s"
  "filter_seen y k c f \<Longrightarrow> filter_seen (x @ y) k c f" "filter_seen x k c f \<Longrightarrow> filter_seen (x @ y) k c f"
  by (auto simp: sublayer_seen_def filter_seen_def)

lemma no_override_mono:
  assumes "no_override x w p fs"
  shows "no_override (x @ y) w p fs" "no_override (y @ x) w p fs"
  using assms seen_mono(1,2) unfolding no_override_def by blast+

text \<open>What an action adds to the trace.\<close>

definition adds :: "('c, 'a) action \<Rightarrow> ('a \<Rightarrow> trace \<Rightarrow> bool) \<Rightarrow> bool" where
  "adds m P \<longleftrightarrow> (\<forall>c t a c' t'. run_state m (c, t) = (a, (c', t')) \<longrightarrow>
     c' = c \<and> (\<exists>new. t' = new @ t \<and> reading new \<and> P a new))"

lemma addsD:
  assumes "adds m P" and "run_state m (c, t) = (a, (c', t'))"
  obtains new where "c' = c" "t' = new @ t" "reading new" "P a new"
  using assms by (fastforce simp: adds_def)

lemma adds_return: "P a [] \<Longrightarrow> adds (State_Monad.return a) P"
  by (auto simp: adds_def run_return)

lemma adds_bind:
  assumes "adds m R" and "\<And>a. adds (f a) (Q a)"
    and "\<And>a b x y. R a x \<Longrightarrow> Q a b y \<Longrightarrow> P b (y @ x)"
  shows "adds (State_Monad.bind m f) P"
  unfolding adds_def
proof (intro allI impI)
  fix c t b c'' t'' assume r: "run_state (State_Monad.bind m f) (c, t) = (b, (c'', t''))"
  obtain a c' t' where m: "run_state m (c, t) = (a, (c', t'))" by (metis prod.exhaust)
  with r have k: "run_state (f a) (c', t') = (b, (c'', t''))" by (simp add: run_bind)
  from addsD [OF assms(1) m] obtain x where x: "c' = c" "t' = x @ t" "reading x" "R a x" .
  from addsD [OF assms(2) k] obtain y where y: "c'' = c'" "t'' = y @ t'" "reading y" "Q a b y" .
  from x y assms(3) [OF x(4) y(4)]
  show "c'' = c \<and> (\<exists>new. t'' = new @ t \<and> reading new \<and> P b new)"
    by (intro conjI exI [of _ "y @ x"]) simp_all
qed

lemma adds_ask:
  "\<not> changes_platform op \<Longrightarrow> (\<And>a. P a [(op, w a)]) \<Longrightarrow> adds (ask f w op) P"
  by (auto simp: adds_def run_ask)

lemma adds_if: "(b \<Longrightarrow> adds m P) \<Longrightarrow> (\<not> b \<Longrightarrow> adds n P) \<Longrightarrow> adds (if b then m else n) P"
  by simp

lemma adds_weaken: "adds m P \<Longrightarrow> (\<And>a x. P a x \<Longrightarrow> Q a x) \<Longrightarrow> adds m Q"
  unfolding adds_def by blast

lemma adds_InitializeDefinitions: "adds (InitializeDefinitions e) (\<lambda>_ _. True)"
  unfolding InitializeDefinitions_def
  by (intro adds_bind [where R = "\<lambda>_ _. True" and Q = "\<lambda>_ _ _. True"] adds_if adds_return adds_ask) simp_all

lemma adds_scan_filters:
  "adds (scan_filters e w p fs) (\<lambda>(code, conflict) new. code = ERROR_SUCCESS \<and> \<not> conflict \<longrightarrow> no_override new w p fs)"
proof (induction fs)
  case Nil
  then show ?case by (simp add: adds_return no_override_def)
next
  case (Cons f fs)
  show ?case
  proof (cases "IsPotentialGuardOverride f")
    case False
    then show ?thesis
      by (simp, intro adds_weaken [OF Cons]) (auto simp: no_override_def)
  next
    case True
    then show ?thesis
      apply simp
      apply (rule adds_bind [where
          R = "\<lambda>a x. sublayer_seen x (fi_subLayerKey f) (fst a) (snd a)" and
          Q = "\<lambda>a (code, conflict) new. code = ERROR_SUCCESS \<and> \<not> conflict \<longrightarrow>
              fst a = ERROR_SUCCESS \<and> \<not> CanOverrideGuard f (sl_weight (snd a)) w p \<and> no_override new w p fs"])
        apply (rule adds_ask)
         apply simp
        apply (simp add: sublayer_seen_def split_beta)
       apply (intro adds_if adds_return)
         apply simp
        apply simp
       apply (rule adds_weaken [OF Cons])
       apply auto []
      using no_override_mono seen_mono
      apply (fastforce simp: no_override_def sublayer_seen_def)
      done
  qed
qed

lemma no_override_append:
  "no_override new w p (fs @ gs) \<longleftrightarrow> no_override new w p fs \<and> no_override new w p gs"
  by (auto simp: no_override_def)

lemma no_override_Nil [simp]: "no_override new w p []"
  by (simp add: no_override_def)

lemma enumerated_Cons: "enumerated ((code, fs) # pages) = (if fs = [] then [] else fs @ enumerated pages)"
  by (simp add: enumerated_def)

lemma adds_scan_pages:
  "adds (scan_pages e w p pages :: ('c, u32 \<times> bool) action)
     (\<lambda>(code, conflict) new. code = ERROR_SUCCESS \<and> \<not> conflict \<longrightarrow> no_override new w p (enumerated pages))"
proof (induction pages)
  case Nil
  then show ?case by (simp add: adds_return enumerated_def)
next
  case (Cons page pages)
  obtain code fs where page: "page = (code, fs)" by (cases page)
  have rest: "adds (if fs = [] \<or> fst sc \<noteq> ERROR_SUCCESS \<or> snd sc then State_Monad.return sc
        else (scan_pages e w p pages :: ('c, u32 \<times> bool) action))
      (\<lambda>(code, conflict) new. code = ERROR_SUCCESS \<and> \<not> conflict \<longrightarrow> fs = [] \<or>
         fst sc = ERROR_SUCCESS \<and> \<not> snd sc \<and> no_override new w p (enumerated pages))" for sc
    by (intro adds_if adds_return adds_weaken [OF Cons]) auto
  show ?case
    unfolding page scan_pages.simps
    by (rule adds_if, rule adds_return, simp, rule adds_bind [OF adds_scan_filters rest])
      (auto simp: enumerated_Cons no_override_append no_override_mono)
qed

definition layers_safe :: "trace \<Rightarrow> u16 \<Rightarrow> FWPM_FILTER0 \<Rightarrow> GUID list \<Rightarrow> bool" where
  "layers_safe new w p layers \<longleftrightarrow>
     (\<forall>layer \<in> set layers. \<exists>pages. (WfpIo (FilterEnum layer), APages pages) \<in> set new \<and>
        no_override new w p (enumerated pages))"

lemma layers_safe_mono:
  "layers_safe y w p layers \<Longrightarrow> layers_safe (x @ y) w p layers"
  "layers_safe x w p layers \<Longrightarrow> layers_safe (x @ y) w p layers"
  unfolding layers_safe_def using no_override_mono by (metis Un_iff set_append)+

lemma adds_ask_any: "\<not> changes_platform op \<Longrightarrow> adds (ask f w op) (\<lambda>a x. x = [(op, w a)])"
  by (rule adds_ask) simp_all

lemma adds_verify_layers:
  "adds (verify_layers e w p layers :: ('c, u32 \<times> bool) action)
     (\<lambda>r new. fst r = ERROR_SUCCESS \<and> snd r \<longrightarrow> layers_safe new w p layers)"
proof (induction layers)
  case Nil
  then show ?case by (simp add: adds_return layers_safe_def)
next
  case (Cons layer layers)
  let ?ok = "\<lambda>r. fst r = ERROR_SUCCESS \<and> snd r"
  define rest where "rest sc cl = (if fst sc \<noteq> ERROR_SUCCESS then State_Monad.return (fst sc, False)
        else if cl \<noteq> ERROR_SUCCESS then State_Monad.return (cl, False)
        else if snd sc then State_Monad.return (ERROR_SUCCESS, False) else (verify_layers e w p layers :: ('c, u32 \<times> bool) action))"
    for sc :: "u32 \<times> bool" and cl
  have rest: "adds (rest sc cl)
      (\<lambda>r new. ?ok r \<longrightarrow> fst sc = ERROR_SUCCESS \<and> \<not> snd sc \<and> layers_safe new w p layers)" for sc cl
    unfolding rest_def by (intro adds_if adds_return adds_weaken [OF Cons]) auto
  have close: "adds (do { cl \<leftarrow> ask_code e (WfpIo FilterDestroyEnum); rest sc cl })
      (\<lambda>r new. ?ok r \<longrightarrow> fst sc = ERROR_SUCCESS \<and> \<not> snd sc \<and> layers_safe new w p layers)" for sc
    by (rule adds_bind [OF adds_ask_any rest]) (auto simp: layers_safe_mono)
  have scan: "adds (do { sc \<leftarrow> scan_pages e w p pages; cl \<leftarrow> ask_code e (WfpIo FilterDestroyEnum); rest sc cl })
      (\<lambda>r new. ?ok r \<longrightarrow> no_override new w p (enumerated pages) \<and> layers_safe new w p layers)" for pages
    by (rule adds_bind [OF adds_scan_pages close]) (auto simp: layers_safe_mono no_override_mono)
  have enum: "adds (do { pages \<leftarrow> ask (env_pages e) APages (WfpIo (FilterEnum layer));
        sc \<leftarrow> scan_pages e w p pages; cl \<leftarrow> ask_code e (WfpIo FilterDestroyEnum); rest sc cl })
      (\<lambda>r new. ?ok r \<longrightarrow> layers_safe new w p (layer # layers))"
  proof (rule adds_bind [OF adds_ask_any scan])
    fix pages r x y
    assume x: "x = [(WfpIo (FilterEnum layer), APages pages)]"
      and y: "?ok r \<longrightarrow> no_override y w p (enumerated pages) \<and> layers_safe y w p layers"
    show "?ok r \<longrightarrow> layers_safe (y @ x) w p (layer # layers)"
    proof
      assume "?ok r"
      with y have n: "no_override (y @ x) w p (enumerated pages)" and l: "layers_safe (y @ x) w p layers"
        by (simp_all add: no_override_mono layers_safe_mono)
      with x show "layers_safe (y @ x) w p (layer # layers)"
        unfolding layers_safe_def by auto
    qed
  qed simp
  show ?case
    unfolding verify_layers.simps rest_def [symmetric]
    by (rule adds_bind [OF adds_ask_any, where Q = "\<lambda>_ r new. ?ok r \<longrightarrow> layers_safe new w p (layer # layers)"])
      (auto intro!: adds_if adds_return enum simp: layers_safe_mono)
qed

lemma adds_read_filters:
  "adds (read_filters e defs is any complete :: ('c, u32 \<times> bool \<times> bool) action)
     (\<lambda>(code, any', complete') new. code = ERROR_SUCCESS \<longrightarrow>
        (complete' \<longrightarrow> complete \<and> (\<forall>i \<in> set is. \<exists>f. filter_seen new (FilterKey i) ERROR_SUCCESS f \<and> Matches f (At defs i))) \<and>
        (\<not> any' \<longrightarrow> \<not> any \<and> (\<forall>i \<in> set is. \<exists>f. filter_seen new (FilterKey i) FWP_E_FILTER_NOT_FOUND f)))"
  (is "adds _ (?P is any complete)")
proof (induction "is" arbitrary: any complete)
  case Nil
  then show ?case by (simp add: adds_return)
next
  case (Cons i "is")
  have key: "fi_filterKey (At defs i) = FilterKey i" by (simp add: At_def Let_def)
  show ?case
    unfolding read_filters.simps key
  proof (rule adds_bind [OF adds_ask_any, where Q = "\<lambda>a r new. fst r = ERROR_SUCCESS \<longrightarrow>
      fst a = ERROR_SUCCESS \<and> ?P is True (Matches (snd a) (At defs i) \<and> complete) r new \<or>
      fst a = FWP_E_FILTER_NOT_FOUND \<and> ?P is any False r new"])
    fix a
    show "adds (if fst a = ERROR_SUCCESS
        then (read_filters e defs is True (Matches (snd a) (At defs i) \<and> complete) :: ('c, u32 \<times> bool \<times> bool) action)
        else if fst a = FWP_E_FILTER_NOT_FOUND then read_filters e defs is any False
        else State_Monad.return (fst a, any, complete))
      (\<lambda>r new. fst r = ERROR_SUCCESS \<longrightarrow>
        fst a = ERROR_SUCCESS \<and> ?P is True (Matches (snd a) (At defs i) \<and> complete) r new \<or>
        fst a = FWP_E_FILTER_NOT_FOUND \<and> ?P is any False r new)"
      by (intro adds_if adds_return adds_weaken [OF Cons]) auto
  next
    fix a r x y
    assume "x = [(WfpIo (FilterGetByKey (FilterKey i)), case a of (code, f) \<Rightarrow> AFilter code f)]"
    then have x: "filter_seen (y @ x) (FilterKey i) (fst a) (snd a)"
      by (simp add: filter_seen_def split_beta)
    show "(fst r = ERROR_SUCCESS \<longrightarrow>
        fst a = ERROR_SUCCESS \<and> ?P is True (Matches (snd a) (At defs i) \<and> complete) r y \<or>
        fst a = FWP_E_FILTER_NOT_FOUND \<and> ?P is any False r y) \<Longrightarrow> ?P (i # is) any complete r (y @ x)"
      using x seen_mono(3,4) by (cases r) fastforce
  qed simp
qed

lemma read_objects_absent:
  assumes "sublayer_seen new kSubLayer FWP_E_SUBLAYER_NOT_FOUND s"
    and "\<forall>i \<in> set [0..<kFilterCount]. \<exists>f. filter_seen new (FilterKey i) FWP_E_FILTER_NOT_FOUND f"
  shows "guard_absent new"
  using assms by (auto simp: guard_absent_def)

lemma read_objects_verified:
  assumes "sublayer_seen new kSubLayer ERROR_SUCCESS s" and "MatchesSubLayer s"
    and "\<forall>i \<in> set [0..<kFilterCount]. \<exists>f. filter_seen new (FilterKey i) ERROR_SUCCESS f \<and> Matches f (At defs i)"
    and "layers_safe new (sl_weight s) (At defs 0) kLayers"
  shows "guard_verified new"
  using assms unfolding guard_verified_def layers_safe_def
  by (intro exI [of _ defs] exI [of _ s]) simp

lemma adds_read_objects:
  "adds (read_objects e defs)
     (\<lambda>r new. fst r = ERROR_SUCCESS \<longrightarrow>
        (snd (snd r) \<longrightarrow> guard_verified new) \<and> (\<not> snd (snd r) \<and> \<not> fst (snd r) \<longrightarrow> guard_absent new))"
  unfolding adds_def
proof (intro allI impI)
  fix c t r c' t' assume run: "run_state (read_objects e defs) (c, t) = (r, (c', t'))"
  let ?op = "WfpIo (SubLayerGetByKey kSubLayer)"
  obtain code s where ans: "env_sublayer e t ?op = (code, s)" by (metis prod.exhaust)
  define ev where "ev = [(?op, ASubLayer code s)]"
  have ev: "reading ev" "sublayer_seen ev kSubLayer code s" by (simp_all add: ev_def sublayer_seen_def)
  show "c' = c \<and> (\<exists>new. t' = new @ t \<and> reading new \<and> (fst r = ERROR_SUCCESS \<longrightarrow>
      (snd (snd r) \<longrightarrow> guard_verified new) \<and> (\<not> snd (snd r) \<and> \<not> fst (snd r) \<longrightarrow> guard_absent new)))"
  proof (cases "code \<noteq> ERROR_SUCCESS \<and> code \<noteq> FWP_E_SUBLAYER_NOT_FOUND")
    case True
    then have "r = (code, False, True)" "c' = c" "t' = ev @ t"
      using run by (auto simp: read_objects_def run_simps ans ev_def)
    with True ev show ?thesis by auto
  next
    case False
    define found where "found \<longleftrightarrow> code = ERROR_SUCCESS"
    obtain res any comp c2 t2 where
      rf: "run_state (read_filters e defs [0..<kFilterCount] found (found \<and> MatchesSubLayer s)) (c, ev @ t) = ((res, any, comp), (c2, t2))"
      by (metis prod.exhaust)
    from addsD [OF adds_read_filters rf] obtain x where x: "c2 = c" "t2 = x @ ev @ t" "reading x"
      and fx: "res = ERROR_SUCCESS \<longrightarrow>
        (comp \<longrightarrow> (found \<and> MatchesSubLayer s) \<and> (\<forall>i \<in> set [0..<kFilterCount]. \<exists>f. filter_seen x (FilterKey i) ERROR_SUCCESS f \<and> Matches f (At defs i))) \<and>
        (\<not> any \<longrightarrow> \<not> found \<and> (\<forall>i \<in> set [0..<kFilterCount]. \<exists>f. filter_seen x (FilterKey i) FWP_E_FILTER_NOT_FOUND f))"
      by auto
    show ?thesis
    proof (cases "res = ERROR_SUCCESS \<and> comp")
      case True
      obtain v c3 t3 where vf: "run_state (VerifyGuardPriority e (sl_weight s) (At defs 0)) (c2, t2) = (v, (c3, t3))"
        by (metis prod.exhaust)
      from addsD [OF adds_verify_layers vf [unfolded VerifyGuardPriority_def]] obtain y
        where y: "c3 = c2" "t3 = y @ t2" "reading y"
          "fst v = ERROR_SUCCESS \<and> snd v \<longrightarrow> layers_safe y (sl_weight s) (At defs 0) kLayers" .
      have r: "r = (fst v, any, snd v)" "c' = c3" "t' = t3"
        using run False True rf vf by (auto simp: read_objects_def run_simps ans ev_def found_def Let_def)
      have any: "any" using fx True by auto
      have "guard_verified (y @ x @ ev)" if "fst v = ERROR_SUCCESS" "snd v"
        using fx True y that ev seen_mono
        by (intro read_objects_verified [of _ s defs]) (auto simp: found_def layers_safe_mono intro: seen_mono)
      with r x y ev any show ?thesis by (intro conjI exI [of _ "y @ x @ ev"]) auto
    next
      case False': False
      have r: "r = (res, any, comp)" "c' = c2" "t' = t2"
        using run False False' rf by (auto simp: read_objects_def run_simps ans ev_def found_def Let_def)
      have "guard_absent (x @ ev)" if "res = ERROR_SUCCESS" "\<not> any"
        using fx that ev False by (intro read_objects_absent [of _ s]) (auto simp: found_def intro: seen_mono)
      with r x ev False' show ?thesis by (intro conjI exI [of _ "x @ ev"]) auto
    qed
  qed
qed

lemma Open_run:
  assumes "run_state (Open e) (g, t) = (err, (g', t'))"
  obtains new where "t' = new @ t" "reading new"
  using assms by (auto simp: Open_def BackendFail_def run_simps split: if_splits)

lemma Read_run:
  assumes "run_state (Read e) (g, t) = (r, (g', t'))"
  obtains new where "t' = new @ t" "reading new"
    "r = ([], kArmed) \<Longrightarrow> guard_verified new" "r = ([], kOff) \<Longrightarrow> guard_absent new"
    "fst r \<noteq> [] \<Longrightarrow> snd r = kIncomplete"
proof -
  obtain oe g1 t1 where o: "run_state (Open e) (g\<lparr>gb_last_stage := kReadVerify, gb_last_error := 0\<rparr>, t) = (oe, (g1, t1))"
    by (metis prod.exhaust)
  obtain x where x: "t1 = x @ t" "reading x" using Open_run [OF o] by blast
  show thesis
  proof (cases "oe = []")
    case False
    then have "r = (oe, kIncomplete)" "t' = t1" using assms o by (auto simp: Read_def run_simps)
    with False x that [of x] show thesis by simp
  next
    case True
    obtain di g2 t2 where i: "run_state (InitializeDefinitions e) (g1, t1) = (di, (g2, t2))" by (metis prod.exhaust)
    from addsD [OF adds_InitializeDefinitions i] obtain y where y: "t2 = y @ t1" "reading y" .
    show thesis
    proof (cases di)
      case (Inl ec)
      then have "fst r = fst ec" "snd r = kIncomplete" "t' = t2"
        using assms o i True by (auto simp: Read_def run_simps BackendFail_def split: prod.splits)
      with x y that [of "y @ x"] show thesis by (cases r) auto
    next
      case (Inr defs)
      define code where "code = env_code e t2 (WfpIo (TransactionBegin True))"
      define ev where "ev = [(WfpIo (TransactionBegin True), ACode code)]"
      obtain ob g3 t3 where ro: "run_state (read_objects e defs) (g2, ev @ t2) = (ob, (g3, t3))" by (metis prod.exhaust)
      from addsD [OF adds_read_objects ro] obtain z where z: "t3 = z @ ev @ t2" "reading z"
        "fst ob = ERROR_SUCCESS \<longrightarrow> (snd (snd ob) \<longrightarrow> guard_verified z) \<and> (\<not> snd (snd ob) \<and> \<not> fst (snd ob) \<longrightarrow> guard_absent z)" .
      have ab: "guard_verified z \<Longrightarrow> guard_verified (u @ z @ v)" "guard_absent z \<Longrightarrow> guard_absent (u @ z @ v)" for u v
        unfolding guard_verified_def guard_absent_def
        using no_override_mono seen_mono by (metis Un_iff set_append)+
      show thesis
      proof (cases "code = ERROR_SUCCESS")
        case False
        then have "fst r \<noteq> []" "snd r = kIncomplete" "t' = ev @ t2"
          using assms o i True Inr by (auto simp: Read_def run_simps BackendFail_def code_def ev_def)
        with x y that [of "ev @ y @ x"] show thesis by (cases r) (auto simp: ev_def)
      next
        case ok: True
        define fin where "fin = [(WfpIo TransactionAbort, AUnit)]"
        have "t' = fin @ t3" and r: "r = (if fst ob \<noteq> ERROR_SUCCESS then (''transition_guard_read_failed'', kIncomplete)
            else ([], if snd (snd ob) then kArmed else if fst (snd ob) then kIncomplete else kOff))"
          using assms o i True Inr ok ro
          by (auto simp: Read_def run_simps BackendFail_def code_def ev_def fin_def split: prod.splits if_splits)
        then have "t' = (fin @ z @ ev @ y @ x) @ t" using x y z by simp
        with x y z ab [of fin "ev @ y @ x"] r that [of "fin @ z @ ev @ y @ x"]
        show thesis by (auto simp: ev_def fin_def split: if_splits)
      qed
    qed
  qed
qed

section \<open>The state of the guard\<close>

text \<open>The condition was seen, and the service has not changed the platform since.\<close>

definition recent :: "(trace \<Rightarrow> bool) \<Rightarrow> trace \<Rightarrow> bool" where
  "recent P t \<longleftrightarrow> (\<exists>new older. t = new @ older \<and> reading new \<and> P new)"

definition guard_sound :: "Guard \<times> trace \<Rightarrow> bool" where
  "guard_sound = (\<lambda>(g, t). (gu_state g = kArmed \<longrightarrow> recent guard_verified t) \<and>
     (gu_state g = kOff \<longrightarrow> recent guard_absent t))"

lemma guard_verified_mono: "guard_verified y \<Longrightarrow> guard_verified (x @ y)"
  unfolding guard_verified_def using no_override_mono seen_mono by (metis Un_iff set_append)

lemma guard_absent_mono: "guard_absent y \<Longrightarrow> guard_absent (x @ y)"
  unfolding guard_absent_def using seen_mono by metis

lemma recent_quiet:
  "recent guard_verified t \<Longrightarrow> reading x \<Longrightarrow> recent guard_verified (x @ t)"
  "recent guard_absent t \<Longrightarrow> reading x \<Longrightarrow> recent guard_absent (x @ t)"
  unfolding recent_def by (metis append.assoc guard_verified_mono guard_absent_mono reading_simps(3))+

lemma guard_sound_quiet:
  "guard_sound (g, t) \<Longrightarrow> \<not> changes_platform op \<Longrightarrow> guard_sound (g, (op, a) # t)"
  using recent_quiet [of t "[(op, a)]"] by (auto simp: guard_sound_def)

lemma guard_sound_incomplete: "gu_state g = kIncomplete \<Longrightarrow> guard_sound (g, t)"
  by (simp add: guard_sound_def)

lemma Refresh_run:
  assumes "run_state (Refresh e) (g, t) = (err, (g', t'))"
  shows "guard_sound (g', t')" and "err \<noteq> [] \<Longrightarrow> gu_state g' = kIncomplete"
    and "gu_events g' = gu_events g"
proof -
  obtain r b t1 where r: "run_state (Read e) (gu_backend g, t) = (r, (b, t1))" by (metis prod.exhaust)
  from Read_run [OF r] obtain new where new: "t1 = new @ t" "reading new"
    "r = ([], kArmed) \<Longrightarrow> guard_verified new" "r = ([], kOff) \<Longrightarrow> guard_absent new" by metis
  have s: "t' = t1" "err = fst r" "gu_state g' = (if fst r \<noteq> [] then kIncomplete else snd r)"
    "gu_events g' = gu_events g"
    using assms r by (auto simp: Refresh_def run_simps)
  show "guard_sound (g', t')"
    using s new by (cases r) (auto simp: guard_sound_def recent_def)
  show "err \<noteq> [] \<Longrightarrow> gu_state g' = kIncomplete" "gu_events g' = gu_events g" using s by auto
qed

lemma Report_run:
  assumes "run_state (Report op error) (g, t) = (err, (g', t'))"
  shows "err = error" and "g' = g" and "guard_sound (g, t) \<Longrightarrow> guard_sound (g', t')"
  using assms guard_sound_quiet by (auto simp: Report_def run_simps split: if_splits)

lemma Start_run:
  assumes "run_state (Start e) (g, t) = (err, (g', t'))"
  shows "guard_sound (g', t')" and "err = [] \<Longrightarrow> gu_state g' = kArmed"
proof -
  obtain e1 g1 t1 where r1: "run_state (Refresh e) (g, t) = (e1, (g1, t1))" by (metis prod.exhaust)
  note R1 = Refresh_run [OF r1]
  consider (read) "e1 \<noteq> []" "run_state (Report kStart_guard e1) (g1, t1) = (err, (g', t'))"
    | (armed) "e1 = []" "gu_state g1 = kArmed" "err = []" "g' = g1" "t' = t1"
    | (install) e2 b t2 where "e1 = []" "run_state (Install e) (gu_backend g1, t1) = (e2, (b, t2))" "e2 \<noteq> []"
        "run_state (Report kStart_guard e2) (g1\<lparr>gu_backend := b, gu_state := kIncomplete\<rparr>, t2) = (err, (g', t'))"
    | (reread) e3 g3 t3 q t2 where "run_state (Refresh e) (q, t2) = (e3, (g3, t3))"
        "if e3 \<noteq> [] then run_state (Report kStart_guard e3) (g3, t3) = (err, (g', t'))
         else if gu_state g3 = kArmed then err = [] \<and> g' = g3 \<and> t' = t3
         else run_state (Report kStart_guard ''transition_guard_not_verified'') (g3\<lparr>gu_state := kIncomplete\<rparr>, t3) = (err, (g', t'))"
    using assms r1 by (auto simp: Start_def run_simps split: if_splits prod.splits)
  then have "guard_sound (g', t') \<and> (err = [] \<longrightarrow> gu_state g' = kArmed)"
  proof cases
    case read
    with Report_run [OF read(2)] R1 show ?thesis by simp
  next
    case armed
    with R1 show ?thesis by simp
  next
    case install
    with Report_run [OF install(4)] guard_sound_incomplete show ?thesis by simp
  next
    case reread
    note R = Refresh_run [OF reread(1)]
    show ?thesis
      using reread(2) R Report_run [of kStart_guard e3 g3 t3 err g' t']
        Report_run [of kStart_guard "''transition_guard_not_verified''" "g3\<lparr>gu_state := kIncomplete\<rparr>" t3 err g' t']
        guard_sound_incomplete
      by (auto split: if_splits)
  qed
  then show "guard_sound (g', t')" "err = [] \<Longrightarrow> gu_state g' = kArmed" by auto
qed

lemma ExplicitOff_run:
  assumes "run_state (ExplicitOff e) (g, t) = (err, (g', t'))"
  shows "guard_sound (g', t')" and "err = [] \<Longrightarrow> gu_state g' = kOff"
proof -
  consider (remove) "gu_state g' = kIncomplete" "err \<noteq> []"
    | (reread) e3 g3 t3 q t2 where "run_state (Refresh e) (q, t2) = (e3, (g3, t3))" "g' = g3" "t' = t3"
        "err = (if e3 \<noteq> [] then e3 else if gu_state g3 = kOff then [] else ''transition_guard_remove_not_verified'')"
    using assms by (auto simp: ExplicitOff_def run_simps split: if_splits prod.splits)
  then have "guard_sound (g', t') \<and> (err = [] \<longrightarrow> gu_state g' = kOff)"
  proof cases
    case remove
    with guard_sound_incomplete show ?thesis by simp
  next
    case reread
    with Refresh_run [OF reread(1)] show ?thesis by (auto split: if_splits)
  qed
  then show "guard_sound (g', t')" "err = [] \<Longrightarrow> gu_state g' = kOff" by auto
qed

lemma Finish_run:
  assumes "run_state (Finish e) (g, t) = (err, (g', t'))"
  shows "guard_sound (g', t')" and "err = [] \<Longrightarrow> gu_state g' = kOff"
proof -
  obtain e1 g1 t1 where r: "run_state (ExplicitOff e) (g, t) = (e1, (g1, t1))" by (metis prod.exhaust)
  note R = ExplicitOff_run [OF r]
  show "guard_sound (g', t')" "err = [] \<Longrightarrow> gu_state g' = kOff"
    using assms r R Report_run [of kFinish_guard e1 g1 t1 err g' t']
    by (auto simp: Finish_def run_simps split: if_splits)
qed

text \<open>
  What the runtime relies on: a start that succeeds leaves the guard armed, an end that
  succeeds leaves it released, and its state is always backed by what was seen.
\<close>

locale transition_guard =
  fixes sound :: "'g \<times> trace \<Rightarrow> bool" and armed :: "'g \<Rightarrow> bool"
    and start :: "('g, string) action" and finish :: "('g, string) action"
  assumes start_law: "triple (\<lambda>_. True) start (\<lambda>err s. sound s \<and> (err = [] \<longrightarrow> armed (fst s)))"
    and finish_law: "triple (\<lambda>_. True) finish (\<lambda>err s. sound s \<and> (err = [] \<longrightarrow> \<not> armed (fst s)))"
begin

text \<open>A handoff: nothing of the body runs unguarded, and success means released.\<close>

lemma handoff:
  assumes "triple (\<lambda>s. sound s \<and> armed (fst s)) body (\<lambda>_ s. sound s \<and> armed (fst s))"
  shows "triple (\<lambda>_. True)
    (do { started \<leftarrow> start;
          if started \<noteq> [] then State_Monad.return started
          else do { result \<leftarrow> body;
                    if result \<noteq> [] then State_Monad.return result else finish } })
    (\<lambda>err s. sound s \<and> (err = [] \<longrightarrow> \<not> armed (fst s)))"
  by (rule triple_bind [OF start_law], intro triple_if triple_return)
    (auto intro!: triple_bind [OF triple_pre [OF assms]] triple_if triple_return intro: triple_pre [OF finish_law])

end

interpretation guard: transition_guard guard_sound IsArmed "Start e" "Finish e" for e
  by unfold_locales (rule triple_pairI, auto dest: Start_run Finish_run simp: IsArmed_def)+

interpretation guard_off: transition_guard guard_sound IsArmed "Start e" "ExplicitOff e" for e
  by unfold_locales (rule triple_pairI, auto dest: Start_run ExplicitOff_run simp: IsArmed_def)+

section \<open>The objects of the platform\<close>

record policy =
  po_sublayers :: "GUID \<Rightarrow> FWPM_SUBLAYER0 option"
  po_filters :: "GUID \<Rightarrow> FWPM_FILTER0 option"

text \<open>
  The committed objects and those of the open transaction, as the documented effect of each
  successful call.
\<close>

fun policy_step :: "io \<Rightarrow> policy \<Rightarrow> policy" where
  "policy_step (WfpIo (FilterDeleteByKey k)) p = p\<lparr>po_filters := (po_filters p)(k := None)\<rparr>"
| "policy_step (WfpIo (SubLayerDeleteByKey k)) p = p\<lparr>po_sublayers := (po_sublayers p)(k := None)\<rparr>"
| "policy_step (WfpIo (SubLayerAdd s)) p = p\<lparr>po_sublayers := (po_sublayers p)(sl_subLayerKey s \<mapsto> s)\<rparr>"
| "policy_step (WfpIo (FilterAdd f)) p = p\<lparr>po_filters := (po_filters p)(fi_filterKey f \<mapsto> f)\<rparr>"
| "policy_step op p = p"

definition wfp_step :: "io \<times> answer \<Rightarrow> policy \<times> policy option \<Rightarrow> policy \<times> policy option" where
  "wfp_step ev w = (case (ev, w) of
       ((WfpIo (TransactionBegin ro), ACode code), (p, s)) \<Rightarrow> if code = ERROR_SUCCESS then (p, Some p) else w
     | ((WfpIo TransactionCommit, ACode code), (p, Some s)) \<Rightarrow> if code = ERROR_SUCCESS then (s, None) else w
     | ((WfpIo TransactionAbort, a), (p, s)) \<Rightarrow> (p, None)
     | ((op, ACode code), (p, Some s)) \<Rightarrow> if code = ERROR_SUCCESS then (p, Some (policy_step op s)) else w
     | ((op, ACode code), (p, None)) \<Rightarrow> if code = ERROR_SUCCESS then (policy_step op p, None) else w
     | _ \<Rightarrow> w)"

definition wfp_after :: "policy \<times> policy option \<Rightarrow> trace \<Rightarrow> policy \<times> policy option" where
  "wfp_after w t = foldr wfp_step t w"

lemma wfp_after_simps [simp]: "wfp_after w [] = w" "wfp_after w (ev # t) = wfp_step ev (wfp_after w t)"
  by (simp_all add: wfp_after_def)

definition guard_policy :: "FilterDefinitions \<Rightarrow> policy \<Rightarrow> policy" where
  "guard_policy defs p =
     \<lparr>po_sublayers = (po_sublayers p)(kSubLayer \<mapsto> guard_sublayer),
      po_filters = foldl (\<lambda>m i. m(FilterKey i \<mapsto> At defs i)) (po_filters p) [0..<kFilterCount]\<rparr>"

text \<open>From the trace of length \<open>n\<close> on, the committed objects are \<open>p\<close>.\<close>

definition committed_is :: "policy \<times> policy option \<Rightarrow> nat \<Rightarrow> policy \<Rightarrow> trace \<Rightarrow> bool" where
  "committed_is w n p t \<longleftrightarrow> all_moments (\<lambda>u. n \<le> length u \<longrightarrow> fst (wfp_after w u) = p) t"

lemma committed_is_Cons [simp]:
  "committed_is w n p (ev # t) \<longleftrightarrow> (n \<le> Suc (length t) \<longrightarrow> fst (wfp_step ev (wfp_after w t)) = p) \<and> committed_is w n p t"
  by (simp add: committed_is_def)

lemma committed_is_start: "fst (wfp_after w t) = p \<Longrightarrow> committed_is w (length t) p t"
  unfolding committed_is_def all_moments_iff
  by (metis suffix_def suffix_length_le append_Nil dual_order.antisym length_append add_cancel_left_left length_0_conv)

lemma wfp_staged [simp]:
  "wfp_step (WfpIo (FilterDeleteByKey k), ACode code) (p, Some s) =
     (p, Some (if code = ERROR_SUCCESS then policy_step (WfpIo (FilterDeleteByKey k)) s else s))"
  "wfp_step (WfpIo (SubLayerDeleteByKey k), ACode code) (p, Some s) =
     (p, Some (if code = ERROR_SUCCESS then policy_step (WfpIo (SubLayerDeleteByKey k)) s else s))"
  "wfp_step (WfpIo (SubLayerAdd l), ACode code) (p, Some s) =
     (p, Some (if code = ERROR_SUCCESS then policy_step (WfpIo (SubLayerAdd l)) s else s))"
  "wfp_step (WfpIo (FilterAdd f), ACode code) (p, Some s) =
     (p, Some (if code = ERROR_SUCCESS then policy_step (WfpIo (FilterAdd f)) s else s))"
  "wfp_step (WfpIo TransactionCommit, ACode code) (p, Some s) = (if code = ERROR_SUCCESS then (s, None) else (p, Some s))"
  "wfp_step (WfpIo TransactionAbort, a) w = (fst w, None)"
  "wfp_step (WfpIo (TransactionBegin ro), ACode code) w = (if code = ERROR_SUCCESS then (fst w, Some (fst w)) else w)"
  by (auto simp: wfp_step_def split: prod.splits option.splits answer.splits)

lemma delete_filters_wfp:
  assumes "run_state (delete_filters e is) (c, t) = (code, (c', t'))" and "wfp_after w t = (p, Some s)"
    and "committed_is w n p t"
  shows "c' = c \<and> committed_is w n p t' \<and>
    (\<exists>s'. wfp_after w t' = (p, Some s') \<and> po_sublayers s' = po_sublayers s \<and>
           (\<forall>k. k \<notin> FilterKey ` set is \<longrightarrow> po_filters s' k = po_filters s k))"
  using assms
proof (induction "is" arbitrary: c t s)
  case Nil
  then show ?case by (simp add: run_simps)
next
  case (Cons i "is")
  define code1 where "code1 = env_code e t (WfpIo (FilterDeleteByKey (FilterKey i)))"
  define t1 where "t1 = (WfpIo (FilterDeleteByKey (FilterKey i)), ACode code1) # t"
  define s1 where "s1 = (if code1 = ERROR_SUCCESS then policy_step (WfpIo (FilterDeleteByKey (FilterKey i))) s else s)"
  have step: "wfp_after w t1 = (p, Some s1)" "committed_is w n p t1"
    using Cons.prems(2,3) by (simp_all add: t1_def s1_def)
  have s1: "po_sublayers s1 = po_sublayers s" "k \<noteq> FilterKey i \<Longrightarrow> po_filters s1 k = po_filters s k" for k
    by (simp_all add: s1_def)
  have run: "(code = code1 \<and> c' = c \<and> t' = t1) \<or> run_state (delete_filters e is) (c, t1) = (code, (c', t'))"
    using Cons.prems(1) by (auto simp: run_simps code1_def t1_def split: if_splits)
  from run show ?case
  proof
    assume "code = code1 \<and> c' = c \<and> t' = t1"
    with step s1 show ?thesis by auto
  next
    assume "run_state (delete_filters e is) (c, t1) = (code, (c', t'))"
    from Cons.IH [OF this step] s1 show ?thesis by auto
  qed
qed

lemma add_filters_wfp:
  assumes "run_state (add_filters e defs is) (c, t) = (code, (c', t'))" and "wfp_after w t = (p, Some s)"
    and "committed_is w n p t"
  shows "c' = c \<and> committed_is w n p t' \<and> (\<exists>s'. wfp_after w t' = (p, Some s')) \<and>
    (code = ERROR_SUCCESS \<longrightarrow> wfp_after w t' =
      (p, Some (s\<lparr>po_filters := foldl (\<lambda>m i. m(FilterKey i \<mapsto> At defs i)) (po_filters s) is\<rparr>)))"
  using assms
proof (induction "is" arbitrary: c t s)
  case Nil
  then show ?case by (simp add: run_simps)
next
  case (Cons i "is")
  define code1 where "code1 = env_code e t (WfpIo (FilterAdd (At defs i)))"
  define t1 where "t1 = (WfpIo (FilterAdd (At defs i)), ACode code1) # t"
  define s1 where "s1 = (if code1 = ERROR_SUCCESS then policy_step (WfpIo (FilterAdd (At defs i))) s else s)"
  have step: "wfp_after w t1 = (p, Some s1)" "committed_is w n p t1"
    using Cons.prems(2,3) by (simp_all add: t1_def s1_def)
  have key: "fi_filterKey (At defs i) = FilterKey i" by (simp add: At_def Let_def)
  have run: "(code = code1 \<and> code \<noteq> ERROR_SUCCESS \<and> c' = c \<and> t' = t1) \<or>
      (code1 = ERROR_SUCCESS \<and> run_state (add_filters e defs is) (c, t1) = (code, (c', t')))"
    using Cons.prems(1) by (auto simp: run_simps code1_def t1_def split: if_splits)
  from run show ?case
  proof
    assume "code = code1 \<and> code \<noteq> ERROR_SUCCESS \<and> c' = c \<and> t' = t1"
    with step show ?thesis by auto
  next
    assume a: "code1 = ERROR_SUCCESS \<and> run_state (add_filters e defs is) (c, t1) = (code, (c', t'))"
    from Cons.IH [OF conjunct2 [OF a] step] a key show ?thesis by (auto simp: s1_def)
  qed
qed

lemma foldl_update_agree:
  assumes "\<And>k. k \<notin> FilterKey ` set is \<Longrightarrow> m k = m' k"
  shows "foldl (\<lambda>m i. m(FilterKey i \<mapsto> At defs i)) m is = foldl (\<lambda>m i. m(FilterKey i \<mapsto> At defs i)) m' is"
proof -
  have "foldl (\<lambda>m i. m(FilterKey i \<mapsto> At defs i)) m is k = foldl (\<lambda>m i. m(FilterKey i \<mapsto> At defs i)) m' is k"
    if "m k = m' k \<or> k \<in> FilterKey ` set is" for k m m'
    using that by (induction "is" arbitrary: m m') auto
  with assms show ?thesis by blast
qed

lemma install_objects_wfp:
  assumes run: "run_state (install_objects e defs) (c, t) = (code, (c', t'))"
    and w: "wfp_after w t = (p, Some p)" and cm: "committed_is w n p t"
  shows "c' = c" and "committed_is w n p t'" and "\<exists>s. wfp_after w t' = (p, Some s)"
    and "code = ERROR_SUCCESS \<Longrightarrow> wfp_after w t' = (p, Some (guard_policy defs p))"
proof -
  obtain c1 t1 code1 where d: "run_state (delete_filters e [0..<kFilterCount]) (c, t) = (code1, (c1, t1))"
    by (metis prod.exhaust)
  note D = delete_filters_wfp [OF d w cm]
  then obtain s1 where s1: "wfp_after w t1 = (p, Some s1)" "po_sublayers s1 = po_sublayers p"
    "\<And>k. k \<notin> FilterKey ` set [0..<kFilterCount] \<Longrightarrow> po_filters s1 k = po_filters p k" by blast
  define code2 where "code2 = env_code e t1 (WfpIo (SubLayerDeleteByKey kSubLayer))"
  define t2 where "t2 = (WfpIo (SubLayerDeleteByKey kSubLayer), ACode code2) # t1"
  define code3 where "code3 = env_code e t2 (WfpIo (SubLayerAdd guard_sublayer))"
  define t3 where "t3 = (WfpIo (SubLayerAdd guard_sublayer), ACode code3) # t2"
  obtain s2 where s2: "wfp_after w t2 = (p, Some s2)" "po_filters s2 = po_filters s1"
    "(po_sublayers s2)(kSubLayer \<mapsto> x) = (po_sublayers p)(kSubLayer \<mapsto> x)" for x
    using s1 by (simp add: t2_def)
  have c2: "committed_is w n p t2" using D s1 by (simp add: t2_def)
  then have c3: "committed_is w n p t3" using s2 by (simp add: t3_def)
  consider (stop1) "code1 \<noteq> ERROR_SUCCESS" "t' = t1" "c' = c1" "code = code1"
    | (stop2) "code \<noteq> ERROR_SUCCESS" "t' = t2" "c' = c1"
    | (stop3) "code \<noteq> ERROR_SUCCESS" "t' = t3" "c' = c1"
    | (go) "code3 = ERROR_SUCCESS" "run_state (add_filters e defs [0..<kFilterCount]) (c1, t3) = (code, (c', t'))"
    using run d by (auto simp: install_objects_def DeleteOwned_def run_simps code2_def t2_def code3_def t3_def
        split: if_splits)
  then have "c' = c \<and> committed_is w n p t' \<and> (\<exists>s. wfp_after w t' = (p, Some s)) \<and>
    (code = ERROR_SUCCESS \<longrightarrow> wfp_after w t' = (p, Some (guard_policy defs p)))"
  proof cases
    case stop1
    with D s1 show ?thesis by auto
  next
    case stop2
    with D s2 c2 show ?thesis by auto
  next
    case stop3
    with D s2 c3 show ?thesis by (auto simp: t3_def)
  next
    case go
    define s3 where "s3 = s2\<lparr>po_sublayers := (po_sublayers s2)(kSubLayer \<mapsto> guard_sublayer)\<rparr>"
    have w3: "wfp_after w t3 = (p, Some s3)"
      using s2 go by (simp add: t3_def s3_def guard_sublayer_def)
    note A = add_filters_wfp [OF go(2) w3 c3]
    have "s3\<lparr>po_filters := foldl (\<lambda>m i. m(FilterKey i \<mapsto> At defs i)) (po_filters s3) [0..<kFilterCount]\<rparr> = guard_policy defs p"
      using s2 s1(3) foldl_update_agree [of "[0..<kFilterCount]" "po_filters s1" "po_filters p" defs]
      by (simp add: s3_def guard_policy_def)
    with A D show ?thesis by auto
  qed
  then show "c' = c" "committed_is w n p t'" "\<exists>s. wfp_after w t' = (p, Some s)"
    "code = ERROR_SUCCESS \<Longrightarrow> wfp_after w t' = (p, Some (guard_policy defs p))" by auto
qed

lemma wfp_idle:
  "op \<in> {EngineOpen, ModuleFileName, GetLastError, GetAppId, AppIdBlob, ConvertGuardSddl, SystemDescriptor} \<Longrightarrow>
   wfp_step (WfpIo op, a) w = w"
  by (cases a; cases w; cases "snd w") (auto simp: wfp_step_def)

lemma Open_wfp:
  assumes "run_state (Open e) (g, t) = (err, (g', t'))" and "committed_is w n p t" and "wfp_after w t = (p, None)"
  shows "wfp_after w t' = (p, None) \<and> committed_is w n p t'"
  using assms by (auto simp: Open_def BackendFail_def run_simps wfp_idle split: if_splits)

lemma InitializeDefinitions_wfp:
  assumes "run_state (InitializeDefinitions e) (g, t) = (r, (g', t'))" and "committed_is w n p t"
    and "wfp_after w t = (p, None)"
  shows "wfp_after w t' = (p, None) \<and> committed_is w n p t'"
  using assms by (auto simp: InitializeDefinitions_def run_simps wfp_idle split: if_splits)

lemma Complete_wfp:
  assumes "run_state (Complete e result error a c) (g, t) = (err, (g', t'))" and "error \<noteq> []"
    and "wfp_after w t = (p, Some s)" and "committed_is w n p t"
  shows "err = [] \<Longrightarrow> result = ERROR_SUCCESS \<and> wfp_after w t' = (s, None) \<and> (\<exists>ev. t' = ev # t)"
    and "err \<noteq> [] \<Longrightarrow> wfp_after w t' = (p, None) \<and> committed_is w n p t'"
  using assms by (auto simp: Complete_def BackendFail_def run_simps split: if_splits)

lemma Install_wfp:
  assumes run: "run_state (Install e) (g, t) = (err, (g', t'))" and w: "wfp_after w t = (p, None)"
    and cm: "committed_is w n p t"
  shows "err = [] \<Longrightarrow> \<exists>defs ev u. wfp_after w t' = (guard_policy defs p, None) \<and> t' = ev # u \<and> committed_is w n p u"
    and "err \<noteq> [] \<Longrightarrow> wfp_after w t' = (p, None) \<and> committed_is w n p t'"
proof -
  obtain oe g1 t1 where o: "run_state (Open e) (g\<lparr>gb_last_stage := kInstallApply, gb_last_error := 0\<rparr>, t) = (oe, (g1, t1))"
    by (metis prod.exhaust)
  have W1: "wfp_after w t1 = (p, None)" "committed_is w n p t1" using Open_wfp [OF o cm w] by auto
  obtain di g2 t2 where di: "run_state (InitializeDefinitions e) (g1, t1) = (di, (g2, t2))" by (metis prod.exhaust)
  have W2: "wfp_after w t2 = (p, None)" "committed_is w n p t2"
    using InitializeDefinitions_wfp [OF di W1(2,1)] by auto
  define code where "code = env_code e t2 (WfpIo (TransactionBegin False))"
  define t3 where "t3 = (WfpIo (TransactionBegin False), ACode code) # t2"
  have W3: "committed_is w n p t3" "code = ERROR_SUCCESS \<Longrightarrow> wfp_after w t3 = (p, Some p)"
    "code \<noteq> ERROR_SUCCESS \<Longrightarrow> wfp_after w t3 = (p, None)"
    using W2 by (simp_all add: t3_def)
  consider (early) "err \<noteq> []" "t' = t1 \<or> t' = t2 \<or> (t' = t3 \<and> code \<noteq> ERROR_SUCCESS)"
    | (go) defs r4 g4 t4 where "code = ERROR_SUCCESS" "run_state (install_objects e defs) (g2, t3) = (r4, (g4, t4))"
        "run_state (Complete e r4 ''transition_guard_install_failed'' kInstallApply kInstallCommit) (g4, t4) = (err, (g', t'))"
  proof (cases "oe = []")
    case False
    then have "err = oe" "t' = t1" using run o by (auto simp: Install_def run_simps)
    with False early show thesis by simp
  next
    case True
    show thesis
    proof (cases di)
      case (Inl ec)
      then have "t' = t2" "err = fst ec"
        using run o di True by (auto simp: Install_def run_simps BackendFail_def split: prod.splits)
      moreover have "fst ec \<noteq> []"
        using di Inl by (auto simp: InitializeDefinitions_def run_simps split: if_splits)
      ultimately show thesis using early by simp
    next
      case (Inr defs)
      show thesis
      proof (cases "code = ERROR_SUCCESS")
        case False
        then have "t' = t3" "err \<noteq> []"
          using run o di True Inr by (auto simp: Install_def run_simps BackendFail_def code_def t3_def)
        with False early show thesis by simp
      next
        case ok: True
        obtain r4 g4 t4 where i: "run_state (install_objects e defs) (g2, t3) = (r4, (g4, t4))" by (metis prod.exhaust)
        moreover have "run_state (Complete e r4 ''transition_guard_install_failed'' kInstallApply kInstallCommit) (g4, t4) = (err, (g', t'))"
          using run o di True Inr ok i by (auto simp: Install_def run_simps code_def t3_def)
        ultimately show thesis using go ok by blast
      qed
    qed
  qed
  then have "(err = [] \<longrightarrow> (\<exists>defs ev u. wfp_after w t' = (guard_policy defs p, None) \<and> t' = ev # u \<and> committed_is w n p u)) \<and>
    (err \<noteq> [] \<longrightarrow> wfp_after w t' = (p, None) \<and> committed_is w n p t')"
  proof cases
    case early
    with W1 W2 W3 show ?thesis by auto
  next
    case go
    note I = install_objects_wfp [OF go(2) W3(2) [OF go(1)] W3(1)]
    then obtain s where s: "wfp_after w t4 = (p, Some s)" by blast
    note C = Complete_wfp [OF go(3) _ s I(2)]
    show ?thesis
    proof (cases "err = []")
      case True
      with C have "r4 = ERROR_SUCCESS" "wfp_after w t' = (s, None)" "\<exists>ev. t' = ev # t4" by auto
      with I(4) s I(2) True show ?thesis by auto
    next
      case False
      with C show ?thesis by auto
    qed
  qed
  then show "err = [] \<Longrightarrow> \<exists>defs ev u. wfp_after w t' = (guard_policy defs p, None) \<and> t' = ev # u \<and> committed_is w n p u"
    "err \<noteq> [] \<Longrightarrow> wfp_after w t' = (p, None) \<and> committed_is w n p t'" by blast+
qed

section \<open>The effect of the filters\<close>

text \<open>
  The decision of one sublayer on a connection: among the filters of the layer whose
  conditions all hold, the one with the greatest weight decides.
\<close>

definition applies :: "(FWPM_FILTER_CONDITION0 \<Rightarrow> bool) \<Rightarrow> GUID \<Rightarrow> FWPM_FILTER0 \<Rightarrow> bool" where
  "applies holds layer f \<longleftrightarrow> fi_layerKey f = layer \<and> list_all holds (fi_conditions f)"

definition heavier :: "FWPM_FILTER0 \<Rightarrow> FWPM_FILTER0 option \<Rightarrow> FWPM_FILTER0 option" where
  "heavier f best = (case best of None \<Rightarrow> Some f
     | Some g \<Rightarrow> if weight_value (fi_weight g) = None \<or>
         (weight_value (fi_weight f) \<noteq> None \<and> the (weight_value (fi_weight g)) < the (weight_value (fi_weight f)))
       then Some f else Some g)"

definition sublayer_verdict :: "(FWPM_FILTER_CONDITION0 \<Rightarrow> bool) \<Rightarrow> GUID \<Rightarrow> FWPM_FILTER0 list \<Rightarrow> FWP_ACTION_TYPE option" where
  "sublayer_verdict holds layer fs =
     map_option fi_action (foldr heavier (filter (applies holds layer) fs) None)"

lemma At_layer:
  "fi_layerKey (At defs i) = kLayers ! (i div 2)"
  "fi_conditions (At defs i) = (if even i then guard_conditions defs else [])"
  "fi_action (At defs i) = (if even i then FWP_ACTION_PERMIT else FWP_ACTION_BLOCK)"
  "weight_value (fi_weight (At defs i)) = Some (if even i then 2 else 1)"
  by (auto simp: At_def Let_def even_iff_mod_2_eq_zero)

lemma kLayers_distinct: "i < 4 \<Longrightarrow> j < 4 \<Longrightarrow> kLayers ! i = kLayers ! j \<longleftrightarrow> i = j"
  by (rule nth_eq_iff_index_eq) (simp_all add: kLayers_def)

lemma layer_filters:
  assumes "k < 4"
  shows "filter (applies holds (kLayers ! k)) (map (At defs) [0..<kFilterCount]) =
    (if list_all holds (guard_conditions defs) then [At defs (2 * k)] else []) @ [At defs (2 * k + 1)]"
proof -
  have up: "[0..<kFilterCount] = [0, 1, 2, 3, 4, 5, 6, 7]" by (simp add: kFilterCount_def upt_rec)
  have app: "applies holds (kLayers ! k) (At defs i) \<longleftrightarrow>
      i div 2 = k \<and> (even i \<longrightarrow> list_all holds (guard_conditions defs))" if "i < 8" for i
    using kLayers_distinct [of "i div 2" k] assms that by (auto simp: applies_def At_layer)
  have "filter (applies holds (kLayers ! k)) (map (At defs) [0..<kFilterCount]) =
      map (At defs) (filter (\<lambda>i. i div 2 = k \<and> (even i \<longrightarrow> list_all holds (guard_conditions defs))) [0..<kFilterCount])"
    unfolding filter_map
    by (rule arg_cong [of _ _ "map (At defs)"], rule filter_cong) (simp_all add: app kFilterCount_def)
  note eq = this
  consider "k = 0" | "k = 1" | "k = 2" | "k = 3" using assms by linarith
  then show ?thesis unfolding eq unfolding up by cases simp_all
qed

lemma guard_verdict:
  assumes "layer \<in> set kLayers"
  shows "sublayer_verdict holds layer (map (At defs) [0..<kFilterCount]) =
    Some (if list_all holds (guard_conditions defs) then FWP_ACTION_PERMIT else FWP_ACTION_BLOCK)"
proof -
  obtain k where "k < 4" "layer = kLayers ! k"
    using assms that [of 0] that [of 1] that [of 2] that [of 3] by (auto simp: kLayers_def)
  then show ?thesis
    by (simp add: sublayer_verdict_def layer_filters heavier_def At_layer)
qed

lemma SameCondition_guard:
  "x \<in> set (guard_conditions defs) \<Longrightarrow> SameCondition a x \<Longrightarrow> a = x"
  by (cases "fc_value a")
    (auto simp: guard_conditions_def SameCondition_def SameBlob_def split: option.splits
      intro!: FWPM_FILTER_CONDITION0.equality)

lemma service_permit_harmless:
  assumes "IsGuardServicePermit f (At defs 0)" and "list_all holds (fi_conditions f)"
  shows "list_all holds (guard_conditions defs)"
proof -
  have "fi_conditions (At defs 0) = guard_conditions defs" by (simp add: At_def Let_def)
  with assms SameCondition_guard show ?thesis
    by (fastforce simp: IsGuardServicePermit_def list_all_iff list_ex_iff split: if_splits)
qed

text \<open>Filters that decide alike, and that a read cannot tell from its own.\<close>

definition decides_like :: "FWPM_FILTER0 \<Rightarrow> FWPM_FILTER0 \<Rightarrow> bool" where
  "decides_like f g \<longleftrightarrow> fi_layerKey f = fi_layerKey g \<and> fi_conditions f = fi_conditions g \<and>
     fi_action f = fi_action g \<and> weight_value (fi_weight f) = weight_value (fi_weight g)"

lemma heavier_like:
  "decides_like f g \<Longrightarrow> rel_option decides_like x y \<Longrightarrow> rel_option decides_like (heavier f x) (heavier g y)"
  by (cases x; cases y) (auto simp: heavier_def decides_like_def)

lemma verdict_like:
  assumes "list_all2 decides_like fs gs"
  shows "sublayer_verdict holds layer fs = sublayer_verdict holds layer gs"
proof -
  have "rel_option decides_like (foldr heavier (filter (applies holds layer) fs) None)
      (foldr heavier (filter (applies holds layer) gs) None)"
    using assms
  proof (induction rule: list_all2_induct)
    case (Cons f fs g gs)
    from Cons(1) have "applies holds layer f \<longleftrightarrow> applies holds layer g" by (simp add: applies_def decides_like_def)
    with Cons show ?case by (simp add: heavier_like)
  qed simp
  then show ?thesis
    unfolding sublayer_verdict_def by (cases rule: option.rel_cases) (simp_all add: decides_like_def)
qed

lemma conditions_like:
  assumes "list_all2 SameCondition xs ys" and "set ys \<subseteq> set (guard_conditions defs)"
  shows "xs = ys"
  using assms by (induction rule: list_all2_induct) (auto dest: SameCondition_guard)

lemma Matches_like: "Matches f (At defs i) \<Longrightarrow> decides_like f (At defs i)"
  using conditions_like [of "fi_conditions f" "fi_conditions (At defs i)" defs]
  by (auto simp: Matches_def decides_like_def At_layer split: if_splits)

section \<open>Properties of the guard\<close>

lemma Start_armed:
  assumes "run_state (Start e) (g, t) = (err, (g', t'))" shows "IsArmed g'"
proof -
  obtain e1 g1 t1 where r1: "run_state (Refresh e) (g, t) = (e1, (g1, t1))" by (metis prod.exhaust)
  note R1 = Refresh_run [OF r1]
  have refreshed: "gu_state q' = kIncomplete" if "run_state (Refresh e) q = (x # xs, (q', u))" for q x xs q' u
    using Refresh_run(2) [of e "fst q" "snd q" "x # xs" q' u] that by simp
  show ?thesis
    using assms r1 R1 unfolding IsArmed_def
    by (auto simp: Start_def Report_def run_simps neq_Nil_conv dest!: refreshed split: if_splits prod.splits)
qed

lemma ExplicitOff_released:
  assumes "run_state (ExplicitOff e) (g, t) = (err, (g', t'))" shows "IsArmed g' \<longleftrightarrow> err \<noteq> []"
proof -
  have refreshed: "gu_state q' = kIncomplete" if "run_state (Refresh e) q = (x # xs, (q', u))" for q x xs q' u
    using Refresh_run(2) [of e "fst q" "snd q" "x # xs" q' u] that by simp
  show ?thesis
    using assms unfolding IsArmed_def
    by (auto simp: ExplicitOff_def run_simps neq_Nil_conv dest!: refreshed split: if_splits prod.splits)
qed

lemma Finish_released:
  assumes "run_state (Finish e) (g, t) = (err, (g', t'))" shows "IsArmed g' \<longleftrightarrow> err \<noteq> []"
proof -
  obtain e1 g1 t1 where r: "run_state (ExplicitOff e) (g, t) = (e1, (g1, t1))" by (metis prod.exhaust)
  have "err = e1" "g' = g1"
    using assms r Report_run [of kFinish_guard e1 g1 t1 err g' t'] by (auto simp: Finish_def run_simps split: if_splits)
  with ExplicitOff_released [OF r] show ?thesis by simp
qed

text \<open>
  C21. Starting the guard fails closed.  Whatever the filtering platform answers, the guard
  counts as armed after a start; when the start reports success, a read since the last change
  of the service to the platform found the guard's sublayer, all eight of its filters, and no
  filter of another sublayer that could override them.
\<close>

theorem guard_start_fails_closed:
  assumes "run_state (Start e) (g, t) = (err, (g', t'))"
  shows "IsArmed g' \<and> (err = [] \<longrightarrow> gu_state g' = kArmed \<and> recent guard_verified t')"
  using Start_run [OF assms] Start_armed [OF assms] by (auto simp: guard_sound_def)

text \<open>
  C22. The guard counts as released exactly when its removal reports success, and then a read
  since the last change to the platform found neither its sublayer nor any of its filters;
  this holds of the end of a handoff and of an explicit off alike.
\<close>

theorem guard_release_verified:
  assumes "run_state (Finish e) (g, t) = (err, (g', t')) \<or> run_state (ExplicitOff e) (g, t) = (err, (g', t'))"
  shows "(IsArmed g' \<longleftrightarrow> err \<noteq> []) \<and> (err = [] \<longrightarrow> recent guard_absent t')"
  using assms Finish_released Finish_run ExplicitOff_released ExplicitOff_run
  by (elim disjE) (auto simp: guard_sound_def)

text \<open>
  C24. Installing the guard is one transaction.  Read over the documented effect of the
  platform's calls, the committed objects are the old ones at every moment of a failed
  installation, and at every moment but the last of one that succeeds, after which they are
  the old ones with the guard's sublayer and its eight filters in place.
\<close>

theorem guard_install_atomic:
  assumes "run_state (Install e) (g, t) = (err, (g', t'))" and "wfp_after w t = (p, None)"
  shows "(err \<noteq> [] \<longrightarrow> wfp_after w t' = (p, None) \<and> committed_is w (length t) p t') \<and>
    (err = [] \<longrightarrow> (\<exists>defs ev u. wfp_after w t' = (guard_policy defs p, None) \<and> t' = ev # u \<and>
       committed_is w (length t) p u))"
  using Install_wfp [OF assms committed_is_start] assms(2) by simp


section \<open>Witnesses\<close>

definition sample_defs :: FilterDefinitions where
  "sample_defs = \<lparr>fd_app = Some (replicate 16 1), fd_system = Some (replicate 16 1)\<rparr>"

text \<open>A platform on which the guard is in place, and one on which it is not.\<close>

definition guarded_env :: env where
  "guarded_env = happy_env\<lparr>env_sublayer := (\<lambda>_ _. (ERROR_SUCCESS, guard_sublayer)),
     env_filter := (\<lambda>_ op. case op of
         WfpIo (FilterGetByKey (Guid a _ _ _)) \<Rightarrow> (ERROR_SUCCESS, At sample_defs (unat (a - 0x0a06bf20)))
       | _ \<Rightarrow> (FWP_E_FILTER_NOT_FOUND, At sample_defs 0))\<rparr>"

definition unguarded_env :: env where
  "unguarded_env = happy_env\<lparr>env_sublayer := (\<lambda>_ _. (FWP_E_SUBLAYER_NOT_FOUND, guard_sublayer)),
     env_filter := (\<lambda>_ _. (FWP_E_FILTER_NOT_FOUND, At sample_defs 0))\<rparr>"

definition sample_guard :: Guard where
  "sample_guard = \<lparr>gu_backend = \<lparr>gb_engine = False, gb_last_stage = kReadVerify, gb_last_error = 0\<rparr>,
     gu_events = True, gu_state = kIncomplete\<rparr>"

lemma eight: "[0..<kFilterCount] = [0, 1, 2, 3, 4, 5, 6, 7]" by (simp add: kFilterCount_def upt_rec)

lemma Matches_refl: "Matches (At sample_defs i) (At sample_defs i)"
  by (auto simp: Matches_def At_def Let_def guard_conditions_def SameCondition_def SameBlob_def sample_defs_def
      FWPM_FILTER_FLAG_PERSISTENT_def FWPM_FILTER_FLAG_INDEXED_def list_all2_conv_all_nth nth_Cons split: nat.splits)

lemma guarded_filter:
  assumes "i < 8"
  shows "env_filter guarded_env t (WfpIo (FilterGetByKey (fi_filterKey (At sample_defs i)))) = (ERROR_SUCCESS, At sample_defs i)"
proof -
  have "unat (word_of_nat i :: u32) = i" using assms by (simp add: unat_of_nat)
  then show ?thesis by (simp add: guarded_env_def At_def Let_def FilterKey_def kFilterBase_def)
qed

lemma guarded_read:
  "set is \<subseteq> {..<8} \<Longrightarrow> \<exists>x. run_state (read_filters guarded_env sample_defs is True True) (c, t) = ((ERROR_SUCCESS, True, True), (c, x))"
  by (induction "is" arbitrary: t) (simp_all add: run_simps guarded_filter Matches_refl)

lemma guarded_start:
  "\<exists>g' t'. run_state (Start guarded_env) (sample_guard, []) = ([], (g', t'))"
proof -
  have defs: "\<exists>x. run_state (InitializeDefinitions guarded_env) (c, t) = (Inr sample_defs, (c, x))" for c :: WindowsGuardBackend and t
    by (simp add: InitializeDefinitions_def run_simps guarded_env_def happy_env_def ERROR_SUCCESS_def sample_defs_def)
  have codes: "env_code guarded_env t op = ERROR_SUCCESS" "env_pages guarded_env t op = []"
    "env_sublayer guarded_env t op = (ERROR_SUCCESS, guard_sublayer)" for t op
    by (simp_all add: guarded_env_def happy_env_def ERROR_SUCCESS_def)
  have prio: "\<exists>x. run_state (VerifyGuardPriority guarded_env w p) (c, t) = ((ERROR_SUCCESS, True), (c, x))"
    for c :: WindowsGuardBackend and t w p
    by (simp add: VerifyGuardPriority_def kLayers_def run_simps codes)
  have "\<exists>x. run_state (read_objects guarded_env sample_defs) (c, t) = ((ERROR_SUCCESS, True, True), (c, x))"
    for c :: WindowsGuardBackend and t
  proof -
    have "MatchesSubLayer guard_sublayer" by (simp add: MatchesSubLayer_def guard_sublayer_def)
    moreover obtain x where "run_state (read_filters guarded_env sample_defs [0..<kFilterCount] True True)
        (c, (WfpIo (SubLayerGetByKey kSubLayer), ASubLayer ERROR_SUCCESS guard_sublayer) # t) = ((ERROR_SUCCESS, True, True), (c, x))"
      using guarded_read [of "[0..<kFilterCount]"] by (fastforce simp: kFilterCount_def)
    moreover obtain y where "run_state (VerifyGuardPriority guarded_env (sl_weight guard_sublayer) (At sample_defs 0)) (c, x) =
        ((ERROR_SUCCESS, True), (c, y))" using prio by metis
    ultimately show ?thesis by (simp add: read_objects_def run_simps codes)
  qed
  note objects = this
  have "\<exists>b x. run_state (Read guarded_env) (gu_backend sample_guard, []) = (([], kArmed), (b, x))"
  proof -
    define b where "b = gu_backend sample_guard\<lparr>gb_last_stage := kReadVerify, gb_last_error := 0, gb_engine := True\<rparr>"
    define t0 where "t0 = [(WfpIo EngineOpen, ACode ERROR_SUCCESS)]"
    obtain x where x: "run_state (InitializeDefinitions guarded_env) (b, t0) = (Inr sample_defs, (b, x))" using defs by metis
    obtain y where "run_state (read_objects guarded_env sample_defs) (b, (WfpIo (TransactionBegin True), ACode ERROR_SUCCESS) # x) =
        ((ERROR_SUCCESS, True, True), (b, y))" using objects by metis
    with x show ?thesis
      by (simp add: Read_def Open_def run_simps codes sample_guard_def b_def t0_def)
  qed
  then show ?thesis by (auto simp: Start_def Refresh_def run_simps sample_guard_def)
qed

theorem guard_start_fails_closed_witness:
  "\<exists>g' t'. run_state (Start guarded_env) (sample_guard, []) = ([], (g', t')) \<and> IsArmed g' \<and> recent guard_verified t'"
  using guarded_start guard_start_fails_closed by metis

theorem guard_release_verified_witness:
  "\<exists>g' t'. run_state (Finish unguarded_env) (sample_guard, []) = ([], (g', t')) \<and> \<not> IsArmed g' \<and> recent guard_absent t'"
proof -
  have "\<exists>g' t'. run_state (Finish unguarded_env) (sample_guard, []) = ([], (g', t'))"
    by (simp add: Finish_def ExplicitOff_def Remove_def Refresh_def Read_def Open_def InitializeDefinitions_def DeleteOwned_def
        Complete_def read_objects_def eight run_simps unguarded_env_def happy_env_def sample_guard_def ERROR_SUCCESS_def
        FWP_E_FILTER_NOT_FOUND_def FWP_E_SUBLAYER_NOT_FOUND_def)
  then show ?thesis using guard_release_verified [of unguarded_env] by metis
qed

theorem guard_install_atomic_witness:
  "\<exists>defs g' t'. run_state (Install happy_env) (gu_backend sample_guard, []) = ([], (g', t')) \<and>
     wfp_after (\<lparr>po_sublayers = \<lambda>_. None, po_filters = \<lambda>_. None\<rparr>, None) t' =
       (guard_policy defs \<lparr>po_sublayers = \<lambda>_. None, po_filters = \<lambda>_. None\<rparr>, None)"
proof -
  obtain g' t' where run: "run_state (Install happy_env) (gu_backend sample_guard, []) = ([], (g', t'))"
    by (simp add: Install_def Open_def InitializeDefinitions_def install_objects_def DeleteOwned_def Complete_def eight
        run_simps happy_env_def sample_guard_def ERROR_SUCCESS_def)
  from guard_install_atomic [OF run wfp_after_simps(1)] run show ?thesis by auto
qed


end
