(* ===== verification/Local_Dpi_Laws.thy ===== *)
theory Local_Dpi_Laws
  imports Local_Dpi_Executor Recovery_Laws
begin

text \<open>
  Laws of the local DPI component: the bound on the hints and what they prefer, the shape of
  an accepted host list, the quoting of the command line, and the executor's ownership of at
  most one child.
\<close>

section \<open>Hints\<close>

definition hints_ok :: "WindowsLocalDpiStrategyHints \<Rightarrow> bool" where
  "hints_ok hints \<longleftrightarrow> distinct (map fst hints) \<and> length hints \<le> 256"

lemma Entry_ok:
  assumes "hints_ok hints" shows "hints_ok (Entry network service hint hints)"
proof (cases "map_of hints (network, service) = None")
  case True
  then have "(network, service) \<notin> set (map fst hints)" by (simp add: map_of_eq_None_iff)
  with True assms show ?thesis by (auto simp: hints_ok_def Entry_def Let_def)
next
  case False
  have "map fst (map (\<lambda>(k, h). (k, if k = (network, service) then hint else h)) hints) = map fst hints"
    by (induction hints) auto
  with False assms show ?thesis unfolding hints_ok_def Entry_def Let_def by (simp only: if_True not_False_eq_True length_map)
qed

lemma map_of_update_all:
  "map_of (map (\<lambda>(k, h). (k, if k = key then hint else h)) hints) k =
    (if k = key \<and> map_of hints key \<noteq> None then Some hint else map_of hints k)"
  by (induction hints) (auto split: if_splits)

lemma Entry_lookup: "map_of (Entry network service hint hints) (network, service) = Some hint"
  by (simp add: Entry_def Let_def map_of_update_all)

lemma Entry_other:
  "k \<noteq> (network, service) \<Longrightarrow>
   map_of (Entry network service hint hints) k = map_of hints k \<or> map_of (Entry network service hint hints) k = None"
  by (auto simp: Entry_def Let_def map_of_update_all)

lemma RecordSuccess_ok: "hints_ok hints \<Longrightarrow> hints_ok (RecordSuccess network services strategy hints)"
  by (induction services arbitrary: hints) (simp_all add: RecordSuccess_def Entry_ok)

text \<open>After a recorded success the hints of its services are absent or that success, and some are present.\<close>

lemma RecordSuccess_entries:
  "\<forall>s \<in> set done'. map_of hints (network, ds_service_id s) \<in> {None, Some \<lparr>hi_strategy = st, hi_failed = False\<rparr>} \<Longrightarrow>
   \<forall>s \<in> set done' \<union> set services. map_of (RecordSuccess network services st hints) (network, ds_service_id s) \<in>
     {None, Some \<lparr>hi_strategy = st, hi_failed = False\<rparr>}"
proof (induction services arbitrary: hints done')
  case Nil
  then show ?case by (simp add: RecordSuccess_def)
next
  case (Cons a services)
  let ?h = "Entry network (ds_service_id a) \<lparr>hi_strategy = st, hi_failed = False\<rparr> hints"
  have "\<forall>s \<in> set (a # done'). map_of ?h (network, ds_service_id s) \<in> {None, Some \<lparr>hi_strategy = st, hi_failed = False\<rparr>}"
    using Cons.prems Entry_lookup Entry_other by (metis insertCI insertE list.simps(15) prod.inject singletonD)
  from Cons.IH [OF this] show ?case by (simp add: RecordSuccess_def)
qed

lemma RecordSuccess_last:
  assumes "services \<noteq> []"
  shows "map_of (RecordSuccess network services st hints) (network, ds_service_id (last services)) =
    Some \<lparr>hi_strategy = st, hi_failed = False\<rparr>"
proof -
  obtain init x where "services = init @ [x]" using assms by (metis append_butlast_last_id)
  then show ?thesis by (simp add: RecordSuccess_def Entry_lookup)
qed

lemma preferred_fold:
  assumes "\<forall>s \<in> set services. map_of hints (network, ds_service_id s) \<in> {None, Some \<lparr>hi_strategy = st, hi_failed = False\<rparr>}"
  shows "fst acc \<in> {None, Some st} \<Longrightarrow> \<exists>s. fold (preferred_step hints network) services acc = (s, snd acc) \<and>
    s \<in> {None, Some st} \<and> (fst acc = Some st \<or> (\<exists>x \<in> set services. map_of hints (network, ds_service_id x) \<noteq> None) \<longrightarrow> s = Some st)"
  using assms
proof (induction services arbitrary: acc)
  case Nil
  then show ?case by (cases acc) auto
next
  case (Cons a services)
  have step: "preferred_step hints network a acc =
      (if map_of hints (network, ds_service_id a) = None then acc else (Some st, snd acc))"
    using Cons.prems by (cases acc) (auto simp: preferred_step_def)
  show ?case
    using Cons.IH [of "preferred_step hints network a acc"] Cons.prems step by auto
qed

text \<open>
  The strategy hints never grow past 256 entries, whatever is recorded, and the strategy
  preferred right after a success is the one that succeeded for the services it was recorded
  for, even when the table had to be cleared on the way.
\<close>

lemma hints_bounded_and_current:
  assumes "hints_ok hints" and "services \<noteq> []"
  shows "hints_ok (RecordSuccess network services strategy hints) \<and>
    hints_ok (RecordFailure network' service strategy' hints) \<and>
    Preferred network services (RecordSuccess network services strategy hints) = strategy"
proof -
  let ?h = "RecordSuccess network services strategy hints"
  have entries: "\<forall>s \<in> set services. map_of ?h (network, ds_service_id s) \<in> {None, Some \<lparr>hi_strategy = strategy, hi_failed = False\<rparr>}"
    using RecordSuccess_entries [of "[]" hints network strategy services] by simp
  have "\<exists>x \<in> set services. map_of ?h (network, ds_service_id x) \<noteq> None"
    using RecordSuccess_last [OF assms(2)] last_in_set [OF assms(2)] by fastforce
  with preferred_fold [OF entries, of "(None, None, False, False)"]
  have "fold (preferred_step ?h network) services (None, None, False, False) = (Some strategy, None, False, False)"
    by auto
  then have "Preferred network services ?h = strategy" by (simp add: Preferred_def)
  with assms(1) show ?thesis by (simp add: RecordSuccess_ok RecordFailure_def Entry_ok)
qed

section \<open>Host lists\<close>

lemma scan_domains_entries:
  "scan_domains control ds in_scope seen = Some (ok, out) \<Longrightarrow> distinct seen \<Longrightarrow>
   distinct out \<and> set out = set seen \<union> domain_entry ` set ds \<and>
   list_all (\<lambda>d. \<not> dd_shared d \<and> IsDomain (dd_name d)) ds \<and>
   (ok \<longleftrightarrow> in_scope \<or> list_ex (\<lambda>d. dd_exact d \<and> dd_name d = control) ds)"
proof (induction ds arbitrary: in_scope seen)
  case (Cons d ds)
  then have ok: "\<not> dd_shared d" "IsDomain (dd_name d)" by (simp_all split: if_splits)
  show ?case
    using Cons.IH [of "in_scope \<or> (dd_exact d \<and> dd_name d = control)"
        "if domain_entry d \<in> set seen then seen else seen @ [domain_entry d]"] Cons.prems ok
    by (auto split: if_splits)
qed simp

lemma scan_services_entries:
  "scan_services services seen = Some out \<Longrightarrow> distinct seen \<Longrightarrow>
   distinct out \<and> set out = set seen \<union> (\<Union>s \<in> set services. domain_entry ` set (ds_domains s)) \<and>
   list_all (\<lambda>s. list_all (\<lambda>d. \<not> dd_shared d \<and> IsDomain (dd_name d)) (ds_domains s) \<and>
     list_ex (\<lambda>d. dd_exact d \<and> dd_name d = ds_control_host s) (ds_domains s)) services"
proof (induction services arbitrary: seen)
  case (Cons s rest)
  then obtain seen' where sc: "scan_domains (ds_control_host s) (ds_domains s) False seen = Some (True, seen')"
    and rest: "scan_services rest seen' = Some out"
    by (auto split: if_splits option.splits)
  note d = scan_domains_entries [OF sc Cons.prems(2)]
  show ?case using Cons.IH [OF rest] d by auto
qed simp

lemma domain_chars: "domain_labels p n v = Some k \<Longrightarrow> CHR '','' \<notin> set v"
  by (induction p n v rule: domain_labels.induct) (auto split: if_splits)

lemma IsDomain_free: "IsDomain v \<Longrightarrow> CHR '','' \<notin> set v \<and> v \<noteq> []"
  by (auto simp: IsDomain_def dest!: domain_chars split: if_splits option.splits)

lemma domain_entry_free: "IsDomain (dd_name d) \<Longrightarrow> CHR '','' \<notin> set (domain_entry d) \<and> domain_entry d \<noteq> []"
  using IsDomain_free by (auto simp: domain_entry_def)

lemma split_commas_free: "CHR '','' \<notin> set x \<Longrightarrow> split_commas x = [x]"
  by (induction x) auto

lemma split_commas_append: "CHR '','' \<notin> set x \<Longrightarrow> split_commas (x @ CHR '','' # r) = x # split_commas r"
  by (induction x) auto

lemma split_commas_join:
  "xs \<noteq> [] \<Longrightarrow> list_all (\<lambda>x. CHR '','' \<notin> set x) xs \<Longrightarrow> split_commas (join CHR '','' xs) = xs"
proof (induction xs)
  case (Cons x xs)
  then show ?case by (cases "xs = []") (simp_all add: split_commas_free split_commas_append join_Cons)
qed simp

text \<open>
  A host list that is not empty names exactly the domains of the prepared services.  Its
  comma separated entries are distinct and are the entries of the services' domains (with a
  caret for an exact match), each of them a valid and unshared domain; the control host of
  every service is an exact entry, and the list has at most 16000 characters.  A list that
  would be empty is the refusal, never an unrestricted list.
\<close>

lemma host_list_exact:
  assumes "WindowsLocalDpiHostList services \<noteq> []"
  shows "distinct (split_commas (WindowsLocalDpiHostList services)) \<and>
    set (split_commas (WindowsLocalDpiHostList services)) =
      (\<Union>s \<in> set services. domain_entry ` set (ds_domains s)) \<and>
    list_all (\<lambda>s. list_all (\<lambda>d. \<not> dd_shared d \<and> IsDomain (dd_name d)) (ds_domains s) \<and>
      list_ex (\<lambda>d. dd_exact d \<and> dd_name d = ds_control_host s) (ds_domains s)) services \<and>
    length (WindowsLocalDpiHostList services) \<le> 16000"
proof -
  obtain out where out: "scan_services services [] = Some out" and
    hl: "WindowsLocalDpiHostList services = join CHR '','' out" "length (join CHR '','' out) \<le> 16000"
    using assms by (auto simp: WindowsLocalDpiHostList_def Let_def split: if_splits option.splits)
  note S = scan_services_entries [OF out, simplified]
  have "out \<noteq> []" using assms hl by auto
  moreover have "CHR '','' \<notin> set x" if "x \<in> set out" for x
  proof -
    from that S obtain s d where sd: "s \<in> set services" "d \<in> set (ds_domains s)" "x = domain_entry d" by auto
    with S have "IsDomain (dd_name d)" by (simp add: list_all_iff)
    with sd(3) show ?thesis using domain_entry_free by simp
  qed
  then have "list_all (\<lambda>x. CHR '','' \<notin> set x) out" by (simp add: list_all_iff)
  ultimately have "split_commas (join CHR '','' out) = out" by (intro split_commas_join)
  with S hl show ?thesis by simp
qed

section \<open>Quoting\<close>

text \<open>
  The documented rule by which a Windows program reads a quoted argument: backslashes are
  literal unless a quote follows; then half of them are, and an odd number makes the quote
  literal, an even number ends the argument.  The argument and what follows it.
\<close>

fun argv_unquote :: "nat \<Rightarrow> string \<Rightarrow> (string \<times> string) option" where
  "argv_unquote n [] = None"
| "argv_unquote n (c # rest) =
     (if c = CHR 0x5C then argv_unquote (Suc n) rest
      else if c = CHR 0x22 then
        (if even n then Some (replicate (n div 2) (CHR 0x5C), rest)
         else map_option (\<lambda>(v, r). (replicate (n div 2) (CHR 0x5C) @ CHR 0x22 # v, r)) (argv_unquote 0 rest))
      else map_option (\<lambda>(v, r). (replicate n (CHR 0x5C) @ c # v, r)) (argv_unquote 0 rest))"

lemma argv_backslashes: "argv_unquote n (replicate k (CHR 0x5C) @ r) = argv_unquote (n + k) r"
  by (induction k arbitrary: n) simp_all

lemma argv_quote_rest: "argv_unquote 0 (quote_rest n v @ r) = Some (replicate n (CHR 0x5C) @ v, r)"
proof (induction n v rule: quote_rest.induct)
  case (1 n)
  then show ?case by (simp add: argv_backslashes)
next
  case (2 n c rest)
  then show ?case
    by (auto simp: argv_backslashes replicate_app_Cons_same simp flip: replicate_Suc)
qed

text \<open>
  Quoting is lossless: under the rule by which a Windows program splits its command line,
  a quoted path is read back as exactly that path, and what follows it is left alone, whatever
  quotes and backslashes the path holds.
\<close>

lemma quote_roundtrip: "\<exists>rest. Quote v @ tail = CHR 0x22 # rest \<and> argv_unquote 0 rest = Some (v, tail)"
  by (simp add: Quote_def argv_quote_rest)

section \<open>The child of the executor\<close>

text \<open>Whether a created child has not been waited for and released.\<close>

fun child_live :: "trace \<Rightarrow> bool" where
  "child_live [] = False"
| "child_live ((DpiIo (CreateChild path command), ABool True) # t) = True"
| "child_live ((DpiIo CloseChild, ABool True) # t) = False"
| "child_live (_ # t) = child_live t"

text \<open>A child was created only when none was live.\<close>

fun one_child :: "trace \<Rightarrow> bool" where
  "one_child [] = True"
| "one_child ((DpiIo (CreateChild path command), ABool True) # t) = (\<not> child_live t \<and> one_child t)"
| "one_child (_ # t) = one_child t"

fun child_op :: "io \<Rightarrow> bool" where
  "child_op (DpiIo (CreateChild path command)) = True"
| "child_op (DpiIo CloseChild) = True"
| "child_op op = False"

text \<open>The executor's process handle stands for the live child; when \<open>idle\<close> holds, there is none.\<close>

definition owns_child :: "bool \<Rightarrow> WindowsLocalDpiExecutor \<times> trace \<Rightarrow> bool" where
  "owns_child idle = (\<lambda>(x, t). (ex_process x \<longleftrightarrow> child_live t) \<and> one_child t \<and> (idle \<longrightarrow> \<not> ex_process x))"

lemma child_op_quiet:
  "\<not> child_op op \<Longrightarrow> child_live ((op, a) # t) = child_live t \<and> one_child ((op, a) # t) = one_child t"
  by (cases "op" rule: child_op.cases) auto

lemma owns_ask [hoare]: "\<not> child_op op \<Longrightarrow> keeps (owns_child idle) (ask f w op)"
  by (auto simp: keeps_def owns_child_def child_op_quiet intro!: triple_ask)

lemma owns_tell [hoare]: "\<not> child_op op \<Longrightarrow> keeps (owns_child idle) (tell op)"
  by (auto simp: keeps_def owns_child_def child_op_quiet intro!: triple_tell)

lemma owns_change [hoare]: "(\<And>x. ex_process (f x) = ex_process x) \<Longrightarrow> keeps (owns_child idle) (change f)"
  by (auto simp: keeps_def owns_child_def intro!: triple_change)

lemma keepsD: "keeps I m \<Longrightarrow> I s \<Longrightarrow> run_state m s = (a, s') \<Longrightarrow> I s'"
  unfolding keeps_def by (rule tripleD)

lemma keeps_tripleI: "(\<And>s a s'. I s \<Longrightarrow> run_state m s = (a, s') \<Longrightarrow> I s') \<Longrightarrow> keeps I m"
  unfolding keeps_def by (rule tripleI)

lemma owns_StopChild [hoare]: "keeps (owns_child idle) (StopWindowsLocalDpiChild e)"
  unfolding StopWindowsLocalDpiChild_def
  by (rule keeps_tripleI) (auto simp: run_simps owns_child_def split: if_splits)

lemma StopChild_dead: "run_state (StopWindowsLocalDpiChild e) (x, t) = (True, (x', t')) \<Longrightarrow> \<not> ex_process x'"
  by (auto simp: StopWindowsLocalDpiChild_def run_simps split: if_splits)

lemma owns_withdraw [hoare]: "keeps (owns_child idle) (withdraw_holders e holders)"
  by (induction holders) (auto intro!: hoare)

lemma owns_StopAfterCoreStopped [hoare]: "keeps (owns_child idle) (StopAfterCoreStopped e)"
  unfolding StopAfterCoreStopped_def CloseWindowsLocalDpiDriver_def
  by (auto intro!: hoare simp: clear_executor_def)

lemma owns_StopDpi [hoare]: "keeps (owns_child idle) (StopDpi e)"
  unfolding StopDpi_def by (auto intro!: hoare)

lemma owns_AssetDirectory [hoare]: "keeps (owns_child idle) (AssetDirectory e)"
  unfolding AssetDirectory_def by (auto intro!: hoare)

lemma owns_lock_assets [hoare]: "keeps (owns_child idle) (lock_assets e paths)"
  by (induction paths) (auto intro!: hoare)

lemma owns_load_exports [hoare]: "keeps (owns_child idle) (load_exports e directory)"
  unfolding load_exports_def by (auto intro!: hoare)

lemma owns_AssetsReady [hoare]: "keeps (owns_child idle) (AssetsReady e)"
  unfolding AssetsReady_def by (auto intro!: hoare)

lemma owns_Alive [hoare]: "keeps (owns_child idle) (Alive e)"
  unfolding Alive_def by (auto intro!: hoare)

lemma owns_interface_of [hoare]: "keeps (owns_child idle) (interface_of e iface)"
  unfolding interface_of_def by (auto intro!: hoare)

lemma owns_capture [hoare]: "keeps (owns_child idle) (capture_holders e services)"
  by (induction services) (auto intro!: hoare)

lemma owns_driver_guard [hoare]: "keeps (owns_child idle) (open_driver_guard e)"
  unfolding open_driver_guard_def by (auto intro!: hoare)

lemma owns_match_services [hoare]: "keeps (owns_child idle) (match_services e xs)"
  by (induction xs) (auto intro!: hoare)

lemma owns_MatchesPrepared [hoare]: "keeps (owns_child idle) (MatchesPrepared e services iface)"
  unfolding MatchesPrepared_def by (auto intro!: hoare)

lemma owns_holders_current [hoare]: "keeps (owns_child idle) (holders_current e xs)"
  by (induction xs) (auto intro!: hoare)

lemma owns_check_captured [hoare]: "keeps (owns_child idle) (check_captured e xs previous)"
  by (induction xs arbitrary: previous) (auto intro!: hoare)

lemma owns_RefreshIDs [hoare]: "keeps (owns_child idle) (RefreshWindowsLocalDpiRetryIDs e holders a r)"
  unfolding RefreshWindowsLocalDpiRetryIDs_def by (auto intro!: hoare)

lemma owns_stop_and [hoare]: "keeps (owns_child idle) (stop_and e error)"
  unfolding stop_and_def by (auto intro!: hoare)

lemma idle_weaken: "owns_child True s \<Longrightarrow> owns_child idle s"
  by (auto simp: owns_child_def)

lemma owns_pre: "keeps (owns_child False) m \<Longrightarrow> triple (owns_child True) m (\<lambda>_. owns_child False)"
  unfolding keeps_def by (erule triple_pre) (rule idle_weaken)

text \<open>The step that creates the child: between the call and the assignment the handle is not set.\<close>

lemma create_child:
  assumes "keeps (owns_child False) failed" and "keeps (owns_child False) started"
  shows "triple (owns_child True)
    (do { created \<leftarrow> ask_bool e (DpiIo (CreateChild path command));
          if \<not> created then failed else do { change (\<lambda>x. x\<lparr>ex_process := True\<rparr>); started } })
    (\<lambda>_. owns_child False)"
proof (rule tripleI)
  fix s a s'
  assume s: "owns_child True s"
    and run: "run_state (do { created \<leftarrow> ask_bool e (DpiIo (CreateChild path command));
          if \<not> created then failed else do { change (\<lambda>x. x\<lparr>ex_process := True\<rparr>); started } }) s = (a, s')"
  obtain x t where st: "s = (x, t)" by (cases s)
  show "owns_child False s'"
  proof (cases "env_bool e t (DpiIo (CreateChild path command))")
    case True
    then have "run_state started (x\<lparr>ex_process := True\<rparr>, (DpiIo (CreateChild path command), ABool True) # t) = (a, s')"
      using run by (simp add: st run_simps)
    moreover have "owns_child False (x\<lparr>ex_process := True\<rparr>, (DpiIo (CreateChild path command), ABool True) # t)"
      using s by (auto simp: st owns_child_def)
    ultimately show ?thesis using keepsD [OF assms(2)] by blast
  next
    case False
    then have "run_state failed (x, (DpiIo (CreateChild path command), ABool False) # t) = (a, s')"
      using run by (simp add: st run_simps)
    moreover have "owns_child False (x, (DpiIo (CreateChild path command), ABool False) # t)"
      using s by (auto simp: st owns_child_def)
    ultimately show ?thesis using keepsD [OF assms(1)] by blast
  qed
qed

lemma owns_first: "keeps (owns_child True) m \<Longrightarrow> triple (owns_child True) m (\<lambda>_. owns_child True)"
  by (simp add: keeps_def)

lemma owns_StartChild:
  assumes "keeps (owns_child False) current"
  shows "triple (owns_child True) (StartChild e hostlist index strategy current) (\<lambda>_. owns_child False)"
  unfolding StartChild_def
  by (intro triple_bind [OF owns_first] triple_if create_child owns_pre)
    (auto intro!: hoare assms)

lemma triple_my_id:
  "(\<And>x. triple (\<lambda>s. P s \<and> fst s = x) (f x) Q) \<Longrightarrow> triple P (State_Monad.bind (my id) f) Q"
  by (fastforce simp: triple_def run_simps split: prod.splits)

lemma owns_StartPrepared [hoare]:
  assumes "\<And>idle. keeps (owns_child idle) current"
  shows "keeps (owns_child False) (StartPrepared e services iface strategy current)"
proof -
  have idle: "owns_child True s" if "owns_child False s \<and> fst s = x" "\<not> ex_process x" for s x
    using that by (auto simp: owns_child_def)
  show ?thesis
    unfolding StartPrepared_def keeps_def
    apply (intro triple_bind [OF assms [unfolded keeps_def]] triple_my_id triple_if)
      apply (auto intro!: triple_return) [2]
    apply (rule triple_pre [where P = "owns_child True"])
     apply (intro triple_bind [OF owns_first] triple_if owns_StartChild owns_pre)
                 apply (auto intro!: hoare assms intro: idle)
    done
qed

lemma owns_RetryPrepared [hoare]:
  assumes "\<And>idle. keeps (owns_child idle) current"
  shows "keeps (owns_child False) (RetryPrepared e services iface strategy current)"
proof -
  have stop: "triple (owns_child False) (StopWindowsLocalDpiChild e) (\<lambda>r s. owns_child r s)"
  proof (rule tripleI)
    fix s a s' assume "owns_child False s" and run: "run_state (StopWindowsLocalDpiChild e) s = (a, s')"
    then have "owns_child False s'" using keepsD [OF owns_StopChild] by blast
    moreover have "a \<Longrightarrow> \<not> ex_process (fst s')"
      using StopChild_dead [of e "fst s" "snd s" "fst s'" "snd s'"] run by (cases a) simp_all
    ultimately show "owns_child a s'" by (auto simp: owns_child_def)
  qed
  have after: "triple (owns_child stopped)
      (if \<not> stopped then State_Monad.return err else m) (\<lambda>_. owns_child False)"
    if "triple (owns_child True) m (\<lambda>_. owns_child False)" for stopped err m
    using that by (cases stopped) (auto intro: triple_return)
  show ?thesis
    unfolding RetryPrepared_def keeps_def
    apply (intro triple_bind [OF assms [unfolded keeps_def]] triple_my_id triple_if)
       apply (auto intro!: triple_return) [2]
    apply (rule triple_pre [where P = "owns_child False"])
     apply (intro triple_bind [OF owns_MatchesPrepared [unfolded keeps_def]] triple_if)
      apply (auto intro!: triple_return) [1]
     apply (rule triple_bind [OF owns_change [unfolded keeps_def]], simp)
     apply (rule triple_bind [OF stop], rule after)
     apply (intro triple_bind [OF owns_first] triple_if owns_StartChild owns_pre)
               apply (auto intro!: hoare assms)
    done
qed

lemma owns_RetryAfter [hoare]:
  assumes "\<And>idle. keeps (owns_child idle) current"
  shows "keeps (owns_child False) (RetryAfterRuntimeFailure e services iface strategy current)"
  unfolding RetryAfterRuntimeFailure_def by (auto intro!: hoare assms)

lemma owns_AdmitCaptured [hoare]:
  assumes "\<And>idle. keeps (owns_child idle) current"
  shows "keeps (owns_child idle) (AdmitCaptured e tag current)"
  unfolding AdmitCaptured_def by (auto intro!: hoare assms)

section \<open>Runs of the executor\<close>

text \<open>The ownership callback only reads: it keeps the executor and creates or releases no child.\<close>

definition reads_only :: "bool dpi_action \<Rightarrow> bool" where
  "reads_only current \<longleftrightarrow> (\<forall>x t. \<exists>b new. run_state current (x, t) = (b, (x, new @ t)) \<and>
     list_all (\<lambda>(op, a). \<not> child_op op) new)"

lemma child_quiet_append:
  "list_all (\<lambda>(op, a). \<not> child_op op) new \<Longrightarrow>
   child_live (new @ t) = child_live t \<and> one_child (new @ t) = one_child t"
  by (induction new) (auto simp: child_op_quiet)

lemma reads_only_owns: "reads_only current \<Longrightarrow> keeps (owns_child idle) current"
proof (rule keeps_tripleI)
  fix s a s' assume r: "reads_only current" "owns_child idle s" "run_state current s = (a, s')"
  obtain x t where "s = (x, t)" by (cases s)
  with r obtain new where "s' = (x, new @ t)" "list_all (\<lambda>(op, a). \<not> child_op op) new"
    unfolding reads_only_def by (metis prod.inject)
  with r(2) \<open>s = _\<close> show "owns_child idle s'" by (auto simp: owns_child_def child_quiet_append)
qed

datatype (plugins only: code size) dpi_call =
    CallStartPrepared "WindowsLocalDpiService list" string WindowsLocalDpiStrategy
  | CallRetryPrepared "WindowsLocalDpiService list" string WindowsLocalDpiStrategy
  | CallRetryAfterRuntimeFailure "WindowsLocalDpiService list" string WindowsLocalDpiStrategy
  | CallAdmitCaptured string | CallAssetsReady | CallAlive | CallStop | CallStopAfterCoreStopped

fun dpi_step :: "env \<Rightarrow> bool dpi_action \<Rightarrow> dpi_call \<Rightarrow> unit dpi_action" where
  "dpi_step e current (CallStartPrepared services iface strategy) =
     do { StartPrepared e services iface strategy current; State_Monad.return () }"
| "dpi_step e current (CallRetryPrepared services iface strategy) =
     do { RetryPrepared e services iface strategy current; State_Monad.return () }"
| "dpi_step e current (CallRetryAfterRuntimeFailure services iface strategy) =
     do { RetryAfterRuntimeFailure e services iface strategy current; State_Monad.return () }"
| "dpi_step e current (CallAdmitCaptured tag) = do { AdmitCaptured e tag current; State_Monad.return () }"
| "dpi_step e current CallAssetsReady = do { AssetsReady e; State_Monad.return () }"
| "dpi_step e current CallAlive = do { Alive e; State_Monad.return () }"
| "dpi_step e current CallStop = do { StopDpi e; State_Monad.return () }"
| "dpi_step e current CallStopAfterCoreStopped = do { StopAfterCoreStopped e; State_Monad.return () }"

fun dpi_run :: "env \<Rightarrow> (bool dpi_action \<times> dpi_call) list \<Rightarrow> WindowsLocalDpiExecutor \<times> trace \<Rightarrow> WindowsLocalDpiExecutor \<times> trace" where
  "dpi_run e [] s = s"
| "dpi_run e ((current, call) # rest) s = dpi_run e rest (snd (run_state (dpi_step e current call) s))"

lemma owns_dpi_step: "reads_only current \<Longrightarrow> keeps (owns_child False) (dpi_step e current call)"
  using reads_only_owns by (cases call) (auto intro!: hoare)

lemma owns_dpi_run:
  "owns_child False s \<Longrightarrow> list_all (\<lambda>(current, call). reads_only current) calls \<Longrightarrow> owns_child False (dpi_run e calls s)"
proof (induction calls arbitrary: s)
  case (Cons c calls)
  obtain current call where c: "c = (current, call)" by (cases c)
  have "owns_child False (snd (run_state (dpi_step e current call) s))"
    using Cons.prems c keepsD [OF owns_dpi_step] by (metis (no_types, lifting) case_prodD list.pred_inject(2) surjective_pairing)
  with Cons c show ?case by simp
qed simp


section \<open>Stopping\<close>

definition handled :: "trace \<Rightarrow> string \<times> string \<Rightarrow> bool" where
  "handled new holder \<longleftrightarrow> (case holder of (tag, id') \<Rightarrow>
     (\<exists>owner. (AdmissionIo (ReadLocalDpiAdmissionID tag), AText owner) \<in> set new \<and>
       (owner \<noteq> id' \<or> (\<exists>r. 0 \<le> r \<and> (AdmissionIo (WithdrawLocalDpiAdmission id'), AInt r) \<in> set new))))"

definition withdraws :: "trace \<Rightarrow> string list" where
  "withdraws new = concat (map (\<lambda>(op, a). case op of AdmissionIo (WithdrawLocalDpiAdmission id') \<Rightarrow> [id'] | _ \<Rightarrow> []) new)"

lemma withdraw_holders_run:
  assumes "run_state (withdraw_holders e holders) (x, t) = (r, (x', t'))"
  shows "x' = x \<and> (\<exists>new. t' = new @ t \<and> set (withdraws new) \<subseteq> snd ` set holders \<and>
    (r \<longrightarrow> list_all (handled new) holders))"
  using assms
proof (induction holders arbitrary: t)
  case Nil
  then show ?case by (auto simp: run_simps withdraws_def)
next
  case (Cons h holders)
  obtain tag id' where h: "h = (tag, id')" by (cases h)
  let ?ask = "AdmissionIo (ReadLocalDpiAdmissionID tag)"
  let ?wd = "AdmissionIo (WithdrawLocalDpiAdmission id')"
  define owner where "owner = env_text e t ?ask"
  define t1 where "t1 = (?ask, AText owner) # t"
  define r1 where "r1 = env_int e t1 ?wd"
  define pre where "pre = (if owner = id' then [(?wd, AInt r1), (?ask, AText owner)] else [(?ask, AText owner)])"
  have pre: "set (withdraws pre) \<subseteq> {id'}" by (auto simp: withdraws_def pre_def)
  show ?case
  proof (cases "owner = id' \<and> r1 < 0")
    case True
    with Cons.prems have "r = False" "x' = x" "t' = pre @ t"
      by (auto simp: h run_simps owner_def t1_def r1_def pre_def)
    with pre h show ?thesis by auto
  next
    case False
    then have "run_state (withdraw_holders e holders) (x, pre @ t) = (r, (x', t'))"
      using Cons.prems by (auto simp: h run_simps owner_def t1_def r1_def pre_def split: if_splits)
    from Cons.IH [OF this] obtain new where IH: "x' = x" "t' = new @ pre @ t"
      "set (withdraws new) \<subseteq> snd ` set holders" "r \<longrightarrow> list_all (handled new) holders" by blast
    have "handled (new @ pre) h" using False by (auto simp: handled_def h pre_def not_less)
    moreover have "handled new k \<Longrightarrow> handled (new @ pre) k" for k by (auto simp: handled_def split: prod.splits)
    ultimately have "r \<longrightarrow> list_all (handled (new @ pre)) (h # holders)" using IH(4) by (auto simp: list_all_iff)
    moreover have "set (withdraws (new @ pre)) \<subseteq> snd ` set (h # holders)"
    proof -
      have "set (withdraws (new @ pre)) = set (withdraws new) \<union> set (withdraws pre)" by (simp add: withdraws_def)
      then show ?thesis using IH(3) pre h by auto
    qed
    ultimately show ?thesis using IH(1,2) by (metis append.assoc)
  qed
qed

lemma StopAfter_run:
  assumes "run_state (StopAfterCoreStopped e) (x, t) = (r, (x', t'))"
  shows "\<exists>new. t' = new @ t \<and> withdraws new = [] \<and> (r \<longrightarrow> \<not> ex_process x' \<and> \<not> ex_job x' \<and> \<not> ex_driver_guard x' \<and> ex_holders x' = [])"
  using assms
  by (auto simp: StopAfterCoreStopped_def StopWindowsLocalDpiChild_def CloseWindowsLocalDpiDriver_def run_simps
      clear_executor_def withdraws_def split: if_splits)

text \<open>
  C39. Stopping the executor withdraws what it captured and nothing else.  A stop that succeeds
  leaves no child, no job, no driver handle and no holder; for every holder it had captured it
  either saw that Core no longer answers with that admission or had its withdrawal confirmed;
  and no stop ever withdraws an admission that was not captured.
\<close>

theorem executor_stop_withdraws:
  assumes "run_state (StopDpi e) (x, t) = (stopped, (x', t'))"
  shows "\<exists>new. t' = new @ t \<and> set (withdraws new) \<subseteq> snd ` set (ex_holders x) \<and>
    (stopped \<longrightarrow> list_all (handled new) (ex_holders x) \<and>
       \<not> ex_process x' \<and> \<not> ex_job x' \<and> \<not> ex_driver_guard x' \<and> ex_holders x' = [])"
proof -
  obtain w x1 t1 where w: "run_state (withdraw_holders e (ex_holders x)) (x, t) = (w, (x1, t1))" by (metis prod.exhaust)
  from withdraw_holders_run [OF w] obtain new where n: "x1 = x" "t1 = new @ t"
    "set (withdraws new) \<subseteq> snd ` set (ex_holders x)" "w \<longrightarrow> list_all (handled new) (ex_holders x)" by blast
  show ?thesis
  proof (cases w)
    case False
    with assms w n show ?thesis by (auto simp: StopDpi_def run_simps)
  next
    case True
    with assms w n have s: "run_state (StopAfterCoreStopped e) (x, new @ t) = (stopped, (x', t'))"
      by (simp add: StopDpi_def run_simps)
    from StopAfter_run [OF s] obtain more where m: "t' = more @ new @ t" "withdraws more = []"
      "stopped \<longrightarrow> \<not> ex_process x' \<and> \<not> ex_job x' \<and> \<not> ex_driver_guard x' \<and> ex_holders x' = []" by blast
    have "handled new k \<Longrightarrow> handled (more @ new) k" for k by (auto simp: handled_def split: prod.splits)
    with n(4) True have "list_all (handled (more @ new)) (ex_holders x)" by (auto simp: list_all_iff)
    moreover have "set (withdraws (more @ new)) \<subseteq> snd ` set (ex_holders x)" using m(2) n(3) by (simp add: withdraws_def)
    ultimately show ?thesis using m by (metis append.assoc)
  qed
qed

section \<open>Witnesses\<close>

definition sample_service :: WindowsLocalDpiService where
  "sample_service = \<lparr>ds_service_id = ''video'', ds_outbound_tag = ''pokrov-local-dpi-video'',
     ds_control_host = ''a.example'', ds_domains = [\<lparr>dd_name = ''a.example'', dd_exact = True, dd_shared = False\<rparr>],
     ds_captured_admission_id = []\<rparr>"

lemma hints_bounded_and_current_witness:
  "Preferred ''net'' [sample_service] (RecordSuccess ''net'' [sample_service] kFakeMultisplitAlt4 []) = kFakeMultisplitAlt4"
  using hints_bounded_and_current [of "[]" "[sample_service]" "''net''" kFakeMultisplitAlt4]
  by (simp add: hints_ok_def)

lemma host_list_exact_witness:
  "WindowsLocalDpiHostList [sample_service] = ''^a.example'' \<and>
   set (split_commas (WindowsLocalDpiHostList [sample_service])) = {''^a.example''}"
proof -
  have h: "WindowsLocalDpiHostList [sample_service] = ''^a.example''"
    unfolding sample_service_def by code_simp
  then have ne: "WindowsLocalDpiHostList [sample_service] \<noteq> []" by simp
  from host_list_exact [OF ne] h show ?thesis by (simp add: sample_service_def domain_entry_def)
qed


theorem executor_stop_withdraws_witness:
  "\<exists>x' t'. run_state (StopDpi happy_env) (NewExecutor\<lparr>ex_holders := [(''tag'', [])]\<rparr>, []) = (True, (x', t')) \<and>
     set (withdraws t') \<subseteq> {[]} \<and> list_all (handled t') [(''tag'', [])] \<and> ex_holders x' = []"
proof -
  obtain x' t' where run: "run_state (StopDpi happy_env) (NewExecutor\<lparr>ex_holders := [(''tag'', [])]\<rparr>, []) = (True, (x', t'))"
    by (simp add: StopDpi_def StopAfterCoreStopped_def StopWindowsLocalDpiChild_def CloseWindowsLocalDpiDriver_def
        NewExecutor_def happy_env_def run_simps)
  from executor_stop_withdraws [OF run] run show ?thesis by auto
qed

end
