(* ===== verification/Runtime_Verified.thy ===== *)
theory Runtime_Verified
  imports Runtime_Journal Guard_Laws Local_Dpi_Laws
begin

text \<open>
  What the host claims about the connection.  The host reports a verified connection only while
  Core is up, and only when its egress was proved after Core was started.  Both are read off
  the trace.
\<close>

section \<open>The state of Core in a trace\<close>

text \<open>The last start of Core succeeded and Core was not stopped since.\<close>

fun core_up :: "trace \<Rightarrow> bool" where
  "core_up [] = False"
| "core_up ((CoreIo (CoreStart p m), a) # t) = (a = AText [])"
| "core_up ((CoreIo (CoreStartInterruptible p m), a) # t) = (a = AText [])"
| "core_up ((CoreIo CoreStop, a) # t) = False"
| "core_up (x # t) = core_up t"

text \<open>
  Since that start a proof of egress succeeded: the authenticated probe, the probe of a Smart
  Access outbound, or the confirmation of a transport lease by Core.
\<close>

fun egress_proved :: "trace \<Rightarrow> bool" where
  "egress_proved [] = False"
| "egress_proved ((CoreIo (CoreStart p m), a) # t) = False"
| "egress_proved ((CoreIo (CoreStartInterruptible p m), a) # t) = False"
| "egress_proved ((CoreIo CoreStop, a) # t) = False"
| "egress_proved ((ProbeIo (ProbeVerify p r), a) # t) = (a = AText [] \<or> egress_proved t)"
| "egress_proved ((CoreIo (ProbeSmartAccess g p), a) # t) = (a = AText [] \<or> egress_proved t)"
| "egress_proved ((CoreIo (ConfirmATSLease l), a) # t) = (a = AInt 1 \<or> egress_proved t)"
| "egress_proved (x # t) = egress_proved t"

fun silent_io :: "io \<Rightarrow> bool" where
  "silent_io (CoreIo (CoreStart p m)) = False"
| "silent_io (CoreIo (CoreStartInterruptible p m)) = False"
| "silent_io (CoreIo CoreStop) = False"
| "silent_io op = True"

lemma core_up_silent: "silent_io op \<Longrightarrow> core_up ((op, a) # t) = core_up t"
  by (cases "(op, a) # t" rule: core_up.cases) auto

lemma egress_proved_silent: "silent_io op \<Longrightarrow> egress_proved t \<Longrightarrow> egress_proved ((op, a) # t)"
  by (cases "(op, a) # t" rule: egress_proved.cases) auto

lemma core_up_append: "list_all (\<lambda>(op, a). silent_io op) new \<Longrightarrow> core_up (new @ t) = core_up t"
  by (induction new) (auto simp: core_up_silent simp del: core_up.simps)

lemma egress_proved_append: "list_all (\<lambda>(op, a). silent_io op) new \<Longrightarrow> egress_proved t \<Longrightarrow> egress_proved (new @ t)"
  by (induction new) (auto simp: egress_proved_silent simp del: egress_proved.simps)

lemma executor_silent: "executor_io op \<Longrightarrow> silent_io op"
  by (induction op rule: executor_io.induct) auto

lemma guard_silent: "guard_io op \<Longrightarrow> silent_io op"
  by (induction op rule: guard_io.induct) auto

section \<open>Calls that leave the status alone\<close>

definition status :: "RuntimeHost \<Rightarrow> Phase \<times> bool \<times> string \<times> bool \<times> bool" where
  "status h = (rh_phase h, rh_egress_validated h, rh_effective_digest h, rh_initialized h, rh_requires_bound_connect h)"

text \<open>The transition guard is in place, or may be.\<close>

definition guarded :: "RuntimeHost \<times> trace \<Rightarrow> bool" where
  "guarded s \<longleftrightarrow> TransitionGuardArmed (fst s)"

definition calm :: "'a host_action \<Rightarrow> bool" where
  "calm m \<longleftrightarrow> emits silent_io m \<and> frames status m \<and> keeps guarded m"

lemma frames_guarded: "frames (\<lambda>h. (rh_has_guard h, rh_guard h)) m \<Longrightarrow> keeps guarded m"
  unfolding keeps_def by (rule triple_pairI) (auto simp: guarded_def TransitionGuardArmed_def dest: framesD)


named_theorems calmness \<open>host actions that neither start nor stop Core nor change the status nor release the guard\<close>

lemma calm_bind [calmness]: "calm m \<Longrightarrow> (\<And>a. calm (f a)) \<Longrightarrow> calm (State_Monad.bind m f)"
  unfolding calm_def by (auto intro!: effect keeps_bind)

lemma calm_return [calmness]: "calm (State_Monad.return a)"
  unfolding calm_def by (auto intro!: effect keeps_return)

lemma calm_if [calmness]: "(b \<Longrightarrow> calm m) \<Longrightarrow> (\<not> b \<Longrightarrow> calm n) \<Longrightarrow> calm (if b then m else n)"
  by simp

lemma calm_option [calmness]:
  "(x = None \<Longrightarrow> calm m) \<Longrightarrow> (\<And>y. x = Some y \<Longrightarrow> calm (f y)) \<Longrightarrow> calm (case x of None \<Rightarrow> m | Some y \<Rightarrow> f y)"
  by (cases x) simp_all

lemma calm_prod [calmness]: "(\<And>a b. calm (f a b)) \<Longrightarrow> calm (case x of (a, b) \<Rightarrow> f a b)"
  by (cases x) simp

lemma calm_let [calmness]: "(\<And>x. calm (f x)) \<Longrightarrow> calm (let y = x in f y)"
  by simp

lemma calm_ask [calmness]: "silent_io op \<Longrightarrow> calm (ask f w op)"
  unfolding calm_def by (auto intro!: effect frames_guarded)

lemma calm_tell [calmness]: "silent_io op \<Longrightarrow> calm (tell op)"
  unfolding calm_def by (auto intro!: effect frames_guarded)

lemma calm_my [calmness]: "calm (my f)"
  unfolding calm_def by (auto intro!: effect frames_guarded)

lemma calm_change [calmness]:
  "(\<And>h. status (f h) = status h) \<Longrightarrow> (\<And>h. (rh_has_guard (f h), rh_guard (f h)) = (rh_has_guard h, rh_guard h)) \<Longrightarrow> calm (change f)"
  unfolding calm_def by (auto intro!: effect frames_guarded)

lemma calm_executor_call [calmness]: "emits executor_io m \<Longrightarrow> calm (executor_call m)"
  unfolding calm_def status_def by (auto intro!: effect frames_guarded emits_mono [of executor_io m] executor_silent)

lemma calm_Start [calmness]: "calm (guard_call (Start e))"
proof -
  have "keeps guarded (guard_call (Start e))"
    unfolding keeps_def
    by (rule triple_pairI) (auto simp: guarded_def TransitionGuardArmed_def run_simps split: prod.splits dest: Start_armed)
  then show ?thesis
    unfolding calm_def status_def by (auto intro!: effect emits_mono [of guard_io "Start e"] guard_silent)
qed

lemma calm_recovery_call [calmness]: "emits silent_io m \<Longrightarrow> calm (recovery_call m)"
  unfolding calm_def status_def by (auto intro!: effect frames_guarded)

lemma calm_reading: "emits executor_io m \<Longrightarrow> frames id m \<Longrightarrow> calm m"
  unfolding calm_def
  by (auto intro: emits_mono [of executor_io m] executor_silent frames_guarded simp: frames_def)

lemma calm_interrupted [calmness]: "calm (interrupted_by e check)"
  by (rule calm_reading) (auto intro!: effect)

lemma calm_PreparationCurrent [calmness]: "calm (WindowsLocalDpiPreparationCurrent e p)"
  by (rule calm_reading) (auto intro!: effect)

lemma calm_TelegramCurrent [calmness]: "calm (WindowsTelegramWSPreparationCurrent e p)"
  by (rule calm_reading) (auto intro!: effect)

lemma calm_ReadPreparation [calmness]: "calm (ReadWindowsLocalDpiPreparation e encoded)"
  by (rule calm_reading) (auto intro!: effect)

lemma calm_ReadTelegramPreparation [calmness]: "calm (ReadWindowsTelegramWSPreparation e encoded)"
  by (rule calm_reading) (auto intro!: effect)

lemma calm_telegram_current [calmness]: "calm (telegram_current e check tc h p)"
  by (rule calm_reading) (auto intro!: effect)

lemma calm_dpi_owner_changed [calmness]: "calm (dpi_owner_changed e h)"
  by (rule calm_reading) (auto intro!: effect)

lemma emits_WriteAtomicFile [effect]: "emits silent_io (WriteAtomicFile e target pending content)"
  unfolding WriteAtomicFile_def by (auto intro!: effect)

lemma emits_Record [effect]: "emits silent_io (Record e st)"
  unfolding Record_def Write_def by (auto intro!: effect)

lemma emits_Begin [effect]: "emits silent_io (Begin e)"
  unfolding Begin_def NewGeneration_def by (auto intro!: effect)

lemma emits_BeginRollback [effect]: "emits silent_io (BeginRollback e)"
  unfolding BeginRollback_def FinishRecovery_def by (auto intro!: effect)

lemma emits_Restore [effect]: "emits silent_io (RestoreNetworkState e)"
  unfolding RestoreNetworkState_def by (auto intro!: effect)

lemma emits_CompleteRollback [effect]: "emits silent_io (CompleteRollback e)"
  unfolding CompleteRollback_def FinishRecovery_def by (auto intro!: effect)

section \<open>The calm operations\<close>

lemma calm_EnsureDirectory [calmness]: "calm (EnsureDirectory e p)"
  unfolding EnsureDirectory_def by (auto intro!: calmness effect simp: status_def)

lemma calm_ProtectDirectory [calmness]: "calm (ProtectDirectory e p)"
  unfolding ProtectDirectory_def by (auto intro!: calmness effect simp: status_def)

lemma calm_prepare_paths [calmness]: "calm (prepare_paths e s ps)"
  by (induction ps) (auto intro!: calmness effect simp: status_def Let_def)

lemma calm_PrepareDirectories [calmness]: "calm (PrepareDirectories e)"
  unfolding PrepareDirectories_def Let_def by (auto intro!: calmness effect simp: status_def)

lemma calm_WriteProfileAtomically [calmness]: "calm (WriteProfileAtomically e p)"
  unfolding WriteProfileAtomically_def Let_def by (auto intro!: calmness effect simp: status_def)

lemma calm_delete_rule_sets [calmness]: "calm (delete_rule_sets e base ns)"
  by (induction ns) (auto intro!: calmness effect simp: status_def Let_def)

lemma calm_CleanupBundledRuleSets [calmness]: "calm (CleanupBundledRuleSets e s)"
  unfolding CleanupBundledRuleSets_def by (auto intro!: calmness effect simp: status_def)

lemma calm_write_rule_sets [calmness]: "calm (write_rule_sets e s base n rs ps)"
  by (induction rs arbitrary: n ps) (auto intro!: calmness effect simp: status_def Let_def)

lemma calm_WriteBundledRuleSets [calmness]: "calm (WriteBundledRuleSets e s rs)"
  unfolding WriteBundledRuleSets_def Let_def by (auto intro!: calmness effect simp: status_def)

lemma calm_RecordEvent [calmness]: "calm (RecordEvent ev out)"
  unfolding RecordEvent_def by (auto intro!: calmness effect simp: status_def)

lemma calm_observe_service [calmness]: "calm (observe_service e n s r)"
  unfolding observe_service_def by (auto intro!: calmness effect simp: status_def)

lemma calm_observe_services [calmness]: "calm (observe_services e n ss r)"
  by (induction ss arbitrary: r) (auto intro!: calmness effect simp: status_def Let_def)

lemma calm_ReadLocalDpiRuntimeObservation [calmness]: "calm (ReadLocalDpiRuntimeObservation e)"
  unfolding ReadLocalDpiRuntimeObservation_def by (auto intro!: calmness effect simp: status_def split: bool.splits Phase.splits)

lemma calm_core_version [calmness]: "silent_io (CoreIo op) \<Longrightarrow> calm (core_version e r op)"
  unfolding core_version_def by (auto intro!: calmness effect simp: status_def)

lemma calm_core_text [calmness]: "silent_io (CoreIo op) \<Longrightarrow> calm (core_text e r op)"
  unfolding core_text_def by (auto intro!: calmness effect simp: status_def)

lemma calm_SnapshotBody [calmness]: "calm (SnapshotBody e p)"
  unfolding SnapshotBody_def Let_def by (auto intro!: calmness effect simp: status_def)

lemma calm_Snapshot [calmness]: "calm (Snapshot e)"
  unfolding Snapshot_def by (auto intro!: calmness effect simp: status_def)

lemma calm_PendingSnapshot [calmness]: "calm (PendingSnapshot e c)"
  unfolding PendingSnapshot_def by (auto intro!: calmness effect simp: status_def)

lemma calm_Fail [calmness]: "calm (Fail e s f)"
  unfolding Fail_def by (auto intro!: calmness effect simp: status_def)

lemma calm_withdraw_telegram [calmness]: "calm (withdraw_telegram e sel hs kept)"
  by (induction e sel hs kept rule: withdraw_telegram.induct) (auto intro!: calmness)

lemma calm_WithdrawTelegramWS [calmness]: "calm (WithdrawTelegramWS e s)"
  unfolding WithdrawTelegramWS_def Let_def by (auto intro!: calmness effect simp: status_def)

lemma calm_ClearWindowsLocalDpiAfterCoreStopped [calmness]: "calm (ClearWindowsLocalDpiAfterCoreStopped e)"
  unfolding ClearWindowsLocalDpiAfterCoreStopped_def by (auto intro!: calmness effect simp: status_def)

lemma calm_stop_executor [calmness]: "calm (stop_executor e)"
  unfolding stop_executor_def by (auto intro!: calmness effect simp: status_def)

lemma calm_secure_files [calmness]: "calm (secure_files e ps)"
  by (induction ps) (auto intro!: calmness effect simp: status_def Let_def)

lemma calm_refuse_stage [calmness]: "calm (refuse_stage e s f)"
  unfolding refuse_stage_def by (auto intro!: calmness effect simp: status_def)

lemma calm_VerifyEgress [calmness]: "calm (VerifyEgress e p)"
  unfolding VerifyEgress_def by (auto intro!: calmness effect simp: status_def split: option.splits)

lemma calm_record_dpi [calmness]: "calm (record_dpi e st s f)"
  unfolding record_dpi_def by (auto intro!: calmness effect simp: status_def)

lemma calm_prove_service [calmness]: "emits executor_io owner \<Longrightarrow> calm (prove_service e n i st owner sp timeout s)"
  unfolding prove_service_def by (auto intro!: calmness effect simp: status_def)

lemma calm_prove_services [calmness]: "emits executor_io owner \<Longrightarrow> calm (prove_services e n i st owner sp dl ss tr ap ad)"
  by (induction ss arbitrary: tr ap ad) (auto intro!: calmness effect simp: status_def Let_def)

lemma calm_ProveAndAdmitWindowsLocalDpi [calmness]: "emits executor_io owner \<Longrightarrow> calm (ProveAndAdmitWindowsLocalDpi e n i st owner sp wr)"
  unfolding ProveAndAdmitWindowsLocalDpi_def Let_def by (auto intro!: calmness effect simp: status_def)

lemma status_capture [simp]: "status (capture_admissions h) = status h"
  by (simp add: capture_admissions_def status_def split: option.splits)

lemma guard_capture [simp]:
  "rh_has_guard (capture_admissions h) = rh_has_guard h" "rh_guard (capture_admissions h) = rh_guard h"
  by (simp_all add: capture_admissions_def split: option.splits)

lemma calm_try_strategies [calmness]: "emits executor_io owner \<Longrightarrow> calm (try_strategies e net owner first sts)"
  by (induction sts arbitrary: first) (auto intro!: calmness effect simp: Let_def)

lemma calm_prepare_telegram [calmness]: "calm (prepare_telegram e net c)"
  unfolding prepare_telegram_def by (auto intro!: calmness effect simp: status_def split: option.splits bool.splits)

lemma calm_prepare_local_dpi [calmness]: "calm (prepare_local_dpi e net c)"
  unfolding prepare_local_dpi_def by (auto intro!: calmness effect simp: status_def split: option.splits bool.splits)

lemma calm_returning [calmness]: "calm m \<Longrightarrow> calm (returning m)"
  unfolding returning_def by (auto intro!: calmness effect simp: status_def)

lemma calm_early [calmness]: "calm m \<Longrightarrow> calm k \<Longrightarrow> calm (early m k)"
  unfolding early_def by (auto intro!: calmness effect simp: status_def)

lemma calm_write_prepared [calmness]: "calm (write_prepared e c)"
  unfolding write_prepared_def by (auto intro!: calmness effect simp: status_def)

lemma calm_connect_prepare [calmness]: "calm (connect_prepare e net)"
  unfolding connect_prepare_def by (auto intro!: calmness effect simp: status_def split: sum.splits)

lemma calm_connect_begin [calmness]: "calm (connect_begin e)"
  unfolding connect_begin_def by (auto intro!: calmness effect simp: status_def)

lemma calm_record_start [calmness]: "calm (record_start x y)"
  unfolding record_start_def by (auto intro!: calmness effect simp: status_def)

lemma calm_capture_telegram [calmness]: "calm (capture_telegram e tags)"
  by (induction tags) (auto intro!: calmness effect simp: status_def Let_def)

lemma calm_admit_telegram [calmness]: "calm current \<Longrightarrow> calm (admit_telegram e current hs)"
proof (induction hs)
  case (Cons holder hs)
  then show ?case by (cases holder) (simp, intro calm_bind calm_if calm_ask calm_return, simp_all)
qed (simp add: calm_return)

lemma calm_connect_telegram [calmness]: "calm (connect_telegram e check tc)"
  unfolding connect_telegram_def Let_def by (auto intro!: calmness effect simp: status_def)

lemma calm_explicit_off [calmness]: "calm (explicit_off e False)"
  unfolding explicit_off_def by (auto intro!: calmness effect simp: status_def)

section \<open>The invariant\<close>

definition idle :: "RuntimeHost \<times> trace \<Rightarrow> bool" where
  "idle s \<longleftrightarrow> rh_phase (fst s) \<noteq> kRunning \<and> \<not> rh_egress_validated (fst s) \<and> rh_effective_digest (fst s) = []"

definition verified :: "RuntimeHost \<times> trace \<Rightarrow> bool" where
  "verified s \<longleftrightarrow>
     (rh_egress_validated (fst s) \<longrightarrow> rh_phase (fst s) = kRunning \<and> egress_proved (snd s)) \<and>
     (rh_phase (fst s) = kRunning \<longrightarrow> rh_initialized (fst s) \<and> core_up (snd s)) \<and>
     (rh_effective_digest (fst s) \<noteq> [] \<longrightarrow> rh_phase (fst s) = kRunning)"

lemma idle_verified: "idle s \<Longrightarrow> verified s"
  by (simp add: idle_def verified_def)

lemma verified_idle: "verified s \<Longrightarrow> rh_phase (fst s) \<noteq> kRunning \<Longrightarrow> idle s"
  by (auto simp: idle_def verified_def)

text \<open>Core is up, and its egress is proved unless the profile waits for a transport lease.\<close>

definition up :: "RuntimeHost \<times> trace \<Rightarrow> bool" where
  "up s \<longleftrightarrow> core_up (snd s) \<and> rh_initialized (fst s)"

definition up_proved :: "RuntimeHost \<times> trace \<Rightarrow> bool" where
  "up_proved s \<longleftrightarrow> up s \<and> (rh_requires_bound_connect (fst s) \<or> egress_proved (snd s))"

lemma calm_run:
  assumes "calm m" and "run_state m (h, t) = (a, (h', t'))"
  shows "status h' = status h \<and> core_up t' = core_up t \<and> (egress_proved t \<longrightarrow> egress_proved t')"
proof -
  from assms(1) emitsD [OF _ assms(2), of silent_io] obtain new where "t' = new @ t" "list_all (\<lambda>(op, a). silent_io op) new"
    by (auto simp: calm_def)
  with assms(1) framesD [OF _ assms(2), of status] show ?thesis
    using core_up_append egress_proved_append by (auto simp: calm_def)
qed

lemma calm_keeps:
  assumes "calm m"
  shows "keeps idle m" and "keeps verified m" and "keeps up m" and "keeps up_proved m" and "keeps guarded m"
proof -
  show "keeps idle m" and "keeps verified m" and "keeps up m" and "keeps up_proved m"
    unfolding keeps_def
    by (rule triple_pairI; drule calm_run [OF assms]; auto simp: idle_def verified_def up_def up_proved_def status_def)+
qed (use assms in \<open>simp add: calm_def\<close>)

text \<open>The other calls to the guard keep the status too.\<close>

lemma guard_call_keeps:
  assumes "emits guard_io m"
  shows "keeps idle (guard_call m)" and "keeps verified (guard_call m)"
proof -
  have e: "emits silent_io (guard_call m)" by (rule emits_zoom) (rule emits_mono [OF assms guard_silent])
  have f: "frames status (guard_call m)" by (rule frames_zoom) (simp add: status_def)
  show "keeps idle (guard_call m)" and "keeps verified (guard_call m)"
    unfolding keeps_def
    by (rule triple_pairI; frule emitsD [OF e]; drule framesD [OF f];
        auto simp: idle_def verified_def status_def core_up_append egress_proved_append)+
qed

lemma frames_status_idle: "frames status m \<Longrightarrow> keeps idle m"
  unfolding keeps_def by (rule triple_pairI) (auto simp: idle_def status_def dest: framesD)

lemma frames_calm: "calm m \<Longrightarrow> frames status m"
  by (simp add: calm_def)

lemma frames_roll_back [effect]: "frames status (roll_back e sf)"
  unfolding roll_back_def by (auto intro!: effect simp: status_def [abs_def] intro: frames_calm [unfolded status_def [abs_def]] calmness)

lemma frames_RecoverPending [effect]: "frames status (RecoverPendingRuntime e)"
  unfolding RecoverPendingRuntime_def by (auto intro!: effect intro: frames_calm calmness)

lemma frames_RollbackRuntime [effect]: "frames status (RollbackRuntime e)"
  unfolding RollbackRuntime_def by (auto intro!: effect intro: frames_calm calmness)

lemma explicit_off_keeps [hoare]: "keeps idle (explicit_off e x)" "keeps verified (explicit_off e x)"
  unfolding explicit_off_def
  by (intro keeps_bind keeps_if guard_call_keeps effect keeps_return keeps_my calm_keeps calmness)+

section \<open>From an idle host\<close>

lemma keeps_idle_change:
  "(\<And>h. idle (h, []) \<Longrightarrow> idle (f h, [])) \<Longrightarrow> keeps idle (change f)"
  unfolding keeps_def by (rule triple_change) (auto simp: idle_def)

lemmas idle_simps = idle_def rollback_phase_def clear_effective_def end_connection_def

lemma idle_roll_back_and_fail [hoare]:
  assumes "keeps idle reported" and "\<And>h. idle (h, []) \<Longrightarrow> idle (f h, [])"
  shows "keeps idle (roll_back_and_fail e f reported)"
  unfolding roll_back_and_fail_def
  by (intro keeps_bind frames_status_idle frames_RollbackRuntime keeps_idle_change keeps_if calm_keeps calmness assms)
    (auto simp: idle_simps)

lemmas idle_steps = keeps_bind keeps_if keeps_option keeps_prod keeps_early keeps_returning idle_roll_back_and_fail

lemma idle_interruption [hoare]: "keeps idle (interruption e check cd rb)"
  unfolding interruption_def Let_def
  by (intro idle_steps; (rule calm_keeps(1))?; auto intro!: calmness simp: idle_simps)

lemma idle_roll_back_quietly [hoare]: "keeps idle (roll_back_quietly e f)"
  unfolding roll_back_quietly_def
  by (intro keeps_bind frames_status_idle frames_RollbackRuntime keeps_idle_change calm_keeps calmness)
    (auto simp: idle_simps)

lemma idle_connect_local_dpi [hoare]: "keeps idle (connect_local_dpi e check net)"
  unfolding connect_local_dpi_def Let_def
  by (intro idle_steps idle_roll_back_quietly; (rule calm_keeps(1))?; auto intro!: calmness effect simp: status_def)

lemma idle_connect_mark_start [hoare]: "keeps idle (connect_mark_start e)"
  unfolding connect_mark_start_def
  by (intro idle_steps; (rule calm_keeps(1))?; auto intro!: calmness effect simp: status_def)

lemma idle_connect_start_failed [hoare]: "keeps idle (connect_start_failed e check cd)"
  unfolding connect_start_failed_def
  by (intro idle_steps idle_interruption; (rule calm_keeps(1))?; auto intro!: calmness effect simp: status_def)

lemma idle_connect_network_applied [hoare]: "keeps idle (connect_network_applied e)"
  unfolding connect_network_applied_def
  by (intro idle_steps; (rule calm_keeps(1))?; auto intro!: calmness effect simp: status_def)

lemma idle_connect_egress [hoare]: "keeps idle (connect_egress e check cd)"
  unfolding connect_egress_def
  by (intro idle_steps idle_interruption; (rule calm_keeps(1))?; auto intro!: calmness effect simp: idle_simps)

lemma idle_connect_commit [hoare]: "keeps idle (connect_commit e check cd)"
  unfolding connect_commit_def
  by (intro idle_steps idle_interruption; (rule calm_keeps(1))?; auto intro!: calmness effect simp: idle_simps)

lemma idle_connect_admission [hoare]: "keeps idle (connect_admission e dg check cd)"
  unfolding connect_admission_def
  by (intro idle_steps idle_interruption; (rule calm_keeps(1))?; auto intro!: calmness effect simp: idle_simps)

lemma frames_start_core [effect]: "frames status (start_core e cd)"
  unfolding start_core_def by (auto intro!: effect)

section \<open>The path to a connection\<close>

text \<open>A phase that lets the connect continue keeps Core up.\<close>

lemma triple_returning: "triple P (returning m) (\<lambda>r s. r = None \<longrightarrow> Q s)"
  by (rule tripleI) (auto simp: returning_def run_simps split: prod.splits)

lemma triple_continue: "keeps P m \<Longrightarrow> triple P m (\<lambda>r s. r = None \<longrightarrow> P s)"
  unfolding keeps_def by (erule triple_weaken) auto

lemma up_interruption:
  "triple up (interruption e check cd rb) (\<lambda>r s. r = None \<longrightarrow> up s)"
  "triple up_proved (interruption e check cd rb) (\<lambda>r s. r = None \<longrightarrow> up_proved s)"
  unfolding interruption_def Let_def
  by (intro triple_bind [OF triple_keeps [OF calm_keeps(3)]] triple_bind [OF triple_keeps [OF calm_keeps(4)]]
      triple_if triple_returning triple_return calmness; simp)+

lemma up_connect_network_applied: "triple up (connect_network_applied e) (\<lambda>r s. r = None \<longrightarrow> up s)"
  unfolding connect_network_applied_def
  by (intro triple_bind [OF triple_keeps [OF calm_keeps(3)]] triple_if triple_returning triple_return calmness effect) auto

lemma VerifyEgress_proves: "triple up (VerifyEgress e periodic) (\<lambda>failure s. up s \<and> (failure = [] \<longrightarrow> egress_proved (snd s)))"
proof -
  have "triple up (VerifyEgress e periodic) (\<lambda>_. up)"
    using calm_keeps(3) [OF calm_VerifyEgress] by (simp add: keeps_def)
  moreover have "triple (\<lambda>_. True) (VerifyEgress e periodic) (\<lambda>failure s. failure = [] \<longrightarrow> egress_proved (snd s))"
    unfolding VerifyEgress_def
    by (rule triple_pairI) (auto simp: run_simps split: prod.splits option.splits if_splits)
  ultimately show ?thesis using triple_conj [of up _ "\<lambda>_. up" "\<lambda>_. True"] by simp
qed

text \<open>Two facts about the same phase: the host stays idle, and Core is up when it continues.\<close>

lemma continue_idle:
  assumes "keeps idle m" and "triple P m (\<lambda>r s. r = None \<longrightarrow> Q s)"
  shows "triple (\<lambda>s. idle s \<and> P s) m (\<lambda>r s. idle s \<and> (r = None \<longrightarrow> Q s))"
  using triple_conj [OF triple_keeps [OF assms(1)] assms(2)] .

lemma triple_early_idle:
  assumes "keeps idle m" and "triple P m (\<lambda>r s. r = None \<longrightarrow> Q s)" and "triple (\<lambda>s. idle s \<and> Q s) k (\<lambda>_. verified)"
  shows "triple (\<lambda>s. idle s \<and> P s) (early m k) (\<lambda>_. verified)"
  unfolding early_def
  by (rule triple_bind [OF continue_idle [OF assms(1,2)]], rule triple_option)
    (auto intro: triple_pre [OF assms(3)] triple_return simp: idle_verified)

lemma triple_any: "triple P m (\<lambda>_ _. True)"
  by (simp add: triple_def split: prod.splits)

lemma egress_verdict:
  "triple (\<lambda>s. up s \<and> (failure = [] \<longrightarrow> egress_proved (snd s)))
     (do { stopped \<leftarrow> interruption e check cd True;
           case stopped of
             Some r \<Rightarrow> State_Monad.return (Some r)
           | None \<Rightarrow>
               if failure \<noteq> [] then do { RecordEvent kRuntimeEgressVerify kFailed; returning reported }
               else do { RecordEvent kRuntimeEgressVerify kSucceeded; State_Monad.return None } })
     (\<lambda>r s. r = None \<longrightarrow> up_proved s)"
proof (cases "failure = []")
  case True
  have "triple up_proved (do { RecordEvent kRuntimeEgressVerify kSucceeded; State_Monad.return None })
      (\<lambda>r s. r = None \<longrightarrow> up_proved s)"
    by (intro triple_bind [OF triple_keeps [OF calm_keeps(4)]] triple_return calmness) auto
  then have "triple up_proved
     (do { stopped \<leftarrow> interruption e check cd True;
           case stopped of
             Some r \<Rightarrow> State_Monad.return (Some r)
           | None \<Rightarrow> do { RecordEvent kRuntimeEgressVerify kSucceeded; State_Monad.return None } })
     (\<lambda>r s. r = None \<longrightarrow> up_proved s)"
    by (rule_tac triple_bind [OF up_interruption(2)], rule_tac triple_option) (auto intro: triple_pre triple_return)
  with True show ?thesis by (auto intro: triple_pre simp: up_proved_def)
next
  case False
  then show ?thesis
    by (intro triple_bind [OF triple_any]) (auto intro!: triple_option triple_return triple_bind [OF triple_any] triple_returning)
qed

lemma up_connect_egress: "triple up (connect_egress e check cd) (\<lambda>r s. r = None \<longrightarrow> up_proved s)"
  unfolding connect_egress_def
proof (rule triple_bind [where R = "\<lambda>bound s. up s \<and> (bound \<longrightarrow> rh_requires_bound_connect (fst s))"], rule triple_my, simp,
    rule triple_if)
  fix bound
  assume "\<not> bound"
  have "triple up (do { RecordEvent kRuntimeEgressVerify kAttempted; egress_failure \<leftarrow> VerifyEgress e False;
        stopped \<leftarrow> interruption e check cd True;
        case stopped of
          Some r \<Rightarrow> State_Monad.return (Some r)
        | None \<Rightarrow>
            if egress_failure \<noteq> [] then do {
              RecordEvent kRuntimeEgressVerify kFailed;
              returning (roll_back_and_fail e clear_effective (Fail e kNotReady (SafeEgressFailure egress_failure))) }
            else do { RecordEvent kRuntimeEgressVerify kSucceeded; State_Monad.return None } })
      (\<lambda>r s. r = None \<longrightarrow> up_proved s)"
    by (rule triple_bind [OF triple_keeps [OF calm_keeps(3) [OF calm_RecordEvent]]], rule triple_bind [OF VerifyEgress_proves],
        rule egress_verdict)
  then show "triple (\<lambda>s. up s \<and> (bound \<longrightarrow> rh_requires_bound_connect (fst s)))
     (do { RecordEvent kRuntimeEgressVerify kAttempted; egress_failure \<leftarrow> VerifyEgress e False;
        stopped \<leftarrow> interruption e check cd True;
        case stopped of
          Some r \<Rightarrow> State_Monad.return (Some r)
        | None \<Rightarrow>
            if egress_failure \<noteq> [] then do {
              RecordEvent kRuntimeEgressVerify kFailed;
              returning (roll_back_and_fail e clear_effective (Fail e kNotReady (SafeEgressFailure egress_failure))) }
            else do { RecordEvent kRuntimeEgressVerify kSucceeded; State_Monad.return None } })
      (\<lambda>r s. r = None \<longrightarrow> up_proved s)"
    by (rule triple_pre) simp
qed (auto intro!: triple_return simp: up_proved_def)

text \<open>The local DPI phase either ends the connect or leaves Core up.\<close>

lemma up_connect_local_dpi:
  "triple up_proved (connect_local_dpi e check net) (\<lambda>r s. (case r of Inl _ \<Rightarrow> True | Inr _ \<Rightarrow> up_proved s))"
  unfolding connect_local_dpi_def Let_def
  by (intro triple_bind [OF triple_keeps [OF calm_keeps(4)]] triple_prod triple_option triple_if triple_return calmness effect
      triple_bind [OF triple_any]) (auto simp: status_def)

lemma triple_continue_option:
  "(\<And>y. triple (\<lambda>_. True) (f y) Q) \<Longrightarrow> triple P m Q \<Longrightarrow>
   triple (\<lambda>s. x = None \<longrightarrow> P s) (case x of None \<Rightarrow> m | Some y \<Rightarrow> f y) Q"
  by (cases x) (auto intro: triple_pre)

lemma commit_rest:
  "triple up_proved
     (do { recovery_error \<leftarrow> (if v = [] then recovery_call (Record e kCommitted) else State_Monad.return v);
           if recovery_error \<noteq> [] then do { RecordEvent kRuntimeCommit kFailed; returning (reported recovery_error) }
           else interruption e check cd True })
     (\<lambda>r s. r = None \<longrightarrow> up_proved s)"
  by (intro triple_bind [OF triple_keeps [OF calm_keeps(4)]] triple_if triple_returning up_interruption(2) calmness effect)

lemma up_connect_commit: "triple up_proved (connect_commit e check cd) (\<lambda>r s. r = None \<longrightarrow> up_proved s)"
  unfolding connect_commit_def
  by (rule triple_bind [OF triple_keeps [OF calm_keeps(4) [OF calm_RecordEvent]]],
      rule triple_bind [OF triple_keeps [OF calm_keeps(4) [OF calm_recovery_call [OF emits_Record]]]],
      rule triple_bind [where R = "\<lambda>r s. r = None \<longrightarrow> up_proved s"])
    (intro triple_continue_option commit_rest triple_if triple_return up_interruption(2); simp)+

lemma verified_connect_finish:
  "triple (\<lambda>s. idle s \<and> up_proved s) (connect_finish e check fg net proved) (\<lambda>_. verified)"
proof -
  have set: "triple (\<lambda>s. idle s \<and> up_proved s)
      (change (\<lambda>h. h\<lparr>rh_effective_digest := rh_staged_digest h, rh_egress_validated := \<not> rh_requires_bound_connect h,
         rh_phase := kRunning, rh_failure := []\<rparr>)) (\<lambda>_. verified)"
    by (rule triple_change) (auto simp: verified_def up_proved_def up_def)
  have drop: "keeps verified (change (\<lambda>h. h\<lparr>rh_egress_validated := False\<rparr>))"
    unfolding keeps_def by (rule triple_change) (auto simp: verified_def)
  show ?thesis
    unfolding connect_finish_def
    by (rule triple_bind [OF set], rule triple_keeps)
      (intro keeps_bind keeps_if keeps_prod keeps_option drop guard_call_keeps(2); (rule calm_keeps(2))?;
       auto intro!: calmness effect simp: status_def)
qed

lemma verified_connect_started:
  "triple (\<lambda>s. idle s \<and> up s) (connect_started e check cd fg net tc) (\<lambda>_. verified)"
proof -
  have telegram: "keeps (\<lambda>s. idle s \<and> up_proved s) (connect_telegram e check tc)"
    by (intro keeps_conj calm_keeps calmness)
  have finish: "triple (\<lambda>s. idle s \<and> up_proved s)
      (do { connect_telegram e check tc; connect_finish e check fg net proved }) (\<lambda>_. verified)" for proved
    by (rule keeps_first [OF telegram verified_connect_finish])
  have dpi: "triple (\<lambda>s. idle s \<and> up_proved s) (connect_local_dpi e check net)
      (\<lambda>r s. idle s \<and> (case r of Inl _ \<Rightarrow> True | Inr _ \<Rightarrow> up_proved s))"
    by (rule triple_conj [OF triple_keeps [OF idle_connect_local_dpi] up_connect_local_dpi])
  have "triple (\<lambda>s. idle s \<and> up_proved s)
      (do { dpi \<leftarrow> connect_local_dpi e check net;
            case dpi of
              Inl r \<Rightarrow> State_Monad.return r
            | Inr proved \<Rightarrow> early (connect_commit e check cd)
                (do { connect_telegram e check tc; connect_finish e check fg net proved }) }) (\<lambda>_. verified)"
    by (rule triple_bind [OF dpi])
      (auto split: sum.splits intro!: triple_return triple_early_idle [OF idle_connect_commit up_connect_commit finish] simp: idle_verified)
  then show ?thesis
    unfolding connect_started_def
    by (intro triple_early_idle [OF idle_interruption up_interruption(1)]
        triple_early_idle [OF idle_connect_network_applied up_connect_network_applied]
        triple_early_idle [OF idle_connect_egress up_connect_egress])
qed

section \<open>The operations\<close>

lemma triple_my_case:
  "(\<And>h. triple (\<lambda>s. P s \<and> fst s = h) (m h) Q) \<Longrightarrow> triple P (do { h \<leftarrow> my id; m h }) Q"
  by (rule triple_my_id)

lemma idle_to_verified: "keeps idle m \<Longrightarrow> triple idle m (\<lambda>_. verified)"
  unfolding keeps_def by (erule triple_weaken) (auto simp: idle_verified)

lemma start_core_up:
  "triple (\<lambda>s. idle s \<and> rh_initialized (fst s)) (start_core e cd) (\<lambda>err s. idle s \<and> (err = [] \<longrightarrow> up s))"
  unfolding start_core_def by (rule triple_pairI) (auto simp: run_simps idle_def up_def)

text \<open>Until Core is started the host stays idle and initialized.\<close>

lemma frames_status_init: "frames status m \<Longrightarrow> keeps (\<lambda>s. rh_initialized (fst s)) m"
  unfolding keeps_def by (rule triple_pairI) (auto simp: status_def dest: framesD)

lemma initialized_change: "(\<And>h. rh_initialized (f h) = rh_initialized h) \<Longrightarrow> keeps (\<lambda>s. rh_initialized (fst s)) (change f)"
  unfolding keeps_def by (rule triple_change) simp

lemma init_roll_back_and_fail [hoare]:
  assumes "keeps (\<lambda>s. rh_initialized (fst s)) reported" and "\<And>h. rh_initialized (f h) = rh_initialized h"
  shows "keeps (\<lambda>s. rh_initialized (fst s)) (roll_back_and_fail e f reported)"
  unfolding roll_back_and_fail_def
  by (intro keeps_bind keeps_if initialized_change assms frames_status_init frames_RollbackRuntime frames_calm calmness)
    (auto simp: rollback_phase_def assms)

lemma init_interruption [hoare]: "keeps (\<lambda>s. rh_initialized (fst s)) (interruption e check cd rb)"
  unfolding interruption_def Let_def
  by (intro keeps_bind keeps_if keeps_returning init_roll_back_and_fail; (rule frames_status_init [OF frames_calm])?;
      auto intro!: calmness simp: clear_effective_def)

lemma init_connect_mark_start [hoare]: "keeps (\<lambda>s. rh_initialized (fst s)) (connect_mark_start e)"
  unfolding connect_mark_start_def
  by (intro keeps_bind keeps_if keeps_returning init_roll_back_and_fail; (rule frames_status_init [OF frames_calm])?;
      auto intro!: calmness effect)

definition ready :: "RuntimeHost \<times> trace \<Rightarrow> bool" where
  "ready s \<longleftrightarrow> idle s \<and> rh_initialized (fst s)"

lemma keeps_ready:
  "keeps idle m \<Longrightarrow> keeps (\<lambda>s. rh_initialized (fst s)) m \<Longrightarrow> keeps ready m"
  unfolding ready_def [abs_def] by (rule keeps_conj)

lemma calm_ready: "calm m \<Longrightarrow> keeps ready m"
  by (intro keeps_ready calm_keeps(1) frames_status_init frames_calm)

lemma ready_early:
  assumes "keeps ready m" and "triple ready k (\<lambda>_. verified)"
  shows "triple ready (early m k) (\<lambda>_. verified)"
  unfolding early_def
  by (rule triple_bind [OF triple_keeps [OF assms(1)]], rule triple_option)
    (auto intro: assms(2) triple_return simp: ready_def idle_verified)

lemma verified_connect_from_ready:
  "triple ready
     (early (connect_prepare e net)
       (early (connect_begin e)
         (early (interruption e check cd True)
           (early (connect_mark_start e)
             (early (interruption e check cd True)
               (do {
                  record_start kAttempted kAttempted;
                  early (interruption e check cd True)
                    (do {
                       start_error \<leftarrow> start_core e cd;
                       if start_error \<noteq> [] then connect_start_failed e check cd
                       else connect_started e check cd fg net tc
                     })
                }))))))
     (\<lambda>_. verified)"
proof -
  have "triple ready (do { start_error \<leftarrow> start_core e cd;
      if start_error \<noteq> [] then connect_start_failed e check cd else connect_started e check cd fg net tc }) (\<lambda>_. verified)"
    unfolding ready_def [abs_def]
    by (rule triple_bind [OF start_core_up], rule triple_if)
      (auto intro: triple_pre [OF idle_to_verified [OF idle_connect_start_failed]] triple_pre [OF verified_connect_started])
  then show ?thesis
    by (intro ready_early keeps_first calm_ready keeps_ready idle_interruption init_interruption idle_connect_mark_start
        init_connect_mark_start calmness)
qed

lemma calm_interruption [calmness]: "calm (interruption e check cd False)"
  unfolding interruption_def Let_def by (auto intro!: calmness)

lemma calm_connect_admission [calmness]: "calm (connect_admission e dg check cd)"
  unfolding connect_admission_def by (auto intro!: calmness)

lemma connect_admission_None:
  "run_state (connect_admission e dg check cd) (h, t) = (None, s) \<Longrightarrow> rh_initialized h \<and> rh_phase h \<noteq> kRunning"
  by (auto simp: connect_admission_def run_simps returning_def split: prod.splits if_splits option.splits)

text \<open>An admitted connect finds an initialized host that is not running.\<close>

lemma connect_admission_ready:
  "triple verified (connect_admission e dg check cd) (\<lambda>r s. verified s \<and> (r = None \<longrightarrow> ready s))"
proof (rule triple_pairI)
  fix h t r h' t'
  assume v: "verified (h, t)" and run: "run_state (connect_admission e dg check cd) (h, t) = (r, (h', t'))"
  have v': "verified (h', t')" using v tripleD [OF triple_keeps [OF calm_keeps(2) [OF calm_connect_admission]] v run] by simp
  moreover have "ready (h', t')" if "r = None"
    using connect_admission_None [of e dg check cd h t] run that calm_run [OF calm_connect_admission run] verified_idle [OF v']
    by (auto simp: ready_def status_def)
  ultimately show "verified (h', t') \<and> (r = None \<longrightarrow> ready (h', t'))" by blast
qed

lemma verified_ConnectImpl [hoare]: "keeps verified (ConnectImpl e dg check cd fg net tc)"
  unfolding keeps_def ConnectImpl_def early_def [of "connect_admission e dg check cd"]
  by (rule triple_bind [OF connect_admission_ready], rule triple_option)
    (auto intro: triple_pre [OF verified_connect_from_ready] triple_return)

lemma verified_change: "(\<And>h t. verified (h, t) \<Longrightarrow> verified (f h, t)) \<Longrightarrow> keeps verified (change f)"
  unfolding keeps_def by (rule triple_change)

lemma triple_calm: "calm m \<Longrightarrow> (\<And>s. P s \<Longrightarrow> verified s) \<Longrightarrow> triple P m (\<lambda>_. verified)"
  by (rule triple_pre [OF triple_keeps [OF calm_keeps(2)]])

lemma triple_idle: "keeps idle m \<Longrightarrow> (\<And>s. P s \<Longrightarrow> idle s) \<Longrightarrow> triple P m (\<lambda>_. verified)"
  by (rule triple_pre [OF idle_to_verified])

lemmas idle_leaf = calm_keeps(1) frames_status_idle [OF frames_RecoverPending] frames_status_idle [OF frames_RollbackRuntime]
  keeps_idle_change

lemma verified_Initialize [hoare]: "keeps verified (Initialize e)"
  unfolding keeps_def Initialize_def refuse_initialize_def
  apply (rule triple_my_case, rule triple_if)
  subgoal by (auto intro!: triple_calm calmness)
  subgoal for h
    by (rule triple_idle, intro keeps_if keeps_bind; (rule idle_leaf)?;
        auto intro!: calmness effect simp: status_def idle_def verified_def)
  done

lemma verified_RecoverOnStartup [hoare]: "keeps verified (RecoverOnStartup e)"
  unfolding RecoverOnStartup_def
  by (intro keeps_bind keeps_if verified_Initialize; (rule calm_keeps(2))?; auto intro!: calmness)

lemma idle_commit_stage: "keeps idle (commit_stage e body rb dg slot p)"
  unfolding commit_stage_def
  by (intro keeps_bind keeps_if keeps_option keeps_prod; (rule idle_leaf)?; auto intro!: calmness simp: status_def idle_def)

lemma idle_stage_bundle: "keeps idle (stage_bundle e body rb dg bundle)"
  unfolding stage_bundle_def Let_def
  by (intro keeps_bind keeps_if keeps_option idle_commit_stage; (rule idle_leaf)?; auto intro!: calmness simp: status_def idle_def)

lemma triple_my_field:
  "(\<And>x. triple (\<lambda>s. P s \<and> f (fst s) = x) (m x) Q) \<Longrightarrow> triple P (State_Monad.bind (my f) m) Q"
  by (fastforce simp: triple_def run_simps split: prod.splits)

lemma verified_StageProfile [hoare]: "keeps verified (StageProfile e body rb)"
proof -
  have stage: "triple verified (do {
         phase \<leftarrow> my rh_phase;
         if phase = kRunning \<or> phase = kRecoveryRequired \<or> \<not> stage_request body
         then refuse_stage e kInvalid ''profile_request_invalid''
         else
           (let profile_digest = ProfileDigest (lib_hash e) body
            in if profile_digest = [] then Fail e kNotReady ''profile_identity_failed''
               else case ParseProfilePayload (drop 2 body) of
                 None \<Rightarrow> refuse_stage e kInvalid ''profile_payload_invalid''
               | Some bundle \<Rightarrow> stage_bundle e body rb profile_digest bundle)
       }) (\<lambda>_. verified)"
    apply (rule triple_my_field, rule triple_if)
    subgoal by (auto intro!: triple_calm calmness)
    subgoal
      by (rule triple_idle, intro keeps_let keeps_if keeps_option idle_stage_bundle; (rule calm_keeps(1))?;
          auto intro!: calmness verified_idle)
    done
  show ?thesis
    unfolding StageProfile_def
    by (intro keeps_bind keeps_if keeps_option verified_Initialize stage [folded keeps_def]; (rule calm_keeps(2))?; auto intro!: calmness)
qed

lemma verified_InvalidateProfile [hoare]: "keeps verified (InvalidateProfile e)"
  unfolding keeps_def InvalidateProfile_def
  apply (rule triple_my_field, rule triple_if)
  subgoal by (auto intro!: triple_calm calmness)
  subgoal
    by (rule triple_idle, intro keeps_if keeps_bind; (rule idle_leaf)?; auto intro!: calmness simp: status_def idle_def verified_def)
  done

lemma verified_Connect [hoare]: "keeps verified (Connect e dg check net tc)"
  unfolding Connect_def by (intro keeps_bind keeps_if verified_ConnectImpl; (rule calm_keeps(2))?; auto intro!: calmness)

lemma verified_ConnectWithIdentity [hoare]: "keeps verified (ConnectWithIdentity e target check net tc)"
  unfolding ConnectWithIdentity_def
  by (intro keeps_bind keeps_if verified_ConnectImpl; (rule calm_keeps(2))?; auto intro!: calmness)

text \<open>The end of a connection leaves an idle host, whatever its rollback reports.\<close>

lemma end_connection_idle:
  "triple P (do { error \<leftarrow> RollbackRuntime e; change (end_connection error); k error }) (\<lambda>_. verified)"
  if "\<And>error. keeps idle (k error)"
  by (rule triple_bind [OF triple_any], rule triple_bind [where R = "\<lambda>_. idle"])
    (auto intro!: triple_change idle_to_verified that simp: idle_def end_connection_def)

lemma verified_Disconnect [hoare]: "keeps verified (Disconnect e x)"
  unfolding keeps_def Disconnect_def
  apply (rule triple_my_case, rule triple_if)
  subgoal by (rule triple_pre [OF triple_keeps [OF explicit_off_keeps(2)]]) simp
  subgoal
    by (rule end_connection_idle, intro keeps_if keeps_bind explicit_off_keeps; (rule idle_leaf)?;
        auto intro!: calmness simp: status_def idle_def)
  done

lemma verified_Shutdown [hoare]: "keeps verified (Shutdown e)"
proof -
  have inner: "keeps verified (do { error \<leftarrow> RollbackRuntime e; change (end_connection error) })"
    unfolding keeps_def
    by (rule triple_bind [OF triple_any], rule triple_change) (simp add: idle_verified idle_def end_connection_def)
  show ?thesis
    unfolding Shutdown_def
    by (intro keeps_bind [OF calm_keeps(2)] keeps_if inner calm_keeps(2) calmness)
qed

lemma verified_CancelProtectedHandoff [hoare]: "keeps verified (CancelProtectedHandoff e)"
  unfolding CancelProtectedHandoff_def
  by (intro keeps_bind keeps_if verified_Disconnect; (rule calm_keeps(2))?; auto intro!: calmness effect)

lemma verified_unvalidate [hoare]: "keeps verified (change (\<lambda>h. h\<lparr>rh_egress_validated := False\<rparr>))"
  by (rule verified_change) (simp add: verified_def)

lemma verified_finish_replacement [hoare]: "keeps verified (finish_replacement e body check)"
  unfolding finish_replacement_def
  by (intro keeps_bind keeps_if verified_Disconnect verified_unvalidate guard_call_keeps(2); (rule calm_keeps(2))?;
      auto intro!: calmness effect)

lemma verified_Replace [hoare]: "keeps verified (ReplaceManagedProfile e body check net tc)"
  unfolding ReplaceManagedProfile_def
  by (intro keeps_bind keeps_if verified_Disconnect verified_StageProfile verified_ConnectImpl verified_finish_replacement;
      (rule calm_keeps(2))?; auto intro!: calmness effect)

text \<open>A recheck and a promotion validate the egress only on a proof under the running Core.\<close>

definition running :: "RuntimeHost \<times> trace \<Rightarrow> bool" where
  "running s \<longleftrightarrow> verified s \<and> up s \<and> rh_phase (fst s) = kRunning"

lemma running_verified: "verified s \<Longrightarrow> rh_phase (fst s) = kRunning \<Longrightarrow> running s"
  by (simp add: running_def verified_def up_def)

lemma running_verifiedD: "running s \<Longrightarrow> verified s"
  by (simp add: running_def)

lemma calm_running: "calm m \<Longrightarrow> keeps (\<lambda>s. running s \<and> (b \<longrightarrow> egress_proved (snd s))) m"
  unfolding keeps_def
  by (rule triple_pairI) (auto dest!: calm_run simp: running_def verified_def up_def status_def)

lemma VerifyEgress_running:
  "triple running (VerifyEgress e periodic) (\<lambda>failure s. running s \<and> (failure = [] \<longrightarrow> egress_proved (snd s)))"
proof -
  have "triple running (VerifyEgress e periodic) (\<lambda>_. running)"
    using calm_running [OF calm_VerifyEgress, of False] by (simp add: keeps_def)
  moreover have "triple running (VerifyEgress e periodic) (\<lambda>failure s. failure = [] \<longrightarrow> egress_proved (snd s))"
    by (rule triple_weaken [OF VerifyEgress_proves]) (simp_all add: running_def)
  ultimately show ?thesis using triple_conj [of running _ "\<lambda>_. running" running] by simp
qed

lemma validated_running:
  "triple (\<lambda>s. running s \<and> egress_proved (snd s)) (change (\<lambda>h. h\<lparr>rh_egress_validated := True, rh_failure := []\<rparr>)) (\<lambda>_. verified)"
  by (rule triple_change) (auto simp: running_def verified_def)

lemma recheck_verdict:
  "triple (\<lambda>s. running s \<and> (failure = [] \<longrightarrow> egress_proved (snd s)))
     (if cancelled then do { change (\<lambda>h. h\<lparr>rh_egress_observation := None\<rparr>); Snapshot e }
      else if failure \<noteq> [] \<or> late then do {
        change (\<lambda>h. h\<lparr>rh_egress_validated := False\<rparr>);
        RecordEvent kRuntimeEgressVerify kFailed;
        Fail e kNotReady reason
      }
      else do {
        RecordEvent kRuntimeEgressVerify kSucceeded;
        change (\<lambda>h. h\<lparr>rh_egress_validated := True, rh_failure := []\<rparr>);
        Snapshot e
      }) (\<lambda>_. verified)"
proof -
  have "triple (\<lambda>s. running s \<and> egress_proved (snd s)) (do {
        RecordEvent kRuntimeEgressVerify kSucceeded;
        change (\<lambda>h. h\<lparr>rh_egress_validated := True, rh_failure := []\<rparr>);
        Snapshot e }) (\<lambda>_. verified)"
    using calm_running [OF calm_RecordEvent, of True]
    by (intro keeps_first triple_bind [OF validated_running] triple_calm calmness) simp_all
  moreover have "keeps verified (do {
        change (\<lambda>h. h\<lparr>rh_egress_validated := False\<rparr>); RecordEvent kRuntimeEgressVerify kFailed; Fail e kNotReady reason })"
    by (intro keeps_bind verified_unvalidate calm_keeps(2) calmness)
  moreover have "calm (do { change (\<lambda>h. h\<lparr>rh_egress_observation := None\<rparr>); Snapshot e })"
    by (intro calmness) (simp_all add: status_def)
  ultimately show ?thesis
    by (auto intro: triple_pre triple_calm simp: keeps_def running_def)
qed

lemma verified_RecheckEgress [hoare]: "keeps verified (RecheckEgress e check)"
proof -
  have admit: "triple (\<lambda>s. verified s \<and> fst s = h)
      (if \<not> CanRecheckEgress h then State_Monad.return True
       else do { r \<leftarrow> interrupted_by e check; State_Monad.return (r = kCancelled) })
      (\<lambda>cancelled s. if cancelled then verified s else running s)" for h
    using calm_running [OF calm_interrupted, of False e check]
    by (cases "CanRecheckEgress h")
      (auto intro!: triple_return triple_pre [OF triple_bind [OF triple_keeps [of running]]] running_verified
        simp: CanRecheckEgress_def dest: running_verifiedD)
  have verdict: "triple running (do {
       RecordEvent kRuntimeEgressVerify kAttempted;
       failure \<leftarrow> VerifyEgress e True;
       interruption \<leftarrow> interrupted_by e check;
       m failure interruption }) (\<lambda>_. verified)"
    if "\<And>failure interruption. triple (\<lambda>s. running s \<and> (failure = [] \<longrightarrow> egress_proved (snd s))) (m failure interruption) (\<lambda>_. verified)"
    for m :: "string \<Rightarrow> OperationInterruption \<Rightarrow> RuntimeResult host_action"
    using calm_running [OF calm_RecordEvent, of False]
    by (intro keeps_first triple_bind [OF VerifyEgress_running] triple_bind [OF triple_keeps [OF calm_running [OF calm_interrupted]]] that)
      simp
  show ?thesis
    unfolding keeps_def RecheckEgress_def
    by (rule triple_my_case, rule triple_bind [OF admit], rule triple_if)
      (auto intro!: triple_calm calmness triple_pre [OF verdict [OF recheck_verdict]])
qed

lemma verified_Promote [hoare]: "keeps verified (PromoteTransportLease e target)"
  unfolding keeps_def PromoteTransportLease_def
proof (rule triple_my_case, rule triple_bind [where R = "\<lambda>confirmed s. verified s \<and> (confirmed = 1 \<longrightarrow> running s \<and> egress_proved (snd s))"])
  fix h
  show "triple (\<lambda>s. verified s \<and> fst s = h)
     (if EncodeTransportLeasePromotion target = [] \<or> \<not> rh_initialized h \<or> rh_phase h \<noteq> kRunning \<or>
         \<not> rh_requires_bound_connect h \<or> rh_effective_digest h \<noteq> tp_profile_digest target
      then State_Monad.return 0 else ask_int e (CoreIo (ConfirmATSLease target)))
     (\<lambda>confirmed s. verified s \<and> (confirmed = 1 \<longrightarrow> running s \<and> egress_proved (snd s)))"
    by (auto intro!: triple_return triple_ask simp: verified_def running_def up_def)
next
  have admit: "triple (\<lambda>s. running s \<and> egress_proved (snd s)) (change (\<lambda>h. h\<lparr>rh_egress_validated := True\<rparr>)) (\<lambda>_. verified)"
    by (rule triple_change) (auto simp: running_def verified_def)
  fix confirmed
  show "triple (\<lambda>s. verified s \<and> (confirmed = 1 \<longrightarrow> running s \<and> egress_proved (snd s)))
     (if confirmed \<noteq> 1 then State_Monad.return (result kNotReady ''transport_lease_handoff_unconfirmed'')
      else do { change (\<lambda>h. h\<lparr>rh_egress_validated := True\<rparr>); Snapshot e }) (\<lambda>_. verified)"
    by (rule triple_if)
      (auto intro!: triple_return triple_pre [OF triple_bind [OF admit triple_calm [OF calm_Snapshot]]])
qed

lemma verified_RevokeTransport [hoare]: "keeps verified (RevokeTransportLease e target)"
  unfolding RevokeTransportLease_def
  by (intro keeps_bind keeps_if verified_unvalidate calm_keeps(2) calmness; simp)

section \<open>Control and maintenance\<close>

lemma status_unstage [simp]: "status (unstage h) = status h" "status (unstage_profile dg h) = status h"
  by (simp_all add: unstage_def unstage_profile_def status_def)

lemma guard_unstage [simp]:
  "rh_has_guard (unstage h) = rh_has_guard h" "rh_guard (unstage h) = rh_guard h"
  "rh_has_guard (unstage_profile dg h) = rh_has_guard h" "rh_guard (unstage_profile dg h) = rh_guard h"
  by (simp_all add: unstage_def unstage_profile_def)

lemma calm_revocation_answer [calmness]: "calm (revocation_answer a dg u n)"
  unfolding revocation_answer_def by (auto intro!: calmness)

lemma calm_RevokeSmartAccessLease [calmness]: "calm (RevokeSmartAccessLease e body)"
  unfolding RevokeSmartAccessLease_def by (auto intro!: calmness)

lemma calm_ReadRestrictions [calmness]: "calm (ReadSmartAccessRestrictions e)"
  unfolding ReadSmartAccessRestrictions_def by (auto intro!: calmness)

lemma calm_ReadLeases [calmness]: "calm (ReadSmartAccessLeases e dg)"
  unfolding ReadSmartAccessLeases_def by (auto intro!: calmness)

lemma calm_Acknowledge [calmness]: "calm (AcknowledgeSmartAccessRestrictions e dg)"
  unfolding AcknowledgeSmartAccessRestrictions_def by (auto intro!: calmness)

lemma calm_qa_stopped [calmness]: "calm (qa_stopped e check)"
  unfolding qa_stopped_def by (auto intro!: calmness)

lemma calm_qa_failure [calmness]: "calm (qa_failure e target)"
  unfolding qa_failure_def by (auto intro!: calmness)

lemma calm_qa_admit [calmness]: "calm (qa_admit e check config)"
  unfolding qa_admit_def by (auto intro!: calmness simp: Let_def status_def split: option.splits)

lemma calm_Configure [calmness]: "calm (ConfigureSmartAccessRuntimeControl e body renewal check)"
  unfolding ConfigureSmartAccessRuntimeControl_def Let_def by (auto intro!: calmness)

lemma calm_Renew [calmness]: "calm (RenewSmartAccessLease e body)"
  unfolding RenewSmartAccessLease_def by (auto intro!: calmness)

lemma calm_RevokePolicy [calmness]: "calm (RevokeSmartAccessPolicy e body)"
  unfolding RevokeSmartAccessPolicy_def by (auto intro!: calmness)

lemma calm_any_telegram_changed [calmness]: "calm (any_telegram_changed e hs)"
  by (induction e hs rule: any_telegram_changed.induct) (auto intro!: calmness)

lemma calm_telegram_changed [calmness]: "calm (telegram_changed e p h)"
  unfolding telegram_changed_def by (auto intro!: calmness)

lemma calm_MaintainTelegram [calmness]: "calm (MaintainTelegramWS e check)"
  unfolding MaintainTelegramWS_def by (auto intro!: calmness split: option.splits Phase.splits)

lemma calm_all_retryable [calmness]: "calm (all_retryable e ss)"
  by (induction ss) (auto intro!: calmness)

lemmas verified_steps = keeps_bind keeps_if keeps_option keeps_prod keeps_early keeps_returning verified_CancelProtectedHandoff

lemma verified_revoke_protected [hoare]: "keeps verified (revoke_protected e)"
  unfolding revoke_protected_def by (intro verified_steps; (rule calm_keeps(2))?; auto intro!: calmness)

lemma verified_RevokeCatalog [hoare]: "keeps verified (RevokeRoutingCatalog e dg)"
  unfolding RevokeRoutingCatalog_def
  by (intro verified_steps verified_revoke_protected; (rule calm_keeps(2))?; auto intro!: calmness)

lemma verified_RevokeCatalogService [hoare]: "keeps verified (RevokeRoutingCatalogService e body)"
  unfolding RevokeRoutingCatalogService_def Let_def
  by (intro verified_steps verified_revoke_protected; (rule calm_keeps(2))?; auto intro!: calmness)

lemma verified_end_dpi_owner [hoare]: "keeps verified (end_dpi_owner e f)"
  unfolding end_dpi_owner_def by (intro verified_steps; (rule calm_keeps(2))?; auto intro!: calmness)

lemma verified_dpi_withdraw_failed [hoare]: "keeps verified (dpi_withdraw_failed e)"
  unfolding dpi_withdraw_failed_def by (intro verified_steps; (rule calm_keeps(2))?; auto intro!: calmness)

lemma verified_replace_strategy [hoare]: "keeps verified (replace_strategy e check p n st)"
  unfolding replace_strategy_def Let_def
  by (intro verified_steps verified_end_dpi_owner verified_dpi_withdraw_failed; (rule calm_keeps(2))?;
      auto intro!: calmness effect simp: status_def status_capture [unfolded status_def, simplified])

lemmas calm_leaves = calm_keeps(2) [OF calm_Snapshot] calm_keeps(2) [OF calm_PreparationCurrent]
  calm_keeps(2) [OF calm_dpi_owner_changed] calm_keeps(2) [OF calm_interrupted] calm_keeps(2) [OF calm_executor_call]
  calm_keeps(2) [OF calm_all_retryable] calm_keeps(2) [OF calm_change] keeps_return keeps_my

lemma verified_MaintainDpi [hoare]: "keeps verified (MaintainWindowsLocalDpi e check)"
  unfolding MaintainWindowsLocalDpi_def Let_def
  by (auto intro!: verified_steps verified_end_dpi_owner verified_dpi_withdraw_failed verified_replace_strategy calm_leaves effect
      simp: status_def split: option.splits Phase.splits bool.splits)

section \<open>Sequences of calls\<close>

lemma verified_host_step: "keeps verified (host_step e call)"
  by (cases call) (auto intro!: hoare intro: calm_keeps(2) calmness)

interpretation verified_host: host_invariant e verified for e
  by unfold_locales (rule verified_host_step)

lemma started_host_idle: "idle (started_host e d root ns core probe secure)"
  by (auto simp: started_host_def NewRuntimeHost_def idle_def Let_def split: prod.splits)

text \<open>
  C3. What the host claims about the connection.  After any sequence of calls to a host that was
  started, with any answers from Core, the system and the interruption callbacks: when the
  egress counts as validated, the host is running and a proof of egress succeeded after the
  last start of Core, which was not stopped since; when the host is running, it is initialized
  and the last start of Core succeeded and Core was not stopped since; and a profile counts as
  effective only while the host is running.
\<close>

theorem host_verified_connection:
  "verified (host_run e calls (started_host e d root ns core probe secure))"
  by (rule verified_host.after_run [OF idle_verified [OF started_host_idle]])

end
