(* ===== verification/Runtime_Handoff.thy ===== *)
theory Runtime_Handoff
  imports Runtime_Verified
begin

text \<open>
  The protected replacement of a profile.  Once the transition guard was started, no step of the
  replacement releases it but the last one, which runs only under a verified connection with the
  new profile.
\<close>

section \<open>Steps that leave the guard in place\<close>

lemma guarded_change: "(\<And>h. TransitionGuardArmed h \<Longrightarrow> TransitionGuardArmed (f h)) \<Longrightarrow> keeps guarded (change f)"
  unfolding keeps_def by (rule triple_change) (simp add: guarded_def)

lemma guarded_ask: "keeps guarded (ask f w op)"
  by (rule frames_guarded) (rule frames_ask)

lemmas guarded_steps = keeps_bind keeps_if keeps_option keeps_prod keeps_let keeps_early keeps_returning guarded_change guarded_ask

lemma guarded_roll_back [hoare]: "keeps guarded (roll_back e sf)"
  unfolding roll_back_def
  by (intro guarded_steps; (rule calm_keeps(5))?; auto intro!: calmness effect simp: status_def TransitionGuardArmed_def)

lemma guarded_RecoverPending [hoare]: "keeps guarded (RecoverPendingRuntime e)"
  unfolding RecoverPendingRuntime_def
  by (intro guarded_steps guarded_roll_back; (rule calm_keeps(5))?; auto intro!: calmness effect simp: status_def TransitionGuardArmed_def)

lemma guarded_RollbackRuntime [hoare]: "keeps guarded (RollbackRuntime e)"
  unfolding RollbackRuntime_def
  by (intro guarded_steps guarded_roll_back; (rule calm_keeps(5))?; auto intro!: calmness effect simp: status_def TransitionGuardArmed_def)

lemma guarded_roll_back_and_fail [hoare]:
  assumes "keeps guarded reported" and "\<And>h. TransitionGuardArmed h \<Longrightarrow> TransitionGuardArmed (f h)"
  shows "keeps guarded (roll_back_and_fail e f reported)"
  unfolding roll_back_and_fail_def
  by (intro guarded_steps guarded_RollbackRuntime assms; (rule calm_keeps(5))?;
      auto intro!: calmness simp: rollback_phase_def TransitionGuardArmed_def)

lemmas guarded_connect = guarded_steps guarded_roll_back_and_fail

lemma guarded_interruption [hoare]: "keeps guarded (interruption e check cd rb)"
  unfolding interruption_def Let_def
  by (intro guarded_connect; (rule calm_keeps(5))?; auto intro!: calmness simp: clear_effective_def TransitionGuardArmed_def)

lemma guarded_roll_back_quietly [hoare]: "keeps guarded (roll_back_quietly e f)"
  unfolding roll_back_quietly_def
  by (intro guarded_connect guarded_RollbackRuntime; (rule calm_keeps(5))?;
      auto intro!: calmness simp: rollback_phase_def TransitionGuardArmed_def)

lemma guarded_connect_local_dpi [hoare]: "keeps guarded (connect_local_dpi e check net)"
  unfolding connect_local_dpi_def Let_def
  by (intro guarded_connect guarded_roll_back_quietly; (rule calm_keeps(5))?;
      auto intro!: calmness effect simp: status_def TransitionGuardArmed_def)

lemma guarded_connect_phases [hoare]:
  "keeps guarded (connect_mark_start e)" "keeps guarded (connect_start_failed e check cd)"
  "keeps guarded (connect_network_applied e)" "keeps guarded (connect_egress e check cd)"
  "keeps guarded (connect_commit e check cd)" "keeps guarded (start_core e cd)"
  unfolding connect_mark_start_def connect_start_failed_def connect_network_applied_def connect_egress_def connect_commit_def
    start_core_def
  by (intro guarded_connect guarded_interruption; (rule calm_keeps(5))?;
      auto intro!: calmness effect simp: clear_effective_def TransitionGuardArmed_def)+

lemma guarded_connect_finish [hoare]: "keeps guarded (connect_finish e check False net proved)"
  unfolding connect_finish_def simp_thms if_False
  by (intro guarded_connect; (rule calm_keeps(5))?; auto intro!: calmness effect simp: status_def TransitionGuardArmed_def)

lemma guarded_connect_started [hoare]: "keeps guarded (connect_started e check cd False net tc)"
  unfolding connect_started_def
  by (intro keeps_early keeps_bind guarded_interruption guarded_connect_phases guarded_connect_local_dpi)
    (auto intro!: keeps_early keeps_bind keeps_return guarded_connect_phases guarded_connect_finish intro: calm_keeps(5) calmness
      split: sum.splits)

lemma guarded_ConnectImpl [hoare]: "keeps guarded (ConnectImpl e dg check cd False net tc)"
  unfolding ConnectImpl_def
  by (intro keeps_early keeps_bind keeps_if guarded_interruption guarded_connect_phases guarded_connect_started calm_keeps(5) calmness)

lemma guarded_Initialize [hoare]: "keeps guarded (Initialize e)"
  unfolding Initialize_def refuse_initialize_def
  by (intro guarded_steps guarded_RecoverPending; (rule calm_keeps(5))?; auto intro!: calmness effect simp: status_def TransitionGuardArmed_def)

lemma guarded_StageProfile [hoare]: "keeps guarded (StageProfile e body rb)"
  unfolding StageProfile_def stage_bundle_def commit_stage_def Let_def
  by (intro guarded_steps guarded_Initialize; (rule calm_keeps(5))?; auto intro!: calmness effect simp: status_def TransitionGuardArmed_def)

lemma guarded_Disconnect [hoare]: "keeps guarded (Disconnect e False)"
  unfolding Disconnect_def
  by (intro guarded_steps guarded_RollbackRuntime; (rule calm_keeps(5))?;
      auto intro!: calmness simp: status_def end_connection_def TransitionGuardArmed_def)

section \<open>The replacement\<close>

text \<open>The new profile runs and its egress counts as validated.\<close>

definition runs_verified :: "string \<Rightarrow> RuntimeHost \<times> trace \<Rightarrow> bool" where
  "runs_verified digest s \<longleftrightarrow>
     rh_phase (fst s) = kRunning \<and> rh_egress_validated (fst s) \<and> rh_effective_digest (fst s) = digest"

lemma frames_runs_verified: "frames status m \<Longrightarrow> keeps (runs_verified digest) m"
  unfolding keeps_def by (rule triple_pairI) (auto simp: runs_verified_def status_def dest: framesD)

lemma finish_verdict:
  "triple (\<lambda>s. guarded s \<and> runs_verified digest s)
     (do {
        guard_error \<leftarrow> guard_call (Finish e);
        if guard_error \<noteq> [] then do {
          change (\<lambda>h. h\<lparr>rh_egress_validated := False\<rparr>);
          Fail e kNotReady ''transition_guard_failed''
        }
        else Snapshot e
      }) (\<lambda>r s. guarded s \<or> rr_status r = kOk \<and> runs_verified digest s)"
proof (rule triple_bind [where R = "\<lambda>err s. (err \<noteq> [] \<longrightarrow> guarded s) \<and> runs_verified digest s"])
  have armed: "triple guarded (guard_call (Finish e)) (\<lambda>err s. err \<noteq> [] \<longrightarrow> guarded s)"
    by (rule triple_pairI) (auto simp: guarded_def TransitionGuardArmed_def run_simps split: prod.splits dest: Finish_released)
  have "frames status (guard_call (Finish e))" by (rule frames_zoom) (simp add: status_def)
  from triple_conj [OF armed triple_keeps [OF frames_runs_verified [OF this]]]
  show "triple (\<lambda>s. guarded s \<and> runs_verified digest s) (guard_call (Finish e))
    (\<lambda>err s. (err \<noteq> [] \<longrightarrow> guarded s) \<and> runs_verified digest s)" .
next
  fix err
  have failed: "keeps guarded (do { change (\<lambda>h. h\<lparr>rh_egress_validated := False\<rparr>); Fail e kNotReady ''transition_guard_failed'' })"
    by (intro keeps_bind guarded_change calm_keeps(5) calmness) (simp add: TransitionGuardArmed_def)
  have finished: "triple (runs_verified digest) (Snapshot e) (\<lambda>r s. rr_status r = kOk \<and> runs_verified digest s)"
    unfolding Snapshot_def
    by (rule triple_bind [OF triple_keeps [OF frames_runs_verified [OF frames_calm]]]) (auto intro: calmness triple_return)
  show "triple (\<lambda>s. (err \<noteq> [] \<longrightarrow> guarded s) \<and> runs_verified digest s)
     (if err \<noteq> [] then do { change (\<lambda>h. h\<lparr>rh_egress_validated := False\<rparr>); Fail e kNotReady ''transition_guard_failed'' }
      else Snapshot e) (\<lambda>r s. guarded s \<or> rr_status r = kOk \<and> runs_verified digest s)"
    by (rule triple_if) (auto intro: triple_weaken [OF triple_keeps [OF failed]] triple_weaken [OF finished])
qed

lemma finish_replacement_closed:
  "triple guarded (finish_replacement e body check)
     (\<lambda>r s. guarded s \<or> rr_status r = kOk \<and> runs_verified (ProfileDigest (lib_hash e) body) s)"
proof -
  let ?d = "ProfileDigest (lib_hash e) body"
  let ?Q = "\<lambda>r s. guarded s \<or> rr_status r = kOk \<and> runs_verified ?d s"
  have closed: "triple P m ?Q" if "keeps guarded m" "\<And>s. P s \<Longrightarrow> guarded s" for P and m :: "RuntimeResult host_action"
    by (rule triple_weaken [OF triple_keeps [OF that(1)]]) (auto simp: that(2))
  have both: "keeps (\<lambda>s. guarded s \<and> runs_verified ?d s) (interrupted_by e check)"
    by (intro keeps_conj calm_keeps(5) frames_runs_verified frames_calm calm_interrupted)
  have cancelled: "keeps guarded (do { cancelled \<leftarrow> Disconnect e False;
      if rr_status cancelled = kOk then Fail e kNotReady ''operation_cancelled'' else State_Monad.return cancelled })"
    by (intro keeps_bind keeps_if guarded_Disconnect calm_keeps(5) calmness)
  show ?thesis
    unfolding finish_replacement_def
    by (rule triple_my_case, rule triple_if, rule closed [OF calm_keeps(5) [OF calm_Fail]], simp,
        rule triple_pre [OF triple_bind [OF triple_keeps [OF both] triple_if [OF closed [OF cancelled] finish_verdict]]])
      (auto simp: runs_verified_def)
qed

text \<open>
  C5. A protected replacement fails closed.  When a host that claims no more than is proved
  replaces its profile behind the transition guard, then afterwards the guard is still in place,
  or may be, or else the replacement reports success, the host runs the new profile, and the
  egress of the running Core was proved.
\<close>

theorem replacement_fails_closed:
  assumes "run_state (ReplaceManagedProfile e body check net tc) (h, t) = (r, (h', t'))"
    and "rh_has_guard h" and "\<not> rh_requires_bound_connect h" and "rh_phase h = kRunning \<or> IsArmed (rh_guard h)"
    and "verified (h, t)"
  shows "TransitionGuardArmed h' \<or>
    (rr_status r = kOk \<and> rh_phase h' = kRunning \<and> rh_effective_digest h' = ProfileDigest (lib_hash e) body \<and>
     rh_egress_validated h' \<and> core_up t' \<and> egress_proved t')"
proof -
  let ?Q = "\<lambda>r s. guarded s \<or> rr_status r = kOk \<and> runs_verified (ProfileDigest (lib_hash e) body) s"
  have closed: "triple guarded m ?Q" if "keeps guarded m" for m :: "RuntimeResult host_action"
    by (rule triple_weaken [OF triple_keeps [OF that]]) simp_all
  have start: "triple (\<lambda>s. fst s = h) (guard_call (Start e)) (\<lambda>_. guarded)"
    by (rule triple_pairI)
      (use assms(2) in \<open>auto simp: guarded_def TransitionGuardArmed_def run_simps split: prod.splits dest: Start_armed\<close>)
  have behind: "triple guarded (do { a \<leftarrow> m; k a }) ?Q" if "keeps guarded m" "\<And>a. triple guarded (k a) ?Q"
    for m :: "'x host_action" and k
    by (rule triple_bind [OF triple_keeps [OF that(1)] that(2)])
  have "triple (\<lambda>s. fst s = h) (ReplaceManagedProfile e body check net tc) ?Q"
    unfolding ReplaceManagedProfile_def
    by (rule triple_my_case, rule triple_if, simp add: triple_def, use assms(2-4) in blast, rule triple_pre [OF triple_bind [OF start]],
        (rule triple_if behind finish_replacement_closed guarded_Disconnect guarded_StageProfile guarded_ConnectImpl
          calm_keeps(5) [OF calm_interrupted] closed [OF calm_keeps(5) [OF calm_Fail]] closed [OF keeps_return])+) simp
  from tripleD [OF this _ assms(1)] have "?Q r (h', t')" by simp
  moreover have "verified (h', t')" using tripleD [OF triple_keeps [OF verified_Replace] assms(5,1)] .
  ultimately show ?thesis by (auto simp: guarded_def runs_verified_def verified_def)
qed

text \<open>A host that found the guard of an interrupted handoff.\<close>

definition guarded_host :: "RuntimeHost \<times> trace" where
  "guarded_host = NewRuntimeHost True True True (NewRecovery ''C:'' True (journal_on (\<lambda>_. None) ''C:'')) ''C:'' True True True
     sample_guard []"

theorem replacement_fails_closed_witness:
  "case run_state (ReplaceManagedProfile happy_env ''{}'' NoCheck None NoCheck) guarded_host of (r, h', t') \<Rightarrow>
     TransitionGuardArmed h' \<or>
     (rr_status r = kOk \<and> rh_phase h' = kRunning \<and> rh_effective_digest h' = ProfileDigest (lib_hash happy_env) ''{}'' \<and>
      rh_egress_validated h' \<and> core_up t' \<and> egress_proved t')"
proof -
  let ?r = "run_state (ReplaceManagedProfile happy_env ''{}'' NoCheck None NoCheck) guarded_host"
  obtain h t where g: "guarded_host = (h, t)" by (cases guarded_host)
  then have h: "rh_has_guard h" "\<not> rh_requires_bound_connect h" "IsArmed (rh_guard h)" "idle (h, t)"
    by (auto simp: guarded_host_def NewRuntimeHost_def Let_def IsArmed_def sample_guard_def idle_def)
  obtain r h' t' where "?r = (r, (h', t'))" by (metis prod.exhaust)
  with replacement_fails_closed [of happy_env "''{}''" NoCheck None NoCheck h t r h' t'] g h idle_verified
  show ?thesis by simp
qed

end
