(* ===== verification/Runtime_Disconnect.thy ===== *)
theory Runtime_Disconnect
  imports Runtime_Handoff
begin

text \<open>
  What a successful disconnect guarantees: Core is stopped, the network is restored, the journal
  asks for nothing, and an explicit disconnect also releases the transition guard.
\<close>

section \<open>Core is stopped\<close>

definition core_down :: "RuntimeHost \<times> trace \<Rightarrow> bool" where
  "core_down s \<longleftrightarrow> \<not> core_up (snd s)"

lemma silent_down: "emits silent_io m \<Longrightarrow> keeps core_down m"
  unfolding keeps_def by (rule triple_pairI) (auto simp: core_down_def core_up_append dest!: emitsD)

lemma calm_down: "calm m \<Longrightarrow> keeps core_down m"
  by (rule silent_down) (simp add: calm_def)

lemma stop_down: "triple P (ask_text e (CoreIo CoreStop)) (\<lambda>_. core_down)"
  by (rule triple_ask) (simp add: core_down_def)

lemma down_roll_back: "triple P (roll_back e sf) (\<lambda>_. core_down)"
  unfolding roll_back_def
  by (rule triple_bind [OF triple_any], rule triple_bind [OF triple_any], rule triple_bind [OF triple_any],
      rule triple_bind [OF stop_down], rule triple_keeps, intro keeps_bind keeps_if; (rule calm_down)?)
    (auto intro!: calmness effect)

lemma down_RollbackRuntime: "triple P (RollbackRuntime e) (\<lambda>_. core_down)"
proof -
  have "triple (\<lambda>_. True) (do { RecordEvent kRuntimeCoreStop kAttempted;
      stop_error \<leftarrow> ask_text e (CoreIo CoreStop);
      (if stop_error = [] then ClearWindowsLocalDpiAfterCoreStopped e else State_Monad.return False);
      RecordEvent kRuntimeCoreStop kFailed;
      State_Monad.return ''recovery_unavailable'' }) (\<lambda>_. core_down)"
    by (rule triple_bind [OF triple_any], rule triple_bind [OF stop_down], rule triple_keeps,
        intro keeps_bind keeps_if calm_down calmness)
  note unavailable = this
  show ?thesis
    unfolding RollbackRuntime_def
    by (rule triple_bind [OF triple_any], rule triple_bind [OF triple_any], rule triple_bind [OF triple_any],
        rule triple_bind [OF triple_any], rule triple_if) (simp_all add: down_roll_back unavailable)
qed

section \<open>A snapshot touches neither the journal nor the guard\<close>

definition owned :: "RuntimeHost \<Rightarrow> DurableRuntimeRecovery \<times> bool \<times> Guard" where
  "owned h = (rh_recovery h, rh_has_guard h, rh_guard h)"

lemma frames_observe_service [effect]: "frames owned (observe_service e n s r)"
  unfolding observe_service_def by (auto intro!: effect simp: owned_def)

lemma frames_observe_services [effect]: "frames owned (observe_services e n ss r)"
  by (induction ss arbitrary: r) (auto intro!: effect simp: owned_def)

lemma frames_ReadObservation [effect]: "frames owned (ReadLocalDpiRuntimeObservation e)"
  unfolding ReadLocalDpiRuntimeObservation_def by (auto intro!: effect simp: owned_def split: bool.splits Phase.splits)

lemma frames_SnapshotBody [effect]: "frames owned (SnapshotBody e p)"
  unfolding SnapshotBody_def Let_def core_version_def core_text_def by (auto intro!: effect simp: owned_def)

lemma frames_Snapshot [effect]: "frames owned (Snapshot e)"
  unfolding Snapshot_def by (auto intro!: effect simp: owned_def)

section \<open>Disconnect\<close>

text \<open>Everything that a connection changed is undone.\<close>

definition undone :: "disk \<Rightarrow> bool \<Rightarrow> string \<Rightarrow> RuntimeHost \<times> trace \<Rightarrow> bool" where
  "undone d b root s \<longleftrightarrow> journaled d b root s \<and> clean s \<and> core_down s"

lemma keeps_undone:
  "keeps (journaled d b root) m \<Longrightarrow> frames rh_recovery m \<Longrightarrow> emits silent_io m \<Longrightarrow> keeps (undone d b root) m"
  unfolding undone_def by (intro keeps_conj clean_frames silent_down)

lemma undone_meaning:
  assumes "undone d b root (h, t)"
  shows "\<not> core_up t \<and> \<not> network_dirty b t \<and> \<not> needs_recovery (disk_after d t (AppendPath root kJournalName))"
proof -
  let ?p = "AppendPath root kJournalName"
  have inv: "rec_inv d b ?p (rh_recovery h, t)" and "\<not> rc_invalid (rh_recovery h)" and "rc_stage (rh_recovery h) = kClean"
    and down: "\<not> core_up t"
    using assms by (auto simp: undone_def host_inv_def clean_def RequiresRecovery_def core_down_def)
  then have "\<not> network_dirty b t" and "\<not> needs_recovery (disk_after d t ?p)"
    using rec_inv_clean [OF inv] by (auto simp: rec_inv_def in_sync_def)
  with down show ?thesis by simp
qed

definition released :: "bool \<Rightarrow> RuntimeHost \<times> trace \<Rightarrow> bool" where
  "released x s \<longleftrightarrow> (x \<longrightarrow> \<not> TransitionGuardArmed (fst s))"

definition at_rest :: "RuntimeHost \<times> trace \<Rightarrow> bool" where
  "at_rest s \<longleftrightarrow> (rh_phase (fst s) = kConfigStaged \<or> rh_phase (fst s) = kInitialized) \<and>
     \<not> rh_egress_validated (fst s) \<and> rh_effective_digest (fst s) = []"

lemma frames_at_rest: "frames status m \<Longrightarrow> keeps at_rest m"
  unfolding keeps_def by (rule triple_pairI) (auto simp: at_rest_def status_def dest: framesD)

lemma frames_released: "frames owned m \<Longrightarrow> keeps (released x) m"
  unfolding keeps_def by (rule triple_pairI) (auto simp: released_def owned_def TransitionGuardArmed_def dest: framesD)

lemma owned_recovery: "frames owned m \<Longrightarrow> frames rh_recovery m"
  by (simp add: frames_def owned_def)

text \<open>A result other than a failure.\<close>

definition success :: "(RuntimeHost \<times> trace \<Rightarrow> bool) \<Rightarrow> RuntimeResult \<Rightarrow> RuntimeHost \<times> trace \<Rightarrow> bool" where
  "success Q r s \<longleftrightarrow> (rr_status r = kOk \<longrightarrow> Q s)"

lemma Fail_success: "status' \<noteq> kOk \<Longrightarrow> triple P (Fail e status' f) (success Q)"
  unfolding Fail_def
  by (intro triple_bind [OF triple_any] triple_return) (simp add: success_def)

lemma keeps_success: "keeps Q m \<Longrightarrow> triple Q m (success Q)"
  unfolding keeps_def by (erule triple_weaken) (auto simp: success_def)

lemma explicit_off_success:
  "triple (\<lambda>s. undone d b root s \<and> at_rest s) (explicit_off e x) (success (\<lambda>s. undone d b root s \<and> at_rest s \<and> released x s))"
proof -
  let ?R = "\<lambda>s. undone d b root s \<and> at_rest s"
  let ?off = "\<lambda>guard. if x \<and> guard then guard_call (ExplicitOff e) else State_Monad.return []"
  have off: "keeps ?R (?off guard)" for guard
    by (intro keeps_conj keeps_undone frames_at_rest keeps_if keeps_guard_call hoare effect emits_mono [OF _ guard_silent])
      (auto simp: status_def intro!: effect)
  have armed: "triple (\<lambda>s. guard = rh_has_guard (fst s)) (?off guard) (\<lambda>err s. err = [] \<longrightarrow> released x s)" for guard
    by (rule triple_pairI)
      (auto simp: released_def TransitionGuardArmed_def run_simps split: prod.splits if_splits dest: ExplicitOff_released)
  have snap: "keeps (\<lambda>s. undone d b root s \<and> at_rest s \<and> released x s) (Snapshot e)"
    using calm_Snapshot [of e]
    by (intro keeps_conj keeps_undone frames_at_rest keeps_Snapshot frames_released owned_recovery frames_Snapshot)
      (simp_all add: calm_def)
  have off': "triple (\<lambda>s. ?R s \<and> guard = rh_has_guard (fst s)) (?off guard) (\<lambda>err s. ?R s \<and> (err = [] \<longrightarrow> released x s))" for guard
    by (rule triple_conj [OF triple_keeps [OF off] armed])
  show ?thesis
    unfolding explicit_off_def
    by (rule triple_my_field, rule triple_pre [OF triple_bind [OF off' triple_if]], rule Fail_success, simp,
        rule triple_pre [OF keeps_success [OF snap]]) auto
qed

lemma Disconnect_success:
  assumes "root \<noteq> []"
  shows "triple (\<lambda>s. journaled d b root s \<and> rh_initialized (fst s) \<and>
      (rh_phase (fst s) = kRunning \<or> rh_phase (fst s) = kRecoveryRequired)) (Disconnect e x)
    (success (\<lambda>s. undone d b root s \<and> at_rest s \<and> released x s))"
proof -
  have rollback: "triple (journaled d b root) (RollbackRuntime e)
      (\<lambda>err s. (journaled d b root s \<and> (err = [] \<longrightarrow> clean s)) \<and> core_down s)"
    using triple_conj [OF RollbackRuntime_triple [OF assms] down_RollbackRuntime [of "\<lambda>_. True"]] by simp
  have ended: "triple (\<lambda>s. (journaled d b root s \<and> (err = [] \<longrightarrow> clean s)) \<and> core_down s) (change (end_connection err))
      (\<lambda>_ s. err = [] \<longrightarrow> undone d b root s \<and> at_rest s)" for err
    by (rule triple_change) (auto simp: undone_def at_rest_def clean_def core_down_def end_connection_def host_inv_def)
  have failed: "triple P (do { RecordEvent kRuntimeRecoveryRequired kFailed; Fail e kNotReady err }) (success Q)" for P Q err
    by (rule triple_bind [OF triple_any], rule Fail_success) simp
  have calm: "keeps (\<lambda>s. undone d b root s \<and> at_rest s) (change (\<lambda>h. h\<lparr>rh_failure := []\<rparr>))"
    unfolding keeps_def
    by (rule triple_change) (auto simp: undone_def at_rest_def clean_def core_down_def host_inv_def)
  show ?thesis
    unfolding Disconnect_def
    apply (rule triple_my_case, rule triple_if)
    subgoal by (auto simp: triple_def)
    subgoal
      apply (rule triple_pre [OF triple_bind [OF rollback triple_bind [OF ended triple_if]]])
      subgoal by (rule failed)
      subgoal by (rule triple_pre [OF keeps_first [OF calm explicit_off_success]]) simp
      subgoal by simp
      done
    done
qed

end
