(* ===== verification/Runtime_Liveness.thy ===== *)
theory Runtime_Liveness
  imports Runtime_Disconnect
begin

text \<open>
  That a connect reaches a verified connection when nothing stands in its way.  Every action
  ends, so a triple that names the result is a statement of total correctness.
\<close>

section \<open>Known results\<close>

definition at :: "'c \<Rightarrow> 'c \<times> trace \<Rightarrow> bool" where
  "at c s \<longleftrightarrow> fst s = c"

definition yields :: "'a \<Rightarrow> 'c \<Rightarrow> 'a \<Rightarrow> 'c \<times> trace \<Rightarrow> bool" where
  "yields a c b s \<longleftrightarrow> b = a \<and> fst s = c"

named_theorems steps \<open>results of actions at a known state\<close>

lemma yields_bind: "triple (at c) m (yields a c') \<Longrightarrow> triple (at c') (f a) Q \<Longrightarrow> triple (at c) (State_Monad.bind m f) Q"
  by (rule triple_bind, assumption) (auto simp: yields_def at_def triple_def split: prod.splits)

lemma yields_early: "triple (at c) m (yields None c') \<Longrightarrow> triple (at c') k Q \<Longrightarrow> triple (at c) (early m k) Q"
  unfolding early_def by (erule yields_bind) simp

lemma yields_return [steps]: "triple (at c) (State_Monad.return a) (yields a c)"
  by (rule triple_return) (simp add: at_def yields_def)

lemma yields_my [steps]: "triple (at c) (my f) (yields (f c) c)"
  by (rule triple_my) (auto simp: at_def yields_def)

lemma yields_change [steps]: "triple (at c) (change f) (yields () (f c))"
  by (rule triple_change) (simp add: at_def yields_def)

lemma yields_ask [steps]: "(\<And>t. f t op = a) \<Longrightarrow> triple (at c) (ask f w op) (yields a c)"
  by (rule triple_ask) (simp add: at_def yields_def)

lemma yields_ask_text: "(\<And>t. env_text e t op = a) \<Longrightarrow> triple (at c) (ask_text e op) (yields a c)"
  by (rule yields_ask)

lemma yields_tell [steps]: "triple (at c) (tell op) (yields () c)"
  by (rule triple_tell) (simp add: at_def yields_def)

lemma yields_zoom:
  "triple (at (g c)) m (yields a k) \<Longrightarrow> triple (at c) (zoom g p m) (yields a (p k c))"
  by (auto simp: at_def yields_def triple_def run_simps split: prod.splits)

lemma yields_recovery:
  "triple (at (rh_recovery h)) m (yields a r) \<Longrightarrow> triple (at h) (recovery_call m) (yields a (h\<lparr>rh_recovery := r\<rparr>))"
  by (rule yields_zoom [where g = rh_recovery])

lemma yields_event [steps]: "triple (at c) (RecordEvent ev out) (yields () c)"
  unfolding RecordEvent_def by (auto intro!: yields_bind [OF yields_my] triple_if yields_return yields_tell)

section \<open>A cooperative environment\<close>

definition cooperative :: "env \<Rightarrow> bool" where
  "cooperative e \<longleftrightarrow>
     (\<forall>t op. env_bool e t (FileIo op)) \<and>
     (\<forall>t p c. env_int e t (FileIo (WriteFile p c)) = int (length c)) \<and>
     (\<forall>t p. env_text e t (CoreIo (CoreSecureFile p)) = []) \<and>
     (\<forall>t. env_text e t (NetIo CaptureNetwork) = []) \<and>
     (\<exists>snap. snap \<noteq> [] \<and> length snap \<le> kMaximumNetworkSnapshotSize \<and> (\<forall>t. env_text e t (NetIo CapturedSnapshot) = snap)) \<and>
     (\<exists>bytes. length bytes = 16 \<and> (\<forall>t. env_bytes e t GenRandom = Some bytes)) \<and>
     (\<forall>t p m. env_text e t (CoreIo (CoreStart p m)) = []) \<and>
     (\<forall>t p r. env_text e t (ProbeIo (ProbeVerify p r)) = []) \<and>
     (\<forall>t. env_text e t (CoreIo CoreStop) = []) \<and>
     (\<forall>t s. env_text e t (NetIo (RestoreNetwork s)) = [])"

lemma yields_WriteAtomic:
  "cooperative e \<Longrightarrow> triple (at c) (WriteAtomicFile e target pending content) (yields True c)"
  unfolding WriteAtomicFile_def
  by (auto intro!: triple_pairI simp: at_def yields_def cooperative_def run_simps)

definition usable :: "DurableRuntimeRecovery \<Rightarrow> bool" where
  "usable r \<longleftrightarrow> \<not> rc_invalid r \<and> rc_journal_path r \<noteq> [] \<and> rc_pending_path r \<noteq> [] \<and> IsHexGeneration (rc_generation r)"

lemma yields_Record [steps]:
  "cooperative e \<Longrightarrow> usable r \<Longrightarrow> IsForwardTransition (rc_stage r) st \<Longrightarrow> triple (at r) (Record e st) (yields [] (r\<lparr>rc_stage := st\<rparr>))"
  unfolding Record_def Write_def
  by (auto simp: usable_def intro!: yields_bind [OF yields_my] yields_bind [OF yields_change] yields_bind [OF yields_WriteAtomic] yields_return)

lemma yields_Begin:
  assumes "cooperative e" and "usable r" and "rc_stage r = kClean" and "rc_network_state r"
  obtains r' where "triple (at r) (Begin e) (yields [] r')" and "usable r'" and "rc_stage r' = kSnapshotted"
    and "rc_network_state r'" and "rc_network_snapshot r' \<noteq> []" and "length (rc_network_snapshot r') \<le> kMaximumNetworkSnapshotSize"
proof -
  from assms(1) obtain snap bytes where s: "snap \<noteq> []" "length snap \<le> kMaximumNetworkSnapshotSize"
    "\<And>t. env_text e t (NetIo CapturedSnapshot) = snap" and b: "length bytes = 16" "\<And>t. env_bytes e t GenRandom = Some bytes"
    and c: "\<And>t. env_text e t (NetIo CaptureNetwork) = []"
    unfolding cooperative_def by auto
  let ?r = "r\<lparr>rc_generation := hex_string bytes, rc_network_snapshot := snap\<rparr>"
  have g: "IsHexGeneration (hex_string bytes)" using b(1) by (simp add: IsHexGeneration_iff hex_string_lower)
  have n: "hex_string bytes \<noteq> []" using b(1) by (cases bytes) (auto simp: hex_string_def hex_byte_def)
  have u: "usable ?r" using assms(2) g by (simp add: usable_def)
  have gen: "triple (at r) (NewGeneration e) (yields (hex_string bytes) r)"
    unfolding NewGeneration_def by (rule yields_bind [OF yields_ask [where f = "env_bytes e" and op = GenRandom, OF b(2)]]) (simp add: yields_return)
  have "triple (at r) (Begin e) (yields [] (?r\<lparr>rc_stage := kSnapshotted\<rparr>))"
    unfolding Begin_def
    using assms s(1,2) n yields_Record [OF assms(1) u, of kSnapshotted]
    by (auto simp: usable_def intro!: yields_bind [OF yields_my] yields_bind [OF gen] yields_bind [OF yields_ask_text [OF c]]
        yields_bind [OF yields_ask_text [OF s(3)]] yields_bind [OF yields_change])
  with u s(1,2) assms(4) show ?thesis by (intro that [of "?r\<lparr>rc_stage := kSnapshotted\<rparr>"]) (auto simp: usable_def)
qed

lemma yields_WriteProfile [steps]: "cooperative e \<Longrightarrow> triple (at h) (WriteProfileAtomically e p) (yields [] h)"
  unfolding WriteProfileAtomically_def Let_def
  by (auto intro!: triple_pairI simp: at_def yields_def cooperative_def run_simps)

section \<open>Ordinary connections\<close>

text \<open>An executor without a child, a job, a driver handle or a holder.\<close>

definition quiescent :: "WindowsLocalDpiExecutor \<Rightarrow> bool" where
  "quiescent x \<longleftrightarrow> \<not> ex_job x \<and> \<not> ex_process x \<and> \<not> ex_driver_guard x \<and> ex_holders x = []"

lemma quiescent_stop:
  "triple (\<lambda>s. quiescent (fst s)) (StopAfterCoreStopped e) (\<lambda>ok s. ok \<and> quiescent (fst s))"
  "triple (\<lambda>s. quiescent (fst s)) (StopDpi e) (\<lambda>ok s. ok \<and> quiescent (fst s))"
  unfolding StopDpi_def StopAfterCoreStopped_def StopWindowsLocalDpiChild_def CloseWindowsLocalDpiDriver_def
  by (rule triple_pairI; auto simp: run_simps quiescent_def clear_executor_def split: if_splits)+

text \<open>An ordinary connection, with the journal at a given stage.\<close>

definition ordinary :: "RecoveryStage \<Rightarrow> RuntimeHost \<times> trace \<Rightarrow> bool" where
  "ordinary st s \<longleftrightarrow> (let h = fst s; r = rh_recovery h in
     rh_has_recovery h \<and> rh_telegram h = None \<and> rh_preparation h = None \<and> quiescent (rh_executor h) \<and>
     usable r \<and> rc_stage r = st \<and> rc_network_state r \<and> rc_network_snapshot r \<noteq> [] \<and>
     length (rc_network_snapshot r) \<le> kMaximumNetworkSnapshotSize)"

lemma ordinary_observation: "triple (ordinary st) (ReadLocalDpiRuntimeObservation e) (\<lambda>_. ordinary st)"
  unfolding ReadLocalDpiRuntimeObservation_def
  by (rule triple_pairI) (auto simp: run_simps ordinary_def Let_def split: Phase.splits bool.splits)

lemma ordinary_frames: "frames id m \<Longrightarrow> triple (ordinary st) m (\<lambda>_. ordinary st)"
  by (rule triple_pairI) (auto simp: ordinary_def dest: framesD)

lemma ordinary_Snapshot: "triple (ordinary st) (Snapshot e) (\<lambda>_. ordinary st)"
  unfolding Snapshot_def SnapshotBody_def Let_def
  by (rule triple_bind, rule triple_bind [where R = "\<lambda>_. ordinary st"])
    (auto intro!: ordinary_observation ordinary_frames effect simp: core_version_def core_text_def)

section \<open>The phases of a connect\<close>

text \<open>A host that has staged an ordinary profile and is ready to connect it.\<close>

definition connectable :: "env \<Rightarrow> string \<Rightarrow> RuntimeHost \<Rightarrow> bool" where
  "connectable e dg h \<longleftrightarrow>
     rh_initialized h \<and> rh_profile_staged h \<and> IsProfileDigest dg \<and> rh_staged_digest h = dg \<and>
     rh_phase h = kConfigStaged \<and> rh_has_recovery h \<and> rh_egress_probe h \<and> \<not> rh_requires_bound_connect h \<and>
     \<not> (rh_dpi_requested h \<and> rh_dpi_ready h) \<and> \<not> (rh_telegram_requested h \<and> rh_telegram_ready h) \<and>
     \<not> TransitionGuardArmed h \<and> fst (ReadWindowsSmartAccessProbeTarget e (rh_runtime_config h) False) = None \<and>
     quiescent (rh_executor h) \<and>
     usable (rh_recovery h) \<and> rc_stage (rh_recovery h) = kClean \<and> rc_network_state (rh_recovery h)"

lemma yields_interruption [steps]: "triple (at h) (interruption e NoCheck [] rb) (yields None h)"
  unfolding interruption_def by (auto intro!: triple_pairI simp: at_def yields_def run_simps)

lemma yields_admission [steps]: "connectable e dg h \<Longrightarrow> triple (at h) (connect_admission e dg NoCheck []) (yields None h)"
  unfolding connect_admission_def
  by (rule yields_bind [OF yields_my])
    (auto simp: connectable_def intro!: yields_bind [OF yields_interruption] yields_bind [OF yields_return] yields_return)

definition prepared_host :: "RuntimeHost \<Rightarrow> RuntimeHost" where
  "prepared_host h = h\<lparr>rh_egress_observation := None, rh_preparation := None, rh_dpi_failure_reported := False,
     rh_qa_config := [], rh_qa_result := None, rh_telegram := None, rh_telegram_holders := []\<rparr>"

lemma yields_prepare_telegram:
  "\<not> (rh_telegram_requested h \<and> rh_telegram_ready h) \<Longrightarrow>
   triple (at h) (prepare_telegram e net config) (yields config (h\<lparr>rh_telegram := None, rh_telegram_holders := []\<rparr>))"
  unfolding prepare_telegram_def
  by (rule yields_bind [OF yields_change], rule yields_bind [OF yields_my]) (auto simp: yields_return split: bool.splits)

lemma yields_prepare_dpi:
  "\<not> (rh_dpi_requested h \<and> rh_dpi_ready h) \<Longrightarrow> triple (at h) (prepare_local_dpi e net config) (yields (Inr config) h)"
  unfolding prepare_local_dpi_def by (rule yields_bind [OF yields_my]) (auto simp: yields_return split: bool.splits)

lemma yields_write_prepared:
  "rh_telegram h = None \<Longrightarrow> rh_preparation h = None \<Longrightarrow> triple (at h) (write_prepared e config) (yields None h)"
  unfolding write_prepared_def by (rule yields_bind [OF yields_my]) (simp add: yields_return)

lemma yields_prepare [steps]:
  assumes "cooperative e" and "connectable e dg h"
  shows "triple (at h) (connect_prepare e net) (yields None (prepared_host h))"
proof -
  let ?h = "h\<lparr>rh_egress_observation := None, rh_preparation := None, rh_dpi_failure_reported := False,
       rh_qa_config := [], rh_qa_result := None\<rparr>"
  have t: "triple (at ?h) (prepare_telegram e net config) (yields config (prepared_host h))" for config
    using yields_prepare_telegram [of ?h e net config] assms(2) by (simp add: connectable_def prepared_host_def)
  have d: "triple (at (prepared_host h)) (prepare_local_dpi e net config) (yields (Inr config) (prepared_host h))" for config
    using yields_prepare_dpi [of "prepared_host h" e net config] assms(2) by (simp add: connectable_def prepared_host_def)
  have w: "triple (at (prepared_host h)) (write_prepared e config) (yields None (prepared_host h))" for config
    by (rule yields_write_prepared) (simp_all add: prepared_host_def)
  show ?thesis
    unfolding connect_prepare_def
    by (rule yields_bind [OF yields_change], rule yields_bind [OF yields_my], rule yields_bind [OF yields_WriteProfile [OF assms(1)]])
      (simp, rule yields_bind [OF yields_my], rule yields_bind [OF t], rule yields_bind [OF d], simp add: w)
qed

lemma yields_begin:
  assumes "cooperative e" and "usable (rh_recovery h)" and "rc_stage (rh_recovery h) = kClean" and "rc_network_state (rh_recovery h)"
  obtains r where "triple (at h) (connect_begin e) (yields None (h\<lparr>rh_recovery := r\<rparr>))"
    and "usable r" and "rc_stage r = kSnapshotted" and "rc_network_state r" and "rc_network_snapshot r \<noteq> []"
    and "length (rc_network_snapshot r) \<le> kMaximumNetworkSnapshotSize"
proof -
  obtain r where r: "triple (at (rh_recovery h)) (Begin e) (yields [] r)" "usable r" "rc_stage r = kSnapshotted"
    "rc_network_state r" "rc_network_snapshot r \<noteq> []" "length (rc_network_snapshot r) \<le> kMaximumNetworkSnapshotSize"
    by (rule yields_Begin [OF assms])
  have "triple (at h) (connect_begin e) (yields None (h\<lparr>rh_recovery := r\<rparr>))"
    unfolding connect_begin_def
    by (rule yields_bind [OF yields_event], rule yields_bind [OF yields_recovery [OF r(1)]])
      (simp, rule yields_bind [OF yields_event], rule yields_return)
  then show ?thesis using r(2-6) by (rule that)
qed

text \<open>A record of the journal through the host.\<close>

lemma yields_host_record:
  assumes "cooperative e" and "usable (rh_recovery h)" and "IsForwardTransition (rc_stage (rh_recovery h)) st"
  shows "triple (at h) (recovery_call (Record e st)) (yields [] (h\<lparr>rh_recovery := (rh_recovery h)\<lparr>rc_stage := st\<rparr>\<rparr>))"
  by (rule yields_recovery [OF yields_Record [OF assms]])

lemma yields_start:
  assumes "cooperative e"
  shows "triple (at h) (start_core e []) (yields [] h)"
  unfolding start_core_def
  by (rule yields_bind [OF yields_my]) (use assms in \<open>auto simp: cooperative_def intro!: yields_ask\<close>)

lemma yields_verify:
  assumes "cooperative e" and "rh_egress_probe h" and "fst (ReadWindowsSmartAccessProbeTarget e (rh_runtime_config h) False) = None"
    and "rh_egress_observation h = None"
  shows "triple (at h) (VerifyEgress e False) (yields [] h)"
proof -
  obtain reserve where t: "ReadWindowsSmartAccessProbeTarget e (rh_runtime_config h) False = (None, reserve)"
    using assms(3) by (metis prod.exhaust_sel)
  have p: "\<And>t r. env_text e t (ProbeIo (ProbeVerify False r)) = []" using assms(1) by (simp add: cooperative_def)
  have "h\<lparr>rh_egress_observation := None\<rparr> = h" using assms(4) by simp
  then show ?thesis
    unfolding VerifyEgress_def
    using t assms(2)
    by (intro yields_bind [OF yields_change] yields_bind [OF yields_my]) (auto intro!: yields_bind [OF yields_ask_text [OF p]] yields_return)
qed

lemma yields_record_start [steps]: "triple (at h) (record_start x y) (yields () h)"
  unfolding record_start_def by (intro yields_bind [OF yields_event] yields_event)

text \<open>The host with its journal advanced to a stage.\<close>

definition journal_at :: "RecoveryStage \<Rightarrow> RuntimeHost \<Rightarrow> RuntimeHost" where
  "journal_at st h = h\<lparr>rh_recovery := (rh_recovery h)\<lparr>rc_stage := st\<rparr>\<rparr>"

lemma journal_at_simps [simp]:
  "rc_stage (rh_recovery (journal_at st h)) = st" "usable (rh_recovery (journal_at st h)) = usable (rh_recovery h)"
  "journal_at st (journal_at st' h) = journal_at st h"
  "rh_egress_probe (journal_at st h) = rh_egress_probe h" "rh_runtime_config (journal_at st h) = rh_runtime_config h"
  "rh_egress_observation (journal_at st h) = rh_egress_observation h"
  "rh_requires_bound_connect (journal_at st h) = rh_requires_bound_connect h"
  "rh_preparation (journal_at st h) = rh_preparation h" "rh_telegram (journal_at st h) = rh_telegram h"
  "rh_staged_digest (journal_at st h) = rh_staged_digest h" "TransitionGuardArmed (journal_at st h) = TransitionGuardArmed h"
  by (simp_all add: journal_at_def usable_def TransitionGuardArmed_def)

lemma yields_journal:
  "cooperative e \<Longrightarrow> usable (rh_recovery h) \<Longrightarrow> IsForwardTransition (rc_stage (rh_recovery h)) st \<Longrightarrow>
   triple (at h) (recovery_call (Record e st)) (yields [] (journal_at st h))"
  unfolding journal_at_def by (rule yields_host_record)

lemma yields_mark_start:
  "cooperative e \<Longrightarrow> usable (rh_recovery h) \<Longrightarrow> rc_stage (rh_recovery h) = kSnapshotted \<Longrightarrow>
   triple (at h) (connect_mark_start e) (yields None (journal_at kCoreStarted h))"
  unfolding connect_mark_start_def by (rule yields_bind [OF yields_journal]) (simp_all add: yields_return)

lemma yields_network_applied:
  "cooperative e \<Longrightarrow> usable (rh_recovery h) \<Longrightarrow> rc_stage (rh_recovery h) = kCoreStarted \<Longrightarrow>
   triple (at h) (connect_network_applied e) (yields None (journal_at kNetworkApplied h))"
  unfolding connect_network_applied_def
  by (rule yields_bind [OF yields_journal]) (simp_all, rule yields_bind [OF yields_record_start], rule yields_return)

lemma yields_egress:
  assumes "cooperative e" and "rh_egress_probe h" and "fst (ReadWindowsSmartAccessProbeTarget e (rh_runtime_config h) False) = None"
    and "rh_egress_observation h = None" and "\<not> rh_requires_bound_connect h"
  shows "triple (at h) (connect_egress e NoCheck []) (yields None h)"
  unfolding connect_egress_def
  by (rule yields_bind [OF yields_my], simp add: assms(5), rule yields_bind [OF yields_event],
      rule yields_bind [OF yields_verify [OF assms(1-4)]], rule yields_bind [OF yields_interruption])
    (simp, rule yields_bind [OF yields_event], rule yields_return)

lemma yields_commit:
  "cooperative e \<Longrightarrow> usable (rh_recovery h) \<Longrightarrow> rc_stage (rh_recovery h) = kNetworkApplied \<Longrightarrow>
   triple (at h) (connect_commit e NoCheck []) (yields None (journal_at kCommitted h))"
  unfolding connect_commit_def
  by (rule yields_bind [OF yields_event], rule yields_bind [OF yields_journal], simp_all, rule yields_bind [OF yields_interruption], simp,
      rule yields_bind [OF yields_journal], simp_all add: yields_interruption)

lemma yields_connect_telegram: "rh_telegram h = None \<Longrightarrow> triple (at h) (connect_telegram e check tc) (yields () h)"
  unfolding connect_telegram_def by (rule yields_bind [OF yields_my]) (simp add: yields_return)

lemma yields_connect_local_dpi: "rh_preparation h = None \<Longrightarrow> triple (at h) (connect_local_dpi e check net) (yields (Inr None) h)"
  unfolding connect_local_dpi_def by (rule yields_bind [OF yields_my]) (simp add: yields_return)

lemma Snapshot_ok: "triple (\<lambda>s. Q (status (fst s))) (Snapshot e) (\<lambda>r s. rr_status r = kOk \<and> Q (status (fst s)))"
  using framesD [OF frames_calm [OF calm_SnapshotBody]]
  unfolding Snapshot_def by (intro triple_pairI) (auto simp: run_simps split: prod.splits)

text \<open>The goal of a connect: a verified connection with the staged profile that can be disconnected again.\<close>

definition landed :: "string \<Rightarrow> RuntimeHost \<times> trace \<Rightarrow> bool" where
  "landed dg s \<longleftrightarrow> runs_verified dg s \<and> rh_initialized (fst s) \<and> ordinary kCommitted s"

lemma Snapshot_landed: "triple (landed dg) (Snapshot e) (\<lambda>r s. rr_status r = kOk \<and> landed dg s)"
proof -
  have "triple (landed dg) (Snapshot e) (\<lambda>r s. (rr_status r = kOk \<and> runs_verified dg s \<and> rh_initialized (fst s)) \<and> ordinary kCommitted s)"
    by (rule triple_weaken [OF triple_conj [OF
          Snapshot_ok [of "\<lambda>st. case st of (p, v, d, i, _) \<Rightarrow> p = kRunning \<and> v \<and> d = dg \<and> i"] ordinary_Snapshot]])
      (auto simp: landed_def runs_verified_def status_def)
  then show ?thesis by (rule triple_weaken) (auto simp: landed_def)
qed

lemma finish_landed:
  assumes "\<not> rh_requires_bound_connect h" and "\<not> TransitionGuardArmed h" and "rh_initialized h" and "ordinary kCommitted (h, [])"
  shows "triple (at h) (connect_finish e NoCheck fg net None) (\<lambda>r s. rr_status r = kOk \<and> landed (rh_staged_digest h) s)"
proof -
  let ?h = "h\<lparr>rh_effective_digest := rh_staged_digest h, rh_egress_validated := \<not> rh_requires_bound_connect h,
       rh_phase := kRunning, rh_failure := []\<rparr>"
  have g: "\<not> TransitionGuardArmed ?h" using assms(2) by (simp add: TransitionGuardArmed_def)
  have "triple (at ?h) (Snapshot e) (\<lambda>r s. rr_status r = kOk \<and> landed (rh_staged_digest h) s)"
    by (rule triple_pre [OF Snapshot_landed])
      (use assms(1,3,4) in \<open>auto simp: at_def landed_def runs_verified_def ordinary_def Let_def\<close>)
  then show ?thesis
    unfolding connect_finish_def
    by (intro yields_bind [OF yields_change] yields_bind [OF yields_event] yields_bind [OF yields_my])
      (use g in \<open>auto intro!: yields_bind [OF yields_return]\<close>)
qed

lemma connect_lands:
  assumes "cooperative e" and "connectable e dg h"
  shows "triple (at h) (Connect e dg NoCheck net tc) (\<lambda>r s. rr_status r = kOk \<and> landed dg s)"
proof -
  have c: "\<not> rh_requires_bound_connect h" "rh_egress_probe h" "\<not> TransitionGuardArmed h" "rh_staged_digest h = dg"
    "fst (ReadWindowsSmartAccessProbeTarget e (rh_runtime_config h) False) = None"
    "usable (rh_recovery h)" "rc_stage (rh_recovery h) = kClean" "rc_network_state (rh_recovery h)"
    "rh_initialized h" "rh_has_recovery h" "quiescent (rh_executor h)"
    using assms(2) by (auto simp: connectable_def)
  let ?h = "prepared_host h"
  obtain r where r: "triple (at ?h) (connect_begin e) (yields None (?h\<lparr>rh_recovery := r\<rparr>))" "usable r" "rc_stage r = kSnapshotted"
    "rc_network_state r" "rc_network_snapshot r \<noteq> []" "length (rc_network_snapshot r) \<le> kMaximumNetworkSnapshotSize"
    using yields_begin [OF assms(1), of ?h] c(6-8) by (auto simp: prepared_host_def)
  define k where "k = ?h\<lparr>rh_recovery := r\<rparr>"
  have k: "usable (rh_recovery k)" "rc_stage (rh_recovery k) = kSnapshotted" "rh_egress_probe k" "rh_egress_observation k = None"
    "fst (ReadWindowsSmartAccessProbeTarget e (rh_runtime_config k) False) = None" "\<not> rh_requires_bound_connect k"
    "rh_preparation k = None" "rh_telegram k = None" "rh_staged_digest k = dg" "\<not> TransitionGuardArmed k"
    using r c by (auto simp: k_def prepared_host_def TransitionGuardArmed_def)
  have l: "rh_initialized (journal_at kCommitted k)" "ordinary kCommitted (journal_at kCommitted k, [])"
    using r c by (auto simp: k_def prepared_host_def journal_at_def ordinary_def Let_def usable_def)
  have started: "triple (at (journal_at kCoreStarted k)) (connect_started e NoCheck [] True net tc)
      (\<lambda>r s. rr_status r = kOk \<and> landed dg s)"
    unfolding connect_started_def
    by (rule yields_early [OF yields_interruption], rule yields_early [OF yields_network_applied [OF assms(1)]], simp add: k, simp add: k,
        rule yields_early [OF yields_interruption], rule yields_early [OF yields_egress [OF assms(1)]],
        simp add: k, simp add: k, simp add: k, simp add: k,
        rule yields_bind [OF yields_connect_local_dpi], simp add: k, simp, rule yields_early [OF yields_commit [OF assms(1)]],
        simp add: k, simp, rule yields_bind [OF yields_connect_telegram], simp add: k, rule triple_weaken [OF finish_landed])
      (simp_all add: k l, simp only: journal_at_simps k)
  have "triple (at h) (ConnectImpl e dg NoCheck [] True net tc) (\<lambda>r s. rr_status r = kOk \<and> landed dg s)"
    unfolding ConnectImpl_def
    by (rule yields_early [OF yields_admission [OF assms(2)]], rule yields_early [OF yields_prepare [OF assms]],
        rule yields_early [OF r(1) [folded k_def]], rule yields_early [OF yields_interruption],
        rule yields_early [OF yields_mark_start [OF assms(1) k(1,2)]], rule yields_early [OF yields_interruption],
        rule yields_bind [OF yields_record_start], rule yields_early [OF yields_interruption],
        rule yields_bind [OF yields_start [OF assms(1)]]) (simp add: started)
  then show ?thesis unfolding Connect_def by (rule_tac yields_bind [OF yields_my]) (simp add: c)
qed


section \<open>Disconnect\<close>

lemma ordinary_telegram: "triple (ordinary st) (WithdrawTelegramWS e s) (\<lambda>_. ordinary st)"
  unfolding WithdrawTelegramWS_def
  by (rule triple_pairI) (auto simp: run_simps ordinary_def Let_def)

lemma ordinary_executor:
  assumes "triple (\<lambda>s. quiescent (fst s)) m (\<lambda>ok s. ok \<and> quiescent (fst s))"
  shows "triple (ordinary st) (executor_call m) (\<lambda>ok s. ok \<and> ordinary st s)"
  by (rule triple_pairI) (use assms in \<open>force simp: triple_def run_simps ordinary_def Let_def split: prod.splits\<close>)

lemma ordinary_stop_executor: "triple (ordinary st) (stop_executor e) (\<lambda>_. ordinary st)"
  unfolding stop_executor_def
  by (rule triple_bind [OF triple_my [where Q = "\<lambda>_. ordinary st"]], simp, rule triple_if)
    (auto intro: triple_weaken [OF ordinary_executor [OF quiescent_stop(2)]] triple_return)

lemma ordinary_event: "triple (ordinary st) (RecordEvent ev out) (\<lambda>_. ordinary st)"
  unfolding RecordEvent_def by (rule triple_pairI) (auto simp: run_simps ordinary_def Let_def split: if_splits)

lemma ordinary_change:
  "(\<And>h t. ordinary st (h, t) \<Longrightarrow> ordinary st (f h, t)) \<Longrightarrow> triple (ordinary st) (change f) (\<lambda>_. ordinary st)"
  by (rule triple_change)

lemma ordinary_write: "cooperative e \<Longrightarrow> triple (ordinary st) (WriteProfileAtomically e p) (\<lambda>err s. err = [] \<and> ordinary st s)"
  unfolding WriteProfileAtomically_def Let_def
  by (rule triple_pairI) (auto simp: run_simps ordinary_def Let_def cooperative_def)

lemma ordinary_clear:
  assumes "cooperative e"
  shows "triple (ordinary st) (ClearWindowsLocalDpiAfterCoreStopped e) (\<lambda>ok s. ok \<and> ordinary st s)"
proof -
  have written: "triple (ordinary st) (do { error \<leftarrow> WriteProfileAtomically e c;
      (if error \<noteq> [] then change (\<lambda>h. h\<lparr>rh_profile_staged := False\<rparr>) else State_Monad.return ());
      State_Monad.return True }) (\<lambda>ok s. ok \<and> ordinary st s)" for c
    by (rule triple_bind [OF ordinary_write [OF assms]], rule triple_bind [where R = "\<lambda>_. ordinary st"])
      (auto intro!: triple_if triple_return simp: triple_def split: prod.splits)
  have stopped: "triple (ordinary st) (if core then executor_call (StopAfterCoreStopped e) else State_Monad.return True)
      (\<lambda>ok s. ok \<and> ordinary st s)" for core
    by (auto intro: ordinary_executor [OF quiescent_stop(1)] triple_return)
  show ?thesis
    unfolding ClearWindowsLocalDpiAfterCoreStopped_def
    apply (rule triple_bind [OF triple_my [where Q = "\<lambda>_. ordinary st"]], simp, rule triple_bind [OF stopped], rule triple_if)
    subgoal by (auto simp: triple_def)
    subgoal
      apply (rule triple_bind [where R = "\<lambda>_. ordinary st"], rule triple_change, simp add: ordinary_def Let_def)
      apply (rule triple_bind [OF triple_my [where Q = "\<lambda>_. ordinary st"]], simp, rule triple_if)
      apply (rule written)
      apply (rule triple_return, simp)
      done
    done
qed

text \<open>The steps of the journal in a rollback.\<close>

lemma ordinary_recovery:
  assumes "\<And>r. usable r \<Longrightarrow> rc_stage r = st \<Longrightarrow> rc_network_state r \<Longrightarrow> rc_network_snapshot r \<noteq> [] \<Longrightarrow>
      length (rc_network_snapshot r) \<le> kMaximumNetworkSnapshotSize \<Longrightarrow> triple (at r) m (yields [] (r\<lparr>rc_stage := st'\<rparr>))"
  shows "triple (ordinary st) (recovery_call m) (\<lambda>err s. err = [] \<and> ordinary st' s)"
proof (rule triple_pairI)
  fix h t err h' t'
  assume o: "ordinary st (h, t)" and run: "run_state (recovery_call m) (h, t) = (err, (h', t'))"
  then have "triple (at h) (recovery_call m) (yields [] (h\<lparr>rh_recovery := (rh_recovery h)\<lparr>rc_stage := st'\<rparr>\<rparr>))"
    by (intro yields_recovery assms) (auto simp: ordinary_def Let_def)
  from tripleD [OF this _ run] have "err = [] \<and> h' = h\<lparr>rh_recovery := (rh_recovery h)\<lparr>rc_stage := st'\<rparr>\<rparr>"
    by (simp add: at_def yields_def)
  with o show "err = [] \<and> ordinary st' (h', t')" by (simp add: ordinary_def Let_def usable_def)
qed

lemma ordinary_begin_rollback:
  "cooperative e \<Longrightarrow> triple (ordinary kCommitted) (recovery_call (BeginRollback e)) (\<lambda>err s. err = [] \<and> ordinary kRollingBack s)"
  by (rule ordinary_recovery)
    (auto simp: BeginRollback_def usable_def intro!: yields_bind [OF yields_my] yields_Record)

lemma ordinary_restore:
  assumes "cooperative e"
  shows "triple (ordinary kRollingBack) (recovery_call (RestoreNetworkState e)) (\<lambda>err s. err = [] \<and> ordinary kRollingBack s)"
proof (rule ordinary_recovery)
  fix r assume "usable r" "rc_stage r = kRollingBack" "rc_network_state r" "rc_network_snapshot r \<noteq> []"
    "length (rc_network_snapshot r) \<le> kMaximumNetworkSnapshotSize"
  then have "r\<lparr>rc_stage := kRollingBack\<rparr> = r" and "triple (at r) (RestoreNetworkState e) (yields [] r)"
    unfolding RestoreNetworkState_def
    using assms by (auto simp: usable_def cooperative_def intro!: yields_bind [OF yields_my] yields_ask_text)
  then show "triple (at r) (RestoreNetworkState e) (yields [] (r\<lparr>rc_stage := kRollingBack\<rparr>))" by simp
qed

lemma complete_rollback:
  assumes "cooperative e"
  shows "triple (ordinary kRollingBack) (recovery_call (CompleteRollback e)) (\<lambda>err s. err = [])"
proof (rule triple_pairI)
  fix h t err h' t'
  assume o: "ordinary kRollingBack (h, t)" and run: "run_state (recovery_call (CompleteRollback e)) (h, t) = (err, (h', t'))"
  let ?r = "rh_recovery h"
  have u: "usable ?r" "rc_stage ?r = kRollingBack" using o by (auto simp: ordinary_def Let_def)
  then have rec: "triple (at ?r) (Record e kRecovered) (yields [] (?r\<lparr>rc_stage := kRecovered\<rparr>))"
    and fin: "triple (at (?r\<lparr>rc_stage := kRecovered, rc_network_snapshot := []\<rparr>)) (Record e kClean)
      (yields [] (?r\<lparr>rc_network_snapshot := [], rc_stage := kClean\<rparr>))"
    using yields_Record [OF assms, of ?r kRecovered]
      yields_Record [OF assms, of "?r\<lparr>rc_stage := kRecovered, rc_network_snapshot := []\<rparr>" kClean]
    by (auto simp: usable_def)
  have "triple (at ?r) (CompleteRollback e) (yields [] (?r\<lparr>rc_network_snapshot := [], rc_stage := kClean\<rparr>))"
    unfolding CompleteRollback_def FinishRecovery_def
    using u by (intro yields_bind [OF yields_my])
      (auto simp: usable_def intro!: yields_bind [OF rec] yields_bind [OF yields_my] yields_bind [OF yields_change] yields_bind [OF fin] yields_return)
  from tripleD [OF yields_recovery [OF this] _ run] show "err = []" by (simp add: at_def yields_def)
qed

lemma known_bind: "triple P m (\<lambda>a s. a = v \<and> R s) \<Longrightarrow> triple R (k v) Q \<Longrightarrow> triple P (State_Monad.bind m k) Q"
  by (rule triple_bind, assumption) (auto simp: triple_def split: prod.splits)

lemma true_bind: "triple P m (\<lambda>a s. a \<and> R s) \<Longrightarrow> triple R (k True) Q \<Longrightarrow> triple P (State_Monad.bind m k) Q"
  by (rule known_bind [where v = True]) simp_all

lemma rollback_succeeds:
  assumes "cooperative e"
  shows "triple (ordinary kCommitted) (RollbackRuntime e) (\<lambda>err s. err = [])"
proof -
  have stop: "triple (ordinary st) (ask_text e (CoreIo CoreStop)) (\<lambda>err s. err = [] \<and> ordinary st s)" for st
    using assms by (intro triple_ask) (auto simp: cooperative_def ordinary_def Let_def)
  have recovery: "triple (ordinary st) (my rh_has_recovery) (\<lambda>has s. has \<and> ordinary st s)" for st
    by (rule triple_my) (auto simp: ordinary_def Let_def)
  have rolled: "triple (ordinary kCommitted) (roll_back e ''core_stop_failed'') (\<lambda>err s. err = [])"
    unfolding roll_back_def
    by (rule triple_bind [OF ordinary_event], rule known_bind [OF ordinary_begin_rollback [OF assms]], rule triple_bind [OF ordinary_event],
        rule known_bind [OF stop], simp, rule true_bind [OF ordinary_clear [OF assms]], rule triple_bind [OF ordinary_event], simp,
        rule triple_bind [OF ordinary_event], rule triple_bind [OF ordinary_event], rule known_bind [OF ordinary_restore [OF assms]], simp,
        rule triple_bind [OF ordinary_event], rule triple_bind [OF ordinary_event], rule triple_bind [OF complete_rollback [OF assms]],
        rule triple_bind [where R = "\<lambda>_ _. err = []" for err])
      (auto simp: triple_def split: prod.splits)
  show ?thesis
    unfolding RollbackRuntime_def
    by (rule triple_bind [OF ordinary_observation], rule triple_bind [OF ordinary_telegram], rule triple_bind [OF ordinary_stop_executor],
        rule true_bind [OF recovery], simp add: rolled)
qed

lemma triple_false: "triple (\<lambda>_. False) m Q"
  by (simp add: triple_def)

text \<open>A rollback does not replace the guard object.\<close>

lemma frames_has_guard [effect]:
  "frames rh_has_guard (RecordEvent ev out)" "frames rh_has_guard (WriteProfileAtomically e p)"
  "frames rh_has_guard (stop_executor e)" "frames rh_has_guard (ClearWindowsLocalDpiAfterCoreStopped e)"
  unfolding RecordEvent_def WriteProfileAtomically_def stop_executor_def ClearWindowsLocalDpiAfterCoreStopped_def Let_def
  by (auto intro!: effect)

lemma frames_withdraw [effect]: "frames f (withdraw_telegram e sel hs kept)"
  by (induction e sel hs kept rule: withdraw_telegram.induct) (auto intro!: effect)

lemma frames_has_guard_rollback: "frames rh_has_guard (RollbackRuntime e)"
proof -
  have "frames rh_has_guard (ReadLocalDpiRuntimeObservation e)"
    using frames_ReadObservation [of e] by (simp add: frames_def owned_def)
  moreover have "frames rh_has_guard (WithdrawTelegramWS e [])"
    unfolding WithdrawTelegramWS_def Let_def by (auto intro!: effect)
  moreover have "frames rh_has_guard (roll_back e sf)" for sf
    unfolding roll_back_def by (auto intro!: effect)
  ultimately show ?thesis unfolding RollbackRuntime_def by (auto intro!: effect)
qed

lemma Disconnect_ok:
  assumes "cooperative e" and "ordinary kCommitted (h, t)" and "rh_initialized h" and "rh_phase h = kRunning"
    and "\<not> (x \<and> rh_has_guard h)"
  shows "rr_status (fst (run_state (Disconnect e x) (h, t))) = kOk"
proof -
  have rollback: "triple (\<lambda>s. ordinary kCommitted s \<and> fst s = h) (RollbackRuntime e) (\<lambda>err s. err = [] \<and> rh_has_guard (fst s) = rh_has_guard h)"
  proof -
    have "triple (\<lambda>s. fst s = h) (RollbackRuntime e) (\<lambda>err s. rh_has_guard (fst s) = rh_has_guard h)"
      by (rule triple_pairI) (auto dest: framesD [OF frames_has_guard_rollback])
    from triple_conj [OF rollback_succeeds [OF assms(1)] this] show ?thesis by simp
  qed
  have ok: "triple P (Snapshot e) (\<lambda>r s. rr_status r = kOk)" for P
    unfolding Snapshot_def by (rule triple_bind [OF triple_any]) (rule triple_return, simp)
  have off: "triple (\<lambda>s. rh_has_guard (fst s) = rh_has_guard h) (explicit_off e x) (\<lambda>r s. rr_status r = kOk)"
    unfolding explicit_off_def
    by (rule triple_my_field, rule known_bind [where v = "[]" and R = "\<lambda>_. True"])
      (use assms(5) in \<open>auto intro!: triple_return ok simp: triple_false\<close>)
  have kept: "triple (\<lambda>s. rh_has_guard (fst s) = rh_has_guard h) (change f) (\<lambda>_ s. rh_has_guard (fst s) = rh_has_guard h)"
    if "\<And>g. rh_has_guard (f g) = rh_has_guard g" for f
    by (rule triple_change) (simp add: that)
  have "triple (\<lambda>s. ordinary kCommitted s \<and> fst s = h) (Disconnect e x) (\<lambda>r s. rr_status r = kOk)"
    unfolding Disconnect_def
    by (rule triple_my_case, rule triple_if, use assms(3,4) in \<open>force simp: triple_def\<close>,
        rule triple_pre [OF known_bind [OF rollback]], rule triple_bind [OF kept], simp add: end_connection_def, simp,
        rule triple_bind [OF kept], simp, rule off) auto
  from tripleD [OF this, of "(h, t)"] assms(2) show ?thesis by (metis fst_conv prod.collapse)
qed



section \<open>A connection\<close>

text \<open>A host on an empty disk that has staged the profile with the given digest.\<close>

definition sample_host :: RuntimeHost where
  "sample_host = (fst (NewRuntimeHost True True True sample_recovery ''C:'' True True False sample_guard []))
     \<lparr>rh_initialized := True, rh_profile_staged := True, rh_staged_digest := hex_string (replicate 32 1),
       rh_runtime_config := ''{}'', rh_phase := kConfigStaged\<rparr>"

lemma happy_cooperative: "cooperative happy_env"
  by (simp add: cooperative_def happy_env_def kMaximumNetworkSnapshotSize_def)

lemma sample_usable: "usable sample_recovery" "rc_stage sample_recovery = kClean" "rc_network_state sample_recovery"
proof -
  have "is_lower_hex CHR ''0''" by (simp add: is_lower_hex_def)
  then show "usable sample_recovery" "rc_stage sample_recovery = kClean" "rc_network_state sample_recovery"
    by (simp_all add: usable_def sample_recovery_def NewRecovery_def Load_def journal_on_def AppendPath_def kJournalName_def
        kPendingJournalName_def zero_generation_def IsHexGeneration_iff list_all_iff)
qed

lemma sample_connectable: "connectable happy_env (hex_string (replicate 32 1)) sample_host"
proof -
  have "IsProfileDigest (hex_string (replicate 32 1))"
    by (simp add: IsProfileDigest_def hex_string_lower)
  then show ?thesis
    using sample_usable
    by (simp add: connectable_def sample_host_def NewRuntimeHost_def TransitionGuardArmed_def quiescent_def NewExecutor_def
        ReadWindowsSmartAccessProbeTarget_def ParseObject_def ObjectField_def happy_env_def Let_def)
qed


text \<open>The host after that connect.\<close>

definition sample_connected :: "RuntimeHost \<times> trace" where
  "sample_connected = snd (run_state (Connect happy_env (hex_string (replicate 32 1)) NoCheck None NoCheck) (sample_host, []))"

lemma sample_connected_facts:
  "landed (hex_string (replicate 32 1)) sample_connected" "journaled (\<lambda>_. None) False ''C:'' sample_connected"
  "verified sample_connected"
proof -
  let ?m = "Connect happy_env (hex_string (replicate 32 1)) NoCheck None NoCheck"
  obtain r s where run: "run_state ?m (sample_host, []) = (r, s)" by (metis prod.exhaust)
  then have s: "sample_connected = s" by (simp add: sample_connected_def)
  show "landed (hex_string (replicate 32 1)) sample_connected"
    using tripleD [OF connect_lands [OF happy_cooperative sample_connectable] _ run] by (simp add: s at_def)
  have "rec_inv (\<lambda>_. None) False (AppendPath ''C:'' kJournalName) (sample_recovery, [])"
    unfolding sample_recovery_def by (rule NewRecovery_inv) simp_all
  then have "journaled (\<lambda>_. None) False ''C:'' (sample_host, [])"
    by (simp add: host_inv_def sample_host_def NewRuntimeHost_def Let_def AppendPath_def kJournalName_def)
  from tripleD [OF triple_keeps [OF keeps_Connect] this run] show "journaled (\<lambda>_. None) False ''C:'' sample_connected" by (simp add: s)
  have "idle (sample_host, [])" by (simp add: idle_def sample_host_def NewRuntimeHost_def Let_def)
  from tripleD [OF triple_keeps [OF verified_Connect] idle_verified [OF this] run] show "verified sample_connected" by (simp add: s)
qed

lemma sample_disconnect_ok:
  "ordinary kCommitted (fst sample_connected, snd sample_connected)" "rh_initialized (fst sample_connected)"
  "rh_phase (fst sample_connected) = kRunning"
  using sample_connected_facts(1) by (simp_all add: landed_def runs_verified_def)



end
