(* ===== verification/Runtime_Phases.thy ===== *)
theory Runtime_Phases
  imports Runtime_Verified
begin

text \<open>
  The lifecycle that the host promises its clients, as a machine on the phases alone, and the
  proof that every call of the host is a step of it.
\<close>

section \<open>The machine\<close>

text \<open>The calls that may end a connection.\<close>

fun ends :: "host_call \<Rightarrow> bool" where
  "ends (CallDisconnect x) = True"
| "ends CallCancelProtectedHandoff = True"
| "ends (CallRevokeRoutingCatalog dg) = True"
| "ends (CallRevokeRoutingCatalogService body) = True"
| "ends (CallMaintainWindowsLocalDpi check) = True"
| "ends CallShutdown = True"
| "ends c = False"

fun initializes :: "host_call \<Rightarrow> bool" where
  "initializes CallInitialize = True"
| "initializes CallRecoverOnStartup = True"
| "initializes (CallStageProfile body bound) = True"
| "initializes c = False"

fun connects :: "host_call \<Rightarrow> bool" where
  "connects (CallConnect dg check net tc) = True"
| "connects (CallConnectWithIdentity target check net tc) = True"
| "connects c = False"

inductive phase_step :: "host_call \<Rightarrow> Phase \<Rightarrow> Phase \<Rightarrow> bool" where
  stay: "phase_step c p p"
| initialize: "initializes c \<Longrightarrow> p \<noteq> kRunning \<Longrightarrow> q \<in> {kInitialized, kRecoveryRequired} \<Longrightarrow> phase_step c p q"
| stage: "p \<noteq> kRunning \<Longrightarrow> phase_step (CallStageProfile body bound) p kConfigStaged"
| invalidate: "p \<noteq> kRunning \<Longrightarrow> p \<noteq> kRecoveryRequired \<Longrightarrow> q \<in> {kInitialized, kArtifactReady} \<Longrightarrow>
    phase_step CallInvalidateProfile p q"
| connect: "connects c \<Longrightarrow> p \<noteq> kRunning \<Longrightarrow> p \<noteq> kRecoveryRequired \<Longrightarrow>
    q \<in> {kRunning, kConfigStaged, kRecoveryRequired} \<Longrightarrow> phase_step c p q"
| finish: "ends c \<Longrightarrow> p \<in> {kRunning, kRecoveryRequired} \<Longrightarrow>
    q \<in> {kConfigStaged, kInitialized, kRecoveryRequired} \<Longrightarrow> phase_step c p q"
| replace: "q \<in> {kRunning, kConfigStaged, kInitialized, kRecoveryRequired} \<Longrightarrow>
    phase_step (CallReplaceManagedProfile body check net tc) p q"

inductive_simps phase_step_iff: "phase_step c p q"

section \<open>Sets of phases\<close>

definition within :: "Phase set \<Rightarrow> RuntimeHost \<times> trace \<Rightarrow> bool" where
  "within S s \<longleftrightarrow> rh_phase (fst s) \<in> S"

lemma within_frames: "frames status m \<Longrightarrow> keeps (within S) m"
  unfolding keeps_def by (rule triple_pairI) (auto simp: within_def status_def dest: framesD)

lemma within_calm: "calm m \<Longrightarrow> keeps (within S) m"
  by (rule within_frames [OF frames_calm])

lemma within_change: "(\<And>h. rh_phase h \<in> S \<Longrightarrow> rh_phase (f h) \<in> S) \<Longrightarrow> keeps (within S) (change f)"
  unfolding keeps_def by (rule triple_change) (simp add: within_def)

text \<open>A fact about the state before a call that does not mention the state.\<close>

lemma triple_fact: "(\<And>s. P s \<Longrightarrow> C) \<Longrightarrow> triple P m (\<lambda>_ _. C)"
  by (auto simp: triple_def split: prod.splits)

lemma triple_absurd: "(\<And>s. P s \<Longrightarrow> False) \<Longrightarrow> triple P m Q"
  by (auto simp: triple_def)

lemma phase_unstage [simp]: "rh_phase (unstage h) = rh_phase h"
  by (simp add: unstage_def)

lemma within_guard: "keeps (within S) (guard_call m)"
  by (rule within_frames, rule frames_zoom) (simp add: status_def)

lemma within_explicit_off: "keeps (within S) (explicit_off e x)"
  unfolding explicit_off_def by (intro keeps_bind keeps_if within_guard within_calm calmness)

lemma within_RollbackRuntime: "keeps (within S) (RollbackRuntime e)"
  by (rule within_frames [OF frames_RollbackRuntime])

lemmas within_steps = keeps_bind keeps_if keeps_option keeps_prod keeps_let keeps_early keeps_returning
  within_RollbackRuntime within_guard within_explicit_off within_change

lemmas within_leaves = within_calm [OF calm_Snapshot] within_calm [OF calm_PreparationCurrent]
  within_calm [OF calm_dpi_owner_changed] within_calm [OF calm_interrupted] within_calm [OF calm_executor_call]
  within_calm [OF calm_all_retryable] keeps_return keeps_my

text \<open>A set of phases that the steps of a connect do not leave.\<close>

locale connect_range =
  fixes S :: "Phase set"
  assumes range: "{kRunning, kConfigStaged, kRecoveryRequired} \<subseteq> S"
begin

lemma roll_back_and_fail:
  assumes "keeps (within S) reported" and "\<And>h. rh_phase (f h) = rh_phase h"
  shows "keeps (within S) (roll_back_and_fail e f reported)"
  unfolding roll_back_and_fail_def
  by (intro within_steps assms; (rule within_calm)?; (intro calmness)?) (use range assms(2) in \<open>auto simp: rollback_phase_def\<close>)

lemmas phase_steps = within_steps roll_back_and_fail

lemma interruption: "keeps (within S) (interruption e check cd rb)"
  unfolding interruption_def Let_def
  by (intro phase_steps; (rule within_calm)?; auto intro!: calmness simp: clear_effective_def)

lemma roll_back_quietly: "keeps (within S) (roll_back_quietly e f)"
  unfolding roll_back_quietly_def
  by (intro phase_steps; (rule within_calm)?; (intro calmness)?) (use range in \<open>auto simp: rollback_phase_def\<close>)

lemma connect_local_dpi: "keeps (within S) (connect_local_dpi e check net)"
  unfolding connect_local_dpi_def Let_def
  by (intro phase_steps roll_back_quietly; (rule within_calm)?; auto intro!: calmness effect simp: status_def)

lemma connect_mark_start: "keeps (within S) (connect_mark_start e)"
  unfolding connect_mark_start_def
  by (intro phase_steps interruption; (rule within_calm)?; auto intro!: calmness effect simp: clear_effective_def status_def)

lemma connect_start_failed: "keeps (within S) (connect_start_failed e check cd)"
  unfolding connect_start_failed_def
  by (intro phase_steps interruption; (rule within_calm)?; auto intro!: calmness effect simp: clear_effective_def status_def)

lemma connect_network_applied: "keeps (within S) (connect_network_applied e)"
  unfolding connect_network_applied_def
  by (intro phase_steps interruption; (rule within_calm)?; auto intro!: calmness effect simp: clear_effective_def status_def)

lemma connect_egress: "keeps (within S) (connect_egress e check cd)"
  unfolding connect_egress_def
  by (intro phase_steps interruption; (rule within_calm)?; auto intro!: calmness effect simp: clear_effective_def status_def)

lemma connect_commit: "keeps (within S) (connect_commit e check cd)"
  unfolding connect_commit_def
  by (intro phase_steps interruption; (rule within_calm)?; auto intro!: calmness effect simp: clear_effective_def status_def)

lemma start_core: "keeps (within S) (start_core e cd)"
  unfolding start_core_def
  by (intro within_frames) (auto intro!: effect)

lemmas connect_phases = connect_mark_start connect_start_failed connect_network_applied connect_egress connect_commit start_core

lemma connect_finish: "keeps (within S) (connect_finish e check fg net proved)"
  unfolding connect_finish_def
  by (intro phase_steps; (rule within_calm)?; (use range in \<open>auto intro!: calmness effect simp: status_def\<close>)?)

lemma connect_started: "keeps (within S) (connect_started e check cd fg net tc)"
  unfolding connect_started_def
  by (intro keeps_early keeps_bind interruption connect_phases connect_local_dpi)
    (auto intro!: keeps_early keeps_bind keeps_return connect_phases connect_finish intro: within_calm calmness split: sum.splits)

lemma ConnectImpl: "keeps (within S) (ConnectImpl e dg check cd fg net tc)"
  unfolding ConnectImpl_def
  by (intro keeps_early keeps_bind keeps_if interruption connect_phases connect_started within_calm calmness)

end

text \<open>A set of phases that the end of a connection does not leave.\<close>

locale finish_range =
  fixes S :: "Phase set"
  assumes finish_range: "S \<inter> {kRunning, kRecoveryRequired} \<noteq> {} \<Longrightarrow> {kConfigStaged, kInitialized, kRecoveryRequired} \<subseteq> S"
begin

lemma end_connection: "S \<inter> {kRunning, kRecoveryRequired} \<noteq> {} \<Longrightarrow> rh_phase (end_connection error h) \<in> S"
  using finish_range by (auto simp: end_connection_def)

lemma Disconnect: "keeps (within S) (Disconnect e x)"
proof (cases "S \<inter> {kRunning, kRecoveryRequired} = {}")
  case True
  show ?thesis
    unfolding keeps_def Disconnect_def
    apply (rule triple_my_case, rule triple_if)
    subgoal by (rule triple_pre [OF triple_keeps [OF within_explicit_off]]) simp
    subgoal by (rule triple_absurd) (use True in \<open>auto simp: within_def\<close>)
    done
next
  case False
  show ?thesis
    unfolding Disconnect_def
    by (intro within_steps end_connection [OF False]; (rule within_calm)?; auto intro!: calmness simp: status_def)
qed

lemma Shutdown: "keeps (within S) (Shutdown e)"
proof -
  have inner: "triple (\<lambda>s. within S s \<and> fst s = h) (do { error \<leftarrow> RollbackRuntime e; change (end_connection error) })
      (\<lambda>_. within S)" if "rh_phase h = kRunning \<or> rh_phase h = kRecoveryRequired" for h
    using that
    by (intro triple_bind [OF triple_fact [where C = "S \<inter> {kRunning, kRecoveryRequired} \<noteq> {}"]] triple_change)
      (auto simp: within_def intro!: end_connection)
  show ?thesis
    unfolding Shutdown_def
    by (rule keeps_bind [OF within_calm [OF calm_WithdrawTelegramWS]], rule keeps_bind [OF within_calm [OF calm_stop_executor]],
        unfold keeps_def, rule triple_my_case, rule triple_if, rule inner)
      (auto intro: triple_return)
qed

lemmas finish_steps = within_steps Disconnect

lemma CancelProtectedHandoff: "keeps (within S) (CancelProtectedHandoff e)"
  unfolding CancelProtectedHandoff_def by (intro finish_steps; (rule within_calm)?; auto intro!: calmness)

lemmas protected_steps = within_steps CancelProtectedHandoff

lemma revoke_protected: "keeps (within S) (revoke_protected e)"
  unfolding revoke_protected_def by (intro protected_steps; (rule within_calm)?; auto intro!: calmness)

lemma RevokeRoutingCatalog: "keeps (within S) (RevokeRoutingCatalog e dg)"
  unfolding RevokeRoutingCatalog_def by (intro protected_steps revoke_protected; (rule within_calm)?; auto intro!: calmness)

lemma RevokeRoutingCatalogService: "keeps (within S) (RevokeRoutingCatalogService e body)"
  unfolding RevokeRoutingCatalogService_def Let_def
  by (intro protected_steps revoke_protected; (rule within_calm)?; auto intro!: calmness)

lemma end_dpi_owner: "keeps (within S) (end_dpi_owner e f)"
  unfolding end_dpi_owner_def by (intro protected_steps; (rule within_calm)?; auto intro!: calmness)

lemma dpi_withdraw_failed: "keeps (within S) (dpi_withdraw_failed e)"
  unfolding dpi_withdraw_failed_def by (intro protected_steps; (rule within_calm)?; auto intro!: calmness)

lemma replace_strategy: "keeps (within S) (replace_strategy e check p n st)"
  unfolding replace_strategy_def Let_def
  by (intro protected_steps end_dpi_owner dpi_withdraw_failed; (rule within_calm)?;
      auto intro!: calmness effect simp: status_def status_capture [unfolded status_def, simplified])

lemma MaintainWindowsLocalDpi: "keeps (within S) (MaintainWindowsLocalDpi e check)"
  unfolding MaintainWindowsLocalDpi_def Let_def
  by (auto intro!: protected_steps end_dpi_owner dpi_withdraw_failed replace_strategy within_leaves effect
      simp: status_def split: option.splits Phase.splits bool.splits)

end

text \<open>Sets of phases that the initialization and the staging of a profile do not leave.\<close>

locale initialize_range =
  fixes S :: "Phase set"
  assumes initialize_range: "{kInitialized, kRecoveryRequired} \<subseteq> S"
begin

lemma Initialize: "keeps (within S) (Initialize e)"
  unfolding Initialize_def refuse_initialize_def
  by (intro within_steps within_frames [OF frames_RecoverPending]; (rule within_calm)?;
      (use initialize_range in \<open>auto intro!: calmness effect simp: status_def\<close>)?)

lemma RecoverOnStartup: "keeps (within S) (RecoverOnStartup e)"
  unfolding RecoverOnStartup_def by (intro within_steps Initialize; (rule within_calm)?; auto intro!: calmness)

end

locale stage_range = initialize_range +
  assumes stage_range: "kConfigStaged \<in> S"
begin

lemma commit_stage: "keeps (within S) (commit_stage e body rb dg slot p)"
  unfolding commit_stage_def
  by (intro within_steps; (rule within_calm)?; (use stage_range in \<open>auto intro!: calmness effect simp: status_def\<close>)?)

lemma stage_bundle: "keeps (within S) (stage_bundle e body rb dg bundle)"
  unfolding stage_bundle_def Let_def
  by (intro within_steps commit_stage; (rule within_calm)?; auto intro!: calmness)

lemma StageProfile: "keeps (within S) (StageProfile e body rb)"
  unfolding StageProfile_def Let_def
  by (intro within_steps stage_bundle Initialize; (rule within_calm)?; auto intro!: calmness)

end

text \<open>A replacement ends a connection, stages a profile and connects.\<close>

locale replace_range = stage_range +
  assumes running_range: "kRunning \<in> S"
begin

lemma connect_subset: "{kRunning, kConfigStaged, kRecoveryRequired} \<subseteq> S"
  using initialize_range stage_range running_range by simp

lemma finish_subset: "{kConfigStaged, kInitialized, kRecoveryRequired} \<subseteq> S"
  using initialize_range stage_range by simp

end

sublocale replace_range \<subseteq> connect_range
  by unfold_locales (rule connect_subset)

sublocale replace_range \<subseteq> finish_range
  by unfold_locales (rule finish_subset)

context replace_range
begin

lemma finish_replacement: "keeps (within S) (finish_replacement e body check)"
  unfolding finish_replacement_def
  by (intro within_steps Disconnect; (rule within_calm)?; auto intro!: calmness)

lemma ReplaceManagedProfile: "keeps (within S) (ReplaceManagedProfile e body check net tc)"
  unfolding ReplaceManagedProfile_def
  by (intro within_steps Disconnect StageProfile ConnectImpl finish_replacement; (rule within_calm)?; auto intro!: calmness)

end

section \<open>The ranges of a phase\<close>

interpretation connecting: connect_range "insert p {kRunning, kConfigStaged, kRecoveryRequired}" for p
  by unfold_locales auto

interpretation initializing: initialize_range "insert p {kInitialized, kRecoveryRequired}" for p
  by unfold_locales auto

interpretation staging: stage_range "insert p {kInitialized, kRecoveryRequired, kConfigStaged}" for p
  by unfold_locales auto

interpretation replacing: replace_range "insert p {kRunning, kConfigStaged, kInitialized, kRecoveryRequired}" for p
  by unfold_locales auto

definition finish_phases :: "Phase \<Rightarrow> Phase set" where
  "finish_phases p = (if p \<in> {kRunning, kRecoveryRequired} then {p, kConfigStaged, kInitialized, kRecoveryRequired} else {p})"

interpretation finishing: finish_range "finish_phases p" for p
  by unfold_locales (auto simp: finish_phases_def)

section \<open>Calls that are refused\<close>

definition in_phase :: "Phase \<Rightarrow> RuntimeHost \<times> trace \<Rightarrow> bool" where
  "in_phase p s \<longleftrightarrow> verified s \<and> rh_phase (fst s) = p"

lemma in_phase_within: "p \<in> S \<Longrightarrow> keeps (within S) m \<Longrightarrow> triple (in_phase p) m (\<lambda>_. within S)"
  unfolding keeps_def by (erule triple_pre) (simp add: in_phase_def within_def)

lemma in_phase_calm: "calm m \<Longrightarrow> triple (in_phase p) m (\<lambda>_. within {p})"
  by (rule in_phase_within [OF singletonI within_calm])

lemma keeps_in_phase: "calm m \<Longrightarrow> keeps (in_phase p) m"
  unfolding in_phase_def [abs_def] using within_calm [of m "{p}"] by (intro keeps_conj calm_keeps(2)) (simp_all add: within_def [abs_def])

lemma running_initialized: "in_phase kRunning s \<Longrightarrow> rh_initialized (fst s)"
  by (simp add: in_phase_def verified_def)

lemma running_Initialize: "triple (in_phase kRunning) (Initialize e) (\<lambda>_. within {kRunning})"
  unfolding Initialize_def
  apply (rule triple_my_case, rule triple_if)
  subgoal by (rule triple_pre [OF in_phase_calm [OF calm_Snapshot]]) simp
  subgoal by (rule triple_absurd) (use running_initialized in force)
  done

lemma running_RecoverOnStartup: "triple (in_phase kRunning) (RecoverOnStartup e) (\<lambda>_. within {kRunning})"
  unfolding RecoverOnStartup_def
  by (rule triple_my_case, rule triple_if)
    (auto intro: triple_pre [OF in_phase_calm [OF calm_Snapshot]] triple_pre [OF running_Initialize])

lemma running_StageProfile: "triple (in_phase kRunning) (StageProfile e body rb) (\<lambda>_. within {kRunning})"
  unfolding StageProfile_def
proof (rule keeps_first [OF keeps_in_phase [OF calm_RecordEvent]], rule triple_my_field,
    rule triple_bind [where R = "\<lambda>started s. started = None \<and> in_phase kRunning s"])
  fix initialized
  show "triple (\<lambda>s. in_phase kRunning s \<and> rh_initialized (fst s) = initialized)
     (if initialized then State_Monad.return None
      else do { r \<leftarrow> Initialize e;
        if rr_status r \<noteq> kOk then do { RecordEvent kRuntimeProfileStage kFailed; State_Monad.return (Some r) }
        else State_Monad.return None })
     (\<lambda>started s. started = None \<and> in_phase kRunning s)"
  proof (cases initialized)
    case True
    then show ?thesis by (auto intro!: triple_return)
  next
    case False
    then show ?thesis by (intro triple_absurd) (use running_initialized in auto)
  qed
next
  fix started
  show "triple (\<lambda>s. started = None \<and> in_phase kRunning s)
     (case started of
        None \<Rightarrow> do {
          phase \<leftarrow> my rh_phase;
          if phase = kRunning \<or> phase = kRecoveryRequired \<or> \<not> stage_request body
          then refuse_stage e kInvalid ''profile_request_invalid''
          else
            (let profile_digest = ProfileDigest (lib_hash e) body
             in if profile_digest = [] then Fail e kNotReady ''profile_identity_failed''
                else case ParseProfilePayload (drop 2 body) of
                  None \<Rightarrow> refuse_stage e kInvalid ''profile_payload_invalid''
                | Some bundle \<Rightarrow> stage_bundle e body rb profile_digest bundle)
        }
      | Some r \<Rightarrow> State_Monad.return r)
     (\<lambda>_. within {kRunning})"
    apply (rule triple_option)
    subgoal
      apply (rule triple_my_field, rule triple_if)
      subgoal by (rule triple_pre [OF in_phase_calm [OF calm_refuse_stage]]) simp
      subgoal by (rule triple_absurd) (auto simp: in_phase_def)
      done
    subgoal by (rule triple_absurd) simp
    done
qed

lemma InvalidateProfile_within: "keeps (within {p, kInitialized, kArtifactReady}) (InvalidateProfile e)"
  unfolding InvalidateProfile_def
  by (intro within_steps; (rule within_calm)?; auto intro!: calmness effect simp: status_def)

lemma refused_InvalidateProfile:
  assumes "p = kRunning \<or> p = kRecoveryRequired"
  shows "triple (in_phase p) (InvalidateProfile e) (\<lambda>_. within {p})"
  unfolding InvalidateProfile_def
  apply (rule triple_my_field, intro triple_if)
  subgoal by (rule triple_pre [OF in_phase_calm [OF calm_Fail]]) simp
  subgoal by (rule triple_pre [OF in_phase_calm [OF calm_Fail]]) simp
  subgoal by (rule triple_absurd) (use assms in \<open>auto simp: in_phase_def\<close>)
  done

lemma connect_admission_refuses:
  "run_state (connect_admission e dg check cd) (h, t) = (None, s) \<Longrightarrow> rh_phase h \<noteq> kRunning \<and> rh_phase h \<noteq> kRecoveryRequired"
  by (auto simp: connect_admission_def run_simps returning_def split: prod.splits if_splits option.splits)

lemma refused_ConnectImpl:
  assumes "p = kRunning \<or> p = kRecoveryRequired"
  shows "triple (in_phase p) (ConnectImpl e dg check cd fg net tc) (\<lambda>_. within {p})"
proof -
  have "triple (in_phase p) (connect_admission e dg check cd) (\<lambda>r s. r \<noteq> None \<and> within {p} s)"
  proof (rule triple_pairI)
    fix h t r h' t'
    assume i: "in_phase p (h, t)" and run: "run_state (connect_admission e dg check cd) (h, t) = (r, (h', t'))"
    have "r \<noteq> None" using connect_admission_refuses [of e dg check cd h t] run i assms by (auto simp: in_phase_def)
    with tripleD [OF in_phase_calm [OF calm_connect_admission] i run] show "r \<noteq> None \<and> within {p} (h', t')" by simp
  qed
  then show ?thesis
    unfolding ConnectImpl_def early_def [of "connect_admission e dg check cd"]
    by (rule triple_bind, intro triple_option triple_return triple_absurd) auto
qed

lemma connect_impl_phases:
  "triple (in_phase p) (ConnectImpl e dg check cd fg net tc)
     (\<lambda>_ s. phase_step call p (rh_phase (fst s)))" if "connects call"
proof (cases "p = kRunning \<or> p = kRecoveryRequired")
  case True
  then show ?thesis
    by (rule triple_weaken [OF refused_ConnectImpl]) (auto simp: within_def intro: stay)
next
  case False
  then show ?thesis
    using that
    by (intro triple_weaken [OF in_phase_within [OF insertI1 connecting.ConnectImpl]]) (auto simp: within_def intro: phase_step.intros)
qed

section \<open>Refinement\<close>

text \<open>A call that stays within a set of phases is a step of the machine when the machine may go to all of them.\<close>

lemma step_within:
  "triple (in_phase p) m (\<lambda>_. within S) \<Longrightarrow> (\<And>q. q \<in> S \<Longrightarrow> phase_step call p q) \<Longrightarrow>
   triple (in_phase p) m (\<lambda>_ s. phase_step call p (rh_phase (fst s)))"
  by (erule triple_weaken) (auto simp: within_def)

lemma step_calm: "calm m \<Longrightarrow> triple (in_phase p) m (\<lambda>_ s. phase_step call p (rh_phase (fst s)))"
  by (rule step_within [OF in_phase_calm]) (auto intro: stay)

lemma step_initialize:
  assumes "initializes call" and "\<And>S. {kInitialized, kRecoveryRequired} \<subseteq> S \<Longrightarrow> keeps (within S) m"
    and "triple (in_phase kRunning) m (\<lambda>_. within {kRunning})"
  shows "triple (in_phase p) m (\<lambda>_ s. phase_step call p (rh_phase (fst s)))"
proof (cases "p = kRunning")
  case True
  with assms(3) show ?thesis by (auto intro: step_within stay)
next
  case False
  have "keeps (within (insert p {kInitialized, kRecoveryRequired})) m" by (rule assms(2)) blast
  from in_phase_within [OF insertI1 this] False show ?thesis
    by (rule_tac step_within) (auto intro: phase_step.intros assms(1))
qed

lemma finish_phases_step: "ends call \<Longrightarrow> q \<in> finish_phases p \<Longrightarrow> phase_step call p q"
  by (auto simp: finish_phases_def split: if_splits intro: phase_step.intros)

lemma step_finish:
  "ends call \<Longrightarrow> keeps (within (finish_phases p)) m \<Longrightarrow> triple (in_phase p) m (\<lambda>_ s. phase_step call p (rh_phase (fst s)))"
  by (rule step_within [OF in_phase_within]) (auto simp: finish_phases_def intro: finish_phases_step)

lemma step_stage: "triple (in_phase p) (StageProfile e body rb) (\<lambda>_ s. phase_step (CallStageProfile body rb) p (rh_phase (fst s)))"
proof (cases "p = kRunning")
  case True
  with running_StageProfile show ?thesis by (auto intro: step_within stay)
next
  case False
  then show ?thesis
    by (intro step_within [OF in_phase_within [OF insertI1 staging.StageProfile]]) (auto intro: phase_step.intros)
qed

lemma step_invalidate: "triple (in_phase p) (InvalidateProfile e) (\<lambda>_ s. phase_step CallInvalidateProfile p (rh_phase (fst s)))"
proof (cases "p = kRunning \<or> p = kRecoveryRequired")
  case True
  from step_within [OF refused_InvalidateProfile [OF this]] show ?thesis by (auto intro: stay)
next
  case False
  then show ?thesis
    by (intro step_within [OF in_phase_within [OF insertI1 InvalidateProfile_within]]) (auto intro: phase_step.intros)
qed

lemma step_Connect:
  "triple (in_phase p) (Connect e dg check net tc) (\<lambda>_ s. phase_step (CallConnect dg check net tc) p (rh_phase (fst s)))"
  unfolding Connect_def
  by (rule triple_my_field, rule triple_if)
    (auto intro: triple_pre [OF step_calm [OF calm_Fail]] triple_pre [OF connect_impl_phases])

lemma step_ConnectWithIdentity:
  "triple (in_phase p) (ConnectWithIdentity e target check net tc)
     (\<lambda>_ s. phase_step (CallConnectWithIdentity target check net tc) p (rh_phase (fst s)))"
  unfolding ConnectWithIdentity_def
  by (intro triple_if triple_my_field)
    (auto intro: triple_pre [OF step_calm [OF calm_return]] triple_pre [OF connect_impl_phases])

lemma frames_phase_step:
  "keeps (within {p}) m \<Longrightarrow> triple (in_phase p) m (\<lambda>_ s. phase_step call p (rh_phase (fst s)))"
  by (rule step_within [OF in_phase_within [OF singletonI]]) (auto intro: stay)

lemma within_RecheckEgress: "keeps (within S) (RecheckEgress e check)"
  unfolding RecheckEgress_def by (intro within_steps; (rule within_calm)?; auto intro!: calmness simp: status_def)

lemma within_Promote: "keeps (within S) (PromoteTransportLease e target)"
  unfolding PromoteTransportLease_def by (intro within_steps; (rule within_calm)?; auto intro!: calmness)

lemma within_RevokeTransport: "keeps (within S) (RevokeTransportLease e target)"
  unfolding RevokeTransportLease_def by (intro within_steps; (rule within_calm)?; auto intro!: calmness)

lemma step_replace:
  "triple (in_phase p) (ReplaceManagedProfile e body check net tc)
     (\<lambda>_ s. phase_step (CallReplaceManagedProfile body check net tc) p (rh_phase (fst s)))"
  by (intro step_within [OF in_phase_within [OF insertI1 replacing.ReplaceManagedProfile]]) (auto intro: phase_step.intros)

lemma initialize_within: "{kInitialized, kRecoveryRequired} \<subseteq> S \<Longrightarrow> keeps (within S) (Initialize e)"
  "{kInitialized, kRecoveryRequired} \<subseteq> S \<Longrightarrow> keeps (within S) (RecoverOnStartup e)"
  by (simp_all add: initialize_range.Initialize initialize_range.RecoverOnStartup initialize_range_def)

lemmas calm_steps = step_calm [OF calm_Snapshot] step_calm [OF calm_PendingSnapshot] step_calm [OF calm_RevokeSmartAccessLease]
  step_calm [OF calm_RevokePolicy] step_calm [OF calm_Renew] step_calm [OF calm_Configure] step_calm [OF calm_ReadRestrictions]
  step_calm [OF calm_ReadLeases] step_calm [OF calm_Acknowledge] step_calm [OF calm_MaintainTelegram]
  frames_phase_step [OF within_RecheckEgress] frames_phase_step [OF within_Promote] frames_phase_step [OF within_RevokeTransport]

lemmas finish_host_steps = step_finish [OF _ finishing.Disconnect] step_finish [OF _ finishing.CancelProtectedHandoff]
  step_finish [OF _ finishing.RevokeRoutingCatalog] step_finish [OF _ finishing.RevokeRoutingCatalogService]
  step_finish [OF _ finishing.MaintainWindowsLocalDpi] step_finish [OF _ keeps_bind [OF finishing.Shutdown keeps_return]]

lemma initialize_host_steps:
  "triple (in_phase p) (Initialize e) (\<lambda>_ s. phase_step CallInitialize p (rh_phase (fst s)))"
  "triple (in_phase p) (RecoverOnStartup e) (\<lambda>_ s. phase_step CallRecoverOnStartup p (rh_phase (fst s)))"
  by (rule step_initialize; simp add: initialize_within running_Initialize running_RecoverOnStartup)+

lemma host_step_phases: "triple (in_phase p) (host_step e call) (\<lambda>_ s. phase_step call p (rh_phase (fst s)))"
  by (cases call)
    (simp_all add: calm_steps finish_host_steps initialize_host_steps step_stage step_invalidate step_Connect
      step_ConnectWithIdentity step_replace)

text \<open>
  C8. The lifecycle of the host.  After any sequence of calls to a host that was started, with
  any answers from Core, the system and the interruption callbacks, the next call moves the
  phase of the host by a step of the lifecycle machine \<open>phase_step\<close>: only a connect
  and a protected replacement enter the running phase, a connect does nothing to a host that
  runs or needs recovery, only the calls that end a connection and a replacement leave the
  running phase, an initialization, a staging and an invalidation never touch a running host,
  and a profile cannot be invalidated while a recovery is required.
\<close>

theorem host_refines_lifecycle:
  "phase_step call (rh_phase (fst (host_run e calls (started_host e d root ns core probe secure))))
     (rh_phase (fst (host_run e (calls @ [call]) (started_host e d root ns core probe secure))))"
proof -
  define s where "s = host_run e calls (started_host e d root ns core probe secure)"
  have "in_phase (rh_phase (fst s)) s"
    unfolding s_def in_phase_def using verified_host.after_run [OF idle_verified [OF started_host_idle]] by simp
  moreover have "host_run e (calls @ [call]) (started_host e d root ns core probe secure) = snd (run_state (host_step e call) s)"
    by (simp add: s_def host_run_def)
  ultimately show ?thesis
    using tripleD [OF host_step_phases _ prod.collapse [symmetric]] by (simp add: s_def)
qed

end
