(* ===== verification/Dispatcher.thy ===== *)
theory Dispatcher
  imports Runtime_Control Boot_Clock
begin

text \<open>
  \<^verbatim>\<open>service_dispatcher.cpp\<close>: the sessions that share one runtime host.  The dispatcher owns the
  host; \<^verbatim>\<open>execution_lock_\<close> serializes the calls to it and \<^verbatim>\<open>state_lock_\<close> makes the short
  sections on the other fields atomic.  An object of \<^verbatim>\<open>ActiveConnect\<close> is shared by the sessions,
  the watcher and the callbacks of a connect: the objects are kept in a list and named by their
  index, so that a session may hold an object that is no longer the active one.

  Sessions that do not hold the execution lock run between the sections of the one that holds
  it.  What they may do is a \<open>session_step\<close>, one atomic section each; at every point at which
  the holder of the lock gives up the state lock, the schedule says which of these steps ran
  (\<open>others\<close>).  The answers of the callbacks that the host calls are those of the environment, and the
  effects of the callbacks on the operation are steps of the same kind.
\<close>

section \<open>Operations\<close>

datatype (plugins only: code size) Interruption =
    kNone_cause | kCancelled_cause | kOwnerChanged | kNetworkChanged | kDeadline

record ActiveConnect =
  ac_target :: CancellationTarget
  ac_interruption :: Interruption
  ac_cancelled :: bool
  ac_deadline_expired :: bool
  ac_bound :: "BoundConnectTarget option"
  ac_requires_transport_lease :: bool
  ac_ordinary_control_handoff :: bool
  ac_promoted_until :: u64
  ac_transport_terminated :: bool
  ac_promoted_lease_ref :: string
  ac_network_revision :: "u64 option"
  ac_client_process :: "int option"
  ac_stopping_snapshot :: RuntimeResult
  ac_cleanup_attempted :: bool
  ac_protected_handoff :: bool
  ac_local_dpi_owner :: bool
  ac_local_dpi_cancelled :: bool
  ac_local_dpi_maintenance_active :: bool
  ac_telegram_ws_owner :: bool
  ac_telegram_ws_network_revision :: "u64 option"
  ac_telegram_ws_cancelled :: bool

definition Interrupt :: "Interruption \<Rightarrow> ActiveConnect \<Rightarrow> ActiveConnect" where
  "Interrupt cause op =
     (let op1 = (if ac_interruption op = kNone_cause then op\<lparr>ac_interruption := cause\<rparr> else op)
      in if cause = kDeadline then op1\<lparr>ac_deadline_expired := True\<rparr> else op1\<lparr>ac_cancelled := True\<rparr>)"

definition FailureCode :: "ActiveConnect \<Rightarrow> string" where
  "FailureCode op =
     (case ac_interruption op of
        kOwnerChanged \<Rightarrow> ''connect_owner_changed''
      | kNetworkChanged \<Rightarrow> ''network_context_unavailable''
      | kDeadline \<Rightarrow> if ac_bound op \<noteq> None then ''connect_deadline'' else ''deadline_exceeded''
      | _ \<Rightarrow> ''operation_cancelled'')"

definition FailureStatus :: "ActiveConnect \<Rightarrow> Status" where
  "FailureStatus op = (if ac_interruption op = kDeadline then kDeadlineExceeded else kNotReady)"

record ActiveProbe =
  ap_key :: nat
  ap_target :: CancellationTarget
  ap_id :: string
  ap_cancelled :: bool

record RuntimeDispatcher =
  dp_runtime :: RuntimeHost
  dp_snapshot :: RuntimeResult
  dp_operations :: "ActiveConnect list"
  dp_active :: "nat option"
  dp_stopped :: "CancellationTarget option"
  dp_closing :: bool
  dp_egress_interval :: u64
  dp_next_egress_check :: u64
  dp_egress_check_cancelled :: "bool option"
  dp_probes :: "ActiveProbe list"
  dp_probe_count :: nat

type_synonym 'a dispatcher_action = "(RuntimeDispatcher, 'a) action"

text \<open>\<^verbatim>\<open>runtime_->\<close>\<close>

definition runtime_call :: "'a host_action \<Rightarrow> 'a dispatcher_action" where
  "runtime_call m = zoom dp_runtime (\<lambda>h d. d\<lparr>dp_runtime := h\<rparr>) m"

abbreviation operation :: "nat \<Rightarrow> RuntimeDispatcher \<Rightarrow> ActiveConnect" where
  "operation k d \<equiv> dp_operations d ! k"

definition on_operation :: "nat \<Rightarrow> (ActiveConnect \<Rightarrow> ActiveConnect) \<Rightarrow> unit dispatcher_action" where
  "on_operation k f = change (\<lambda>d. d\<lparr>dp_operations := (dp_operations d)[k := f (operation k d)]\<rparr>)"

definition HasWindowsLocalDpi :: "RuntimeHost \<Rightarrow> bool" where
  "HasWindowsLocalDpi h \<longleftrightarrow> rh_preparation h \<noteq> None"

definition HasTelegramWS :: "RuntimeHost \<Rightarrow> bool" where
  "HasTelegramWS h \<longleftrightarrow> rh_telegram h \<noteq> None"

definition RequestsWindowsLocalDpi :: "RuntimeHost \<Rightarrow> bool" where
  "RequestsWindowsLocalDpi h \<longleftrightarrow> rh_dpi_requested h \<and> rh_dpi_ready h"

definition RequestsTelegramWS :: "RuntimeHost \<Rightarrow> bool" where
  "RequestsTelegramWS h \<longleftrightarrow> rh_telegram_requested h \<and> rh_telegram_ready h"

definition CandidateProbeCore :: "RuntimeHost \<Rightarrow> bool" where
  "CandidateProbeCore h \<longleftrightarrow> rh_initialized h \<and> rh_core h"

definition CrashDiagnostics :: "env \<Rightarrow> ('c, RuntimeResult) action" where
  "CrashDiagnostics e = do {
     available \<leftarrow> ask_bool e (SessionIo ReadCrashDiagnostics);
     if \<not> available then State_Monad.return (result kNotReady ''crash_diagnostics_unavailable'')
     else do {
       text \<leftarrow> ask_text e (SessionIo CrashDiagnosticsText);
       State_Monad.return (result kOk text)
     }
   }"

section \<open>Results\<close>

definition SameTarget :: "CancellationTarget \<Rightarrow> CancellationTarget \<Rightarrow> bool" where
  "SameTarget left right \<longleftrightarrow>
     ct_session_token left = ct_session_token right \<and> ct_operation_nonce left = ct_operation_nonce right"

text \<open>\<^verbatim>\<open>s.rfind(p)\<close>\<close>

definition rfind_str :: "string \<Rightarrow> string \<Rightarrow> nat option" where
  "rfind_str s p = find (\<lambda>i. starts_with p (drop i s)) (rev [0..<Suc (length s)])"

text \<open>\<^verbatim>\<open>s.replace(pos, n, r)\<close> up to the position \<open>stop\<close>, where \<^term>\<open>None\<close> is the end of the text.\<close>

definition replace_until :: "string \<Rightarrow> nat \<Rightarrow> nat option \<Rightarrow> string \<Rightarrow> string" where
  "replace_until s pos stop r = take pos s @ r @ (case stop of None \<Rightarrow> [] | Some i \<Rightarrow> drop i s)"

definition WithFailure :: "RuntimeResult \<Rightarrow> Status \<Rightarrow> string \<Rightarrow> RuntimeResult" where
  "WithFailure r status code =
     (case rfind_str (rr_body r) '';failure='' of
        None \<Rightarrow> result status code
      | Some field \<Rightarrow>
          (let body = replace_until (rr_body r) field (find_char (rr_body r) (CHR '';'') (field + 1)) ('';failure='' @ code)
           in result status
                (case find_str body '';egress_probe_stage='' 0 of
                   None \<Rightarrow> body
                 | Some observation \<Rightarrow>
                     replace_until body observation (find_str body '';transport_proof_pending='' observation) [])))"

definition WithTransportState :: "RuntimeResult \<Rightarrow> bool \<Rightarrow> bool \<Rightarrow> RuntimeResult" where
  "WithTransportState r pending active =
     (if \<not> starts_with ''phase='' (rr_body r) then r
      else
        (let healthy = '';core_egress_validated=1;dns_ready=1'';
             body = (case find_str (rr_body r) healthy 0 of
                 Some offset \<Rightarrow>
                   if pending then replace_until (rr_body r) offset (Some (offset + length healthy))
                     '';core_egress_validated=0;dns_ready=0''
                   else rr_body r
               | None \<Rightarrow> rr_body r);
             body1 = body @ '';transport_proof_pending='' @ bit_text pending
         in r\<lparr>rr_body := body1 @ '';transport_lease_active='' @
              bit_text (active \<and> starts_with ''phase=running;'' body1)\<rparr>))"

section \<open>The owner of a connection\<close>

text \<open>\<^verbatim>\<open>client_process == nullptr || WaitForSingleObject(client_process, 0) != WAIT_TIMEOUT\<close>\<close>

definition client_gone :: "env \<Rightarrow> ActiveConnect \<Rightarrow> ('c, bool) action" where
  "client_gone e op =
     (case ac_client_process op of
        None \<Rightarrow> State_Monad.return True
      | Some handle \<Rightarrow> do {
          running \<leftarrow> ask_bool e (SessionIo (ClientRunning handle));
          State_Monad.return (\<not> running)
        })"

text \<open>\<^verbatim>\<open>local_dpi_owner ? candidate_current_(revision) : network_.IsCurrent(revision)\<close>\<close>

definition revision_current :: "env \<Rightarrow> ActiveConnect \<Rightarrow> u64 \<Rightarrow> ('c, bool) action" where
  "revision_current e op revision =
     ask_bool e (SessionIo (if ac_local_dpi_owner op then CandidateCurrent revision else NetworkCurrent revision))"

definition refresh_telegram :: "env \<Rightarrow> nat \<Rightarrow> unit dispatcher_action" where
  "refresh_telegram e k = do {
     op \<leftarrow> my (operation k);
     if \<not> ac_telegram_ws_owner op then State_Monad.return ()
     else do {
       gone \<leftarrow> client_gone e op;
       lost \<leftarrow> (case (gone, ac_telegram_ws_network_revision op) of
           (False, Some revision) \<Rightarrow> do {
             current \<leftarrow> ask_bool e (SessionIo (CandidateCurrent revision));
             State_Monad.return (\<not> current)
           }
         | _ \<Rightarrow> State_Monad.return True);
       if lost then on_operation k (\<lambda>op. op\<lparr>ac_telegram_ws_cancelled := True\<rparr>) else State_Monad.return ()
     }
   }"

definition RefreshBoundNetwork :: "env \<Rightarrow> nat option \<Rightarrow> unit dispatcher_action" where
  "RefreshBoundNetwork e owner =
     (case owner of
        None \<Rightarrow> State_Monad.return ()
      | Some k \<Rightarrow> do {
          refresh_telegram e k;
          op \<leftarrow> my (operation k);
          if (ac_bound op = None \<and> \<not> ac_local_dpi_owner op) \<or> ac_cancelled op then State_Monad.return ()
          else do {
            dpi_gone \<leftarrow> (if ac_local_dpi_owner op then client_gone e op else State_Monad.return False);
            (if dpi_gone then on_operation k (\<lambda>op. op\<lparr>ac_local_dpi_cancelled := True\<rparr>) else State_Monad.return ());
            owner_gone \<leftarrow> (if ac_promoted_until op = 0 \<or> ac_transport_terminated op then client_gone e op
                          else State_Monad.return False);
            if owner_gone then on_operation k (Interrupt kOwnerChanged)
            else do {
              current \<leftarrow> (if ac_local_dpi_owner op then State_Monad.return (ac_network_revision op)
                         else ask (env_revision e) ARevision (SessionIo SampleNetwork));
              stale \<leftarrow> (case current of
                  None \<Rightarrow> State_Monad.return True
                | Some revision \<Rightarrow>
                    if current \<noteq> ac_network_revision op then State_Monad.return True
                    else do { same \<leftarrow> revision_current e op revision; State_Monad.return (\<not> same) });
              if stale then on_operation k (Interrupt kNetworkChanged) else State_Monad.return ()
            }
          }
        })"

text \<open>The lease or the deadline of a bound operation is no longer current.\<close>

definition deadline_lapsed :: "env \<Rightarrow> ActiveConnect \<Rightarrow> BoundConnectTarget \<Rightarrow> ('c, bool) action" where
  "deadline_lapsed e op bound =
     (if ac_ordinary_control_handoff op then State_Monad.return False
      else do {
        current \<leftarrow> (if ac_promoted_until op \<noteq> 0 then IsActiveTransportLeaseCurrent e bound (ac_promoted_until op)
                   else IsConnectDeadlineCurrent e bound);
        State_Monad.return (\<not> current)
      })"

text \<open>The part of \<^verbatim>\<open>ProjectBoundState\<close> that interrupts the bound operation.\<close>

definition project_interrupts :: "env \<Rightarrow> nat \<Rightarrow> BoundConnectTarget \<Rightarrow> unit dispatcher_action" where
  "project_interrupts e k bound = do {
     op \<leftarrow> my (operation k);
     gone \<leftarrow> (if ac_promoted_until op = 0 \<or> ac_transport_terminated op then client_gone e op else State_Monad.return False);
     (if gone then on_operation k (Interrupt kOwnerChanged) else State_Monad.return ());
     same \<leftarrow> (case ac_network_revision op of
         None \<Rightarrow> State_Monad.return False
       | Some revision \<Rightarrow> ask_bool e (SessionIo (NetworkCurrent revision)));
     (if same then State_Monad.return () else on_operation k (Interrupt kNetworkChanged));
     lapsed \<leftarrow> deadline_lapsed e op bound;
     (if lapsed then on_operation k (Interrupt kDeadline) else State_Monad.return ())
   }"

text \<open>The text of the result for a bound operation as it stands.\<close>

definition project_result :: "ActiveConnect \<Rightarrow> RuntimeResult \<Rightarrow> RuntimeResult" where
  "project_result op r =
     (let shown = (if (ac_cancelled op \<or> ac_deadline_expired op) \<and> starts_with ''phase='' (rr_body r) \<and>
                      \<not> starts_with ''phase=recovery_required;'' (rr_body r)
                   then WithFailure (ac_stopping_snapshot op) (FailureStatus op) (FailureCode op) else r);
          inactive = (ac_promoted_until op = 0 \<or> ac_transport_terminated op)
      in WithTransportState shown (ac_requires_transport_lease op \<and> inactive)
           (ac_requires_transport_lease op \<and> \<not> inactive))"

definition ProjectBoundState :: "env \<Rightarrow> RuntimeResult \<Rightarrow> RuntimeResult dispatcher_action" where
  "ProjectBoundState e r = do {
     d \<leftarrow> my id;
     case dp_active d of
       None \<Rightarrow> State_Monad.return (WithTransportState r False False)
     | Some k \<Rightarrow>
         (case ac_bound (operation k d) of
            None \<Rightarrow> State_Monad.return (WithTransportState r False False)
          | Some bound \<Rightarrow> do {
              project_interrupts e k bound;
              op \<leftarrow> my (operation k);
              State_Monad.return (project_result op r)
            })
   }"

definition RetireConnect :: "unit dispatcher_action" where
  "RetireConnect = change (\<lambda>d. d\<lparr>
     dp_stopped := (case dp_active d of
         Some k \<Rightarrow> if ac_bound (operation k d) \<noteq> None then Some (ac_target (operation k d)) else dp_stopped d
       | None \<Rightarrow> dp_stopped d),
     dp_active := None\<rparr>)"

section \<open>Sections without the execution lock\<close>

definition Cancel :: "string \<Rightarrow> RuntimeResult dispatcher_action" where
  "Cancel body =
     (case DecodeCancellationTarget body of
        None \<Rightarrow> State_Monad.return (result kInvalid ''invalid_cancellation_target'')
      | Some target \<Rightarrow> do {
          d \<leftarrow> my id;
          case dp_active d of
            None \<Rightarrow> State_Monad.return (result kNotReady ''operation_not_active'')
          | Some k \<Rightarrow>
              if \<not> SameTarget (ac_target (operation k d)) target
              then State_Monad.return (result kNotReady ''operation_not_active'')
              else do {
                on_operation k (Interrupt kCancelled_cause);
                on_operation k (\<lambda>op. op\<lparr>ac_cleanup_attempted := False\<rparr>);
                State_Monad.return (result kOk ''cancellation_requested'')
              }
        })"

text \<open>The first section of \<^verbatim>\<open>CancelAndConfirm\<close>: an answer, or the operation to stop.\<close>

definition signal_cancel :: "CancellationTarget \<Rightarrow> (RuntimeResult + nat) dispatcher_action" where
  "signal_cancel target = do {
     d \<leftarrow> my id;
     if (case dp_stopped d of Some stopped \<Rightarrow> SameTarget stopped target | None \<Rightarrow> False)
     then State_Monad.return (Inl (result kOk ''settled=1''))
     else case dp_active d of
       None \<Rightarrow> State_Monad.return (Inl (result kOk ''settled=0''))
     | Some k \<Rightarrow>
         if ac_bound (operation k d) = None \<or> \<not> SameTarget (ac_target (operation k d)) target
         then State_Monad.return (Inl (result kOk ''settled=0''))
         else do {
           on_operation k (Interrupt kCancelled_cause);
           State_Monad.return (Inr k)
         }
   }"

definition Status_request :: "env \<Rightarrow> RuntimeResult dispatcher_action" where
  "Status_request e = do {
     owner \<leftarrow> my dp_active;
     RefreshBoundNetwork e owner;
     snapshot \<leftarrow> my dp_snapshot;
     ProjectBoundState e snapshot
   }"

definition frame_target :: "Frame \<Rightarrow> CancellationTarget" where
  "frame_target frame = \<lparr>ct_session_token = fr_session_token frame, ct_operation_nonce = fr_operation_nonce frame\<rparr>"

definition stop_target :: "Frame \<Rightarrow> unit dispatcher_action" where
  "stop_target frame = change (\<lambda>d. d\<lparr>dp_stopped := Some (frame_target frame)\<rparr>)"

text \<open>Requests that may share the lock with a check of the egress.\<close>

definition only_reads :: "Command \<Rightarrow> bool" where
  "only_reads command \<longleftrightarrow> command = kReadSmartAccessRestrictions \<or> command = kReadSmartAccessLeases"

text \<open>
  A request that finds the execution lock taken: \<^term>\<open>None\<close> when it waits for a check that it
  cancelled, and otherwise the busy answer.
\<close>

definition busy_request :: "env \<Rightarrow> Frame \<Rightarrow> RuntimeResult option dispatcher_action" where
  "busy_request e frame = do {
     d \<leftarrow> my id;
     let checking = (\<not> only_reads (fr_command frame) \<and> dp_egress_check_cancelled d \<noteq> None);
     let stopping = (\<not> only_reads (fr_command frame) \<and> fr_command frame = kDisconnect \<and>
       (case dp_active d of Some k \<Rightarrow> ac_local_dpi_maintenance_active (operation k d) | None \<Rightarrow> False));
     (if checking then change (\<lambda>d. d\<lparr>dp_egress_check_cancelled := Some True\<rparr>) else State_Monad.return ());
     (case dp_active d of
        Some k \<Rightarrow> if stopping then on_operation k (\<lambda>op. op\<lparr>ac_local_dpi_cancelled := True\<rparr>) else State_Monad.return ()
      | None \<Rightarrow> State_Monad.return ());
     if checking \<or> stopping then State_Monad.return None
     else do {
       (if fr_command frame = kConnectWithIdentity then stop_target frame else State_Monad.return ());
       snapshot \<leftarrow> my dp_snapshot;
       answer \<leftarrow> ProjectBoundState e (WithFailure snapshot kNotReady ''runtime_busy'');
       State_Monad.return (Some answer)
     }
   }"

section \<open>Candidate probes\<close>

definition CancelCandidateProbe :: "string \<Rightarrow> RuntimeResult dispatcher_action" where
  "CancelCandidateProbe body =
     (case DecodeCancellationTarget body of
        None \<Rightarrow> State_Monad.return (result kInvalid ''invalid_cancel_target'')
      | Some target \<Rightarrow> do {
          probes \<leftarrow> my dp_probes;
          case find (\<lambda>p. SameTarget (ap_target p) target) probes of
            None \<Rightarrow> State_Monad.return (result kNotReady ''operation_not_active'')
          | Some probe \<Rightarrow> do {
              change (\<lambda>d. d\<lparr>dp_probes :=
                map (\<lambda>p. if ap_key p = ap_key probe then p\<lparr>ap_cancelled := True\<rparr> else p) (dp_probes d)\<rparr>);
              State_Monad.return (result kOk ''cancel_requested'')
            }
        })"

definition probe_failed :: "string \<Rightarrow> RuntimeResult" where
  "probe_failed kind = result kOk (''{'' @ dquote @ ''success'' @ dquote @ '':false,'' @ dquote @ ''failure_kind'' @ dquote @
     '':'' @ dquote @ kind @ dquote @ '','' @ dquote @ ''duration_ms'' @ dquote @ '':0}'')"

text \<open>The registration of a probe; \<^term>\<open>None\<close> when four are under way or the identifier is taken.\<close>

definition register_probe :: "Frame \<Rightarrow> CandidateProbeRequest \<Rightarrow> nat option dispatcher_action" where
  "register_probe frame request = do {
     d \<leftarrow> my id;
     if 4 \<le> length (dp_probes d) \<or> list_ex (\<lambda>p. ap_id p = cp_probe_id request) (dp_probes d)
     then State_Monad.return None
     else do {
       change (\<lambda>d. d\<lparr>dp_probes := dp_probes d @ [\<lparr>ap_key = dp_probe_count d, ap_target = frame_target frame,
           ap_id = cp_probe_id request, ap_cancelled = False\<rparr>],
         dp_probe_count := Suc (dp_probe_count d)\<rparr>);
       State_Monad.return (Some (dp_probe_count d))
     }
   }"

definition retire_probe :: "nat \<Rightarrow> unit dispatcher_action" where
  "retire_probe key = change (\<lambda>d. d\<lparr>dp_probes := filter (\<lambda>p. ap_key p \<noteq> key) (dp_probes d)\<rparr>)"

definition probe_cancelled :: "nat \<Rightarrow> RuntimeDispatcher \<Rightarrow> bool" where
  "probe_cancelled key d \<longleftrightarrow> list_ex (\<lambda>p. ap_key p = key \<and> ap_cancelled p) (dp_probes d)"

section \<open>Callbacks\<close>

text \<open>
  The callbacks that the dispatcher hands to the host, by the operation and by their place in the
  code.  Each is an action on the dispatcher; the host is given its name.
\<close>

definition callback :: "nat \<Rightarrow> nat \<Rightarrow> CheckInterruption" where
  "callback place k = Check (8 * k + place)"

text \<open>\<open>interrupted\<close> of a connect: what it does to the operation, and its answer.\<close>

definition connect_interrupts :: "env \<Rightarrow> nat \<Rightarrow> unit dispatcher_action" where
  "connect_interrupts e k = do {
     op \<leftarrow> my (operation k);
     stop \<leftarrow> (if ac_interruption op = kNone_cause then ask_bool e (SessionIo StopEventSet) else State_Monad.return False);
     (if stop then on_operation k (Interrupt kCancelled_cause) else State_Monad.return ());
     gone \<leftarrow> (if ac_bound op \<noteq> None \<or> ac_local_dpi_owner op then client_gone e op else State_Monad.return False);
     (if gone then on_operation k (Interrupt kOwnerChanged) else State_Monad.return ());
     same \<leftarrow> (case ac_network_revision op of
         None \<Rightarrow> State_Monad.return True
       | Some revision \<Rightarrow> revision_current e op revision);
     (if same then State_Monad.return () else on_operation k (Interrupt kNetworkChanged));
     active \<leftarrow> my dp_active;
     (if ac_local_dpi_owner op \<and> active \<noteq> Some k then on_operation k (Interrupt kOwnerChanged) else State_Monad.return ())
   }"

definition connect_interrupted :: "env \<Rightarrow> nat \<Rightarrow> u64 \<Rightarrow> OperationInterruption dispatcher_action" where
  "connect_interrupted e k deadline = do {
     connect_interrupts e k;
     op \<leftarrow> my (operation k);
     if ac_interruption op \<noteq> kNone_cause
     then State_Monad.return (if FailureStatus op = kDeadlineExceeded then kDeadlineExceeded_interruption else kCancelled)
     else do {
       lapsed \<leftarrow> (case ac_bound op of
           None \<Rightarrow> State_Monad.return False
         | Some bound \<Rightarrow>
             if ac_deadline_expired op then State_Monad.return True
             else do { current \<leftarrow> IsConnectDeadlineCurrent e bound; State_Monad.return (\<not> current) });
       late \<leftarrow> (if lapsed then State_Monad.return True
               else do { now \<leftarrow> ask_u64 e TickCount; State_Monad.return (deadline \<le> now) });
       if late then do {
         on_operation k (Interrupt kDeadline);
         State_Monad.return kDeadlineExceeded_interruption
       }
       else State_Monad.return kNone_interruption
     }
   }"

definition telegram_interrupted :: "env \<Rightarrow> nat \<Rightarrow> u64 \<Rightarrow> OperationInterruption dispatcher_action" where
  "telegram_interrupted e k deadline = do {
     global \<leftarrow> connect_interrupted e k deadline;
     if global \<noteq> kNone_interruption then State_Monad.return global
     else do {
       RefreshBoundNetwork e (Some k);
       active \<leftarrow> my dp_active;
       (if active \<noteq> Some k then on_operation k (\<lambda>op. op\<lparr>ac_telegram_ws_cancelled := True\<rparr>) else State_Monad.return ());
       op \<leftarrow> my (operation k);
       State_Monad.return (if ac_telegram_ws_cancelled op then kCancelled else kNone_interruption)
     }
   }"

text \<open>The two callbacks of the watcher.\<close>

definition maintain_telegram_interrupted :: "nat \<Rightarrow> OperationInterruption dispatcher_action" where
  "maintain_telegram_interrupted k = do {
     op \<leftarrow> my (operation k);
     State_Monad.return (if ac_cancelled op \<or> ac_telegram_ws_cancelled op then kCancelled else kNone_interruption)
   }"

definition maintain_dpi_interrupted :: "env \<Rightarrow> nat \<Rightarrow> OperationInterruption dispatcher_action" where
  "maintain_dpi_interrupted e k = do {
     RefreshBoundNetwork e (Some k);
     d \<leftarrow> my id;
     (if dp_active d \<noteq> Some k \<or> dp_closing d
      then on_operation k (\<lambda>op. op\<lparr>ac_local_dpi_cancelled := True\<rparr>) else State_Monad.return ());
     op \<leftarrow> my (operation k);
     lapsed \<leftarrow> (case ac_bound op of None \<Rightarrow> State_Monad.return False | Some bound \<Rightarrow> deadline_lapsed e op bound);
     (if lapsed then on_operation k (Interrupt kDeadline) else State_Monad.return ());
     op1 \<leftarrow> my (operation k);
     State_Monad.return (if ac_cancelled op1 \<or> ac_local_dpi_cancelled op1 then kCancelled else kNone_interruption)
   }"

text \<open>\<open>current\<close> of the bound runtime control, and the callback around it.\<close>

definition control_current :: "env \<Rightarrow> nat \<Rightarrow> CancellationTarget \<Rightarrow> string \<Rightarrow> u64 \<Rightarrow> bool dispatcher_action" where
  "control_current e k target profile_digest deadline = do {
     d \<leftarrow> my id;
     let op = operation k d;
     case (ac_bound op, ac_network_revision op) of
       (Some bound, Some revision) \<Rightarrow>
         if dp_active d \<noteq> Some k \<or> \<not> SameTarget (ac_target op) target \<or> ac_cancelled op \<or> ac_deadline_expired op \<or>
            ac_cleanup_attempted op then State_Monad.return False
         else do {
           same \<leftarrow> ask_bool e (SessionIo (NetworkCurrent revision));
           if \<not> same \<or> bc_profile_digest bound \<noteq> profile_digest then State_Monad.return False
           else do {
             timely \<leftarrow> (if ac_ordinary_control_handoff op then State_Monad.return True else IsConnectDeadlineCurrent e bound);
             now \<leftarrow> (if timely then ask_u64 e TickCount else State_Monad.return deadline);
             stop \<leftarrow> (if now < deadline then ask_bool e (SessionIo StopEventSet) else State_Monad.return True);
             State_Monad.return (\<not> stop)
           }
         }
     | _ \<Rightarrow> State_Monad.return False
   }"

definition control_interrupted :: "env \<Rightarrow> nat \<Rightarrow> CancellationTarget \<Rightarrow> string \<Rightarrow> u64 \<Rightarrow> OperationInterruption dispatcher_action" where
  "control_interrupted e k target profile_digest deadline = do {
     current \<leftarrow> control_current e k target profile_digest deadline;
     if current then State_Monad.return kNone_interruption
     else do {
       op \<leftarrow> my (operation k);
       expired \<leftarrow> (case ac_bound op of
           None \<Rightarrow> State_Monad.return False
         | Some bound \<Rightarrow> do {
             lapsed \<leftarrow> (if ac_deadline_expired op then State_Monad.return True
                       else if ac_ordinary_control_handoff op then State_Monad.return False
                       else do { timely \<leftarrow> IsConnectDeadlineCurrent e bound; State_Monad.return (\<not> timely) });
             if lapsed then State_Monad.return True
             else do { now \<leftarrow> ask_u64 e TickCount; State_Monad.return (deadline \<le> now) }
           });
       State_Monad.return (if expired then kDeadlineExceeded_interruption else kCancelled)
     }
   }"

section \<open>Interleaving\<close>

text \<open>The atomic sections that may run while another session holds the execution lock.\<close>

datatype (plugins only: code size) session_step =
    StepCancel string | StepSignal CancellationTarget | StepRefresh nat | StepStatus | StepExpired Frame
  | StepBusy Frame | StepMaintenance nat bool | StepDeadline nat
  | StepConnectCallback nat u64 | StepTelegramCallback nat u64 | StepMaintainCallback nat
  | StepClose | StepRegister Frame CandidateProbeRequest | StepRetire nat | StepCancelProbe string

definition check_deadline :: "env \<Rightarrow> nat \<Rightarrow> unit dispatcher_action" where
  "check_deadline e k = do {
     op \<leftarrow> my (operation k);
     lapsed \<leftarrow> (case ac_bound op of None \<Rightarrow> State_Monad.return False | Some bound \<Rightarrow> deadline_lapsed e op bound);
     if lapsed then on_operation k (Interrupt kDeadline) else State_Monad.return ()
   }"

definition start_closing :: "unit dispatcher_action" where
  "start_closing = change (\<lambda>d. d\<lparr>dp_closing := True,
     dp_egress_check_cancelled := map_option (\<lambda>_. True) (dp_egress_check_cancelled d)\<rparr>)"

definition unit_of :: "'a dispatcher_action \<Rightarrow> unit dispatcher_action" where
  "unit_of m = do { m; State_Monad.return () }"

fun session_do :: "env \<Rightarrow> session_step \<Rightarrow> unit dispatcher_action" where
  "session_do e (StepCancel body) = unit_of (Cancel body)"
| "session_do e (StepSignal target) = unit_of (signal_cancel target)"
| "session_do e (StepRefresh k) = RefreshBoundNetwork e (Some k)"
| "session_do e StepStatus = unit_of (Status_request e)"
| "session_do e (StepExpired frame) = stop_target frame"
| "session_do e (StepBusy frame) = unit_of (busy_request e frame)"
| "session_do e (StepMaintenance k active) = on_operation k (\<lambda>op. op\<lparr>ac_local_dpi_maintenance_active := active\<rparr>)"
| "session_do e (StepDeadline k) = check_deadline e k"
| "session_do e (StepConnectCallback k deadline) = unit_of (connect_interrupted e k deadline)"
| "session_do e (StepTelegramCallback k deadline) = unit_of (telegram_interrupted e k deadline)"
| "session_do e (StepMaintainCallback k) = unit_of (maintain_dpi_interrupted e k)"
| "session_do e StepClose = start_closing"
| "session_do e (StepRegister frame request) = unit_of (register_probe frame request)"
| "session_do e (StepRetire key) = retire_probe key"
| "session_do e (StepCancelProbe body) = unit_of (CancelCandidateProbe body)"

fun session_steps :: "env \<Rightarrow> session_step list \<Rightarrow> unit dispatcher_action" where
  "session_steps e [] = State_Monad.return ()"
| "session_steps e (step # steps) = do { session_do e step; session_steps e steps }"

type_synonym schedule = "trace \<Rightarrow> session_step list"

definition others :: "env \<Rightarrow> schedule \<Rightarrow> unit dispatcher_action" where
  "others e sch = do {
     steps \<leftarrow> ask (\<lambda>t _. sch t) (\<lambda>_. AUnit) (SessionIo OtherSessions);
     session_steps e steps
   }"

text \<open>A call to the host during which other sessions run, and the snapshot that follows it.\<close>

definition shared_call :: "env \<Rightarrow> schedule \<Rightarrow> 'a host_action \<Rightarrow> 'a dispatcher_action" where
  "shared_call e sch m = do {
     r \<leftarrow> runtime_call m;
     others e sch;
     State_Monad.return r
   }"

definition take_snapshot :: "env \<Rightarrow> unit dispatcher_action" where
  "take_snapshot e = do {
     snapshot \<leftarrow> runtime_call (Snapshot e);
     change (\<lambda>d. d\<lparr>dp_snapshot := snapshot\<rparr>)
   }"

abbreviation shows_phase :: "string \<Rightarrow> RuntimeDispatcher \<Rightarrow> bool" where
  "shows_phase phase d \<equiv> starts_with (''phase='' @ phase @ '';'') (rr_body (dp_snapshot d))"

section \<open>Cancellation\<close>

text \<open>The part of \<^verbatim>\<open>CancelAndConfirm\<close> under the execution lock.\<close>

definition confirm_cancel :: "env \<Rightarrow> schedule \<Rightarrow> CancellationTarget \<Rightarrow> nat \<Rightarrow> RuntimeResult dispatcher_action" where
  "confirm_cancel e sch target k = do {
     d \<leftarrow> my id;
     if (case dp_stopped d of Some stopped \<Rightarrow> SameTarget stopped target | None \<Rightarrow> False)
     then State_Monad.return (result kOk ''settled=1'')
     else if dp_active d \<noteq> Some k then State_Monad.return (result kOk ''settled=0'')
     else do {
       on_operation k (\<lambda>op. op\<lparr>ac_cleanup_attempted := True\<rparr>);
       r \<leftarrow> shared_call e sch (Disconnect e True);
       take_snapshot e;
       if rr_status r \<noteq> kOk then State_Monad.return (result kOk ''settled=0'')
       else do {
         RetireConnect;
         State_Monad.return (result kOk ''settled=1'')
       }
     }
   }"

definition CancelAndConfirm :: "env \<Rightarrow> schedule \<Rightarrow> string \<Rightarrow> RuntimeResult dispatcher_action" where
  "CancelAndConfirm e sch body =
     (case DecodeCancellationTarget body of
        None \<Rightarrow> State_Monad.return (result kInvalid ''invalid_cancellation_target'')
      | Some target \<Rightarrow> do {
          signalled \<leftarrow> signal_cancel target;
          case signalled of
            Inl r \<Rightarrow> State_Monad.return r
          | Inr k \<Rightarrow> do {
              others e sch;
              confirm_cancel e sch target k
            }
        })"

section \<open>The watcher\<close>

definition CheckRunningEgress :: "env \<Rightarrow> schedule \<Rightarrow> unit dispatcher_action" where
  "CheckRunningEgress e sch = do {
     d \<leftarrow> my id;
     if dp_closing d then State_Monad.return ()
     else if \<not> CanRecheckEgress (dp_runtime d) then change (\<lambda>d. d\<lparr>dp_next_egress_check := 0\<rparr>)
     else do {
       now \<leftarrow> ask_u64 e TickCount;
       (if dp_next_egress_check d = 0
        then change (\<lambda>d. d\<lparr>dp_next_egress_check := now + dp_egress_interval d\<rparr>) else State_Monad.return ());
       next \<leftarrow> my dp_next_egress_check;
       if now < next then State_Monad.return ()
       else do {
         change (\<lambda>d. d\<lparr>dp_egress_check_cancelled := Some False\<rparr>);
         others e sch;
         shared_call e sch (RecheckEgress e (callback 6 0));
         again \<leftarrow> ask_u64 e TickCount;
         change (\<lambda>d. d\<lparr>dp_next_egress_check := again + dp_egress_interval d\<rparr>);
         d1 \<leftarrow> my id;
         (if dp_egress_check_cancelled d1 \<noteq> Some True \<and> \<not> dp_closing d1 then take_snapshot e else State_Monad.return ());
         change (\<lambda>d. d\<lparr>dp_egress_check_cancelled := None\<rparr>)
       }
     }
   }"

text \<open>
  What the watcher reads in its first section: the operation, and whether it watches the bound
  owner, the owner of the local DPI and the owner of the Telegram holders.
\<close>

record Watched =
  wa_operation :: "nat option"
  wa_bound :: bool
  wa_dpi :: bool
  wa_telegram :: bool

definition watch_capture :: "RuntimeDispatcher \<Rightarrow> Watched" where
  "watch_capture d =
     (case dp_active d of
        None \<Rightarrow> \<lparr>wa_operation = None, wa_bound = False, wa_dpi = False, wa_telegram = False\<rparr>
      | Some k \<Rightarrow>
          (let op = operation k d; open = (\<not> ac_cleanup_attempted op)
           in \<lparr>wa_operation = Some k, wa_bound = (ac_bound op \<noteq> None \<and> open), wa_dpi = (ac_local_dpi_owner op \<and> open),
               wa_telegram = (ac_telegram_ws_owner op \<and> open)\<rparr>))"

text \<open>The maintenance under the execution lock, and whether the bound owner is still watched.\<close>

definition watch_maintain :: "env \<Rightarrow> schedule \<Rightarrow> nat \<Rightarrow> bool \<Rightarrow> bool \<Rightarrow> bool dispatcher_action" where
  "watch_maintain e sch k watch_bound watch_telegram = do {
     had_dpi \<leftarrow> my (\<lambda>d. HasWindowsLocalDpi (dp_runtime d));
     (if watch_telegram then unit_of (shared_call e sch (MaintainTelegramWS e (callback 3 k))) else State_Monad.return ());
     shared_call e sch (MaintainWindowsLocalDpi e (callback 2 k));
     on_operation k (\<lambda>op. op\<lparr>ac_local_dpi_maintenance_active := False\<rparr>);
     take_snapshot e;
     d \<leftarrow> my id;
     if dp_active d = Some k \<and> shows_phase ''recovery_required'' d then do {
       on_operation k (\<lambda>op. op\<lparr>ac_cleanup_attempted := True\<rparr>);
       State_Monad.return False
     }
     else if dp_active d = Some k \<and> \<not> HasWindowsLocalDpi (dp_runtime d) \<and> \<not> HasTelegramWS (dp_runtime d) \<and>
       \<not> shows_phase ''recovery_required'' d \<and>
       (ac_bound (operation k d) = None \<or> (had_dpi \<and> \<not> shows_phase ''running'' d)) then do {
       RetireConnect;
       State_Monad.return False
     }
     else State_Monad.return watch_bound
   }"

text \<open>The end of an interrupted bound operation.\<close>

definition watch_cleanup :: "env \<Rightarrow> schedule \<Rightarrow> nat \<Rightarrow> unit dispatcher_action" where
  "watch_cleanup e sch k = do {
     d \<leftarrow> my id;
     if dp_closing d \<or> dp_active d \<noteq> Some k \<or> ac_cleanup_attempted (operation k d) then State_Monad.return ()
     else do {
       on_operation k (\<lambda>op. op\<lparr>ac_cleanup_attempted := True\<rparr>);
       stopped \<leftarrow> shared_call e sch (Disconnect e True);
       take_snapshot e;
       if rr_status stopped \<noteq> kOk then State_Monad.return ()
       else do {
         change (\<lambda>d. d\<lparr>dp_snapshot :=
           WithFailure (dp_snapshot d) (FailureStatus (operation k d)) (FailureCode (operation k d))\<rparr>);
         RetireConnect
       }
     }
   }"

text \<open>The round of the watcher from what it captured on; the lock is free when it asks for it.\<close>

definition watch_round :: "env \<Rightarrow> schedule \<Rightarrow> Watched \<Rightarrow> unit dispatcher_action" where
  "watch_round e sch w =
     (case wa_operation w of
        None \<Rightarrow> CheckRunningEgress e sch
      | Some k \<Rightarrow> do {
          bound_watched \<leftarrow> (if \<not> wa_dpi w \<and> \<not> wa_telegram w then State_Monad.return (Some (wa_bound w))
            else do {
              RefreshBoundNetwork e (Some k);
              d \<leftarrow> my id;
              if dp_active d \<noteq> Some k \<or> dp_closing d then State_Monad.return None
              else do {
                on_operation k (\<lambda>op. op\<lparr>ac_local_dpi_maintenance_active := wa_dpi w\<rparr>);
                others e sch;
                d1 \<leftarrow> my id;
                if dp_active d1 \<noteq> Some k \<or> dp_closing d1 then do {
                  on_operation k (\<lambda>op. op\<lparr>ac_local_dpi_maintenance_active := False\<rparr>);
                  State_Monad.return None
                }
                else do {
                  watched \<leftarrow> watch_maintain e sch k (wa_bound w) (wa_telegram w);
                  State_Monad.return (Some watched)
                }
              }
            });
          case bound_watched of
            None \<Rightarrow> State_Monad.return ()
          | Some False \<Rightarrow> CheckRunningEgress e sch
          | Some True \<Rightarrow> do {
              RefreshBoundNetwork e (Some k);
              check_deadline e k;
              op \<leftarrow> my (operation k);
              if \<not> ac_cancelled op \<and> \<not> ac_deadline_expired op
              then (if ac_ordinary_control_handoff op then CheckRunningEgress e sch else State_Monad.return ())
              else watch_cleanup e sch k
            }
        })"

definition WatchBoundConnect :: "env \<Rightarrow> schedule \<Rightarrow> unit dispatcher_action" where
  "WatchBoundConnect e sch = do {
     d \<leftarrow> my id;
     if dp_closing d then State_Monad.return ()
     else do {
       others e sch;
       watch_round e sch (watch_capture d)
     }
   }"

section \<open>Requests that do not use the host\<close>

text \<open>
  \<open>interrupted\<close> of a candidate probe and of a network observation.  The answer of
  \<open>PipeConnected\<close> also stands for a request without a pipe.
\<close>

definition session_interrupted :: "env \<Rightarrow> u64 \<Rightarrow> u64 \<Rightarrow> ('c, OperationInterruption) action" where
  "session_interrupted e revision deadline = do {
     stop \<leftarrow> ask_bool e (SessionIo StopEventSet);
     same \<leftarrow> (if stop then State_Monad.return False else ask_bool e (SessionIo (CandidateCurrent revision)));
     connected \<leftarrow> (if same then ask_bool e (SessionIo PipeConnected) else State_Monad.return False);
     if \<not> connected then State_Monad.return kCancelled
     else do {
       now \<leftarrow> ask_u64 e TickCount;
       State_Monad.return (if deadline \<le> now then kDeadlineExceeded_interruption else kNone_interruption)
     }
   }"

definition probe_interrupted :: "env \<Rightarrow> nat \<Rightarrow> u64 \<Rightarrow> u64 \<Rightarrow> OperationInterruption dispatcher_action" where
  "probe_interrupted e key revision deadline = do {
     cancelled \<leftarrow> my (probe_cancelled key);
     if cancelled then State_Monad.return kCancelled else session_interrupted e revision deadline
   }"

definition read_candidate :: "env \<Rightarrow> ('c, CandidateNetworkContext option) action" where
  "read_candidate e = ask (env_candidate e) ACandidate (SessionIo ReadCandidateNetwork)"

definition printable :: "string \<Rightarrow> bool" where
  "printable s \<longleftrightarrow> list_all (\<lambda>c. 32 \<le> (of_char c :: nat) \<and> (of_char c :: nat) \<le> 126) s"

definition run_probe :: "env \<Rightarrow> schedule \<Rightarrow> nat \<Rightarrow> CandidateProbeRequest \<Rightarrow> RuntimeResult dispatcher_action" where
  "run_probe e sch key request = do {
     others e sch;
     core \<leftarrow> my (\<lambda>d. CandidateProbeCore (dp_runtime d));
     if \<not> core then State_Monad.return (probe_failed ''unavailable'')
     else do {
       network \<leftarrow> read_candidate e;
       case network of
         None \<Rightarrow> State_Monad.return (probe_failed ''network_changed'')
       | Some context \<Rightarrow>
           if sc_reference (cn_network context) \<noteq> cp_network_context_ref request
           then State_Monad.return (probe_failed ''network_changed'')
           else do {
             probed \<leftarrow> ask_text e (SessionIo (CoreProbeCandidate request (cn_bind_interface context)));
             others e sch;
             same \<leftarrow> ask_bool e (SessionIo (CandidateCurrent (sc_revision (cn_network context))));
             cancelled \<leftarrow> my (probe_cancelled key);
             State_Monad.return
               (if probed = [] \<or> kMaxCandidateProbeResultBodySize < length probed \<or> \<not> printable probed
                then probe_failed (if \<not> same then ''network_changed'' else if cancelled then ''cancelled'' else ''unavailable'')
                else if \<not> same \<or> cancelled then
                  (let stopped = CancelWindowsCandidateProbeResult e probed (\<not> same)
                   in if stopped = [] then probe_failed (if \<not> same then ''network_changed'' else ''cancelled'')
                      else result kOk stopped)
                else result kOk probed)
           }
     }
   }"

definition ProbeCandidate :: "env \<Rightarrow> schedule \<Rightarrow> Frame \<Rightarrow> RuntimeResult dispatcher_action" where
  "ProbeCandidate e sch frame =
     (case DecodeCandidateProbe (fr_body frame) of
        None \<Rightarrow> State_Monad.return (result kInvalid ''invalid_probe_request'')
      | Some request \<Rightarrow> do {
          registered \<leftarrow> register_probe frame request;
          case registered of
            None \<Rightarrow> State_Monad.return (probe_failed ''unavailable'')
          | Some key \<Rightarrow> do {
              r \<leftarrow> run_probe e sch key request;
              retire_probe key;
              State_Monad.return r
            }
        })"

definition observe_network :: "env \<Rightarrow> string \<Rightarrow> u64 \<Rightarrow> ('c, RuntimeResult) action" where
  "observe_network e body deadline =
     (case DecodeNetworkObservation body of
        None \<Rightarrow> State_Monad.return (result kInvalid ''invalid_network_observation'')
      | Some observation \<Rightarrow> do {
          context \<leftarrow> read_candidate e;
          case context of
            None \<Rightarrow> State_Monad.return (result kOk ''unavailable;unknown'')
          | Some c \<Rightarrow> do {
              status \<leftarrow> ask_text e (SessionIo (ObserveContext observation (cn_network_class c) (cn_bind_interface c)));
              reason \<leftarrow> session_interrupted e (sc_revision (cn_network c)) deadline;
              State_Monad.return (if reason \<noteq> kNone_interruption then result kOk ''unavailable;unknown''
                else result kOk (status @ '';'' @ cn_network_class c))
            }
        })"

definition candidate_text :: "CandidateNetworkContext \<Rightarrow> string" where
  "candidate_text c = cn_selection_key c @ '';'' @ sc_reference (cn_network c) @ '';'' @ cn_network_class c @ '';'' @
     (case cn_ipv6_available c of Some available \<Rightarrow> bit_text available | None \<Rightarrow> ''unknown'')"

text \<open>The requests that \<^verbatim>\<open>Execute\<close> answers before it asks for the execution lock; \<^term>\<open>None\<close> for the others.\<close>

definition answer_without_lock :: "env \<Rightarrow> schedule \<Rightarrow> Frame \<Rightarrow> u64 \<Rightarrow> RuntimeResult option dispatcher_action" where
  "answer_without_lock e sch frame deadline =
     (case fr_command frame of
        kProbeCandidate \<Rightarrow> returning (ProbeCandidate e sch frame)
      | kCancelCandidateProbe \<Rightarrow> returning (CancelCandidateProbe (fr_body frame))
      | kObserveNetworkContext \<Rightarrow> returning (observe_network e (fr_body frame) deadline)
      | kReadCandidateNetwork \<Rightarrow>
          if fr_body frame \<noteq> [] then State_Monad.return (Some (result kInvalid ''invalid_network_context_request''))
          else do {
            context \<leftarrow> read_candidate e;
            State_Monad.return (Some (result kOk (case context of Some c \<Rightarrow> candidate_text c | None \<Rightarrow> ''unavailable'')))
          }
      | kCancel \<Rightarrow> returning (Cancel (fr_body frame))
      | kCancelConnectAndConfirm \<Rightarrow> returning (CancelAndConfirm e sch (fr_body frame))
      | kReadBootClock \<Rightarrow>
          if fr_body frame \<noteq> [] then State_Monad.return (Some (result kInvalid ''runtime_clock_invalid_request''))
          else do {
            clock \<leftarrow> ReadBootClockJson e;
            State_Monad.return (Some (case clock of Some text \<Rightarrow> result kOk text
              | None \<Rightarrow> result kNotReady ''runtime_clock_unavailable''))
          }
      | kReadTransportNetworkContext \<Rightarrow>
          if fr_body frame \<noteq> [] then State_Monad.return (Some (result kInvalid ''invalid_network_context_request''))
          else do {
            context \<leftarrow> ask (env_context e) AContext (SessionIo ReadNetworkContext);
            State_Monad.return (Some (case context of Some c \<Rightarrow> result kOk (sc_reference c)
              | None \<Rightarrow> result kNotReady ''network_context_unavailable''))
          }
      | kDiagnosticState \<Rightarrow>
          if fr_body frame \<noteq> [] then State_Monad.return (Some (result kInvalid ''invalid_diagnostic_request''))
          else returning (CrashDiagnostics e)
      | kStatus \<Rightarrow> returning (Status_request e)
      | _ \<Rightarrow> State_Monad.return None)"

section \<open>The network of a request\<close>

text \<open>The revision of the bound context; the outer \<^term>\<open>None\<close> when the context is not the one asked for.\<close>

definition bound_revision :: "env \<Rightarrow> Command \<Rightarrow> BoundConnectTarget option \<Rightarrow> ('c, u64 option option) action" where
  "bound_revision e command bound =
     (if bound = None \<and> command \<noteq> kReplaceManagedProfile then State_Monad.return (Some None)
      else do {
        context \<leftarrow> ask (env_context e) AContext (SessionIo ReadNetworkContext);
        case context of
          None \<Rightarrow> State_Monad.return None
        | Some c \<Rightarrow>
            if (case bound of Some b \<Rightarrow> sc_reference c \<noteq> bc_network_context_ref b | None \<Rightarrow> False)
            then State_Monad.return None
            else do {
              same \<leftarrow> ask_bool e (SessionIo (NetworkCurrent (sc_revision c)));
              State_Monad.return (if same then Some (Some (sc_revision c)) else None)
            }
      })"

text \<open>The candidate network for local DPI or Telegram, when it is current and the one asked for.\<close>

definition local_dpi_context :: "env \<Rightarrow> BoundConnectTarget option \<Rightarrow> ('c, CandidateNetworkContext option) action" where
  "local_dpi_context e bound = do {
     context \<leftarrow> read_candidate e;
     case context of
       None \<Rightarrow> State_Monad.return None
     | Some c \<Rightarrow> do {
         same \<leftarrow> ask_bool e (SessionIo (CandidateCurrent (sc_revision (cn_network c))));
         State_Monad.return (if same \<and>
           (case bound of Some b \<Rightarrow> sc_reference (cn_network c) = bc_network_context_ref b | None \<Rightarrow> True)
           then Some c else None)
       }
   }"

section \<open>Transport leases\<close>

text \<open>\<open>current\<close> of a promotion.\<close>

definition promotion_current :: "env \<Rightarrow> nat \<Rightarrow> TransportLeasePromotion \<Rightarrow> u64 \<Rightarrow> bool dispatcher_action" where
  "promotion_current e k promotion deadline = do {
     d \<leftarrow> my id;
     let op = operation k d;
     case (ac_bound op, ac_network_revision op) of
       (Some bound, Some revision) \<Rightarrow>
         if dp_active d \<noteq> Some k \<or> \<not> SameTarget (ac_target op) (tp_target promotion) \<or>
            bc_profile_digest bound \<noteq> tp_profile_digest promotion \<or> ac_cancelled op \<or> ac_deadline_expired op \<or>
            ac_cleanup_attempted op \<or> ac_promoted_until op \<noteq> 0 then State_Monad.return False
         else do {
           same \<leftarrow> ask_bool e (SessionIo (NetworkCurrent revision));
           timely \<leftarrow> (if same then IsConnectDeadlineCurrent e bound else State_Monad.return False);
           gone \<leftarrow> (if timely then client_gone e op else State_Monad.return True);
           now \<leftarrow> (if gone then State_Monad.return deadline else ask_u64 e TickCount);
           stop \<leftarrow> (if now < deadline then ask_bool e (SessionIo StopEventSet) else State_Monad.return True);
           State_Monad.return (\<not> stop)
         }
     | _ \<Rightarrow> State_Monad.return False
   }"

text \<open>The end of a lease that Core may have accepted.\<close>

definition drop_lease :: "env \<Rightarrow> schedule \<Rightarrow> nat \<Rightarrow> string \<Rightarrow> RuntimeResult dispatcher_action" where
  "drop_lease e sch k failure = do {
     stopped \<leftarrow> shared_call e sch (Disconnect e True);
     take_snapshot e;
     active \<leftarrow> my dp_active;
     (if rr_status stopped = kOk \<and> active = Some k then RetireConnect
      else if active = Some k then on_operation k (\<lambda>op. op\<lparr>ac_cleanup_attempted := True\<rparr>)
      else State_Monad.return ());
     State_Monad.return (result kNotReady failure)
   }"

definition promote_owner :: "env \<Rightarrow> schedule \<Rightarrow> nat \<Rightarrow> TransportLeasePromotion \<Rightarrow> u64 \<Rightarrow> u64 \<Rightarrow> RuntimeResult dispatcher_action" where
  "promote_owner e sch k promotion active_until deadline = do {
     current \<leftarrow> promotion_current e k promotion deadline;
     if \<not> current then State_Monad.return (result kNotReady ''connect_owner_changed'')
     else do {
       others e sch;
       RefreshBoundNetwork e (Some k);
       cancelled \<leftarrow> my (\<lambda>d. ac_cancelled (operation k d));
       if cancelled then State_Monad.return (result kNotReady ''connect_owner_changed'')
       else do {
         r \<leftarrow> shared_call e sch (PromoteTransportLease e promotion);
         RefreshBoundNetwork e (Some k);
         still \<leftarrow> (if rr_status r = kOk then promotion_current e k promotion deadline else State_Monad.return False);
         op \<leftarrow> my (operation k);
         leased \<leftarrow> (case (still, ac_bound op) of
             (True, Some bound) \<Rightarrow> IsActiveTransportLeaseCurrent e bound active_until
           | _ \<Rightarrow> State_Monad.return False);
         if leased then do {
           on_operation k (\<lambda>op. op\<lparr>ac_promoted_until := active_until,
             ac_promoted_lease_ref := tp_endpoint_lease_ref promotion\<rparr>);
           take_snapshot e;
           snapshot \<leftarrow> my dp_snapshot;
           ProjectBoundState e snapshot
         }
         else drop_lease e sch k ''transport_lease_handoff_unconfirmed''
       }
     }
   }"

definition promote_request :: "env \<Rightarrow> schedule \<Rightarrow> string \<Rightarrow> u64 \<Rightarrow> RuntimeResult dispatcher_action" where
  "promote_request e sch body deadline =
     (case DecodeTransportLeasePromotion body of
        None \<Rightarrow> State_Monad.return (result kInvalid ''transport_lease_handoff_invalid'')
      | Some promotion \<Rightarrow> do {
          until \<leftarrow> ActiveTransportLeaseDeadline e promotion;
          case until of
            None \<Rightarrow> State_Monad.return (result kInvalid ''transport_lease_handoff_invalid'')
          | Some active_until \<Rightarrow> do {
              owner \<leftarrow> my dp_active;
              case owner of
                None \<Rightarrow> State_Monad.return (result kNotReady ''connect_owner_changed'')
              | Some k \<Rightarrow> promote_owner e sch k promotion active_until deadline
            }
        })"

text \<open>Whether the active operation holds the lease that is to be revoked.\<close>

definition holds_lease :: "env \<Rightarrow> nat \<Rightarrow> TransportLeaseRevocation \<Rightarrow> u64 \<Rightarrow> bool dispatcher_action" where
  "holds_lease e k revocation deadline = do {
     op \<leftarrow> my (operation k);
     case ac_bound op of
       None \<Rightarrow> State_Monad.return False
     | Some bound \<Rightarrow>
         if \<not> SameTarget (ac_target op) (tr_target revocation) \<or> bc_profile_digest bound \<noteq> tr_profile_digest revocation \<or>
            ac_promoted_lease_ref op \<noteq> tr_endpoint_lease_ref revocation \<or> ac_promoted_until op = 0 \<or>
            ac_transport_terminated op \<or> ac_cancelled op \<or> ac_deadline_expired op \<or> ac_cleanup_attempted op
         then State_Monad.return False
         else do {
           gone \<leftarrow> client_gone e op;
           now \<leftarrow> (if gone then State_Monad.return deadline else ask_u64 e TickCount);
           stop \<leftarrow> (if deadline \<le> now then State_Monad.return True else ask_bool e (SessionIo StopEventSet));
           State_Monad.return (\<not> stop)
         }
   }"

definition revoke_owner :: "env \<Rightarrow> schedule \<Rightarrow> nat \<Rightarrow> TransportLeaseRevocation \<Rightarrow> u64 \<Rightarrow> RuntimeResult dispatcher_action" where
  "revoke_owner e sch k revocation deadline = do {
     held \<leftarrow> holds_lease e k revocation deadline;
     if \<not> held then State_Monad.return (result kNotReady ''connect_owner_changed'')
     else do {
       others e sch;
       RefreshBoundNetwork e (Some k);
       d \<leftarrow> my id;
       if ac_cancelled (operation k d) \<or>
          (tr_terminate_active revocation \<and> (dp_active d \<noteq> Some k \<or> ac_deadline_expired (operation k d)))
       then State_Monad.return (result kNotReady ''connect_owner_changed'')
       else do {
         (if tr_terminate_active revocation
          then on_operation k (\<lambda>op. op\<lparr>ac_transport_terminated := True\<rparr>) else State_Monad.return ());
         r \<leftarrow> shared_call e sch (RevokeTransportLease e revocation);
         RefreshBoundNetwork e (Some k);
         d1 \<leftarrow> my id;
         if rr_status r = kOk \<and> dp_active d1 = Some k \<and> \<not> ac_cancelled (operation k d1) \<and>
            \<not> ac_deadline_expired (operation k d1) \<and>
            ac_promoted_lease_ref (operation k d1) = tr_endpoint_lease_ref revocation
         then do {
           take_snapshot e;
           snapshot \<leftarrow> my dp_snapshot;
           ProjectBoundState e snapshot
         }
         else drop_lease e sch k ''transport_lease_revocation_unconfirmed''
       }
     }
   }"

definition revoke_request :: "env \<Rightarrow> schedule \<Rightarrow> string \<Rightarrow> u64 \<Rightarrow> RuntimeResult dispatcher_action" where
  "revoke_request e sch body deadline =
     (case DecodeTransportLeaseRevocation body of
        None \<Rightarrow> State_Monad.return (result kInvalid ''transport_lease_revocation_invalid'')
      | Some revocation \<Rightarrow> do {
          owner \<leftarrow> my dp_active;
          case owner of
            None \<Rightarrow> State_Monad.return (result kNotReady ''connect_owner_changed'')
          | Some k \<Rightarrow> revoke_owner e sch k revocation deadline
        })"

section \<open>Bound runtime control\<close>

definition control_owner :: "env \<Rightarrow> schedule \<Rightarrow> nat \<Rightarrow> CancellationTarget \<Rightarrow> string \<Rightarrow> u64 \<Rightarrow> RuntimeResult dispatcher_action" where
  "control_owner e sch k target body deadline = do {
     current \<leftarrow> control_current e k target (take 64 body) deadline;
     if \<not> current then State_Monad.return (result kNotReady ''connect_owner_changed'')
     else do {
       others e sch;
       RefreshBoundNetwork e (Some k);
       cancelled \<leftarrow> my (\<lambda>d. ac_cancelled (operation k d));
       if cancelled then State_Monad.return (result kNotReady ''connect_owner_changed'')
       else do {
         r \<leftarrow> shared_call e sch (ConfigureSmartAccessRuntimeControl e body False (callback 4 k));
         RefreshBoundNetwork e (Some k);
         take_snapshot e;
         still \<leftarrow> control_current e k target (take 64 body) deadline;
         op \<leftarrow> my (operation k);
         (if still \<and> \<not> ac_requires_transport_lease op \<and> rr_status r = kOk \<and> rr_body r = ''configured=1'' \<and>
             IsWindowsFirstProviderQaRuntimeControl e (drop 65 body)
          then on_operation k (\<lambda>op. op\<lparr>ac_ordinary_control_handoff := True\<rparr>) else State_Monad.return ());
         finally \<leftarrow> control_current e k target (take 64 body) deadline;
         State_Monad.return (if finally then r else result kNotReady ''connect_owner_changed'')
       }
     }
   }"

definition control_request :: "env \<Rightarrow> schedule \<Rightarrow> string \<Rightarrow> u64 \<Rightarrow> RuntimeResult dispatcher_action" where
  "control_request e sch body deadline =
     (if \<not> IsBoundSmartAccessRuntimeControl body then State_Monad.return (result kInvalid ''invalid_runtime_control'')
      else do {
        owner \<leftarrow> my dp_active;
        case (owner, DecodeCancellationTarget (take 64 body)) of
          (Some k, Some target) \<Rightarrow> control_owner e sch k target (drop 65 body) deadline
        | _ \<Rightarrow> State_Monad.return (result kNotReady ''connect_owner_changed'')
      })"

section \<open>Commands of the host\<close>

text \<open>
  The process of the client, and the network that stays usable; \<^term>\<open>None\<close> when a bound request
  has no living client.  A process identifier or a handle of zero is a failed call.
\<close>

definition claim_client :: "env \<Rightarrow> Frame \<Rightarrow> bool \<Rightarrow> CandidateNetworkContext option \<Rightarrow>
    (int option \<times> CandidateNetworkContext option) option dispatcher_action" where
  "claim_client e frame bound network =
     (if \<not> bound \<and> network = None then State_Monad.return (Some (None, None))
      else do {
        pid \<leftarrow> ask_int e (SessionIo PipeClientProcess);
        handle \<leftarrow> (if pid = 0 then State_Monad.return 0 else ask_int e (SessionIo (OpenClient pid)));
        running \<leftarrow> (if handle = 0 then State_Monad.return False else ask_bool e (SessionIo (ClientRunning handle)));
        if running then State_Monad.return (Some (Some handle, network))
        else do {
          stop_target frame;
          State_Monad.return (if bound then None else Some (if handle = 0 then None else Some handle, None))
        }
      })"

text \<open>Commands that a bound owner excludes.\<close>

definition excluded_by_owner :: "Command \<Rightarrow> bool" where
  "excluded_by_owner command \<longleftrightarrow> IsConnectCommand command \<or> command = kInitialize \<or> command = kStageProfile \<or>
     command = kStageBoundProfile \<or> command = kInvalidateProfile"

definition bound_active :: "RuntimeDispatcher \<Rightarrow> bool" where
  "bound_active d = (case dp_active d of Some k \<Rightarrow> ac_bound (operation k d) \<noteq> None | None \<Rightarrow> False)"

text \<open>Commands whose pending state is the state of the host.\<close>

definition control_command :: "Command \<Rightarrow> bool" where
  "control_command command \<longleftrightarrow> command \<in> {kRevokeSmartAccessLease, kRevokeRoutingCatalog, kRevokeSmartAccessPolicy,
     kRevokeRoutingCatalogService, kRenewSmartAccessLease, kConfigureSmartAccessRuntimeControl, kReadSmartAccessRestrictions,
     kAcknowledgeSmartAccessRestrictions, kReadSmartAccessLeases, kConfigureSmartAccessRenewal}"

text \<open>What a connect knows when it becomes the active operation.\<close>

record Claim =
  cl_bound :: "BoundConnectTarget option"
  cl_revision :: "u64 option"
  cl_network :: "CandidateNetworkContext option"
  cl_client :: "int option"
  cl_requests_dpi :: bool
  cl_requests_telegram :: bool

definition new_operation :: "Frame \<Rightarrow> Claim \<Rightarrow> RuntimeHost \<Rightarrow> RuntimeResult \<Rightarrow> ActiveConnect" where
  "new_operation frame claim h stopping =
     (let telegram = (cl_requests_telegram claim \<and> cl_network claim \<noteq> None)
      in \<lparr>ac_target = frame_target frame, ac_interruption = kNone_cause, ac_cancelled = False, ac_deadline_expired = False,
          ac_bound = cl_bound claim, ac_requires_transport_lease = (cl_bound claim \<noteq> None \<and> rh_requires_bound_connect h),
          ac_ordinary_control_handoff = False, ac_promoted_until = 0, ac_transport_terminated = False,
          ac_promoted_lease_ref = [], ac_network_revision = cl_revision claim, ac_client_process = cl_client claim,
          ac_stopping_snapshot = stopping, ac_cleanup_attempted = False,
          ac_protected_handoff = (fr_command frame = kReplaceManagedProfile \<or> TransitionGuardArmed h),
          ac_local_dpi_owner = (cl_requests_dpi claim \<and> cl_network claim \<noteq> None), ac_local_dpi_cancelled = False,
          ac_local_dpi_maintenance_active = False, ac_telegram_ws_owner = telegram,
          ac_telegram_ws_network_revision =
            (if telegram then map_option (\<lambda>c. sc_revision (cn_network c)) (cl_network claim) else None),
          ac_telegram_ws_cancelled = False\<rparr>)"

text \<open>The section that makes a connect the active operation: a refusal, or the operation of the request.\<close>

definition claim_operation :: "env \<Rightarrow> Frame \<Rightarrow> Claim \<Rightarrow> (RuntimeResult + nat option) dispatcher_action" where
  "claim_operation e frame claim = do {
     d \<leftarrow> my id;
     if bound_active d \<and> excluded_by_owner (fr_command frame) then do {
       (if cl_bound claim \<noteq> None then stop_target frame else State_Monad.return ());
       answer \<leftarrow> ProjectBoundState e (WithFailure (dp_snapshot d) kNotReady ''runtime_busy'');
       State_Monad.return (Inl answer)
     }
     else do {
       owner \<leftarrow> (if \<not> IsConnectCommand (fr_command frame) then State_Monad.return None
         else do {
           stopping \<leftarrow> (if cl_bound claim \<noteq> None then runtime_call (PendingSnapshot e kDisconnect)
                       else State_Monad.return (result kNotReady []));
           change (\<lambda>d. d\<lparr>dp_active := Some (length (dp_operations d)),
             dp_operations := dp_operations d @ [new_operation frame claim (dp_runtime d) stopping]\<rparr>);
           State_Monad.return (Some (length (dp_operations d)))
         });
       snapshot \<leftarrow> runtime_call (if control_command (fr_command frame) then Snapshot e
         else PendingSnapshot e (fr_command frame));
       change (\<lambda>d. d\<lparr>dp_snapshot := snapshot\<rparr>);
       State_Monad.return (Inr owner)
     }
   }"

definition run_command :: "env \<Rightarrow> Frame \<Rightarrow> Claim \<Rightarrow> nat \<Rightarrow> RuntimeResult host_action" where
  "run_command e frame claim k =
     (let body = fr_body frame
      in case fr_command frame of
        kInitialize \<Rightarrow> Initialize e
      | kStageProfile \<Rightarrow> StageProfile e body False
      | kStageBoundProfile \<Rightarrow> StageProfile e body True
      | kInvalidateProfile \<Rightarrow> InvalidateProfile e
      | kReplaceManagedProfile \<Rightarrow> ReplaceManagedProfile e body (callback 0 k) (cl_network claim) (callback 1 k)
      | kConnectWithIdentity \<Rightarrow>
          (case cl_bound claim of
             Some bound \<Rightarrow> ConnectWithIdentity e bound (callback 0 k) (cl_network claim) (callback 1 k)
           | None \<Rightarrow> Connect e body (callback 0 k) (cl_network claim) (callback 1 k))
      | kConnect \<Rightarrow> Connect e body (callback 0 k) (cl_network claim) (callback 1 k)
      | kDisconnect \<Rightarrow> Disconnect e True
      | kRevokeSmartAccessLease \<Rightarrow> RevokeSmartAccessLease e body
      | kRevokeRoutingCatalog \<Rightarrow> RevokeRoutingCatalog e body
      | kRevokeSmartAccessPolicy \<Rightarrow> RevokeSmartAccessPolicy e body
      | kRevokeRoutingCatalogService \<Rightarrow> RevokeRoutingCatalogService e body
      | kRenewSmartAccessLease \<Rightarrow> RenewSmartAccessLease e body
      | kConfigureSmartAccessRuntimeControl \<Rightarrow> ConfigureSmartAccessRuntimeControl e body False NoCheck
      | kConfigureSmartAccessRenewal \<Rightarrow> ConfigureSmartAccessRuntimeControl e body True NoCheck
      | kReadSmartAccessRestrictions \<Rightarrow> ReadSmartAccessRestrictions e
      | kReadSmartAccessLeases \<Rightarrow> ReadSmartAccessLeases e body
      | kAcknowledgeSmartAccessRestrictions \<Rightarrow> AcknowledgeSmartAccessRestrictions e body
      | _ \<Rightarrow> State_Monad.return (result kNotReady ''runtime_not_owned''))"

text \<open>\<^verbatim>\<open>body == code || body.find(";failure=" + code) != npos\<close>\<close>

definition reports :: "RuntimeResult \<Rightarrow> string \<Rightarrow> bool" where
  "reports r code \<longleftrightarrow> rr_body r = code \<or> find_str (rr_body r) ('';failure='' @ code) 0 \<noteq> None"

text \<open>A failure that the host reports for an interruption becomes the failure of the operation.\<close>

definition capture_failure :: "nat \<Rightarrow> RuntimeResult \<Rightarrow> RuntimeResult dispatcher_action" where
  "capture_failure k r = do {
     (if reports r ''operation_cancelled'' then on_operation k (Interrupt kCancelled_cause)
      else if reports r ''connect_deadline'' \<or> reports r ''deadline_exceeded'' then on_operation k (Interrupt kDeadline)
      else State_Monad.return ());
     op \<leftarrow> my (operation k);
     State_Monad.return
       (if reports r ''operation_cancelled'' \<or> reports r ''connect_deadline'' \<or> reports r ''deadline_exceeded''
        then WithFailure r (FailureStatus op) (FailureCode op) else r)
   }"

text \<open>The observations of a connect after the host answered; whether it was interrupted after a success.\<close>

definition observe_after :: "env \<Rightarrow> nat \<Rightarrow> RuntimeResult \<Rightarrow> bool dispatcher_action" where
  "observe_after e k r = do {
     RefreshBoundNetwork e (Some k);
     op \<leftarrow> my (operation k);
     same \<leftarrow> (case ac_network_revision op of
         None \<Rightarrow> State_Monad.return True
       | Some revision \<Rightarrow> revision_current e op revision);
     (if same then State_Monad.return () else on_operation k (Interrupt kNetworkChanged));
     timely \<leftarrow> (case ac_bound op of None \<Rightarrow> State_Monad.return True | Some bound \<Rightarrow> IsConnectDeadlineCurrent e bound);
     (if timely then State_Monad.return () else on_operation k (Interrupt kDeadline));
     op1 \<leftarrow> my (operation k);
     State_Monad.return ((ac_cancelled op1 \<or> ac_deadline_expired op1) \<and> rr_status r = kOk)
   }"

text \<open>Who owns the connection after a command that was not cancelled after its success.\<close>

definition settle_owner :: "env \<Rightarrow> Command \<Rightarrow> nat option \<Rightarrow> bool \<Rightarrow> RuntimeResult \<Rightarrow> unit dispatcher_action" where
  "settle_owner e command owner had_dpi r = do {
     take_snapshot e;
     d \<leftarrow> my id;
     let recovery = shows_phase ''recovery_required'' d;
     let local = (HasWindowsLocalDpi (dp_runtime d) \<or> HasTelegramWS (dp_runtime d));
     case owner of
       Some k \<Rightarrow>
         if (ac_bound (operation k d) = None \<and> \<not> local) \<or> (rr_status r \<noteq> kOk \<and> \<not> recovery) then RetireConnect
         else if rr_status r \<noteq> kOk then on_operation k (\<lambda>op. op\<lparr>ac_cleanup_attempted := True\<rparr>)
         else State_Monad.return ()
     | None \<Rightarrow>
         if command = kDisconnect \<and> rr_status r = kOk then RetireConnect
         else (case dp_active d of
             None \<Rightarrow> State_Monad.return ()
           | Some k \<Rightarrow>
               if had_dpi \<and> ac_local_dpi_owner (operation k d) \<and> recovery
               then on_operation k (\<lambda>op. op\<lparr>ac_cleanup_attempted := True\<rparr>)
               else if ac_local_dpi_owner (operation k d) \<and> \<not> local \<and> \<not> recovery \<and>
                 (ac_bound (operation k d) = None \<or> (had_dpi \<and> \<not> shows_phase ''running'' d))
               then RetireConnect
               else State_Monad.return ())
   }"

text \<open>A connect that was interrupted after its success is undone.\<close>

definition cancel_after_commit :: "env \<Rightarrow> schedule \<Rightarrow> nat \<Rightarrow> RuntimeResult dispatcher_action" where
  "cancel_after_commit e sch k = do {
     protected \<leftarrow> my (\<lambda>d. ac_protected_handoff (operation k d));
     r \<leftarrow> shared_call e sch (if protected then CancelProtectedHandoff e else Disconnect e True);
     op \<leftarrow> my (operation k);
     take_snapshot e;
     d \<leftarrow> my id;
     (if ac_bound op \<noteq> None \<and> shows_phase ''recovery_required'' d
      then on_operation k (\<lambda>op. op\<lparr>ac_cleanup_attempted := True\<rparr>) else RetireConnect);
     State_Monad.return (if rr_status r = kOk then WithFailure r (FailureStatus op) (FailureCode op) else r)
   }"

text \<open>A command of the host under the execution lock, from the claim on.\<close>

definition execute_command :: "env \<Rightarrow> schedule \<Rightarrow> Frame \<Rightarrow> Claim \<Rightarrow> RuntimeResult dispatcher_action" where
  "execute_command e sch frame claim = do {
     claimed \<leftarrow> claim_operation e frame claim;
     case claimed of
       Inl answer \<Rightarrow> State_Monad.return answer
     | Inr owner \<Rightarrow> do {
         others e sch;
         had_dpi \<leftarrow> my (\<lambda>d. HasWindowsLocalDpi (dp_runtime d));
         r \<leftarrow> shared_call e sch (run_command e frame claim (case owner of Some k \<Rightarrow> k | None \<Rightarrow> 0));
         r1 \<leftarrow> (case owner of None \<Rightarrow> State_Monad.return r | Some k \<Rightarrow> capture_failure k r);
         others e sch;
         undo \<leftarrow> (case owner of None \<Rightarrow> State_Monad.return False | Some k \<Rightarrow> observe_after e k r1);
         r2 \<leftarrow> (case (undo, owner) of
             (True, Some k) \<Rightarrow> cancel_after_commit e sch k
           | _ \<Rightarrow> do { settle_owner e (fr_command frame) owner had_dpi r1; State_Monad.return r1 });
         others e sch;
         ProjectBoundState e r2
       }
   }"

section \<open>Execute\<close>

text \<open>\<^verbatim>\<open>Execute\<close> from the acquisition of the execution lock on.\<close>

definition execute_locked :: "env \<Rightarrow> schedule \<Rightarrow> Frame \<Rightarrow> BoundConnectTarget option \<Rightarrow> u64 \<Rightarrow> RuntimeResult dispatcher_action" where
  "execute_locked e sch frame bound deadline = do {
     (if only_reads (fr_command frame) then State_Monad.return ()
      else change (\<lambda>d. d\<lparr>dp_next_egress_check := 0\<rparr>));
     h \<leftarrow> my dp_runtime;
     let connect = IsConnectCommand (fr_command frame);
     let replace = (fr_command frame = kReplaceManagedProfile);
     let dpi = (connect \<and> (if replace then ReplacementRequestsWindowsLocalDpi e (fr_body frame) h
       else RequestsWindowsLocalDpi h));
     let telegram = (connect \<and> (if replace then ReplacementRequestsTelegramWS e (fr_body frame) h
       else RequestsTelegramWS h));
     revision \<leftarrow> bound_revision e (fr_command frame) bound;
     case revision of
       None \<Rightarrow> do {
         stop_target frame;
         snapshot \<leftarrow> my dp_snapshot;
         ProjectBoundState e (WithFailure snapshot kNotReady ''network_context_unavailable'')
       }
     | Some revision0 \<Rightarrow> do {
         network \<leftarrow> (if dpi \<or> telegram then local_dpi_context e bound else State_Monad.return None);
         let revision1 = (case network of
             Some c \<Rightarrow> if dpi then Some (sc_revision (cn_network c)) else revision0
           | None \<Rightarrow> revision0);
         if fr_command frame = kPromoteTransportLease then promote_request e sch (fr_body frame) deadline
         else if fr_command frame = kRevokeTransportLease then revoke_request e sch (fr_body frame) deadline
         else if fr_command frame = kConfigureBoundSmartAccessRuntimeControl
         then control_request e sch (fr_body frame) deadline
         else do {
           client \<leftarrow> claim_client e frame (bound \<noteq> None) network;
           case client of
             None \<Rightarrow> State_Monad.return (result kNotReady ''connect_owner_unavailable'')
           | Some (process, usable) \<Rightarrow>
               execute_command e sch frame \<lparr>cl_bound = bound, cl_revision = revision1, cl_network = usable,
                 cl_client = process, cl_requests_dpi = dpi, cl_requests_telegram = telegram\<rparr>
         }
       }
   }"

text \<open>
  \<^verbatim>\<open>Execute\<close> of a session that finds the execution lock free; a session that finds it taken is a
  \<open>StepBusy\<close> of the one that holds it, and comes here once it has waited.
\<close>

definition Execute :: "env \<Rightarrow> schedule \<Rightarrow> Frame \<Rightarrow> u64 \<Rightarrow> RuntimeResult dispatcher_action" where
  "Execute e sch frame deadline = do {
     answered \<leftarrow> answer_without_lock e sch frame deadline;
     case answered of
       Some r \<Rightarrow> State_Monad.return r
     | None \<Rightarrow>
         if fr_command frame \<noteq> kConnectWithIdentity then execute_locked e sch frame None deadline
         else (case DecodeBoundConnect (fr_body frame) of
             None \<Rightarrow> State_Monad.return (result kInvalid ''invalid_connect_identity'')
           | Some bound \<Rightarrow> do {
               timely \<leftarrow> IsConnectDeadlineCurrent e bound;
               if timely then execute_locked e sch frame (Some bound) deadline
               else do {
                 stop_target frame;
                 State_Monad.return (result kDeadlineExceeded ''connect_deadline'')
               }
             })
   }"

text \<open>\<^verbatim>\<open>RuntimeDispatcher::RuntimeDispatcher\<close>\<close>

definition NewDispatcher :: "env \<Rightarrow> u64 \<Rightarrow> RuntimeHost \<times> trace \<Rightarrow> RuntimeDispatcher \<times> trace" where
  "NewDispatcher e interval s =
     (case run_state (Snapshot e) s of (snapshot, (h, t)) \<Rightarrow>
        (\<lparr>dp_runtime = h, dp_snapshot = snapshot, dp_operations = [], dp_active = None, dp_stopped = None,
          dp_closing = False, dp_egress_interval = interval, dp_next_egress_check = 0, dp_egress_check_cancelled = None,
          dp_probes = [], dp_probe_count = 0\<rparr>, t))"

section \<open>Runs\<close>

text \<open>
  What happens to the dispatcher, one execution lock at a time: a request, a round of the
  watcher from what it captured earlier, the second half of a confirmed cancellation, and a
  section of a session that holds no lock.
\<close>

datatype (plugins only: code size) dispatcher_step =
    Request Frame u64 | WatchRound Watched | ConfirmCancel CancellationTarget nat | Section session_step

fun dispatcher_do :: "env \<Rightarrow> schedule \<Rightarrow> dispatcher_step \<Rightarrow> unit dispatcher_action" where
  "dispatcher_do e sch (Request frame deadline) = unit_of (Execute e sch frame deadline)"
| "dispatcher_do e sch (WatchRound w) = watch_round e sch w"
| "dispatcher_do e sch (ConfirmCancel target k) = unit_of (confirm_cancel e sch target k)"
| "dispatcher_do e sch (Section step) = session_do e step"

definition dispatcher_run :: "env \<Rightarrow> schedule \<Rightarrow> dispatcher_step list \<Rightarrow> RuntimeDispatcher \<times> trace \<Rightarrow> RuntimeDispatcher \<times> trace" where
  "dispatcher_run e sch steps s = fold (\<lambda>step s. snd (run_state (dispatcher_do e sch step) s)) steps s"

end
