(* ===== verification/Dispatcher_Host.thy ===== *)
theory Dispatcher_Host
  imports Dispatcher Runtime_Phases
begin

text \<open>
  The dispatcher touches the host only through its calls, so that whatever every call of the
  host keeps holds at every moment of every interleaving of sessions.
\<close>

section \<open>Actions that only call the host\<close>

text \<open>The operations of the sessions themselves.\<close>

fun session_io :: "io \<Rightarrow> bool" where
  "session_io (SessionIo op) = True"
| "session_io (ClockIo op) = True"
| "session_io TickCount = True"
| "session_io UtcTicks = True"
| "session_io GenRandom = True"
| "session_io op = False"

definition session_stable :: "(RuntimeHost \<times> trace \<Rightarrow> bool) \<Rightarrow> bool" where
  "session_stable I \<longleftrightarrow> (\<forall>op a h t. session_io op \<longrightarrow> I (h, t) \<longrightarrow> I (h, (op, a) # t))"

definition of_host :: "(RuntimeHost \<times> trace \<Rightarrow> bool) \<Rightarrow> RuntimeDispatcher \<times> trace \<Rightarrow> bool" where
  "of_host I s \<longleftrightarrow> I (dp_runtime (fst s), snd s)"

definition sessional :: "env \<Rightarrow> 'a dispatcher_action \<Rightarrow> bool" where
  "sessional e m \<longleftrightarrow> (\<forall>I. host_invariant e I \<longrightarrow> session_stable I \<longrightarrow> keeps (of_host I) m)"

named_theorems sessions \<open>actions of the dispatcher that only call the host\<close>

lemma sessional_bind [sessions]: "sessional e m \<Longrightarrow> (\<And>a. sessional e (f a)) \<Longrightarrow> sessional e (State_Monad.bind m f)"
  by (simp add: sessional_def keeps_bind)

lemma sessional_return [sessions]: "sessional e (State_Monad.return a)"
  by (simp add: sessional_def keeps_return)

lemma sessional_if [sessions]: "(b \<Longrightarrow> sessional e m) \<Longrightarrow> (\<not> b \<Longrightarrow> sessional e n) \<Longrightarrow> sessional e (if b then m else n)"
  by simp

lemma sessional_option [sessions]:
  "(x = None \<Longrightarrow> sessional e m) \<Longrightarrow> (\<And>y. x = Some y \<Longrightarrow> sessional e (f y)) \<Longrightarrow>
   sessional e (case x of None \<Rightarrow> m | Some y \<Rightarrow> f y)"
  by (cases x) simp_all

lemma sessional_prod [sessions]: "(\<And>a b. sessional e (f a b)) \<Longrightarrow> sessional e (case x of (a, b) \<Rightarrow> f a b)"
  by (cases x) simp

lemma sessional_sum [sessions]:
  "(\<And>a. sessional e (f a)) \<Longrightarrow> (\<And>b. sessional e (g b)) \<Longrightarrow> sessional e (case x of Inl a \<Rightarrow> f a | Inr b \<Rightarrow> g b)"
  by (cases x) simp_all

lemma sessional_bool [sessions]:
  "sessional e m \<Longrightarrow> sessional e n \<Longrightarrow> sessional e (case b of True \<Rightarrow> m | False \<Rightarrow> n)"
  by (cases b) simp_all

lemma sessional_my [sessions]: "sessional e (my f)"
  by (simp add: sessional_def keeps_my)

lemma sessional_ask [sessions]: "session_io op \<Longrightarrow> sessional e (ask f w op)"
  unfolding sessional_def keeps_def by (auto intro!: triple_ask simp: of_host_def session_stable_def)

lemma sessional_tell [sessions]: "session_io op \<Longrightarrow> sessional e (tell op)"
  unfolding sessional_def keeps_def by (auto intro!: triple_tell simp: of_host_def session_stable_def)

lemma sessional_change [sessions]: "(\<And>d. dp_runtime (f d) = dp_runtime d) \<Longrightarrow> sessional e (change f)"
  unfolding sessional_def keeps_def by (auto intro!: triple_change simp: of_host_def)

lemma sessional_call: "(\<And>I. host_invariant e I \<Longrightarrow> keeps I m) \<Longrightarrow> sessional e (runtime_call m)"
  unfolding sessional_def runtime_call_def keeps_def
  by (fastforce intro!: triple_zoom elim: triple_pre simp: of_host_def triple_def split: prod.splits)

lemma sessional_step: "sessional e (runtime_call (host_step e call))"
  by (rule sessional_call) (rule host_invariant.kept)

lemmas sessional_steps [sessions] =
  sessional_step [of _ CallInitialize, simplified] sessional_step [of _ CallSnapshot, simplified]
  sessional_step [of _ "CallPendingSnapshot c" for c, simplified] sessional_step [of _ "CallStageProfile body b" for body b, simplified]
  sessional_step [of _ CallInvalidateProfile, simplified] sessional_step [of _ "CallConnect dg c n tc" for dg c n tc, simplified]
  sessional_step [of _ "CallConnectWithIdentity b c n tc" for b c n tc, simplified]
  sessional_step [of _ "CallPromoteTransportLease p" for p, simplified]
  sessional_step [of _ "CallRevokeTransportLease p" for p, simplified] sessional_step [of _ "CallDisconnect x" for x, simplified]
  sessional_step [of _ "CallRecheckEgress c" for c, simplified]
  sessional_step [of _ "CallReplaceManagedProfile body c n tc" for body c n tc, simplified]
  sessional_step [of _ CallCancelProtectedHandoff, simplified] sessional_step [of _ "CallRevokeSmartAccessLease b" for b, simplified]
  sessional_step [of _ "CallRevokeRoutingCatalog b" for b, simplified]
  sessional_step [of _ "CallRevokeRoutingCatalogService b" for b, simplified]
  sessional_step [of _ "CallRevokeSmartAccessPolicy b" for b, simplified]
  sessional_step [of _ "CallRenewSmartAccessLease b" for b, simplified]
  sessional_step [of _ "CallConfigure b r c" for b r c, simplified] sessional_step [of _ CallReadRestrictions, simplified]
  sessional_step [of _ "CallReadLeases b" for b, simplified] sessional_step [of _ "CallAcknowledge b" for b, simplified]
  sessional_step [of _ "CallMaintainWindowsLocalDpi c" for c, simplified]
  sessional_step [of _ "CallMaintainTelegramWS c" for c, simplified]

lemma sessional_return_call [sessions]: "sessional e (runtime_call (State_Monad.return a))"
  by (rule sessional_call) (rule keeps_return)

section \<open>The sections of the sessions\<close>

lemma sessional_on_operation [sessions]: "sessional e (on_operation k f)"
  unfolding on_operation_def by (intro sessions) simp

lemma sessional_clock [sessions]:
  "sessional e (ReadBootClock e)" "sessional e (IsConnectDeadlineCurrent e b)" "sessional e (IsActiveTransportLeaseCurrent e b u)"
  "sessional e (ReadBootClockJson e)" "sessional e (ActiveTransportLeaseDeadline e p)"
  unfolding IsConnectDeadlineCurrent_def IsActiveTransportLeaseCurrent_def ReadBootClockJson_def ActiveTransportLeaseDeadline_def
    ReadBootClock_def BootReference_def boot_ref_value_def Let_def
  by (auto intro!: sessions)

lemma sessional_client_gone [sessions]: "sessional e (client_gone e op)"
  unfolding client_gone_def by (auto intro!: sessions)

lemma sessional_revision [sessions]: "sessional e (revision_current e op r)"
  unfolding revision_current_def by (auto intro!: sessions)

lemma sessional_refresh_telegram [sessions]: "sessional e (refresh_telegram e k)"
  unfolding refresh_telegram_def by (auto intro!: sessions)

lemma sessional_Refresh [sessions]: "sessional e (RefreshBoundNetwork e owner)"
  unfolding RefreshBoundNetwork_def by (auto intro!: sessions)

lemma sessional_lapsed [sessions]: "sessional e (deadline_lapsed e op b)"
  unfolding deadline_lapsed_def by (auto intro!: sessions)

lemma sessional_interrupts [sessions]: "sessional e (project_interrupts e k b)"
  unfolding project_interrupts_def by (auto intro!: sessions)

lemma sessional_Project [sessions]: "sessional e (ProjectBoundState e r)"
  unfolding ProjectBoundState_def by (auto intro!: sessions)

lemma sessional_Retire [sessions]: "sessional e RetireConnect"
  unfolding RetireConnect_def by (auto intro!: sessions)

lemma sessional_Cancel [sessions]: "sessional e (Cancel body)"
  unfolding Cancel_def by (auto intro!: sessions)

lemma sessional_signal [sessions]: "sessional e (signal_cancel target)"
  unfolding signal_cancel_def by (intro sessions)

lemma sessional_Status [sessions]: "sessional e (Status_request e)"
  unfolding Status_request_def by (auto intro!: sessions)

lemma sessional_stop_target [sessions]: "sessional e (stop_target frame)"
  unfolding stop_target_def by (auto intro!: sessions)

lemma sessional_busy [sessions]: "sessional e (busy_request e frame)"
  unfolding busy_request_def Let_def by (auto intro!: sessions)

lemma sessional_probes [sessions]:
  "sessional e (CancelCandidateProbe body)" "sessional e (register_probe frame request)" "sessional e (retire_probe key)"
  unfolding CancelCandidateProbe_def register_probe_def retire_probe_def by (auto intro!: sessions)

lemma sessional_connect_interrupted [sessions]: "sessional e (connect_interrupted e k dl)"
  unfolding connect_interrupted_def connect_interrupts_def by (auto intro!: sessions)

lemma sessional_telegram_interrupted [sessions]: "sessional e (telegram_interrupted e k dl)"
  unfolding telegram_interrupted_def by (auto intro!: sessions)

lemma sessional_maintain_interrupted [sessions]: "sessional e (maintain_dpi_interrupted e k)"
  unfolding maintain_dpi_interrupted_def by (auto intro!: sessions)

lemma sessional_control_current [sessions]: "sessional e (control_current e k target dg dl)"
  unfolding control_current_def Let_def by (auto intro!: sessions)

lemma sessional_check_deadline [sessions]: "sessional e (check_deadline e k)"
  unfolding check_deadline_def by (auto intro!: sessions)

lemma sessional_unit_of [sessions]: "sessional e m \<Longrightarrow> sessional e (unit_of m)"
  unfolding unit_of_def by (auto intro!: sessions)

lemma sessional_closing [sessions]: "sessional e start_closing"
  unfolding start_closing_def by (auto intro!: sessions)

lemma sessional_session_do [sessions]: "sessional e (session_do e step)"
  by (cases step) (auto intro!: sessions)

lemma sessional_session_steps [sessions]: "sessional e (session_steps e steps)"
  by (induction steps) (auto intro!: sessions)

lemma sessional_others [sessions]: "sessional e (others e sch)"
  unfolding others_def by (auto intro!: sessions)

section \<open>The sections under the execution lock\<close>

lemma sessional_shared [sessions]: "sessional e (runtime_call m) \<Longrightarrow> sessional e (shared_call e sch m)"
  unfolding shared_call_def by (auto intro!: sessions)

lemma sessional_take_snapshot [sessions]: "sessional e (take_snapshot e)"
  unfolding take_snapshot_def by (auto intro!: sessions)

lemma sessional_confirm [sessions]: "sessional e (confirm_cancel e sch target k)"
  unfolding confirm_cancel_def by (intro sessions)

lemma sessional_CancelAndConfirm [sessions]: "sessional e (CancelAndConfirm e sch body)"
  unfolding CancelAndConfirm_def by (intro sessions)

lemma sessional_CheckRunningEgress [sessions]: "sessional e (CheckRunningEgress e sch)"
  unfolding CheckRunningEgress_def by (auto intro!: sessions)

lemma sessional_watch_maintain [sessions]: "sessional e (watch_maintain e sch k wb wt)"
  unfolding watch_maintain_def by (auto intro!: sessions)

lemma sessional_watch_cleanup [sessions]: "sessional e (watch_cleanup e sch k)"
  unfolding watch_cleanup_def by (auto intro!: sessions)

lemma sessional_watch_round [sessions]: "sessional e (watch_round e sch w)"
  unfolding watch_round_def by (intro sessions)

lemma sessional_session_interrupted [sessions]: "sessional e (session_interrupted e r dl)"
  unfolding session_interrupted_def by (auto intro!: sessions)

lemma sessional_read_candidate [sessions]: "sessional e (read_candidate e)"
  unfolding read_candidate_def by (auto intro!: sessions)

lemma sessional_run_probe [sessions]: "sessional e (run_probe e sch key request)"
  unfolding run_probe_def by (auto intro!: sessions)

lemma sessional_ProbeCandidate [sessions]: "sessional e (ProbeCandidate e sch frame)"
  unfolding ProbeCandidate_def by (auto intro!: sessions)

lemma sessional_observe_network [sessions]: "sessional e (observe_network e body dl)"
  unfolding observe_network_def by (auto intro!: sessions)

lemma sessional_CrashDiagnostics [sessions]: "sessional e (CrashDiagnostics e)"
  unfolding CrashDiagnostics_def by (auto intro!: sessions)

lemma sessional_returning [sessions]: "sessional e m \<Longrightarrow> sessional e (returning m)"
  unfolding returning_def by (auto intro!: sessions)

lemma sessional_without_lock [sessions]: "sessional e (answer_without_lock e sch frame dl)"
  unfolding answer_without_lock_def by (cases "fr_command frame") (auto intro!: sessions)

lemma sessional_bound_revision [sessions]: "sessional e (bound_revision e c b)"
  unfolding bound_revision_def by (auto intro!: sessions)

lemma sessional_local_dpi_context [sessions]: "sessional e (local_dpi_context e b)"
  unfolding local_dpi_context_def by (auto intro!: sessions)

lemma sessional_promotion_current [sessions]: "sessional e (promotion_current e k p dl)"
  unfolding promotion_current_def Let_def by (auto intro!: sessions)

lemma sessional_drop_lease [sessions]: "sessional e (drop_lease e sch k f)"
  unfolding drop_lease_def by (auto intro!: sessions)

lemma sessional_promote_owner [sessions]: "sessional e (promote_owner e sch k p u dl)"
  unfolding promote_owner_def by (auto intro!: sessions)

lemma sessional_promote [sessions]: "sessional e (promote_request e sch body dl)"
  unfolding promote_request_def by (auto intro!: sessions)

lemma sessional_holds_lease [sessions]: "sessional e (holds_lease e k r dl)"
  unfolding holds_lease_def by (auto intro!: sessions)

lemma sessional_revoke_owner [sessions]: "sessional e (revoke_owner e sch k r dl)"
  unfolding revoke_owner_def by (auto intro!: sessions)

lemma sessional_revoke [sessions]: "sessional e (revoke_request e sch body dl)"
  unfolding revoke_request_def by (auto intro!: sessions)

lemma sessional_control_owner [sessions]: "sessional e (control_owner e sch k target body dl)"
  unfolding control_owner_def by (auto intro!: sessions)

lemma sessional_control [sessions]: "sessional e (control_request e sch body dl)"
  unfolding control_request_def by (auto intro!: sessions)

lemma sessional_claim_client [sessions]: "sessional e (claim_client e frame b n)"
  unfolding claim_client_def by (auto intro!: sessions)

lemma sessional_claim_operation [sessions]: "sessional e (claim_operation e frame claim)"
  unfolding claim_operation_def by (intro sessions) (simp_all add: sessions)

lemma sessional_run_command [sessions]: "sessional e (runtime_call (run_command e frame claim k))"
  unfolding run_command_def Let_def
  by (cases "fr_command frame") (auto intro!: sessions split: option.split)

lemma sessional_capture [sessions]: "sessional e (capture_failure k r)"
  unfolding capture_failure_def by (auto intro!: sessions)

lemma sessional_observe_after [sessions]: "sessional e (observe_after e k r)"
  unfolding observe_after_def by (auto intro!: sessions)

lemma sessional_settle [sessions]: "sessional e (settle_owner e c owner dpi r)"
  unfolding settle_owner_def Let_def by (intro sessions)

lemma sessional_cancel_after [sessions]: "sessional e (cancel_after_commit e sch k)"
  unfolding cancel_after_commit_def by (auto intro!: sessions)

lemma sessional_execute_command [sessions]: "sessional e (execute_command e sch frame claim)"
  unfolding execute_command_def by (intro sessions)

lemma sessional_execute_locked [sessions]: "sessional e (execute_locked e sch frame b dl)"
  unfolding execute_locked_def Let_def by (auto intro!: sessions)

lemma sessional_Execute [sessions]: "sessional e (Execute e sch frame dl)"
  unfolding Execute_def by (auto intro!: sessions)

lemma sessional_dispatcher_do: "sessional e (dispatcher_do e sch step)"
  by (cases step) (auto intro!: sessions)

section \<open>Every interleaving\<close>

text \<open>
  A property of the host that its calls keep, and that the operations of the sessions do not
  touch, holds after every run of the dispatcher.
\<close>

locale session_invariant = host_invariant +
  assumes stable: "session_stable I"
begin

lemma after_action: "sessional e m \<Longrightarrow> keeps (of_host I) m"
  using stable host_invariant_axioms by (simp add: sessional_def)

lemma after_sessions: "of_host I s \<Longrightarrow> of_host I (dispatcher_run e sch steps s)"
proof (induction steps arbitrary: s)
  case (Cons step steps)
  obtain r s' where run: "run_state (dispatcher_do e sch step) s = (r, s')" by (metis prod.exhaust)
  with Cons.prems after_action [OF sessional_dispatcher_do] have "of_host I s'" unfolding keeps_def by (blast dest: tripleD)
  with Cons.IH run show ?case by (simp add: dispatcher_run_def)
qed (simp add: dispatcher_run_def)

lemma at_start: "I s \<Longrightarrow> of_host I (NewDispatcher e interval s)"
  using kept [of CallSnapshot] by (cases s) (auto simp: NewDispatcher_def of_host_def keeps_def triple_def split: prod.splits)

lemma after_start: "I s \<Longrightarrow> of_host I (dispatcher_run e sch steps (NewDispatcher e interval s))"
  by (rule after_sessions [OF at_start])

end

lemma session_quiet: "session_io op \<Longrightarrow> quiet_for path op"
  by (cases op rule: session_io.cases) auto

lemma session_silent: "session_io op \<Longrightarrow> silent_io op"
  by (cases op rule: session_io.cases) auto

interpretation journaled_sessions: session_invariant e "\<lambda>s. root \<noteq> [] \<and> journaled d b root s" for e d b root
proof
  show "session_stable (\<lambda>s. root \<noteq> [] \<and> journaled d b root s)"
    unfolding session_stable_def using host_inv_quiet [where new = "[(op, a)]" for op a] session_quiet by fastforce
qed

interpretation verified_sessions: session_invariant e verified for e
proof
  show "session_stable verified"
    unfolding session_stable_def by (auto simp: verified_def core_up_silent session_silent intro: egress_proved_silent)
qed

text \<open>At every moment of a journaled trace at which the network may be dirty, a restart finds a journal to recover from.\<close>

lemma host_inv_recovers:
  assumes "host_inv d b (AppendPath root kJournalName) (h, t)" and "suffix u t" and "network_dirty b u"
  shows "RequiresRecovery (NewRecovery root ns (journal_on (disk_after d u) (AppendPath root kJournalName)))"
proof -
  have "all_moments (covered d b (AppendPath root kJournalName)) t" using assms(1) by (simp add: host_inv_def rec_inv_def)
  with assms(2) have "covered d b (AppendPath root kJournalName) u" by (simp add: all_moments_iff)
  with assms(3) show ?thesis by (simp add: covered_def RequiresRecovery_restart needs_rollback_recovery)
qed

text \<open>
  Crash safety of the whole service.  Whatever sessions ask of the dispatcher after a start,
  in whatever order their sections and those of the watcher are interleaved, and with whatever
  answers from Core, the system and the clients: at every moment at which Core may have changed
  the network without its change being undone, a service that starts on the disk of that moment
  finds a journal that makes it recover.
\<close>

lemma service_crash_safe:
  assumes "root \<noteq> []" and "b \<longrightarrow> needs_rollback (d (AppendPath root kJournalName))"
    and "dispatcher_run e sch steps (NewDispatcher e interval (started_host e d root ns core probe secure)) = (x, t)"
    and "suffix u t" and "network_dirty b u"
  shows "RequiresRecovery (NewRecovery root ns (journal_on (disk_after d u) (AppendPath root kJournalName)))"
proof -
  have "root \<noteq> [] \<and> journaled d b root (started_host e d root ns core probe secure)"
    using started_host_inv [of root b d e ns core probe secure] assms(1,2) by simp
  from journaled_sessions.after_start [OF this] have "host_inv d b (AppendPath root kJournalName) (dp_runtime x, t)"
    using assms(3) by (metis fst_conv of_host_def snd_conv)
  then show ?thesis by (rule host_inv_recovers [OF _ assms(4,5)])
qed

text \<open>The service restarts after a crash under a running Core: before its first request the journal asks for recovery.\<close>

lemma service_crash_safe_witness:
  "RequiresRecovery (NewRecovery ''C:'' True (journal_on
     (disk_after (\<lambda>_. Some (journal_text kCoreStarted (hex_string (replicate 16 1)) [])) []) (AppendPath ''C:'' kJournalName)))"
  by (intro service_crash_safe [where b = True and e = happy_env and sch = "\<lambda>_. [StepStatus]" and
        steps = "[WatchRound \<lparr>wa_operation = None, wa_bound = False, wa_dpi = False, wa_telegram = False\<rparr>, Section StepStatus]" and
        interval = 2000 and core = True and probe = True and secure = True, OF _ _ surjective_pairing])
    (simp_all add: needs_rollback_text sample_generation)

text \<open>
  C9. What the service claims about the connection.  In every interleaving of the sessions and
  the watcher: when the egress counts as validated, the host is running and a proof of egress
  succeeded after the last start of Core, which was not stopped since; when the host is running,
  it is initialized and Core is up; and a profile counts as effective only while the host runs.
\<close>

theorem service_verified_connection:
  "of_host verified (dispatcher_run e sch steps (NewDispatcher e interval (started_host e d root ns core probe secure)))"
  by (rule verified_sessions.after_start [OF idle_verified [OF started_host_idle]])

end
