(* ===== verification/Dispatcher_Order.thy ===== *)
theory Dispatcher_Order
  imports Dispatcher_Host
begin

text \<open>
  What the actions of the dispatcher may do to its own fields.  A relation between the fields
  before and after an action that is transitive, and that holds of the few updates the code makes,
  holds across every action; the laws of the operations and of the probes are instances.
\<close>

section \<open>How an operation may change\<close>

text \<open>
  Who asked for an operation, what it is bound to and the state it reports while it stops are
  fixed; an interruption stays, with its first cause; and the other latches are never reset.
\<close>

definition interrupted :: "ActiveConnect \<Rightarrow> bool" where
  "interrupted op \<longleftrightarrow> ac_cancelled op \<or> ac_deadline_expired op"

definition identity :: "ActiveConnect \<Rightarrow> CancellationTarget \<times> BoundConnectTarget option \<times> bool \<times> u64 option \<times> int option \<times>
    RuntimeResult \<times> bool \<times> bool \<times> bool \<times> u64 option" where
  "identity op = (ac_target op, ac_bound op, ac_requires_transport_lease op, ac_network_revision op, ac_client_process op,
     ac_stopping_snapshot op, ac_protected_handoff op, ac_local_dpi_owner op, ac_telegram_ws_owner op,
     ac_telegram_ws_network_revision op)"

definition evolves :: "ActiveConnect \<Rightarrow> ActiveConnect \<Rightarrow> bool" where
  "evolves op op' \<longleftrightarrow> identity op' = identity op \<and>
     (ac_interruption op \<noteq> kNone_cause \<longrightarrow> ac_interruption op' = ac_interruption op) \<and>
     (ac_cancelled op \<longrightarrow> ac_cancelled op') \<and> (ac_deadline_expired op \<longrightarrow> ac_deadline_expired op') \<and>
     (ac_interruption op' = kNone_cause \<longrightarrow> interrupted op' = interrupted op) \<and>
     (ac_transport_terminated op \<longrightarrow> ac_transport_terminated op') \<and>
     (ac_ordinary_control_handoff op \<longrightarrow> ac_ordinary_control_handoff op') \<and>
     (ac_local_dpi_cancelled op \<longrightarrow> ac_local_dpi_cancelled op') \<and>
     (ac_telegram_ws_cancelled op \<longrightarrow> ac_telegram_ws_cancelled op')"

lemma evolves_refl [simp]: "evolves op op"
  by (simp add: evolves_def)

lemma evolves_trans: "evolves op op1 \<Longrightarrow> evolves op1 op2 \<Longrightarrow> evolves op op2"
  unfolding evolves_def by (elim conjE, intro conjI impI; (simp; fail)?; metis)

lemma evolves_Interrupt: "cause \<noteq> kNone_cause \<Longrightarrow> evolves op (Interrupt cause op)"
  by (auto simp: evolves_def Interrupt_def identity_def interrupted_def Let_def)

lemma evolves_latches:
  "evolves op (op\<lparr>ac_telegram_ws_cancelled := True\<rparr>)" "evolves op (op\<lparr>ac_local_dpi_cancelled := True\<rparr>)"
  "evolves op (op\<lparr>ac_cleanup_attempted := b\<rparr>)" "evolves op (op\<lparr>ac_local_dpi_maintenance_active := b\<rparr>)"
  "evolves op (op\<lparr>ac_ordinary_control_handoff := True\<rparr>)" "evolves op (op\<lparr>ac_transport_terminated := True\<rparr>)"
  "evolves op (op\<lparr>ac_promoted_until := u, ac_promoted_lease_ref := l\<rparr>)"
  by (simp_all add: evolves_def identity_def interrupted_def)

lemmas evolutions = evolves_Interrupt evolves_latches

section \<open>Relations that every action keeps\<close>

definition moves :: "(RuntimeDispatcher \<Rightarrow> RuntimeDispatcher \<Rightarrow> bool) \<Rightarrow> 'a dispatcher_action \<Rightarrow> bool" where
  "moves R m \<longleftrightarrow> (\<forall>d t. R d (fst (snd (run_state m (d, t)))))"

lemma movesD: "moves R m \<Longrightarrow> run_state m (d, t) = (a, (d', t')) \<Longrightarrow> R d d'"
  unfolding moves_def by (metis fst_conv snd_conv)

named_theorems moving \<open>rules for the judgement moves\<close>

text \<open>What an action returns.\<close>

definition gives :: "('a \<Rightarrow> bool) \<Rightarrow> ('c, 'a) action \<Rightarrow> bool" where
  "gives Q m \<longleftrightarrow> (\<forall>s. Q (fst (run_state m s)))"

lemma gives_bind: "(\<And>a. gives Q (f a)) \<Longrightarrow> gives Q (State_Monad.bind m f)"
  by (auto simp: gives_def run_simps split: prod.splits)

lemma gives_return: "Q a \<Longrightarrow> gives Q (State_Monad.return a)"
  by (simp add: gives_def run_simps)

lemma gives_map: "gives (\<lambda>x. Q (g x)) m \<Longrightarrow> gives Q (do { x \<leftarrow> m; State_Monad.return (g x) })"
  by (auto simp: gives_def run_simps split: prod.splits) (metis fst_conv)

lemma gives_pending: "gives (\<lambda>r. starts_with ''phase=busy;'' (rr_body r)) (PendingSnapshot e kDisconnect)"
proof -
  have "starts_with ''phase=busy;'' (state_text (Some ''busy'') h @ rest)" for h rest
    by (simp add: state_text_def starts_with_def Let_def)
  then show ?thesis
    unfolding PendingSnapshot_def SnapshotBody_def Let_def
    by (intro gives_map gives_bind gives_return) (simp add: IsConnectCommand_def)
qed

lemma gives_runtime_call: "gives Q m \<Longrightarrow> gives Q (runtime_call m)"
  by (auto simp: gives_def runtime_call_def run_simps split: prod.splits) (metis fst_conv)

text \<open>The fields that the laws are about, and the updates that the code makes to them.\<close>

definition tables :: "RuntimeDispatcher \<Rightarrow> ActiveConnect list \<times> ActiveProbe list \<times> nat" where
  "tables d = (dp_operations d, dp_probes d, dp_probe_count d)"

locale dispatcher_order =
  fixes e :: env and R :: "RuntimeDispatcher \<Rightarrow> RuntimeDispatcher \<Rightarrow> bool"
  assumes same: "tables d' = tables d \<Longrightarrow> dp_active d' = dp_active d \<or> dp_active d' = None \<Longrightarrow> R d d'"
    and chain: "R d d1 \<Longrightarrow> R d1 d2 \<Longrightarrow> R d d2"
    and update: "(\<And>op. evolves op (f op)) \<Longrightarrow> R d (d\<lparr>dp_operations := (dp_operations d)[k := f (operation k d)]\<rparr>)"
    and claim: "(cl_bound claimed \<noteq> None \<longrightarrow> starts_with ''phase=busy;'' (rr_body stopping)) \<Longrightarrow>
      R d (d\<lparr>dp_active := Some (length (dp_operations d)),
             dp_operations := dp_operations d @ [new_operation frame claimed (dp_runtime d) stopping]\<rparr>)"
    and probes: "moves R (register_probe frame request)" "moves R (retire_probe key)" "moves R (CancelCandidateProbe body)"
begin

lemma moves_bind [moving]:
  assumes "moves R m" and "\<And>a. moves R (f a)"
  shows "moves R (State_Monad.bind m f)"
  unfolding moves_def
proof (intro allI)
  fix d t
  obtain a d1 t1 where m: "run_state m (d, t) = (a, (d1, t1))" by (metis prod.exhaust)
  obtain b d2 t2 where f: "run_state (f a) (d1, t1) = (b, (d2, t2))" by (metis prod.exhaust)
  have "R d d2" by (rule chain [OF movesD [OF assms(1) m] movesD [OF assms(2) f]])
  then show "R d (fst (snd (run_state (State_Monad.bind m f) (d, t))))" by (simp add: run_simps m f)
qed

lemma moves_bind_value:
  assumes "moves R m" and "gives Q m" and "\<And>a. Q a \<Longrightarrow> moves R (f a)"
  shows "moves R (State_Monad.bind m f)"
  unfolding moves_def
proof (intro allI)
  fix d t
  obtain a d1 t1 where m: "run_state m (d, t) = (a, (d1, t1))" by (metis prod.exhaust)
  then have "Q a" using assms(2) unfolding gives_def by (metis fst_conv)
  obtain b d2 t2 where f: "run_state (f a) (d1, t1) = (b, (d2, t2))" by (metis prod.exhaust)
  have "R d d2" by (rule chain [OF movesD [OF assms(1) m] movesD [OF assms(3) [OF \<open>Q a\<close>] f]])
  then show "R d (fst (snd (run_state (State_Monad.bind m f) (d, t))))" by (simp add: run_simps m f)
qed

lemma moves_return [moving]: "moves R (State_Monad.return a)"
  by (simp add: moves_def run_simps same)

lemma moves_if [moving]: "(b \<Longrightarrow> moves R m) \<Longrightarrow> (\<not> b \<Longrightarrow> moves R n) \<Longrightarrow> moves R (if b then m else n)"
  by simp

lemma moves_option [moving]:
  "(x = None \<Longrightarrow> moves R m) \<Longrightarrow> (\<And>y. x = Some y \<Longrightarrow> moves R (f y)) \<Longrightarrow> moves R (case x of None \<Rightarrow> m | Some y \<Rightarrow> f y)"
  by (cases x) simp_all

lemma moves_prod [moving]: "(\<And>a b. moves R (f a b)) \<Longrightarrow> moves R (case x of (a, b) \<Rightarrow> f a b)"
  by (cases x) simp

lemma moves_sum [moving]:
  "(\<And>a. moves R (f a)) \<Longrightarrow> (\<And>b. moves R (g b)) \<Longrightarrow> moves R (case x of Inl a \<Rightarrow> f a | Inr b \<Rightarrow> g b)"
  by (cases x) simp_all

lemma moves_bool [moving]: "moves R m \<Longrightarrow> moves R n \<Longrightarrow> moves R (case b of True \<Rightarrow> m | False \<Rightarrow> n)"
  by (cases b) simp_all

lemma moves_my [moving]: "moves R (my f)"
  by (simp add: moves_def run_simps same)

lemma moves_ask [moving]: "moves R (ask f w op)"
  by (simp add: moves_def run_simps same)

lemma moves_tell [moving]: "moves R (tell op)"
  by (simp add: moves_def run_simps same)

lemma moves_change [moving]:
  "(\<And>d. tables (f d) = tables d) \<Longrightarrow> (\<And>d. dp_active (f d) = dp_active d \<or> dp_active (f d) = None) \<Longrightarrow> moves R (change f)"
  by (simp add: moves_def run_simps same)

lemma moves_runtime_call [moving]: "moves R (runtime_call m)"
  by (simp add: moves_def runtime_call_def run_simps same tables_def split: prod.splits)

lemma moves_on_operation [moving]: "(\<And>op. evolves op (f op)) \<Longrightarrow> moves R (on_operation k f)"
  by (simp add: moves_def on_operation_def run_simps update)

lemmas moves_probes [moving] = probes

lemma moves_clock [moving]:
  "moves R (ReadBootClock e')" "moves R (IsConnectDeadlineCurrent e' b)" "moves R (IsActiveTransportLeaseCurrent e' b u)"
  "moves R (ReadBootClockJson e')" "moves R (ActiveTransportLeaseDeadline e' p)"
  unfolding IsConnectDeadlineCurrent_def IsActiveTransportLeaseCurrent_def ReadBootClockJson_def ActiveTransportLeaseDeadline_def
    ReadBootClock_def BootReference_def boot_ref_value_def Let_def
  by (auto intro!: moving)

lemma moves_client_gone [moving]: "moves R (client_gone e op)"
  unfolding client_gone_def by (auto intro!: moving)

lemma moves_revision [moving]: "moves R (revision_current e op r)"
  unfolding revision_current_def by (auto intro!: moving)

lemma moves_refresh_telegram [moving]: "moves R (refresh_telegram e k)"
  unfolding refresh_telegram_def by (auto intro!: moving evolutions simp: tables_def)

lemma moves_Refresh [moving]: "moves R (RefreshBoundNetwork e owner)"
  unfolding RefreshBoundNetwork_def by (auto intro!: moving evolutions simp: tables_def)

lemma moves_lapsed [moving]: "moves R (deadline_lapsed e op b)"
  unfolding deadline_lapsed_def by (auto intro!: moving evolutions simp: tables_def)

lemma moves_interrupts [moving]: "moves R (project_interrupts e k b)"
  unfolding project_interrupts_def by (auto intro!: moving evolutions simp: tables_def)

lemma moves_Project [moving]: "moves R (ProjectBoundState e r)"
  unfolding ProjectBoundState_def by (auto intro!: moving evolutions simp: tables_def)

lemma moves_Retire [moving]: "moves R RetireConnect"
  unfolding RetireConnect_def by (auto intro!: moving evolutions simp: tables_def)

lemma moves_Cancel [moving]: "moves R (Cancel body)"
  unfolding Cancel_def by (auto intro!: moving evolutions simp: tables_def)

lemma moves_signal [moving]: "moves R (signal_cancel target)"
  unfolding signal_cancel_def by (intro moving evolutions; simp add: tables_def)

lemma moves_Status [moving]: "moves R (Status_request e)"
  unfolding Status_request_def by (auto intro!: moving evolutions simp: tables_def)

lemma moves_stop_target [moving]: "moves R (stop_target frame)"
  unfolding stop_target_def by (auto intro!: moving evolutions simp: tables_def)

lemma moves_busy [moving]: "moves R (busy_request e frame)"
  unfolding busy_request_def Let_def by (auto intro!: moving evolutions simp: tables_def)

lemma moves_connect_interrupted [moving]: "moves R (connect_interrupted e k dl)"
  unfolding connect_interrupted_def connect_interrupts_def by (auto intro!: moving evolutions simp: tables_def)

lemma moves_telegram_interrupted [moving]: "moves R (telegram_interrupted e k dl)"
  unfolding telegram_interrupted_def by (auto intro!: moving evolutions simp: tables_def)

lemma moves_maintain_interrupted [moving]: "moves R (maintain_dpi_interrupted e k)"
  unfolding maintain_dpi_interrupted_def by (auto intro!: moving evolutions simp: tables_def)

lemma moves_control_current [moving]: "moves R (control_current e k target dg dl)"
  unfolding control_current_def Let_def by (auto intro!: moving evolutions simp: tables_def)

lemma moves_check_deadline [moving]: "moves R (check_deadline e k)"
  unfolding check_deadline_def by (auto intro!: moving evolutions simp: tables_def)

lemma moves_unit_of [moving]: "moves R m \<Longrightarrow> moves R (unit_of m)"
  unfolding unit_of_def by (auto intro!: moving evolutions simp: tables_def)

lemma moves_closing [moving]: "moves R start_closing"
  unfolding start_closing_def by (auto intro!: moving evolutions simp: tables_def)

lemma moves_session_do [moving]: "moves R (session_do e step)"
  by (cases step) (auto intro!: moving evolutions simp: tables_def)

lemma moves_session_steps [moving]: "moves R (session_steps e steps)"
  by (induction steps) (auto intro!: moving evolutions simp: tables_def)

lemma moves_others [moving]: "moves R (others e sch)"
  unfolding others_def by (auto intro!: moving evolutions simp: tables_def)

lemma moves_shared [moving]: "moves R (shared_call e sch m)"
  unfolding shared_call_def by (auto intro!: moving evolutions simp: tables_def)

lemma moves_take_snapshot [moving]: "moves R (take_snapshot e)"
  unfolding take_snapshot_def by (auto intro!: moving evolutions simp: tables_def)

lemma moves_confirm [moving]: "moves R (confirm_cancel e sch target k)"
  unfolding confirm_cancel_def by (intro moving evolutions; simp add: tables_def)

lemma moves_CancelAndConfirm [moving]: "moves R (CancelAndConfirm e sch body)"
  unfolding CancelAndConfirm_def by (intro moving evolutions; simp add: tables_def)

lemma moves_CheckRunningEgress [moving]: "moves R (CheckRunningEgress e sch)"
  unfolding CheckRunningEgress_def by (auto intro!: moving evolutions simp: tables_def)

lemma moves_watch_maintain [moving]: "moves R (watch_maintain e sch k wb wt)"
  unfolding watch_maintain_def by (auto intro!: moving evolutions simp: tables_def)

lemma moves_watch_cleanup [moving]: "moves R (watch_cleanup e sch k)"
  unfolding watch_cleanup_def by (auto intro!: moving evolutions simp: tables_def)

lemma moves_watch_round [moving]: "moves R (watch_round e sch w)"
  unfolding watch_round_def by (intro moving evolutions; simp add: tables_def)

lemma moves_session_interrupted [moving]: "moves R (session_interrupted e r dl)"
  unfolding session_interrupted_def by (auto intro!: moving evolutions simp: tables_def)

lemma moves_read_candidate [moving]: "moves R (read_candidate e)"
  unfolding read_candidate_def by (auto intro!: moving evolutions simp: tables_def)

lemma moves_run_probe [moving]: "moves R (run_probe e sch key request)"
  unfolding run_probe_def by (auto intro!: moving evolutions simp: tables_def)

lemma moves_ProbeCandidate [moving]: "moves R (ProbeCandidate e sch frame)"
  unfolding ProbeCandidate_def by (auto intro!: moving evolutions simp: tables_def)

lemma moves_observe_network [moving]: "moves R (observe_network e body dl)"
  unfolding observe_network_def by (auto intro!: moving evolutions simp: tables_def)

lemma moves_CrashDiagnostics [moving]: "moves R (CrashDiagnostics e)"
  unfolding CrashDiagnostics_def by (auto intro!: moving evolutions simp: tables_def)

lemma moves_returning [moving]: "moves R m \<Longrightarrow> moves R (returning m)"
  unfolding returning_def by (auto intro!: moving evolutions simp: tables_def)

lemma moves_without_lock [moving]: "moves R (answer_without_lock e sch frame dl)"
  unfolding answer_without_lock_def by (cases "fr_command frame") (auto intro!: moving evolutions simp: tables_def)

lemma moves_bound_revision [moving]: "moves R (bound_revision e c b)"
  unfolding bound_revision_def by (auto intro!: moving evolutions simp: tables_def)

lemma moves_local_dpi_context [moving]: "moves R (local_dpi_context e b)"
  unfolding local_dpi_context_def by (auto intro!: moving evolutions simp: tables_def)

lemma moves_promotion_current [moving]: "moves R (promotion_current e k p dl)"
  unfolding promotion_current_def Let_def by (auto intro!: moving evolutions simp: tables_def)

lemma moves_drop_lease [moving]: "moves R (drop_lease e sch k f)"
  unfolding drop_lease_def by (auto intro!: moving evolutions simp: tables_def)

lemma moves_promote_owner [moving]: "moves R (promote_owner e sch k p u dl)"
  unfolding promote_owner_def by (auto intro!: moving evolutions simp: tables_def)

lemma moves_promote [moving]: "moves R (promote_request e sch body dl)"
  unfolding promote_request_def by (auto intro!: moving evolutions simp: tables_def)

lemma moves_holds_lease [moving]: "moves R (holds_lease e k r dl)"
  unfolding holds_lease_def by (auto intro!: moving evolutions simp: tables_def)

lemma moves_revoke_owner [moving]: "moves R (revoke_owner e sch k r dl)"
  unfolding revoke_owner_def by (auto intro!: moving evolutions simp: tables_def)

lemma moves_revoke [moving]: "moves R (revoke_request e sch body dl)"
  unfolding revoke_request_def by (auto intro!: moving evolutions simp: tables_def)

lemma moves_control_owner [moving]: "moves R (control_owner e sch k target body dl)"
  unfolding control_owner_def by (auto intro!: moving evolutions simp: tables_def)

lemma moves_control [moving]: "moves R (control_request e sch body dl)"
  unfolding control_request_def by (auto intro!: moving evolutions simp: tables_def)

lemma moves_claim_client [moving]: "moves R (claim_client e frame b n)"
  unfolding claim_client_def by (auto intro!: moving evolutions simp: tables_def)

lemma moves_claim_operation [moving]: "moves R (claim_operation e frame claimed)"
proof -
  define stop where "stop = (if cl_bound claimed \<noteq> None then runtime_call (PendingSnapshot e kDisconnect)
    else State_Monad.return (result kNotReady []))"
  define enter where "enter n stopping = do {
      change (\<lambda>d. d\<lparr>dp_active := Some (length (dp_operations d)),
        dp_operations := dp_operations d @ [new_operation frame claimed (dp_runtime d) stopping]\<rparr>);
      (State_Monad.return (Some n) :: nat option dispatcher_action) }" for stopping and n :: nat
  have "moves R (State_Monad.bind stop (enter n))" for n
  proof (rule moves_bind_value [where Q = "\<lambda>r. cl_bound claimed \<noteq> None \<longrightarrow> starts_with ''phase=busy;'' (rr_body r)"])
    show "moves R stop" unfolding stop_def by (intro moving)
    show "gives (\<lambda>r. cl_bound claimed \<noteq> None \<longrightarrow> starts_with ''phase=busy;'' (rr_body r)) stop"
      using gives_runtime_call [OF gives_pending] by (simp add: stop_def gives_def)
    show "moves R (enter n r)" if "cl_bound claimed \<noteq> None \<longrightarrow> starts_with ''phase=busy;'' (rr_body r)" for r
      unfolding enter_def using that by (intro moves_bind moves_return) (auto simp: moves_def run_simps intro: claim)
  qed
  note entered = this [unfolded stop_def enter_def]
  show ?thesis
    unfolding claim_operation_def by (intro entered moving; simp add: tables_def)
qed

lemma moves_capture [moving]: "moves R (capture_failure k r)"
  unfolding capture_failure_def by (auto intro!: moving evolutions simp: tables_def)

lemma moves_observe_after [moving]: "moves R (observe_after e k r)"
  unfolding observe_after_def by (auto intro!: moving evolutions simp: tables_def)

lemma moves_settle [moving]: "moves R (settle_owner e c owner dpi r)"
  unfolding settle_owner_def Let_def by (intro moving evolutions; simp add: tables_def)

lemma moves_cancel_after [moving]: "moves R (cancel_after_commit e sch k)"
  unfolding cancel_after_commit_def by (auto intro!: moving evolutions simp: tables_def)

lemma moves_execute_command [moving]: "moves R (execute_command e sch frame claim)"
  unfolding execute_command_def by (intro moving evolutions; simp add: tables_def)

lemma moves_execute_locked [moving]: "moves R (execute_locked e sch frame b dl)"
  unfolding execute_locked_def Let_def by (auto intro!: moving evolutions simp: tables_def)

lemma moves_Execute [moving]: "moves R (Execute e sch frame dl)"
  unfolding Execute_def by (auto intro!: moving evolutions simp: tables_def)

lemma moves_dispatcher_do: "moves R (dispatcher_do e sch step)"
  by (cases step) (auto intro!: moving evolutions simp: tables_def)

lemma after_run: "R (fst s) (fst (dispatcher_run e sch steps s))"
proof (induction steps arbitrary: s)
  case Nil
  then show ?case by (simp add: dispatcher_run_def same)
next
  case (Cons step steps)
  obtain r d t where run: "run_state (dispatcher_do e sch step) s = (r, (d, t))" by (metis prod.exhaust)
  with movesD [OF moves_dispatcher_do, of sch step "fst s" "snd s"] have "R (fst s) d" by simp
  with Cons.IH [of "(d, t)"] run show ?case by (auto simp: dispatcher_run_def intro: chain)
qed

end

section \<open>The operations\<close>

text \<open>
  Objects are never removed and change only as \<^const>\<open>evolves\<close> allows; a pending interruption has
  a cause; a bound operation reports a busy host while it stops; and the active operation exists.
\<close>

definition sound :: "ActiveConnect \<Rightarrow> bool" where
  "sound op \<longleftrightarrow> (interrupted op \<longrightarrow> ac_interruption op \<noteq> kNone_cause) \<and>
     (ac_bound op \<noteq> None \<longrightarrow> starts_with ''phase=busy;'' (rr_body (ac_stopping_snapshot op)))"

definition operations_order :: "RuntimeDispatcher \<Rightarrow> RuntimeDispatcher \<Rightarrow> bool" where
  "operations_order d d' \<longleftrightarrow> length (dp_operations d) \<le> length (dp_operations d') \<and>
     (\<forall>k < length (dp_operations d). evolves (operation k d) (operation k d'))"

definition operations_sound :: "RuntimeDispatcher \<Rightarrow> bool" where
  "operations_sound d \<longleftrightarrow> list_all sound (dp_operations d) \<and>
     (case dp_active d of Some k \<Rightarrow> k < length (dp_operations d) | None \<Rightarrow> True)"

lemma evolves_sound: "evolves op op' \<Longrightarrow> sound op \<Longrightarrow> sound op'"
  unfolding evolves_def sound_def identity_def prod.inject by (elim conjE) metis

lemma nth_update_evolves:
  "(\<And>op. evolves op (f op)) \<Longrightarrow> evolves (xs ! i) (xs[k := f (xs ! k)] ! i)"
  by (metis evolves_refl list_update_beyond not_le nth_list_update_eq nth_list_update_neq)

lemma sound_new:
  "(cl_bound claimed \<noteq> None \<longrightarrow> starts_with ''phase=busy;'' (rr_body stopping)) \<Longrightarrow> sound (new_operation frame claimed h stopping)"
  by (simp add: sound_def new_operation_def interrupted_def Let_def)

text \<open>The probes do not touch the operations.\<close>

lemma moves_probe_actions:
  assumes "\<And>d d'. dp_operations d' = dp_operations d \<Longrightarrow> dp_active d' = dp_active d \<Longrightarrow> R d d'"
  shows "moves R (register_probe frame request)" "moves R (retire_probe key)" "moves R (CancelCandidateProbe body)"
  by (auto simp: moves_def register_probe_def retire_probe_def CancelCandidateProbe_def run_simps assms
      split: if_splits option.splits prod.splits)

interpretation operations: dispatcher_order e operations_order for e
proof
  show "operations_order d d2" if "operations_order d d1" and "operations_order d1 d2" for d d1 d2
    using that unfolding operations_order_def by (meson evolves_trans less_le_trans order_trans)
qed (auto simp: operations_order_def tables_def nth_append intro!: moves_probe_actions nth_update_evolves)

interpretation soundness: dispatcher_order e "\<lambda>d d'. operations_sound d \<longrightarrow> operations_sound d'" for e
proof
  show "operations_sound d \<longrightarrow> operations_sound (d\<lparr>dp_operations := (dp_operations d)[k := f (operation k d)]\<rparr>)"
    if "\<And>op. evolves op (f op)" for f d k
    using that evolves_sound
    by (cases "k < length (dp_operations d)") (auto simp: operations_sound_def list_all_length nth_list_update split: option.splits)
qed (auto simp: operations_sound_def tables_def sound_new intro!: moves_probe_actions split: option.splits)

section \<open>The probes\<close>

definition probes_ok :: "RuntimeDispatcher \<Rightarrow> bool" where
  "probes_ok d \<longleftrightarrow> length (dp_probes d) \<le> 4 \<and> distinct (map ap_id (dp_probes d)) \<and> distinct (map ap_key (dp_probes d)) \<and>
     list_all (\<lambda>p. ap_key p < dp_probe_count d) (dp_probes d)"

interpretation probing: dispatcher_order e "\<lambda>d d'. probes_ok d \<longrightarrow> probes_ok d'" for e
proof
  show "moves (\<lambda>d d'. probes_ok d \<longrightarrow> probes_ok d') (register_probe frame request)" for frame request
    by (fastforce simp: moves_def register_probe_def probes_ok_def run_simps list_all_iff list_ex_iff split: if_splits)
  show "moves (\<lambda>d d'. probes_ok d \<longrightarrow> probes_ok d') (retire_probe key)" for key
    by (auto simp: moves_def retire_probe_def probes_ok_def run_simps list_all_iff distinct_map_filter
        intro: order_trans [OF length_filter_le])
  show "moves (\<lambda>d d'. probes_ok d \<longrightarrow> probes_ok d') (CancelCandidateProbe body)" for body
    by (auto simp: moves_def CancelCandidateProbe_def probes_ok_def run_simps list_all_iff map_map comp_def if_distrib
        split: option.splits prod.splits cong: if_cong)
qed (auto simp: probes_ok_def tables_def)

end
