(* ===== verification/Dispatcher_Laws.thy ===== *)
theory Dispatcher_Laws
  imports Dispatcher_Order Runtime_Liveness
begin

text \<open>
  The promises of the dispatcher to its sessions: what an interruption, a status, a bound owner
  and a confirmed cancellation mean.
\<close>

section \<open>Well-formed dispatchers\<close>

lemma NewDispatcher_tables:
  "dp_operations (fst (NewDispatcher e i s)) = []" "dp_active (fst (NewDispatcher e i s)) = None"
  "dp_probes (fst (NewDispatcher e i s)) = []"
  by (simp_all add: NewDispatcher_def split: prod.splits)

text \<open>
  C14. Well-formed operations.  In every interleaving, the active operation is one of the objects
  that were created, an operation that is interrupted has a cause, and the state that a bound
  operation reports while it stops is that of a busy host.
\<close>

theorem dispatcher_operations_sound: "operations_sound (fst (dispatcher_run e sch steps (NewDispatcher e interval s)))"
  using soundness.after_run [where s = "NewDispatcher e interval s"] by (simp add: operations_sound_def NewDispatcher_tables)

text \<open>
  The limit of the candidate probes.  In every interleaving at most four candidate probes are
  under way, no two of them with the same identifier and none under the key of another.
\<close>

lemma dispatcher_probes_bounded: "probes_ok (fst (dispatcher_run e sch steps (NewDispatcher e interval s)))"
  using probing.after_run [where s = "NewDispatcher e interval s"] by (simp add: probes_ok_def NewDispatcher_tables)

text \<open>
  C13. The first interruption is final.  Once an operation has a cause of interruption, whatever
  the sessions, the watcher and the callbacks do afterwards: it stays interrupted, and the failure
  code and the status that are reported for it do not change.
\<close>

theorem interruption_is_final:
  assumes "k < length (dp_operations d)" and "interrupted (operation k d)" and "ac_interruption (operation k d) \<noteq> kNone_cause"
    and "dispatcher_run e sch steps (d, t) = (d', t')"
  shows "interrupted (operation k d') \<and> FailureCode (operation k d') = FailureCode (operation k d) \<and>
    FailureStatus (operation k d') = FailureStatus (operation k d)"
proof -
  have "evolves (operation k d) (operation k d')"
    using operations.after_run [where s = "(d, t)"] assms(1,4) unfolding operations_order_def by (metis fst_conv)
  then have "ac_interruption (operation k d') = ac_interruption (operation k d)" "ac_bound (operation k d') = ac_bound (operation k d)"
    "interrupted (operation k d) \<longrightarrow> interrupted (operation k d')"
    using assms(3) by (simp_all add: evolves_def identity_def interrupted_def)
  with assms(2) show ?thesis by (auto simp: FailureCode_def FailureStatus_def)
qed

section \<open>The texts of a state\<close>

lemma index_of_str_found: "index_of_str p s = Some i \<Longrightarrow> starts_with p (drop i s)"
proof (induction s arbitrary: i)
  case (Cons x xs)
  then show ?case by (cases i) (auto split: if_splits)
qed (simp add: starts_with_def split: if_splits)

lemma find_str_found: "find_str s p 0 = Some i \<Longrightarrow> starts_with p (drop i s)"
  by (auto simp: find_str_def dest: index_of_str_found)

lemma rfind_str_found: "rfind_str s p = Some i \<Longrightarrow> starts_with p (drop i s)"
  unfolding rfind_str_def by (subst (asm) find_Some_iff) blast

text \<open>A field that starts with a semicolon lies behind a prefix without one.\<close>

lemma field_behind:
  assumes "starts_with (CHR '';'' # f) (drop i s)" and "starts_with p s" and "CHR '';'' \<notin> set p"
  shows "length p \<le> i"
proof (rule ccontr)
  assume "\<not> length p \<le> i"
  moreover from assms(2) obtain r where s: "s = p @ r" by (auto simp: starts_with_iff)
  ultimately have "drop i s = p ! i # drop (Suc i) p @ r" by (simp add: Cons_nth_drop_Suc)
  with assms(1) have "p ! i = CHR '';''" by (simp add: starts_with_def)
  with \<open>\<not> length p \<le> i\<close> assms(3) show False by (metis not_le nth_mem)
qed

lemma starts_with_replace: "starts_with p s \<Longrightarrow> length p \<le> i \<Longrightarrow> starts_with p (replace_until s i stop r)"
  by (auto simp: starts_with_iff replace_until_def)

text \<open>The phases that a text may show.\<close>

definition shows_only :: "string list \<Rightarrow> string \<Rightarrow> bool" where
  "shows_only phases body \<longleftrightarrow> (starts_with ''phase='' body \<longrightarrow> list_ex (\<lambda>p. starts_with (''phase='' @ p) body) phases)"

lemma starts_with_weaken: "starts_with (p @ q) s \<Longrightarrow> starts_with p s"
  by (auto simp: starts_with_iff)

lemma WithTransportState_prefix:
  assumes "starts_with p (rr_body r)" and "CHR '';'' \<notin> set p"
  shows "starts_with p (rr_body (WithTransportState r pending active))"
proof -
  have "starts_with p (replace_until (rr_body r) i stop x)"
    if "find_str (rr_body r) '';core_egress_validated=1;dns_ready=1'' 0 = Some i" for i stop x
    by (rule starts_with_replace [OF assms(1) field_behind [OF find_str_found [OF that] assms]])
  moreover have "starts_with p (x @ y)" if "starts_with p x" for x y :: string
    using that by (auto simp: starts_with_iff)
  ultimately show ?thesis
    using assms(1) by (auto simp: WithTransportState_def Let_def split: option.splits)
qed

lemma WithFailure_prefix:
  assumes "starts_with p (rr_body r)" and "CHR '';'' \<notin> set p"
  shows "starts_with p (rr_body (WithFailure r st code)) \<or> rr_body (WithFailure r st code) = code"
proof (cases "rfind_str (rr_body r) '';failure=''")
  case (Some field)
  define body where "body = replace_until (rr_body r) field (find_char (rr_body r) (CHR '';'') (field + 1)) ('';failure='' @ code)"
  have "starts_with p body"
    unfolding body_def by (rule starts_with_replace [OF assms(1) field_behind [OF rfind_str_found [OF Some] assms]])
  have "starts_with p (replace_until body i stop x)" if "find_str body '';egress_probe_stage='' 0 = Some i" for i stop x
    by (rule starts_with_replace [OF \<open>starts_with p body\<close> field_behind [OF find_str_found [OF that] \<open>starts_with p body\<close> assms(2)]])
  moreover have "rr_body (WithFailure r st code) = (case find_str body '';egress_probe_stage='' 0 of
      None \<Rightarrow> body
    | Some i \<Rightarrow> replace_until body i (find_str body '';transport_proof_pending='' i) [])"
    unfolding WithFailure_def Some option.case Let_def body_def [symmetric] by simp
  ultimately show ?thesis using \<open>starts_with p body\<close> by (simp split: option.splits)
qed (simp add: WithFailure_def)

lemma FailureCode_no_phase: "\<not> starts_with ''phase='' (FailureCode op)"
  by (simp add: FailureCode_def starts_with_def split: Interruption.splits)

lemma shows_only_transport:
  assumes "shows_only phases (rr_body r)" and "list_all (\<lambda>p. CHR '';'' \<notin> set p) phases"
  shows "shows_only phases (rr_body (WithTransportState r pending active))"
proof (cases "starts_with ''phase='' (rr_body r)")
  case True
  with assms obtain p where "p \<in> set phases" and "starts_with (''phase='' @ p) (rr_body r)" and "CHR '';'' \<notin> set p"
    by (auto simp: shows_only_def list_ex_iff list_all_iff)
  then have "starts_with (''phase='' @ p) (rr_body (WithTransportState r pending active))"
    by (intro WithTransportState_prefix) simp_all
  with \<open>p \<in> set phases\<close> show ?thesis by (auto simp: shows_only_def list_ex_iff)
next
  case False
  then show ?thesis by (simp add: WithTransportState_def shows_only_def)
qed

lemma project_result_stopping:
  assumes "sound op" and "ac_bound op \<noteq> None" and "interrupted op"
  shows "shows_only [''busy'', ''recovery_required''] (rr_body (project_result op r))"
proof -
  let ?stopping = "WithFailure (ac_stopping_snapshot op) (FailureStatus op) (FailureCode op)"
  have "starts_with ''phase=busy'' (rr_body (ac_stopping_snapshot op))"
    using assms(1,2) starts_with_weaken [of "''phase=busy''" "'';''"] by (simp add: sound_def)
  from WithFailure_prefix [OF this, of "FailureStatus op" "FailureCode op"]
  have "shows_only [''busy'', ''recovery_required''] (rr_body ?stopping)"
    using FailureCode_no_phase [of op] by (auto simp: shows_only_def)
  moreover have "shows_only [''busy'', ''recovery_required''] (rr_body r)" if "starts_with ''phase=recovery_required;'' (rr_body r)"
    using that starts_with_weaken [of "''phase=recovery_required''" "'';''"] by (simp add: shows_only_def)
  moreover have "shows_only [''busy'', ''recovery_required''] (rr_body r)" if "\<not> starts_with ''phase='' (rr_body r)"
    using that by (simp add: shows_only_def)
  ultimately show ?thesis
    using assms(3) unfolding project_result_def Let_def interrupted_def by (intro shows_only_transport) auto
qed

text \<open>
  C12. An interrupted connection is never shown as running.  Once a bound operation is interrupted,
  every state that the dispatcher reports while the operation is the active one is that of a busy
  host or of a host that requires recovery, whatever the snapshot says.
\<close>

theorem interrupted_owner_not_running:
  assumes "operations_sound d" and "dp_active d = Some k" and "ac_bound (operation k d) \<noteq> None" and "interrupted (operation k d)"
    and "run_state (ProjectBoundState e r) (d, t) = (r', s)"
  shows "shows_only [''busy'', ''recovery_required''] (rr_body r')"
proof -
  from assms(3) obtain bound where b: "ac_bound (operation k d) = Some bound" by blast
  obtain u d1 t1 where p: "run_state (project_interrupts e k bound) (d, t) = (u, (d1, t1))" by (metis prod.exhaust)
  have k: "k < length (dp_operations d)" using assms(1,2) by (simp add: operations_sound_def)
  have ev: "evolves (operation k d) (operation k d1)"
    using movesD [OF operations.moves_interrupts p] k by (simp add: operations_order_def)
  have "sound (operation k d)" using assms(1) k by (simp add: operations_sound_def list_all_length)
  then have "sound (operation k d1)" by (rule evolves_sound [OF ev])
  moreover have "ac_bound (operation k d1) \<noteq> None" "interrupted (operation k d1)"
    using ev assms(3,4) by (auto simp: evolves_def identity_def interrupted_def)
  moreover have "r' = project_result (operation k d1) r"
    using assms(2,5) b p by (auto simp: ProjectBoundState_def run_simps)
  ultimately show ?thesis using project_result_stopping by simp
qed

section \<open>The sections of the other sessions\<close>

text \<open>Without the execution lock neither the host nor the choice of the active operation changes.\<close>

definition seat :: "RuntimeDispatcher \<Rightarrow> RuntimeHost \<times> nat option" where
  "seat d = (dp_runtime d, dp_active d)"

definition detached :: "'a dispatcher_action \<Rightarrow> bool" where
  "detached m \<longleftrightarrow> emits session_io m \<and> frames seat m"

named_theorems detachment \<open>actions that leave the host and the active operation alone\<close>

lemma detached_bind [detachment]: "detached m \<Longrightarrow> (\<And>a. detached (f a)) \<Longrightarrow> detached (State_Monad.bind m f)"
  by (auto simp: detached_def intro!: effect)

lemma detached_return [detachment]: "detached (State_Monad.return a)"
  by (auto simp: detached_def intro!: effect)

lemma detached_if [detachment]: "(b \<Longrightarrow> detached m) \<Longrightarrow> (\<not> b \<Longrightarrow> detached n) \<Longrightarrow> detached (if b then m else n)"
  by simp

lemma detached_option [detachment]:
  "(x = None \<Longrightarrow> detached m) \<Longrightarrow> (\<And>y. x = Some y \<Longrightarrow> detached (f y)) \<Longrightarrow> detached (case x of None \<Rightarrow> m | Some y \<Rightarrow> f y)"
  by (cases x) simp_all

lemma detached_prod [detachment]: "(\<And>a b. detached (f a b)) \<Longrightarrow> detached (case x of (a, b) \<Rightarrow> f a b)"
  by (cases x) simp

lemma detached_bool [detachment]: "detached m \<Longrightarrow> detached n \<Longrightarrow> detached (case b of True \<Rightarrow> m | False \<Rightarrow> n)"
  by (cases b) simp_all

lemma detached_my [detachment]: "detached (my f)"
  by (auto simp: detached_def intro!: effect)

lemma detached_ask [detachment]: "session_io op \<Longrightarrow> detached (ask f w op)"
  by (auto simp: detached_def intro!: effect)

lemma detached_tell [detachment]: "session_io op \<Longrightarrow> detached (tell op)"
  by (auto simp: detached_def intro!: effect)

lemma detached_change [detachment]:
  "(\<And>d. dp_runtime (f d) = dp_runtime d) \<Longrightarrow> (\<And>d. dp_active (f d) = dp_active d) \<Longrightarrow> detached (change f)"
  by (auto simp: detached_def seat_def intro!: effect)

lemma detached_on_operation [detachment]: "detached (on_operation k f)"
  unfolding on_operation_def by (auto intro!: detachment)

lemma detached_clock [detachment]: "detached (IsConnectDeadlineCurrent e b)" "detached (IsActiveTransportLeaseCurrent e b u)"
  unfolding IsConnectDeadlineCurrent_def IsActiveTransportLeaseCurrent_def ReadBootClock_def BootReference_def boot_ref_value_def Let_def
  by (auto intro!: detachment)

lemma detached_reads [detachment]:
  "detached (client_gone e op)" "detached (revision_current e op r)" "detached (deadline_lapsed e op b)"
  unfolding client_gone_def revision_current_def deadline_lapsed_def by (auto intro!: detachment)

lemma detached_Refresh [detachment]: "detached (RefreshBoundNetwork e owner)"
  unfolding RefreshBoundNetwork_def refresh_telegram_def by (auto intro!: detachment)

lemma detached_Project [detachment]: "detached (ProjectBoundState e r)"
  unfolding ProjectBoundState_def project_interrupts_def by (auto intro!: detachment)

lemma detached_sections [detachment]:
  "detached (Cancel body)" "detached (Status_request e)" "detached (stop_target frame)" "detached (check_deadline e k)"
  "detached start_closing" "detached (signal_cancel target)"
  unfolding Cancel_def Status_request_def stop_target_def check_deadline_def start_closing_def signal_cancel_def
  by (intro detachment; simp)+

lemma detached_busy [detachment]: "detached (busy_request e frame)"
  unfolding busy_request_def Let_def by (auto intro!: detachment)

lemma detached_probes [detachment]:
  "detached (CancelCandidateProbe body)" "detached (register_probe frame request)" "detached (retire_probe key)"
  unfolding CancelCandidateProbe_def register_probe_def retire_probe_def by (auto intro!: detachment)

lemma detached_callbacks [detachment]:
  "detached (connect_interrupted e k dl)" "detached (telegram_interrupted e k dl)" "detached (maintain_dpi_interrupted e k)"
  unfolding telegram_interrupted_def maintain_dpi_interrupted_def connect_interrupted_def connect_interrupts_def
  by (auto intro!: detachment)

lemma detached_unit_of [detachment]: "detached m \<Longrightarrow> detached (unit_of m)"
  unfolding unit_of_def by (auto intro!: detachment)

lemma detached_session_do [detachment]: "detached (session_do e step)"
  by (cases step) (auto intro!: detachment)

lemma detached_session_steps [detachment]: "detached (session_steps e steps)"
  by (induction steps) (auto intro!: detachment)

lemma detached_others [detachment]: "detached (others e sch)"
  unfolding others_def by (auto intro!: detachment)

text \<open>They keep whatever the operations of the sessions do not touch.\<close>

lemma session_stable_append:
  "session_stable I \<Longrightarrow> list_all (\<lambda>(op, a). session_io op) new \<Longrightarrow> I (h, t) \<Longrightarrow> I (h, new @ t)"
  by (induction new) (auto simp: session_stable_def)

lemma detached_keeps: "detached m \<Longrightarrow> session_stable I \<Longrightarrow> keeps (of_host I) m"
  unfolding keeps_def
  by (rule triple_pairI) (auto simp: detached_def of_host_def seat_def dest!: emitsD framesD intro: session_stable_append)

section \<open>A bound owner\<close>

lemma detached_networks [detachment]:
  "detached (bound_revision e c b)" "detached (local_dpi_context e b)" "detached (claim_client e frame bd n)"
  unfolding bound_revision_def local_dpi_context_def read_candidate_def claim_client_def by (auto intro!: detachment)

text \<open>The active operation is bound and exists, and the host is the given one.\<close>

definition held_by :: "RuntimeHost \<Rightarrow> nat \<Rightarrow> RuntimeDispatcher \<times> trace \<Rightarrow> bool" where
  "held_by h k s \<longleftrightarrow> dp_runtime (fst s) = h \<and> dp_active (fst s) = Some k \<and> k < length (dp_operations (fst s)) \<and>
     ac_bound (operation k (fst s)) \<noteq> None"

lemma detached_held: "detached m \<Longrightarrow> moves operations_order m \<Longrightarrow> keeps (held_by h k) m"
  unfolding keeps_def
  by (rule triple_pairI)
    (auto simp: detached_def held_by_def seat_def operations_order_def evolves_def identity_def dest!: framesD movesD)

definition refused :: "RuntimeHost \<Rightarrow> nat \<Rightarrow> RuntimeResult \<Rightarrow> RuntimeDispatcher \<times> trace \<Rightarrow> bool" where
  "refused h k r s \<longleftrightarrow> held_by h k s \<and> rr_status r \<noteq> kOk"

lemma triple_gives:
  assumes "gives Q m" and "keeps P m"
  shows "triple P m (\<lambda>r s. P s \<and> Q r)"
proof (rule tripleI)
  fix s a s'
  assume "P s" and run: "run_state m s = (a, s')"
  moreover have "Q a" using assms(1) run unfolding gives_def by (metis fst_conv)
  ultimately show "P s' \<and> Q a" using assms(2) unfolding keeps_def by (blast dest: tripleD)
qed

lemma project_result_status: "rr_status r \<noteq> kOk \<Longrightarrow> rr_status (project_result op r) \<noteq> kOk"
  by (auto simp: project_result_def WithTransportState_def WithFailure_def FailureStatus_def Let_def split: option.splits)

lemma ProjectBoundState_refused: "rr_status r \<noteq> kOk \<Longrightarrow> triple (held_by h k) (ProjectBoundState e r) (refused h k)"
proof -
  assume status: "rr_status r \<noteq> kOk"
  have "gives (\<lambda>r. rr_status r \<noteq> kOk) (ProjectBoundState e r)"
    unfolding ProjectBoundState_def gives_def
    by (auto simp: run_simps status project_result_status WithTransportState_def Let_def split: option.splits prod.splits)
  moreover have "keeps (held_by h k) (ProjectBoundState e r)"
    by (intro detached_held detachment operations.moves_Project)
  ultimately show ?thesis
    unfolding refused_def [abs_def] by (rule triple_gives)
qed

lemma WithFailure_status [simp]: "rr_status (WithFailure r st code) = st"
  by (simp add: WithFailure_def Let_def split: option.splits)

lemma return_refused: "rr_status r \<noteq> kOk \<Longrightarrow> triple (held_by h k) (State_Monad.return r) (refused h k)"
  by (rule triple_return) (simp add: refused_def)

lemma held_first: "detached m \<Longrightarrow> moves operations_order m \<Longrightarrow> (\<And>a. triple (held_by h k) (f a) Q) \<Longrightarrow>
    triple (held_by h k) (State_Monad.bind m f) Q"
  by (rule triple_bind [OF triple_keeps [OF detached_held]])

lemma claim_operation_refused:
  assumes "excluded_by_owner (fr_command frame)"
  shows "triple (held_by h k) (claim_operation e frame claimed) (\<lambda>r s. \<exists>answer. r = Inl answer \<and> refused h k answer s)"
proof -
  have answer: "triple (held_by h k)
     (do { (if cl_bound claimed \<noteq> None then stop_target frame else State_Monad.return ());
           answer \<leftarrow> ProjectBoundState e (WithFailure snapshot kNotReady ''runtime_busy'');
           State_Monad.return (Inl answer) })
     (\<lambda>r s. \<exists>answer. r = Inl answer \<and> refused h k answer s)" for snapshot
    by (rule held_first, intro detachment, intro operations.moves_if operations.moves_stop_target operations.moves_return,
        rule triple_bind [OF ProjectBoundState_refused], simp, rule triple_return) simp
  show ?thesis
    unfolding claim_operation_def
    apply (rule triple_my_id, rule triple_if)
    subgoal by (rule triple_pre [OF answer]) simp
    subgoal by (rule triple_absurd) (use assms in \<open>auto simp: held_by_def bound_active_def\<close>)
    done
qed

lemma triple_Inl:
  "triple (\<lambda>s. \<exists>a. x = Inl a \<and> Q a s) (case x of Inl a \<Rightarrow> State_Monad.return a | Inr b \<Rightarrow> f b) Q"
  by (cases x) (auto intro: triple_return triple_absurd)

lemma execute_command_refused:
  "excluded_by_owner (fr_command frame) \<Longrightarrow> triple (held_by h k) (execute_command e sch frame claimed) (refused h k)"
  unfolding execute_command_def
  by (rule triple_bind [OF claim_operation_refused], assumption, rule triple_Inl)

lemma excluded_command:
  assumes "excluded_by_owner (fr_command frame)"
  shows "fr_command frame \<noteq> kPromoteTransportLease" and "fr_command frame \<noteq> kRevokeTransportLease"
    and "fr_command frame \<noteq> kConfigureBoundSmartAccessRuntimeControl"
    and "answer_without_lock e sch frame dl = State_Monad.return None"
  using assms by (auto simp: excluded_by_owner_def IsConnectCommand_def answer_without_lock_def)

lemma execute_locked_refused:
  assumes "excluded_by_owner (fr_command frame)"
  shows "triple (held_by h k) (execute_locked e sch frame bound dl) (refused h k)"
proof -
  note execute = execute_command_refused [OF assms]
  have command: "triple (held_by h k)
     (do { client \<leftarrow> claim_client e frame (bound \<noteq> None) network;
           case client of
             None \<Rightarrow> State_Monad.return (result kNotReady ''connect_owner_unavailable'')
           | Some (process, net) \<Rightarrow> execute_command e sch frame (f process net) }) (refused h k)" for network f
    by (rule held_first [OF detached_networks(3) operations.moves_claim_client])
      (auto split: option.splits prod.splits intro!: return_refused execute)
  have unavailable: "triple (held_by h k)
     (do { stop_target frame; snapshot \<leftarrow> my dp_snapshot;
           ProjectBoundState e (WithFailure snapshot kNotReady ''network_context_unavailable'') }) (refused h k)"
    by (intro held_first detachment operations.moves_stop_target operations.moves_my ProjectBoundState_refused) simp
  have networks: "triple (held_by h k) (do { network \<leftarrow> (if c then local_dpi_context e bound else State_Monad.return None); m network }) (refused h k)"
    if "\<And>network. triple (held_by h k) (m network) (refused h k)" for c m
    by (intro held_first detachment operations.moves_if operations.moves_local_dpi_context operations.moves_return that)
  have reset: "detached (if only_reads (fr_command frame) then State_Monad.return () else change (\<lambda>d. d\<lparr>dp_next_egress_check := 0\<rparr>))"
      "moves operations_order (if only_reads (fr_command frame) then State_Monad.return () else change (\<lambda>d. d\<lparr>dp_next_egress_check := 0\<rparr>))"
    by (intro detachment operations.moves_if operations.moves_return operations.moves_change; simp add: tables_def)+
  show ?thesis
    unfolding execute_locked_def Let_def
    by (rule held_first [OF reset], rule held_first [OF detached_my operations.moves_my],
        rule held_first [OF detached_networks(1) operations.moves_bound_revision], rule triple_option)
      (auto simp only: excluded_command(1-3) [OF assms] if_False simp_thms intro!: unavailable networks command)
qed

text \<open>
  C11. A bound owner excludes other owners.  While a bound connection is the active operation, a
  request to connect, to replace the profile, to initialize, to stage or to invalidate a profile
  is answered with a failure on every path, and neither the host nor the choice of the active
  operation changes.
\<close>

theorem bound_owner_excludes:
  assumes "operations_sound d" and "bound_active d" and "excluded_by_owner (fr_command frame)"
    and "run_state (Execute e sch frame deadline) (d, t) = (r, (d', t'))"
  shows "dp_runtime d' = dp_runtime d \<and> dp_active d' = dp_active d \<and> rr_status r \<noteq> kOk"
proof -
  obtain k where "dp_active d = Some k" and held: "held_by (dp_runtime d) k (d, t)"
    using assms(1,2) by (auto simp: bound_active_def operations_sound_def held_by_def split: option.splits)
  note locked = execute_locked_refused [OF assms(3)]
  have "triple (held_by (dp_runtime d) k) (Execute e sch frame deadline) (refused (dp_runtime d) k)"
    unfolding Execute_def excluded_command(4) [OF assms(3)] bind_left_identity option.case
    by (intro triple_if triple_option locked return_refused held_first detachment operations.moves_clock operations.moves_stop_target)
      simp_all
  from tripleD [OF this held assms(4)] show ?thesis
    using \<open>dp_active d = Some k\<close> by (simp add: refused_def held_by_def)
qed

section \<open>A confirmed cancellation\<close>

definition rested :: "disk \<Rightarrow> bool \<Rightarrow> string \<Rightarrow> RuntimeHost \<times> trace \<Rightarrow> bool" where
  "rested dk b root s \<longleftrightarrow> undone dk b root s \<and> at_rest s \<and> released True s"

lemma rested_stable: "session_stable (rested dk b root)"
  unfolding session_stable_def
proof (intro allI impI)
  fix op a h t
  assume op: "session_io op" and r: "rested dk b root (h, t)"
  have "host_inv dk b (AppendPath root kJournalName) (h, [(op, a)] @ t)"
    using r session_quiet [OF op] by (intro host_inv_quiet) (auto simp: rested_def undone_def)
  with r show "rested dk b root (h, (op, a) # t)"
    using core_up_silent [OF session_silent [OF op], of a t]
    by (auto simp: rested_def undone_def clean_def core_down_def at_rest_def released_def)
qed

lemma rested_Snapshot: "keeps (rested dk b root) (Snapshot e)"
  using calm_Snapshot [of e] unfolding rested_def [abs_def]
  by (intro keeps_conj keeps_undone frames_at_rest keeps_Snapshot frames_released owned_recovery frames_Snapshot)
    (simp_all add: calm_def)

lemma of_host_call: "triple P m (\<lambda>r s. Q r s) \<Longrightarrow> triple (of_host P) (runtime_call m) (\<lambda>r. of_host (Q r))"
  unfolding runtime_call_def of_host_def by (fastforce simp: triple_def run_simps split: prod.splits)

lemma of_host_change: "(\<And>d. dp_runtime (f d) = dp_runtime d) \<Longrightarrow> keeps (of_host I) (change f)"
  unfolding keeps_def by (rule triple_change) (simp add: of_host_def)

lemma rested_take_snapshot: "keeps (of_host (rested dk b root)) (take_snapshot e)"
  unfolding take_snapshot_def
  by (intro keeps_bind of_host_change of_host_call [OF rested_Snapshot [unfolded keeps_def], folded keeps_def]) simp


section \<open>A client that cannot be identified\<close>

text \<open>
  An unbound connect with a local DPI or Telegram network whose client process cannot be
  identified goes on without that network, but its target is recorded as stopped: a confirmed
  cancellation of it is answered at once as settled.
\<close>

lemma unbound_connect_marked_stopped:
  assumes "env_int e t (SessionIo PipeClientProcess) = 0"
    and "run_state (claim_client e frame False (Some network)) (d, t) = (claimed, (d', t'))"
  shows "claimed = Some (None, None) \<and> dp_active d' = dp_active d \<and> dp_runtime d' = dp_runtime d \<and>
    fst (run_state (signal_cancel (frame_target frame)) (d', t')) = Inl (result kOk ''settled=1'')"
  using assms by (auto simp: claim_client_def stop_target_def signal_cancel_def SameTarget_def run_simps)

section \<open>A session\<close>

text \<open>
  A running host under a journal that says so, and a dispatcher whose active operation is a bound
  connect that was cancelled.
\<close>

definition sample_disk :: disk where
  "sample_disk = (\<lambda>_. Some (journal_text kCommitted (hex_string (replicate 16 1)) ''net''))"

definition sample_committed :: DurableRuntimeRecovery where
  "sample_committed = NewRecovery ''C:'' True (journal_on sample_disk (AppendPath ''C:'' kJournalName))"

definition sample_running :: RuntimeHost where
  "sample_running = (fst (NewRuntimeHost True True True sample_committed ''C:'' True True False sample_guard []))
     \<lparr>rh_initialized := True, rh_phase := kRunning\<rparr>"

definition sample_bound :: BoundConnectTarget where
  "sample_bound = \<lparr>bc_core_module_sha256 = [], bc_profile_digest = [], bc_boot_ref = [], bc_started_elapsed_ms = 0,
     bc_deadline_elapsed_ms = 1, bc_network_context_ref = []\<rparr>"

definition sample_frame :: "Command \<Rightarrow> Frame" where
  "sample_frame command = \<lparr>fr_kind = kRequest, fr_command = command, fr_status = kStatusNone, fr_correlation_id = [],
     fr_session_token = [1], fr_operation_nonce = [2], fr_deadline_unix_ms = 0, fr_capabilities = 0, fr_body = []\<rparr>"

definition sample_operation :: ActiveConnect where
  "sample_operation = Interrupt kCancelled_cause (new_operation (sample_frame kConnectWithIdentity)
     \<lparr>cl_bound = Some sample_bound, cl_revision = Some 7, cl_network = None, cl_client = Some 4, cl_requests_dpi = False,
       cl_requests_telegram = False\<rparr> sample_running (result kOk ''phase=busy;failure=none''))"

definition sample_dispatcher :: RuntimeDispatcher where
  "sample_dispatcher = \<lparr>dp_runtime = sample_running, dp_snapshot = result kOk ''phase=running;failure=none'',
     dp_operations = [sample_operation], dp_active = Some 0, dp_stopped = None, dp_closing = False, dp_egress_interval = 2000,
     dp_next_egress_check = 0, dp_egress_check_cancelled = None, dp_probes = [], dp_probe_count = 0\<rparr>"

lemmas sample_session = sample_dispatcher_def sample_operation_def new_operation_def Interrupt_def Let_def

lemma sample_sound: "operations_sound sample_dispatcher" "bound_active sample_dispatcher" "interrupted sample_operation"
  "ac_bound sample_operation \<noteq> None" "ac_interruption sample_operation \<noteq> kNone_cause" "dp_active sample_dispatcher = Some 0"
  "dp_operations sample_dispatcher = [sample_operation]" "dp_runtime sample_dispatcher = sample_running"
  by (simp_all add: sample_session operations_sound_def sound_def bound_active_def interrupted_def starts_with_def)

theorem interruption_is_final_witness:
  "case dispatcher_run happy_env (\<lambda>_. [StepStatus]) [Section (StepDeadline 0), Section StepClose] (sample_dispatcher, []) of
     (d', t') \<Rightarrow> interrupted (operation 0 d') \<and> FailureCode (operation 0 d') = ''operation_cancelled''"
proof -
  obtain d' t' where run: "dispatcher_run happy_env (\<lambda>_. [StepStatus]) [Section (StepDeadline 0), Section StepClose]
      (sample_dispatcher, []) = (d', t')" by (metis prod.exhaust)
  have "FailureCode sample_operation = ''operation_cancelled''" by (simp add: sample_session FailureCode_def)
  with interruption_is_final [OF _ _ _ run, of 0] sample_sound show ?thesis by (simp add: run)
qed

theorem interrupted_owner_not_running_witness:
  "shows_only [''busy'', ''recovery_required'']
     (rr_body (fst (run_state (ProjectBoundState happy_env (result kOk ''phase=running;failure=none'')) (sample_dispatcher, []))))"
  by (rule interrupted_owner_not_running [where k = 0 and d = sample_dispatcher and t = "[]", OF _ _ _ _ surjective_pairing])
    (simp_all add: sample_sound)

theorem bound_owner_excludes_witness:
  "case run_state (Execute happy_env (\<lambda>_. []) (sample_frame kStageProfile) 5) (sample_dispatcher, []) of (r, (d', t')) \<Rightarrow>
     dp_runtime d' = sample_running \<and> dp_active d' = Some 0 \<and> rr_status r \<noteq> kOk"
proof -
  obtain r d' t' where run: "run_state (Execute happy_env (\<lambda>_. []) (sample_frame kStageProfile) 5) (sample_dispatcher, []) =
      (r, (d', t'))" by (metis prod.exhaust)
  have "excluded_by_owner (fr_command (sample_frame kStageProfile))" by (simp add: sample_frame_def excluded_by_owner_def)
  from bound_owner_excludes [OF sample_sound(1,2) this run] show ?thesis by (simp add: run sample_sound)
qed

lemma sample_committed_fields:
  "rc_stage sample_committed = kCommitted" "usable sample_committed" "rc_network_state sample_committed"
  "rc_network_snapshot sample_committed = ''net''"
proof -
  have "hex_string (replicate 16 1) \<noteq> zero_generation" by (simp add: hex_string_def hex_byte_def zero_generation_def numeral_eq_Suc hex_digit_def)
  moreover have "HexDecode (HexEncode ''net'') = Some ''net''"
    by (rule HexDecode_HexEncode) (simp add: kMaximumNetworkSnapshotSize_def)
  ultimately show "rc_stage sample_committed = kCommitted" "usable sample_committed" "rc_network_state sample_committed"
      "rc_network_snapshot sample_committed = ''net''"
    using parse_journal_text [OF sample_generation(1), of kCommitted "''net''"]
      length_journal_text [OF sample_generation(1), of "''net''" kCommitted]
    by (simp_all add: sample_committed_def sample_disk_def NewRecovery_def Load_def journal_on_def ReadBoundedFile_def usable_def
        AppendPath_def kJournalName_def kPendingJournalName_def sample_generation kMaximumNetworkSnapshotSize_def)
qed

lemma sample_running_facts:
  "ordinary kCommitted (sample_running, [])" "rh_initialized sample_running" "rh_phase sample_running = kRunning"
  "\<not> rh_has_guard sample_running" "journaled sample_disk True ''C:'' (sample_running, [])"
proof -
  have "rec_inv sample_disk True (AppendPath ''C:'' kJournalName) (sample_committed, [])"
    unfolding sample_committed_def
    by (rule NewRecovery_inv) (simp_all add: sample_disk_def needs_rollback_text sample_generation)
  then show "journaled sample_disk True ''C:'' (sample_running, [])"
    by (simp add: host_inv_def sample_running_def NewRuntimeHost_def Let_def AppendPath_def kJournalName_def)
  show "ordinary kCommitted (sample_running, [])" "rh_initialized sample_running" "rh_phase sample_running = kRunning"
    "\<not> rh_has_guard sample_running"
    by (simp_all add: ordinary_def sample_running_def NewRuntimeHost_def Let_def sample_committed_fields quiescent_def NewExecutor_def
        kMaximumNetworkSnapshotSize_def)
qed

lemma sample_confirmed: "rr_body (fst (run_state (confirm_cancel happy_env (\<lambda>_. []) target 0) (sample_dispatcher, []))) = ''settled=1''"
proof -
  obtain r h t where run: "run_state (Disconnect happy_env True) (sample_running, []) = (r, (h, t))" by (metis prod.exhaust)
  then have "rr_status r = kOk"
    using Disconnect_ok [OF happy_cooperative sample_running_facts(1-3), of True] sample_running_facts(4) by simp
  then show ?thesis
    using run by (simp add: confirm_cancel_def on_operation_def shared_call_def runtime_call_def others_def take_snapshot_def
      RetireConnect_def sample_dispatcher_def run_simps split: prod.splits)
qed


end
