(* ===== verification/Service_Journal.thy ===== *)
theory Service_Journal
  imports Recovery Core_Fence
begin

text \<open>
  \<^verbatim>\<open>service_events.cpp\<close>: the durable journal of the events of the service.  A call to the sink
  composes one line and queues it; a writer thread takes the lines in order, rotates the file
  when the line would not fit, and appends.  The calls of the sink, the rounds of the writer and the
  end of the journal are the steps of a machine on the journal and the disk.
\<close>

definition kMaximumServiceEventJournalSize :: nat where "kMaximumServiceEventJournalSize = 256 * 1024"
definition kMaximumPendingServiceEvents :: nat where "kMaximumPendingServiceEvents = 4096"
definition kServiceEventJournalName :: string where "kServiceEventJournalName = ''service-events.v1.log''"
definition kPreviousServiceEventJournalName :: string where
  "kPreviousServiceEventJournalName = ''service-events.v1.previous.log''"
definition kJournalMagic_events :: string where "kJournalMagic_events = ''POKROV_SERVICE_EVENT_V1''"
definition kCoreEventJournalMagic :: string where "kCoreEventJournalMagic = ''POKROV_CORE_EVENT_V1''"

section \<open>Names\<close>

fun EventName :: "ServiceEvent \<Rightarrow> string" where
  "EventName kServiceStartPending = ''service_start_pending''"
| "EventName kServiceBootObserved = ''service_boot_observed''"
| "EventName kServiceRunning = ''service_running''"
| "EventName kServiceStopRequested = ''service_stop_requested''"
| "EventName kServiceShutdownRequested = ''service_shutdown_requested''"
| "EventName kServicePreShutdownRequested = ''service_preshutdown_requested''"
| "EventName kServicePowerSuspend = ''service_power_suspend''"
| "EventName kServicePowerResume = ''service_power_resume''"
| "EventName kServiceStopped = ''service_stopped''"
| "EventName kIpcSessionAccepted = ''ipc_session_accepted''"
| "EventName kIpcSessionRejected = ''ipc_session_rejected''"
| "EventName kIpcSessionClosed = ''ipc_session_closed''"
| "EventName kRuntimeInitialize = ''runtime_initialize''"
| "EventName kRuntimeProfileStage = ''runtime_profile_stage''"
| "EventName kRuntimeNetworkSnapshot = ''runtime_network_snapshot''"
| "EventName kRuntimeCoreStart = ''runtime_core_start''"
| "EventName kRuntimeWintunStart = ''runtime_wintun_start''"
| "EventName kRuntimeAdapterApply = ''runtime_adapter_apply''"
| "EventName kRuntimeRouteApply = ''runtime_route_apply''"
| "EventName kRuntimeDnsApply = ''runtime_dns_apply''"
| "EventName kRuntimeEgressVerify = ''runtime_egress_verify''"
| "EventName kRuntimeCandidateProbe = ''runtime_candidate_probe''"
| "EventName kRuntimeCommit = ''runtime_commit''"
| "EventName kRuntimeRollbackBegin = ''runtime_rollback_begin''"
| "EventName kRuntimeCoreStop = ''runtime_core_stop''"
| "EventName kRuntimeNetworkRestore = ''runtime_network_restore''"
| "EventName kRuntimeRollbackComplete = ''runtime_rollback_complete''"
| "EventName kRuntimeRecoveryRequired = ''runtime_recovery_required''"

fun OutcomeName :: "ServiceEventOutcome \<Rightarrow> string" where
  "OutcomeName kAttempted = ''attempted''"
| "OutcomeName kSucceeded = ''succeeded''"
| "OutcomeName kFailed = ''failed''"
| "OutcomeName kAccepted = ''accepted''"
| "OutcomeName kRejected = ''rejected''"

fun GuardOperationName :: "TransitionGuardOperation \<Rightarrow> string" where
  "GuardOperationName kStart_guard = ''start''"
| "GuardOperationName kFinish_guard = ''finish''"

fun LocalDpiStageName :: "LocalDpiStage \<Rightarrow> string" where
  "LocalDpiStageName kStart_dpi = ''start''"
| "LocalDpiStageName kProof_dpi = ''proof''"
| "LocalDpiStageName kAdmit_dpi = ''admit''"
| "LocalDpiStageName kRuntime_dpi = ''runtime''"

definition local_dpi_failures :: "string list" where
  "local_dpi_failures = [
    ''local_dpi_executor_running'', ''local_dpi_executor_unavailable'', ''local_dpi_scope_invalid'',
     ''local_dpi_interface_unavailable'', ''local_dpi_assets_unavailable'', ''local_dpi_holder_unavailable'',
     ''local_dpi_child_failed'', ''local_dpi_filter_unavailable'', ''local_dpi_retry_unavailable'',
     ''local_dpi_control_invalid'', ''local_dpi_physical_unavailable'', ''local_dpi_control_dns_failed'',
     ''local_dpi_control_connect_failed'', ''local_dpi_control_permit_failed'',
     ''local_dpi_physical_changed'', ''local_dpi_control_tls_failed'', ''local_dpi_control_http_failed'',
     ''local_dpi_owner_changed'', ''local_dpi_admission_failed'', ''connect_timeout_ipv4'',
     ''connect_timeout_ipv6'', ''connect_error_ipv4'', ''connect_error_ipv6'', ''early_read'', ''early_write'']"

definition LocalDpiFailureName :: "string \<Rightarrow> string" where
  "LocalDpiFailureName failure =
     (if failure = [] then ''none''
      else case find (\<lambda>code. failure = code) local_dpi_failures of
        Some code \<Rightarrow> code
      | None \<Rightarrow> ''local_dpi_unavailable'')"

fun GuardStageName :: "TransitionGuardStage \<Rightarrow> string" where
  "GuardStageName kEngineOpen = ''engine_open''"
| "GuardStageName kIdentity = ''identity''"
| "GuardStageName kReadBegin = ''read_begin''"
| "GuardStageName kReadQuery = ''read_query''"
| "GuardStageName kReadVerify = ''read_verify''"
| "GuardStageName kInstallBegin = ''install_begin''"
| "GuardStageName kInstallApply = ''install_apply''"
| "GuardStageName kInstallCommit = ''install_commit''"
| "GuardStageName kRemoveBegin = ''remove_begin''"
| "GuardStageName kRemoveApply = ''remove_apply''"
| "GuardStageName kRemoveCommit = ''remove_commit''"
| "GuardStageName kRemoveVerify = ''remove_verify''"

text \<open>A command without a case, and a value without an enumerator, falls through to the last line.\<close>

fun CommandName :: "Command \<Rightarrow> string" where
  "CommandName kHello = ''hello''"
| "CommandName kStatus = ''status''"
| "CommandName kReadTransportNetworkContext = ''status''"
| "CommandName kReadCandidateNetwork = ''status''"
| "CommandName kObserveNetworkContext = ''status''"
| "CommandName kProbeCandidate = ''candidate_probe''"
| "CommandName kCancelCandidateProbe = ''cancel_candidate_probe''"
| "CommandName kConnect = ''connect''"
| "CommandName kReplaceManagedProfile = ''connect''"
| "CommandName kDisconnect = ''disconnect''"
| "CommandName kCancel = ''cancel''"
| "CommandName kCancelConnectAndConfirm = ''cancel_connect_and_confirm''"
| "CommandName kRecover = ''recover''"
| "CommandName kDiagnosticState = ''diagnostic_state''"
| "CommandName kInitialize = ''initialize''"
| "CommandName kStageProfile = ''stage_profile''"
| "CommandName kStageBoundProfile = ''stage_profile''"
| "CommandName kInvalidateProfile = ''invalidate_profile''"
| "CommandName kRevokeSmartAccessLease = ''revoke_smart_access_lease''"
| "CommandName kRevokeRoutingCatalog = ''revoke_routing_catalog''"
| "CommandName kRevokeRoutingCatalogService = ''revoke_routing_catalog_service''"
| "CommandName kRevokeSmartAccessPolicy = ''revoke_smart_access_policy''"
| "CommandName kRenewSmartAccessLease = ''renew_smart_access_lease''"
| "CommandName kConfigureSmartAccessRuntimeControl = ''configure_smart_access_runtime_control''"
| "CommandName kConfigureBoundSmartAccessRuntimeControl = ''configure_smart_access_runtime_control''"
| "CommandName kConfigureSmartAccessRenewal = ''configure_smart_access_renewal''"
| "CommandName kReadSmartAccessRestrictions = ''read_smart_access_restrictions''"
| "CommandName kReadSmartAccessLeases = ''read_smart_access_leases''"
| "CommandName kAcknowledgeSmartAccessRestrictions = ''acknowledge_smart_access_restrictions''"
| "CommandName command = ''invalid''"

fun StatusName :: "Status \<Rightarrow> string" where
  "StatusName kStatusNone = ''none''"
| "StatusName kOk = ''ok''"
| "StatusName kInvalid = ''invalid''"
| "StatusName kUnauthorized = ''unauthorized''"
| "StatusName kUnsupported = ''unsupported''"
| "StatusName kNotReady = ''not_ready''"
| "StatusName kReplay = ''replay''"
| "StatusName kDeadlineExceeded = ''deadline_exceeded''"
| "StatusName (Status_raw w) = ''invalid''"

definition CorrelationHex :: "Identifier \<Rightarrow> string" where
  "CorrelationHex correlation_id = hex_string correlation_id"

text \<open>\<^verbatim>\<open>%016llx\<close> always writes sixteen digits of a 64-bit value.\<close>

definition BootEpochId :: "u64 \<Rightarrow> string" where
  "BootEpochId ticks = ''boot-'' @ map (\<lambda>k. hex_digit (unat (drop_bit (4 * k) ticks AND 15))) (rev [0..<16])"

section \<open>The sink\<close>

text \<open>\<^verbatim>\<open>std::to_string\<close> of a signed integer\<close>

definition to_string_signed :: "int \<Rightarrow> string" where
  "to_string_signed i = (if i < 0 then ''-'' @ to_string (nat (- i)) else to_string (nat i))"

datatype (plugins only: code size) sink_call =
    CallRecord ServiceEvent ServiceEventOutcome
  | CallRecordSystemBoot u64
  | CallRecordIpcRequest Command Identifier
  | CallRecordIpcResponse Command Status Identifier
  | CallRecordTransitionGuardFailure TransitionGuardOperation TransitionGuardStage u32
  | CallRecordCoreOperationalEvent CoreOperationalEventRecord
  | CallRecordEgressProbeObservation EgressProbeStage EgressProbeOutcome EgressErrorDomain u32 u64
  | CallRecordLocalDpiObservation LocalDpiStage int string bool

record DurableServiceEventJournal =
  ej_current_path :: string
  ej_previous_path :: string
  ej_sequence :: u64
  ej_pending :: "string list"
  ej_stopping :: bool

definition NewEventJournal :: "string \<Rightarrow> u64 \<Rightarrow> DurableServiceEventJournal" where
  "NewEventJournal runtime_root tick = \<lparr>
     ej_current_path = AppendPath runtime_root kServiceEventJournalName,
     ej_previous_path = AppendPath runtime_root kPreviousServiceEventJournalName,
     ej_sequence = tick, ej_pending = [], ej_stopping = False\<rparr>"

definition journal_valid :: "DurableServiceEventJournal \<Rightarrow> bool" where
  "journal_valid j \<longleftrightarrow> ej_current_path j \<noteq> [] \<and> ej_previous_path j \<noteq> []"

definition CreateServiceEventJournal :: "string \<Rightarrow> u64 \<Rightarrow> DurableServiceEventJournal option" where
  "CreateServiceEventJournal runtime_root tick =
     (let journal = NewEventJournal runtime_root tick in if journal_valid journal then Some journal else None)"

definition AppendLine :: "string \<Rightarrow> DurableServiceEventJournal \<Rightarrow> bool \<times> DurableServiceEventJournal" where
  "AppendLine line j =
     (if 512 < length line then (False, j)
      else if ej_stopping j \<or> kMaximumPendingServiceEvents \<le> length (ej_pending j) then (False, j)
      else (True, j\<lparr>ej_pending := ej_pending j @ [line]\<rparr>))"

text \<open>The line of \<^verbatim>\<open>Append\<close>, and \<^verbatim>\<open>Append\<close> with the time that the clock shows.\<close>

definition event_line :: "u64 \<Rightarrow> u64 \<Rightarrow> string \<Rightarrow> string \<Rightarrow> string \<Rightarrow> string \<Rightarrow> string \<Rightarrow> string" where
  "event_line ticks sequence event outcome command status correlation =
     kJournalMagic_events @ ''|'' @ to_string (unat ticks) @ ''|'' @ to_string (unat sequence) @ ''|'' @ event @ ''|'' @
     outcome @ ''|'' @ command @ ''|'' @ status @ ''|'' @ correlation @ [newline]"

definition Append :: "u64 \<Rightarrow> string \<Rightarrow> string \<Rightarrow> string \<Rightarrow> string \<Rightarrow> string \<Rightarrow>
    DurableServiceEventJournal \<Rightarrow> bool \<times> DurableServiceEventJournal" where
  "Append ticks event outcome command status correlation j =
     AppendLine (event_line ticks (ej_sequence j + 1) event outcome command status correlation)
       (j\<lparr>ej_sequence := ej_sequence j + 1\<rparr>)"

definition core_event_line :: "CoreOperationalEventRecord \<Rightarrow> string" where
  "core_event_line event =
     kCoreEventJournalMagic @ ''|'' @ to_string_signed (ce_schema_version event) @ ''|'' @
     to_string_signed (ce_event_abi event) @ ''|'' @ ce_occurred_at_utc event @ ''|'' @ ce_run_id event @ ''|'' @
     ce_attempt_id event @ ''|'' @ to_string_signed (ce_generation event) @ ''|'' @
     to_string_signed (ce_sequence event) @ ''|'' @ ce_name event @ ''|'' @ ce_subsystem event @ ''|'' @
     ce_stage event @ ''|'' @ ce_severity event @ ''|'' @ ce_outcome event @ ''|'' @
     (if ce_error_code event = [] then ''none'' else ce_error_code event) @ ''|'' @ ce_phase event @ [newline]"

definition strategy_text :: "int \<Rightarrow> string" where
  "strategy_text strategy = to_string_signed (if strategy \<in> {4, 101, 568, 681} then strategy else 0)"

fun sink_do :: "u64 \<Rightarrow> sink_call \<Rightarrow> DurableServiceEventJournal \<Rightarrow> bool \<times> DurableServiceEventJournal" where
  "sink_do ticks (CallRecord event outcome) j =
     Append ticks (EventName event) (OutcomeName outcome) ''none'' ''none'' ''none'' j"
| "sink_do ticks (CallRecordSystemBoot boot) j =
     Append ticks (EventName kServiceBootObserved) ''succeeded'' ''none'' ''none'' (BootEpochId boot) j"
| "sink_do ticks (CallRecordIpcRequest command correlation) j =
     Append ticks ''ipc_request'' ''attempted'' (CommandName command) ''none'' (CorrelationHex correlation) j"
| "sink_do ticks (CallRecordIpcResponse command status correlation) j =
     Append ticks ''ipc_response'' (if status = kOk then ''succeeded'' else ''failed'') (CommandName command)
       (StatusName status) (CorrelationHex correlation) j"
| "sink_do ticks (CallRecordTransitionGuardFailure operation stage wfp_error) j =
     Append ticks ''transition_guard_failure'' ''failed'' (GuardOperationName operation) (GuardStageName stage)
       (to_string (unat wfp_error)) j"
| "sink_do ticks (CallRecordCoreOperationalEvent event) j = AppendLine (core_event_line event) j"
| "sink_do ticks (CallRecordEgressProbeObservation stage outcome domain error elapsed_ms) j =
     Append ticks ''runtime_egress_observation'' (EgressProbeOutcomeName outcome) (EgressProbeStageName stage)
       (EgressProbeErrorDomainName domain) (to_string (unat error) @ '','' @ to_string (unat elapsed_ms)) j"
| "sink_do ticks (CallRecordLocalDpiObservation stage strategy failure child_alive) j =
     Append ticks ''runtime_local_dpi_observation'' (if failure = [] then ''succeeded'' else ''failed'')
       (LocalDpiStageName stage) (LocalDpiFailureName failure)
       (strategy_text strategy @ '','' @ (if child_alive then ''1'' else ''0'')) j"

section \<open>The writer\<close>

text \<open>
  What the system answers to one line: whether the attributes can be read, the file moved, the file
  opened, and how much is written and flushed.  A file that is not there is an answer of the disk.
\<close>

record line_io =
  li_attributes :: bool
  li_move :: bool
  li_open :: bool
  li_write :: bool
  li_written :: nat
  li_flush :: bool

definition RotateIfNeeded :: "line_io \<Rightarrow> nat \<Rightarrow> DurableServiceEventJournal \<Rightarrow> disk \<Rightarrow> bool \<times> disk" where
  "RotateIfNeeded io incoming_size j d =
     (if \<not> li_attributes io then (False, d)
      else case d (ej_current_path j) of
        None \<Rightarrow> (True, d)
      | Some content \<Rightarrow>
          if length content + incoming_size \<le> kMaximumServiceEventJournalSize then (True, d)
          else if li_move io then (True, (d(ej_previous_path j \<mapsto> content))(ej_current_path j := None))
          else (False, d))"

definition WriteLine :: "line_io \<Rightarrow> string \<Rightarrow> DurableServiceEventJournal \<Rightarrow> disk \<Rightarrow> bool \<times> disk" where
  "WriteLine io line j d =
     (case RotateIfNeeded io (length line) j d of
        (False, d1) \<Rightarrow> (False, d1)
      | (True, d1) \<Rightarrow>
          if \<not> li_open io then (False, d1)
          else
            (let content = (case d1 (ej_current_path j) of None \<Rightarrow> [] | Some c \<Rightarrow> c)
             in (li_write io \<and> li_written io = length line \<and> li_flush io,
                 d1(ej_current_path j \<mapsto> content @ take (li_written io) line))))"

text \<open>
  A round of \<^verbatim>\<open>WritePending\<close> once its wait is over: whether the thread returns, and the journal and the
  disk.  A round on an empty queue that is not stopping is a spurious wake-up.
\<close>

definition write_round :: "line_io \<Rightarrow> DurableServiceEventJournal \<times> disk \<Rightarrow> bool \<times> DurableServiceEventJournal \<times> disk" where
  "write_round io s =
     (case s of (j, d) \<Rightarrow>
        case ej_pending j of
          [] \<Rightarrow> (ej_stopping j, j, d)
        | line # rest \<Rightarrow> (False, j\<lparr>ej_pending := rest\<rparr>, snd (WriteLine io line j d)))"

text \<open>\<^verbatim>\<open>WritePending\<close> after the journal was told to stop.\<close>

fun WritePending :: "line_io list \<Rightarrow> DurableServiceEventJournal \<times> disk \<Rightarrow> bool \<times> DurableServiceEventJournal \<times> disk" where
  "WritePending [] s = (False, s)"
| "WritePending (io # ios) s = (case write_round io s of (True, s') \<Rightarrow> (True, s') | (False, s') \<Rightarrow> WritePending ios s')"

datatype (plugins only: code size) journal_step = Sink u64 sink_call | Writer line_io | CloseJournal

fun journal_do :: "journal_step \<Rightarrow> DurableServiceEventJournal \<times> disk \<Rightarrow> DurableServiceEventJournal \<times> disk" where
  "journal_do (Sink ticks call) (j, d) = (snd (sink_do ticks call j), d)"
| "journal_do (Writer io) s = snd (write_round io s)"
| "journal_do CloseJournal (j, d) = (j\<lparr>ej_stopping := True\<rparr>, d)"

definition journal_run :: "journal_step list \<Rightarrow> DurableServiceEventJournal \<times> disk \<Rightarrow> DurableServiceEventJournal \<times> disk" where
  "journal_run steps s = fold journal_do steps s"

end
