(* ===== verification/Journal_Laws.thy ===== *)
theory Journal_Laws
  imports Service_Journal
begin

text \<open>
  What the journal of events promises: the sizes of its queue and of its two files, the shape of
  its lines, and that it ends.
\<close>

section \<open>Sizes\<close>

definition file_size :: "disk \<Rightarrow> string \<Rightarrow> nat" where
  "file_size d path = (case d path of None \<Rightarrow> 0 | Some content \<Rightarrow> length content)"

definition journal_sized :: "DurableServiceEventJournal \<times> disk \<Rightarrow> bool" where
  "journal_sized s \<longleftrightarrow>
     (case s of (j, d) \<Rightarrow>
        ej_current_path j \<noteq> ej_previous_path j \<and>
        length (ej_pending j) \<le> kMaximumPendingServiceEvents \<and>
        list_all (\<lambda>line. length line \<le> 512) (ej_pending j) \<and>
        file_size d (ej_current_path j) \<le> kMaximumServiceEventJournalSize \<and>
        file_size d (ej_previous_path j) \<le> kMaximumServiceEventJournalSize)"

text \<open>A call of the sink leaves the paths alone and adds at most one bounded line to a queue with room.\<close>

lemma AppendLine_adds:
  assumes "AppendLine line j = (ok, j')"
  shows "j' = (if ok then j\<lparr>ej_pending := ej_pending j @ [line]\<rparr> else j)"
    and "ok \<Longrightarrow> length line \<le> 512 \<and> length (ej_pending j) < kMaximumPendingServiceEvents \<and> \<not> ej_stopping j"
  using assms by (auto simp: AppendLine_def split: if_splits)

text \<open>The line that a call composes: its last five fields, or the line of a Core event.\<close>

fun service_fields :: "sink_call \<Rightarrow> string list option" where
  "service_fields (CallRecord event outcome) = Some [EventName event, OutcomeName outcome, ''none'', ''none'', ''none'']"
| "service_fields (CallRecordSystemBoot boot) =
     Some [EventName kServiceBootObserved, ''succeeded'', ''none'', ''none'', BootEpochId boot]"
| "service_fields (CallRecordIpcRequest command correlation) =
     Some [''ipc_request'', ''attempted'', CommandName command, ''none'', CorrelationHex correlation]"
| "service_fields (CallRecordIpcResponse command status correlation) =
     Some [''ipc_response'', if status = kOk then ''succeeded'' else ''failed'', CommandName command, StatusName status,
       CorrelationHex correlation]"
| "service_fields (CallRecordTransitionGuardFailure operation stage wfp_error) =
     Some [''transition_guard_failure'', ''failed'', GuardOperationName operation, GuardStageName stage,
       to_string (unat wfp_error)]"
| "service_fields (CallRecordCoreOperationalEvent event) = None"
| "service_fields (CallRecordEgressProbeObservation stage outcome domain error elapsed_ms) =
     Some [''runtime_egress_observation'', EgressProbeOutcomeName outcome, EgressProbeStageName stage,
       EgressProbeErrorDomainName domain, to_string (unat error) @ '','' @ to_string (unat elapsed_ms)]"
| "service_fields (CallRecordLocalDpiObservation stage strategy failure child_alive) =
     Some [''runtime_local_dpi_observation'', if failure = [] then ''succeeded'' else ''failed'', LocalDpiStageName stage,
       LocalDpiFailureName failure, strategy_text strategy @ '','' @ (if child_alive then ''1'' else ''0'')]"

fun composed :: "u64 \<Rightarrow> sink_call \<Rightarrow> DurableServiceEventJournal \<Rightarrow> string" where
  "composed ticks (CallRecordCoreOperationalEvent event) j = core_event_line event"
| "composed ticks call j =
     join (CHR ''|'') ([kJournalMagic_events, to_string (unat ticks), to_string (unat (ej_sequence j + 1))] @
       the (service_fields call)) @ [newline]"

fun numbered :: "sink_call \<Rightarrow> DurableServiceEventJournal \<Rightarrow> DurableServiceEventJournal" where
  "numbered (CallRecordCoreOperationalEvent event) j = j"
| "numbered call j = j\<lparr>ej_sequence := ej_sequence j + 1\<rparr>"

lemma sink_do_composed: "sink_do ticks call j = AppendLine (composed ticks call j) (numbered call j)"
  by (cases call) (simp_all add: Append_def event_line_def)

lemma numbered_simps [simp]:
  "ej_pending (numbered call j) = ej_pending j" "ej_current_path (numbered call j) = ej_current_path j"
  "ej_previous_path (numbered call j) = ej_previous_path j"
  by (cases call; simp)+

lemma sink_keeps_sized: "journal_sized (j, d) \<Longrightarrow> journal_sized (snd (sink_do ticks call j), d)"
  by (auto simp: sink_do_composed AppendLine_def journal_sized_def)

lemma rotate_sized:
  assumes "RotateIfNeeded io n j d = (ok, d')" and "journal_sized (j, d)" and "n \<le> 512"
  shows "file_size d' (ej_previous_path j) \<le> kMaximumServiceEventJournalSize"
    and "file_size d' (ej_current_path j) \<le> kMaximumServiceEventJournalSize"
    and "ok \<Longrightarrow> file_size d' (ej_current_path j) + n \<le> kMaximumServiceEventJournalSize"
  using assms
  by (auto simp: RotateIfNeeded_def journal_sized_def file_size_def kMaximumServiceEventJournalSize_def
      split: if_splits option.splits)

lemma WriteLine_sized:
  assumes "journal_sized (j, d)" and "length line \<le> 512"
  shows "file_size (snd (WriteLine io line j d)) (ej_current_path j) \<le> kMaximumServiceEventJournalSize \<and>
    file_size (snd (WriteLine io line j d)) (ej_previous_path j) \<le> kMaximumServiceEventJournalSize"
proof -
  obtain ok d1 where r: "RotateIfNeeded io (length line) j d = (ok, d1)" by (metis prod.exhaust)
  have "ej_current_path j \<noteq> ej_previous_path j" using assms(1) by (simp add: journal_sized_def)
  with rotate_sized [OF r assms] show ?thesis
    by (cases ok) (auto simp: WriteLine_def r Let_def file_size_def split: option.splits)
qed

lemma step_keeps_sized: "journal_sized s \<Longrightarrow> journal_sized (journal_do step s)"
proof (cases step)
  case (Writer io)
  assume sized: "journal_sized s"
  obtain j d where s: "s = (j, d)" by (cases s)
  show ?thesis
  proof (cases "ej_pending j")
    case (Cons line rest)
    with sized have "length line \<le> 512" by (simp add: s journal_sized_def)
    from WriteLine_sized [OF sized [unfolded s] this, of io] sized Cons show ?thesis
      by (auto simp: Writer s write_round_def journal_sized_def)
  qed (use sized in \<open>simp add: Writer s write_round_def\<close>)
next
  case (Sink ticks call)
  then show "journal_sized s \<Longrightarrow> ?thesis" by (cases s) (simp add: sink_keeps_sized)
qed (cases s, simp add: journal_sized_def)

lemma run_keeps_sized: "journal_sized s \<Longrightarrow> journal_sized (journal_run steps s)"
  unfolding journal_run_def by (induction steps arbitrary: s) (simp_all add: step_keeps_sized)

lemma journal_paths_differ:
  "root \<noteq> [] \<Longrightarrow> AppendPath root kServiceEventJournalName \<noteq> AppendPath root kPreviousServiceEventJournalName"
  by (simp add: AppendPath_def kServiceEventJournalName_def kPreviousServiceEventJournalName_def)

section \<open>Lines\<close>

text \<open>A text without a separator or a line end, and what a reader takes for one record.\<close>

definition plain :: "string \<Rightarrow> bool" where
  "plain s \<longleftrightarrow> CHR ''|'' \<notin> set s \<and> newline \<notin> set s"

definition closed_line :: "string \<Rightarrow> bool" where
  "closed_line line \<longleftrightarrow>
     line \<noteq> [] \<and> last line = newline \<and> count_list line newline = 1 \<and>
     ((starts_with (kJournalMagic_events @ ''|'') line \<and> count_list line (CHR ''|'') = 7) \<or>
      (starts_with (kCoreEventJournalMagic @ ''|'') line \<and> count_list line (CHR ''|'') = 14))"

named_theorems plain_texts \<open>texts without separators\<close>

lemma plain_append [plain_texts]: "plain (s @ t) \<longleftrightarrow> plain s \<and> plain t"
  by (auto simp: plain_def)

lemma plain_Cons [plain_texts]: "plain (c # s) \<longleftrightarrow> c \<noteq> CHR ''|'' \<and> c \<noteq> newline \<and> plain s"
  by (auto simp: plain_def)

lemma plain_Nil [plain_texts]: "plain []"
  by (simp add: plain_def)

lemma plain_to_string [plain_texts]: "plain (to_string n)" "plain (to_string_signed i)"
  by (auto simp: plain_def to_string_signed_def to_string_notin)

lemma plain_lower_hex: "list_all is_lower_hex s \<Longrightarrow> plain s"
  by (simp add: plain_def hex_free)

lemma plain_hex [plain_texts]: "plain (CorrelationHex i)" "plain (BootEpochId w)"
proof -
  have "unat (v AND (15 :: u64)) < 16" for v
    by (rule le_less_trans [OF word_le_nat_alt [THEN iffD1, OF word_and_le1]]) simp
  then have "is_lower_hex (hex_digit (unat (v AND (15 :: u64))))" for v by (rule hex_digit_lower)
  then have "plain (map (\<lambda>k. hex_digit (unat (drop_bit (4 * k) w AND 15))) (rev [0..<16]))"
    by (intro plain_lower_hex) (simp only: list_all_iff set_map ball_simps simp_thms ball_triv)
  then show "plain (BootEpochId w)" by (simp add: BootEpochId_def plain_append plain_Cons)
qed (simp add: CorrelationHex_def plain_lower_hex hex_string_lower)

lemma plain_names [plain_texts]:
  "plain (EventName event)" "plain (OutcomeName outcome)" "plain (GuardOperationName operation)"
  "plain (LocalDpiStageName dpi)" "plain (GuardStageName stage)" "plain (CommandName command)" "plain (StatusName status)"
  "plain (EgressProbeOutcomeName probe)" "plain (EgressProbeStageName probe_stage)" "plain (EgressProbeErrorDomainName domain)"
  subgoal by (cases event) (simp_all add: plain_def)
  subgoal by (cases outcome) (simp_all add: plain_def)
  subgoal by (cases operation) (simp_all add: plain_def)
  subgoal by (cases dpi) (simp_all add: plain_def)
  subgoal by (cases stage) (simp_all add: plain_def)
  subgoal by (cases command) (simp_all add: plain_def)
  subgoal by (cases status) (simp_all add: plain_def)
  subgoal by (cases probe) (simp_all add: plain_def)
  subgoal by (cases probe_stage) (simp_all add: plain_def)
  subgoal by (cases domain) (simp_all add: plain_def)
  done

lemma plain_failure [plain_texts]: "plain (LocalDpiFailureName failure)"
proof -
  have "list_all plain local_dpi_failures" by (simp add: local_dpi_failures_def plain_def)
  then show ?thesis
    by (auto simp: LocalDpiFailureName_def list_all_iff find_Some_iff plain_Cons plain_Nil split: option.split)
qed

lemma plain_strategy [plain_texts]: "plain (strategy_text n)"
  by (simp add: strategy_text_def plain_to_string)

lemma plain_service_fields: "service_fields call = Some fs \<Longrightarrow> list_all plain fs \<and> length fs = 5"
  by (cases call) (auto simp: plain_texts)

text \<open>Fields without separators make one record.\<close>

lemma joined_counts:
  assumes "list_all plain fs"
  shows "count_list (join (CHR ''|'') fs @ [newline]) newline = 1"
    and "count_list (join (CHR ''|'') fs @ [newline]) (CHR ''|'') = length fs - 1"
proof -
  have "newline \<notin> set (join (CHR ''|'') fs)"
    using assms by (induction "CHR ''|''" fs rule: join.induct) (auto simp: plain_def)
  then show "count_list (join (CHR ''|'') fs @ [newline]) newline = 1" by simp
  have "\<forall>x \<in> set fs. CHR ''|'' \<notin> set x" using assms by (simp add: list_all_iff plain_def)
  from count_join_free [OF this] show "count_list (join (CHR ''|'') fs @ [newline]) (CHR ''|'') = length fs - 1" by simp
qed

definition core_fields :: "CoreOperationalEventRecord \<Rightarrow> string list" where
  "core_fields event = [to_string_signed (ce_schema_version event), to_string_signed (ce_event_abi event),
     ce_occurred_at_utc event, ce_run_id event, ce_attempt_id event, to_string_signed (ce_generation event),
     to_string_signed (ce_sequence event), ce_name event, ce_subsystem event, ce_stage event, ce_severity event,
     ce_outcome event, if ce_error_code event = [] then ''none'' else ce_error_code event, ce_phase event]"

lemma core_event_line_join:
  "core_event_line event = join (CHR ''|'') (kCoreEventJournalMagic # core_fields event) @ [newline]"
  by (simp add: core_event_line_def core_fields_def)

lemma plain_magic [plain_texts]: "plain kJournalMagic_events" "plain kCoreEventJournalMagic"
  by (simp_all add: plain_def kJournalMagic_events_def kCoreEventJournalMagic_def)

lemma composed_closed:
  assumes "\<And>event. call = CallRecordCoreOperationalEvent event \<Longrightarrow> list_all plain (core_fields event)"
  shows "closed_line (composed ticks call j)"
proof (cases "service_fields call")
  case None
  then obtain event where call: "call = CallRecordCoreOperationalEvent event" by (cases call) auto
  have "list_all plain (kCoreEventJournalMagic # core_fields event)" using assms call by (simp add: plain_texts)
  from joined_counts [OF this] show ?thesis
    by (simp add: call core_event_line_join closed_line_def core_fields_def starts_with_prefix)
next
  case (Some fs)
  define prefix where "prefix = [kJournalMagic_events, to_string (unat ticks), to_string (unat (ej_sequence j + 1))]"
  have eq: "composed ticks call j = join (CHR ''|'') (prefix @ fs) @ [newline]"
    using Some by (cases call) (auto simp: prefix_def)
  have "list_all plain (prefix @ fs)" "length (prefix @ fs) = 8"
    using plain_service_fields [OF Some] by (simp_all add: prefix_def plain_texts)
  from joined_counts [OF this(1)] this(2) show ?thesis
    by (simp add: eq closed_line_def) (simp add: prefix_def starts_with_prefix)
qed

section \<open>Lines of Core\<close>

lemma plain_uuid: "IsLowerUuid s \<Longrightarrow> plain s"
proof -
  assume u: "IsLowerUuid s"
  have hex: "IsLowerHex c \<longleftrightarrow> is_lower_hex c" for c by (simp add: IsLowerHex_def is_lower_hex_def is_digit_def)
  have "c = CHR ''-'' \<or> is_lower_hex c" if "c \<in> set s" for c
  proof -
    from that obtain k where k: "k < length s" "c = s ! k" by (metis in_set_conv_nth)
    from u have dash: "s ! 8 = CHR ''-''" "s ! 13 = CHR ''-''" "s ! 18 = CHR ''-''" "s ! 23 = CHR ''-''"
      and rest: "\<forall>i < length s. i \<in> {8, 13, 18, 23} \<or> is_lower_hex (s ! i)"
      by (simp_all add: IsLowerUuid_def list_all_iff hex split: if_splits)
    from rest k dash show ?thesis by auto
  qed
  then have "\<not> (c \<in> set s)" if "c \<noteq> CHR ''-''" "\<not> is_lower_hex c" for c using that by blast
  then show ?thesis by (simp add: plain_def)
qed

lemma plain_timestamp: "IsUtcTimestamp s \<Longrightarrow> plain s"
proof -
  assume t: "IsUtcTimestamp s"
  then have ends: "s \<noteq> []" "last s = CHR ''Z''" by (auto simp: IsUtcTimestamp_def split: if_splits)
  have "\<forall>c \<in> set (butlast s). is_digit c \<or> c \<in> set ''-T:.''"
    using t by (simp add: IsUtcTimestamp_def list_all_iff split: if_splits)
  then have "c \<notin> set (butlast s)" if "\<not> is_digit c" "c \<notin> set ''-T:.''" for c using that by blast
  then have "plain (butlast s)" by (simp add: plain_def)
  then have "plain (butlast s @ [last s])" using ends by (simp add: plain_append plain_Cons plain_Nil)
  then show ?thesis using ends(1) by simp
qed

lemma plain_error_code: "IsCoreErrorCode v \<Longrightarrow> plain v"
  by (auto simp: IsCoreErrorCode_def plain_Cons plain_Nil)

lemma plain_definition:
  "IsCoreEventDefinition event \<Longrightarrow>
   plain (ce_name event) \<and> plain (ce_subsystem event) \<and> plain (ce_stage event) \<and> plain (ce_phase event)"
  unfolding IsCoreEventDefinition_def by (elim disjE conjE) (simp_all add: plain_Cons plain_Nil)

text \<open>The fence lets only events through whose texts it has checked.\<close>

lemma accepted_plain:
  assumes "plain (cf_run_id f)" and "plain (cf_attempt_id f)"
  shows "list_all (\<lambda>event. list_all plain (core_fields event)) (accepted calls f)"
  using assms
proof (induction calls f rule: accepted.induct)
  case (2 run attempt generation calls f)
  then show ?case by (auto simp: Activate_def Let_def plain_uuid)
next
  case (3 event calls f)
  obtain ok f' where a: "Accept event f = (ok, f')" by (cases "Accept event f")
  have ids: "cf_run_id f' = cf_run_id f" "cf_attempt_id f' = cf_attempt_id f"
    using a by (auto simp: Accept_def Let_def split: if_splits)
  have "list_all plain (core_fields event)" if ok
  proof -
    have e: "ce_run_id event = cf_run_id f" "ce_attempt_id event = cf_attempt_id f" "IsUtcTimestamp (ce_occurred_at_utc event)"
      "IsCoreEventDefinition event" "ce_outcome event \<in> {''started'', ''succeeded'', ''failed''}"
      "ce_severity event \<in> {''error'', ''info''}" "ce_error_code event = [] \<or> IsCoreErrorCode (ce_error_code event)"
      using a that by (auto simp: Accept_def Let_def split: if_splits)
    have "plain (ce_outcome event)" "plain (ce_severity event)" using e(5,6) by (auto simp: plain_Cons plain_Nil)
    with e 3(2,3) plain_definition [OF e(4)] plain_timestamp [OF e(3)] show ?thesis
      by (auto simp: core_fields_def plain_to_string plain_Cons plain_Nil plain_error_code)
  qed
  with 3 a ids show ?case by simp
qed simp

section \<open>Runs\<close>

text \<open>Every line in the queue is the line of a call.\<close>

lemma run_lines:
  assumes "list_all P (ej_pending (fst s))"
    and "\<And>ticks call j. Sink ticks call \<in> set steps \<Longrightarrow> P (composed ticks call j)"
  shows "list_all P (ej_pending (fst (journal_run steps s)))"
  using assms unfolding journal_run_def
proof (induction steps arbitrary: s)
  case (Cons step steps)
  have "list_all P (ej_pending (fst (journal_do step s)))"
  proof (cases step)
    case (Sink ticks call)
    with Cons.prems show ?thesis by (cases s) (auto simp: sink_do_composed AppendLine_def)
  next
    case (Writer io)
    with Cons.prems(1) show ?thesis by (cases s) (auto simp: write_round_def split: list.split)
  next
    case CloseJournal
    with Cons.prems(1) show ?thesis by (cases s) simp
  qed
  with Cons show ?case by simp
qed simp

lemma WritePending_ends:
  "ej_stopping (fst s) \<Longrightarrow> length (ej_pending (fst s)) < length ios \<Longrightarrow>
   fst (WritePending ios s) \<and> ej_pending (fst (snd (WritePending ios s))) = []"
proof (induction ios arbitrary: s)
  case (Cons io ios)
  obtain j d where s: "s = (j, d)" by (cases s)
  show ?case
  proof (cases "ej_pending j")
    case (Cons line rest)
    with Cons.prems Cons.IH [of "(j\<lparr>ej_pending := rest\<rparr>, snd (WriteLine io line j d))"] show ?thesis
      by (simp add: s write_round_def)
  qed (use Cons.prems in \<open>simp add: s write_round_def\<close>)
qed simp

text \<open>A writer that nothing hinders.\<close>

definition good_line_io :: "nat \<Rightarrow> line_io" where
  "good_line_io n = \<lparr>li_attributes = True, li_move = True, li_open = True, li_write = True, li_written = n, li_flush = True\<rparr>"

lemma WritePending_appends:
  assumes "d (ej_current_path j) = Some content"
    and "length content + length (concat (ej_pending j)) \<le> kMaximumServiceEventJournalSize" and "ej_stopping j"
  shows "WritePending (map (\<lambda>line. good_line_io (length line)) (ej_pending j) @ [good_line_io 0]) (j, d) =
    (True, j\<lparr>ej_pending := []\<rparr>, d(ej_current_path j \<mapsto> content @ concat (ej_pending j)))"
  using assms
proof (induction "ej_pending j" arbitrary: j d content)
  case Nil
  then show ?case by (auto simp: write_round_def fun_upd_idem)
next
  case (Cons line rest)
  let ?j = "j\<lparr>ej_pending := rest\<rparr>" and ?d = "d(ej_current_path j \<mapsto> content @ line)"
  from Cons.hyps(2) Cons.prems have "WriteLine (good_line_io (length line)) line j d = (True, ?d)"
    by (auto simp: WriteLine_def RotateIfNeeded_def good_line_io_def simp flip: Cons.hyps(2))
  moreover have "WritePending (map (\<lambda>line. good_line_io (length line)) rest @ [good_line_io 0]) (?j, ?d) =
      (True, ?j\<lparr>ej_pending := []\<rparr>, ?d(ej_current_path ?j \<mapsto> (content @ line) @ concat rest))"
    using Cons.hyps(1) [of ?j ?d "content @ line"] Cons.prems by (simp flip: Cons.hyps(2))
  ultimately show ?case by (simp add: write_round_def flip: Cons.hyps(2))
qed

lemma run_keeps_paths:
  "ej_current_path (fst (journal_run steps s)) = ej_current_path (fst s) \<and>
   ej_previous_path (fst (journal_run steps s)) = ej_previous_path (fst s)"
  unfolding journal_run_def
proof (induction steps arbitrary: s)
  case (Cons step steps)
  have "ej_current_path (fst (journal_do step s)) = ej_current_path (fst s) \<and>
    ej_previous_path (fst (journal_do step s)) = ej_previous_path (fst s)"
    by (cases step; cases s) (auto simp: sink_do_composed AppendLine_def write_round_def split: list.split)
  with Cons show ?case by simp
qed simp

section \<open>Properties\<close>

text \<open>
  C35. The journal of events is bounded.  In every sequence of calls of the sink, rounds of the writer
  and the end of the journal, and with whatever answers from the system, at most 4096 lines are
  queued, and neither the journal file nor its predecessor ever grows past 256 KiB.
\<close>

theorem event_journal_bounded:
  assumes "root \<noteq> []"
    and "file_size d (AppendPath root kServiceEventJournalName) \<le> kMaximumServiceEventJournalSize"
    and "file_size d (AppendPath root kPreviousServiceEventJournalName) \<le> kMaximumServiceEventJournalSize"
    and "journal_run steps (NewEventJournal root tick, d) = (j, d')"
  shows "length (ej_pending j) \<le> kMaximumPendingServiceEvents \<and>
    file_size d' (AppendPath root kServiceEventJournalName) \<le> kMaximumServiceEventJournalSize \<and>
    file_size d' (AppendPath root kPreviousServiceEventJournalName) \<le> kMaximumServiceEventJournalSize"
proof -
  have "journal_sized (NewEventJournal root tick, d)"
    using assms(1-3) journal_paths_differ by (simp add: journal_sized_def NewEventJournal_def)
  from run_keeps_sized [OF this, of steps, unfolded assms(4)]
    run_keeps_paths [of steps "(NewEventJournal root tick, d)", unfolded assms(4)]
  show ?thesis by (simp add: journal_sized_def NewEventJournal_def)
qed

text \<open>A round of the writer puts the line of a start into a file that did not exist.\<close>

theorem event_journal_bounded_witness:
  "case journal_run [Sink 7 (CallRecord kServiceRunning kSucceeded), Writer (good_line_io 60)] (NewEventJournal ''C:'' 1, Map.empty) of
     (j, d') \<Rightarrow> ej_pending j = [] \<and> file_size d' (AppendPath ''C:'' kServiceEventJournalName) \<le> kMaximumServiceEventJournalSize"
proof -
  let ?run = "journal_run [Sink 7 (CallRecord kServiceRunning kSucceeded), Writer (good_line_io 60)] (NewEventJournal ''C:'' 1, Map.empty)"
  obtain j d' where r: "?run = (j, d')" by (cases ?run)
  have "ej_pending (fst ?run) = []"
    by (simp add: journal_run_def Append_def AppendLine_def NewEventJournal_def write_round_def event_line_def
        kJournalMagic_events_def kMaximumPendingServiceEvents_def)
  moreover have "file_size d' (AppendPath ''C:'' kServiceEventJournalName) \<le> kMaximumServiceEventJournalSize"
    using event_journal_bounded [OF _ _ _ r] by (simp add: file_size_def)
  ultimately show ?thesis by (simp add: r)
qed

text \<open>
  C34. The lines of the journal are closed.  When the Core events that reach the sink are those that
  the event fence accepted, every line in the queue is one record: it ends with its only line end and
  has exactly the eight fields of a service event or the fifteen of a Core event, so that no
  identifier, failure text or text of Core can forge a field or a record.
\<close>

theorem event_lines_closed:
  assumes "\<forall>ticks event. Sink ticks (CallRecordCoreOperationalEvent event) \<in> set steps \<longrightarrow> event \<in> set (accepted calls NewFence)"
  shows "list_all closed_line (ej_pending (fst (journal_run steps (NewEventJournal root tick, d))))"
proof (rule run_lines)
  fix ticks call j
  assume step: "Sink ticks call \<in> set steps"
  have fence: "list_all (\<lambda>event. list_all plain (core_fields event)) (accepted calls NewFence)"
    by (rule accepted_plain) (simp_all add: NewFence_def plain_Nil)
  show "closed_line (composed ticks call j)"
    by (rule composed_closed) (use step assms fence in \<open>auto simp: list_all_iff\<close>)
qed (simp add: NewEventJournal_def)

definition sample_core_event :: CoreOperationalEventRecord where
  "sample_core_event = \<lparr>ce_schema_version = 1, ce_event_abi = 1, ce_occurred_at_utc = ''2025-01-01T00:00:00Z'',
     ce_run_id = ''00000000-0000-4000-8000-000000000000'', ce_attempt_id = ''00000000-0000-4000-8000-000000000000'',
     ce_generation = 1, ce_sequence = 1, ce_name = ''core.runtime.start'', ce_subsystem = ''core'', ce_stage = ''start'',
     ce_severity = ''info'', ce_outcome = ''started'', ce_error_code = [], ce_phase = ''core_start''\<rparr>"

theorem event_lines_closed_witness:
  "list_all closed_line (ej_pending (fst (journal_run [Sink 7 (CallRecordCoreOperationalEvent sample_core_event)]
     (NewEventJournal ''C:'' 1, Map.empty))))"
proof (rule event_lines_closed [where calls = "[CallActivate ''00000000-0000-4000-8000-000000000000''
    ''00000000-0000-4000-8000-000000000000'' 1, CallAccept sample_core_event]"], intro allI impI)
  fix ticks event
  assume "Sink ticks (CallRecordCoreOperationalEvent event) \<in> set [Sink 7 (CallRecordCoreOperationalEvent sample_core_event)]"
  moreover have "IsLowerUuid ''00000000-0000-4000-8000-000000000000''" by code_simp
  moreover have "IsUtcTimestamp ''2025-01-01T00:00:00Z''" by code_simp
  ultimately show "event \<in> set (accepted [CallActivate ''00000000-0000-4000-8000-000000000000''
      ''00000000-0000-4000-8000-000000000000'' 1, CallAccept sample_core_event] NewFence)"
    by (simp add: Activate_def Accept_def NewFence_def INT_MAX_def sample_core_event_def IsCoreEventDefinition_def)
qed

text \<open>
  The journal ends.  Once it is told to stop, the writer returns after one round for each queued
  line and one more, whatever the system answers, and leaves no line in the queue; and when nothing
  hinders it and the lines fit, the file has all of them in the order in which they were queued.
\<close>

lemma event_journal_drains:
  assumes "ej_stopping j" and "length (ej_pending j) < length ios"
  shows "fst (WritePending ios (j, d)) \<and> ej_pending (fst (snd (WritePending ios (j, d)))) = [] \<and>
    (d (ej_current_path j) = Some content \<longrightarrow>
     length content + length (concat (ej_pending j)) \<le> kMaximumServiceEventJournalSize \<longrightarrow>
     WritePending (map (\<lambda>line. good_line_io (length line)) (ej_pending j) @ [good_line_io 0]) (j, d) =
       (True, j\<lparr>ej_pending := []\<rparr>, d(ej_current_path j \<mapsto> content @ concat (ej_pending j))))"
  using assms WritePending_ends [of "(j, d)" ios] WritePending_appends [of d j content] by auto

lemma event_journal_drains_witness:
  "fst (WritePending [good_line_io 2, good_line_io 0] ((NewEventJournal ''C:'' 1)\<lparr>ej_stopping := True, ej_pending := [''ab'']\<rparr>, Map.empty))"
  using event_journal_drains [of "(NewEventJournal ''C:'' 1)\<lparr>ej_stopping := True, ej_pending := [''ab'']\<rparr>"
      "[good_line_io 2, good_line_io 0]" Map.empty] by simp

text \<open>
  The commands that the journal does not know by name: a bound connect, the boot clock and the two
  handoffs of a transport lease are recorded as invalid commands.
\<close>

lemma commands_without_name:
  "{command. IsKnownCommand command \<and> CommandName command = ''invalid''} =
   {kReadBootClock, kConnectWithIdentity, kPromoteTransportLease, kRevokeTransportLease}"
proof -
  have "IsKnownCommand command \<and> CommandName command = ''invalid'' \<longleftrightarrow>
    command \<in> {kReadBootClock, kConnectWithIdentity, kPromoteTransportLease, kRevokeTransportLease}" for command
    by (cases command) simp_all
  then show ?thesis by blast
qed

end
