(* ===== verification/Pipe_Io.thy ===== *)
theory Pipe_Io
  imports Frame_Laws
begin

text \<open>
  The transfer of frames over the named pipe in \<^verbatim>\<open>service_server.cpp\<close>.  A pipe is the bytes that
  the peer sends and has not yet had read, the bytes written to it, and the number of calls made on
  it.  What the system answers to the calls is given by a script that is indexed by that number: how
  many bytes a call moves, how it completes, and what the clock shows.
\<close>

section \<open>Overlapped input and output\<close>

definition kFrameTransferTimeoutMs :: u64 where "kFrameTransferTimeoutMs = 3000"

text \<open>Which of the two handles ended \<^verbatim>\<open>WaitForMultipleObjects\<close>, if any.\<close>

datatype (plugins only: code size) wait = WaitStop | WaitTransfer | WaitTimeout | WaitFailed

text \<open>How \<^verbatim>\<open>ReadFile\<close>, \<^verbatim>\<open>WriteFile\<close> or \<^verbatim>\<open>ConnectNamedPipe\<close> returns; a pending call is awaited.\<close>

datatype (plugins only: code size) completion = Completed | Pending wait bool | IoError u32

text \<open>\<^verbatim>\<open>WaitForIo\<close>: the transfer ended the wait, and \<^verbatim>\<open>GetOverlappedResult\<close> reports its success.\<close>

definition WaitForIo :: "wait \<Rightarrow> bool \<Rightarrow> bool" where
  "WaitForIo w overlapped \<longleftrightarrow> w = WaitTransfer \<and> overlapped"

fun io_succeeds :: "completion \<Rightarrow> bool" where
  "io_succeeds Completed = True"
| "io_succeeds (Pending w overlapped) = WaitForIo w overlapped"
| "io_succeeds (IoError code) = False"

record transfer =
  tf_tick :: u64
  tf_event :: bool
  tf_completion :: completion
  tf_count :: nat

record pipe_script =
  ps_tick :: "nat \<Rightarrow> u64"
  ps_transfer :: "nat \<Rightarrow> transfer"

record Pipe =
  pp_in :: "u8 list"
  pp_out :: "u8 list"
  pp_calls :: nat

text \<open>
  One \<^verbatim>\<open>ReadFile\<close> or \<^verbatim>\<open>WriteFile\<close> of the rest of the buffer: the number of bytes it moved, the buffer
  and the pipe.  It never moves more than the rest of the buffer or than the peer has sent; a call
  that fails at once moves nothing, one that is cancelled may have moved some.
\<close>

definition transfer_chunk :: "transfer \<Rightarrow> bool \<Rightarrow> u8 list \<Rightarrow> nat \<Rightarrow> Pipe \<Rightarrow> nat \<times> u8 list \<times> Pipe" where
  "transfer_chunk t writes buffer offset p =
     (let limit = (case tf_completion t of IoError _ \<Rightarrow> 0 | _ \<Rightarrow> min (tf_count t) (length buffer - offset));
          p1 = p\<lparr>pp_calls := Suc (pp_calls p)\<rparr>
      in if writes
         then (limit, buffer, p1\<lparr>pp_out := pp_out p @ take limit (drop offset buffer)\<rparr>)
         else (let data = take limit (pp_in p)
               in (length data, take offset buffer @ data @ drop (offset + length data) buffer,
                   p1\<lparr>pp_in := drop (length data) (pp_in p)\<rparr>)))"

lemma transfer_chunk_length:
  "transfer_chunk t writes buffer offset p = (moved, buffer', p') \<Longrightarrow> offset \<le> length buffer \<Longrightarrow>
   length buffer' = length buffer \<and> moved \<le> length buffer - offset"
  by (cases "tf_completion t") (auto simp: transfer_chunk_def Let_def split: if_splits)

function TransferExact :: "(nat \<Rightarrow> transfer) \<Rightarrow> bool \<Rightarrow> u64 \<Rightarrow> u8 list \<Rightarrow> nat \<Rightarrow> Pipe \<Rightarrow> bool \<times> u8 list \<times> Pipe" where
  "TransferExact io writes deadline buffer offset p =
     (if length buffer \<le> offset then (True, buffer, p)
      else
        (let t = io (pp_calls p)
         in if deadline \<le> tf_tick t then (False, buffer, p)
            else if \<not> tf_event t then (False, buffer, p)
            else
              (case transfer_chunk t writes buffer offset p of (moved, buffer', p') \<Rightarrow>
                 if \<not> io_succeeds (tf_completion t) \<or> moved = 0 then (False, buffer', p')
                 else TransferExact io writes deadline buffer' (offset + moved) p')))"
  by pat_completeness auto

termination
  by (relation "measure (\<lambda>(io, writes, deadline, buffer, offset, p). length buffer - offset)")
    (auto dest!: transfer_chunk_length [OF sym])

declare TransferExact.simps [simp del]

section \<open>Frames\<close>

definition ReadFrame :: "pipe_script \<Rightarrow> Pipe \<Rightarrow> Frame option \<times> Pipe" where
  "ReadFrame io p =
     (let deadline = ps_tick io (pp_calls p) + kFrameTransferTimeoutMs
      in case TransferExact (ps_transfer io) False deadline (replicate kFrameHeaderSize 0) 0 p of
        (False, header, p1) \<Rightarrow> (None, p1)
      | (True, header, p1) \<Rightarrow>
          (case ExpectedFrameSize (Some header) of
             None \<Rightarrow> (None, p1)
           | Some expected \<Rightarrow>
               if length header < expected
               then (case TransferExact (ps_transfer io) False deadline (replicate (expected - length header) 0) 0 p1 of
                   (False, body, p2) \<Rightarrow> (None, p2)
                 | (True, body, p2) \<Rightarrow> (Decode (Some (header @ body)), p2))
               else (Decode (Some header), p1)))"

definition WriteFrame :: "pipe_script \<Rightarrow> Frame \<Rightarrow> Pipe \<Rightarrow> bool \<times> Pipe" where
  "WriteFrame io frame p =
     (let bytes = Encode frame
      in if bytes = [] then (False, p)
         else (case TransferExact (ps_transfer io) True (ps_tick io (pp_calls p) + kFrameTransferTimeoutMs) bytes 0 p of
           (ok, _, p1) \<Rightarrow> (ok, p1)))"

text \<open>\<^verbatim>\<open>ConnectClient\<close>, from the answers to \<^verbatim>\<open>CreateEventW\<close> and \<^verbatim>\<open>ConnectNamedPipe\<close>.\<close>

definition ERROR_PIPE_CONNECTED :: u32 where "ERROR_PIPE_CONNECTED = 535"

definition ConnectClient :: "bool \<Rightarrow> completion \<Rightarrow> bool" where
  "ConnectClient event connected \<longleftrightarrow>
     event \<and> (case connected of IoError code \<Rightarrow> code = ERROR_PIPE_CONNECTED | _ \<Rightarrow> io_succeeds connected)"

section \<open>Laws of a transfer\<close>

text \<open>The two ways on from an unfinished buffer.\<close>

lemma TransferExact_finished: "length buffer \<le> offset \<Longrightarrow> TransferExact io writes deadline buffer offset p = (True, buffer, p)"
  by (simp add: TransferExact.simps)

lemma TransferExact_refused:
  "offset < length buffer \<Longrightarrow> deadline \<le> tf_tick (io (pp_calls p)) \<or> \<not> tf_event (io (pp_calls p)) \<Longrightarrow>
   TransferExact io writes deadline buffer offset p = (False, buffer, p)"
  by (subst TransferExact.simps) (auto simp: Let_def)

lemma TransferExact_chunk:
  assumes "offset < length buffer" and "\<not> (deadline \<le> tf_tick (io (pp_calls p)) \<or> \<not> tf_event (io (pp_calls p)))"
    and "transfer_chunk (io (pp_calls p)) writes buffer offset p = (moved, b, q)"
  shows "TransferExact io writes deadline buffer offset p =
    (if io_succeeds (tf_completion (io (pp_calls p))) \<and> moved \<noteq> 0
     then TransferExact io writes deadline b (offset + moved) q else (False, b, q))"
  by (subst TransferExact.simps) (use assms in \<open>auto simp: Let_def\<close>)

lemma transfer_induct [case_names finished refused failed moves]:
  fixes p :: Pipe
  assumes "\<And>buffer offset p. length buffer \<le> offset \<Longrightarrow> P buffer offset p (True, buffer, p)"
    and "\<And>buffer offset p. offset < length buffer \<Longrightarrow> P buffer offset p (False, buffer, p)"
    and "\<And>buffer offset p t moved b q. offset < length buffer \<Longrightarrow> transfer_chunk t writes buffer offset p = (moved, b, q) \<Longrightarrow>
      P buffer offset p (False, b, q)"
    and "\<And>buffer offset p t moved b q r. offset < length buffer \<Longrightarrow> transfer_chunk t writes buffer offset p = (moved, b, q) \<Longrightarrow>
      moved \<noteq> 0 \<Longrightarrow> P b (offset + moved) q r \<Longrightarrow> P buffer offset p r"
  shows "P buffer offset p (TransferExact io writes deadline buffer offset p)"
proof (induction "length buffer - offset" arbitrary: buffer offset p rule: less_induct)
  case (less buffer offset p)
  obtain moved b q where c: "transfer_chunk (io (pp_calls p)) writes buffer offset p = (moved, b, q)" by (metis prod.exhaust)
  consider "length buffer \<le> offset"
    | "offset < length buffer" "deadline \<le> tf_tick (io (pp_calls p)) \<or> \<not> tf_event (io (pp_calls p))"
    | "offset < length buffer" "\<not> (deadline \<le> tf_tick (io (pp_calls p)) \<or> \<not> tf_event (io (pp_calls p)))"
    by linarith
  then show ?case
  proof cases
    case 3
    note len = transfer_chunk_length [OF c less_imp_le [OF 3(1)]]
    show ?thesis
    proof (cases "io_succeeds (tf_completion (io (pp_calls p))) \<and> moved \<noteq> 0")
      case True
      with len 3(1) have "P b (offset + moved) q (TransferExact io writes deadline b (offset + moved) q)"
        by (intro less) linarith
      with assms(4) [OF 3(1) c] True show ?thesis by (simp add: TransferExact_chunk [where io = io, OF 3 c])
    next
      case False
      then show ?thesis using assms(3) [OF 3(1) c] by (subst TransferExact_chunk [where io = io, OF 3 c]) (simp only: if_False)
    qed
  qed (use assms(1,2) in \<open>simp_all add: TransferExact_finished TransferExact_refused\<close>)
qed

text \<open>One call, by direction.\<close>

lemma read_chunk:
  assumes "transfer_chunk t False buffer offset p = (moved, b, q)"
  shows "pp_in q = drop moved (pp_in p)" "pp_out q = pp_out p" "pp_calls q = Suc (pp_calls p)"
    "b = take offset buffer @ take moved (pp_in p) @ drop (offset + moved) buffer"
    "moved \<le> length (pp_in p)" "moved \<le> length buffer - offset"
proof -
  define n where "n = (case tf_completion t of IoError _ \<Rightarrow> 0 | _ \<Rightarrow> min (tf_count t) (length buffer - offset))"
  have n: "n \<le> length buffer - offset" by (simp add: n_def split: completion.split)
  have "(moved, b, q) = (length (take n (pp_in p)),
    take offset buffer @ take n (pp_in p) @ drop (offset + length (take n (pp_in p))) buffer,
    p\<lparr>pp_calls := Suc (pp_calls p), pp_in := drop (length (take n (pp_in p))) (pp_in p)\<rparr>)"
    unfolding assms [symmetric] transfer_chunk_def n_def Let_def by (simp del: length_take)
  then have moved: "moved = length (take n (pp_in p))"
    and b: "b = take offset buffer @ take n (pp_in p) @ drop (offset + length (take n (pp_in p))) buffer"
    and q: "q = p\<lparr>pp_calls := Suc (pp_calls p), pp_in := drop (length (take n (pp_in p))) (pp_in p)\<rparr>"
    by (simp_all only: prod.inject)
  have "take moved (pp_in p) = take n (pp_in p)" by (simp add: moved min_def)
  with b show "b = take offset buffer @ take moved (pp_in p) @ drop (offset + moved) buffer" by (simp add: moved del: length_take)
  show "pp_in q = drop moved (pp_in p)" "pp_out q = pp_out p" "pp_calls q = Suc (pp_calls p)"
    "moved \<le> length (pp_in p)" "moved \<le> length buffer - offset"
    using n by (simp_all add: moved q)
qed

lemma write_chunk:
  assumes "transfer_chunk t True buffer offset p = (moved, b, q)"
  shows "pp_out q = pp_out p @ take moved (drop offset buffer)" "pp_in q = pp_in p" "pp_calls q = Suc (pp_calls p)"
    "b = buffer" "moved \<le> length buffer - offset"
  using assms by (cases "tf_completion t"; auto simp: transfer_chunk_def Let_def)+

lemma chunk_progress:
  assumes "transfer_chunk t writes buffer offset p = (moved, b, q)" and "io_succeeds (tf_completion t)" and "0 < tf_count t"
    and "offset < length buffer" and "writes \<or> pp_in p \<noteq> []"
  shows "moved \<noteq> 0"
  using assms by (cases "tf_completion t") (auto simp: transfer_chunk_def Let_def split: if_splits)

text \<open>What a read leaves: a longer prefix of the buffer, filled with the next bytes of the peer.\<close>

lemma read_moves:
  assumes "TransferExact io False deadline buffer offset p = (ok, buffer', p')" and "offset \<le> length buffer"
  shows "\<exists>data. pp_in p = data @ pp_in p' \<and> pp_out p' = pp_out p \<and> offset + length data \<le> length buffer \<and>
     buffer' = take offset buffer @ data @ drop (offset + length data) buffer \<and>
     (ok \<longrightarrow> offset + length data = length buffer) \<and>
     pp_calls p \<le> pp_calls p' \<and> pp_calls p' \<le> pp_calls p + (length buffer - offset)"
proof -
  define P where "P buffer offset p r = (case r of (ok, buffer', p') \<Rightarrow> offset \<le> length buffer \<longrightarrow>
     (\<exists>data. pp_in p = data @ pp_in p' \<and> pp_out p' = pp_out p \<and> offset + length data \<le> length buffer \<and>
     buffer' = take offset buffer @ data @ drop (offset + length data) buffer \<and>
     (ok \<longrightarrow> offset + length data = length buffer) \<and>
     pp_calls p \<le> pp_calls p' \<and> pp_calls p' \<le> pp_calls p + (length buffer - offset)))" for buffer offset and p :: Pipe and r :: "bool \<times> u8 list \<times> Pipe"
  have "P buffer offset p (TransferExact io False deadline buffer offset p)"
  proof (rule transfer_induct)
    fix buffer offset p t moved b q r
    assume lt: "offset < length buffer" and c: "transfer_chunk t False buffer offset p = (moved, b, q)"
      and pos: "moved \<noteq> 0" and IH: "P b (offset + moved) q r"
    obtain ok buffer' p' where r: "r = (ok, buffer', p')" by (metis prod.exhaust)
    note q = read_chunk [OF c]
    have len: "length b = length buffer" "offset + moved \<le> length b" using q(4-6) lt by simp_all
    with IH obtain data where
      e: "pp_in q = data @ pp_in p'" "pp_out p' = pp_out q" "offset + moved + length data \<le> length b"
        "buffer' = take (offset + moved) b @ data @ drop (offset + moved + length data) b"
        "ok \<longrightarrow> offset + moved + length data = length b"
        "pp_calls q \<le> pp_calls p'" "pp_calls p' \<le> pp_calls q + (length b - (offset + moved))"
      unfolding P_def r prod.case by blast
    have size: "length (take moved (pp_in p) @ data) = moved + length data" using q(5) by simp
    have "pp_in p = (take moved (pp_in p) @ data) @ pp_in p'"
      using e(1) q(1) append_take_drop_id [of moved "pp_in p"] by simp
    moreover have "buffer' = take offset buffer @ (take moved (pp_in p) @ data) @ drop (offset + (moved + length data)) buffer"
      using q(4-6) lt by (simp add: e(4) add.assoc add.commute [of "length data"])
    moreover have "offset + (moved + length data) \<le> length buffer" "ok \<longrightarrow> offset + (moved + length data) = length buffer"
      using e(3,5) unfolding len(1) by (simp_all add: add.assoc)
    moreover have "pp_calls p \<le> pp_calls p' \<and> pp_calls p' \<le> pp_calls p + (length buffer - offset)"
      using e(6,7) pos q(6) lt unfolding len(1) q(3) by linarith
    ultimately show "P buffer offset p r"
      unfolding P_def r prod.case using e(2) q(2) size by metis
  next
    fix buffer offset p t moved b q
    assume "offset < length buffer" and c: "transfer_chunk t False buffer offset p = (moved, b, q)"
    with read_chunk [OF c] show "P buffer offset p (False, b, q)"
      unfolding P_def prod.case by (intro impI exI [of _ "take moved (pp_in p)"]) auto
  qed (auto simp: P_def)
  with assms show ?thesis by (simp add: P_def)
qed

text \<open>A write sends a longer prefix of the buffer.\<close>

lemma write_moves:
  assumes "TransferExact io True deadline buffer offset p = (ok, buffer', p')" and "offset \<le> length buffer"
  shows "\<exists>n. pp_out p' = pp_out p @ take n (drop offset buffer) \<and> pp_in p' = pp_in p \<and>
     (ok \<longrightarrow> offset + n = length buffer) \<and> pp_calls p' \<le> pp_calls p + (length buffer - offset)"
proof -
  define P where "P buffer offset p r = (case r of (ok, buffer', p') \<Rightarrow> offset \<le> length buffer \<longrightarrow>
     (\<exists>n. pp_out p' = pp_out p @ take n (drop offset buffer) \<and> pp_in p' = pp_in p \<and>
     (ok \<longrightarrow> offset + n = length buffer) \<and> pp_calls p' \<le> pp_calls p + (length buffer - offset)))"
    for buffer offset and p :: Pipe and r :: "bool \<times> u8 list \<times> Pipe"
  have "P buffer offset p (TransferExact io True deadline buffer offset p)"
  proof (rule transfer_induct)
    fix buffer offset p t moved b q r
    assume lt: "offset < length buffer" and c: "transfer_chunk t True buffer offset p = (moved, b, q)"
      and pos: "moved \<noteq> 0" and IH: "P b (offset + moved) q r"
    obtain ok buffer' p' where r: "r = (ok, buffer', p')" by (metis prod.exhaust)
    note q = write_chunk [OF c]
    have "offset + moved \<le> length b" using q(4,5) lt by simp
    with IH obtain n where e: "pp_out p' = pp_out q @ take n (drop (offset + moved) b)" "pp_in p' = pp_in q"
        "ok \<longrightarrow> offset + moved + n = length b" "pp_calls p' \<le> pp_calls q + (length b - (offset + moved))"
      unfolding P_def r prod.case by blast
    show "P buffer offset p r"
      unfolding P_def r prod.case
      using e q(1-3,5) lt pos unfolding q(4)
      by (intro impI exI [of _ "moved + n"] conjI) (auto simp: take_add add.assoc add.commute [of offset])
  next
    fix buffer offset p t moved b q
    assume "offset < length buffer" and c: "transfer_chunk t True buffer offset p = (moved, b, q)"
    with write_chunk [OF c] show "P buffer offset p (False, b, q)"
      unfolding P_def prod.case by (intro impI exI [of _ moved]) auto
  qed (auto simp: P_def)
  with assms show ?thesis by (simp add: P_def)
qed

text \<open>
  The calls of a span of the script all move something in time.  Nothing is said of how much each of
  them moves.
\<close>

definition delivers :: "(nat \<Rightarrow> transfer) \<Rightarrow> u64 \<Rightarrow> nat \<Rightarrow> nat \<Rightarrow> bool" where
  "delivers io deadline first n \<longleftrightarrow>
     list_all (\<lambda>k. tf_tick (io k) < deadline \<and> tf_event (io k) \<and> io_succeeds (tf_completion (io k)) \<and> 0 < tf_count (io k))
       [first..<first + n]"

lemma deliversD:
  "delivers io deadline first n \<Longrightarrow> first \<le> k \<Longrightarrow> k < first + n \<Longrightarrow>
   tf_tick (io k) < deadline \<and> tf_event (io k) \<and> io_succeeds (tf_completion (io k)) \<and> 0 < tf_count (io k)"
  by (simp add: delivers_def list_all_iff)

lemma delivers_later:
  "delivers io deadline first n \<Longrightarrow> first \<le> first' \<Longrightarrow> first' + n' \<le> first + n \<Longrightarrow> delivers io deadline first' n'"
  by (auto simp: delivers_def list_all_iff)

lemma transfer_delivers:
  assumes "delivers io deadline (pp_calls p) (length buffer - offset)" and "offset \<le> length buffer"
    and "writes \<or> length buffer - offset \<le> length (pp_in p)"
  shows "fst (TransferExact io writes deadline buffer offset p)"
  using assms
proof (induction "length buffer - offset" arbitrary: buffer offset p rule: less_induct)
  case (less buffer offset p)
  show ?case
  proof (cases "offset < length buffer")
    case True
    obtain moved b q where c: "transfer_chunk (io (pp_calls p)) writes buffer offset p = (moved, b, q)" by (metis prod.exhaust)
    note good = deliversD [OF less(2), of "pp_calls p"]
    have "tf_tick (io (pp_calls p)) < deadline \<and> tf_event (io (pp_calls p)) \<and>
      io_succeeds (tf_completion (io (pp_calls p))) \<and> 0 < tf_count (io (pp_calls p))" by (rule good) (use True in auto)
    note good = this
    have m: "moved \<noteq> 0" by (rule chunk_progress [OF c]) (use good True less(4) in auto)
    have len: "length b = length buffer" "moved \<le> length buffer - offset"
      using transfer_chunk_length [OF c] True by simp_all
    have q: "pp_calls q = Suc (pp_calls p)" "writes \<or> length (pp_in q) = length (pp_in p) - moved"
      using c read_chunk(1,3) [of _ buffer offset p moved b q] write_chunk(3) [of _ buffer offset p moved b q]
      by (cases writes; simp)+
    have "fst (TransferExact io writes deadline b (offset + moved) q)"
    proof (rule less(1))
      show "delivers io deadline (pp_calls q) (length b - (offset + moved))"
        by (rule delivers_later [OF less(2)]) (use m True q(1) len in linarith)+
      show "writes \<or> length b - (offset + moved) \<le> length (pp_in q)" using less(4) q(2) len by auto
    qed (use m True len in linarith)+
    then show ?thesis
      using good m by (subst TransferExact_chunk [where io = io, OF True _ c]) auto
  qed (simp add: TransferExact_finished)
qed

section \<open>Laws of frames\<close>

lemma read_whole:
  assumes "TransferExact io False deadline (replicate n 0) 0 p = (ok, buffer, p')"
  shows "\<exists>data. pp_in p = data @ pp_in p' \<and> pp_out p' = pp_out p \<and> pp_calls p \<le> pp_calls p' \<and> pp_calls p' \<le> pp_calls p + n \<and>
    (ok \<longrightarrow> buffer = data \<and> length data = n)"
proof -
  from read_moves [OF assms] obtain data where d: "pp_in p = data @ pp_in p'" "pp_out p' = pp_out p"
    "buffer = data @ drop (length data) (replicate n 0)" "ok \<longrightarrow> length data = n"
    "pp_calls p \<le> pp_calls p'" "pp_calls p' \<le> pp_calls p + n" by auto
  then show ?thesis by (intro exI [of _ data]) auto
qed

text \<open>The three ends of a read: no header, a header of no frame, and the frame that the header announces.\<close>

lemma ReadFrame_cases:
  obtains (lost) p' where "ReadFrame io p = (None, p')" "pp_calls p' \<le> pp_calls p + kMaxFrameSize" "pp_out p' = pp_out p"
  | (read) bytes p' where "ReadFrame io p = (Decode (Some bytes), p')" "pp_in p = bytes @ pp_in p'"
      "pp_out p' = pp_out p" "pp_calls p' \<le> pp_calls p + length bytes" "length bytes \<le> kMaxFrameSize"
proof -
  define dl where "dl = ps_tick io (pp_calls p) + kFrameTransferTimeoutMs"
  obtain ok header p1 where h: "TransferExact (ps_transfer io) False dl (replicate kFrameHeaderSize 0) 0 p = (ok, header, p1)"
    by (metis prod.exhaust)
  from read_whole [OF h] obtain d1 where d1: "pp_in p = d1 @ pp_in p1" "pp_out p1 = pp_out p"
    "pp_calls p1 \<le> pp_calls p + kFrameHeaderSize" "ok \<longrightarrow> header = d1 \<and> length d1 = kFrameHeaderSize" by blast
  note run = ReadFrame_def [of io p, folded dl_def, unfolded Let_def h prod.case]
  have small: "kFrameHeaderSize \<le> kMaxFrameSize" by (simp add: proto_limits)
  show thesis
  proof (cases "ok \<and> ExpectedFrameSize (Some header) \<noteq> None")
    case False
    then have "ReadFrame io p = (None, p1)" using run by (cases ok) auto
    with d1 small show thesis by (intro lost [of p1]) auto
  next
    case True
    then obtain n where n: "ExpectedFrameSize (Some header) = Some n" by blast
    have bound: "kFrameHeaderSize \<le> n" "n \<le> kMaxFrameSize"
      using n by (auto simp: ExpectedFrameSize_def kMaxFrameSize_def Let_def split: if_splits)
    obtain ok2 body p2 where b: "TransferExact (ps_transfer io) False dl (replicate (n - length header) 0) 0 p1 = (ok2, body, p2)"
      by (metis prod.exhaust)
    from read_whole [OF b] obtain d2 where d2: "pp_in p1 = d2 @ pp_in p2" "pp_out p2 = pp_out p1"
      "pp_calls p2 \<le> pp_calls p1 + (n - length header)" "ok2 \<longrightarrow> body = d2 \<and> length d2 = n - length header" by blast
    show thesis
    proof (cases "length header < n")
      case longer: True
      show thesis
      proof (cases ok2)
        case True': True
        have "ReadFrame io p = (Decode (Some (d1 @ d2)), p2)"
          using run True True' longer n b d1(4) d2(4) by simp
        moreover have "length (d1 @ d2) = n" using True True' d1(4) d2(4) longer by simp
        ultimately show thesis
          using d1 d2 bound True by (intro read [of "d1 @ d2" p2]) auto
      next
        case False
        with run True longer n b d1 d2 bound show thesis by (intro lost [of p2]) auto
      qed
    next
      case False
      with run True n d1 bound show thesis by (intro read [of d1 p1]) auto
    qed
  qed
qed

lemma ReadFrame_exact:
  assumes "ReadFrame io p = (Some f, p')"
  shows "wf_frame f" "IsValidFrame f" "pp_in p = Encode f @ pp_in p'" "pp_out p' = pp_out p"
  using assms by (cases io p rule: ReadFrame_cases; auto simp: Decode_iff)+

lemma ReadFrame_quiet: "pp_out (snd (ReadFrame io p)) = pp_out p"
  by (cases io p rule: ReadFrame_cases) simp_all

lemma WriteFrame_sends:
  assumes "WriteFrame io f p = (ok, p')"
  shows "\<exists>n. pp_out p' = pp_out p @ take n (Encode f) \<and> (ok \<longrightarrow> IsValidFrame f \<and> n = length (Encode f))"
    and "pp_in p' = pp_in p" and "pp_calls p' \<le> pp_calls p + length (Encode f)"
proof -
  have "(\<exists>n. pp_out p' = pp_out p @ take n (Encode f) \<and> (ok \<longrightarrow> IsValidFrame f \<and> n = length (Encode f))) \<and>
    pp_in p' = pp_in p \<and> pp_calls p' \<le> pp_calls p + length (Encode f)"
  proof (cases "IsValidFrame f")
    case True
    then obtain b where "TransferExact (ps_transfer io) True (ps_tick io (pp_calls p) + kFrameTransferTimeoutMs) (Encode f) 0 p = (ok, b, p')"
      using assms by (auto simp: WriteFrame_def Let_def split: prod.splits)
    from write_moves [OF this] True show ?thesis by auto
  next
    case False
    with assms show ?thesis by (auto simp: WriteFrame_def intro!: exI [of _ 0])
  qed
  then show "\<exists>n. pp_out p' = pp_out p @ take n (Encode f) \<and> (ok \<longrightarrow> IsValidFrame f \<and> n = length (Encode f))"
    and "pp_in p' = pp_in p" and "pp_calls p' \<le> pp_calls p + length (Encode f)" by blast+
qed

text \<open>A frame that the peer has sent whole is read, however its bytes are cut into transfers.\<close>

lemma ReadFrame_delivers:
  assumes "wf_frame f" and "IsValidFrame f" and "pp_in p = Encode f @ rest"
    and "delivers (ps_transfer io) (ps_tick io (pp_calls p) + kFrameTransferTimeoutMs) (pp_calls p) (length (Encode f))"
  shows "\<exists>p'. ReadFrame io p = (Some f, p') \<and> pp_in p' = rest \<and> pp_out p' = pp_out p"
proof -
  define dl where "dl = ps_tick io (pp_calls p) + kFrameTransferTimeoutMs"
  note del = assms(4) [folded dl_def]
  have long: "length (Encode f) = kFrameHeaderSize + length (fr_body f)" by (rule Encode_length [OF assms(1,2)])
  obtain ok header p1 where h: "TransferExact (ps_transfer io) False dl (replicate kFrameHeaderSize 0) 0 p = (ok, header, p1)"
    by (metis prod.exhaust)
  from read_whole [OF h] obtain d1 where d1: "pp_in p = d1 @ pp_in p1" "pp_out p1 = pp_out p"
    "pp_calls p \<le> pp_calls p1" "pp_calls p1 \<le> pp_calls p + kFrameHeaderSize" "ok \<longrightarrow> header = d1 \<and> length d1 = kFrameHeaderSize" by blast
  have "fst (TransferExact (ps_transfer io) False dl (replicate kFrameHeaderSize 0) 0 p)"
    by (rule transfer_delivers) (use long assms(3) in \<open>auto intro: delivers_later [OF del]\<close>)
  then have ok: "ok" "header = d1" "length d1 = kFrameHeaderSize" using h d1(5) by auto
  have "d1 = take kFrameHeaderSize (Encode f @ rest)" using d1(1) ok(3) assms(3) by (metis append_eq_conv_conj)
  then have size: "ExpectedFrameSize (Some header) = Some (length (Encode f))"
    using ok(2) ExpectedFrameSize_Encode [OF assms(1,2)] by simp
  have rest1: "pp_in p1 = drop kFrameHeaderSize (Encode f) @ rest"
    using d1(1) ok(3) assms(3) long by (metis append_eq_conv_conj drop_append le_add1 diff_is_0_eq drop0)
  obtain ok2 body p2 where
    b: "TransferExact (ps_transfer io) False dl (replicate (length (Encode f) - kFrameHeaderSize) 0) 0 p1 = (ok2, body, p2)"
    by (metis prod.exhaust)
  have "fst (TransferExact (ps_transfer io) False dl (replicate (length (Encode f) - kFrameHeaderSize) 0) 0 p1)"
  proof (rule transfer_delivers)
    show "delivers (ps_transfer io) dl (pp_calls p1) (length (replicate (length (Encode f) - kFrameHeaderSize) 0) - 0)"
      by (intro delivers_later [OF del]) (use d1(3,4) long in auto)
  qed (use rest1 in auto)
  with b have ok2: "ok2" by simp
  from read_whole [OF b] obtain d2 where d2: "pp_in p1 = d2 @ pp_in p2" "pp_out p2 = pp_out p1"
    "ok2 \<longrightarrow> body = d2 \<and> length d2 = length (Encode f) - kFrameHeaderSize" by blast
  have "(d1 @ d2) @ pp_in p2 = Encode f @ rest" "length (d1 @ d2) = length (Encode f)"
    using d1(1) d2(1,3) ok2 ok(3) long assms(3) by simp_all
  then have whole: "d1 @ d2 = Encode f" "pp_in p2 = rest" by (metis append_eq_append_conv)+
  show ?thesis
  proof (cases "length header < length (Encode f)")
    case True
    then show ?thesis
      using h b ok ok2 size whole d1(2) d2(2,3)
      by (simp add: ReadFrame_def Let_def flip: dl_def) (simp add: Decode_Encode [OF assms(1,2)])
  next
    case False
    with ok(2,3) long whole(1) have "d1 = Encode f" "d2 = []" by (simp_all add: append_eq_conv_conj)
    with whole(2) d2(1) False h ok(1,2) size d1(2) show ?thesis
      by (simp add: ReadFrame_def Let_def flip: dl_def) (simp add: Decode_Encode [OF assms(1,2)])
  qed
qed

section \<open>Properties\<close>

text \<open>
  C28. A frame survives the pipe.  When \<^verbatim>\<open>WriteFrame\<close> reports success on one end, and the other end
  reads within its deadline, then however the system cuts the bytes into transfers on either end,
  \<^verbatim>\<open>ReadFrame\<close> returns that frame and leaves exactly the bytes that follow it.
\<close>

theorem frame_over_pipe:
  assumes "wf_frame f" and "WriteFrame w f p = (True, p')"
    and "pp_in q = drop (length (pp_out p)) (pp_out p') @ rest"
    and "delivers (ps_transfer io) (ps_tick io (pp_calls q) + kFrameTransferTimeoutMs) (pp_calls q) (length (Encode f))"
  shows "\<exists>q'. ReadFrame io q = (Some f, q') \<and> pp_in q' = rest \<and> pp_out q' = pp_out q"
proof -
  from WriteFrame_sends(1) [OF assms(2)] have "pp_out p' = pp_out p @ Encode f" "IsValidFrame f" by auto
  with assms show ?thesis by (intro ReadFrame_delivers) auto
qed

text \<open>Seven bytes at a time, on both ends.\<close>

definition slow_pipe :: pipe_script where
  "slow_pipe = \<lparr>ps_tick = (\<lambda>_. 0), ps_transfer = (\<lambda>_. \<lparr>tf_tick = 5, tf_event = True, tf_completion = Completed, tf_count = 7\<rparr>)\<rparr>"

definition idle_pipe :: Pipe where
  "idle_pipe = \<lparr>pp_in = [], pp_out = [], pp_calls = 0\<rparr>"

lemma slow_pipe_delivers: "delivers (ps_transfer slow_pipe) (ps_tick slow_pipe k + kFrameTransferTimeoutMs) first n"
  by (simp add: delivers_def slow_pipe_def list_all_iff kFrameTransferTimeoutMs_def)

lemma slow_pipe_writes: "IsValidFrame f \<Longrightarrow> \<exists>p'. WriteFrame slow_pipe f p = (True, p') \<and> pp_out p' = pp_out p @ Encode f"
proof -
  assume valid: "IsValidFrame f"
  obtain ok p' where r: "WriteFrame slow_pipe f p = (ok, p')" by (metis prod.exhaust)
  have "fst (TransferExact (ps_transfer slow_pipe) True (ps_tick slow_pipe (pp_calls p) + kFrameTransferTimeoutMs) (Encode f) 0 p)"
    by (rule transfer_delivers) (simp_all add: slow_pipe_delivers)
  with r valid have ok by (auto simp: WriteFrame_def Let_def split: prod.splits)
  with r WriteFrame_sends(1) [OF r] show ?thesis by auto
qed

theorem frame_over_pipe_witness:
  "\<exists>q'. ReadFrame slow_pipe (idle_pipe\<lparr>pp_in := Encode sample_hello @ [1, 2]\<rparr>) = (Some sample_hello, q') \<and> pp_in q' = [1, 2]"
proof -
  have valid: "wf_frame sample_hello" "IsValidFrame sample_hello"
    by (simp_all add: sample_hello_def wf_frame_def wf_identifier_def IsValidFrame_def
        IsZeroIdentifier_def list_all_iff proto_limits)
  from slow_pipe_writes [OF valid(2)] obtain p' where
    "WriteFrame slow_pipe sample_hello idle_pipe = (True, p')" "pp_out p' = pp_out idle_pipe @ Encode sample_hello" by blast
  from frame_over_pipe [OF valid(1) this(1) _ slow_pipe_delivers, of "idle_pipe\<lparr>pp_in := Encode sample_hello @ [1, 2]\<rparr>" "[1, 2]"] this(2)
  show ?thesis by auto
qed

text \<open>
  C29. The transfers end, whatever the system answers: reading a frame takes at most one call for
  each byte of the largest frame, and writing one takes at most one call for each byte of it.
\<close>

theorem frame_transfer_terminates:
  "pp_calls (snd (ReadFrame io p)) \<le> pp_calls p + kMaxFrameSize \<and>
   pp_calls (snd (WriteFrame io f p)) \<le> pp_calls p + length (Encode f)"
proof
  show "pp_calls (snd (ReadFrame io p)) \<le> pp_calls p + kMaxFrameSize"
    by (cases io p rule: ReadFrame_cases) simp_all
  show "pp_calls (snd (WriteFrame io f p)) \<le> pp_calls p + length (Encode f)"
    using WriteFrame_sends(3) by (metis prod.exhaust_sel)
qed

end
