(* ===== verification/Pipe_Server.thy ===== *)
theory Pipe_Server
  imports Dispatcher Pipe_Io Service_Journal
begin

text \<open>
  \<^verbatim>\<open>service_server.cpp\<close>: the sessions of the named pipe.  A client is greeted, its capabilities are
  negotiated, and each of its requests is admitted or refused before it reaches the dispatcher.
  The main loop accepts at most eight clients and gives each a thread; the threads, the main loop
  and the watcher of the dispatcher interleave, so that the server is a machine whose steps are
  one iteration of one of them.  What the system answers (the authorization of the caller, random
  bytes, clocks, the pipe) is part of a step.
\<close>

section \<open>Capabilities\<close>

unbundle bit_operations_syntax

definition kCapabilityProtocolV1 :: u64 where "kCapabilityProtocolV1 = push_bit 0 1"
definition kCapabilityStatus :: u64 where "kCapabilityStatus = push_bit 1 1"
definition kCapabilityRuntimeControl :: u64 where "kCapabilityRuntimeControl = push_bit 2 1"
definition kCapabilitySanitizedDiagnostic :: u64 where "kCapabilitySanitizedDiagnostic = push_bit 4 1"
definition kCapabilityProfileIdentity :: u64 where "kCapabilityProfileIdentity = push_bit 5 1"
definition kCapabilityCancellation :: u64 where "kCapabilityCancellation = push_bit 6 1"
definition kCapabilityRoutingCatalogWindow :: u64 where "kCapabilityRoutingCatalogWindow = push_bit 7 1"
definition kCapabilitySmartAccessLease :: u64 where "kCapabilitySmartAccessLease = push_bit 8 1"
definition kCapabilityRoutingCatalogControl :: u64 where "kCapabilityRoutingCatalogControl = push_bit 9 1"
definition kCapabilitySmartAccessPolicyControl :: u64 where "kCapabilitySmartAccessPolicyControl = push_bit 10 1"
definition kCapabilityRoutingCatalogServiceControl :: u64 where "kCapabilityRoutingCatalogServiceControl = push_bit 11 1"
definition kCapabilitySmartAccessRenewal :: u64 where "kCapabilitySmartAccessRenewal = push_bit 12 1"
definition kCapabilitySmartAccessRuntimeControl :: u64 where "kCapabilitySmartAccessRuntimeControl = push_bit 13 1"
definition kCapabilityBootClock :: u64 where "kCapabilityBootClock = push_bit 14 1"
definition kCapabilityBoundConnect :: u64 where "kCapabilityBoundConnect = push_bit 15 1"
definition kCapabilityConnectSettlement :: u64 where "kCapabilityConnectSettlement = push_bit 16 1"
definition kCapabilityBoundRuntimeControl :: u64 where "kCapabilityBoundRuntimeControl = push_bit 17 1"
definition kCapabilityTransportNetworkContext :: u64 where "kCapabilityTransportNetworkContext = push_bit 18 1"
definition kCapabilityBoundProfileStage :: u64 where "kCapabilityBoundProfileStage = push_bit 19 1"
definition kCapabilityTransportLeaseHandoff :: u64 where "kCapabilityTransportLeaseHandoff = push_bit 20 1"
definition kCapabilityCandidateProbe :: u64 where "kCapabilityCandidateProbe = push_bit 21 1"
definition kCapabilityProtectedHandoff :: u64 where "kCapabilityProtectedHandoff = push_bit 22 1"
definition kCapabilityNetworkObservation :: u64 where "kCapabilityNetworkObservation = push_bit 23 1"

definition kServiceCapabilities :: u64 where
  "kServiceCapabilities =
     kCapabilityProtocolV1 OR kCapabilityStatus OR kCapabilityRuntimeControl OR
     kCapabilityProfileIdentity OR kCapabilityCancellation OR kCapabilitySanitizedDiagnostic OR
     kCapabilityRoutingCatalogWindow OR kCapabilitySmartAccessLease OR kCapabilityRoutingCatalogControl OR
     kCapabilitySmartAccessPolicyControl OR kCapabilityRoutingCatalogServiceControl OR kCapabilitySmartAccessRenewal OR
     kCapabilitySmartAccessRuntimeControl OR kCapabilityBootClock OR kCapabilityBoundConnect OR
     kCapabilityConnectSettlement OR kCapabilityBoundRuntimeControl OR kCapabilityTransportNetworkContext OR
     kCapabilityBoundProfileStage OR kCapabilityTransportLeaseHandoff OR kCapabilityCandidateProbe OR
     kCapabilityProtectedHandoff OR kCapabilityNetworkObservation"

definition kMaximumDeadlineLeadMs :: u64 where "kMaximumDeadlineLeadMs = 5 * 60 * 1000"

text \<open>\<^verbatim>\<open>(capabilities & bit) != 0\<close> and \<^verbatim>\<open>(capabilities & mask) == mask\<close>\<close>

definition has :: "u64 \<Rightarrow> u64 \<Rightarrow> bool" where
  "has capabilities capability \<longleftrightarrow> capabilities AND capability \<noteq> 0"

definition has_all :: "u64 \<Rightarrow> u64 \<Rightarrow> bool" where
  "has_all capabilities required \<longleftrightarrow> capabilities AND required = required"

definition hello_compatible :: "u64 \<Rightarrow> bool" where
  "hello_compatible capabilities \<longleftrightarrow>
     has capabilities kCapabilityProtocolV1 \<and> has capabilities kCapabilityStatus \<and>
     has capabilities kCapabilityProfileIdentity \<and> has capabilities kCapabilityCancellation"

definition runtime_command :: "Command \<Rightarrow> bool" where
  "runtime_command command \<longleftrightarrow>
     command = kInitialize \<or> command = kStageProfile \<or> command = kStageBoundProfile \<or>
     command = kInvalidateProfile \<or> IsConnectCommand command \<or> command = kCancel \<or>
     command = kCancelConnectAndConfirm \<or> command = kDisconnect \<or> command = kRevokeSmartAccessLease \<or>
     command = kRevokeRoutingCatalog \<or> command = kRevokeSmartAccessPolicy \<or>
     command = kRevokeRoutingCatalogService \<or> command = kRenewSmartAccessLease \<or>
     command = kConfigureSmartAccessRuntimeControl \<or> command = kReadSmartAccessRestrictions \<or>
     command = kAcknowledgeSmartAccessRestrictions \<or> command = kReadSmartAccessLeases \<or>
     command = kConfigureSmartAccessRenewal \<or> command = kConfigureBoundSmartAccessRuntimeControl \<or>
     command = kPromoteTransportLease \<or> command = kRevokeTransportLease"

definition bound_connect_mask :: u64 where
  "bound_connect_mask = kCapabilityBoundConnect OR kCapabilityBootClock OR kCapabilityProfileIdentity OR
     kCapabilityConnectSettlement OR kCapabilityTransportNetworkContext"

definition bound_control_mask :: u64 where
  "bound_control_mask = kCapabilityBoundRuntimeControl OR kCapabilitySmartAccessRuntimeControl"

text \<open>The chain of capability checks before \<^verbatim>\<open>Execute\<close>: the text of the refusal, if any.\<close>

definition capability_refusal :: "u64 \<Rightarrow> Command \<Rightarrow> string option" where
  "capability_refusal negotiated command =
     (if runtime_command command \<and> \<not> has negotiated kCapabilityRuntimeControl
      then Some ''runtime_capability_required''
      else if command = kObserveNetworkContext \<and> \<not> has negotiated kCapabilityNetworkObservation
      then Some ''network_observation_capability_required''
      else if command = kReplaceManagedProfile \<and> \<not> has negotiated kCapabilityProtectedHandoff
      then Some ''protected_handoff_capability_required''
      else if (command = kProbeCandidate \<or> command = kCancelCandidateProbe \<or> command = kReadCandidateNetwork) \<and>
        \<not> has negotiated kCapabilityCandidateProbe
      then Some ''candidate_probe_capability_required''
      else if command = kConfigureBoundSmartAccessRuntimeControl \<and> \<not> has_all negotiated bound_control_mask
      then Some ''bound_runtime_control_capability_required''
      else if command = kConnectWithIdentity \<and> \<not> has_all negotiated bound_connect_mask
      then Some ''bound_connect_capability_required''
      else if (command = kPromoteTransportLease \<or> command = kRevokeTransportLease) \<and>
        \<not> has negotiated kCapabilityTransportLeaseHandoff
      then Some ''transport_lease_handoff_capability_required''
      else if command = kStageBoundProfile \<and> \<not> has negotiated kCapabilityBoundProfileStage
      then Some ''bound_profile_stage_capability_required''
      else if command = kCancelConnectAndConfirm \<and> \<not> has negotiated kCapabilityConnectSettlement
      then Some ''connect_settlement_capability_required''
      else if command = kReadTransportNetworkContext \<and> \<not> has negotiated kCapabilityTransportNetworkContext
      then Some ''network_context_capability_required''
      else if command = kReadBootClock \<and> \<not> has negotiated kCapabilityBootClock
      then Some ''runtime_clock_capability_required''
      else if command = kCancel \<and> \<not> has negotiated kCapabilityCancellation
      then Some ''cancellation_capability_required''
      else if (command = kConfigureSmartAccessRuntimeControl \<or> command = kReadSmartAccessRestrictions \<or>
        command = kAcknowledgeSmartAccessRestrictions \<or> command = kReadSmartAccessLeases \<or>
        command = kConfigureSmartAccessRenewal) \<and> \<not> has negotiated kCapabilitySmartAccessRuntimeControl
      then Some ''smart_access_runtime_control_capability_required''
      else if command = kRenewSmartAccessLease \<and> \<not> has negotiated kCapabilitySmartAccessRenewal
      then Some ''smart_access_renewal_capability_required''
      else if command = kRevokeRoutingCatalogService \<and> \<not> has negotiated kCapabilityRoutingCatalogServiceControl
      then Some ''catalog_service_capability_required''
      else if command = kRevokeSmartAccessPolicy \<and> \<not> has negotiated kCapabilitySmartAccessPolicyControl
      then Some ''smart_access_policy_capability_required''
      else if command = kRevokeRoutingCatalog \<and> \<not> has negotiated kCapabilityRoutingCatalogControl
      then Some ''catalog_control_capability_required''
      else if command = kRevokeSmartAccessLease \<and> \<not> has negotiated kCapabilitySmartAccessLease
      then Some ''smart_access_capability_required''
      else if command = kDiagnosticState \<and> \<not> has negotiated kCapabilitySanitizedDiagnostic
      then Some ''diagnostic_capability_required''
      else None)"

section \<open>Admission of a request\<close>

text \<open>The nonces of a session are kept in a vector with room for 256, which is never enlarged.\<close>

definition nonce_capacity :: nat where "nonce_capacity = 256"

text \<open>
  The checks of a request up to \<^verbatim>\<open>Execute\<close>: the nonces afterwards, and the refusal or the monotonic
  deadline under which the request is executed.  \<^verbatim>\<open>ServeClients\<close> always passes a dispatcher, so that the
  test for a missing one has no counterpart.
\<close>

definition admit_request :: "Identifier \<Rightarrow> u64 \<Rightarrow> Identifier list \<Rightarrow> u64 \<Rightarrow> u64 \<Rightarrow> Frame \<Rightarrow> Identifier list \<times> (RuntimeResult + u64)" where
  "admit_request session_token negotiated used_nonces monotonic_now now request =
     (if fr_session_token request \<noteq> session_token
      then (used_nonces, Inl (result kUnauthorized ''session_mismatch''))
      else if fr_deadline_unix_ms request < now
      then (used_nonces, Inl (result kDeadlineExceeded ''deadline_exceeded''))
      else if kMaximumDeadlineLeadMs < fr_deadline_unix_ms request - now
      then (used_nonces, Inl (result kInvalid ''deadline_too_far''))
      else if fr_operation_nonce request \<in> set used_nonces
      then (used_nonces, Inl (result kReplay ''operation_replay''))
      else if length used_nonces = nonce_capacity
      then (used_nonces, Inl (result kNotReady ''session_nonce_capacity''))
      else (used_nonces @ [fr_operation_nonce request],
        (case capability_refusal negotiated (fr_command request) of
           Some text \<Rightarrow> Inl (result kUnsupported text)
         | None \<Rightarrow> Inr (monotonic_now + fr_deadline_unix_ms request - now))))"

section \<open>Answers for retained clients\<close>

text \<open>\<^verbatim>\<open>body.resize(body.find(extension))\<close>, and the change of the last digit of an extension.\<close>

definition cut_at :: "string \<Rightarrow> string \<Rightarrow> string" where
  "cut_at extension body = (case find_str body extension 0 of None \<Rightarrow> body | Some i \<Rightarrow> take i body)"

definition lower_version :: "string \<Rightarrow> char \<Rightarrow> string \<Rightarrow> string" where
  "lower_version extension digit body =
     (case find_str body extension 0 of
        None \<Rightarrow> body
      | Some i \<Rightarrow> body[i + length extension - 1 := digit])"

definition unless :: "u64 \<Rightarrow> u64 \<Rightarrow> (string \<Rightarrow> string) \<Rightarrow> string \<Rightarrow> string" where
  "unless negotiated capability f body = (if \<not> has negotiated capability \<and> starts_with ''phase='' body then f body else body)"

definition retained_body :: "u64 \<Rightarrow> string \<Rightarrow> string" where
  "retained_body negotiated body =
     (let body1 = unless negotiated kCapabilitySmartAccessRuntimeControl (cut_at '';smart_access_runtime_control_version='') body;
          body2 = unless negotiated kCapabilitySmartAccessRenewal
            (lower_version '';routing_catalog_control_version=4'' (CHR ''3'')) body1;
          body3 = unless negotiated kCapabilityRoutingCatalogServiceControl
            (lower_version '';routing_catalog_control_version=3'' (CHR ''2'')) body2;
          body4 = unless negotiated kCapabilitySmartAccessPolicyControl
            (lower_version '';routing_catalog_control_version=2'' (CHR ''1'')) body3;
          body5 = unless negotiated kCapabilityRoutingCatalogControl (cut_at '';routing_catalog_control_version='') body4;
          body6 = unless negotiated kCapabilitySmartAccessLease (cut_at '';smart_access_lease_version='') body5
      in unless negotiated kCapabilityRoutingCatalogWindow (cut_at '';routing_catalog_window_version='') body6)"

definition ResponseFor :: "Frame \<Rightarrow> Status \<Rightarrow> Identifier \<Rightarrow> string \<Rightarrow> Frame" where
  "ResponseFor request status session_token body = \<lparr>
     fr_kind = kResponse, fr_command = fr_command request, fr_status = status,
     fr_correlation_id = fr_correlation_id request, fr_session_token = session_token,
     fr_operation_nonce = replicate 16 0, fr_deadline_unix_ms = 0,
     fr_capabilities = (if fr_command request = kHello then kServiceCapabilities else 0), fr_body = body\<rparr>"

section \<open>The thread of a client\<close>

text \<open>\<^verbatim>\<open>UnixTimeMilliseconds\<close> of the ticks of \<^verbatim>\<open>GetSystemTimeAsFileTime\<close>\<close>

definition UnixTimeMilliseconds :: "u64 \<Rightarrow> u64" where
  "UnixTimeMilliseconds ticks = (ticks - 116444736000000000) div 10000"

text \<open>\<^verbatim>\<open>GenerateIdentifier\<close>, from the status and the bytes of \<^verbatim>\<open>BCryptGenRandom\<close>\<close>

definition GenerateIdentifier :: "bool \<Rightarrow> Identifier \<Rightarrow> Identifier option" where
  "GenerateIdentifier success bytes = (if success \<and> \<not> IsZeroIdentifier bytes then Some bytes else None)"

text \<open>
  Where \<^verbatim>\<open>ProcessClient\<close> stands: before the hello, in its loop with the token, the negotiated
  capabilities and the nonces of the session, before the last read after an incompatible hello, or
  returned.
\<close>

datatype (plugins only: code size) client_phase =
    Greeting | Serving Identifier u64 "Identifier list" | Refused | Returned

record ClientThread =
  th_index :: nat
  th_phase :: client_phase
  th_script :: pipe_script
  th_pipe :: Pipe
  th_authorized :: bool
  th_result :: u32

definition th_done :: "ClientThread \<Rightarrow> bool" where
  "th_done c \<longleftrightarrow> th_phase c = Returned"

definition ERROR_ACCESS_DENIED :: u32 where "ERROR_ACCESS_DENIED = 5"
definition ERROR_NOT_ENOUGH_MEMORY :: u32 where "ERROR_NOT_ENOUGH_MEMORY = 8"
definition ERROR_INVALID_DATA :: u32 where "ERROR_INVALID_DATA = 13"

text \<open>The end of the thread once \<^verbatim>\<open>ProcessClient\<close> has returned: the thread and its calls of the sink.\<close>

definition thread_end :: "bool \<Rightarrow> ClientThread \<Rightarrow> ClientThread \<times> sink_call list" where
  "thread_end processed c =
     (c\<lparr>th_phase := Returned,
        th_result := (if \<not> th_authorized c then ERROR_ACCESS_DENIED
          else if \<not> processed then ERROR_INVALID_DATA else ERROR_SUCCESS)\<rparr>,
      if th_authorized c then [CallRecord kIpcSessionClosed kSucceeded] else [])"

definition ended :: "bool \<Rightarrow> ClientThread \<Rightarrow> sink_call list \<Rightarrow> ClientThread \<times> sink_call list" where
  "ended processed c calls = (case thread_end processed c of (c', closing) \<Rightarrow> (c', calls @ closing))"

text \<open>
  What the system answers to the thread in one iteration: the authorization of the caller, the
  random bytes and the two clocks.
\<close>

record client_answers =
  an_authorized :: bool
  an_random :: bool
  an_bytes :: Identifier
  an_monotonic :: u64
  an_filetime :: u64

text \<open>\<^verbatim>\<open>ProcessClient\<close> up to its loop.\<close>

definition greet_client :: "client_answers \<Rightarrow> ClientThread \<Rightarrow> ClientThread \<times> sink_call list" where
  "greet_client an c0 =
     (case ReadFrame (th_script c0) (th_pipe c0) of (hello, p) \<Rightarrow>
        let c = c0\<lparr>th_pipe := p, th_authorized := an_authorized an\<rparr>
        in if \<not> an_authorized an then ended False c [CallRecord kIpcSessionRejected kRejected]
           else case hello of
             None \<Rightarrow> ended False c [CallRecord kIpcSessionRejected kRejected]
           | Some frame \<Rightarrow>
               if fr_kind frame \<noteq> kHelloRequest \<or> fr_command frame \<noteq> kHello
               then ended False c [CallRecord kIpcSessionRejected kRejected]
               else
                 (let calls = [CallRecord kIpcSessionAccepted kAccepted,
                        CallRecordIpcRequest (fr_command frame) (fr_correlation_id frame)]
                  in case GenerateIdentifier (an_random an) (an_bytes an) of
                       None \<Rightarrow> ended False c calls
                     | Some session_token \<Rightarrow>
                         (let compatible = hello_compatible (fr_capabilities frame);
                              response = ResponseFor frame (if compatible then kOk else kUnsupported) session_token
                                (if compatible then ''service_protocol_v1'' else ''unsupported_capabilities'');
                              calls1 = calls @ [CallRecordIpcResponse (fr_command frame) (fr_status response) (fr_correlation_id frame)]
                          in case WriteFrame (th_script c) response (th_pipe c) of
                               (False, p1) \<Rightarrow> ended False (c\<lparr>th_pipe := p1\<rparr>) calls1
                             | (True, p1) \<Rightarrow>
                                 (c\<lparr>th_pipe := p1, th_phase := (if compatible
                                    then Serving session_token (fr_capabilities frame AND kServiceCapabilities) [] else Refused)\<rparr>,
                                  calls1))))"

text \<open>An answer is recorded and written; the loop goes on when the write succeeds.\<close>

definition answer_client :: "Frame \<Rightarrow> Identifier \<Rightarrow> u64 \<Rightarrow> RuntimeResult \<Rightarrow> ClientThread \<Rightarrow> ClientThread \<times> sink_call list" where
  "answer_client request session_token negotiated r c =
     (let response = ResponseFor request (rr_status r) session_token (retained_body negotiated (rr_body r));
          calls = [CallRecordIpcResponse (fr_command request) (rr_status r) (fr_correlation_id request)]
      in case WriteFrame (th_script c) response (th_pipe c) of
           (False, p) \<Rightarrow> ended False (c\<lparr>th_pipe := p\<rparr>) calls
         | (True, p) \<Rightarrow> (c\<lparr>th_pipe := p\<rparr>, calls))"

text \<open>
  One iteration of the loop: the thread and its calls of the sink, the dispatcher, and the request
  that the dispatcher executed, if any, with its deadline.
\<close>

type_synonym dispatch = "RuntimeDispatcher \<times> trace"

definition serve_client :: "env \<Rightarrow> schedule \<Rightarrow> bool \<Rightarrow> client_answers \<Rightarrow> Identifier \<Rightarrow> u64 \<Rightarrow> Identifier list \<Rightarrow>
    ClientThread \<Rightarrow> dispatch \<Rightarrow> (ClientThread \<times> sink_call list) \<times> dispatch \<times> (Frame \<times> u64) list" where
  "serve_client e sch stop an session_token negotiated used_nonces c0 s =
     (if stop then (ended True c0 [], s, [])
      else case ReadFrame (th_script c0) (th_pipe c0) of
        (None, p) \<Rightarrow> (ended True (c0\<lparr>th_pipe := p\<rparr>) [], s, [])
      | (Some request, p) \<Rightarrow>
          let c = c0\<lparr>th_pipe := p\<rparr>
          in if fr_kind request \<noteq> kRequest
             then (ended False c [CallRecord kIpcSessionRejected kRejected], s, [])
             else
               (let calls = [CallRecordIpcRequest (fr_command request) (fr_correlation_id request)]
                in case admit_request session_token negotiated used_nonces (an_monotonic an)
                     (UnixTimeMilliseconds (an_filetime an)) request of
                  (nonces, Inl refusal) \<Rightarrow>
                    (case answer_client request session_token negotiated refusal
                        (c\<lparr>th_phase := Serving session_token negotiated nonces\<rparr>) of
                       (c', answered) \<Rightarrow> ((c', calls @ answered), s, []))
                | (nonces, Inr deadline) \<Rightarrow>
                    (case run_state (Execute e sch request deadline) s of (r, s') \<Rightarrow>
                       case answer_client request session_token negotiated r
                         (c\<lparr>th_phase := Serving session_token negotiated nonces\<rparr>) of
                         (c', answered) \<Rightarrow> ((c', calls @ answered), s', [(request, deadline)]))))"

definition client_step :: "env \<Rightarrow> schedule \<Rightarrow> bool \<Rightarrow> client_answers \<Rightarrow> ClientThread \<Rightarrow> dispatch \<Rightarrow>
    (ClientThread \<times> sink_call list) \<times> dispatch \<times> (Frame \<times> u64) list" where
  "client_step e sch stop an c s =
     (case th_phase c of
        Greeting \<Rightarrow> (greet_client an c, s, [])
      | Serving session_token negotiated used_nonces \<Rightarrow> serve_client e sch stop an session_token negotiated used_nonces c s
      | Refused \<Rightarrow> (ended False (c\<lparr>th_pipe := snd (ReadFrame (th_script c) (th_pipe c))\<rparr>) [], s, [])
      | Returned \<Rightarrow> ((c, []), s, []))"

text \<open>The token that a greeting issues.\<close>

definition issued_token :: "ClientThread \<Rightarrow> ClientThread \<Rightarrow> Identifier list" where
  "issued_token c c' =
     (case (th_phase c, th_phase c') of (Greeting, Serving token _ _) \<Rightarrow> [token] | _ \<Rightarrow> [])"

section \<open>The server\<close>

definition kMaximumClients :: nat where "kMaximumClients = 8"

record PipeServer =
  sv_dispatch :: dispatch
  sv_clients :: "ClientThread list"
  sv_accepted :: nat
  sv_stop :: bool
  sv_looping :: bool
  sv_finished :: bool
  sv_server_result :: u32
  sv_last_client_index :: nat
  sv_last_client_result :: u32
  sv_calls :: "sink_call list"

definition join_client :: "ClientThread \<Rightarrow> PipeServer \<Rightarrow> PipeServer" where
  "join_client c s =
     (if sv_last_client_index s \<le> th_index c
      then s\<lparr>sv_last_client_index := th_index c, sv_last_client_result := th_result c\<rparr> else s)"

definition reap_clients :: "PipeServer \<Rightarrow> PipeServer" where
  "reap_clients s =
     (fold join_client (filter th_done (sv_clients s)) s)\<lparr>sv_clients := filter (\<lambda>c. \<not> th_done c) (sv_clients s)\<rparr>"

definition new_client :: "nat \<Rightarrow> pipe_script \<Rightarrow> Pipe \<Rightarrow> ClientThread" where
  "new_client index script p = \<lparr>th_index = index, th_phase = Greeting, th_script = script, th_pipe = p,
     th_authorized = False, th_result = ERROR_SUCCESS\<rparr>"

text \<open>
  What the system answers to an iteration of the main loop: the error of \<^verbatim>\<open>CreateNamedPipeW\<close>, if any,
  the end of the wait for a client, whether the stop event is set then, the last error, whether
  the thread starts, and the pipe of the client.
\<close>

record accept_answers =
  aa_create :: "u32 option"
  aa_event :: bool
  aa_connect :: completion
  aa_stopping :: bool
  aa_error :: u32
  aa_thread :: bool
  aa_script :: pipe_script
  aa_pipe :: Pipe

definition fail_server :: "u32 \<Rightarrow> PipeServer \<Rightarrow> PipeServer" where
  "fail_server code s = s\<lparr>sv_server_result := code, sv_stop := True, sv_looping := False\<rparr>"

text \<open>An iteration of the main loop of \<^verbatim>\<open>ServeClients\<close>.\<close>

definition accept_round :: "nat \<Rightarrow> accept_answers \<Rightarrow> PipeServer \<Rightarrow> PipeServer" where
  "accept_round test_client_limit aa s =
     (if \<not> sv_looping s then s
      else if sv_stop s \<or> \<not> (test_client_limit = 0 \<or> sv_accepted s < test_client_limit) then s\<lparr>sv_looping := False\<rparr>
      else
        (let s1 = reap_clients s
         in if length (sv_clients s1) = kMaximumClients then s1
            else case aa_create aa of
              Some code \<Rightarrow> fail_server code s1
            | None \<Rightarrow>
                if \<not> ConnectClient (aa_event aa) (aa_connect aa)
                then fail_server (if sv_stop s1 \<or> aa_stopping aa then ERROR_SUCCESS else aa_error aa) s1
                else
                  (let s2 = s1\<lparr>sv_accepted := sv_accepted s1 + 1\<rparr>
                   in if \<not> aa_thread aa then fail_server ERROR_NOT_ENOUGH_MEMORY s2
                      else s2\<lparr>sv_clients := sv_clients s2 @ [new_client (sv_accepted s2) (aa_script aa) (aa_pipe aa)]\<rparr>)))"

text \<open>
  The end of \<^verbatim>\<open>ServeClients\<close>, which waits for every thread, the destructor of the dispatcher and
  \<^verbatim>\<open>Shutdown\<close> of the host.
\<close>

definition finish_server :: "env \<Rightarrow> PipeServer \<Rightarrow> PipeServer" where
  "finish_server e s =
     (if sv_finished s \<or> sv_looping s \<or> \<not> list_all th_done (sv_clients s) then s
      else
        (let s1 = (fold join_client (sv_clients s) s)\<lparr>sv_clients := [], sv_finished := True\<rparr>
         in s1\<lparr>sv_dispatch := snd (run_state (do { start_closing; runtime_call (Shutdown e) }) (sv_dispatch s1))\<rparr>))"

definition ServeClients_result :: "nat \<Rightarrow> PipeServer \<Rightarrow> u32" where
  "ServeClients_result test_client_limit s =
     (if sv_server_result s \<noteq> ERROR_SUCCESS then sv_server_result s
      else if test_client_limit \<noteq> 0 then sv_last_client_result s else ERROR_SUCCESS)"

text \<open>
  The steps of the server.  The watcher of the dispatcher and the second half of a confirmed
  cancellation are steps of the dispatcher that carry no request of a client.
\<close>

datatype (plugins only: code size) server_step =
    MainLoop accept_answers | ClientIteration nat client_answers | Background dispatcher_step
  | StopService | FinishServer

fun server_do :: "env \<Rightarrow> schedule \<Rightarrow> nat \<Rightarrow> server_step \<Rightarrow> PipeServer \<Rightarrow> PipeServer \<times> (Frame \<times> u64) list \<times> Identifier list" where
  "server_do e sch limit (MainLoop aa) s = (accept_round limit aa s, [], [])"
| "server_do e sch limit (ClientIteration i an) s =
     (if length (sv_clients s) \<le> i then (s, [], [])
      else
        (let c = sv_clients s ! i
         in case client_step e sch (sv_stop s) an c (sv_dispatch s) of
           ((c', calls), d, executed) \<Rightarrow>
             (s\<lparr>sv_clients := (sv_clients s)[i := c'], sv_dispatch := d, sv_calls := sv_calls s @ calls\<rparr>,
              executed, issued_token c c')))"
| "server_do e sch limit (Background step) s =
     (case step of
        Request frame deadline \<Rightarrow> (s, [], [])
      | _ \<Rightarrow> (s\<lparr>sv_dispatch := snd (run_state (dispatcher_do e sch step) (sv_dispatch s))\<rparr>, [], []))"
| "server_do e sch limit StopService s = (s\<lparr>sv_stop := True\<rparr>, [], [])"
| "server_do e sch limit FinishServer s = (finish_server e s, [], [])"

text \<open>\<^verbatim>\<open>RunPipeServer\<close>: the checks of its arguments, the recovery at the start, and the server it runs.\<close>

definition ERROR_INVALID_PARAMETER :: u32 where "ERROR_INVALID_PARAMETER = 87"
definition ERROR_INVALID_SECURITY_DESCR :: u32 where "ERROR_INVALID_SECURITY_DESCR = 1338"

definition kPipePrefix :: string where
  "kPipePrefix = [CHR 0x5C, CHR 0x5C] @ ''.'' @ [CHR 0x5C] @ ''pipe'' @ [CHR 0x5C] @ ''POKROV.Service.''"

definition NewServer :: "dispatch \<Rightarrow> PipeServer" where
  "NewServer d = \<lparr>sv_dispatch = d, sv_clients = [], sv_accepted = 0, sv_stop = False, sv_looping = True,
     sv_finished = False, sv_server_result = ERROR_SUCCESS, sv_last_client_index = 0, sv_last_client_result = ERROR_SUCCESS, sv_calls = []\<rparr>"

definition RunPipeServer :: "env \<Rightarrow> string \<Rightarrow> string \<Rightarrow> bool \<Rightarrow> bool \<Rightarrow> RuntimeHost \<times> trace \<Rightarrow> u64 \<Rightarrow> u32 + PipeServer" where
  "RunPipeServer e pipe_name owner_sid stop_event security host interval =
     (if \<not> starts_with kPipePrefix pipe_name \<or> owner_sid = [] \<or> \<not> stop_event then Inl ERROR_INVALID_PARAMETER
      else if \<not> security then Inl ERROR_INVALID_SECURITY_DESCR
      else Inr (NewServer (NewDispatcher e interval (snd (run_state (RecoverOnStartup e) host)))))"

text \<open>
  What a server that was started can reach: the requests that its dispatcher executed for clients, and
  the tokens that it issued, both oldest first, and its state.
\<close>

inductive served :: "env \<Rightarrow> schedule \<Rightarrow> nat \<Rightarrow> PipeServer \<Rightarrow> (Frame \<times> u64) list \<Rightarrow> Identifier list \<Rightarrow> PipeServer \<Rightarrow> bool"
  for e sch limit start where
  served_start: "served e sch limit start [] [] start"
| served_step: "served e sch limit start executed tokens s \<Longrightarrow> server_do e sch limit step s = (s', new, issued) \<Longrightarrow>
    served e sch limit start (executed @ new) (tokens @ issued) s'"

inductive_cases served_stepE: "served e sch limit start executed tokens s"

end
