(* ===== verification/Server_Laws.thy ===== *)
theory Server_Laws
  imports Pipe_Server Dispatcher_Host
begin

text \<open>
  What the pipe server promises: which requests it lets through to the dispatcher, that none of them is
  let through twice, how many clients it serves, what a retained client is shown, and that the
  invariants of the host hold in every run of the whole server.
\<close>

unbundle bit_operations_syntax

section \<open>Capabilities\<close>

lemma u64_eq_iff: "(a :: u64) = b \<longleftrightarrow> (\<forall>n < 64. bit a n = bit b n)"
  by (auto intro!: bit_word_eqI)

lemma has_bit: "has capabilities (push_bit n 1) \<longleftrightarrow> bit capabilities n"
  by (simp add: has_def bit_iff_and_push_bit_not_eq_0)

lemma has_all_bit: "n < 64 \<Longrightarrow> has_all capabilities (push_bit n 1) \<longleftrightarrow> bit capabilities n"
  unfolding has_all_def u64_eq_iff by (auto simp: bit_simps)

lemma has_all_or: "has_all capabilities (a OR b) \<longleftrightarrow> has_all capabilities a \<and> has_all capabilities b"
  unfolding has_all_def u64_eq_iff by (auto simp: bit_and_iff bit_or_iff)

lemmas capability_defs =
  kCapabilityProtocolV1_def kCapabilityStatus_def kCapabilityRuntimeControl_def kCapabilitySanitizedDiagnostic_def
  kCapabilityProfileIdentity_def kCapabilityCancellation_def kCapabilityRoutingCatalogWindow_def kCapabilitySmartAccessLease_def
  kCapabilityRoutingCatalogControl_def kCapabilitySmartAccessPolicyControl_def kCapabilityRoutingCatalogServiceControl_def kCapabilitySmartAccessRenewal_def
  kCapabilitySmartAccessRuntimeControl_def kCapabilityBootClock_def kCapabilityBoundConnect_def kCapabilityConnectSettlement_def
  kCapabilityBoundRuntimeControl_def kCapabilityTransportNetworkContext_def kCapabilityBoundProfileStage_def kCapabilityTransportLeaseHandoff_def
  kCapabilityCandidateProbe_def kCapabilityProtectedHandoff_def kCapabilityNetworkObservation_def

lemma has_capability:
  "has c kCapabilityProtocolV1 \<longleftrightarrow> bit c 0" "has c kCapabilityStatus \<longleftrightarrow> bit c 1"
  "has c kCapabilityRuntimeControl \<longleftrightarrow> bit c 2" "has c kCapabilitySanitizedDiagnostic \<longleftrightarrow> bit c 4"
  "has c kCapabilityProfileIdentity \<longleftrightarrow> bit c 5" "has c kCapabilityCancellation \<longleftrightarrow> bit c 6"
  "has c kCapabilityRoutingCatalogWindow \<longleftrightarrow> bit c 7" "has c kCapabilitySmartAccessLease \<longleftrightarrow> bit c 8"
  "has c kCapabilityRoutingCatalogControl \<longleftrightarrow> bit c 9" "has c kCapabilitySmartAccessPolicyControl \<longleftrightarrow> bit c 10"
  "has c kCapabilityRoutingCatalogServiceControl \<longleftrightarrow> bit c 11" "has c kCapabilitySmartAccessRenewal \<longleftrightarrow> bit c 12"
  "has c kCapabilitySmartAccessRuntimeControl \<longleftrightarrow> bit c 13" "has c kCapabilityBootClock \<longleftrightarrow> bit c 14"
  "has c kCapabilityBoundConnect \<longleftrightarrow> bit c 15" "has c kCapabilityConnectSettlement \<longleftrightarrow> bit c 16"
  "has c kCapabilityBoundRuntimeControl \<longleftrightarrow> bit c 17" "has c kCapabilityTransportNetworkContext \<longleftrightarrow> bit c 18"
  "has c kCapabilityBoundProfileStage \<longleftrightarrow> bit c 19" "has c kCapabilityTransportLeaseHandoff \<longleftrightarrow> bit c 20"
  "has c kCapabilityCandidateProbe \<longleftrightarrow> bit c 21" "has c kCapabilityProtectedHandoff \<longleftrightarrow> bit c 22"
  "has c kCapabilityNetworkObservation \<longleftrightarrow> bit c 23"
  unfolding capability_defs has_bit by (rule refl)+

lemma has_all_capability:
  "has_all c kCapabilityProfileIdentity \<longleftrightarrow> bit c 5" "has_all c kCapabilitySmartAccessRuntimeControl \<longleftrightarrow> bit c 13"
  "has_all c kCapabilityBootClock \<longleftrightarrow> bit c 14" "has_all c kCapabilityBoundConnect \<longleftrightarrow> bit c 15"
  "has_all c kCapabilityConnectSettlement \<longleftrightarrow> bit c 16" "has_all c kCapabilityBoundRuntimeControl \<longleftrightarrow> bit c 17"
  "has_all c kCapabilityTransportNetworkContext \<longleftrightarrow> bit c 18"
  unfolding capability_defs by (rule has_all_bit, simp)+

text \<open>The reference table: the numbers of the capability bits that a command needs.\<close>

fun required_bits :: "Command \<Rightarrow> nat list" where
  "required_bits kConnect = [2]"
| "required_bits kDisconnect = [2]"
| "required_bits kInitialize = [2]"
| "required_bits kStageProfile = [2]"
| "required_bits kInvalidateProfile = [2]"
| "required_bits kDiagnosticState = [4]"
| "required_bits kCancel = [2, 6]"
| "required_bits kRevokeSmartAccessLease = [2, 8]"
| "required_bits kRevokeRoutingCatalog = [2, 9]"
| "required_bits kRevokeSmartAccessPolicy = [2, 10]"
| "required_bits kRevokeRoutingCatalogService = [2, 11]"
| "required_bits kRenewSmartAccessLease = [2, 12]"
| "required_bits kConfigureSmartAccessRuntimeControl = [2, 13]"
| "required_bits kReadSmartAccessRestrictions = [2, 13]"
| "required_bits kAcknowledgeSmartAccessRestrictions = [2, 13]"
| "required_bits kReadSmartAccessLeases = [2, 13]"
| "required_bits kConfigureSmartAccessRenewal = [2, 13]"
| "required_bits kReadBootClock = [14]"
| "required_bits kConnectWithIdentity = [2, 5, 14, 15, 16, 18]"
| "required_bits kCancelConnectAndConfirm = [2, 16]"
| "required_bits kConfigureBoundSmartAccessRuntimeControl = [2, 13, 17]"
| "required_bits kReadTransportNetworkContext = [18]"
| "required_bits kStageBoundProfile = [2, 19]"
| "required_bits kPromoteTransportLease = [2, 20]"
| "required_bits kRevokeTransportLease = [2, 20]"
| "required_bits kReadCandidateNetwork = [21]"
| "required_bits kProbeCandidate = [21]"
| "required_bits kCancelCandidateProbe = [21]"
| "required_bits kReplaceManagedProfile = [2, 22]"
| "required_bits kObserveNetworkContext = [23]"
| "required_bits command = []"

lemma capability_refusal_table:
  "capability_refusal negotiated command = None \<longleftrightarrow> list_all (bit negotiated) (required_bits command)"
  by (cases command)
    (auto simp: capability_refusal_def runtime_command_def IsConnectCommand_def bound_control_mask_def bound_connect_mask_def
      has_all_or has_capability has_all_capability)

section \<open>Steps of a client\<close>

lemma ended_phase: "ended processed c calls = (c', calls') \<Longrightarrow> th_phase c' = Returned"
  by (auto simp: ended_def thread_end_def)

lemma answer_phase:
  assumes "answer_client request token negotiated r c = (c', calls)"
  shows "th_phase c' = Returned \<or> th_phase c' = th_phase c"
proof -
  define response where "response = ResponseFor request (rr_status r) token (retained_body negotiated (rr_body r))"
  obtain ok p where w: "WriteFrame (th_script c) response (th_pipe c) = (ok, p)" by (metis prod.exhaust)
  show ?thesis
  proof (cases ok)
    case True
    with assms w show ?thesis by (auto simp: answer_client_def Let_def response_def [symmetric])
  next
    case False
    with assms w have "ended False (c\<lparr>th_pipe := p\<rparr>)
        [CallRecordIpcResponse (fr_command request) (rr_status r) (fr_correlation_id request)] = (c', calls)"
      by (simp add: answer_client_def Let_def response_def [symmetric])
    then show ?thesis by (blast dest: ended_phase)
  qed
qed

lemma greet_phase:
  assumes "greet_client an c = (c', calls)"
  shows "th_phase c' = Returned \<or> th_phase c' = Refused \<or> (\<exists>token capabilities. th_phase c' = Serving token capabilities [])"
proof -
  obtain hello p where r: "ReadFrame (th_script c) (th_pipe c) = (hello, p)" by (metis prod.exhaust)
  show ?thesis
  proof (cases "an_authorized an \<and> hello \<noteq> None \<and> fr_kind (the hello) = kHelloRequest \<and> fr_command (the hello) = kHello \<and>
      GenerateIdentifier (an_random an) (an_bytes an) \<noteq> None")
    case True
    then obtain frame token where f: "hello = Some frame" "GenerateIdentifier (an_random an) (an_bytes an) = Some token"
      "fr_kind frame = kHelloRequest" "fr_command frame = kHello" "an_authorized an" by auto
    show ?thesis
      using assms f r
      by (auto simp: greet_client_def Let_def dest: ended_phase split: prod.splits bool.splits if_splits)
  next
    case False
    then show ?thesis
      using assms r
      by (auto simp: greet_client_def Let_def dest: ended_phase split: option.splits if_splits)
  qed
qed

text \<open>The admission of a request, as one condition.\<close>

lemma admit_request_iff:
  "admit_request token negotiated used tick now request = (nonces, Inr deadline) \<longleftrightarrow>
   fr_session_token request = token \<and> now \<le> fr_deadline_unix_ms request \<and>
   fr_deadline_unix_ms request - now \<le> kMaximumDeadlineLeadMs \<and> fr_operation_nonce request \<notin> set used \<and>
   length used \<noteq> nonce_capacity \<and> list_all (bit negotiated) (required_bits (fr_command request)) \<and>
   nonces = used @ [fr_operation_nonce request] \<and> deadline = tick + fr_deadline_unix_ms request - now"
  by (auto simp: admit_request_def not_less capability_refusal_table [symmetric] split: option.splits)

lemma admit_request_refused:
  assumes "admit_request token negotiated used tick now request = (nonces, Inl r)"
  shows "nonces = used \<or> (nonces = used @ [fr_operation_nonce request] \<and> fr_operation_nonce request \<notin> set used \<and>
    length used \<noteq> nonce_capacity)"
  using assms by (auto simp: admit_request_def split: option.splits if_splits)

definition same_nonces :: "Identifier list \<Rightarrow> Identifier list \<Rightarrow> bool" where
  "same_nonces used nonces \<longleftrightarrow>
     nonces = used \<or> (\<exists>nonce. nonces = used @ [nonce] \<and> nonce \<notin> set used \<and> length used \<noteq> nonce_capacity)"

text \<open>What an iteration of a client can do.\<close>

lemma client_step_cases:
  assumes "client_step e sch stop an c d = ((c', calls), d', executed)"
  obtains (idle) "executed = []" "d' = d" "th_phase c' = Returned \<or> th_phase c' = Refused"
  | (greeted) token capabilities where "executed = []" "d' = d" "th_phase c = Greeting" "th_phase c' = Serving token capabilities []"
  | (refused) token negotiated used nonces where "executed = []" "d' = d" "th_phase c = Serving token negotiated used"
      "th_phase c' = Serving token negotiated nonces" "same_nonces used nonces"
  | (executed) token negotiated used request deadline where
      "th_phase c = Serving token negotiated used" "executed = [(request, deadline)]"
      "d' = snd (run_state (Execute e sch request deadline) d)"
      "wf_frame request" "IsValidFrame request" "fr_kind request = kRequest"
      "admit_request token negotiated used (an_monotonic an) (UnixTimeMilliseconds (an_filetime an)) request =
         (used @ [fr_operation_nonce request], Inr deadline)"
      "th_phase c' = Returned \<or> th_phase c' = Serving token negotiated (used @ [fr_operation_nonce request])"
proof (cases "th_phase c")
  case Greeting
  with assms have g: "greet_client an c = (c', calls)" "d' = d" "executed = []" by (simp_all add: client_step_def)
  from greet_phase [OF g(1)] show thesis
  proof (elim disjE exE)
    fix token capabilities
    assume "th_phase c' = Serving token capabilities []"
    with g Greeting show thesis by (intro greeted)
  qed (use g in \<open>auto intro: idle\<close>)
next
  case Refused
  then show thesis
    using assms by (intro idle) (auto simp: client_step_def dest: ended_phase)
next
  case Returned
  then show thesis using assms by (intro idle) (auto simp: client_step_def)
next
  case (Serving token negotiated used)
  then have run: "serve_client e sch stop an token negotiated used c d = ((c', calls), d', executed)"
    using assms by (simp add: client_step_def)
  obtain frame p where r: "ReadFrame (th_script c) (th_pipe c) = (frame, p)" by (metis prod.exhaust)
  let ?now = "UnixTimeMilliseconds (an_filetime an)"
  show thesis
  proof (cases "\<not> stop \<and> frame \<noteq> None \<and> fr_kind (the frame) = kRequest")
    case False
    then have "th_phase c' = Returned \<and> d' = d \<and> executed = []"
      using run r by (auto simp: serve_client_def Let_def dest: ended_phase split: if_splits option.splits)
    then show thesis by (intro idle) auto
  next
    case True
    then obtain request where f: "frame = Some request" "fr_kind request = kRequest" "\<not> stop" by auto
    obtain nonces decision where a: "admit_request token negotiated used (an_monotonic an) ?now request = (nonces, decision)"
      by (metis prod.exhaust)
    let ?c = "c\<lparr>th_pipe := p, th_phase := Serving token negotiated nonces\<rparr>"
    show thesis
    proof (cases decision)
      case (Inl refusal)
      obtain c1 answered where w: "answer_client request token negotiated refusal ?c = (c1, answered)" by (metis prod.exhaust)
      have "c' = c1 \<and> d' = d \<and> executed = []"
        using run r f a Inl w by (simp add: serve_client_def Let_def)
      with answer_phase [OF w] admit_request_refused [OF a [unfolded Inl]] Serving show thesis
        by (auto intro: idle refused simp: same_nonces_def)
    next
      case (Inr deadline)
      obtain result d1 where x: "run_state (Execute e sch request deadline) d = (result, d1)" by (metis prod.exhaust)
      obtain c1 answered where w: "answer_client request token negotiated result ?c = (c1, answered)" by (metis prod.exhaust)
      have "c' = c1 \<and> d' = d1 \<and> executed = [(request, deadline)]"
        using run r f a Inr w x by (simp add: serve_client_def Let_def)
      moreover have "nonces = used @ [fr_operation_nonce request]" using a Inr by (simp add: admit_request_iff)
      ultimately show thesis
        using answer_phase [OF w] a Inr x Serving f ReadFrame_exact [OF r [unfolded f(1)]]
        by (intro executed [of token negotiated used request deadline]) auto
    qed
  qed
qed

section \<open>Steps of the server\<close>

lemma fold_join_keeps [simp]:
  "sv_dispatch (fold join_client cs s) = sv_dispatch s" "sv_accepted (fold join_client cs s) = sv_accepted s"
  "sv_stop (fold join_client cs s) = sv_stop s"
  by (induction cs arbitrary: s) (simp_all add: join_client_def)

text \<open>The main loop drops the clients that are done and adds at most one, when there is room.\<close>

lemma accept_round_effect:
  "\<exists>new. sv_clients (accept_round limit aa s) \<in> {sv_clients s, filter (\<lambda>c. \<not> th_done c) (sv_clients s) @ new} \<and>
     sv_dispatch (accept_round limit aa s) = sv_dispatch s \<and>
     (new = [] \<or> (\<exists>index script p. new = [new_client index script p] \<and>
        length (filter (\<lambda>c. \<not> th_done c) (sv_clients s)) \<noteq> kMaximumClients))"
proof -
  let ?kept = "filter (\<lambda>c. \<not> th_done c) (sv_clients s)"
  show ?thesis
    by (intro exI [of _ "if sv_clients (accept_round limit aa s) = sv_clients s \<or> sv_clients (accept_round limit aa s) = ?kept then []
        else [new_client (sv_accepted s + 1) (aa_script aa) (aa_pipe aa)]"])
      (auto simp: accept_round_def reap_clients_def fail_server_def Let_def split: option.splits)
qed

lemma finish_server_clients: "sv_clients (finish_server e s) \<in> {sv_clients s, []}"
  by (simp add: finish_server_def Let_def)

text \<open>The sections of the dispatcher that a step of the server runs.\<close>

lemma server_do_dispatch:
  assumes "server_do e sch limit step s = (s', executed, issued)"
  obtains (same) "sv_dispatch s' = sv_dispatch s" "executed = []"
  | (request) frame deadline where "sv_dispatch s' = snd (run_state (dispatcher_do e sch (Request frame deadline)) (sv_dispatch s))"
      "executed = [(frame, deadline)]"
  | (background) d where "sv_dispatch s' = snd (run_state (dispatcher_do e sch d) (sv_dispatch s))" "executed = []"
  | (shutdown) "sv_dispatch s' = snd (run_state (do { start_closing; runtime_call (Shutdown e) }) (sv_dispatch s))" "executed = []"
proof (cases step)
  case (MainLoop aa)
  with assms accept_round_effect [of limit aa s] show thesis by (intro same) auto
next
  case (ClientIteration i an)
  show thesis
  proof (cases "length (sv_clients s) \<le> i")
    case True
    with assms ClientIteration show thesis by (intro same) auto
  next
    case False
    obtain c' calls d x where c: "client_step e sch (sv_stop s) an (sv_clients s ! i) (sv_dispatch s) = ((c', calls), d, x)"
      by (metis prod.exhaust)
    with False assms ClientIteration have r: "sv_dispatch s' = d" "executed = x" by (auto simp: Let_def)
    from c show thesis
    proof (cases rule: client_step_cases)
      case (executed token negotiated used frame deadline)
      with r show thesis by (intro request) (simp_all add: unit_of_def run_simps split: prod.splits)
    qed (use r in \<open>auto intro: same\<close>)
  qed
next
  case (Background d)
  show thesis
  proof (cases "\<exists>frame deadline. d = Request frame deadline")
    case True
    with assms Background show thesis by (intro same) auto
  next
    case False
    with assms Background show thesis by (intro background [of d]) (cases d; auto)+
  qed
next
  case StopService
  with assms show thesis by (intro same) auto
next
  case FinishServer
  with assms show thesis
    by (cases "sv_finished s \<or> sv_looping s \<or> \<not> list_all th_done (sv_clients s)")
      (auto simp: finish_server_def Let_def intro: same shutdown)
qed

section \<open>Every run of the server\<close>

text \<open>A property of the host that its calls keep holds in every run of the server.\<close>

lemma keeps_forget: "keeps I (do { x \<leftarrow> m; State_Monad.return a }) \<Longrightarrow> keeps I m"
  by (simp add: keeps_def triple_def run_simps split: prod.splits)

lemma sessional_Shutdown [sessions]: "sessional e (runtime_call (Shutdown e))"
  by (rule sessional_call) (rule keeps_forget [OF host_invariant.kept [where call = CallShutdown, simplified]])

lemma keeps_run: "keeps I m \<Longrightarrow> I s \<Longrightarrow> I (snd (run_state m s))"
  unfolding keeps_def by (metis prod.collapse tripleD)

context session_invariant
begin

lemma after_server_step:
  assumes "of_host I (sv_dispatch s)" and "server_do e sch limit step s = (s', executed, issued)"
  shows "of_host I (sv_dispatch s')"
proof -
  have closing: "sessional e (do { start_closing; runtime_call (Shutdown e) })" by (intro sessions)
  note keep = keeps_run [OF after_action [OF sessional_dispatcher_do]] keeps_run [OF after_action [OF closing]]
  from assms(2) show ?thesis
    by (cases rule: server_do_dispatch) (use assms(1) keep in \<open>auto simp del: dispatcher_do.simps\<close>)
qed

lemma after_server: "served e sch limit start executed tokens s \<Longrightarrow> of_host I (sv_dispatch start) \<Longrightarrow> of_host I (sv_dispatch s)"
  by (induction rule: served.induct) (auto intro: after_server_step)

end

section \<open>Sessions\<close>

text \<open>What identifies a request: the token of its session and its nonce (the target of a cancellation).\<close>

definition request_keys :: "(Frame \<times> u64) list \<Rightarrow> (Identifier \<times> Identifier) list" where
  "request_keys executed = map (\<lambda>(frame, deadline). (fr_session_token frame, fr_operation_nonce frame)) executed"

fun live_tokens :: "client_phase \<Rightarrow> Identifier list" where
  "live_tokens (Serving token negotiated nonces) = [token]"
| "live_tokens phase = []"

fun phase_sound :: "(Identifier \<times> Identifier) list \<Rightarrow> Identifier list \<Rightarrow> client_phase \<Rightarrow> bool" where
  "phase_sound keys tokens (Serving token negotiated nonces) \<longleftrightarrow>
     token \<in> set tokens \<and> distinct nonces \<and> length nonces \<le> nonce_capacity \<and>
     (\<forall>nonce. (token, nonce) \<in> set keys \<longrightarrow> nonce \<in> set nonces)"
| "phase_sound keys tokens phase \<longleftrightarrow> True"

definition sessions_sound :: "(Identifier \<times> Identifier) list \<Rightarrow> Identifier list \<Rightarrow> client_phase list \<Rightarrow> bool" where
  "sessions_sound keys tokens phases \<longleftrightarrow>
     distinct keys \<and> fst ` set keys \<subseteq> set tokens \<and> distinct (concat (map live_tokens phases)) \<and>
     list_all (phase_sound keys tokens) phases"

lemma distinct_concat_filter: "distinct (concat (map f xs)) \<Longrightarrow> distinct (concat (map f (filter P xs)))"
  by (induction xs) auto

lemma sessions_drop: "sessions_sound keys tokens (map th_phase cs) \<Longrightarrow> sessions_sound keys tokens (map th_phase (filter P cs))"
  using distinct_concat_filter [of "\<lambda>c. live_tokens (th_phase c)" cs P] by (auto simp: sessions_sound_def list_all_iff comp_def)

lemma sessions_add: "sessions_sound keys tokens phases \<Longrightarrow> sessions_sound keys tokens (phases @ [Greeting])"
  by (simp add: sessions_sound_def)

text \<open>A change of one phase: it loses its session, starts one with a new token, or goes on.\<close>

lemma sessions_replace:
  assumes "sessions_sound keys tokens (before @ phase # after)" and "live_tokens phase' = []"
  shows "sessions_sound keys tokens (before @ phase' # after)"
  using assms by (cases phase') (auto simp: sessions_sound_def)

lemma phase_sound_more: "phase_sound keys tokens phase \<Longrightarrow> phase_sound keys (tokens @ extra) phase"
  by (cases phase) auto

lemma sessions_issue:
  assumes "sessions_sound keys tokens (before @ Greeting # after)" and "token \<notin> set tokens"
  shows "sessions_sound keys (tokens @ [token]) (before @ Serving token capabilities [] # after)"
proof -
  have "token \<notin> set (live_tokens phase)" if "phase_sound keys tokens phase" for phase
    using that assms(2) by (cases phase) auto
  with assms show ?thesis by (fastforce simp: sessions_sound_def list_all_iff phase_sound_more)
qed

lemma sessions_refuse:
  assumes "sessions_sound keys tokens (before @ Serving token negotiated used # after)" and "same_nonces used nonces"
  shows "sessions_sound keys tokens (before @ Serving token negotiated nonces # after)"
  using assms by (auto simp: sessions_sound_def same_nonces_def)

lemma sessions_execute:
  assumes "sessions_sound keys tokens (before @ Serving token negotiated used # after)"
    and "nonce \<notin> set used" and "length used \<noteq> nonce_capacity"
  shows "sessions_sound (keys @ [(token, nonce)]) tokens (before @ Serving token negotiated (used @ [nonce]) # after)"
proof -
  have other: "phase_sound (keys @ [(token, nonce)]) tokens phase" if "phase_sound keys tokens phase" "token \<notin> set (live_tokens phase)" for phase
    using that by (cases phase) auto
  have "list_all (\<lambda>phase. token \<notin> set (live_tokens phase)) (before @ after)"
    using assms(1) by (auto simp: sessions_sound_def list_all_iff)
  with assms other show ?thesis by (fastforce simp: sessions_sound_def list_all_iff)
qed

lemma client_step_sessions:
  assumes "client_step e sch stop an c d = ((c', calls), d', executed)"
    and "sessions_sound (request_keys past) tokens (before @ th_phase c # after)"
    and "distinct (tokens @ issued_token c c')"
  shows "sessions_sound (request_keys (past @ executed)) (tokens @ issued_token c c') (before @ th_phase c' # after)"
  using assms(1)
proof (cases rule: client_step_cases)
  case idle
  then have "issued_token c c' = []" by (auto simp: issued_token_def split: client_phase.splits)
  moreover have "live_tokens (th_phase c') = []" using idle(3) by auto
  ultimately show ?thesis using idle(1) sessions_replace [OF assms(2)] by simp
next
  case (greeted token capabilities)
  then have "issued_token c c' = [token]" by (simp add: issued_token_def)
  with assms(2,3) greeted show ?thesis using sessions_issue by simp
next
  case (refused token negotiated used nonces)
  then have "issued_token c c' = []" by (simp add: issued_token_def)
  with assms(2) refused show ?thesis using sessions_refuse by simp
next
  case (executed token negotiated used request deadline)
  then have "issued_token c c' = []" by (auto simp: issued_token_def)
  moreover have "sessions_sound (request_keys past @ [(token, fr_operation_nonce request)]) tokens
      (before @ Serving token negotiated (used @ [fr_operation_nonce request]) # after)"
    using assms(2) executed(1,7) by (intro sessions_execute) (auto simp: admit_request_iff)
  moreover have "fr_session_token request = token" using executed(7) by (simp add: admit_request_iff)
  ultimately show ?thesis
    using executed(2,8) by (auto simp: request_keys_def intro: sessions_replace)
qed

lemma served_sessions:
  "served e sch limit (NewServer d) executed tokens s \<Longrightarrow> distinct tokens \<Longrightarrow>
   sessions_sound (request_keys executed) tokens (map th_phase (sv_clients s))"
proof (induction rule: served.induct)
  case served_start
  then show ?case by (simp add: NewServer_def sessions_sound_def request_keys_def)
next
  case (served_step executed tokens s step s' new issued)
  then have sound: "sessions_sound (request_keys executed) tokens (map th_phase (sv_clients s))" by simp
  show ?case
  proof (cases step)
    case (MainLoop aa)
    then have r: "s' = accept_round limit aa s" "new = []" "issued = []" using served_step by auto
    from accept_round_effect [of limit aa s] obtain extra where
      "sv_clients s' = sv_clients s \<or> sv_clients s' = filter (\<lambda>c. \<not> th_done c) (sv_clients s) @ extra"
      "extra = [] \<or> (\<exists>index script p. extra = [new_client index script p])" by (auto simp: r)
    with sound sessions_drop [OF sound] show ?thesis by (auto simp: r new_client_def sessions_add)
  next
    case (ClientIteration i an)
    show ?thesis
    proof (cases "i < length (sv_clients s)")
      case True
      let ?c = "sv_clients s ! i"
      obtain c' calls d x where c: "client_step e sch (sv_stop s) an ?c (sv_dispatch s) = ((c', calls), d, x)"
        by (metis prod.exhaust)
      with True served_step(2) ClientIteration have r: "sv_clients s' = (sv_clients s)[i := c']" "new = x" "issued = issued_token ?c c'"
        by (auto simp: Let_def)
      have "map th_phase (sv_clients s) = map th_phase (take i (sv_clients s)) @ th_phase ?c # map th_phase (drop (Suc i) (sv_clients s))"
        using arg_cong [OF id_take_nth_drop [OF True], of "map th_phase"] by simp
      with client_step_sessions [OF c, of executed tokens] sound served_step(4) True show ?thesis
        by (simp add: r upd_conv_take_nth_drop)
    qed (use served_step(2) ClientIteration sound in auto)
  next
    case (Background d)
    with served_step(2) sound show ?thesis by (cases d) auto
  next
    case FinishServer
    with served_step(2) sound finish_server_clients [of e s] show ?thesis
      by (auto simp: sessions_sound_def)
  qed (use served_step(2) sound in auto)
qed

section \<open>Clients\<close>

definition clients_sound :: "ClientThread list \<Rightarrow> bool" where
  "clients_sound clients \<longleftrightarrow>
     length clients \<le> kMaximumClients \<and> list_all (\<lambda>c. live_tokens (th_phase c) = [] \<or> th_authorized c) clients"

lemma answer_authorized: "answer_client request token negotiated r c = (c', calls) \<Longrightarrow> th_authorized c' = th_authorized c"
  by (auto simp: answer_client_def ended_def thread_end_def Let_def split: prod.splits bool.splits)

text \<open>Only a caller whom the system authorized is served.\<close>

lemma client_step_authorized:
  assumes "client_step e sch stop an c d = ((c', calls), d', executed)" and "live_tokens (th_phase c) = [] \<or> th_authorized c"
  shows "live_tokens (th_phase c') = [] \<or> th_authorized c'"
proof (cases "th_phase c")
  case Greeting
  with assms(1) have "greet_client an c = (c', calls)" by (simp add: client_step_def)
  then show ?thesis
    by (auto simp: greet_client_def ended_def thread_end_def Let_def split: prod.splits bool.splits if_splits option.splits)
next
  case (Serving token negotiated used)
  with assms have "th_authorized c" "serve_client e sch stop an token negotiated used c d = ((c', calls), d', executed)"
    by (simp_all add: client_step_def)
  then show ?thesis
    by (auto simp: serve_client_def ended_def thread_end_def Let_def dest!: answer_authorized
        split: prod.splits if_splits option.splits sum.splits)
qed (use assms in \<open>auto simp: client_step_def ended_def thread_end_def\<close>)

lemma served_clients: "served e sch limit (NewServer d) executed tokens s \<Longrightarrow> clients_sound (sv_clients s)"
proof (induction rule: served.induct)
  case (served_step executed tokens s step s' new issued)
  show ?case
  proof (cases step)
    case (MainLoop aa)
    then have r: "s' = accept_round limit aa s" using served_step by auto
    have kept: "length (filter (\<lambda>c. \<not> th_done c) (sv_clients s)) \<le> kMaximumClients"
      using served_step.IH by (auto simp: clients_sound_def intro: le_trans [OF length_filter_le])
    from accept_round_effect [of limit aa s] served_step.IH kept show ?thesis
      by (auto simp: r clients_sound_def list_all_iff new_client_def)
  next
    case (ClientIteration i an)
    show ?thesis
    proof (cases "i < length (sv_clients s)")
      case True
      obtain c' calls d x where c: "client_step e sch (sv_stop s) an (sv_clients s ! i) (sv_dispatch s) = ((c', calls), d, x)"
        by (metis prod.exhaust)
      with True served_step(2) ClientIteration have "sv_clients s' = (sv_clients s)[i := c']" by (auto simp: Let_def)
      with client_step_authorized [OF c] served_step.IH True show ?thesis
        by (auto simp: clients_sound_def list_all_length nth_list_update)
    qed (use served_step ClientIteration in auto)
  next
    case (Background d)
    with served_step show ?thesis by (cases d) auto
  next
    case FinishServer
    with served_step finish_server_clients [of e s] show ?thesis by (auto simp: clients_sound_def)
  qed (use served_step in auto)
qed (simp add: NewServer_def clients_sound_def)

lemma served_frames:
  "served e sch limit start executed tokens s \<Longrightarrow>
   list_all (\<lambda>(frame, deadline). wf_frame frame \<and> IsValidFrame frame \<and> fr_kind frame = kRequest) executed"
proof (induction rule: served.induct)
  case (served_step executed tokens s step s' new issued)
  have "list_all (\<lambda>(frame, deadline). wf_frame frame \<and> IsValidFrame frame \<and> fr_kind frame = kRequest) new"
  proof (cases step)
    case (ClientIteration i an)
    show ?thesis
    proof (cases "i < length (sv_clients s)")
      case True
      obtain c' calls d x where c: "client_step e sch (sv_stop s) an (sv_clients s ! i) (sv_dispatch s) = ((c', calls), d, x)"
        by (metis prod.exhaust)
      with True served_step(2) ClientIteration have "new = x" by (auto simp: Let_def)
      with c show ?thesis by (cases rule: client_step_cases) auto
    qed (use served_step(2) ClientIteration in auto)
  next
    case (Background d)
    with served_step(2) show ?thesis by (cases d) auto
  qed (use served_step(2) in auto)
  with served_step show ?case by simp
qed simp

section \<open>A session\<close>

text \<open>A client that says hello and asks for the status, over a pipe that moves seven bytes at a time.\<close>

definition sample_greeting :: Frame where
  "sample_greeting = sample_hello\<lparr>fr_capabilities := 103\<rparr>"

definition sample_token :: Identifier where "sample_token = replicate 16 9"

definition sample_request :: Frame where
  "sample_request = \<lparr>fr_kind = kRequest, fr_command = kStatus, fr_status = kStatusNone,
     fr_correlation_id = replicate 16 7, fr_session_token = sample_token,
     fr_operation_nonce = replicate 16 3, fr_deadline_unix_ms = 5, fr_capabilities = 0, fr_body = []\<rparr>"

definition sample_accept :: accept_answers where
  "sample_accept = \<lparr>aa_create = None, aa_event = True, aa_connect = Completed, aa_stopping = False, aa_error = 0,
     aa_thread = True, aa_script = slow_pipe,
     aa_pipe = idle_pipe\<lparr>pp_in := Encode sample_greeting @ Encode sample_request\<rparr>\<rparr>"

definition sample_answers :: client_answers where
  "sample_answers = \<lparr>an_authorized = True, an_random = True, an_bytes = sample_token, an_monotonic = 1,
     an_filetime = 116444736000000000\<rparr>"

lemmas sample_frames = sample_greeting_def sample_hello_def sample_request_def sample_token_def

lemma sample_valid:
  "wf_frame sample_greeting" "IsValidFrame sample_greeting" "wf_frame sample_request" "IsValidFrame sample_request"
  "IsValidFrame (ResponseFor sample_greeting kOk sample_token ''service_protocol_v1'')"
  by (simp_all add: sample_frames ResponseFor_def wf_frame_def wf_identifier_def IsValidFrame_def IsValidRequestBody_def
      IsBoundedAsciiControl_def ResponseBodyLimit_def starts_with_def IsZeroIdentifier_def list_all_iff proto_limits)

lemma sample_negotiation:
  "fr_kind sample_greeting = kHelloRequest" "fr_command sample_greeting = kHello" "fr_capabilities sample_greeting = 103"
  "hello_compatible 103" "103 AND kServiceCapabilities = 103" "GenerateIdentifier True sample_token = Some sample_token"
  by (simp_all add: sample_frames hello_compatible_def has_def capability_defs kServiceCapabilities_def
      GenerateIdentifier_def IsZeroIdentifier_def list_all_iff)

lemma sample_admitted:
  "admit_request sample_token 103 [] 1 (UnixTimeMilliseconds 116444736000000000) sample_request =
     ([fr_operation_nonce sample_request], Inr 6)" "fr_kind sample_request = kRequest"
  unfolding UnixTimeMilliseconds_def
  by (simp_all add: admit_request_iff sample_request_def kMaximumDeadlineLeadMs_def nonce_capacity_def)

lemma sample_session:
  "\<exists>s. served e sch 0 (NewServer d) [(sample_request, 6)] [sample_token] s"
proof -
  let ?c = "new_client 1 slow_pipe (aa_pipe sample_accept)"
  let ?s = "(NewServer d)\<lparr>sv_accepted := 1, sv_clients := [?c]\<rparr>"
  have "server_do e sch 0 (MainLoop sample_accept) (NewServer d) = (?s, [], [])"
    by (simp add: accept_round_def reap_clients_def NewServer_def sample_accept_def ConnectClient_def kMaximumClients_def Let_def)
  from served_step [OF served_start this] have s1: "served e sch 0 (NewServer d) [] [] ?s" by simp
  obtain p where p: "ReadFrame slow_pipe (aa_pipe sample_accept) = (Some sample_greeting, p)" "pp_in p = Encode sample_request"
    using ReadFrame_delivers [OF sample_valid(1,2), of "aa_pipe sample_accept" "Encode sample_request" slow_pipe] slow_pipe_delivers
    by (auto simp: sample_accept_def)
  obtain q where q: "WriteFrame slow_pipe (ResponseFor sample_greeting kOk sample_token ''service_protocol_v1'') p = (True, q)"
    using slow_pipe_writes [OF sample_valid(5)] by blast
  let ?c1 = "?c\<lparr>th_pipe := q, th_authorized := True, th_phase := Serving sample_token 103 []\<rparr>"
  obtain calls where g: "greet_client sample_answers ?c = (?c1, calls)"
    using p(1) q by (simp add: greet_client_def new_client_def sample_answers_def sample_negotiation Let_def)
  let ?s1 = "?s\<lparr>sv_clients := [?c1], sv_calls := sv_calls ?s @ calls\<rparr>"
  have "server_do e sch 0 (ClientIteration 0 sample_answers) ?s = (?s1, [], [sample_token])"
    using g by (simp add: client_step_def issued_token_def new_client_def)
  from served_step [OF s1 this] have s2: "served e sch 0 (NewServer d) [] [sample_token] ?s1" by simp
  have "pp_in q = Encode sample_request" using WriteFrame_sends(2) [OF q] p(2) by simp
  then obtain r where r: "ReadFrame slow_pipe q = (Some sample_request, r)"
    using ReadFrame_delivers [OF sample_valid(3,4), of q "[]" slow_pipe] slow_pipe_delivers by auto
  obtain x d2 where x: "run_state (Execute e sch sample_request 6) d = (x, d2)" by (metis prod.exhaust)
  obtain c2 calls2 where a: "answer_client sample_request sample_token 103 x
      (?c1\<lparr>th_pipe := r, th_phase := Serving sample_token 103 [fr_operation_nonce sample_request]\<rparr>) = (c2, calls2)" by (metis prod.exhaust)
  have "\<exists>calls. client_step e sch (sv_stop ?s1) sample_answers ?c1 (sv_dispatch ?s1) = ((c2, calls), d2, [(sample_request, 6)])"
    using r x a sample_admitted
    by (simp add: client_step_def serve_client_def new_client_def NewServer_def sample_answers_def Let_def)
  moreover have "issued_token ?c1 c2 = []" by (simp add: issued_token_def)
  ultimately have "\<exists>s'. server_do e sch 0 (ClientIteration 0 sample_answers) ?s1 = (s', [(sample_request, 6)], [])" by force
  then obtain s' where "server_do e sch 0 (ClientIteration 0 sample_answers) ?s1 = (s', [(sample_request, 6)], [])" ..
  from served_step [OF s2 this] show ?thesis by (auto simp del: server_do.simps)
qed

section \<open>Properties\<close>

text \<open>
  C1. Crash safety of the whole service, from the pipe to the disk.  In every run of a server that
  started, with any clients, any bytes on their pipes, any interleaving of their threads with the
  main loop, the watcher and the end of the service, and any answers from Core and the system: at
  every moment at which Core may have changed the network without its change being undone, a service
  that starts on the disk of that moment finds a journal that makes it recover.
\<close>

theorem server_crash_safe:
  assumes "root \<noteq> []" and "b \<longrightarrow> needs_rollback (d (AppendPath root kJournalName))"
    and "RunPipeServer e name owner stop security (started_host e d root ns core probe secure) interval = Inr start"
    and "served e sch limit start executed tokens s"
    and "suffix u (snd (sv_dispatch s))" and "network_dirty b u"
  shows "RequiresRecovery (NewRecovery root ns (journal_on (disk_after d u) (AppendPath root kJournalName)))"
proof -
  let ?host = "started_host e d root ns core probe secure"
  have "root \<noteq> [] \<and> journaled d b root ?host"
    using started_host_inv [of root b d e ns core probe secure] assms(1,2) by simp
  then have "root \<noteq> [] \<and> journaled d b root (snd (run_state (RecoverOnStartup e) ?host))"
    by (rule keeps_run [OF journaled_host.kept [of _ _ _ _ CallRecoverOnStartup, simplified]])
  from journaled_sessions.at_start [OF this] assms(3)
  have "of_host (\<lambda>s. root \<noteq> [] \<and> journaled d b root s) (sv_dispatch start)"
    by (auto simp: RunPipeServer_def NewServer_def split: if_splits)
  from journaled_sessions.after_server [OF assms(4) this]
  have "host_inv d b (AppendPath root kJournalName) (dp_runtime (fst (sv_dispatch s)), snd (sv_dispatch s))"
    by (simp add: of_host_def)
  then show ?thesis by (rule host_inv_recovers [OF _ assms(5,6)])
qed

theorem server_crash_safe_witness:
  "RequiresRecovery (NewRecovery ''C:'' True (journal_on
     (disk_after (\<lambda>_. Some (journal_text kCoreStarted (hex_string (replicate 16 1)) [])) []) (AppendPath ''C:'' kJournalName)))"
proof -
  let ?d = "\<lambda>_. Some (journal_text kCoreStarted (hex_string (replicate 16 1)) [])"
  obtain start where start: "RunPipeServer happy_env (kPipePrefix @ ''v1'') ''S-1'' True True
      (started_host happy_env ?d ''C:'' True True True True) 2000 = Inr start"
    by (simp add: RunPipeServer_def)
  then have "start = NewServer (NewDispatcher happy_env 2000 (snd (run_state (RecoverOnStartup happy_env)
      (started_host happy_env ?d ''C:'' True True True True))))"
    by (simp add: RunPipeServer_def)
  with sample_session obtain s where "served happy_env (\<lambda>_. []) 0 start [(sample_request, 6)] [sample_token] s" by blast
  from server_crash_safe [where b = True and u = "[]", OF _ _ start this] show ?thesis
    by (simp add: needs_rollback_text sample_generation)
qed

text \<open>
  C4. No request is executed twice, and only authorized clients are served.  In every run of the
  server in which the generator of random identifiers does not repeat a session token: the requests
  that reached the dispatcher carry pairwise different pairs of session token and nonce, which are
  what a cancellation names; each is a valid request frame of a session whose token the server
  issued; at most eight clients exist; and a session is served only to a caller whom the system
  authorized, with at most 256 nonces, all different.
\<close>

theorem server_sessions_sound:
  assumes "served e sch limit (NewServer d) executed tokens s" and "distinct tokens"
  shows "distinct (request_keys executed) \<and>
    list_all (\<lambda>(frame, deadline). wf_frame frame \<and> IsValidFrame frame \<and> fr_kind frame = kRequest \<and>
      fr_session_token frame \<in> set tokens) executed \<and>
    length (sv_clients s) \<le> kMaximumClients \<and>
    list_all (\<lambda>c. case th_phase c of
      Serving token negotiated nonces \<Rightarrow> th_authorized c \<and> length nonces \<le> nonce_capacity \<and> distinct nonces
    | _ \<Rightarrow> True) (sv_clients s)"
proof -
  have sound: "distinct (request_keys executed)" "fst ` set (request_keys executed) \<subseteq> set tokens"
    and phases: "list_all (phase_sound (request_keys executed) tokens) (map th_phase (sv_clients s))"
    using served_sessions [OF assms] by (simp_all add: sessions_sound_def)
  from sound(2) have "list_all (\<lambda>(frame, deadline). fr_session_token frame \<in> set tokens) executed"
    by (force simp: request_keys_def list_all_iff image_subset_iff)
  with served_frames [OF assms(1)] have "list_all (\<lambda>(frame, deadline). wf_frame frame \<and> IsValidFrame frame \<and>
      fr_kind frame = kRequest \<and> fr_session_token frame \<in> set tokens) executed" by (auto simp: list_all_iff)
  moreover have "length (sv_clients s) \<le> kMaximumClients \<and>
    list_all (\<lambda>c. case th_phase c of
      Serving token negotiated nonces \<Rightarrow> th_authorized c \<and> length nonces \<le> nonce_capacity \<and> distinct nonces
    | _ \<Rightarrow> True) (sv_clients s)"
    using served_clients [OF assms(1)] phases by (fastforce simp: clients_sound_def list_all_iff split: client_phase.split)
  ultimately show ?thesis using sound(1) by blast
qed

theorem server_sessions_sound_witness:
  "\<exists>s. served happy_env (\<lambda>_. []) 0 (NewServer (NewDispatcher happy_env 2000 (started_host happy_env Map.empty ''C:'' True True True True)))
     [(sample_request, 6)] [sample_token] s \<and> distinct (request_keys [(sample_request, 6)]) \<and> length (sv_clients s) \<le> kMaximumClients"
proof -
  obtain s where s: "served happy_env (\<lambda>_. []) 0 (NewServer (NewDispatcher happy_env 2000
      (started_host happy_env Map.empty ''C:'' True True True True))) [(sample_request, 6)] [sample_token] s"
    using sample_session by blast
  from server_sessions_sound [OF s] s show ?thesis by auto
qed

text \<open>
  C16. The admission of a request is exactly this condition: the chain of checks lets a request
  through to the dispatcher if and only if it carries the token of the session, its deadline has not
  passed and is at most five minutes away, its nonce is new and there is room for it, and the
  session negotiated every capability of the reference table for its command; the nonce is then
  used, and the deadline is carried over to the monotonic clock.
\<close>

theorem admission_exact:
  "admit_request token negotiated used tick now request = (nonces, Inr deadline) \<longleftrightarrow>
   fr_session_token request = token \<and> now \<le> fr_deadline_unix_ms request \<and>
   unat (fr_deadline_unix_ms request) - unat now \<le> 300000 \<and> fr_operation_nonce request \<notin> set used \<and>
   length used \<noteq> nonce_capacity \<and> list_all (bit negotiated) (required_bits (fr_command request)) \<and>
   nonces = used @ [fr_operation_nonce request] \<and> deadline = tick + (fr_deadline_unix_ms request - now)"
proof -
  have "fr_deadline_unix_ms request - now \<le> kMaximumDeadlineLeadMs \<longleftrightarrow>
      unat (fr_deadline_unix_ms request) - unat now \<le> 300000" if "now \<le> fr_deadline_unix_ms request"
    using that by (simp add: word_le_nat_alt unat_sub kMaximumDeadlineLeadMs_def)
  then show ?thesis by (auto simp: admit_request_iff)
qed

end
