(* ===== verification/Server_Answers.thy ===== *)
theory Server_Answers
  imports Server_Laws
begin

text \<open>
  The answers that the pipe server gives to retained clients: a client that did not negotiate a
  capability is not shown the field of the snapshot that belongs to it, and one that negotiated
  them all is shown the snapshot as it is.
\<close>

section \<open>Occurrences\<close>

lemma index_of_str_None: "index_of_str p s = None \<longleftrightarrow> \<not> sublist p s"
  by (induction s) (auto simp: sublist_Cons_right starts_with_prefix)

lemma index_of_str_first: "index_of_str p s = Some i \<Longrightarrow> p \<noteq> [] \<Longrightarrow> \<not> sublist p (take i s)"
proof (induction s arbitrary: i)
  case (Cons x xs)
  have "prefix p (x # take n xs) \<Longrightarrow> prefix p (x # xs)" for n
    by (metis Cons_prefix_Cons prefix_order.order_trans take_is_prefix)
  with Cons show ?case
    by (cases i) (auto simp: sublist_Cons_right starts_with_prefix split: if_splits)
qed (simp split: if_splits)

lemma cut_at_free: "p \<noteq> [] \<Longrightarrow> \<not> sublist p (cut_at p s)"
  by (auto simp: cut_at_def find_str_def index_of_str_first index_of_str_None split: option.split)

lemma cut_at_prefix: "prefix (cut_at p s) s"
  by (simp add: cut_at_def take_is_prefix split: option.split)

lemma sublist_of_prefix: "prefix s t \<Longrightarrow> sublist p s \<Longrightarrow> sublist p t"
  by (meson prefix_imp_sublist sublist_order.order_trans)

text \<open>A changed character only makes an occurrence of a text that has this character.\<close>

lemma sublist_update: "sublist p ((s :: string)[k := c]) \<Longrightarrow> c \<notin> set p \<Longrightarrow> sublist p s"
proof (induction s arbitrary: k)
  case (Cons x xs)
  have prefix_update: "prefix q t" if "prefix q (t[j := c])" "c \<notin> set q" for q t :: string and j
    using that
  proof (induction q arbitrary: t j)
    case (Cons y q)
    then show ?case by (cases t; cases j) auto
  qed simp
  show ?case
  proof (cases k)
    case 0
    with Cons.prems prefix_update [of p "x # xs" 0] show ?thesis by (auto simp: sublist_Cons_right)
  next
    case (Suc j)
    with Cons.prems prefix_update [of p "x # xs" k] Cons.IH [of j] show ?thesis by (auto simp: sublist_Cons_right)
  qed
qed simp

lemma lower_version_free: "\<not> sublist p s \<Longrightarrow> c \<notin> set p \<Longrightarrow> \<not> sublist p (lower_version extension c s)"
  by (auto simp: lower_version_def dest: sublist_update split: option.split)

section \<open>Snapshots stay snapshots\<close>

text \<open>An extension starts with a semicolon, which the first six characters of a snapshot do not have.\<close>

lemma find_after_phase:
  assumes "starts_with ''phase='' s" and "find_str s (CHR '';'' # p) 0 = Some i"
  shows "6 \<le> i"
proof (rule ccontr)
  assume "\<not> 6 \<le> i"
  then have "i \<in> {0, 1, 2, 3, 4, 5}" by auto
  moreover have "starts_with (CHR '';'' # p) (drop i s)"
    using assms(2) index_of_str_SomeD by (auto simp: find_str_def)
  then obtain t where "drop i s = CHR '';'' # t" by (auto simp: starts_with_iff)
  moreover obtain r where "s = ''phase='' @ r" using assms(1) by (auto simp: starts_with_iff)
  ultimately show False by auto
qed

lemma cut_at_phase: "starts_with ''phase='' s \<Longrightarrow> starts_with ''phase='' (cut_at (CHR '';'' # p) s)"
  using find_after_phase [of s p] by (auto simp: cut_at_def starts_with_def split: option.split)

lemma lower_version_phase: "starts_with ''phase='' s \<Longrightarrow> starts_with ''phase='' (lower_version (CHR '';'' # p) c s)"
  using find_after_phase [of s p] by (auto simp: lower_version_def starts_with_def split: option.split)

section \<open>What a client is shown\<close>

definition lacks :: "string \<Rightarrow> string \<Rightarrow> bool" where
  "lacks p s \<longleftrightarrow> \<not> sublist p s"

lemma unless_phase:
  "starts_with ''phase='' body \<Longrightarrow> starts_with ''phase='' (unless negotiated capability (cut_at (CHR '';'' # p)) body)"
  "starts_with ''phase='' body \<Longrightarrow> starts_with ''phase='' (unless negotiated capability (lower_version (CHR '';'' # p) c) body)"
  by (simp_all add: unless_def cut_at_phase lower_version_phase)

lemma lacks_cut_at: "lacks p s \<Longrightarrow> lacks p (cut_at q s)"
  unfolding lacks_def by (blast intro: sublist_of_prefix [OF cut_at_prefix])

lemma lacks_own: "p \<noteq> [] \<Longrightarrow> lacks p (cut_at p s)"
  by (simp add: lacks_def cut_at_free)

lemma lacks_lower_version: "lacks p s \<Longrightarrow> c \<notin> set p \<Longrightarrow> lacks p (lower_version q c s)"
  by (simp add: lacks_def lower_version_free)

lemma unless_lacks:
  "p \<noteq> [] \<Longrightarrow> lacks p body \<or> (q = p \<and> \<not> has negotiated capability \<and> starts_with ''phase='' body) \<Longrightarrow>
     lacks p (unless negotiated capability (cut_at q) body)"
  "lacks p body \<Longrightarrow> c \<notin> set p \<Longrightarrow> lacks p (unless negotiated capability (lower_version q c) body)"
  by (auto simp: unless_def lacks_cut_at lacks_own lacks_lower_version)

text \<open>The fields of a snapshot that only a client with the capability is shown.\<close>

definition negotiated_fields :: "(u64 \<times> string) list" where
  "negotiated_fields = [
     (kCapabilitySmartAccessRuntimeControl, '';smart_access_runtime_control_version=''),
     (kCapabilityRoutingCatalogControl, '';routing_catalog_control_version=''),
     (kCapabilitySmartAccessLease, '';smart_access_lease_version=''),
     (kCapabilityRoutingCatalogWindow, '';routing_catalog_window_version='')]"

text \<open>
  C33. What a retained client is shown of a snapshot: a client that did not negotiate the capability
  of a field never receives that field, and a client that negotiated every capability of the
  service receives the body of the answer unchanged.
\<close>

theorem retained_body_negotiated:
  assumes "(capability, field) \<in> set negotiated_fields" and "\<not> has negotiated capability" and "starts_with ''phase='' body"
  shows "\<not> sublist field (retained_body negotiated body) \<and> retained_body kServiceCapabilities body = body"
proof
  show "retained_body kServiceCapabilities body = body"
    by (simp add: retained_body_def unless_def has_def kServiceCapabilities_def capability_defs Let_def)
  show "\<not> sublist field (retained_body negotiated body)"
    using assms unfolding negotiated_fields_def retained_body_def Let_def lacks_def [symmetric]
    by (auto simp: unless_lacks unless_phase)
qed

theorem retained_body_negotiated_witness:
  "\<not> sublist '';smart_access_lease_version='' (retained_body 7 ''phase=idle;smart_access_lease_version=1'')"
  using retained_body_negotiated [of kCapabilitySmartAccessLease "'';smart_access_lease_version=''" 7
      "''phase=idle;smart_access_lease_version=1''"]
  by (simp add: negotiated_fields_def has_def kCapabilitySmartAccessLease_def starts_with_def)

end
