(* ===== verification/Network_State.thy ===== *)
theory Network_State
  imports World
begin

unbundle bit_operations_syntax

text \<open>
  \<^verbatim>\<open>service_network_state.cpp\<close>: the text of a captured network, and its capture and restoration through
  the IP helper.  The calls of the IP helper are operations of a trace of their own (newest first,
  with their status); what they return besides is given by an environment that sees the trace.
  The conversion of addresses to text and back (\<^verbatim>\<open>InetNtopA\<close>, \<^verbatim>\<open>InetPtonA\<close>) is a parameter.  A wide
  string is a list of UTF-16 code units, and a GUID the sixteen bytes of its memory.
\<close>

section \<open>Records\<close>

definition kOwnedInterfaceName :: "u16 list" where
  "kOwnedInterfaceName = map (\<lambda>c. of_nat (of_char c)) ''POKROV''"

definition kSnapshotMagic :: string where "kSnapshotMagic = ''POKROV_NETWORK_V1''"
definition kMaximumRoutes :: nat where "kMaximumRoutes = 256"
definition kMaximumAddresses :: nat where "kMaximumAddresses = 32"
definition kMaximumDnsTextLength :: nat where "kMaximumDnsTextLength = 2048"

definition AF_INET :: u16 where "AF_INET = 2"
definition AF_INET6 :: u16 where "AF_INET6 = 23"

record InterfaceRecord =
  ir_family :: u16
  ir_forwarding :: bool
  ir_weak_host_send :: bool
  ir_weak_host_receive :: bool
  ir_automatic_metric :: bool
  ir_metric :: u32
  ir_mtu :: u32
  ir_router_discovery :: u32
  ir_dad_transmits :: u32
  ir_managed :: bool
  ir_other :: bool
  ir_advertise_default_route :: bool

record SOCKADDR_INET =
  si_family :: u16
  si_port :: u16
  si_flowinfo :: u32
  si_addr :: "u8 list"
  si_scope_id :: u32

record AddressRecord =
  ar_address :: SOCKADDR_INET
  ar_prefix_origin :: u32
  ar_suffix_origin :: u32
  ar_valid_lifetime :: u32
  ar_preferred_lifetime :: u32
  ar_prefix_length :: u8
  ar_skip_as_source :: bool
  ar_dad_state :: u32

record RouteRecord =
  ro_prefix :: SOCKADDR_INET
  ro_prefix_length :: u8
  ro_next_hop :: SOCKADDR_INET
  ro_site_prefix_length :: u32
  ro_valid_lifetime :: u32
  ro_preferred_lifetime :: u32
  ro_metric :: u32
  ro_protocol :: u32
  ro_loopback :: bool
  ro_autoconfigure :: bool
  ro_publish :: bool
  ro_immortal :: bool
  ro_origin :: u32

record DnsRecord =
  dr_present :: bool
  dr_ipv6 :: bool
  dr_flags :: u64
  dr_registration_enabled :: u32
  dr_register_adapter_name :: u32
  dr_enable_llmnr :: u32
  dr_query_adapter_name :: u32
  dr_domain :: "u16 list"
  dr_name_server :: "u16 list"
  dr_search_list :: "u16 list"
  dr_profile_name_server :: "u16 list"

record NetworkSnapshot =
  ns_adapter_existed :: bool
  ns_adapter_guid :: "u8 list"
  ns_interfaces :: "InterfaceRecord list"
  ns_addresses :: "AddressRecord list"
  ns_routes :: "RouteRecord list"
  ns_dns :: "DnsRecord list"

definition empty_snapshot :: NetworkSnapshot where
  "empty_snapshot = \<lparr>ns_adapter_existed = False, ns_adapter_guid = replicate 16 0, ns_interfaces = [], ns_addresses = [],
     ns_routes = [], ns_dns = []\<rparr>"

section \<open>Text\<close>

text \<open>\<^verbatim>\<open>Split\<close> from the position \<open>start\<close> on\<close>

function split_from :: "string \<Rightarrow> char \<Rightarrow> nat \<Rightarrow> string list" where
  "split_from v d start =
     (if length v < start then []
      else case find_char v d start of
        None \<Rightarrow> [drop start v]
      | Some e \<Rightarrow> substr v start (e - start) # split_from v d (e + 1))"
  by pat_completeness auto

termination
  by (relation "measure (\<lambda>(v, d, start). length v + 1 - start)")
    (auto simp: find_char_def dest: index_of_SomeD)

declare split_from.simps [simp del]

definition Split :: "string \<Rightarrow> char \<Rightarrow> string list" where
  "Split v d = split_from v d 0"

text \<open>\<^verbatim>\<open>ParseUnsigned\<close> for a type with \<open>limit\<close> values\<close>

definition ParseUnsigned :: "nat \<Rightarrow> string \<Rightarrow> nat option" where
  "ParseUnsigned limit v =
     (if v = [] then None
      else case from_chars (2 ^ 64) v of
        Some (parsed, []) \<Rightarrow> if limit \<le> parsed then None else Some parsed
      | _ \<Rightarrow> None)"

definition ParseU32 :: "string \<Rightarrow> u32 option" where
  "ParseU32 v = map_option of_nat (ParseUnsigned (2 ^ 32) v)"

definition ParseU64 :: "string \<Rightarrow> u64 option" where
  "ParseU64 v = map_option of_nat (ParseUnsigned (2 ^ 64) v)"

definition ParseBool :: "string \<Rightarrow> bool option" where
  "ParseBool v = (case ParseUnsigned (2 ^ 32) v of
     None \<Rightarrow> None
   | Some parsed \<Rightarrow> if 1 < parsed then None else Some (parsed = 1))"

definition ParseHexBytes :: "string \<Rightarrow> nat \<Rightarrow> u8 list option" where
  "ParseHexBytes v n =
     (if length v \<noteq> n * 2 \<or> \<not> list_all is_lower_hex v then None else Some (hex_bytes v))"

text \<open>The memory of a wide string, low byte first, and back.\<close>

definition wide_bytes :: "u16 list \<Rightarrow> u8 list" where
  "wide_bytes ws = concat (map (\<lambda>w. [ucast w, ucast (drop_bit 8 w)]) ws)"

fun wide_of_bytes :: "u8 list \<Rightarrow> u16 list" where
  "wide_of_bytes (lo # hi # rest) = (ucast lo OR push_bit 8 (ucast hi)) # wide_of_bytes rest"
| "wide_of_bytes bytes = []"

text \<open>\<^verbatim>\<open>WideToHex(value.c_str())\<close>, which ends at the first zero\<close>

definition WideToHex :: "u16 list \<Rightarrow> string" where
  "WideToHex v =
     (let text = takeWhile (\<lambda>w. w \<noteq> 0) v
      in if kMaximumDnsTextLength < length text then [] else hex_string (wide_bytes text))"

definition HexToWide :: "string \<Rightarrow> u16 list option" where
  "HexToWide v =
     (if length v mod 4 \<noteq> 0 \<or> kMaximumDnsTextLength * 4 < length v then None
      else map_option wide_of_bytes (ParseHexBytes v (length v div 4 * 2)))"

text \<open>\<^verbatim>\<open>InetNtopA\<close> and \<^verbatim>\<open>InetPtonA\<close>; the first argument says whether the family is IPv6.\<close>

record inet =
  inet_ntop :: "bool \<Rightarrow> u8 list \<Rightarrow> string option"
  inet_pton :: "bool \<Rightarrow> string \<Rightarrow> u8 list option"

definition AddressToString :: "inet \<Rightarrow> SOCKADDR_INET \<Rightarrow> string" where
  "AddressToString i a =
     (if si_family a = AF_INET then (case inet_ntop i False (si_addr a) of Some text \<Rightarrow> text | None \<Rightarrow> [])
      else if si_family a = AF_INET6 then (case inet_ntop i True (si_addr a) of Some text \<Rightarrow> text | None \<Rightarrow> [])
      else [])"

definition ParseAddress :: "inet \<Rightarrow> string \<Rightarrow> u16 \<Rightarrow> u32 \<Rightarrow> SOCKADDR_INET option" where
  "ParseAddress i v family scope_id =
     (if family \<noteq> AF_INET \<and> family \<noteq> AF_INET6 then None
      else case inet_pton i (family = AF_INET6) (takeWhile (\<lambda>c. c \<noteq> CHR 0x00) v) of
        None \<Rightarrow> None
      | Some bytes \<Rightarrow> Some \<lparr>si_family = family, si_port = 0, si_flowinfo = 0, si_addr = bytes,
          si_scope_id = (if family = AF_INET6 then scope_id else 0)\<rparr>)"

definition AddressScope :: "SOCKADDR_INET \<Rightarrow> u32" where
  "AddressScope a = (if si_family a = AF_INET6 then si_scope_id a else 0)"

section \<open>Serialize\<close>

definition decimal :: "'a::len word \<Rightarrow> string" where
  "decimal w = to_string (unat w)"

definition flag :: "bool \<Rightarrow> string" where
  "flag b = (if b then ''1'' else ''0'')"

definition family_text :: "u16 \<Rightarrow> string" where
  "family_text family = (if family = AF_INET then ''4'' else ''6'')"

definition interface_line :: "InterfaceRecord \<Rightarrow> string" where
  "interface_line r = ''if='' @ join (CHR '','') [family_text (ir_family r), flag (ir_forwarding r),
     flag (ir_weak_host_send r), flag (ir_weak_host_receive r), flag (ir_automatic_metric r), decimal (ir_metric r),
     decimal (ir_mtu r), decimal (ir_router_discovery r), decimal (ir_dad_transmits r), flag (ir_managed r),
     flag (ir_other r), flag (ir_advertise_default_route r)]"

definition address_line :: "inet \<Rightarrow> AddressRecord \<Rightarrow> string" where
  "address_line i r = ''addr='' @ join (CHR '','') [family_text (si_family (ar_address r)), AddressToString i (ar_address r),
     decimal (AddressScope (ar_address r)), decimal (ar_prefix_origin r), decimal (ar_suffix_origin r),
     decimal (ar_valid_lifetime r), decimal (ar_preferred_lifetime r), decimal (ar_prefix_length r),
     flag (ar_skip_as_source r), decimal (ar_dad_state r)]"

definition route_line :: "inet \<Rightarrow> RouteRecord \<Rightarrow> string" where
  "route_line i r = ''route='' @ join (CHR '','') [family_text (si_family (ro_prefix r)), AddressToString i (ro_prefix r),
     decimal (AddressScope (ro_prefix r)), decimal (ro_prefix_length r), AddressToString i (ro_next_hop r),
     decimal (AddressScope (ro_next_hop r)), decimal (ro_site_prefix_length r), decimal (ro_valid_lifetime r),
     decimal (ro_preferred_lifetime r), decimal (ro_metric r), decimal (ro_protocol r), flag (ro_loopback r),
     flag (ro_autoconfigure r), flag (ro_publish r), flag (ro_immortal r), decimal (ro_origin r)]"

definition dns_line :: "DnsRecord \<Rightarrow> string" where
  "dns_line r = ''dns='' @ join (CHR '','') [if dr_ipv6 r then ''6'' else ''4'', decimal (dr_flags r),
     decimal (dr_registration_enabled r), decimal (dr_register_adapter_name r), decimal (dr_enable_llmnr r),
     decimal (dr_query_adapter_name r), WideToHex (dr_domain r), WideToHex (dr_name_server r),
     WideToHex (dr_search_list r), WideToHex (dr_profile_name_server r)]"

definition snapshot_lines :: "inet \<Rightarrow> NetworkSnapshot \<Rightarrow> string list" where
  "snapshot_lines i s =
     [kSnapshotMagic, ''adapter='' @ (if ns_adapter_existed s then ''present'' else ''absent'')] @
     (if \<not> ns_adapter_existed s then []
      else (''guid='' @ hex_string (ns_adapter_guid s)) # map interface_line (ns_interfaces s) @
        map (address_line i) (ns_addresses s) @ map (route_line i) (ns_routes s) @ map dns_line (ns_dns s))"

definition Serialize :: "inet \<Rightarrow> NetworkSnapshot \<Rightarrow> string" where
  "Serialize i s = concat (map (\<lambda>line. line @ [newline]) (snapshot_lines i s))"

section \<open>ParseSnapshot\<close>

definition parse_family :: "nat \<Rightarrow> string \<Rightarrow> u16 option" where
  "parse_family n v = do {
     family \<leftarrow> ParseUnsigned (2 ^ 32) (drop n v);
     if family = 4 then Some AF_INET else if family = 6 then Some AF_INET6 else None
   }"

text \<open>A prefix length is at most 128.\<close>

definition parse_length :: "string \<Rightarrow> nat option" where
  "parse_length v = do {
     parsed \<leftarrow> ParseUnsigned (2 ^ 32) v;
     if 128 < parsed then None else Some parsed
   }"

definition parse_interface :: "string list \<Rightarrow> InterfaceRecord option" where
  "parse_interface fs =
     (if length fs \<noteq> 12 then None
      else do {
        family \<leftarrow> parse_family 3 (fs ! 0);
        forwarding \<leftarrow> ParseBool (fs ! 1);
        weak_host_send \<leftarrow> ParseBool (fs ! 2);
        weak_host_receive \<leftarrow> ParseBool (fs ! 3);
        automatic_metric \<leftarrow> ParseBool (fs ! 4);
        metric \<leftarrow> ParseU32 (fs ! 5);
        mtu \<leftarrow> ParseU32 (fs ! 6);
        router \<leftarrow> ParseU32 (fs ! 7);
        dad_transmits \<leftarrow> ParseU32 (fs ! 8);
        managed \<leftarrow> ParseBool (fs ! 9);
        other \<leftarrow> ParseBool (fs ! 10);
        advertise \<leftarrow> ParseBool (fs ! 11);
        Some \<lparr>ir_family = family, ir_forwarding = forwarding, ir_weak_host_send = weak_host_send,
          ir_weak_host_receive = weak_host_receive, ir_automatic_metric = automatic_metric, ir_metric = metric,
          ir_mtu = mtu, ir_router_discovery = router, ir_dad_transmits = dad_transmits, ir_managed = managed,
          ir_other = other, ir_advertise_default_route = advertise\<rparr>
      })"

definition parse_address :: "inet \<Rightarrow> string list \<Rightarrow> AddressRecord option" where
  "parse_address i fs =
     (if length fs \<noteq> 10 then None
      else do {
        family \<leftarrow> parse_family 5 (fs ! 0);
        scope \<leftarrow> ParseU32 (fs ! 2);
        address \<leftarrow> ParseAddress i (fs ! 1) family scope;
        prefix_origin \<leftarrow> ParseU32 (fs ! 3);
        suffix_origin \<leftarrow> ParseU32 (fs ! 4);
        valid_lifetime \<leftarrow> ParseU32 (fs ! 5);
        preferred_lifetime \<leftarrow> ParseU32 (fs ! 6);
        prefix_length \<leftarrow> parse_length (fs ! 7);
        skip_as_source \<leftarrow> ParseBool (fs ! 8);
        dad_state \<leftarrow> ParseU32 (fs ! 9);
        Some \<lparr>ar_address = address, ar_prefix_origin = prefix_origin, ar_suffix_origin = suffix_origin,
          ar_valid_lifetime = valid_lifetime, ar_preferred_lifetime = preferred_lifetime,
          ar_prefix_length = of_nat prefix_length, ar_skip_as_source = skip_as_source, ar_dad_state = dad_state\<rparr>
      })"

definition parse_route :: "inet \<Rightarrow> string list \<Rightarrow> RouteRecord option" where
  "parse_route i fs =
     (if length fs \<noteq> 16 then None
      else do {
        family \<leftarrow> parse_family 6 (fs ! 0);
        destination_scope \<leftarrow> ParseU32 (fs ! 2);
        destination \<leftarrow> ParseAddress i (fs ! 1) family destination_scope;
        prefix_length \<leftarrow> parse_length (fs ! 3);
        next_scope \<leftarrow> ParseU32 (fs ! 5);
        next_hop \<leftarrow> ParseAddress i (fs ! 4) family next_scope;
        site_prefix_length \<leftarrow> parse_length (fs ! 6);
        valid_lifetime \<leftarrow> ParseU32 (fs ! 7);
        preferred_lifetime \<leftarrow> ParseU32 (fs ! 8);
        metric \<leftarrow> ParseU32 (fs ! 9);
        protocol \<leftarrow> ParseU32 (fs ! 10);
        loopback \<leftarrow> ParseBool (fs ! 11);
        autoconfigure \<leftarrow> ParseBool (fs ! 12);
        publish \<leftarrow> ParseBool (fs ! 13);
        immortal \<leftarrow> ParseBool (fs ! 14);
        origin \<leftarrow> ParseU32 (fs ! 15);
        Some \<lparr>ro_prefix = destination, ro_prefix_length = of_nat prefix_length, ro_next_hop = next_hop,
          ro_site_prefix_length = of_nat site_prefix_length, ro_valid_lifetime = valid_lifetime,
          ro_preferred_lifetime = preferred_lifetime, ro_metric = metric, ro_protocol = protocol,
          ro_loopback = loopback, ro_autoconfigure = autoconfigure, ro_publish = publish, ro_immortal = immortal,
          ro_origin = origin\<rparr>
      })"

definition parse_dns :: "string list \<Rightarrow> DnsRecord option" where
  "parse_dns fs =
     (if length fs \<noteq> 10 then None
      else do {
        family \<leftarrow> parse_family 4 (fs ! 0);
        flags \<leftarrow> ParseU64 (fs ! 1);
        registration_enabled \<leftarrow> ParseU32 (fs ! 2);
        register_adapter_name \<leftarrow> ParseU32 (fs ! 3);
        enable_llmnr \<leftarrow> ParseU32 (fs ! 4);
        query_adapter_name \<leftarrow> ParseU32 (fs ! 5);
        domain \<leftarrow> HexToWide (fs ! 6);
        name_server \<leftarrow> HexToWide (fs ! 7);
        search_list \<leftarrow> HexToWide (fs ! 8);
        profile_name_server \<leftarrow> HexToWide (fs ! 9);
        Some \<lparr>dr_present = True, dr_ipv6 = (family = AF_INET6), dr_flags = flags,
          dr_registration_enabled = registration_enabled, dr_register_adapter_name = register_adapter_name,
          dr_enable_llmnr = enable_llmnr, dr_query_adapter_name = query_adapter_name, dr_domain = domain,
          dr_name_server = name_server, dr_search_list = search_list, dr_profile_name_server = profile_name_server\<rparr>
      })"

definition parse_line :: "inet \<Rightarrow> string \<Rightarrow> NetworkSnapshot \<Rightarrow> NetworkSnapshot option" where
  "parse_line i line s =
     (let fs = Split line (CHR '','')
      in if starts_with ''if='' line then
           map_option (\<lambda>r. s\<lparr>ns_interfaces := ns_interfaces s @ [r]\<rparr>) (parse_interface fs)
         else if starts_with ''addr='' line then
           (if kMaximumAddresses \<le> length (ns_addresses s) then None
            else map_option (\<lambda>r. s\<lparr>ns_addresses := ns_addresses s @ [r]\<rparr>) (parse_address i fs))
         else if starts_with ''route='' line then
           (if kMaximumRoutes \<le> length (ns_routes s) then None
            else map_option (\<lambda>r. s\<lparr>ns_routes := ns_routes s @ [r]\<rparr>) (parse_route i fs))
         else if starts_with ''dns='' line then
           (if 2 \<le> length (ns_dns s) then None
            else map_option (\<lambda>r. s\<lparr>ns_dns := ns_dns s @ [r]\<rparr>) (parse_dns fs))
         else None)"

fun parse_lines :: "inet \<Rightarrow> string list \<Rightarrow> NetworkSnapshot \<Rightarrow> NetworkSnapshot option" where
  "parse_lines i [] s = Some s"
| "parse_lines i (line # lines) s = (case parse_line i line s of None \<Rightarrow> None | Some s' \<Rightarrow> parse_lines i lines s')"

definition parse_snapshot_lines :: "inet \<Rightarrow> string list \<Rightarrow> NetworkSnapshot option" where
  "parse_snapshot_lines i lines =
     (if length lines < 2 \<or> lines ! 0 \<noteq> kSnapshotMagic then None
      else if lines ! 1 = ''adapter=absent'' then (if length lines = 2 then Some empty_snapshot else None)
      else if lines ! 1 \<noteq> ''adapter=present'' \<or> length lines < 3 \<or> \<not> starts_with ''guid='' (lines ! 2) then None
      else case ParseHexBytes (drop 5 (lines ! 2)) 16 of
        None \<Rightarrow> None
      | Some guid \<Rightarrow>
          (case parse_lines i (drop 3 lines) (empty_snapshot\<lparr>ns_adapter_guid := guid, ns_adapter_existed := True\<rparr>) of
             None \<Rightarrow> None
           | Some s \<Rightarrow> if length (ns_interfaces s) = 2 \<and> length (ns_dns s) = 2 then Some s else None))"

definition ParseSnapshot :: "inet \<Rightarrow> string \<Rightarrow> NetworkSnapshot option" where
  "ParseSnapshot i serialized =
     (if serialized = [] \<or> last serialized \<noteq> newline then None
      else parse_snapshot_lines i (Split (butlast serialized) newline))"

end
