(* ===== verification/Network_Text.thy ===== *)
theory Network_Text
  imports Network_State
begin

text \<open>
  The text of a captured network is read back as the network it was written from.
\<close>

section \<open>Split and join\<close>

lemma split_from_join:
  assumes "xs \<noteq> []" and "\<forall>x\<in>set xs. d \<notin> set x" and "start = length p"
  shows "split_from (p @ join d xs) d start = xs"
  using assms
proof (induction xs arbitrary: p start)
  case (Cons x xs)
  show ?case
  proof (cases "xs = []")
    case True
    with Cons.prems have "find_char (p @ x) d start = None" by (simp add: find_char_none)
    with True Cons.prems show ?thesis by (simp add: split_from.simps [of "p @ x"])
  next
    case False
    have "split_from ((p @ x @ [d]) @ join d xs) d (length (p @ x @ [d])) = xs"
      using Cons.prems False by (intro Cons.IH) auto
    with False Cons.prems show ?thesis
      by (simp add: join_Cons split_from.simps [of "p @ x @ d # join d xs"] find_char_here substr_def)
  qed
qed simp

lemma Split_join:
  "xs \<noteq> [] \<Longrightarrow> \<forall>x\<in>set xs. d \<notin> set x \<Longrightarrow> Split (join d xs) d = xs"
  using split_from_join [of xs d 0 "[]"] by (simp add: Split_def)

lemma join_prefix: "p @ join c (x # xs) = join c ((p @ x) # xs)"
  by (cases xs) simp_all

lemma butlast_lines:
  "lines \<noteq> [] \<Longrightarrow> butlast (concat (map (\<lambda>line. line @ [d]) lines)) = join (d :: char) lines"
  by (induction d lines rule: join.induct) (auto simp: butlast_append)

lemma last_lines: "lines \<noteq> [] \<Longrightarrow> last (concat (map (\<lambda>line. line @ [d :: char]) lines)) = d"
  by (induction lines) auto

section \<open>Fields\<close>

text \<open>A field holds no separator.\<close>

definition field :: "string \<Rightarrow> bool" where
  "field s \<longleftrightarrow> CHR '','' \<notin> set s \<and> newline \<notin> set s"

lemma field_not_hex: "list_all is_lower_hex s \<Longrightarrow> field s"
  unfolding field_def using hex_free [of s newline] hex_free [of s "CHR '',''"]
  by (simp add: is_lower_hex_def)

lemma field_decimal [simp]: "field (decimal w)"
  by (simp add: field_def decimal_def to_string_notin is_digit_def)

lemma field_flag [simp]: "field (flag b)"
  by (simp add: field_def flag_def)

lemma field_family [simp]: "field (family_text f)"
  by (simp add: field_def family_text_def)

lemma field_Cons [simp]: "field (c # s) \<longleftrightarrow> c \<noteq> CHR '','' \<and> c \<noteq> newline \<and> field s"
  by (auto simp: field_def)

lemma field_Nil [simp]: "field []"
  by (simp add: field_def)

lemma field_hex [simp]: "field (hex_string bs)"
  by (rule field_not_hex) (rule hex_string_lower)

lemma field_wide [simp]: "field (WideToHex w)"
  by (simp add: WideToHex_def Let_def)

lemma Split_fields:
  "xs \<noteq> [] \<Longrightarrow> list_all field xs \<Longrightarrow> Split (join (CHR '','') xs) (CHR '','') = xs"
  by (rule Split_join) (auto simp: list_all_iff field_def)

lemma newline_join:
  "list_all field xs \<Longrightarrow> newline \<notin> set (join (CHR '','') xs)"
  by (induction "CHR '',''" xs rule: join.induct) (auto simp: field_def)

section \<open>Values\<close>

lemma ParseUnsigned_decimal:
  "unat w < n \<Longrightarrow> unat w < 2 ^ 64 \<Longrightarrow> ParseUnsigned n (decimal w) = Some (unat w)"
  by (simp add: ParseUnsigned_def decimal_def)

lemma unat_small: "LENGTH('a::len) \<le> k \<Longrightarrow> unat (w :: 'a word) < 2 ^ k"
  by (rule less_le_trans [OF unsigned_less]) simp

lemma ParseU32_decimal [simp]: "ParseU32 (decimal (w :: u32)) = Some w"
  using unat_small [of 32 w] unat_small [of 64 w] by (simp add: ParseU32_def ParseUnsigned_decimal)

lemma ParseU64_decimal [simp]: "ParseU64 (decimal (w :: u64)) = Some w"
  using unat_small [of 64 w] by (simp add: ParseU64_def ParseUnsigned_decimal)

lemma flag_decimal: "flag b = decimal (of_bool b :: u8)"
  by (simp add: flag_def decimal_def dec_digit_def to_string.simps)

lemma ParseBool_flag [simp]: "ParseBool (flag b) = Some b"
  by (simp add: ParseBool_def flag_decimal ParseUnsigned_decimal)

lemma parse_length_decimal:
  "unat w \<le> 128 \<Longrightarrow> parse_length (decimal w) = Some (unat w)"
  by (simp add: parse_length_def ParseUnsigned_decimal Option.bind_def)

lemma parse_family_text:
  "f = AF_INET \<or> f = AF_INET6 \<Longrightarrow> length p = n \<Longrightarrow> parse_family n (p @ family_text f) = Some f"
proof -
  have "ParseUnsigned (2 ^ 32) ''4'' = Some 4" "ParseUnsigned (2 ^ 32) ''6'' = Some 6"
    using ParseUnsigned_decimal [of "4 :: u8" "2 ^ 32"] ParseUnsigned_decimal [of "6 :: u8" "2 ^ 32"]
    by (simp_all add: decimal_def dec_digit_def to_string.simps)
  then show "f = AF_INET \<or> f = AF_INET6 \<Longrightarrow> length p = n \<Longrightarrow> parse_family n (p @ family_text f) = Some f"
    by (auto simp: parse_family_def family_text_def AF_INET_def AF_INET6_def)
qed

lemma ParseHexBytes_hex [simp]: "n = length bs \<Longrightarrow> ParseHexBytes (hex_string bs) n = Some bs"
  by (simp add: ParseHexBytes_def hex_string_lower)

lemma wide_of_bytes_of [simp]: "wide_of_bytes (wide_bytes ws) = ws"
proof (induction ws)
  case (Cons w ws)
  have "(ucast (ucast w :: u8) OR push_bit 8 (ucast (ucast (drop_bit 8 w) :: u8))) = w"
    by (rule bit_word_eqI) (auto simp: bit_simps)
  with Cons show ?case by (simp add: wide_bytes_def)
qed (simp add: wide_bytes_def)

lemma length_wide_bytes [simp]: "length (wide_bytes ws) = 2 * length ws"
  by (induction ws) (simp_all add: wide_bytes_def)

text \<open>Text that a NUL-terminated copy of a DNS setting can be.\<close>

definition dns_text :: "u16 list \<Rightarrow> bool" where
  "dns_text ws \<longleftrightarrow> 0 \<notin> set ws \<and> length ws \<le> kMaximumDnsTextLength"

lemma HexToWide_WideToHex: "dns_text ws \<Longrightarrow> HexToWide (WideToHex ws) = Some ws"
proof -
  assume w: "dns_text ws"
  then have t: "takeWhile (\<lambda>w. w \<noteq> 0) ws = ws" by (auto simp: dns_text_def takeWhile_eq_all_conv)
  from w show ?thesis
    by (simp add: WideToHex_def HexToWide_def Let_def t dns_text_def)
qed

section \<open>Addresses\<close>

text \<open>
  What is relied on of \<^verbatim>\<open>InetNtopA\<close> and \<^verbatim>\<open>InetPtonA\<close>: every address of its family's length has a text,
  which holds neither a separator nor a NUL and is read back as the address.
\<close>

definition address_bytes :: "bool \<Rightarrow> u8 list \<Rightarrow> bool" where
  "address_bytes v6 bytes \<longleftrightarrow> length bytes = (if v6 then 16 else 4)"

definition inet_exact :: "inet \<Rightarrow> bool" where
  "inet_exact i \<longleftrightarrow> (\<forall>v6 bytes. address_bytes v6 bytes \<longrightarrow>
     (\<exists>text. inet_ntop i v6 bytes = Some text \<and> inet_pton i v6 text = Some bytes \<and> field text \<and> nul \<notin> set text))"

lemma inet_exactD:
  assumes "inet_exact i" and "address_bytes v6 bytes"
  obtains shown where "inet_ntop i v6 bytes = Some shown" and "inet_pton i v6 shown = Some bytes"
    and "field shown" and "nul \<notin> set shown"
  using assms unfolding inet_exact_def by blast

definition wf_address :: "SOCKADDR_INET \<Rightarrow> bool" where
  "wf_address a \<longleftrightarrow> (si_family a = AF_INET \<or> si_family a = AF_INET6) \<and>
     address_bytes (si_family a = AF_INET6) (si_addr a) \<and> si_port a = 0 \<and> si_flowinfo a = 0 \<and>
     (si_family a = AF_INET \<longrightarrow> si_scope_id a = 0)"

lemma wf_address_family: "wf_address a \<Longrightarrow> si_family a = AF_INET \<or> si_family a = AF_INET6"
  by (simp add: wf_address_def)

lemma AF_distinct [simp]: "AF_INET \<noteq> AF_INET6" "AF_INET6 \<noteq> AF_INET"
  by (simp_all add: AF_INET_def AF_INET6_def)

lemma takeWhile_nul: "nul \<notin> set s \<Longrightarrow> takeWhile (\<lambda>c. c \<noteq> nul) s = s"
  by (auto simp: takeWhile_eq_all_conv)

lemma address_text:
  assumes i: "inet_exact i" and a: "wf_address a" and f: "f = si_family a"
  shows "field (AddressToString i a) \<and> ParseAddress i (AddressToString i a) f (AddressScope a) = Some a"
proof -
  have "address_bytes (si_family a = AF_INET6) (si_addr a)" using a by (simp add: wf_address_def)
  then obtain shown where "inet_ntop i (si_family a = AF_INET6) (si_addr a) = Some shown"
    "inet_pton i (si_family a = AF_INET6) shown = Some (si_addr a)" "field shown" "nul \<notin> set shown"
    by (rule inet_exactD [OF i])
  moreover note wf_address_family [OF a]
  ultimately show ?thesis using a unfolding f
    by (cases a, elim disjE)
      (simp_all add: wf_address_def AddressToString_def ParseAddress_def AddressScope_def takeWhile_nul)
qed

lemmas address_field = address_text [THEN conjunct1]
lemmas address_parsed = address_text [THEN conjunct2]

section \<open>Records\<close>

definition wf_interface :: "InterfaceRecord \<Rightarrow> bool" where
  "wf_interface r \<longleftrightarrow> ir_family r = AF_INET \<or> ir_family r = AF_INET6"

definition wf_address_record :: "AddressRecord \<Rightarrow> bool" where
  "wf_address_record r \<longleftrightarrow> wf_address (ar_address r) \<and> unat (ar_prefix_length r) \<le> 128"

definition wf_route :: "RouteRecord \<Rightarrow> bool" where
  "wf_route r \<longleftrightarrow> wf_address (ro_prefix r) \<and> wf_address (ro_next_hop r) \<and>
     si_family (ro_next_hop r) = si_family (ro_prefix r) \<and> unat (ro_prefix_length r) \<le> 128 \<and>
     unat (ro_site_prefix_length r) \<le> 128"

definition wf_dns :: "DnsRecord \<Rightarrow> bool" where
  "wf_dns r \<longleftrightarrow> dr_present r \<and> list_all dns_text [dr_domain r, dr_name_server r, dr_search_list r, dr_profile_name_server r]"

definition interface_fields :: "InterfaceRecord \<Rightarrow> string list" where
  "interface_fields r = [''if='' @ family_text (ir_family r), flag (ir_forwarding r),
     flag (ir_weak_host_send r), flag (ir_weak_host_receive r), flag (ir_automatic_metric r), decimal (ir_metric r),
     decimal (ir_mtu r), decimal (ir_router_discovery r), decimal (ir_dad_transmits r), flag (ir_managed r),
     flag (ir_other r), flag (ir_advertise_default_route r)]"

definition address_fields :: "inet \<Rightarrow> AddressRecord \<Rightarrow> string list" where
  "address_fields i r = [''addr='' @ family_text (si_family (ar_address r)), AddressToString i (ar_address r),
     decimal (AddressScope (ar_address r)), decimal (ar_prefix_origin r), decimal (ar_suffix_origin r),
     decimal (ar_valid_lifetime r), decimal (ar_preferred_lifetime r), decimal (ar_prefix_length r),
     flag (ar_skip_as_source r), decimal (ar_dad_state r)]"

definition route_fields :: "inet \<Rightarrow> RouteRecord \<Rightarrow> string list" where
  "route_fields i r = [''route='' @ family_text (si_family (ro_prefix r)), AddressToString i (ro_prefix r),
     decimal (AddressScope (ro_prefix r)), decimal (ro_prefix_length r), AddressToString i (ro_next_hop r),
     decimal (AddressScope (ro_next_hop r)), decimal (ro_site_prefix_length r), decimal (ro_valid_lifetime r),
     decimal (ro_preferred_lifetime r), decimal (ro_metric r), decimal (ro_protocol r), flag (ro_loopback r),
     flag (ro_autoconfigure r), flag (ro_publish r), flag (ro_immortal r), decimal (ro_origin r)]"

definition dns_fields :: "DnsRecord \<Rightarrow> string list" where
  "dns_fields r = [''dns='' @ family_text (if dr_ipv6 r then AF_INET6 else AF_INET), decimal (dr_flags r),
     decimal (dr_registration_enabled r), decimal (dr_register_adapter_name r), decimal (dr_enable_llmnr r),
     decimal (dr_query_adapter_name r), WideToHex (dr_domain r), WideToHex (dr_name_server r),
     WideToHex (dr_search_list r), WideToHex (dr_profile_name_server r)]"

lemmas line_fields = interface_fields_def address_fields_def route_fields_def dns_fields_def

lemma lines_of_fields:
  "interface_line r1 = join (CHR '','') (interface_fields r1)"
  "address_line i r2 = join (CHR '','') (address_fields i r2)"
  "route_line i r3 = join (CHR '','') (route_fields i r3)"
  "dns_line r4 = join (CHR '','') (dns_fields r4)"
  by (simp_all add: interface_line_def address_line_def route_line_def dns_line_def line_fields family_text_def)

lemma all_fields:
  "list_all field (interface_fields r1)"
  "inet_exact i \<Longrightarrow> wf_address_record r2 \<Longrightarrow> list_all field (address_fields i r2)"
  "inet_exact i \<Longrightarrow> wf_route r3 \<Longrightarrow> list_all field (route_fields i r3)"
  "list_all field (dns_fields r4)"
  by (simp_all add: line_fields wf_address_record_def wf_route_def address_field)

lemma parse_interface_fields: "wf_interface r \<Longrightarrow> parse_interface (interface_fields r) = Some r"
  by (simp add: parse_interface_def interface_fields_def wf_interface_def parse_family_text [of _ "''if=''", simplified])

lemma parse_address_fields:
  "inet_exact i \<Longrightarrow> wf_address_record r \<Longrightarrow> parse_address i (address_fields i r) = Some r"
  by (simp add: parse_address_def address_fields_def wf_address_record_def wf_address_family
      parse_family_text [of _ "''addr=''", simplified] address_parsed parse_length_decimal)

lemma parse_route_fields:
  "inet_exact i \<Longrightarrow> wf_route r \<Longrightarrow> parse_route i (route_fields i r) = Some r"
  by (simp add: parse_route_def route_fields_def wf_route_def wf_address_family
      parse_family_text [of _ "''route=''", simplified] address_parsed parse_length_decimal)

lemma parse_dns_fields: "wf_dns r \<Longrightarrow> parse_dns (dns_fields r) = Some r"
  by (simp add: parse_dns_def dns_fields_def wf_dns_def parse_family_text [of _ "''dns=''", simplified]
      HexToWide_WideToHex)

section \<open>Lines\<close>

lemma fields_nonempty [simp]:
  "interface_fields r1 \<noteq> []" "address_fields i r2 \<noteq> []" "route_fields i r3 \<noteq> []" "dns_fields r4 \<noteq> []"
  by (simp_all add: line_fields)

lemma line_kinds:
  "starts_with ''if='' (interface_line r1)"
  "starts_with ''addr='' (address_line i r2)" "\<not> starts_with ''if='' (address_line i r2)"
  "starts_with ''route='' (route_line i r3)" "\<not> starts_with ''if='' (route_line i r3)"
  "\<not> starts_with ''addr='' (route_line i r3)"
  "starts_with ''dns='' (dns_line r4)" "\<not> starts_with ''if='' (dns_line r4)"
  "\<not> starts_with ''addr='' (dns_line r4)" "\<not> starts_with ''route='' (dns_line r4)"
  by (simp_all add: starts_with_def interface_line_def address_line_def route_line_def dns_line_def)

lemma parse_line_records:
  "wf_interface r1 \<Longrightarrow> parse_line i (interface_line r1) s = Some (s\<lparr>ns_interfaces := ns_interfaces s @ [r1]\<rparr>)"
  "inet_exact i \<Longrightarrow> wf_address_record r2 \<Longrightarrow> length (ns_addresses s) < kMaximumAddresses \<Longrightarrow>
   parse_line i (address_line i r2) s = Some (s\<lparr>ns_addresses := ns_addresses s @ [r2]\<rparr>)"
  "inet_exact i \<Longrightarrow> wf_route r3 \<Longrightarrow> length (ns_routes s) < kMaximumRoutes \<Longrightarrow>
   parse_line i (route_line i r3) s = Some (s\<lparr>ns_routes := ns_routes s @ [r3]\<rparr>)"
  "wf_dns r4 \<Longrightarrow> length (ns_dns s) < 2 \<Longrightarrow> parse_line i (dns_line r4) s = Some (s\<lparr>ns_dns := ns_dns s @ [r4]\<rparr>)"
  by (simp_all add: parse_line_def line_kinds)
    (simp_all add: lines_of_fields Split_fields all_fields parse_interface_fields parse_address_fields
      parse_route_fields parse_dns_fields)

lemma parse_lines_append:
  "parse_lines i (a @ b) s = (case parse_lines i a s of None \<Rightarrow> None | Some s' \<Rightarrow> parse_lines i b s')"
  by (induction a arbitrary: s) (simp_all split: option.split)

lemma parse_interfaces:
  "list_all wf_interface rs \<Longrightarrow>
   parse_lines i (map interface_line rs) s = Some (s\<lparr>ns_interfaces := ns_interfaces s @ rs\<rparr>)"
  by (induction rs arbitrary: s) (simp_all add: parse_line_records)

lemma parse_addresses:
  "inet_exact i \<Longrightarrow> list_all wf_address_record rs \<Longrightarrow> length (ns_addresses s) + length rs \<le> kMaximumAddresses \<Longrightarrow>
   parse_lines i (map (address_line i) rs) s = Some (s\<lparr>ns_addresses := ns_addresses s @ rs\<rparr>)"
  by (induction rs arbitrary: s) (simp_all add: parse_line_records)

lemma parse_routes:
  "inet_exact i \<Longrightarrow> list_all wf_route rs \<Longrightarrow> length (ns_routes s) + length rs \<le> kMaximumRoutes \<Longrightarrow>
   parse_lines i (map (route_line i) rs) s = Some (s\<lparr>ns_routes := ns_routes s @ rs\<rparr>)"
  by (induction rs arbitrary: s) (simp_all add: parse_line_records)

lemma parse_dns_lines:
  "list_all wf_dns rs \<Longrightarrow> length (ns_dns s) + length rs \<le> 2 \<Longrightarrow>
   parse_lines i (map dns_line rs) s = Some (s\<lparr>ns_dns := ns_dns s @ rs\<rparr>)"
  by (induction rs arbitrary: s) (simp_all add: parse_line_records)

section \<open>Snapshots\<close>

definition wf_snapshot :: "NetworkSnapshot \<Rightarrow> bool" where
  "wf_snapshot s \<longleftrightarrow>
     (if ns_adapter_existed s
      then length (ns_adapter_guid s) = 16 \<and>
        length (ns_interfaces s) = 2 \<and> list_all wf_interface (ns_interfaces s) \<and>
        length (ns_addresses s) \<le> kMaximumAddresses \<and> list_all wf_address_record (ns_addresses s) \<and>
        length (ns_routes s) \<le> kMaximumRoutes \<and> list_all wf_route (ns_routes s) \<and>
        length (ns_dns s) = 2 \<and> list_all wf_dns (ns_dns s)
      else s = empty_snapshot)"

lemma record_lines_newline:
  "newline \<notin> set (interface_line r1)"
  "inet_exact i \<Longrightarrow> wf_address_record r2 \<Longrightarrow> newline \<notin> set (address_line i r2)"
  "inet_exact i \<Longrightarrow> wf_route r3 \<Longrightarrow> newline \<notin> set (route_line i r3)"
  "newline \<notin> set (dns_line r4)"
  by (simp_all add: lines_of_fields newline_join all_fields)

lemma snapshot_lines_newline:
  assumes "inet_exact i" and "wf_snapshot s"
  shows "\<forall>line\<in>set (snapshot_lines i s). newline \<notin> set line"
proof (cases "ns_adapter_existed s")
  case True
  with assms have "list_all wf_address_record (ns_addresses s)" "list_all wf_route (ns_routes s)"
    by (simp_all add: wf_snapshot_def)
  moreover have "newline \<notin> set (hex_string (ns_adapter_guid s))"
    using field_hex by (simp add: field_def)
  ultimately show ?thesis using True assms(1)
    by (auto simp: snapshot_lines_def kSnapshotMagic_def list_all_iff record_lines_newline)
qed (auto simp: snapshot_lines_def kSnapshotMagic_def)

lemma ParseSnapshot_Serialize:
  assumes i: "inet_exact i" and s: "wf_snapshot s"
  shows "ParseSnapshot i (Serialize i s) = Some s"
proof -
  have ne: "snapshot_lines i s \<noteq> []" by (simp add: snapshot_lines_def)
  have ls: "Split (butlast (Serialize i s)) newline = snapshot_lines i s"
    using snapshot_lines_newline [OF i s] ne by (simp add: Serialize_def butlast_lines Split_join)
  have nl: "Serialize i s \<noteq> []" "last (Serialize i s) = newline"
    using ne by (simp_all add: Serialize_def last_lines)
  have "ParseSnapshot i (Serialize i s) = parse_snapshot_lines i (snapshot_lines i s)"
    by (simp add: ParseSnapshot_def ls nl)
  also have "\<dots> = Some s"
  proof (cases "ns_adapter_existed s")
    case False
    with s show ?thesis
      by (simp add: parse_snapshot_lines_def wf_snapshot_def snapshot_lines_def empty_snapshot_def)
  next
    case True
    with s i show ?thesis
      by (cases s) (simp add: parse_snapshot_lines_def wf_snapshot_def snapshot_lines_def starts_with_def
          parse_lines_append parse_interfaces parse_addresses parse_routes parse_dns_lines empty_snapshot_def)
  qed
  finally show ?thesis .
qed

end
