(* ===== verification/Network_Backend.thy ===== *)
theory Network_Backend
  imports Network_Text
begin

unbundle bit_operations_syntax

text \<open>
  \<^verbatim>\<open>WindowsNetworkStateBackend\<close> of \<^verbatim>\<open>service_network_state.cpp\<close>: the capture of the owned adapter and its
  restoration through the IP helper.  A call is kept with its status in a trace, newest first; the
  environment, which sees the trace, gives the status and what the call writes.
\<close>

section \<open>The IP helper\<close>

text \<open>
  The rows the code reads and writes.  \<open>mi_rest\<close>, \<open>ma_rest\<close> and \<open>mr_rest\<close> are the members it leaves alone;
  a \<^verbatim>\<open>BOOLEAN\<close> is a byte.
\<close>

record MIB_IPINTERFACE_ROW =
  mi_luid :: u64
  mi_family :: u16
  mi_forwarding :: u8
  mi_weak_host_send :: u8
  mi_weak_host_receive :: u8
  mi_automatic_metric :: u8
  mi_metric :: u32
  mi_mtu :: u32
  mi_router_discovery :: u32
  mi_dad_transmits :: u32
  mi_managed :: u8
  mi_other :: u8
  mi_advertise_default_route :: u8
  mi_rest :: "u8 list"

record MIB_UNICASTIPADDRESS_ROW =
  ma_luid :: u64
  ma_address :: SOCKADDR_INET
  ma_prefix_origin :: u32
  ma_suffix_origin :: u32
  ma_valid_lifetime :: u32
  ma_preferred_lifetime :: u32
  ma_prefix_length :: u8
  ma_skip_as_source :: u8
  ma_dad_state :: u32
  ma_rest :: "u8 list"

record MIB_IPFORWARD_ROW2 =
  mr_luid :: u64
  mr_prefix :: SOCKADDR_INET
  mr_prefix_length :: u8
  mr_next_hop :: SOCKADDR_INET
  mr_site_prefix_length :: u8
  mr_valid_lifetime :: u32
  mr_preferred_lifetime :: u32
  mr_metric :: u32
  mr_protocol :: u32
  mr_loopback :: u8
  mr_autoconfigure :: u8
  mr_publish :: u8
  mr_immortal :: u8
  mr_origin :: u32
  mr_rest :: "u8 list"

record DNS_INTERFACE_SETTINGS =
  ds_flags :: u64
  ds_domain :: "u16 list option"
  ds_name_server :: "u16 list option"
  ds_search_list :: "u16 list option"
  ds_registration_enabled :: u32
  ds_register_adapter_name :: u32
  ds_enable_llmnr :: u32
  ds_query_adapter_name :: u32
  ds_profile_name_server :: "u16 list option"

record IP_ADAPTER_ADDRESSES =
  ad_luid :: u64
  ad_friendly_name :: "u16 list option"

datatype (plugins only: code size) ip_op =
    GetAdaptersAddresses u32
  | GetIpInterfaceEntry u64 u16
  | GetUnicastIpAddressTable
  | GetIpForwardTable2
  | GetInterfaceDnsSettings "u8 list" u64
  | DeleteIpForwardEntry2 MIB_IPFORWARD_ROW2
  | DeleteUnicastIpAddressEntry MIB_UNICASTIPADDRESS_ROW
  | SetInterfaceDnsSettings "u8 list" DNS_INTERFACE_SETTINGS
  | SetIpInterfaceEntry MIB_IPINTERFACE_ROW
  | CreateUnicastIpAddressEntry MIB_UNICASTIPADDRESS_ROW
  | CreateIpForwardEntry2 MIB_IPFORWARD_ROW2

type_synonym ip_trace = "(ip_op \<times> u32) list"

text \<open>
  The environment: the status of a call, the size \<^verbatim>\<open>GetAdaptersAddresses\<close> asks for, what the calls
  write, \<^verbatim>\<open>ConvertInterfaceLuidToGuid\<close>, and the rows \<^verbatim>\<open>InitializeUnicastIpAddressEntry\<close> and
  \<^verbatim>\<open>InitializeIpForwardEntry\<close> leave.
\<close>

record ip_env =
  ip_status :: "ip_trace \<Rightarrow> ip_op \<Rightarrow> u32"
  ip_size :: "ip_trace \<Rightarrow> u32"
  ip_adapters :: "ip_trace \<Rightarrow> IP_ADAPTER_ADDRESSES list"
  ip_guid :: "u64 \<Rightarrow> u8 list option"
  ip_interface :: "ip_trace \<Rightarrow> u64 \<Rightarrow> u16 \<Rightarrow> MIB_IPINTERFACE_ROW"
  ip_addresses :: "ip_trace \<Rightarrow> MIB_UNICASTIPADDRESS_ROW list"
  ip_routes :: "ip_trace \<Rightarrow> MIB_IPFORWARD_ROW2 list"
  ip_dns :: "ip_trace \<Rightarrow> u8 list \<Rightarrow> u64 \<Rightarrow> DNS_INTERFACE_SETTINGS"
  ip_address_init :: MIB_UNICASTIPADDRESS_ROW
  ip_route_init :: MIB_IPFORWARD_ROW2

definition NO_ERROR :: u32 where "NO_ERROR = 0"
definition ERROR_BUFFER_OVERFLOW :: u32 where "ERROR_BUFFER_OVERFLOW = 111"
definition ERROR_NOT_FOUND :: u32 where "ERROR_NOT_FOUND = 1168"
definition ERROR_OBJECT_ALREADY_EXISTS :: u32 where "ERROR_OBJECT_ALREADY_EXISTS = 5010"

type_synonym 'a ip_action = "(ip_trace, 'a) state"

definition ip_call :: "ip_env \<Rightarrow> ip_op \<Rightarrow> u32 ip_action" where
  "ip_call e op = State (\<lambda>t. let status = ip_status e t op in (status, (op, status) # t))"

text \<open>What the last call wrote.\<close>

definition ip_read :: "(ip_trace \<Rightarrow> 'a) \<Rightarrow> 'a ip_action" where
  "ip_read f = State (\<lambda>t. (f t, t))"

section \<open>The owned adapter\<close>

record OwnedAdapter =
  oa_luid :: u64
  oa_guid :: "u8 list"

definition owned_match :: "u8 list option \<Rightarrow> u8 list \<Rightarrow> IP_ADAPTER_ADDRESSES \<Rightarrow> bool" where
  "owned_match preferred guid adapter \<longleftrightarrow>
     preferred = Some guid \<or> ad_friendly_name adapter = Some kOwnedInterfaceName"

fun find_owned ::
  "ip_env \<Rightarrow> u8 list option \<Rightarrow> IP_ADAPTER_ADDRESSES list \<Rightarrow> OwnedAdapter option \<Rightarrow> string + OwnedAdapter option" where
  "find_owned e preferred [] found = Inr found"
| "find_owned e preferred (adapter # rest) found =
     (case ip_guid e (ad_luid adapter) of
        None \<Rightarrow> find_owned e preferred rest found
      | Some guid \<Rightarrow>
          if \<not> owned_match preferred guid adapter then find_owned e preferred rest found
          else if found \<noteq> None then Inl ''recovery_network_owner_ambiguous''
          else find_owned e preferred rest (Some \<lparr>oa_luid = ad_luid adapter, oa_guid = guid\<rparr>))"

definition FindOwnedAdapter :: "ip_env \<Rightarrow> u8 list option \<Rightarrow> (string + OwnedAdapter option) ip_action" where
  "FindOwnedAdapter e preferred = do {
     first \<leftarrow> ip_call e (GetAdaptersAddresses (16 * 1024));
     needed \<leftarrow> ip_read (ip_size e);
     status \<leftarrow> (if first = ERROR_BUFFER_OVERFLOW \<and> needed \<le> 1024 * 1024
                then ip_call e (GetAdaptersAddresses needed) else State_Monad.return first);
     if status \<noteq> NO_ERROR then State_Monad.return (Inl ''recovery_network_capture_failed'')
     else do {
       adapters \<leftarrow> ip_read (ip_adapters e);
       State_Monad.return (find_owned e preferred adapters None)
     }
   }"

section \<open>Capture\<close>

text \<open>The members of the rows the snapshot keeps.\<close>

definition interface_record :: "u16 \<Rightarrow> MIB_IPINTERFACE_ROW \<Rightarrow> InterfaceRecord" where
  "interface_record family row = \<lparr>ir_family = family, ir_forwarding = (mi_forwarding row \<noteq> 0),
     ir_weak_host_send = (mi_weak_host_send row \<noteq> 0), ir_weak_host_receive = (mi_weak_host_receive row \<noteq> 0),
     ir_automatic_metric = (mi_automatic_metric row \<noteq> 0), ir_metric = mi_metric row, ir_mtu = mi_mtu row,
     ir_router_discovery = mi_router_discovery row, ir_dad_transmits = mi_dad_transmits row,
     ir_managed = (mi_managed row \<noteq> 0), ir_other = (mi_other row \<noteq> 0),
     ir_advertise_default_route = (mi_advertise_default_route row \<noteq> 0)\<rparr>"

definition address_record :: "MIB_UNICASTIPADDRESS_ROW \<Rightarrow> AddressRecord" where
  "address_record row = \<lparr>ar_address = ma_address row, ar_prefix_origin = ma_prefix_origin row,
     ar_suffix_origin = ma_suffix_origin row, ar_valid_lifetime = ma_valid_lifetime row,
     ar_preferred_lifetime = ma_preferred_lifetime row, ar_prefix_length = ma_prefix_length row,
     ar_skip_as_source = (ma_skip_as_source row \<noteq> 0), ar_dad_state = ma_dad_state row\<rparr>"

definition route_record :: "MIB_IPFORWARD_ROW2 \<Rightarrow> RouteRecord" where
  "route_record row = \<lparr>ro_prefix = mr_prefix row, ro_prefix_length = mr_prefix_length row, ro_next_hop = mr_next_hop row,
     ro_site_prefix_length = ucast (mr_site_prefix_length row), ro_valid_lifetime = mr_valid_lifetime row,
     ro_preferred_lifetime = mr_preferred_lifetime row, ro_metric = mr_metric row, ro_protocol = mr_protocol row,
     ro_loopback = (mr_loopback row \<noteq> 0), ro_autoconfigure = (mr_autoconfigure row \<noteq> 0),
     ro_publish = (mr_publish row \<noteq> 0), ro_immortal = (mr_immortal row \<noteq> 0), ro_origin = mr_origin row\<rparr>"

text \<open>A wide string copied from a pointer, which may be null\<close>

definition wide_copy :: "u16 list option \<Rightarrow> u16 list" where
  "wide_copy p = (case p of None \<Rightarrow> [] | Some s \<Rightarrow> takeWhile (\<lambda>w. w \<noteq> 0) s)"

definition dns_record :: "bool \<Rightarrow> DNS_INTERFACE_SETTINGS \<Rightarrow> DnsRecord" where
  "dns_record ipv6 settings = \<lparr>dr_present = True, dr_ipv6 = ipv6, dr_flags = ds_flags settings,
     dr_registration_enabled = ds_registration_enabled settings,
     dr_register_adapter_name = ds_register_adapter_name settings, dr_enable_llmnr = ds_enable_llmnr settings,
     dr_query_adapter_name = ds_query_adapter_name settings, dr_domain = wide_copy (ds_domain settings),
     dr_name_server = wide_copy (ds_name_server settings), dr_search_list = wide_copy (ds_search_list settings),
     dr_profile_name_server = wide_copy (ds_profile_name_server settings)\<rparr>"

text \<open>\<^verbatim>\<open>GetIpInterfaceEntry\<close> is given the LUID and the family and fills the other members.\<close>

definition interface_entry :: "ip_env \<Rightarrow> u64 \<Rightarrow> u16 \<Rightarrow> MIB_IPINTERFACE_ROW option ip_action" where
  "interface_entry e luid family = do {
     status \<leftarrow> ip_call e (GetIpInterfaceEntry luid family);
     row \<leftarrow> ip_read (\<lambda>t. ip_interface e t luid family);
     State_Monad.return (if status \<noteq> NO_ERROR then None else Some (row\<lparr>mi_luid := luid, mi_family := family\<rparr>))
   }"

definition CaptureInterface :: "ip_env \<Rightarrow> u64 \<Rightarrow> u16 \<Rightarrow> InterfaceRecord option ip_action" where
  "CaptureInterface e luid family = do {
     row \<leftarrow> interface_entry e luid family;
     State_Monad.return (map_option (interface_record family) row)
   }"

definition DNS_SETTING_IPV6 :: u64 where "DNS_SETTING_IPV6 = 0x0001"

definition CaptureDns :: "ip_env \<Rightarrow> u8 list \<Rightarrow> bool \<Rightarrow> DnsRecord option ip_action" where
  "CaptureDns e guid ipv6 = do {
     let flags = (if ipv6 then DNS_SETTING_IPV6 else 0);
     status \<leftarrow> ip_call e (GetInterfaceDnsSettings guid flags);
     settings \<leftarrow> ip_read (\<lambda>t. ip_dns e t guid flags);
     let r = dns_record ipv6 settings;
     State_Monad.return
       (if status \<noteq> NO_ERROR then None
        else if length (dr_domain r) \<le> kMaximumDnsTextLength \<and> length (dr_name_server r) \<le> kMaximumDnsTextLength \<and>
          length (dr_search_list r) \<le> kMaximumDnsTextLength \<and> length (dr_profile_name_server r) \<le> kMaximumDnsTextLength
        then Some r else None)
   }"

text \<open>The loop over a table: the rows of the adapter, at most \<open>limit\<close> of them\<close>

fun collect_rows :: "('a \<Rightarrow> bool) \<Rightarrow> ('a \<Rightarrow> 'b) \<Rightarrow> nat \<Rightarrow> 'a list \<Rightarrow> 'b list \<Rightarrow> 'b list option" where
  "collect_rows own f limit [] acc = Some acc"
| "collect_rows own f limit (row # rows) acc =
     (if \<not> own row then collect_rows own f limit rows acc
      else if limit \<le> length acc then None
      else collect_rows own f limit rows (acc @ [f row]))"

text \<open>A loop that calls an operation for every element and stops at the first that fails\<close>

fun capture_all :: "('a \<Rightarrow> 'b option ip_action) \<Rightarrow> 'a list \<Rightarrow> 'b list option ip_action" where
  "capture_all f [] = State_Monad.return (Some [])"
| "capture_all f (x # xs) = do {
     r \<leftarrow> f x;
     case r of
       None \<Rightarrow> State_Monad.return None
     | Some y \<Rightarrow> do { ys \<leftarrow> capture_all f xs; State_Monad.return (map_option ((#) y) ys) }
   }"

text \<open>The rows of a table that are the adapter's\<close>

definition capture_table ::
  "ip_env \<Rightarrow> ip_op \<Rightarrow> (ip_trace \<Rightarrow> 'a list) \<Rightarrow> ('a \<Rightarrow> bool) \<Rightarrow> ('a \<Rightarrow> 'b) \<Rightarrow> nat \<Rightarrow> (string + 'b list) ip_action" where
  "capture_table e op table own f limit = do {
     status \<leftarrow> ip_call e op;
     rows \<leftarrow> ip_read table;
     State_Monad.return
       (if status \<noteq> NO_ERROR then Inl ''recovery_network_capture_failed''
        else case collect_rows own f limit rows [] of
          None \<Rightarrow> Inl ''recovery_network_snapshot_too_large''
        | Some records \<Rightarrow> Inr records)
   }"

definition capture_addresses :: "ip_env \<Rightarrow> u64 \<Rightarrow> (string + AddressRecord list) ip_action" where
  "capture_addresses e luid =
     capture_table e GetUnicastIpAddressTable (ip_addresses e) (\<lambda>row. ma_luid row = luid) address_record kMaximumAddresses"

definition capture_routes :: "ip_env \<Rightarrow> u64 \<Rightarrow> (string + RouteRecord list) ip_action" where
  "capture_routes e luid =
     capture_table e GetIpForwardTable2 (ip_routes e) (\<lambda>row. mr_luid row = luid) route_record kMaximumRoutes"

text \<open>\<^verbatim>\<open>CaptureSnapshot\<close> once the owned adapter is found\<close>

definition capture_adapter :: "ip_env \<Rightarrow> OwnedAdapter \<Rightarrow> (string + NetworkSnapshot) ip_action" where
  "capture_adapter e a = do {
     interfaces \<leftarrow> capture_all (CaptureInterface e (oa_luid a)) [AF_INET, AF_INET6];
     case interfaces of
       None \<Rightarrow> State_Monad.return (Inl ''recovery_network_capture_failed'')
     | Some ifs \<Rightarrow> do {
         addresses \<leftarrow> capture_addresses e (oa_luid a);
         case addresses of
           Inl error \<Rightarrow> State_Monad.return (Inl error)
         | Inr as \<Rightarrow> do {
             routes \<leftarrow> capture_routes e (oa_luid a);
             case routes of
               Inl error \<Rightarrow> State_Monad.return (Inl error)
             | Inr rs \<Rightarrow> do {
                 dns \<leftarrow> capture_all (CaptureDns e (oa_guid a)) [False, True];
                 State_Monad.return (case dns of
                   None \<Rightarrow> Inl ''recovery_network_capture_failed''
                 | Some ds \<Rightarrow> Inr \<lparr>ns_adapter_existed = True, ns_adapter_guid = oa_guid a, ns_interfaces = ifs,
                     ns_addresses = as, ns_routes = rs, ns_dns = ds\<rparr>)
               }
           }
       }
   }"

definition CaptureSnapshot :: "ip_env \<Rightarrow> (string + NetworkSnapshot) ip_action" where
  "CaptureSnapshot e = do {
     owner \<leftarrow> FindOwnedAdapter e None;
     case owner of
       Inl error \<Rightarrow> State_Monad.return (Inl error)
     | Inr None \<Rightarrow> State_Monad.return (Inr empty_snapshot)
     | Inr (Some adapter) \<Rightarrow> capture_adapter e adapter
   }"

definition Capture :: "ip_env \<Rightarrow> inet \<Rightarrow> (string + string) ip_action" where
  "Capture e i = do {
     owner \<leftarrow> FindOwnedAdapter e None;
     captured \<leftarrow> (case owner of
         Inl error \<Rightarrow> State_Monad.return (Inl error)
       | Inr None \<Rightarrow> State_Monad.return (Inr empty_snapshot)
       | Inr (Some _) \<Rightarrow> CaptureSnapshot e);
     State_Monad.return (case captured of
         Inl error \<Rightarrow> Inl error
       | Inr s \<Rightarrow>
           (let serialized = Serialize i s
            in if serialized = [] \<or> 64 * 1024 < length serialized then Inl ''recovery_network_snapshot_too_large''
               else Inr serialized))
   }"

section \<open>Restore\<close>

text \<open>A loop of calls that must all succeed\<close>

fun all_calls :: "('a \<Rightarrow> bool ip_action) \<Rightarrow> 'a list \<Rightarrow> bool ip_action" where
  "all_calls f [] = State_Monad.return True"
| "all_calls f (x # xs) = do { ok \<leftarrow> f x; if ok then all_calls f xs else State_Monad.return False }"

definition delete_row :: "ip_env \<Rightarrow> ip_op \<Rightarrow> bool ip_action" where
  "delete_row e op = do {
     status \<leftarrow> ip_call e op;
     State_Monad.return (status = NO_ERROR \<or> status = ERROR_NOT_FOUND)
   }"

definition DeleteOwnedRoutes :: "ip_env \<Rightarrow> u64 \<Rightarrow> bool ip_action" where
  "DeleteOwnedRoutes e luid = do {
     status \<leftarrow> ip_call e GetIpForwardTable2;
     rows \<leftarrow> ip_read (ip_routes e);
     if status \<noteq> NO_ERROR then State_Monad.return False
     else all_calls (\<lambda>row. if mr_luid row = luid then delete_row e (DeleteIpForwardEntry2 row)
                           else State_Monad.return True) rows
   }"

definition DeleteOwnedAddresses :: "ip_env \<Rightarrow> u64 \<Rightarrow> bool ip_action" where
  "DeleteOwnedAddresses e luid = do {
     status \<leftarrow> ip_call e GetUnicastIpAddressTable;
     rows \<leftarrow> ip_read (ip_addresses e);
     if status \<noteq> NO_ERROR then State_Monad.return False
     else all_calls (\<lambda>row. if ma_luid row = luid then delete_row e (DeleteUnicastIpAddressEntry row)
                           else State_Monad.return True) rows
   }"

text \<open>\<^verbatim>\<open>NAMESERVER\<close>, \<^verbatim>\<open>SEARCHLIST\<close>, \<^verbatim>\<open>DOMAIN\<close>, \<^verbatim>\<open>REGISTRATION_ENABLED\<close>, \<^verbatim>\<open>REGISTER_ADAPTER_NAME\<close>, \<^verbatim>\<open>ENABLE_LLMNR\<close>,
  \<^verbatim>\<open>QUERY_ADAPTER_NAME\<close> and \<^verbatim>\<open>PROFILE_NAMESERVER\<close>\<close>

definition kAppliedDnsSettings :: u64 where
  "kAppliedDnsSettings =
     0x0002 OR 0x0004 OR 0x0020 OR 0x0008 OR 0x0010 OR 0x0080 OR 0x0100 OR 0x0200"

text \<open>The pointers are \<^verbatim>\<open>c_str()\<close> of the texts: what is read through them ends at the first zero.\<close>

definition dns_settings :: "DnsRecord \<Rightarrow> DNS_INTERFACE_SETTINGS" where
  "dns_settings r = \<lparr>ds_flags = (if dr_ipv6 r then kAppliedDnsSettings OR DNS_SETTING_IPV6 else kAppliedDnsSettings),
     ds_domain = Some (wide_copy (Some (dr_domain r))), ds_name_server = Some (wide_copy (Some (dr_name_server r))),
     ds_search_list = Some (wide_copy (Some (dr_search_list r))), ds_registration_enabled = dr_registration_enabled r,
     ds_register_adapter_name = dr_register_adapter_name r, ds_enable_llmnr = dr_enable_llmnr r,
     ds_query_adapter_name = dr_query_adapter_name r,
     ds_profile_name_server = Some (wide_copy (Some (dr_profile_name_server r)))\<rparr>"

definition ApplyDns :: "ip_env \<Rightarrow> u8 list \<Rightarrow> DnsRecord \<Rightarrow> bool ip_action" where
  "ApplyDns e guid r = do {
     status \<leftarrow> ip_call e (SetInterfaceDnsSettings guid (dns_settings r));
     State_Monad.return (status = NO_ERROR)
   }"

definition empty_dns :: "bool \<Rightarrow> DnsRecord" where
  "empty_dns ipv6 = \<lparr>dr_present = True, dr_ipv6 = ipv6, dr_flags = 0, dr_registration_enabled = 0,
     dr_register_adapter_name = 0, dr_enable_llmnr = 0, dr_query_adapter_name = 0, dr_domain = [],
     dr_name_server = [], dr_search_list = [], dr_profile_name_server = []\<rparr>"

definition ClearDns :: "ip_env \<Rightarrow> u8 list \<Rightarrow> bool \<Rightarrow> bool ip_action" where
  "ClearDns e guid ipv6 = ApplyDns e guid (empty_dns ipv6)"

definition restored_interface :: "InterfaceRecord \<Rightarrow> MIB_IPINTERFACE_ROW \<Rightarrow> MIB_IPINTERFACE_ROW" where
  "restored_interface r row = row\<lparr>mi_forwarding := of_bool (ir_forwarding r),
     mi_weak_host_send := of_bool (ir_weak_host_send r), mi_weak_host_receive := of_bool (ir_weak_host_receive r),
     mi_automatic_metric := of_bool (ir_automatic_metric r), mi_metric := ir_metric r, mi_mtu := ir_mtu r,
     mi_router_discovery := ir_router_discovery r, mi_dad_transmits := ir_dad_transmits r,
     mi_managed := of_bool (ir_managed r), mi_other := of_bool (ir_other r),
     mi_advertise_default_route := of_bool (ir_advertise_default_route r)\<rparr>"

definition RestoreInterface :: "ip_env \<Rightarrow> u64 \<Rightarrow> InterfaceRecord \<Rightarrow> bool ip_action" where
  "RestoreInterface e luid r = do {
     entry \<leftarrow> interface_entry e luid (ir_family r);
     case entry of
       None \<Rightarrow> State_Monad.return False
     | Some row \<Rightarrow> do {
         status \<leftarrow> ip_call e (SetIpInterfaceEntry (restored_interface r row));
         State_Monad.return (status = NO_ERROR)
       }
   }"

definition create_row :: "ip_env \<Rightarrow> ip_op \<Rightarrow> bool ip_action" where
  "create_row e op = do {
     status \<leftarrow> ip_call e op;
     State_Monad.return (status = NO_ERROR \<or> status = ERROR_OBJECT_ALREADY_EXISTS)
   }"

definition restored_address :: "ip_env \<Rightarrow> u64 \<Rightarrow> AddressRecord \<Rightarrow> MIB_UNICASTIPADDRESS_ROW" where
  "restored_address e luid r = (ip_address_init e)\<lparr>ma_luid := luid, ma_address := ar_address r,
     ma_prefix_origin := ar_prefix_origin r, ma_suffix_origin := ar_suffix_origin r,
     ma_valid_lifetime := ar_valid_lifetime r, ma_preferred_lifetime := ar_preferred_lifetime r,
     ma_prefix_length := ar_prefix_length r, ma_skip_as_source := of_bool (ar_skip_as_source r),
     ma_dad_state := ar_dad_state r\<rparr>"

definition RestoreAddress :: "ip_env \<Rightarrow> u64 \<Rightarrow> AddressRecord \<Rightarrow> bool ip_action" where
  "RestoreAddress e luid r = create_row e (CreateUnicastIpAddressEntry (restored_address e luid r))"

definition restored_route :: "ip_env \<Rightarrow> u64 \<Rightarrow> RouteRecord \<Rightarrow> MIB_IPFORWARD_ROW2" where
  "restored_route e luid r = (ip_route_init e)\<lparr>mr_luid := luid, mr_prefix := ro_prefix r,
     mr_prefix_length := ro_prefix_length r, mr_next_hop := ro_next_hop r,
     mr_site_prefix_length := ucast (ro_site_prefix_length r), mr_valid_lifetime := ro_valid_lifetime r,
     mr_preferred_lifetime := ro_preferred_lifetime r, mr_metric := ro_metric r, mr_protocol := ro_protocol r,
     mr_loopback := of_bool (ro_loopback r), mr_autoconfigure := of_bool (ro_autoconfigure r),
     mr_publish := of_bool (ro_publish r), mr_immortal := of_bool (ro_immortal r), mr_origin := ro_origin r\<rparr>"

definition RestoreRoute :: "ip_env \<Rightarrow> u64 \<Rightarrow> RouteRecord \<Rightarrow> bool ip_action" where
  "RestoreRoute e luid r = create_row e (CreateIpForwardEntry2 (restored_route e luid r))"

text \<open>Calls in order, stopping at the first that fails\<close>

definition and_then :: "bool ip_action \<Rightarrow> bool ip_action \<Rightarrow> bool ip_action" where
  "and_then m n = do { ok \<leftarrow> m; if ok then n else State_Monad.return False }"

definition clear_adapter :: "ip_env \<Rightarrow> OwnedAdapter \<Rightarrow> bool ip_action" where
  "clear_adapter e adapter =
     and_then (DeleteOwnedRoutes e (oa_luid adapter)) (and_then (DeleteOwnedAddresses e (oa_luid adapter))
       (and_then (ClearDns e (oa_guid adapter) False) (ClearDns e (oa_guid adapter) True)))"

definition restore_records :: "ip_env \<Rightarrow> OwnedAdapter \<Rightarrow> NetworkSnapshot \<Rightarrow> bool ip_action" where
  "restore_records e adapter s =
     and_then (all_calls (RestoreInterface e (oa_luid adapter)) (ns_interfaces s))
       (and_then (all_calls (RestoreAddress e (oa_luid adapter)) (ns_addresses s))
         (and_then (all_calls (RestoreRoute e (oa_luid adapter)) (ns_routes s))
           (all_calls (ApplyDns e (oa_guid adapter)) (ns_dns s))))"

definition preferred_guid :: "NetworkSnapshot \<Rightarrow> u8 list option" where
  "preferred_guid s = (if ns_adapter_existed s then Some (ns_adapter_guid s) else None)"

definition Restore :: "ip_env \<Rightarrow> inet \<Rightarrow> string \<Rightarrow> string ip_action" where
  "Restore e i serialized =
     (case ParseSnapshot i serialized of
        None \<Rightarrow> State_Monad.return ''recovery_network_snapshot_invalid''
      | Some s \<Rightarrow> do {
          owner \<leftarrow> FindOwnedAdapter e (preferred_guid s);
          case owner of
            Inl error \<Rightarrow> State_Monad.return error
          | Inr None \<Rightarrow> State_Monad.return (if ns_adapter_existed s then ''recovery_network_owner_missing'' else [])
          | Inr (Some adapter) \<Rightarrow> do {
              cleared \<leftarrow> clear_adapter e adapter;
              if \<not> cleared then State_Monad.return ''recovery_network_restore_failed''
              else if \<not> ns_adapter_existed s then State_Monad.return []
              else do {
                restored \<leftarrow> restore_records e adapter s;
                State_Monad.return (if restored then [] else ''recovery_network_restore_failed'')
              }
            }
        })"

end
