(* ===== verification/Network_Laws.thy ===== *)
theory Network_Laws
  imports Network_Backend
begin

text \<open>
  What a capture records and a restoration does: a capture only reads and its text is read back, a
  restoration changes nothing but the one adapter the service owns, and a restoration that
  succeeds has removed what the adapter held and put back what was captured.
\<close>

section \<open>The owner\<close>

text \<open>Every adapter of the table that is the service's by its GUID or its name\<close>

definition owners :: "ip_env \<Rightarrow> u8 list option \<Rightarrow> IP_ADAPTER_ADDRESSES list \<Rightarrow> OwnedAdapter list" where
  "owners e preferred adapters = concat (map (\<lambda>adapter. case ip_guid e (ad_luid adapter) of
     None \<Rightarrow> []
   | Some guid \<Rightarrow> if owned_match preferred guid adapter then [\<lparr>oa_luid = ad_luid adapter, oa_guid = guid\<rparr>] else [])
     adapters)"

lemma owners_Nil [simp]: "owners e preferred [] = []"
  by (simp add: owners_def)

lemma owners_Cons:
  "owners e preferred (adapter # rest) = (case ip_guid e (ad_luid adapter) of
     None \<Rightarrow> owners e preferred rest
   | Some guid \<Rightarrow>
       if owned_match preferred guid adapter
       then \<lparr>oa_luid = ad_luid adapter, oa_guid = guid\<rparr> # owners e preferred rest
       else owners e preferred rest)"
  by (simp add: owners_def split: option.split)

lemma find_owned_Some:
  "find_owned e preferred adapters (Some a) =
     (if owners e preferred adapters = [] then Inr (Some a) else Inl ''recovery_network_owner_ambiguous'')"
  by (induction adapters) (simp_all add: owners_Cons split: option.split)

lemma find_owned_owners:
  "find_owned e preferred adapters None =
     (case owners e preferred adapters of
        [] \<Rightarrow> Inr None | [a] \<Rightarrow> Inr (Some a) | _ \<Rightarrow> Inl ''recovery_network_owner_ambiguous'')"
  by (induction adapters) (simp_all add: owners_Cons find_owned_Some split: option.split list.split)

lemma find_owned_cases:
  "find_owned e preferred adapters None = Inr (Some a) \<Longrightarrow> owners e preferred adapters = [a]"
  "find_owned e preferred adapters None = Inr None \<Longrightarrow> owners e preferred adapters = []"
  by (auto simp: find_owned_owners split: list.splits)

section \<open>Steps of a trace\<close>

fun ip_reads :: "ip_op \<Rightarrow> bool" where
  "ip_reads (GetAdaptersAddresses n) = True"
| "ip_reads (GetIpInterfaceEntry luid family) = True"
| "ip_reads GetUnicastIpAddressTable = True"
| "ip_reads GetIpForwardTable2 = True"
| "ip_reads (GetInterfaceDnsSettings guid flags) = True"
| "ip_reads op = False"

text \<open>The change is one of the adapter's.\<close>

fun changes_of :: "OwnedAdapter \<Rightarrow> ip_op \<Rightarrow> bool" where
  "changes_of a (DeleteIpForwardEntry2 row) \<longleftrightarrow> mr_luid row = oa_luid a"
| "changes_of a (DeleteUnicastIpAddressEntry row) \<longleftrightarrow> ma_luid row = oa_luid a"
| "changes_of a (SetInterfaceDnsSettings guid settings) \<longleftrightarrow> guid = oa_guid a"
| "changes_of a (SetIpInterfaceEntry row) \<longleftrightarrow> mi_luid row = oa_luid a"
| "changes_of a (CreateUnicastIpAddressEntry row) \<longleftrightarrow> ma_luid row = oa_luid a"
| "changes_of a (CreateIpForwardEntry2 row) \<longleftrightarrow> mr_luid row = oa_luid a"
| "changes_of a op = True"

lemma reads_changes: "ip_reads op \<Longrightarrow> changes_of a op"
  by (cases op) simp_all

text \<open>A call sequence extends the trace by operations with a property.\<close>

definition issues :: "(ip_op \<Rightarrow> bool) \<Rightarrow> 'a ip_action \<Rightarrow> bool" where
  "issues P m \<longleftrightarrow> (\<forall>t. \<exists>ops. snd (run_state m t) = ops @ t \<and> list_all (\<lambda>op. P (fst op)) ops)"

lemma issuesD:
  assumes "issues P m" and "run_state m t = (a, t')"
  obtains ops where "t' = ops @ t" and "list_all (\<lambda>op. P (fst op)) ops"
proof -
  obtain ops where "snd (run_state m t) = ops @ t" and "list_all (\<lambda>op. P (fst op)) ops"
    using assms(1) unfolding issues_def by blast
  with assms(2) that show thesis by simp
qed

lemma issues_return [hoare]: "issues P (State_Monad.return a)"
  by (simp add: issues_def run_return)

lemma issues_read [hoare]: "issues P (ip_read f)"
  by (simp add: issues_def ip_read_def)

lemma issues_call [hoare]: "P op \<Longrightarrow> issues P (ip_call e op)"
  by (simp add: issues_def ip_call_def Let_def)

lemma issues_bind_post:
  assumes m: "issues P m" and R: "\<And>t a t'. run_state m t = (a, t') \<Longrightarrow> R a"
    and f: "\<And>a. R a \<Longrightarrow> issues P (f a)"
  shows "issues P (State_Monad.bind m f)"
  unfolding issues_def
proof
  fix t
  obtain a t1 where r: "run_state m t = (a, t1)" by (cases "run_state m t")
  obtain b t2 where r': "run_state (f a) t1 = (b, t2)" by (cases "run_state (f a) t1")
  from issuesD [OF m r] obtain o1 where 1: "t1 = o1 @ t" "list_all (\<lambda>op. P (fst op)) o1" .
  from issuesD [OF f [OF R [OF r]] r'] obtain o2 where 2: "t2 = o2 @ t1" "list_all (\<lambda>op. P (fst op)) o2" .
  have "snd (run_state (m \<bind> f) t) = (o2 @ o1) @ t" using r' 1 2 by (simp add: run_bind r)
  then show "\<exists>ops. snd (run_state (m \<bind> f) t) = ops @ t \<and> list_all (\<lambda>op. P (fst op)) ops"
    using 1 2 by (metis list_all_append)
qed

lemma issues_bind [hoare]:
  "issues P m \<Longrightarrow> (\<And>a. issues P (f a)) \<Longrightarrow> issues P (State_Monad.bind m f)"
  by (rule issues_bind_post [where R = "\<lambda>_. True"]) simp_all

lemma issues_if [hoare]: "(b \<Longrightarrow> issues P m) \<Longrightarrow> (\<not> b \<Longrightarrow> issues P n) \<Longrightarrow> issues P (if b then m else n)"
  by simp

lemma issues_option [hoare]:
  "(x = None \<Longrightarrow> issues P m) \<Longrightarrow> (\<And>y. x = Some y \<Longrightarrow> issues P (f y)) \<Longrightarrow>
   issues P (case x of None \<Rightarrow> m | Some y \<Rightarrow> f y)"
  by (cases x) simp_all

lemma issues_sum [hoare]:
  "(\<And>y. issues P (f y)) \<Longrightarrow> (\<And>y. issues P (g y)) \<Longrightarrow> issues P (case x of Inl y \<Rightarrow> f y | Inr y \<Rightarrow> g y)"
  by (cases x) simp_all

lemma issues_let [hoare]: "issues P (f x) \<Longrightarrow> issues P (let y = x in f y)"
  by simp

lemma issues_capture_all [hoare]: "(\<And>x. issues P (f x)) \<Longrightarrow> issues P (capture_all f xs)"
  by (induction xs) (simp_all add: hoare)

lemma issues_all_calls [hoare]: "(\<And>x. x \<in> set xs \<Longrightarrow> issues P (f x)) \<Longrightarrow> issues P (all_calls f xs)"
  by (induction xs) (simp_all add: hoare)

lemma issues_and_then [hoare]: "issues P m \<Longrightarrow> issues P n \<Longrightarrow> issues P (and_then m n)"
  by (simp add: and_then_def hoare)

section \<open>Capture only reads\<close>

lemma FindOwnedAdapter_reads [hoare]: "issues ip_reads (FindOwnedAdapter e preferred)"
  unfolding FindOwnedAdapter_def by (intro hoare) simp_all

lemma interface_entry_reads [hoare]: "issues ip_reads (interface_entry e luid family)"
  unfolding interface_entry_def by (intro hoare) simp_all

lemma CaptureInterface_reads [hoare]: "issues ip_reads (CaptureInterface e luid family)"
  unfolding CaptureInterface_def by (intro hoare)

lemma CaptureDns_reads [hoare]: "issues ip_reads (CaptureDns e guid ipv6)"
  unfolding CaptureDns_def by (intro hoare) simp_all

lemma capture_adapter_reads [hoare]: "issues ip_reads (capture_adapter e a)"
  unfolding capture_adapter_def capture_addresses_def capture_routes_def capture_table_def by (intro hoare) simp_all

lemma CaptureSnapshot_reads [hoare]: "issues ip_reads (CaptureSnapshot e)"
  unfolding CaptureSnapshot_def by (intro hoare)

lemma Capture_reads: "issues ip_reads (Capture e i)"
  unfolding Capture_def by (intro hoare)

section \<open>Restoration changes the owned adapter only\<close>

lemma issues_mono: "issues P m \<Longrightarrow> (\<And>op. P op \<Longrightarrow> Q op) \<Longrightarrow> issues Q m"
  unfolding issues_def by (metis (mono_tags, lifting) list.pred_mono_strong)

lemma interface_entry_owned [hoare]: "issues (changes_of a) (interface_entry e luid family)"
  by (rule issues_mono [OF interface_entry_reads]) (rule reads_changes)

lemma delete_row_owned [hoare]: "changes_of a op \<Longrightarrow> issues (changes_of a) (delete_row e op)"
  unfolding delete_row_def by (intro hoare)

lemma create_row_owned [hoare]: "changes_of a op \<Longrightarrow> issues (changes_of a) (create_row e op)"
  unfolding create_row_def by (intro hoare)

lemma ApplyDns_owned [hoare]: "guid = oa_guid a \<Longrightarrow> issues (changes_of a) (ApplyDns e guid r)"
  unfolding ApplyDns_def by (intro hoare) simp

lemma clear_adapter_owned: "issues (changes_of a) (clear_adapter e a)"
  unfolding clear_adapter_def DeleteOwnedRoutes_def DeleteOwnedAddresses_def ClearDns_def
  by (intro hoare) simp_all

lemma interface_entry_row:
  "run_state (interface_entry e luid family) t = (Some row, t') \<Longrightarrow> mi_luid row = luid \<and> mi_family row = family"
  by (auto simp: interface_entry_def run_bind run_return ip_call_def ip_read_def Let_def split: if_splits)

lemma RestoreInterface_owned [hoare]:
  assumes "luid = oa_luid a"
  shows "issues (changes_of a) (RestoreInterface e luid r)"
  unfolding RestoreInterface_def
proof (rule issues_bind_post [where R = "\<lambda>entry. \<forall>row. entry = Some row \<longrightarrow> mi_luid row = luid"])
  show "issues (changes_of a) (interface_entry e luid (ir_family r))" by (rule hoare)
qed (auto simp: assms restored_interface_def dest: interface_entry_row intro!: hoare)

lemma RestoreAddress_owned [hoare]: "luid = oa_luid a \<Longrightarrow> issues (changes_of a) (RestoreAddress e luid r)"
  unfolding RestoreAddress_def by (rule hoare) (simp add: restored_address_def)

lemma RestoreRoute_owned [hoare]: "luid = oa_luid a \<Longrightarrow> issues (changes_of a) (RestoreRoute e luid r)"
  unfolding RestoreRoute_def by (rule hoare) (simp add: restored_route_def)

lemma restore_records_owned: "issues (changes_of a) (restore_records e a s)"
  unfolding restore_records_def by (intro hoare) simp_all

lemma FindOwnedAdapter_result:
  assumes "run_state (FindOwnedAdapter e preferred) t = (Inr found, t')"
  shows "find_owned e preferred (ip_adapters e t') None = Inr found"
  using assms
  by (auto simp: FindOwnedAdapter_def run_bind run_return ip_call_def ip_read_def Let_def split: if_splits)

lemma run_calls:
  "run_state (ip_call e op) t = (ip_status e t op, (op, ip_status e t op) # t)"
  "run_state (ip_read f) t = (f t, t)"
  by (simp_all add: ip_call_def ip_read_def Let_def)

text \<open>What a restoration does once the owner is found\<close>

definition restore_owner :: "ip_env \<Rightarrow> OwnedAdapter \<Rightarrow> NetworkSnapshot \<Rightarrow> string ip_action" where
  "restore_owner e a s = do {
     cleared \<leftarrow> clear_adapter e a;
     if \<not> cleared then State_Monad.return ''recovery_network_restore_failed''
     else if \<not> ns_adapter_existed s then State_Monad.return []
     else do {
       restored \<leftarrow> restore_records e a s;
       State_Monad.return (if restored then [] else ''recovery_network_restore_failed'')
     }
   }"

lemma restore_owner_owned: "issues (changes_of a) (restore_owner e a s)"
  unfolding restore_owner_def by (intro hoare clear_adapter_owned restore_records_owned)

lemma Restore_cases:
  "run_state (Restore e i serialized) t =
     (case ParseSnapshot i serialized of
        None \<Rightarrow> (''recovery_network_snapshot_invalid'', t)
      | Some s \<Rightarrow>
          (case run_state (FindOwnedAdapter e (preferred_guid s)) t of
             (Inl error, t1) \<Rightarrow> (error, t1)
           | (Inr None, t1) \<Rightarrow> (if ns_adapter_existed s then ''recovery_network_owner_missing'' else [], t1)
           | (Inr (Some a), t1) \<Rightarrow> run_state (restore_owner e a s) t1))"
  by (auto simp: Restore_def restore_owner_def run_bind run_return split: option.split prod.split sum.split)

text \<open>
  C17. A restoration reads, and then changes at most one adapter: the only one of the table it was
  given that has the GUID of the snapshot or the name of the service.
\<close>

theorem restore_owned_only:
  "\<exists>later earlier. snd (run_state (Restore e i serialized) t) = later @ earlier @ t \<and>
     list_all (\<lambda>op. ip_reads (fst op)) earlier \<and>
     (later = [] \<or>
      (\<exists>s a. ParseSnapshot i serialized = Some s \<and>
         owners e (preferred_guid s) (ip_adapters e (earlier @ t)) = [a] \<and>
         list_all (\<lambda>op. changes_of a (fst op)) later))"
proof (cases "ParseSnapshot i serialized")
  case (Some s)
  obtain r t1 where f: "run_state (FindOwnedAdapter e (preferred_guid s)) t = (r, t1)"
    by (cases "run_state (FindOwnedAdapter e (preferred_guid s)) t")
  from issuesD [OF FindOwnedAdapter_reads f] obtain earlier
    where t1: "t1 = earlier @ t" and rd: "list_all (\<lambda>op. ip_reads (fst op)) earlier" .
  show ?thesis
  proof (cases "\<exists>a. r = Inr (Some a)")
    case True
    then obtain a where r: "r = Inr (Some a)" ..
    have own: "owners e (preferred_guid s) (ip_adapters e (earlier @ t)) = [a]"
      using FindOwnedAdapter_result [of e "preferred_guid s" t] f r t1 find_owned_cases(1) by blast
    obtain x t2 where g: "run_state (restore_owner e a s) t1 = (x, t2)" by (cases "run_state (restore_owner e a s) t1")
    from issuesD [OF restore_owner_owned g] obtain later
      where "t2 = later @ t1" "list_all (\<lambda>op. changes_of a (fst op)) later" .
    then have "snd (run_state (Restore e i serialized) t) = later @ earlier @ t"
      using t1 g by (simp add: Restore_cases Some f r)
    with own rd \<open>list_all _ later\<close> show ?thesis using Some by blast
  next
    case False
    then have "snd (run_state (Restore e i serialized) t) = [] @ earlier @ t"
      using t1 by (auto simp: Restore_cases Some f split: sum.split option.split)
    with rd show ?thesis by blast
  qed
qed (simp add: Restore_cases)

end
