(* ===== verification/Network_Restored.thy ===== *)
theory Network_Restored
  imports Network_Laws
begin

text \<open>
  A restoration that succeeds: the changes it has made, in their order.
\<close>

section \<open>Changes in order\<close>

definition changes :: "ip_trace \<Rightarrow> ip_op list" where
  "changes ops = filter (\<lambda>op. \<not> ip_reads op) (map fst (rev ops))"

lemma changes_append [simp]: "changes (later @ earlier) = changes earlier @ changes later"
  by (simp add: changes_def)

lemma changes_Nil [simp]: "changes [] = []"
  by (simp add: changes_def)

lemma changes_reads: "list_all (\<lambda>op. ip_reads (fst op)) ops \<Longrightarrow> changes ops = []"
  by (auto simp: changes_def list_all_iff)

definition grew :: "ip_trace \<Rightarrow> ip_op list \<Rightarrow> ip_trace \<Rightarrow> bool" where
  "grew t es t' \<longleftrightarrow> (\<exists>ops. t' = ops @ t \<and> changes ops = es)"

lemma grew_refl [simp]: "grew t [] t"
  by (auto simp: grew_def)

lemma grew_trans: "grew t es t1 \<Longrightarrow> grew t1 es' t' \<Longrightarrow> grew t (es @ es') t'"
  by (fastforce simp: grew_def)

lemma grew_suffix: "grew t es t' \<Longrightarrow> suffix t t'"
  by (auto simp: grew_def suffix_def)

lemma grew_call: "grew t (if ip_reads op then [] else [op]) ((op, status) # t)"
  unfolding grew_def by (intro exI [of _ "[(op, status)]"]) (simp add: changes_def)

lemma grew_change: "\<not> ip_reads op \<Longrightarrow> grew t [op] ((op, status) # t)"
  using grew_call [of t op] by simp

lemma grew_read: "ip_reads op \<Longrightarrow> grew t [] ((op, status) # t)"
  using grew_call [of t op] by simp

lemma and_then_True:
  assumes "run_state (and_then m n) t = (True, t')"
  obtains t1 where "run_state m t = (True, t1)" and "run_state n t1 = (True, t')"
  using assms by (auto simp: and_then_def run_bind run_return split: prod.splits if_splits)

lemma all_calls_changes:
  assumes "\<And>x t t'. run_state (f x) t = (True, t') \<Longrightarrow> grew t (g x) t'"
  shows "run_state (all_calls f xs) t = (True, t') \<Longrightarrow> grew t (concat (map g xs)) t'"
proof (induction xs arbitrary: t)
  case (Cons x xs)
  then obtain t1 where "run_state (f x) t = (True, t1)" and "run_state (all_calls f xs) t1 = (True, t')"
    by (auto simp: run_bind run_return split: prod.splits if_splits)
  with Cons.IH assms have "grew t (g x) t1" and "grew t1 (concat (map g xs)) t'" by blast+
  then show ?case by (simp add: grew_trans)
qed (simp add: run_return)

section \<open>The calls\<close>

lemmas run_ip = run_bind run_return run_calls

lemma delete_row_changes:
  "run_state (delete_row e op) t = (True, t') \<Longrightarrow> \<not> ip_reads op \<Longrightarrow> grew t [op] t'"
  by (auto simp: delete_row_def run_ip intro: grew_change)

lemma create_row_changes:
  "run_state (create_row e op) t = (True, t') \<Longrightarrow> \<not> ip_reads op \<Longrightarrow> grew t [op] t'"
  by (auto simp: create_row_def run_ip intro: grew_change)

lemma ApplyDns_changes:
  "run_state (ApplyDns e guid r) t = (True, t') \<Longrightarrow> grew t [SetInterfaceDnsSettings guid (dns_settings r)] t'"
  by (auto simp: ApplyDns_def run_ip intro: grew_change)

lemma concat_filter: "concat (map (\<lambda>x. if P x then [f x] else []) xs) = map f (filter P xs)"
  by (induction xs) simp_all

text \<open>The table the deletion works on is the one the call returned.\<close>

lemma DeleteOwnedRoutes_changes:
  assumes "run_state (DeleteOwnedRoutes e luid) t = (True, t')"
  shows "grew t (map DeleteIpForwardEntry2
    (filter (\<lambda>row. mr_luid row = luid) (ip_routes e ((GetIpForwardTable2, NO_ERROR) # t)))) t'"
proof -
  let ?t = "(GetIpForwardTable2, NO_ERROR) # t"
  let ?f = "\<lambda>row. if mr_luid row = luid then delete_row e (DeleteIpForwardEntry2 row) else State_Monad.return True"
  have "run_state (all_calls ?f (ip_routes e ?t)) ?t = (True, t')"
    using assms by (auto simp: DeleteOwnedRoutes_def run_ip split: if_splits)
  then have "grew ?t (concat (map (\<lambda>row. if mr_luid row = luid then [DeleteIpForwardEntry2 row] else [])
      (ip_routes e ?t))) t'"
    by (rule all_calls_changes [rotated]) (auto simp: run_return dest: delete_row_changes split: if_splits)
  moreover have "grew t [] ?t" by (rule grew_read) simp
  ultimately show ?thesis using grew_trans by (fastforce simp: concat_filter)
qed

lemma DeleteOwnedAddresses_changes:
  assumes "run_state (DeleteOwnedAddresses e luid) t = (True, t')"
  shows "grew t (map DeleteUnicastIpAddressEntry
    (filter (\<lambda>row. ma_luid row = luid) (ip_addresses e ((GetUnicastIpAddressTable, NO_ERROR) # t)))) t'"
proof -
  let ?t = "(GetUnicastIpAddressTable, NO_ERROR) # t"
  let ?f = "\<lambda>row. if ma_luid row = luid then delete_row e (DeleteUnicastIpAddressEntry row) else State_Monad.return True"
  have "run_state (all_calls ?f (ip_addresses e ?t)) ?t = (True, t')"
    using assms by (auto simp: DeleteOwnedAddresses_def run_ip split: if_splits)
  then have "grew ?t (concat (map (\<lambda>row. if ma_luid row = luid then [DeleteUnicastIpAddressEntry row] else [])
      (ip_addresses e ?t))) t'"
    by (rule all_calls_changes [rotated]) (auto simp: run_return dest: delete_row_changes split: if_splits)
  moreover have "grew t [] ?t" by (rule grew_read) simp
  ultimately show ?thesis using grew_trans by (fastforce simp: concat_filter)
qed

lemma interface_record_restored:
  "mi_family row = ir_family r \<Longrightarrow> interface_record (mi_family row) (restored_interface r row) = r"
  by (cases r) (simp add: interface_record_def restored_interface_def)

lemma address_record_restored: "address_record (restored_address e luid r) = r"
  by (cases r) (simp add: address_record_def restored_address_def)

lemma route_record_restored:
  assumes "unat (ro_site_prefix_length r) \<le> 128"
  shows "route_record (restored_route e luid r) = r"
proof -
  have "ucast (ucast (ro_site_prefix_length r) :: u8) = ro_site_prefix_length r"
    using assms by (intro word_unat_eq_iff [THEN iffD2]) (simp add: unsigned_ucast_eq unsigned_take_bit_eq take_bit_nat_eq_self)
  then show ?thesis by (cases r) (simp add: route_record_def restored_route_def)
qed

lemma RestoreInterface_changes:
  assumes "run_state (RestoreInterface e luid r) t = (True, t')"
  shows "\<exists>row. grew t [SetIpInterfaceEntry row] t' \<and> mi_luid row = luid \<and> interface_record (mi_family row) row = r"
proof -
  obtain row t1 where row: "run_state (interface_entry e luid (ir_family r)) t = (Some row, t1)"
    and set: "t' = (SetIpInterfaceEntry (restored_interface r row), NO_ERROR) # t1"
    using assms by (auto simp: RestoreInterface_def run_ip split: prod.splits option.splits)
  have "grew t [] t1"
    using issuesD [OF interface_entry_reads row] changes_reads unfolding grew_def by metis
  moreover have "grew t1 [SetIpInterfaceEntry (restored_interface r row)] t'"
    unfolding set by (rule grew_change) simp
  ultimately have "grew t [SetIpInterfaceEntry (restored_interface r row)] t'" using grew_trans by fastforce
  moreover have "mi_luid (restored_interface r row) = luid" "mi_family (restored_interface r row) = mi_family row"
    using interface_entry_row [OF row] by (simp_all add: restored_interface_def)
  ultimately show ?thesis using interface_entry_row [OF row] interface_record_restored [of row r] by metis
qed

lemma RestoreInterfaces_changes:
  "run_state (all_calls (RestoreInterface e luid) rs) t = (True, t') \<Longrightarrow>
   \<exists>rows. grew t (map SetIpInterfaceEntry rows) t' \<and> list_all (\<lambda>row. mi_luid row = luid) rows \<and>
     map (\<lambda>row. interface_record (mi_family row) row) rows = rs"
proof (induction rs arbitrary: t)
  case (Cons r rs)
  then obtain t1 where r: "run_state (RestoreInterface e luid r) t = (True, t1)"
    and "run_state (all_calls (RestoreInterface e luid) rs) t1 = (True, t')"
    by (auto simp: run_ip split: prod.splits if_splits)
  from Cons.IH [OF this(2)] obtain rows where "grew t1 (map SetIpInterfaceEntry rows) t'"
    "list_all (\<lambda>row. mi_luid row = luid) rows" "map (\<lambda>row. interface_record (mi_family row) row) rows = rs" by blast
  moreover from RestoreInterface_changes [OF r] obtain row where "grew t [SetIpInterfaceEntry row] t1"
    "mi_luid row = luid" "interface_record (mi_family row) row = r" by blast
  ultimately show ?case using grew_trans [of t "[SetIpInterfaceEntry row]"] by (intro exI [of _ "row # rows"]) simp
qed (simp add: run_return)

section \<open>What is parsed\<close>

lemma parse_route_site: "parse_route i fs = Some r \<Longrightarrow> unat (ro_site_prefix_length r) \<le> 128"
  by (auto simp: parse_route_def parse_length_def unsigned_of_nat take_bit_nat_eq_self
      split: if_splits Option.bind_splits)

lemma parse_line_site:
  assumes "parse_line i line s = Some s'" and "list_all (\<lambda>r. unat (ro_site_prefix_length r) \<le> 128) (ns_routes s)"
  shows "list_all (\<lambda>r. unat (ro_site_prefix_length r) \<le> 128) (ns_routes s')"
  using assms by (auto simp: parse_line_def Let_def parse_route_site split: if_splits)

lemma parse_lines_site:
  "parse_lines i lines s = Some s' \<Longrightarrow> list_all (\<lambda>r. unat (ro_site_prefix_length r) \<le> 128) (ns_routes s) \<Longrightarrow>
   list_all (\<lambda>r. unat (ro_site_prefix_length r) \<le> 128) (ns_routes s')"
  by (induction lines arbitrary: s) (auto dest: parse_line_site split: option.splits)

lemma ParseSnapshot_site:
  assumes "ParseSnapshot i serialized = Some s"
  shows "list_all (\<lambda>r. unat (ro_site_prefix_length r) \<le> 128) (ns_routes s)"
  using assms parse_lines_site
  by (fastforce simp: ParseSnapshot_def parse_snapshot_lines_def empty_snapshot_def
      split: if_splits option.splits)

section \<open>A restoration that succeeds\<close>

lemma RestoreAddresses_changes:
  assumes "run_state (all_calls (RestoreAddress e luid) rs) t = (True, t')"
  shows "grew t (map (\<lambda>r. CreateUnicastIpAddressEntry (restored_address e luid r)) rs) t'"
proof -
  have "grew t (concat (map (\<lambda>r. [CreateUnicastIpAddressEntry (restored_address e luid r)]) rs)) t'"
    using assms by (rule all_calls_changes [rotated]) (auto simp: RestoreAddress_def dest: create_row_changes)
  then show ?thesis by simp
qed

lemma RestoreRoutes_changes:
  assumes "run_state (all_calls (RestoreRoute e luid) rs) t = (True, t')"
  shows "grew t (map (\<lambda>r. CreateIpForwardEntry2 (restored_route e luid r)) rs) t'"
proof -
  have "grew t (concat (map (\<lambda>r. [CreateIpForwardEntry2 (restored_route e luid r)]) rs)) t'"
    using assms by (rule all_calls_changes [rotated]) (auto simp: RestoreRoute_def dest: create_row_changes)
  then show ?thesis by simp
qed

lemma ApplyDns_all_changes:
  assumes "run_state (all_calls (ApplyDns e guid) rs) t = (True, t')"
  shows "grew t (map (\<lambda>r. SetInterfaceDnsSettings guid (dns_settings r)) rs) t'"
  using all_calls_changes [OF ApplyDns_changes assms] by simp

text \<open>The changes that remove what the adapter holds, and those that put the snapshot back\<close>

definition clearing :: "OwnedAdapter \<Rightarrow> MIB_IPFORWARD_ROW2 list \<Rightarrow> MIB_UNICASTIPADDRESS_ROW list \<Rightarrow> ip_op list" where
  "clearing a routes addresses =
     map DeleteIpForwardEntry2 (filter (\<lambda>row. mr_luid row = oa_luid a) routes) @
     map DeleteUnicastIpAddressEntry (filter (\<lambda>row. ma_luid row = oa_luid a) addresses) @
     [SetInterfaceDnsSettings (oa_guid a) (dns_settings (empty_dns False)),
      SetInterfaceDnsSettings (oa_guid a) (dns_settings (empty_dns True))]"

definition puts_back :: "OwnedAdapter \<Rightarrow> NetworkSnapshot \<Rightarrow> ip_op list \<Rightarrow> bool" where
  "puts_back a s ops \<longleftrightarrow> (\<exists>interfaces addresses routes.
     ops = map SetIpInterfaceEntry interfaces @ map CreateUnicastIpAddressEntry addresses @
       map CreateIpForwardEntry2 routes @ map (\<lambda>r. SetInterfaceDnsSettings (oa_guid a) (dns_settings r)) (ns_dns s) \<and>
     map (\<lambda>row. interface_record (mi_family row) row) interfaces = ns_interfaces s \<and>
     map address_record addresses = ns_addresses s \<and> map route_record routes = ns_routes s)"

lemma clear_adapter_changes:
  assumes "run_state (clear_adapter e a) t = (True, t')"
  shows "\<exists>t2. suffix t t2 \<and> suffix t2 t' \<and>
     grew t (clearing a (ip_routes e ((GetIpForwardTable2, NO_ERROR) # t))
       (ip_addresses e ((GetUnicastIpAddressTable, NO_ERROR) # t2))) t'"
proof -
  from assms obtain t2 t3 t4 where 1: "run_state (DeleteOwnedRoutes e (oa_luid a)) t = (True, t2)"
    and 2: "run_state (DeleteOwnedAddresses e (oa_luid a)) t2 = (True, t3)"
    and 3: "run_state (ClearDns e (oa_guid a) False) t3 = (True, t4)"
    and 4: "run_state (ClearDns e (oa_guid a) True) t4 = (True, t')"
    unfolding clear_adapter_def by (elim and_then_True)
  note g = DeleteOwnedRoutes_changes [OF 1] DeleteOwnedAddresses_changes [OF 2]
    ApplyDns_changes [OF 3 [unfolded ClearDns_def]] ApplyDns_changes [OF 4 [unfolded ClearDns_def]]
  from grew_trans [OF g(1) grew_trans [OF g(2) grew_trans [OF g(3) g(4)]]]
  have "grew t (clearing a (ip_routes e ((GetIpForwardTable2, NO_ERROR) # t))
      (ip_addresses e ((GetUnicastIpAddressTable, NO_ERROR) # t2))) t'"
    by (simp add: clearing_def)
  moreover have "suffix t t2" "suffix t2 t'"
    using grew_suffix [OF g(1)] grew_suffix [OF grew_trans [OF g(2) grew_trans [OF g(3) g(4)]]] by auto
  ultimately show ?thesis by blast
qed

lemma restore_records_changes:
  assumes "run_state (restore_records e a s) t = (True, t')"
    and "list_all (\<lambda>r. unat (ro_site_prefix_length r) \<le> 128) (ns_routes s)"
  shows "\<exists>es. grew t es t' \<and> puts_back a s es"
proof -
  from assms(1) obtain t2 t3 t4
    where 1: "run_state (all_calls (RestoreInterface e (oa_luid a)) (ns_interfaces s)) t = (True, t2)"
    and 2: "run_state (all_calls (RestoreAddress e (oa_luid a)) (ns_addresses s)) t2 = (True, t3)"
    and 3: "run_state (all_calls (RestoreRoute e (oa_luid a)) (ns_routes s)) t3 = (True, t4)"
    and 4: "run_state (all_calls (ApplyDns e (oa_guid a)) (ns_dns s)) t4 = (True, t')"
    unfolding restore_records_def by (elim and_then_True)
  from RestoreInterfaces_changes [OF 1] obtain rows where 5: "grew t (map SetIpInterfaceEntry rows) t2"
    and 6: "map (\<lambda>row. interface_record (mi_family row) row) rows = ns_interfaces s" by blast
  let ?addresses = "map (restored_address e (oa_luid a)) (ns_addresses s)"
  let ?routes = "map (restored_route e (oa_luid a)) (ns_routes s)"
  let ?ops = "map SetIpInterfaceEntry rows @ map CreateUnicastIpAddressEntry ?addresses @
    map CreateIpForwardEntry2 ?routes @ map (\<lambda>r. SetInterfaceDnsSettings (oa_guid a) (dns_settings r)) (ns_dns s)"
  have "grew t ?ops t'"
    using grew_trans [OF 5 grew_trans [OF RestoreAddresses_changes [OF 2]
      grew_trans [OF RestoreRoutes_changes [OF 3] ApplyDns_all_changes [OF 4]]]] by (simp add: o_def)
  moreover have "map route_record ?routes = ns_routes s" "map address_record ?addresses = ns_addresses s"
    using assms(2) by (simp_all add: list_all_iff route_record_restored address_record_restored map_idI)
  ultimately show ?thesis using 6 unfolding puts_back_def by blast
qed

definition adapter_restored :: "ip_env \<Rightarrow> OwnedAdapter \<Rightarrow> NetworkSnapshot \<Rightarrow> ip_trace \<Rightarrow> ip_trace \<Rightarrow> bool" where
  "adapter_restored e a s t t' \<longleftrightarrow> (\<exists>t2 es. suffix t t2 \<and> suffix t2 t' \<and>
     grew t (clearing a (ip_routes e ((GetIpForwardTable2, NO_ERROR) # t))
       (ip_addresses e ((GetUnicastIpAddressTable, NO_ERROR) # t2)) @ es) t' \<and>
     (if ns_adapter_existed s then puts_back a s es else es = []))"

lemma restore_owner_changes:
  assumes "run_state (restore_owner e a s) t = ([], t')"
    and "list_all (\<lambda>r. unat (ro_site_prefix_length r) \<le> 128) (ns_routes s)"
  shows "adapter_restored e a s t t'"
proof -
  from assms obtain t3 where c: "run_state (clear_adapter e a) t = (True, t3)"
    and "\<exists>es. grew t3 es t' \<and> (if ns_adapter_existed s then puts_back a s es else es = [])"
    using restore_records_changes [OF _ assms(2)]
    by (fastforce simp: restore_owner_def run_ip split: prod.splits if_splits)
  then obtain es where g3: "grew t3 es t'"
    and es: "if ns_adapter_existed s then puts_back a s es else es = []" by blast
  from clear_adapter_changes [OF c] obtain t2 where "suffix t t2" "suffix t2 t3" and
    g2: "grew t (clearing a (ip_routes e ((GetIpForwardTable2, NO_ERROR) # t))
      (ip_addresses e ((GetUnicastIpAddressTable, NO_ERROR) # t2))) t3" by blast
  moreover from this have "suffix t2 t'" using grew_suffix [OF g3] suffix_order.order_trans by blast
  ultimately show ?thesis using es grew_trans [OF g2 g3] unfolding adapter_restored_def by blast
qed

lemma FindOwnedAdapter_error: "run_state (FindOwnedAdapter e preferred) t \<noteq> (Inl [], t1)"
  by (auto simp: FindOwnedAdapter_def run_ip find_owned_owners split: if_splits list.splits)

end
