(* ===== verification/Network_Captured.thy ===== *)
theory Network_Captured
  imports Network_Restored Recovery
begin

text \<open>
  A capture that succeeds: what its text holds, and that a restoration reads it; and what a
  restoration that succeeds has done.
\<close>

section \<open>The tables\<close>

lemma collect_rows_exact:
  "collect_rows own f limit rows acc =
     (if length acc + length (filter own rows) \<le> limit \<or> filter own rows = []
      then Some (acc @ map f (filter own rows)) else None)"
  by (induction rows arbitrary: acc) auto

text \<open>
  What is relied on of the IP helper: the rows of its tables hold addresses of one of the two families
  with neither port nor flow information, prefix lengths of at most 128 bits, and a next hop of
  the family of its route; and a GUID has sixteen bytes.
\<close>

definition rows_valid :: "ip_env \<Rightarrow> bool" where
  "rows_valid e \<longleftrightarrow>
     (\<forall>t. list_all (\<lambda>row. wf_address_record (address_record row)) (ip_addresses e t) \<and>
        list_all (\<lambda>row. wf_route (route_record row)) (ip_routes e t)) \<and>
     (\<forall>luid guid. ip_guid e luid = Some guid \<longrightarrow> length guid = 16)"

lemma dns_text_copy: "length (wide_copy p) \<le> kMaximumDnsTextLength \<Longrightarrow> dns_text (wide_copy p)"
  by (auto simp: dns_text_def wide_copy_def split: option.splits dest: set_takeWhileD)

lemma owners_guid: "rows_valid e \<Longrightarrow> a \<in> set (owners e preferred adapters) \<Longrightarrow> length (oa_guid a) = 16"
  by (induction adapters) (auto simp: owners_Cons rows_valid_def split: option.splits if_splits)

section \<open>The records\<close>

lemma CaptureInterface_result:
  assumes "run_state (CaptureInterface e luid family) t = (Some r, t')"
  shows "r = interface_record family (ip_interface e t' luid family)"
  using assms by (auto simp: CaptureInterface_def interface_entry_def run_ip interface_record_def split: if_splits)

lemma CaptureDns_result:
  assumes "run_state (CaptureDns e guid ipv6) t = (Some r, t')"
  shows "r = dns_record ipv6 (ip_dns e t' guid (if ipv6 then DNS_SETTING_IPV6 else 0)) \<and> wf_dns r"
  using assms by (auto simp: CaptureDns_def run_ip Let_def wf_dns_def dns_record_def dns_text_copy split: if_splits)

lemma capture_two:
  assumes "run_state (capture_all f [x, y]) t = (Some rs, t')"
  obtains r1 t1 r2 where "run_state (f x) t = (Some r1, t1)" and "run_state (f y) t1 = (Some r2, t')" and "rs = [r1, r2]"
  using assms by (auto simp: run_ip split: prod.splits option.splits)

text \<open>
  The snapshot of the adapter \<open>a\<close>: both of its interfaces, every address and every route of the
  tables that are its own, in their order, and both of its DNS settings.
\<close>

definition captures :: "ip_env \<Rightarrow> OwnedAdapter \<Rightarrow> NetworkSnapshot \<Rightarrow> bool" where
  "captures e a s \<longleftrightarrow> ns_adapter_existed s \<and> ns_adapter_guid s = oa_guid a \<and>
     (\<exists>t4 t6. ns_interfaces s = [interface_record AF_INET (ip_interface e t4 (oa_luid a) AF_INET),
        interface_record AF_INET6 (ip_interface e t6 (oa_luid a) AF_INET6)]) \<and>
     (\<exists>t. ns_addresses s = map address_record
        (filter (\<lambda>row. ma_luid row = oa_luid a) (ip_addresses e ((GetUnicastIpAddressTable, NO_ERROR) # t)))) \<and>
     (\<exists>t. ns_routes s = map route_record
        (filter (\<lambda>row. mr_luid row = oa_luid a) (ip_routes e ((GetIpForwardTable2, NO_ERROR) # t)))) \<and>
     (\<exists>t4 t6. ns_dns s = [dns_record False (ip_dns e t4 (oa_guid a) 0),
        dns_record True (ip_dns e t6 (oa_guid a) DNS_SETTING_IPV6)])"

lemma capture_table_result:
  assumes "run_state (capture_table e op table own f limit) t = (Inr records, t')"
  shows "t' = (op, NO_ERROR) # t \<and> records = map f (filter own (table t')) \<and> length records \<le> limit"
  using assms by (auto simp: capture_table_def run_ip collect_rows_exact split: if_splits)

lemma capture_adapter_result:
  assumes "run_state (capture_adapter e a) t = (Inr s, t')"
  shows "captures e a s \<and> length (ns_addresses s) \<le> kMaximumAddresses \<and> length (ns_routes s) \<le> kMaximumRoutes \<and>
    list_all wf_dns (ns_dns s)"
proof -
  from assms obtain ifs t1 as t2 rs t3 ds
    where 1: "run_state (capture_all (CaptureInterface e (oa_luid a)) [AF_INET, AF_INET6]) t = (Some ifs, t1)"
    and 2: "run_state (capture_addresses e (oa_luid a)) t1 = (Inr as, t2)"
    and 3: "run_state (capture_routes e (oa_luid a)) t2 = (Inr rs, t3)"
    and 4: "run_state (capture_all (CaptureDns e (oa_guid a)) [False, True]) t3 = (Some ds, t')"
    and s: "s = \<lparr>ns_adapter_existed = True, ns_adapter_guid = oa_guid a, ns_interfaces = ifs,
      ns_addresses = as, ns_routes = rs, ns_dns = ds\<rparr>"
    by (auto simp: capture_adapter_def run_bind run_return simp del: capture_all.simps
        split: prod.splits option.splits sum.splits)
  obtain r4 u4 r6 where i: "run_state (CaptureInterface e (oa_luid a) AF_INET) t = (Some r4, u4)"
    "run_state (CaptureInterface e (oa_luid a) AF_INET6) u4 = (Some r6, t1)" "ifs = [r4, r6]"
    using 1 by (rule capture_two)
  obtain d4 v4 d6 where d: "run_state (CaptureDns e (oa_guid a) False) t3 = (Some d4, v4)"
    "run_state (CaptureDns e (oa_guid a) True) v4 = (Some d6, t')" "ds = [d4, d6]"
    using 4 by (rule capture_two)
  note tables = 2 [unfolded capture_addresses_def, THEN capture_table_result]
    3 [unfolded capture_routes_def, THEN capture_table_result]
  have "\<exists>t4 t6. ifs = [interface_record AF_INET (ip_interface e t4 (oa_luid a) AF_INET),
      interface_record AF_INET6 (ip_interface e t6 (oa_luid a) AF_INET6)]"
    using i CaptureInterface_result by blast
  moreover have "\<exists>t4 t6. ds = [dns_record False (ip_dns e t4 (oa_guid a) 0),
      dns_record True (ip_dns e t6 (oa_guid a) DNS_SETTING_IPV6)]"
    using d CaptureDns_result [OF d(1)] CaptureDns_result [OF d(2)] by auto
  moreover have "list_all wf_dns ds" using d CaptureDns_result by simp
  ultimately show ?thesis using tables unfolding s captures_def by auto
qed

lemma CaptureSnapshot_result:
  assumes "run_state (CaptureSnapshot e) t = (Inr s, t')"
  shows "\<exists>t1. (owners e None (ip_adapters e t1) = [] \<and> s = empty_snapshot) \<or>
     (\<exists>a. owners e None (ip_adapters e t1) = [a] \<and> captures e a s \<and>
        length (ns_addresses s) \<le> kMaximumAddresses \<and> length (ns_routes s) \<le> kMaximumRoutes \<and>
        list_all wf_dns (ns_dns s))"
proof -
  obtain r t1 where f: "run_state (FindOwnedAdapter e None) t = (r, t1)"
    by (cases "run_state (FindOwnedAdapter e None) t")
  note run = assms [unfolded CaptureSnapshot_def run_bind f prod.case]
  show ?thesis
  proof (cases r)
    case (Inl error)
    with run show ?thesis by (simp add: run_return)
  next
    case (Inr found)
    note owner = FindOwnedAdapter_result [OF f [unfolded Inr]]
    show ?thesis
    proof (cases found)
      case None
      with run owner find_owned_cases(2) show ?thesis by (fastforce simp: Inr run_return)
    next
      case (Some a)
      with run have "run_state (capture_adapter e a) t1 = (Inr s, t')" by (simp add: Inr)
      from capture_adapter_result [OF this] show ?thesis using owner find_owned_cases(1) Some by blast
    qed
  qed
qed

lemma captures_wf:
  assumes "rows_valid e" and "captures e a s" and "a \<in> set (owners e preferred adapters)"
    and "length (ns_addresses s) \<le> kMaximumAddresses" and "length (ns_routes s) \<le> kMaximumRoutes"
    and "list_all wf_dns (ns_dns s)"
  shows "wf_snapshot s"
proof -
  have "length (ns_adapter_guid s) = 16" using assms(2) owners_guid [OF assms(1,3)] by (simp add: captures_def)
  moreover have "list_all wf_address_record (ns_addresses s)" "list_all wf_route (ns_routes s)"
    using assms(1,2) by (auto simp: captures_def rows_valid_def list_all_iff)
  moreover have "length (ns_interfaces s) = 2" "list_all wf_interface (ns_interfaces s)" "length (ns_dns s) = 2"
    using assms(2) by (auto simp: captures_def wf_interface_def interface_record_def)
  ultimately show ?thesis using assms(2,4-6) by (simp add: wf_snapshot_def captures_def)
qed

section \<open>The capture\<close>

lemma Capture_result:
  assumes "run_state (Capture e i) t = (Inr serialized, t')"
  shows "\<exists>s t1. serialized = Serialize i s \<and> serialized \<noteq> [] \<and> length serialized \<le> kMaximumNetworkSnapshotSize \<and>
     (owners e None (ip_adapters e t1) = [] \<and> s = empty_snapshot \<or>
      (\<exists>a. owners e None (ip_adapters e t1) = [a] \<and> captures e a s \<and>
        length (ns_addresses s) \<le> kMaximumAddresses \<and> length (ns_routes s) \<le> kMaximumRoutes \<and>
        list_all wf_dns (ns_dns s)))"
proof -
  obtain r t1 where f: "run_state (FindOwnedAdapter e None) t = (r, t1)"
    by (cases "run_state (FindOwnedAdapter e None) t")
  define captured where "captured = (case r of Inl error \<Rightarrow> State_Monad.return (Inl error)
    | Inr None \<Rightarrow> State_Monad.return (Inr empty_snapshot) | Inr (Some _) \<Rightarrow> CaptureSnapshot e)"
  obtain s t2 where c: "run_state captured t1 = (Inr s, t2)" and
    ser: "serialized = Serialize i s" "serialized \<noteq> []" "length serialized \<le> kMaximumNetworkSnapshotSize"
    using assms by (auto simp: Capture_def run_bind f captured_def [symmetric] run_return Let_def
        kMaximumNetworkSnapshotSize_def split: prod.splits sum.splits if_splits)
  consider "run_state (CaptureSnapshot e) t1 = (Inr s, t2)" | "r = Inr None" "s = empty_snapshot"
    using c by (auto simp: captured_def run_return split: sum.splits option.splits)
  then show ?thesis
  proof cases
    case 1
    from CaptureSnapshot_result [OF this] show ?thesis using ser by blast
  next
    case 2
    from FindOwnedAdapter_result [OF f [unfolded 2(1)]] have "owners e None (ip_adapters e t1) = []"
      by (rule find_owned_cases(2))
    with 2(2) ser show ?thesis by blast
  qed
qed

lemma Capture_grew: "run_state (Capture e i) t = (r, t') \<Longrightarrow> grew t [] t'"
  using issuesD [OF Capture_reads] changes_reads unfolding grew_def by metis

lemma empty_snapshot_wf: "wf_snapshot empty_snapshot"
  by (simp add: wf_snapshot_def empty_snapshot_def)

text \<open>
  C18. A capture changes nothing, and a text it returns is one the journal takes and a restoration reads:
  it is parsed to the snapshot of the one adapter the service owns, with all of its interfaces,
  addresses, routes and DNS settings, or to the empty snapshot where the service owns none.
\<close>

theorem capture_restorable:
  assumes "inet_exact i" and "rows_valid e" and run: "run_state (Capture e i) t = (Inr serialized, t')"
  shows "serialized \<noteq> [] \<and> length serialized \<le> kMaximumNetworkSnapshotSize \<and> grew t [] t' \<and>
    (\<exists>s t1. ParseSnapshot i serialized = Some s \<and>
       (owners e None (ip_adapters e t1) = [] \<and> s = empty_snapshot \<or>
        (\<exists>a. owners e None (ip_adapters e t1) = [a] \<and> captures e a s)))"
proof -
  obtain s t1 where s: "serialized = Serialize i s" "serialized \<noteq> []"
    "length serialized \<le> kMaximumNetworkSnapshotSize"
    and cases: "owners e None (ip_adapters e t1) = [] \<and> s = empty_snapshot \<or>
      (\<exists>a. owners e None (ip_adapters e t1) = [a] \<and> captures e a s \<and>
        length (ns_addresses s) \<le> kMaximumAddresses \<and> length (ns_routes s) \<le> kMaximumRoutes \<and>
        list_all wf_dns (ns_dns s))"
    using Capture_result [OF run] by blast
  have "wf_snapshot s"
    using cases captures_wf [OF assms(2)] empty_snapshot_wf by (metis list.set_intros(1))
  then have "ParseSnapshot i serialized = Some s" using ParseSnapshot_Serialize assms(1) s(1) by blast
  with s(2,3) cases Capture_grew [OF run] show ?thesis by blast
qed


section \<open>An adapter with an address and a route\<close>

definition hex_inet :: inet where
  "hex_inet = \<lparr>inet_ntop = (\<lambda>v6 bytes. Some (hex_string bytes)), inet_pton = (\<lambda>v6 shown. Some (hex_bytes shown))\<rparr>"

lemma hex_inet_exact: "inet_exact hex_inet"
  using field_hex hex_free [OF hex_string_lower, of nul]
  by (simp add: inet_exact_def hex_inet_def is_lower_hex_def)

definition sample_address :: SOCKADDR_INET where
  "sample_address = \<lparr>si_family = AF_INET, si_port = 0, si_flowinfo = 0, si_addr = [10, 0, 0, 2], si_scope_id = 0\<rparr>"

definition sample_address_row :: "u64 \<Rightarrow> MIB_UNICASTIPADDRESS_ROW" where
  "sample_address_row luid = \<lparr>ma_luid = luid, ma_address = sample_address, ma_prefix_origin = 1, ma_suffix_origin = 1,
     ma_valid_lifetime = 60, ma_preferred_lifetime = 60, ma_prefix_length = 24, ma_skip_as_source = 0, ma_dad_state = 4,
     ma_rest = []\<rparr>"

definition sample_route_row :: "u64 \<Rightarrow> MIB_IPFORWARD_ROW2" where
  "sample_route_row luid = \<lparr>mr_luid = luid, mr_prefix = sample_address, mr_prefix_length = 24, mr_next_hop = sample_address,
     mr_site_prefix_length = 0, mr_valid_lifetime = 60, mr_preferred_lifetime = 60, mr_metric = 5, mr_protocol = 3,
     mr_loopback = 0, mr_autoconfigure = 0, mr_publish = 0, mr_immortal = 1, mr_origin = 0, mr_rest = []\<rparr>"

definition sample_interface_row :: MIB_IPINTERFACE_ROW where
  "sample_interface_row = \<lparr>mi_luid = 0, mi_family = 0, mi_forwarding = 1, mi_weak_host_send = 0, mi_weak_host_receive = 0,
     mi_automatic_metric = 0, mi_metric = 5, mi_mtu = 9, mi_router_discovery = 2, mi_dad_transmits = 1, mi_managed = 0,
     mi_other = 0, mi_advertise_default_route = 0, mi_rest = []\<rparr>"

definition sample_dns :: DNS_INTERFACE_SETTINGS where
  "sample_dns = \<lparr>ds_flags = 2, ds_domain = None, ds_name_server = Some [49, 46, 49], ds_search_list = None,
     ds_registration_enabled = 0, ds_register_adapter_name = 0, ds_enable_llmnr = 1, ds_query_adapter_name = 0,
     ds_profile_name_server = None\<rparr>"

definition sample_ip :: ip_env where
  "sample_ip = \<lparr>ip_status = (\<lambda>t op. NO_ERROR), ip_size = (\<lambda>t. 0),
     ip_adapters = (\<lambda>t. [\<lparr>ad_luid = 3, ad_friendly_name = Some [76]\<rparr>,
       \<lparr>ad_luid = 7, ad_friendly_name = Some kOwnedInterfaceName\<rparr>]),
     ip_guid = (\<lambda>luid. Some (replicate 16 (ucast luid))),
     ip_interface = (\<lambda>t luid family. sample_interface_row),
     ip_addresses = (\<lambda>t. [sample_address_row 3, sample_address_row 7]),
     ip_routes = (\<lambda>t. [sample_route_row 7, sample_route_row 3]),
     ip_dns = (\<lambda>t guid flags. sample_dns), ip_address_init = sample_address_row 0, ip_route_init = sample_route_row 0\<rparr>"

lemma sample_rows_valid: "rows_valid sample_ip"
  by (simp add: rows_valid_def sample_ip_def wf_address_record_def wf_route_def address_record_def route_record_def
      sample_address_row_def sample_route_row_def wf_address_def sample_address_def address_bytes_def)

definition sample_snapshot :: NetworkSnapshot where
  "sample_snapshot = \<lparr>ns_adapter_existed = True, ns_adapter_guid = replicate 16 7,
     ns_interfaces = [interface_record AF_INET sample_interface_row, interface_record AF_INET6 sample_interface_row],
     ns_addresses = [address_record (sample_address_row 7)], ns_routes = [route_record (sample_route_row 7)],
     ns_dns = [dns_record False sample_dns, dns_record True sample_dns]\<rparr>"

lemma sample_luids [simp]:
  "ma_luid (sample_address_row luid) = luid" "mr_luid (sample_route_row luid) = luid"
  by (simp_all add: sample_address_row_def sample_route_row_def)

lemma sample_owner: "\<exists>t'. run_state (FindOwnedAdapter sample_ip preferred) t = (Inr (Some \<lparr>oa_luid = 7, oa_guid = replicate 16 7\<rparr>), t')"
  if "preferred = None \<or> preferred = Some (replicate 16 7)"
  using that by (auto simp: FindOwnedAdapter_def run_ip sample_ip_def NO_ERROR_def ERROR_BUFFER_OVERFLOW_def
      owned_match_def kOwnedInterfaceName_def)

lemma sample_adapter_captured:
  "\<exists>t'. run_state (capture_adapter sample_ip \<lparr>oa_luid = 7, oa_guid = replicate 16 7\<rparr>) t = (Inr sample_snapshot, t')"
  by (simp add: capture_adapter_def run_ip CaptureInterface_def interface_entry_def capture_addresses_def
      capture_routes_def capture_table_def collect_rows_exact CaptureDns_def sample_ip_def Let_def kMaximumAddresses_def
      kMaximumRoutes_def sample_snapshot_def interface_record_def dns_record_def wide_copy_def sample_dns_def
      kMaximumDnsTextLength_def)

lemma sample_length: "length (Serialize hex_inet sample_snapshot) \<le> 65536"
  by (simp add: Serialize_def snapshot_lines_def sample_snapshot_def interface_line_def address_line_def route_line_def
      dns_line_def decimal_def flag_def family_text_def kSnapshotMagic_def interface_record_def address_record_def
      route_record_def dns_record_def sample_interface_row_def sample_address_row_def sample_route_row_def sample_dns_def
      wide_copy_def WideToHex_def Let_def AddressToString_def AddressScope_def sample_address_def hex_inet_def
      kMaximumDnsTextLength_def to_string.simps)

lemma sample_capture:
  "\<exists>t'. run_state (Capture sample_ip hex_inet) t = (Inr (Serialize hex_inet sample_snapshot), t')"
proof -
  obtain t1 where 1: "run_state (FindOwnedAdapter sample_ip None) t =
      (Inr (Some \<lparr>oa_luid = 7, oa_guid = replicate 16 7\<rparr>), t1)"
    using sample_owner by blast
  obtain t2 where 2: "run_state (FindOwnedAdapter sample_ip None) t1 =
      (Inr (Some \<lparr>oa_luid = 7, oa_guid = replicate 16 7\<rparr>), t2)"
    using sample_owner by blast
  obtain t3 where 3: "run_state (capture_adapter sample_ip \<lparr>oa_luid = 7, oa_guid = replicate 16 7\<rparr>) t2 =
      (Inr sample_snapshot, t3)"
    using sample_adapter_captured by blast
  have "Serialize hex_inet sample_snapshot \<noteq> []" by (simp add: Serialize_def snapshot_lines_def)
  then show ?thesis using sample_length
    by (simp add: Capture_def CaptureSnapshot_def run_bind run_return 1 2 3)
qed

lemma sample_parsed: "ParseSnapshot hex_inet (Serialize hex_inet sample_snapshot) = Some sample_snapshot"
proof (rule ParseSnapshot_Serialize [OF hex_inet_exact])
  show "wf_snapshot sample_snapshot"
    by (simp add: wf_snapshot_def sample_snapshot_def wf_interface_def interface_record_def wf_address_record_def
        address_record_def sample_address_row_def wf_address_def sample_address_def address_bytes_def wf_route_def
        route_record_def sample_route_row_def wf_dns_def dns_record_def sample_dns_def wide_copy_def dns_text_def
        kMaximumDnsTextLength_def kMaximumAddresses_def kMaximumRoutes_def)
qed

lemma sample_restore:
  "\<exists>t'. run_state (Restore sample_ip hex_inet (Serialize hex_inet sample_snapshot)) t = ([], t')"
proof -
  have p: "preferred_guid sample_snapshot = Some (replicate 16 7)"
    by (simp add: preferred_guid_def sample_snapshot_def)
  obtain t1 where 1: "run_state (FindOwnedAdapter sample_ip (preferred_guid sample_snapshot)) t =
      (Inr (Some \<lparr>oa_luid = 7, oa_guid = replicate 16 7\<rparr>), t1)"
    using sample_owner unfolding p by blast
  have "\<exists>t'. run_state (restore_owner sample_ip \<lparr>oa_luid = 7, oa_guid = replicate 16 7\<rparr> sample_snapshot) t1 = ([], t')"
    by (simp add: restore_owner_def clear_adapter_def and_then_def DeleteOwnedRoutes_def DeleteOwnedAddresses_def
        ClearDns_def ApplyDns_def delete_row_def create_row_def restore_records_def RestoreInterface_def
        interface_entry_def RestoreAddress_def RestoreRoute_def run_ip sample_ip_def sample_snapshot_def)
  then show ?thesis by (simp add: Restore_cases sample_parsed 1)
qed

theorem capture_restorable_witness:
  "\<exists>serialized t' s t1. run_state (Capture sample_ip hex_inet) [] = (Inr serialized, t') \<and>
     length serialized \<le> kMaximumNetworkSnapshotSize \<and> grew [] [] t' \<and> ParseSnapshot hex_inet serialized = Some s \<and>
     (\<exists>a. owners sample_ip None (ip_adapters sample_ip t1) = [a] \<and> captures sample_ip a s)"
proof -
  obtain t' where run: "run_state (Capture sample_ip hex_inet) [] = (Inr (Serialize hex_inet sample_snapshot), t')"
    using sample_capture by blast
  have "owners sample_ip None (ip_adapters sample_ip t1) \<noteq> []" for t1
    by (simp add: owners_Cons sample_ip_def owned_match_def)
  with capture_restorable [OF hex_inet_exact sample_rows_valid run] run show ?thesis by blast
qed


end
