(* ===== verification/Spec2Isabelle.thy ===== *)
theory Spec2Isabelle
  imports Body_Laws Bundle_Laws Core_Fence Probe_Target Runtime_Handoff Runtime_Liveness Runtime_Phases Dispatcher_Laws
    Journal_Laws Server_Answers Network_Captured
begin

text \<open>
  A verification development of the POKROV Windows service, the privileged C++ process under
  \<^verbatim>\<open>src/apps/windows_shell/windows/service\<close> that runs the VPN core for the desktop application.
  All file names below are relative to that directory.

  \<^bold>\<open>The program.\<close>  A client speaks to the service over a named pipe in frames
  (\<^verbatim>\<open>service_protocol.cpp\<close>).  The pipe server (\<^verbatim>\<open>service_server.cpp\<close>) greets it, negotiates
  capabilities, admits or refuses its requests, and records what happens in a journal of events
  (\<^verbatim>\<open>service_events.cpp\<close>).  The dispatcher (\<^verbatim>\<open>service_dispatcher.cpp\<close>) serves many sessions at once
  and owns the runtime host (\<^verbatim>\<open>service_runtime.cpp\<close>), which stages profiles, starts and stops the Core
  library, proves that traffic leaves through it, and undoes everything when something fails.
  Before Core touches the network the host writes a journal (\<^verbatim>\<open>service_recovery.cpp\<close>), so that a
  service that was killed undoes the change when it starts again; the network it captures for that,
  and restores, is the adapter it owns (\<^verbatim>\<open>service_network_state.cpp\<close>).  While one profile replaces
  another, a transition guard (\<^verbatim>\<open>service_transition_guard.cpp\<close>) keeps a set of filters of the Windows
  filtering platform in place that lets only the service out.  Some traffic may be handed to a local
  DPI executor (\<^verbatim>\<open>service_local_dpi.cpp\<close>), a child process in a job object; what it and Core report
  comes as JSON receipts (\<^verbatim>\<open>service_local_dpi_json.cpp\<close>).  Deadlines are kept on a boot clock
  (\<^verbatim>\<open>service_boot_clock.cpp\<close>).

  \<^bold>\<open>The model.\<close>  Data are records and datatypes with the names of the source, strings are lists of
  characters, machine integers are words.  Stateful code is a state transformer on the record of its
  component and a trace (\<^verbatim>\<open>World.thy\<close>): every call to the operating system, to Core, to a probe, to the
  filtering platform or to the event sink is an \<open>io\<close> operation, which an arbitrary environment
  answers from the history and which is recorded with its answer, newest first.  The disk and
  the filters in place are functions of the trace, so that a theorem about every suffix of a trace is a
  theorem about every moment at which the process may be killed.  Nothing is assumed of the
  environment, apart from the hypotheses of the liveness properties, which say that the steps of a
  connect or of a disconnect succeed, and of the capture of the network, which say that the IP helper
  returns well-formed rows and that the text of an address is read back; a witness gives an
  environment that satisfies them.

  \<^bold>\<open>The theories\<close>, in the order of the code they model:

  \<^item> \<^verbatim>\<open>Prelude\<close>: strings, words, hexadecimal and decimal text, and the collections of simplification
    rules that the codecs share.  \<^verbatim>\<open>World\<close> and \<^verbatim>\<open>Effects\<close>: the boundary, Hoare triples on state
    transformers (\<open>triple\<close>, \<open>keeps\<close>), which operations an action may perform (\<open>emits\<close>) and which part
    of its state it leaves alone (\<open>frames\<close>).
  \<^item> \<^verbatim>\<open>Protocol_Types\<close>, \<^verbatim>\<open>Protocol\<close>, \<^verbatim>\<open>Profile_Identity\<close>, \<^verbatim>\<open>Service_Events\<close>: the wire vocabulary, the frame
    codec and the codecs of the bodies; \<^verbatim>\<open>Frame_Laws\<close>, \<^verbatim>\<open>Body_Laws\<close>: they accept exactly what the
    encoders produce, frames are cut out of a stream independently of its chunks, and an observation
    request cannot inject a header.
  \<^item> \<^verbatim>\<open>Recovery\<close>, \<^verbatim>\<open>Recovery_Laws\<close>: the journal file, its stages and its atomic replacement; crash safety of
    the protocol of stages, through a locale of the journal that the model interprets.
  \<^item> \<^verbatim>\<open>Network_State\<close>: the snapshot of an adapter, its text and the parser; \<^verbatim>\<open>Network_Text\<close>: the parser inverts
    the printer.  \<^verbatim>\<open>Network_Backend\<close>: the capture and the restoration through the IP helper, on a trace of
    its calls; to the journal they are the operations \<open>CaptureNetwork\<close> and \<open>RestoreNetwork\<close> of \<^verbatim>\<open>World.thy\<close>.
    \<^verbatim>\<open>Network_Laws\<close>, \<^verbatim>\<open>Network_Restored\<close>, \<^verbatim>\<open>Network_Captured\<close>: which adapter is touched (\<open>issues\<close>), which changes
    are made in which order (\<open>grew\<close>), and what a snapshot holds.
  \<^item> \<^verbatim>\<open>Wfp_Types\<close>, \<^verbatim>\<open>Transition_Guard\<close>, \<^verbatim>\<open>Guard_Laws\<close>: the filters, their transactional installation and
    removal, what the platform blocks when they are in place, and that a start or a release that
    reports success was read back.
  \<^item> \<^verbatim>\<open>Profile_Bundle\<close>, \<^verbatim>\<open>Bundle_Laws\<close>: the payload of a staged profile with its rule sets.
    \<^verbatim>\<open>Core_Fence\<close>: the descriptors of the Core library and the fence that orders its events.
  \<^item> \<^verbatim>\<open>Local_Dpi\<close>, \<^verbatim>\<open>Local_Dpi_Executor\<close>, \<^verbatim>\<open>Local_Dpi_Json\<close>, \<^verbatim>\<open>Json\<close>, \<^verbatim>\<open>Local_Dpi_Laws\<close>, \<^verbatim>\<open>Probe_Target\<close>: the
    executor, its strategies and hints, and the readers of the receipts.
  \<^item> \<^verbatim>\<open>Boot_Clock\<close>; \<^verbatim>\<open>Runtime_Host\<close> (state, files, snapshots, rollback), \<^verbatim>\<open>Runtime_Connect\<close> (initialization,
    staging, proof of egress), \<^verbatim>\<open>Runtime_Lifecycle\<close> (connect in its phases, disconnect, protected
    replacement), \<^verbatim>\<open>Runtime_Control\<close> (leases, Smart Access, catalog, maintenance): every public operation
    of \<^verbatim>\<open>RuntimeHost\<close>.
  \<^item> \<^verbatim>\<open>Runtime_Effects\<close>, \<^verbatim>\<open>Runtime_Journal\<close> (the locale \<open>host_invariant\<close> of what every call keeps, and crash
    safety as its instance), \<^verbatim>\<open>Runtime_Verified\<close> (what the host may claim about the connection),
    \<^verbatim>\<open>Runtime_Handoff\<close> (a protected replacement fails closed), \<^verbatim>\<open>Runtime_Disconnect\<close> and \<^verbatim>\<open>Runtime_Liveness\<close>
    (a connect and a disconnect reach their goal), \<^verbatim>\<open>Runtime_Phases\<close> (the abstract lifecycle machine
    \<open>phase_step\<close>, which every call of the host refines, through locales of the sets of phases that a
    group of operations does not leave).
  \<^item> \<^verbatim>\<open>Dispatcher\<close>: the sessions.  A critical section of \<^verbatim>\<open>execution_lock_\<close> is one action; at each point
    at which its holder gives up \<^verbatim>\<open>state_lock_\<close> a schedule, which is arbitrary, says which sections of
    the other sessions ran (\<open>others\<close>).  Shared \<^verbatim>\<open>ActiveConnect\<close> objects live in a store and are named by
    their index.  \<^verbatim>\<open>Dispatcher_Host\<close> lifts every invariant of the host to every interleaving (locale
    \<open>session_invariant\<close>), \<^verbatim>\<open>Dispatcher_Order\<close> does the same for the fields of the dispatcher (locale
    \<open>dispatcher_order\<close>, with three instances), \<^verbatim>\<open>Dispatcher_Laws\<close> states what the sessions are promised.
  \<^item> \<^verbatim>\<open>Pipe_Io\<close>: overlapped transfers as a loop over a script of answers, with its termination proof; a
    frame survives every way of cutting it into transfers.  \<^verbatim>\<open>Service_Journal\<close>, \<^verbatim>\<open>Journal_Laws\<close>: the lines of
    the events, the bounded queue, the writer and its rotation.
  \<^item> \<^verbatim>\<open>Pipe_Server\<close>: the hello, the admission of requests (\<open>admit_request\<close>), the answers for retained
    clients, the threads of the clients and the main loop.  A step of the server is one iteration of
    one of them, and \<open>served\<close> is what a started server can reach.  \<^verbatim>\<open>Server_Laws\<close> lifts the invariants of
    the host to the server (in the context of \<open>session_invariant\<close>) and proves the admission and the
    sessions sound, \<^verbatim>\<open>Server_Answers\<close> what a retained client is shown.

  \<^bold>\<open>What the theorems show\<close>, from the whole to the parts: crash safety of every run of the server,
  of every interleaving of sessions, of every sequence of calls and of the journal alone; what a validated egress and a
  running phase mean; that a replacement, a cancellation and a disconnect that report success have
  done what they say; that the guard blocks everything but the service and that its success
  reports are read back; that a bound owner excludes others and that its first interruption is final;
  that no request is executed twice and each was admitted
  exactly when its token, deadline, nonce and capabilities allow it; that the codecs are exact, also
  over a pipe that cuts frames; that a captured network can be restored, and that a restoration
  touches nothing but the adapter of the service; and bounds on clients, hints, probes and the journal of events.

  \<^bold>\<open>Bounds and fuel.\<close>  The recursions follow lists, or the finite input; there is no fuel.  The
  unbounded loops, those of the watcher, of the threads of the server and of the writer of events, are
  modelled by their rounds, and the theorems hold of every number of them.

  \<^bold>\<open>Abstractions.\<close>  A section of the state lock, and a refresh of the owner of a connection, is atomic.
  A callback that the host calls is answered by the environment and not computed from the operation;
  what it does to the operation is one of the sections of the schedule.  Both allow more behaviours
  than the code.  A request that finds the execution lock taken is a section of the schedule, whatever it
  asks; the server counts a request as executed when it holds the lock.  Closing of handles and notification of the condition variable are left out.

  \<^bold>\<open>Not modelled.\<close>  \<^verbatim>\<open>InstalledCoreRuntime\<close> forwards to a library that is not part of the repository.
  The pipe client, the service control glue, the checks of a caller by the operating system and the
  desktop runner are input and output.  The network observer, the egress and DPI probes and the crash
  profile are operations of the environment here.
\<close>

end
